(* ===== verification/JS_Prelude.thy ===== *)
theory JS_Prelude
  imports Complex_Main "HOL-Library.Char_ord"
begin

text \<open>
  What the components share: the values and errors of JavaScript that cross a component's border,
  the effect type of an \<open>async\<close> function, the few functions of the JavaScript standard library
  the sources call, and the theorem collections used throughout.

  Numbers. Timestamps, coins and counters are integers in the source and \<open>int\<close> (or \<open>nat\<close>) here.
  Fractions (token counts, reward weights) are exact rationals: the rounding of IEEE doubles is not
  modelled. Strings are lists of characters; one \<open>char\<close> stands for one UTF-16 unit.
  Log lines (\<open>console.log\<close>, \<open>console.warn\<close>, \<open>console.error\<close>) have no effect in the model.
\<close>

section \<open>Theorem collections\<close>

named_theorems act_simps \<open>unfolding of the effect combinators\<close>
named_theorems js_simps \<open>evaluation of the JavaScript library functions\<close>

section \<open>Errors and effects\<close>

text \<open>The values of JavaScript that cross a component's border.\<close>

datatype jsval =
    Undefined | Null | JBool bool | Num rat | NonFinite
  | Str string | Arr "jsval list" | Obj "(string \<times> jsval) list" | Function

text \<open>An \<open>Error\<close> object: its class, message, and the \<open>code\<close>, \<open>status\<close> and \<open>details\<close> the source attaches.\<close>

record exn =
  e_name :: string
  e_message :: string
  e_code :: "string option"
  e_status :: "int option"
  e_details :: jsval

definition Error :: "string \<Rightarrow> exn" where
  "Error m = \<lparr>e_name = ''Error'', e_message = m, e_code = None, e_status = None, e_details = Undefined\<rparr>"

lemma Error_sel [simp]:
  "e_name (Error m) = ''Error''" "e_message (Error m) = m"
  "e_code (Error m) = None" "e_status (Error m) = None" "e_details (Error m) = Undefined"
  by (simp_all add: Error_def)

text \<open>
  An \<open>async\<close> function over a world \<open>'w\<close> (everything it can read or change): it settles with an
  error (\<open>Inl\<close>, a rejected promise) or a value (\<open>Inr\<close>) and leaves a new world.
\<close>

type_synonym ('w, 'a) act = "'w \<Rightarrow> (exn + 'a) \<times> 'w"

definition ret :: "'a \<Rightarrow> ('w, 'a) act" where
  "ret x = (\<lambda>w. (Inr x, w))"

definition throw :: "exn \<Rightarrow> ('w, 'a) act" where
  "throw e = (\<lambda>w. (Inl e, w))"

definition bindA :: "('w, 'a) act \<Rightarrow> ('a \<Rightarrow> ('w, 'b) act) \<Rightarrow> ('w, 'b) act" where
  "bindA m f = (\<lambda>w. case m w of (Inl e, w1) \<Rightarrow> (Inl e, w1) | (Inr x, w1) \<Rightarrow> f x w1)"

definition thenA :: "('w, 'a) act \<Rightarrow> ('w, 'b) act \<Rightarrow> ('w, 'b) act" where
  "thenA m n = bindA m (\<lambda>_. n)"

text \<open>\<open>try { m } catch (e) { h e }\<close>\<close>

definition catchA :: "('w, 'a) act \<Rightarrow> (exn \<Rightarrow> ('w, 'a) act) \<Rightarrow> ('w, 'a) act" where
  "catchA m h = (\<lambda>w. case m w of (Inl e, w1) \<Rightarrow> h e w1 | (Inr x, w1) \<Rightarrow> (Inr x, w1))"

text \<open>\<open>m.catch(() => {})\<close>, and a \<open>try\<close> block whose \<open>catch\<close> only logs.\<close>

definition quietly :: "('w, 'a) act \<Rightarrow> ('w, unit) act" where
  "quietly m = catchA (thenA m (ret ())) (\<lambda>_. ret ())"

definition whenA :: "bool \<Rightarrow> ('w, unit) act \<Rightarrow> ('w, unit) act" where
  "whenA b m = (if b then m else ret ())"

text \<open>\<open>for (const x of xs) await f(x)\<close>\<close>

fun forA :: "('a \<Rightarrow> ('w, unit) act) \<Rightarrow> 'a list \<Rightarrow> ('w, unit) act" where
  "forA f [] = ret ()"
| "forA f (x # xs) = thenA (f x) (forA f xs)"

text \<open>Reading a component of the world.\<close>

definition askA :: "('w \<Rightarrow> 'a) \<Rightarrow> ('w, 'a) act" where
  "askA g = (\<lambda>w. (Inr (g w), w))"

lemma ret_run [act_simps]: "ret x w = (Inr x, w)"
  by (simp add: ret_def)

lemma throw_run [act_simps]: "throw e w = (Inl e, w)"
  by (simp add: throw_def)

lemma askA_run [act_simps]: "askA g w = (Inr (g w), w)"
  by (simp add: askA_def)

lemma bindA_run [act_simps]:
  "bindA m f w = (case m w of (Inl e, w1) \<Rightarrow> (Inl e, w1) | (Inr x, w1) \<Rightarrow> f x w1)"
  by (simp add: bindA_def)

lemma thenA_run [act_simps]:
  "thenA m n w = (case m w of (Inl e, w1) \<Rightarrow> (Inl e, w1) | (Inr x, w1) \<Rightarrow> n w1)"
  by (simp add: thenA_def bindA_def)

lemma catchA_run [act_simps]:
  "catchA m h w = (case m w of (Inl e, w1) \<Rightarrow> h e w1 | (Inr x, w1) \<Rightarrow> (Inr x, w1))"
  by (simp add: catchA_def)

lemma quietly_run [act_simps]: "quietly m w = (Inr (), snd (m w))"
  by (simp add: quietly_def catchA_def thenA_def bindA_def ret_def split: prod.split sum.split)

lemma whenA_run [act_simps]: "whenA b m w = (if b then m w else (Inr (), w))"
  by (simp add: whenA_def ret_def)

lemma bindA_assoc: "bindA (bindA m f) g = bindA m (\<lambda>x. bindA (f x) g)"
  by (rule ext) (simp add: bindA_def split: prod.split sum.split)

text \<open>A sequence that succeeds has succeeded step by step.\<close>

lemma bindA_Inr:
  "bindA m f w = (Inr v, w1) \<longleftrightarrow> (\<exists>x w0. m w = (Inr x, w0) \<and> f x w0 = (Inr v, w1))"
  by (auto simp: bindA_def split: prod.splits sum.splits)

lemma thenA_Inr:
  "thenA m n w = (Inr v, w1) \<longleftrightarrow> (\<exists>x w0. m w = (Inr x, w0) \<and> n w0 = (Inr v, w1))"
  by (simp add: thenA_def bindA_Inr)

lemma ret_Inr: "ret x w = (Inr v, w1) \<longleftrightarrow> v = x \<and> w1 = w"
  by (auto simp: ret_def)

lemmas act_Inr = bindA_Inr thenA_Inr ret_Inr

text \<open>A step that cannot reject: the shape of every helper whose body is one \<open>try\<close>.\<close>

definition never_throws :: "('w, 'a) act \<Rightarrow> bool" where
  "never_throws m \<longleftrightarrow> (\<forall>w. \<exists>x. fst (m w) = Inr x)"

lemma never_throwsE:
  assumes "never_throws m"
  obtains x w1 where "m w = (Inr x, w1)"
  using assms that by (cases "m w") (force simp: never_throws_def dest: spec [of _ w])

lemma never_throws_quietly [intro, simp]: "never_throws (quietly m)"
  by (simp add: never_throws_def act_simps)

lemma never_throws_ret [intro, simp]: "never_throws (ret x)"
  by (simp add: never_throws_def act_simps)

lemma never_throws_askA [intro, simp]: "never_throws (askA g)"
  by (simp add: never_throws_def act_simps)

lemma never_throws_bindA [intro]:
  assumes "never_throws m" and "\<And>x. never_throws (f x)"
  shows "never_throws (bindA m f)"
  unfolding never_throws_def
proof
  fix w
  obtain x w1 where m: "m w = (Inr x, w1)"
    using assms(1) by (metis never_throws_def prod.collapse)
  show "\<exists>y. fst (bindA m f w) = Inr y"
    using assms(2) [of x] m by (auto simp: never_throws_def act_simps)
qed

lemma never_throws_thenA [intro]:
  "never_throws m \<Longrightarrow> never_throws n \<Longrightarrow> never_throws (thenA m n)"
  unfolding thenA_def by (rule never_throws_bindA)

lemma never_throws_whenA [intro]: "never_throws m \<Longrightarrow> never_throws (whenA b m)"
  by (simp add: never_throws_def act_simps)

lemma never_throws_catchA [intro]:
  "(\<And>e. never_throws (h e)) \<Longrightarrow> never_throws (catchA m h)"
  by (auto simp: never_throws_def act_simps split: prod.split sum.split)

lemma never_throws_if [intro]:
  "never_throws m \<Longrightarrow> never_throws n \<Longrightarrow> never_throws (if b then m else n)"
  by simp

lemma never_throws_forA [intro]: "(\<And>x. never_throws (f x)) \<Longrightarrow> never_throws (forA f xs)"
  by (induction xs) auto

text \<open>A step that keeps \<open>Q\<close>, whatever it answers: frames are stated of the primitives and carried to the functions.\<close>

named_theorems keeps_intros \<open>steps that keep a property of the world\<close>

definition keeps :: "('w \<Rightarrow> bool) \<Rightarrow> ('w, 'a) act \<Rightarrow> bool" where
  "keeps Q m \<longleftrightarrow> (\<forall>w. Q w \<longrightarrow> Q (snd (m w)))"

lemma keepsD: "keeps Q m \<Longrightarrow> m w = (r, w1) \<Longrightarrow> Q w \<Longrightarrow> Q w1"
  by (auto simp: keeps_def dest: spec [of _ w])

lemma keeps_ret [keeps_intros]: "keeps Q (ret x)"
  by (simp add: keeps_def act_simps)

lemma keeps_throw [keeps_intros]: "keeps Q (throw e)"
  by (simp add: keeps_def act_simps)

lemma keeps_askA [keeps_intros]: "keeps Q (askA g)"
  by (simp add: keeps_def act_simps)

lemma keeps_bindA [keeps_intros]:
  assumes "keeps Q m" and "\<And>x. keeps Q (f x)"
  shows "keeps Q (bindA m f)"
proof (unfold keeps_def, intro allI impI)
  fix w
  assume q: "Q w"
  obtain r w1 where m: "m w = (r, w1)"
    by (rule prod.exhaust)
  then have "Q w1"
    by (rule keepsD [OF assms(1) _ q])
  then show "Q (snd (bindA m f w))"
    using assms(2) by (cases r) (simp_all add: bindA_run m keeps_def)
qed

lemma keeps_thenA [keeps_intros]: "keeps Q m \<Longrightarrow> keeps Q n \<Longrightarrow> keeps Q (thenA m n)"
  unfolding thenA_def by (intro keeps_bindA)

lemma keeps_catchA [keeps_intros]:
  assumes "keeps Q m" and "\<And>e. keeps Q (h e)"
  shows "keeps Q (catchA m h)"
proof (unfold keeps_def, intro allI impI)
  fix w
  assume q: "Q w"
  obtain r w1 where m: "m w = (r, w1)"
    by (rule prod.exhaust)
  then have "Q w1"
    by (rule keepsD [OF assms(1) _ q])
  then show "Q (snd (catchA m h w))"
    using assms(2) by (cases r) (simp_all add: catchA_run m keeps_def)
qed

lemma keeps_quietly [keeps_intros]: "keeps Q m \<Longrightarrow> keeps Q (quietly m)"
  by (simp add: keeps_def quietly_run)

lemma keeps_whenA [keeps_intros]: "keeps Q m \<Longrightarrow> keeps Q (whenA b m)"
  by (simp add: keeps_def whenA_run)

lemma keeps_forA [keeps_intros]: "(\<And>x. keeps Q (f x)) \<Longrightarrow> keeps Q (forA f xs)"
  by (induction xs) (simp_all add: keeps_ret keeps_thenA)

lemma keeps_if [keeps_intros]: "keeps Q m \<Longrightarrow> keeps Q n \<Longrightarrow> keeps Q (if b then m else n)"
  by simp

lemma keeps_option [keeps_intros]: "keeps Q m \<Longrightarrow> (\<And>x. keeps Q (f x)) \<Longrightarrow> keeps Q (case v of None \<Rightarrow> m | Some x \<Rightarrow> f x)"
  by (simp split: option.split)

lemma keeps_sum [keeps_intros]: "(\<And>x. keeps Q (f x)) \<Longrightarrow> (\<And>x. keeps Q (g x)) \<Longrightarrow> keeps Q (case v of Inl x \<Rightarrow> f x | Inr x \<Rightarrow> g x)"
  by (simp split: sum.split)

lemma keeps_prod [keeps_intros]: "(\<And>x y. keeps Q (f x y)) \<Longrightarrow> keeps Q (case v of (x, y) \<Rightarrow> f x y)"
  by (simp split: prod.split)

lemma keeps_let [keeps_intros]: "keeps Q (f v) \<Longrightarrow> keeps Q (let x = v in f x)"
  by simp

text \<open>What the first step has established, the rest keeps.\<close>

lemma keeps_after_bind:
  "m w = (r0, w0) \<Longrightarrow> Q w0 \<Longrightarrow> bindA m f w = (r, w1) \<Longrightarrow> (\<And>x. keeps Q (f x)) \<Longrightarrow> Q w1"
  by (cases r0) (auto simp: bindA_run dest: keepsD)

lemma keeps_after_then:
  "m w = (r0, w0) \<Longrightarrow> Q w0 \<Longrightarrow> thenA m n w = (r, w1) \<Longrightarrow> keeps Q n \<Longrightarrow> Q w1"
  by (cases r0) (auto simp: thenA_run dest: keepsD)

lemma keeps_after_catch:
  "m w = (r0, w0) \<Longrightarrow> Q w0 \<Longrightarrow> catchA m h w = (r, w1) \<Longrightarrow> (\<And>e. keeps Q (h e)) \<Longrightarrow> Q w1"
  by (cases r0) (auto simp: catchA_run dest: keepsD)

section \<open>The JavaScript library functions the sources use\<close>

text \<open>\<open>Math.round\<close> rounds halves up; \<open>Math.floor\<close> and \<open>Math.ceil\<close> are HOL's.\<close>

definition math_round :: "rat \<Rightarrow> int" where
  "math_round x = \<lfloor>x + 1 / 2\<rfloor>"

lemma math_round_of_int [simp]: "math_round (of_int n) = n"
  by (simp add: math_round_def floor_eq_iff)

lemma floor_rat_numeral [simp]: "\<lfloor>numeral a / numeral b :: rat\<rfloor> = numeral a div numeral b"
  using floor_divide_of_int_eq [of "numeral a" "numeral b", where ?'a = rat] by simp

lemma math_round_mono: "x \<le> y \<Longrightarrow> math_round x \<le> math_round y"
  by (simp add: math_round_def floor_mono)

lemma math_round_nonneg: "0 \<le> x \<Longrightarrow> 0 \<le> math_round x"
  by (simp add: math_round_def)

definition js_space :: "char \<Rightarrow> bool" where
  "js_space c \<longleftrightarrow> of_char c \<in> {9, 10, 11, 12, 13, 32, 160 :: nat}"

definition js_trim :: "string \<Rightarrow> string" where
  "js_trim s = rev (dropWhile js_space (rev (dropWhile js_space s)))"

definition lower_char :: "char \<Rightarrow> char" where
  "lower_char c =
     (let n = (of_char c :: nat) in if 65 \<le> n \<and> n \<le> 90 then char_of (n + 32) else c)"

definition toLowerCase :: "string \<Rightarrow> string" where
  "toLowerCase s = map lower_char s"

lemma length_toLowerCase [simp]: "length (toLowerCase s) = length s"
  by (simp add: toLowerCase_def)

definition startsWith :: "string \<Rightarrow> string \<Rightarrow> bool" where
  "startsWith s p \<longleftrightarrow> take (length p) s = p"

definition endsWith :: "string \<Rightarrow> string \<Rightarrow> bool" where
  "endsWith s p \<longleftrightarrow> length p \<le> length s \<and> drop (length s - length p) s = p"

lemma startsWith_iff: "startsWith s p \<longleftrightarrow> (\<exists>t. s = p @ t)"
  unfolding startsWith_def by (metis append_eq_conv_conj append_take_drop_id)

lemma endsWith_iff: "endsWith s p \<longleftrightarrow> (\<exists>t. s = t @ p)"
  unfolding endsWith_def by (metis append_take_drop_id diff_add_inverse2 le_add2 length_append append_eq_conv_conj)

text \<open>\<open>String(n)\<close> of an integer, decimal.\<close>

fun digits_of :: "nat \<Rightarrow> string" where
  "digits_of n =
     (if n < 10 then [char_of (48 + n)] else digits_of (n div 10) @ [char_of (48 + n mod 10)])"

declare digits_of.simps [simp del]

definition int_str :: "int \<Rightarrow> string" where
  "int_str i = (if i < 0 then CHR ''-'' # digits_of (nat (- i)) else digits_of (nat i))"

text \<open>\<open>Number(s)\<close> of a string of decimal digits with an optional sign; \<open>None\<close> is \<open>NaN\<close>.\<close>

definition digit_val :: "char \<Rightarrow> nat option" where
  "digit_val c = (let n = of_char c in if 48 \<le> n \<and> n \<le> 57 then Some (n - 48) else None)"

fun digits_val :: "nat \<Rightarrow> string \<Rightarrow> nat option" where
  "digits_val acc [] = Some acc"
| "digits_val acc (c # cs) =
     (case digit_val c of None \<Rightarrow> None | Some d \<Rightarrow> digits_val (10 * acc + d) cs)"

definition int_of_str :: "string \<Rightarrow> int option" where
  "int_of_str s =
     (case s of
        [] \<Rightarrow> Some 0
      | c # cs \<Rightarrow>
          if c = CHR ''-'' then (if cs = [] then None else map_option (\<lambda>n. - int n) (digits_val 0 cs))
          else map_option int (digits_val 0 s))"

lemma digit_val_char_of: "d < 10 \<Longrightarrow> digit_val (char_of (48 + d)) = Some d"
  by (simp add: digit_val_def Let_def)

lemma digits_val_append:
  "digits_val a (xs @ ys) = Option.bind (digits_val a xs) (\<lambda>b. digits_val b ys)"
  by (induction xs arbitrary: a) (auto split: option.split)

lemma digits_val_digits_of: "digits_val 0 (digits_of n) = Some n"
proof (induction n rule: digits_of.induct)
  case (1 n)
  show ?case
  proof (cases "n < 10")
    case True
    then show ?thesis
      using digit_val_char_of [of n] by (subst digits_of.simps) simp
  next
    case False
    then have IH: "digits_val 0 (digits_of (n div 10)) = Some (n div 10)"
      using 1 by simp
    have "digit_val (char_of (48 + n mod 10)) = Some (n mod 10)"
      by (rule digit_val_char_of) simp
    with False IH show ?thesis
      by (subst digits_of.simps) (simp add: digits_val_append)
  qed
qed

lemma digits_of_nonempty: "digits_of n \<noteq> []"
  by (subst digits_of.simps) simp

lemma digits_of_no_minus: "hd (digits_of n) \<noteq> CHR ''-''"
proof (induction n rule: digits_of.induct)
  case (1 n)
  show ?case
  proof (cases "n < 10")
    case True
    have "(of_char (char_of (48 + n) :: char) :: nat) = 48 + n"
      using True by simp
    moreover have "(of_char CHR ''-'' :: nat) = 45" by simp
    ultimately have "char_of (48 + n) \<noteq> CHR ''-''" by fastforce
    then show ?thesis using True by (subst digits_of.simps) simp
  next
    case False
    with 1 show ?thesis
      by (subst digits_of.simps) (simp add: digits_of_nonempty)
  qed
qed

text \<open>Printing an integer and reading it back with \<open>Number\<close>.\<close>

lemma int_of_str_int_str [simp]: "int_of_str (int_str i) = Some i"
proof (cases "i < 0")
  case True
  then show ?thesis
    by (simp add: int_of_str_def int_str_def digits_of_nonempty digits_val_digits_of)
next
  case False
  obtain c cs where d: "digits_of (nat i) = c # cs"
    using digits_of_nonempty by (metis neq_Nil_conv)
  have "c \<noteq> CHR ''-''" using digits_of_no_minus [of "nat i"] d by simp
  moreover have "digits_val 0 (c # cs) = Some (nat i)"
    using digits_val_digits_of [of "nat i"] d by simp
  ultimately show ?thesis
    using False d by (simp add: int_of_str_def int_str_def)
qed

text \<open>Truthiness of an optional string: \<open>null\<close>, \<open>undefined\<close> and the empty string are falsy.\<close>

definition truthy_str :: "string option \<Rightarrow> bool" where
  "truthy_str v \<longleftrightarrow> (case v of None \<Rightarrow> False | Some s \<Rightarrow> s \<noteq> [])"

text \<open>\<open>a || b\<close> on optional strings.\<close>

definition str_or :: "string option \<Rightarrow> string \<Rightarrow> string" where
  "str_or v d = (if truthy_str v then the v else d)"

lemma str_or_simps [js_simps]:
  "str_or None d = d" "str_or (Some s) d = (if s = [] then d else s)"
  by (simp_all add: str_or_def truthy_str_def)

section \<open>JavaScript values\<close>

definition isPlainObject :: "jsval \<Rightarrow> bool" where
  "isPlainObject v = (case v of Obj _ \<Rightarrow> True | _ \<Rightarrow> False)"

text \<open>\<open>payload[field]\<close> of a plain object.\<close>

definition get_field :: "jsval \<Rightarrow> string \<Rightarrow> jsval" where
  "get_field v f =
     (case v of Obj kvs \<Rightarrow> (case map_of kvs f of None \<Rightarrow> Undefined | Some x \<Rightarrow> x) | _ \<Rightarrow> Undefined)"

text \<open>\<open>{ ...a, ...b }\<close>: the keys of \<open>b\<close> win.\<close>

definition obj_spread :: "(string \<times> jsval) list \<Rightarrow> (string \<times> jsval) list \<Rightarrow> (string \<times> jsval) list" where
  "obj_spread a b =
     map (\<lambda>(k, v). (k, case map_of b k of None \<Rightarrow> v | Some v' \<Rightarrow> v')) a @
     filter (\<lambda>(k, v). k \<notin> fst ` set a) b"

lemma map_of_obj_spread:
  "map_of (obj_spread a b) f = (case map_of b f of Some x \<Rightarrow> Some x | None \<Rightarrow> map_of a f)"
proof -
  have l: "map_of (map (\<lambda>(k, v). (k, case map_of b k of None \<Rightarrow> v | Some v' \<Rightarrow> v')) a) f =
      map_option (\<lambda>v. case map_of b f of None \<Rightarrow> v | Some v' \<Rightarrow> v') (map_of a f)"
    by (induction a) (auto split: option.split)
  have r: "map_of (filter (\<lambda>(k, v). k \<notin> A) b) f = (if f \<in> A then None else map_of b f)" for A
    by (induction b) auto
  have n: "map_of a f = None \<longleftrightarrow> f \<notin> fst ` set a"
    by (simp add: map_of_eq_None_iff)
  show ?thesis
    using n by (cases "map_of a f"; cases "map_of b f") (auto simp: obj_spread_def map_add_def l r)
qed

text \<open>
  A text kept in a store or sent over the wire: either plain characters, or the JSON text of a value.
  A JSON text is represented by the value it encodes, so \<open>JSON.parse(JSON.stringify(v))\<close> is \<open>v\<close>
  for the values the sources serialise (finite numbers, strings, booleans, null, arrays, objects).
\<close>

datatype jtext = Raw string | Json jsval

definition JSON_stringify :: "jsval \<Rightarrow> jtext" where
  "JSON_stringify v = Json v"

text \<open>\<open>None\<close>: \<open>JSON.parse\<close> throws a \<open>SyntaxError\<close>. Plain texts the stores hold are decimal integers and words.\<close>

definition JSON_parse :: "jtext \<Rightarrow> jsval option" where
  "JSON_parse t =
     (case t of
        Json v \<Rightarrow> Some v
      | Raw s \<Rightarrow>
          if s = ''null'' then Some Null
          else if s = ''true'' then Some (JBool True)
          else if s = ''false'' then Some (JBool False)
          else if s = [] then None
          else map_option (\<lambda>i. Num (of_int i)) (int_of_str s))"

lemma JSON_roundtrip [simp]: "JSON_parse (JSON_stringify v) = Some v"
  by (simp add: JSON_parse_def JSON_stringify_def)

text \<open>\<open>Number(text)\<close>; \<open>None\<close> is \<open>NaN\<close>. A JSON object or array never reads as a number.\<close>

definition Number_of :: "jtext \<Rightarrow> int option" where
  "Number_of t =
     (case t of
        Raw s \<Rightarrow> int_of_str s
      | Json (Num q) \<Rightarrow> if of_int \<lfloor>q\<rfloor> = q then Some \<lfloor>q\<rfloor> else None
      | Json _ \<Rightarrow> None)"

text \<open>A text read with \<open>get\<close> is falsy when it is missing or empty.\<close>

definition truthy_text :: "jtext option \<Rightarrow> bool" where
  "truthy_text t \<longleftrightarrow> (case t of None \<Rightarrow> False | Some x \<Rightarrow> x \<noteq> Raw [])"

definition truthy :: "jsval \<Rightarrow> bool" where
  "truthy v = (case v of
      Undefined \<Rightarrow> False | Null \<Rightarrow> False | JBool b \<Rightarrow> b | Num q \<Rightarrow> q \<noteq> 0 | NonFinite \<Rightarrow> True
    | Str s \<Rightarrow> s \<noteq> [] | Arr _ \<Rightarrow> True | Obj _ \<Rightarrow> True | Function \<Rightarrow> True)"

text \<open>\<open>String(v)\<close>; the text of a fraction, an array or an object is not needed and left short.\<close>

definition js_String :: "jsval \<Rightarrow> string" where
  "js_String v = (case v of
      Undefined \<Rightarrow> ''undefined'' | Null \<Rightarrow> ''null''
    | JBool b \<Rightarrow> if b then ''true'' else ''false''
    | Num q \<Rightarrow> if of_int \<lfloor>q\<rfloor> = q then int_str \<lfloor>q\<rfloor> else ''fraction''
    | NonFinite \<Rightarrow> ''NaN'' | Str s \<Rightarrow> s | Arr _ \<Rightarrow> ''array'' | Obj _ \<Rightarrow> ''[object Object]''
    | Function \<Rightarrow> ''function'')"

text \<open>\<open>a || b\<close> and \<open>a || null\<close> on optional strings.\<close>

definition or_str :: "string option \<Rightarrow> string option \<Rightarrow> string option" where
  "or_str a b = (if truthy_str a then a else if truthy_str b then b else None)"

lemma or_str_Some: "or_str a b = Some s \<Longrightarrow> s \<noteq> [] \<and> (a = Some s \<or> b = Some s)"
  by (auto simp: or_str_def truthy_str_def split: if_splits option.splits)

section \<open>Operators on values\<close>

text \<open>\<open>a || b\<close> and \<open>a ?? b\<close>\<close>

definition js_or :: "jsval \<Rightarrow> jsval \<Rightarrow> jsval" where
  "js_or a b = (if truthy a then a else b)"

definition is_nullish :: "jsval \<Rightarrow> bool" where
  "is_nullish a \<longleftrightarrow> a = Undefined \<or> a = Null"

definition nullish :: "jsval \<Rightarrow> jsval \<Rightarrow> jsval" where
  "nullish a b = (if is_nullish a then b else a)"

text \<open>\<open>Number(v)\<close>; \<open>None\<close> is \<open>NaN\<close>. Texts are decimal integers; arrays and objects are not numbers.\<close>

definition js_Number :: "jsval \<Rightarrow> rat option" where
  "js_Number v = (case v of
      Null \<Rightarrow> Some 0 | JBool b \<Rightarrow> Some (if b then 1 else 0) | Num q \<Rightarrow> Some q
    | Str s \<Rightarrow> map_option of_int (int_of_str (js_trim s)) | _ \<Rightarrow> None)"

definition is_integer :: "rat \<Rightarrow> bool" where
  "is_integer q \<longleftrightarrow> of_int \<lfloor>q\<rfloor> = q"

lemma is_integer_of_int [simp]: "is_integer (of_int i)"
  by (simp add: is_integer_def)

lemma is_integerE: "is_integer q \<Longrightarrow> (\<And>i. q = of_int i \<Longrightarrow> thesis) \<Longrightarrow> thesis"
  by (metis is_integer_def)

text \<open>\<open>Math.trunc\<close>\<close>

definition math_trunc :: "rat \<Rightarrow> int" where
  "math_trunc q = (if 0 \<le> q then \<lfloor>q\<rfloor> else \<lceil>q\<rceil>)"

definition TypeError :: "string \<Rightarrow> exn" where
  "TypeError m = (Error m) \<lparr>e_name := ''TypeError''\<rparr>"

text \<open>\<open>v.f\<close>: a \<open>TypeError\<close> on \<open>null\<close> and \<open>undefined\<close>, otherwise the field or \<open>undefined\<close>.\<close>

definition dot :: "jsval \<Rightarrow> string \<Rightarrow> ('w, jsval) act" where
  "dot v f = (if is_nullish v then throw (TypeError (''Cannot read properties of '' @ js_String v)) else ret (get_field v f))"

lemma keeps_dot [keeps_intros]: "keeps Q (dot v f)"
  unfolding dot_def by (intro keeps_intros)

text \<open>\<open>BigInt(v)\<close>: an integer, or an error.\<close>

definition bigint :: "jsval \<Rightarrow> ('w, int) act" where
  "bigint v = (case v of
      Num q \<Rightarrow> if is_integer q then ret \<lfloor>q\<rfloor>
        else throw ((Error ''The number cannot be converted to a BigInt'') \<lparr>e_name := ''RangeError''\<rparr>)
    | JBool b \<Rightarrow> ret (if b then 1 else 0)
    | Str s \<Rightarrow> (case int_of_str (js_trim s) of
         Some i \<Rightarrow> ret i
       | None \<Rightarrow> throw ((Error ''Cannot convert to a BigInt'') \<lparr>e_name := ''SyntaxError''\<rparr>))
    | _ \<Rightarrow> throw (TypeError ''Cannot convert to a BigInt''))"

text \<open>A JSON number, and a text or \<open>null\<close>.\<close>

abbreviation NumI :: "int \<Rightarrow> jsval" where "NumI i \<equiv> Num (of_int i)"

definition str_or_null :: "string option \<Rightarrow> jsval" where
  "str_or_null s = (case s of None \<Rightarrow> Null | Some x \<Rightarrow> Str x)"

text \<open>\<open>JSON.parse\<close> as a step.\<close>

definition SyntaxError :: exn where
  "SyntaxError = (Error ''Unexpected token in JSON'') \<lparr>e_name := ''SyntaxError''\<rparr>"

definition parseA :: "jtext \<Rightarrow> ('w, jsval) act" where
  "parseA t = (case JSON_parse t of None \<Rightarrow> throw SyntaxError | Some v \<Rightarrow> ret v)"

lemma keeps_parseA [keeps_intros]: "keeps Q (parseA t)"
  unfolding parseA_def by (intro keeps_intros)

lemma parseA_Json [simp]: "parseA (Json v) = ret v"
  by (simp add: parseA_def JSON_parse_def)

text \<open>\<open>Number\<close> of a decimal text with an optional fraction, such as the counters Redis keeps.\<close>

definition rat_of_str :: "string \<Rightarrow> rat option" where
  "rat_of_str s =
     (let a = takeWhile (\<lambda>c. c \<noteq> CHR ''.'') s; b = tl (dropWhile (\<lambda>c. c \<noteq> CHR ''.'') s) in
      case (int_of_str a, digits_val 0 b) of
        (Some i, Some f) \<Rightarrow> Some (of_int i + (if startsWith a ''-'' then - 1 else 1) * of_nat f / 10 ^ length b)
      | _ \<Rightarrow> None)"

end
