(* ===== verification/Rate_Limit.thy ===== *)
theory Rate_Limit
  imports JS_Prelude
begin

text \<open>
  Token buckets and what is built on them: \<open>utils/tokenBucket.js\<close> (the per-key buckets
  \<open>TokenBuckets\<close>, the single bucket \<open>takeToken\<close>, the mode switch and the window log) and the REST
  limiter \<open>middlewares/restRateLimit.js\<close>. The locale \<open>rate_bucket\<close> states what a bucket promises;
  its main lemma bounds the number of grants in any stretch of time, and both implementations are
  interpretations of it.
\<close>

section \<open>The contract of a token bucket\<close>

text \<open>
  \<open>avail s t\<close> is the number of tokens a request at time \<open>t\<close> would find. Times are milliseconds.
\<close>

fun grants :: "('s \<Rightarrow> int \<Rightarrow> bool \<times> 's) \<Rightarrow> 's \<Rightarrow> int list \<Rightarrow> nat" where
  "grants tk s [] = 0"
| "grants tk s (t # ts) =
     (let (ok, s1) = tk s t in (if ok then 1 else 0) + grants tk s1 ts)"

locale rate_bucket =
  fixes tk :: "'s \<Rightarrow> int \<Rightarrow> bool \<times> 's"
    and avail :: "'s \<Rightarrow> int \<Rightarrow> rat"
    and cap :: rat
    and rate :: rat
    and inv :: "'s \<Rightarrow> int \<Rightarrow> bool"
  assumes take_grants: "inv s t \<Longrightarrow> fst (tk s t) \<longleftrightarrow> 1 \<le> avail s t"
    and take_avail: "inv s t \<Longrightarrow>
      avail (snd (tk s t)) t = avail s t - (if fst (tk s t) then 1 else 0)"
    and take_inv: "inv s t \<Longrightarrow> inv (snd (tk s t)) t"
    and inv_later: "inv s t \<Longrightarrow> t \<le> u \<Longrightarrow> inv s u"
    and avail_nonneg: "inv s t \<Longrightarrow> 0 \<le> avail s t"
    and avail_cap: "inv s t \<Longrightarrow> avail s t \<le> cap"
    and avail_grows: "inv s t \<Longrightarrow> t \<le> u \<Longrightarrow> avail s u \<le> avail s t + of_int (u - t) * rate"
    and avail_keeps: "inv s t \<Longrightarrow> t \<le> u \<Longrightarrow> avail s t \<le> avail s u"
begin

lemma grants_le_avail:
  assumes "inv s t" and "sorted (t # ts)"
  shows "of_nat (grants tk s (t # ts)) \<le> avail s t + of_int (last (t # ts) - t) * rate"
  using assms
proof (induction ts arbitrary: s t)
  case Nil
  obtain ok s1 where step: "tk s t = (ok, s1)" by (cases "tk s t")
  have "(if ok then 1 else 0) \<le> avail s t"
    using take_grants [OF Nil.prems(1)] avail_nonneg [OF Nil.prems(1)] step by auto
  with step show ?case by (cases ok) simp_all
next
  case (Cons u ts)
  obtain ok s1 where step: "tk s t = (ok, s1)" by (cases "tk s t")
  let ?g = "if ok then 1 else 0 :: rat"
  have tu: "t \<le> u" using Cons.prems(2) by simp
  have inv1: "inv s1 t" using take_inv [OF Cons.prems(1)] step by simp
  have after: "avail s1 t = avail s t - ?g" using take_avail [OF Cons.prems(1)] step by simp
  have "of_nat (grants tk s1 (u # ts)) \<le> avail s1 u + of_int (last (u # ts) - u) * rate"
    by (rule Cons.IH) (use inv_later [OF inv1 tu] Cons.prems(2) in auto)
  also have "\<dots> \<le> avail s1 t + of_int (u - t) * rate + of_int (last (u # ts) - u) * rate"
    using avail_grows [OF inv1 tu] by simp
  also have "\<dots> = avail s t - ?g + of_int (last (u # ts) - t) * rate"
    by (simp add: after algebra_simps)
  finally show ?case
    using step by (cases ok) (simp_all del: grants.simps(2) add: grants.simps(2) [of tk s t])
qed

text \<open>A full bucket's worth, plus what the elapsed time refills: no stretch of time yields more.\<close>

lemma grants_bounded:
  assumes "inv s t" and "sorted (t # ts)"
  shows "of_nat (grants tk s (t # ts)) \<le> cap + of_int (last (t # ts) - t) * rate"
  using grants_le_avail [OF assms] avail_cap [OF assms(1)] by linarith

text \<open>A caller who waits long enough for a token gets one.\<close>

lemma grant_when_available: "inv s t \<Longrightarrow> 1 \<le> avail s t \<Longrightarrow> fst (tk s t)"
  using take_grants by blast

end

section \<open>A bucket\<close>

record bucket =
  tokens :: rat
  b_at :: int

definition refill :: "rat \<Rightarrow> rat \<Rightarrow> int \<Rightarrow> bucket option \<Rightarrow> bucket" where
  "refill cap perMs now bo =
     (case bo of
        None \<Rightarrow> \<lparr>tokens = cap, b_at = now\<rparr>
      | Some b \<Rightarrow> \<lparr>tokens = min cap (tokens b + of_int (now - b_at b) * perMs), b_at = now\<rparr>)"

definition spend :: "bucket \<Rightarrow> bool \<times> bucket" where
  "spend b = (if 1 \<le> tokens b then (True, b\<lparr>tokens := tokens b - 1\<rparr>) else (False, b))"

definition level :: "rat \<Rightarrow> rat \<Rightarrow> bucket option \<Rightarrow> int \<Rightarrow> rat" where
  "level cap perMs bo t = tokens (refill cap perMs t bo)"

definition bucket_ok :: "rat \<Rightarrow> rat \<Rightarrow> bucket option \<Rightarrow> int \<Rightarrow> bool" where
  "bucket_ok cap perMs bo t \<longleftrightarrow> 0 \<le> cap \<and> 0 \<le> perMs \<and>
     (case bo of None \<Rightarrow> True | Some b \<Rightarrow> 0 \<le> tokens b \<and> tokens b \<le> cap \<and> b_at b \<le> t)"

lemma level_None [simp]: "level cap perMs None t = cap"
  by (simp add: level_def refill_def)

lemma level_Some:
  "level cap perMs (Some b) t = min cap (tokens b + of_int (t - b_at b) * perMs)"
  by (simp add: level_def refill_def)

lemma level_refill_same: "0 \<le> cap \<Longrightarrow> level cap perMs (Some (refill cap perMs t bo)) t = level cap perMs bo t"
  by (auto simp: level_def refill_def split: option.split)

lemma elapsed_nonneg: "(0::rat) \<le> perMs \<Longrightarrow> a \<le> t \<Longrightarrow> 0 \<le> of_int (t - a) * perMs"
  by simp

lemma level_bounds:
  assumes "bucket_ok cap perMs bo t"
  shows "0 \<le> level cap perMs bo t" and "level cap perMs bo t \<le> cap"
  using assms by (auto simp: bucket_ok_def level_def refill_def split: option.splits)

lemma level_step:
  assumes "bucket_ok cap perMs bo t" and "t \<le> u"
  shows "level cap perMs bo u \<le> level cap perMs bo t + of_int (u - t) * perMs"
    and "level cap perMs bo t \<le> level cap perMs bo u"
proof -
  have inc: "0 \<le> of_int (u - t) * perMs"
    using assms by (intro elapsed_nonneg) (auto simp: bucket_ok_def)
  show "level cap perMs bo u \<le> level cap perMs bo t + of_int (u - t) * perMs"
  proof (cases bo)
    case None
    then show ?thesis using inc by simp
  next
    case (Some b)
    have "tokens b + of_int (u - b_at b) * perMs =
      tokens b + of_int (t - b_at b) * perMs + of_int (u - t) * perMs"
      by (simp add: algebra_simps)
    then show ?thesis using inc Some by (auto simp: level_Some min_def)
  qed
  show "level cap perMs bo t \<le> level cap perMs bo u"
  proof (cases bo)
    case (Some b)
    have "of_int (t - b_at b) * perMs \<le> of_int (u - b_at b) * perMs"
      using assms by (intro mult_right_mono) (auto simp: bucket_ok_def)
    then show ?thesis using Some by (simp add: level_Some min_def)
  qed simp
qed

lemma bucket_ok_later: "bucket_ok cap perMs bo t \<Longrightarrow> t \<le> u \<Longrightarrow> bucket_ok cap perMs bo u"
  by (auto simp: bucket_ok_def split: option.splits)

lemma spend_refill:
  assumes "bucket_ok cap perMs bo t" and "spend (refill cap perMs t bo) = (ok, b1)"
  shows "ok \<longleftrightarrow> 1 \<le> level cap perMs bo t"
    and "level cap perMs (Some b1) t = level cap perMs bo t - (if ok then 1 else 0)"
    and "bucket_ok cap perMs (Some b1) t"
  using assms level_bounds [OF assms(1)]
  by (auto simp: spend_def level_def refill_def bucket_ok_def split: if_splits option.splits)

section \<open>takeToken: a single bucket kept on an object\<close>

text \<open>The state is \<open>None\<close> while \<open>state.tokens === undefined\<close>.\<close>

definition takeToken :: "rat \<Rightarrow> rat \<Rightarrow> bucket option \<Rightarrow> int \<Rightarrow> bool \<times> bucket option" where
  "takeToken capacity refillPerSec state now =
     (let b = (case state of
                 None \<Rightarrow> \<lparr>tokens = capacity, b_at = now\<rparr>
               | Some s \<Rightarrow>
                   \<lparr>tokens = min capacity (tokens s + of_int (now - b_at s) * refillPerSec / 1000),
                    b_at = now\<rparr>)
      in if 1 \<le> tokens b then (True, Some (b\<lparr>tokens := tokens b - 1\<rparr>)) else (False, Some b))"

lemma takeToken_spend:
  "takeToken cap perSec st t =
     (let (ok, b) = spend (refill cap (perSec / 1000) t st) in (ok, Some b))"
  by (auto simp: takeToken_def spend_def refill_def Let_def split: option.split)

interpretation single: rate_bucket "takeToken cap perSec" "level cap (perSec / 1000)" cap
  "perSec / 1000" "bucket_ok cap (perSec / 1000)"
  for cap perSec
proof
  fix s t u
  assume ok: "bucket_ok cap (perSec / 1000) s t"
  obtain g b where sp: "spend (refill cap (perSec / 1000) t s) = (g, b)"
    by (cases "spend (refill cap (perSec / 1000) t s)")
  then have tk: "takeToken cap perSec s t = (g, Some b)" by (simp add: takeToken_spend)
  show "fst (takeToken cap perSec s t) \<longleftrightarrow> 1 \<le> level cap (perSec / 1000) s t"
    and "level cap (perSec / 1000) (snd (takeToken cap perSec s t)) t =
      level cap (perSec / 1000) s t - (if fst (takeToken cap perSec s t) then 1 else 0)"
    and "bucket_ok cap (perSec / 1000) (snd (takeToken cap perSec s t)) t"
    using spend_refill [OF ok sp] tk by simp_all
  show "0 \<le> level cap (perSec / 1000) s t" and "level cap (perSec / 1000) s t \<le> cap"
    using level_bounds [OF ok] by simp_all
  assume "t \<le> u"
  then show "bucket_ok cap (perSec / 1000) s u"
    and "level cap (perSec / 1000) s u \<le> level cap (perSec / 1000) s t + of_int (u - t) * (perSec / 1000)"
    and "level cap (perSec / 1000) s t \<le> level cap (perSec / 1000) s u"
    using bucket_ok_later [OF ok] level_step [OF ok] by blast+
qed

section \<open>TokenBuckets: one bucket per key\<close>

record token_buckets =
  capacity :: rat
  refillPerMs :: rat
  idleMs :: int
  tmap :: "string \<Rightarrow> bucket option"

definition TokenBuckets :: "rat \<Rightarrow> rat \<Rightarrow> token_buckets" where
  "TokenBuckets cap refillPerSec =
     \<lparr>capacity = cap, refillPerMs = refillPerSec / 1000, idleMs = 120000, tmap = Map.empty\<rparr>"

definition tb_take :: "string \<Rightarrow> token_buckets \<Rightarrow> int \<Rightarrow> bool \<times> token_buckets" where
  "tb_take key tb now =
     (let b = (case tmap tb key of
                 None \<Rightarrow> \<lparr>tokens = capacity tb, b_at = now\<rparr>
               | Some b \<Rightarrow>
                   \<lparr>tokens = min (capacity tb) (tokens b + of_int (now - b_at b) * refillPerMs tb),
                    b_at = now\<rparr>)
      in if 1 \<le> tokens b
         then (True, tb\<lparr>tmap := (tmap tb)(key \<mapsto> b\<lparr>tokens := tokens b - 1\<rparr>)\<rparr>)
         else (False, tb\<lparr>tmap := (tmap tb)(key \<mapsto> b)\<rparr>))"

definition tb_prune :: "int \<Rightarrow> token_buckets \<Rightarrow> token_buckets" where
  "tb_prune now tb =
     tb\<lparr>tmap := (\<lambda>k. case tmap tb k of
                     None \<Rightarrow> None
                   | Some b \<Rightarrow> if now - b_at b > idleMs tb then None else Some b)\<rparr>"

definition tb_level :: "string \<Rightarrow> token_buckets \<Rightarrow> int \<Rightarrow> rat" where
  "tb_level key tb t = level (capacity tb) (refillPerMs tb) (tmap tb key) t"

definition tb_ok :: "rat \<Rightarrow> rat \<Rightarrow> string \<Rightarrow> token_buckets \<Rightarrow> int \<Rightarrow> bool" where
  "tb_ok cap perMs key tb t \<longleftrightarrow>
     capacity tb = cap \<and> refillPerMs tb = perMs \<and> bucket_ok cap perMs (tmap tb key) t"

lemma tb_take_spend:
  "tb_take key tb t =
     (let (ok, b) = spend (refill (capacity tb) (refillPerMs tb) t (tmap tb key))
      in (ok, tb\<lparr>tmap := (tmap tb)(key \<mapsto> b)\<rparr>))"
  by (auto simp: tb_take_def spend_def refill_def Let_def split: option.split)

interpretation keyed: rate_bucket "tb_take key" "tb_level key" cap perMs "tb_ok cap perMs key"
  for key cap perMs
proof
  fix s t u
  assume inv: "tb_ok cap perMs key s t"
  then have ok: "bucket_ok cap perMs (tmap s key) t"
    and fields: "capacity s = cap" "refillPerMs s = perMs"
    by (simp_all add: tb_ok_def)
  obtain g b where sp: "spend (refill cap perMs t (tmap s key)) = (g, b)"
    by (cases "spend (refill cap perMs t (tmap s key))")
  then have tk: "tb_take key s t = (g, s\<lparr>tmap := (tmap s)(key \<mapsto> b)\<rparr>)"
    by (simp add: tb_take_spend fields)
  show "fst (tb_take key s t) \<longleftrightarrow> 1 \<le> tb_level key s t"
    and "tb_level key (snd (tb_take key s t)) t =
      tb_level key s t - (if fst (tb_take key s t) then 1 else 0)"
    and "tb_ok cap perMs key (snd (tb_take key s t)) t"
    using spend_refill [OF ok sp] tk fields by (simp_all add: tb_level_def tb_ok_def)
  show "0 \<le> tb_level key s t" and "tb_level key s t \<le> cap"
    using level_bounds [OF ok] fields by (simp_all add: tb_level_def)
  assume "t \<le> u"
  then show "tb_ok cap perMs key s u"
    and "tb_level key s u \<le> tb_level key s t + of_int (u - t) * perMs"
    and "tb_level key s t \<le> tb_level key s u"
    using bucket_ok_later [OF ok] level_step [OF ok] fields by (auto simp: tb_level_def tb_ok_def)
qed

lemma tb_take_other: "k \<noteq> key \<Longrightarrow> tmap (snd (tb_take key tb t)) k = tmap tb k"
  by (simp add: tb_take_spend split: prod.split)

text \<open>A key idle longer than \<open>idleMs\<close> has refilled, so forgetting it gives back the same level.\<close>

lemma tb_level_prune:
  assumes "tb_ok cap perMs key tb now" and "cap \<le> of_int (idleMs tb) * perMs" and "now \<le> t"
  shows "tb_level key (tb_prune now tb) t = tb_level key tb t"
proof (cases "tmap tb key")
  case None
  then show ?thesis by (simp add: tb_level_def tb_prune_def)
next
  case (Some b)
  show ?thesis
  proof (cases "now - b_at b > idleMs tb")
    case True
    have perMs: "0 \<le> perMs" and tok: "0 \<le> tokens b" using assms(1) Some
      by (auto simp: tb_ok_def bucket_ok_def)
    have "of_int (idleMs tb) * perMs \<le> of_int (t - b_at b) * perMs"
      using True assms(3) perMs by (intro mult_right_mono) auto
    with assms(2) tok have "cap \<le> tokens b + of_int (t - b_at b) * perMs" by linarith
    then show ?thesis
      using True Some assms(1) by (simp add: tb_level_def tb_prune_def level_Some tb_ok_def)
  next
    case False
    then show ?thesis using Some by (simp add: tb_level_def tb_prune_def)
  qed
qed

section \<open>Modes and the window log\<close>

text \<open>\<open>process.env\<close> is a map from names to strings.\<close>

definition modeFromEnv :: "(string \<Rightarrow> string option) \<Rightarrow> string \<Rightarrow> string \<Rightarrow> string" where
  "modeFromEnv env name fallback =
     (let m = toLowerCase (js_trim (str_or (env name) fallback))
      in if m \<in> {''off'', ''log'', ''enforce''} then m else fallback)"

text \<open>
  \<open>makeWindowLog\<close>: rolling counters and a capped number of detail lines per window. \<open>printed\<close>
  collects the detail lines that were written, newest first.
\<close>

record window_log =
  counts :: "string \<Rightarrow> nat"
  seen :: "string list"
  windowStart :: int
  detailLines :: nat
  printed :: "string list"

definition windowMs :: int where "windowMs = 10 * 60 * 1000"
definition maxDetailLines :: nat where "maxDetailLines = 50"

definition makeWindowLog :: "int \<Rightarrow> window_log" where
  "makeWindowLog now =
     \<lparr>counts = (\<lambda>_. 0), seen = [], windowStart = now, detailLines = 0, printed = []\<rparr>"

definition log_roll :: "int \<Rightarrow> window_log \<Rightarrow> window_log" where
  "log_roll now l =
     (if now - windowStart l < windowMs then l
      else l\<lparr>counts := (\<lambda>_. 0), seen := [], detailLines := 0, windowStart := now\<rparr>)"

definition log_count :: "int \<Rightarrow> string \<Rightarrow> window_log \<Rightarrow> window_log" where
  "log_count now key l =
     (let r = log_roll now l in r\<lparr>counts := (counts r)(key := Suc (counts r key))\<rparr>)"

definition log_detail :: "string \<Rightarrow> string \<Rightarrow> window_log \<Rightarrow> window_log" where
  "log_detail detailKey message l =
     (if detailKey \<in> set (seen l) \<or> maxDetailLines \<le> detailLines l then l
      else l\<lparr>seen := detailKey # seen l, detailLines := Suc (detailLines l),
             printed := message # printed l\<rparr>)"

datatype log_call = Count int string | Detail string string

fun log_run :: "window_log \<Rightarrow> log_call list \<Rightarrow> window_log" where
  "log_run l [] = l"
| "log_run l (Count now k # cs) = log_run (log_count now k l) cs"
| "log_run l (Detail k m # cs) = log_run (log_detail k m l) cs"

definition log_ok :: "window_log \<Rightarrow> bool" where
  "log_ok l \<longleftrightarrow> detailLines l \<le> maxDetailLines \<and> distinct (seen l) \<and> length (seen l) = detailLines l"

lemma log_ok_make: "log_ok (makeWindowLog now)"
  by (simp add: log_ok_def makeWindowLog_def)

lemma log_ok_count: "log_ok l \<Longrightarrow> log_ok (log_count now k l)"
  by (simp add: log_ok_def log_count_def log_roll_def Let_def)

lemma log_ok_detail: "log_ok l \<Longrightarrow> log_ok (log_detail k m l)"
  by (auto simp: log_ok_def log_detail_def)

lemma log_ok_run: "log_ok l \<Longrightarrow> log_ok (log_run l cs)"
  by (induction l cs rule: log_run.induct) (auto intro: log_ok_count log_ok_detail)

section \<open>The REST limiter\<close>

definition last_segment :: "string \<Rightarrow> string" where
  "last_segment p = rev (takeWhile (\<lambda>c. c \<noteq> CHR ''/'') (rev p))"

definition strip_end :: "nat \<Rightarrow> string \<Rightarrow> string" where
  "strip_end n p = take (length p - n) p"

text \<open>\<open>/prefix[^/]+suffix$/.test(p)\<close>, for a prefix that ends with a slash.\<close>

definition one_segment :: "string \<Rightarrow> string \<Rightarrow> string \<Rightarrow> bool" where
  "one_segment prefix suffix p \<longleftrightarrow> endsWith p suffix \<and>
     (let q = strip_end (length suffix) p; seg = last_segment q
      in seg \<noteq> [] \<and> endsWith (strip_end (length seg) q) prefix)"

definition restClassOf :: "string \<Rightarrow> string \<Rightarrow> string" where
  "restClassOf meth path =
     (if meth = ''GET'' then ''default''
      else if endsWith path ''/send-gift'' \<or> endsWith path ''/lucky-gift/send'' then ''gift''
      else if one_segment ''/live-stream/'' ''/message'' path \<or> endsWith path ''/global-message''
        then ''chat''
      else if endsWith path ''/go-live'' \<or> one_segment ''/live-stream/end/'' [] path then ''golive''
      else if endsWith path ''/translate'' then ''translate''
      else ''default'')"

text \<open>\<open>CLASSES\<close>: burst capacity and refill per second.\<close>

definition rest_classes :: "(string \<times> rat \<times> rat) list" where
  "rest_classes =
     [(''gift'', 40, 10), (''chat'', 10, 2), (''golive'', 5, 1 / 5), (''translate'', 20, 5),
      (''default'', 120, 30)]"

record rest_limiter =
  rl_buckets :: "string \<Rightarrow> token_buckets option"
  rl_report :: window_log

definition rest_init :: "int \<Rightarrow> rest_limiter" where
  "rest_init now =
     \<lparr>rl_buckets = map_of (map (\<lambda>(c, cap, r). (c, TokenBuckets cap r)) rest_classes),
      rl_report = makeWindowLog now\<rparr>"

text \<open>The timer that prunes every class once a minute.\<close>

definition rest_prune :: "int \<Rightarrow> rest_limiter \<Rightarrow> rest_limiter" where
  "rest_prune now st = st\<lparr>rl_buckets := (\<lambda>c. map_option (tb_prune now) (rl_buckets st c))\<rparr>"

datatype rate_reply = Proceed | TooManyRequests int  \<comment> \<open>429 with the \<open>Retry-After\<close> seconds\<close>

text \<open>\<open>originalUrl\<close> and \<open>url\<close> are the request's; the verified user id is the bucket's key.\<close>

definition restRateAllow ::
  "(string \<Rightarrow> string option) \<Rightarrow> int \<Rightarrow> string \<Rightarrow> string option \<Rightarrow> string option \<Rightarrow> string \<Rightarrow>
     rest_limiter \<Rightarrow> rate_reply \<times> rest_limiter" where
  "restRateAllow env now meth originalUrl url userId st =
     (let mode = modeFromEnv env ''LIVE_RATE_LIMIT_MODE'' ''log'' in
      if mode = ''off'' then (Proceed, st) else
      let path = takeWhile (\<lambda>c. c \<noteq> CHR ''?'') (str_or originalUrl (str_or url []));
          cls = restClassOf meth path;
          (cap, refillPerSec) = the (map_of rest_classes cls);
          (ok, tb) = tb_take userId (the (rl_buckets st cls)) now;
          st1 = st\<lparr>rl_buckets := (rl_buckets st)(cls \<mapsto> tb)\<rparr>
      in if ok then (Proceed, st1) else
      let st2 = st1\<lparr>rl_report :=
            log_detail (''rest:'' @ userId @ '':'' @ cls)
              (''user '' @ userId @ '' over the '' @ cls @ '' REST rate ('' @ meth @ '' '' @ path
                @ ''; mode='' @ mode @ '')'')
              (log_count now (''rest:'' @ cls) (rl_report st1))\<rparr>
      in if mode \<noteq> ''enforce'' then (Proceed, st2)
         else (TooManyRequests (max 1 \<lceil>1 / refillPerSec\<rceil>), st2))"

lemma restClassOf_known: "restClassOf m p \<in> fst ` set rest_classes"
  by (simp add: restClassOf_def rest_classes_def)

lemma restRateAllow_blocks_only_enforcing:
  "fst (restRateAllow env now m u1 u2 userId st) = TooManyRequests n \<Longrightarrow>
   modeFromEnv env ''LIVE_RATE_LIMIT_MODE'' ''log'' = ''enforce''"
  by (auto simp: restRateAllow_def Let_def split: if_splits prod.splits)

section \<open>Properties\<close>

text \<open>
  C35: whatever the arrival times, one user's granted requests in one bucket class never exceed the
  burst capacity plus what the elapsed milliseconds refill.
\<close>

theorem token_bucket_rate_bound:
  assumes "0 \<le> cap" and "0 \<le> perSec" and "sorted (t # ts)"
  shows "of_nat (grants (tb_take key) (TokenBuckets cap perSec) (t # ts))
    \<le> cap + of_int (last (t # ts) - t) * (perSec / 1000)"
  by (rule keyed.grants_bounded)
    (use assms in \<open>simp_all add: tb_ok_def TokenBuckets_def bucket_ok_def\<close>)

theorem token_bucket_rate_bound_witness:
  "of_nat (grants (tb_take ''u1'') (TokenBuckets 5 (1 / 5)) [0, 1000, 60000]) \<le> (17 :: rat)"
  using token_bucket_rate_bound [of 5 "1 / 5" 0 "[1000, 60000]" "''u1''"] by simp

definition rest_level :: "rest_limiter \<Rightarrow> string \<Rightarrow> string \<Rightarrow> int \<Rightarrow> rat" where
  "rest_level st cls userId t = tb_level userId (the (rl_buckets st cls)) t"

definition rest_ok :: "rest_limiter \<Rightarrow> int \<Rightarrow> bool" where
  "rest_ok st now \<longleftrightarrow> (\<forall>(c, cap, r) \<in> set rest_classes. \<exists>tb. rl_buckets st c = Some tb \<and>
     idleMs tb = 120000 \<and> (\<forall>k. tb_ok cap (r / 1000) k tb now))"

lemma tb_ok_take:
  assumes "tb_ok cap perMs k tb t" and "tb_ok cap perMs key tb t"
  shows "tb_ok cap perMs k (snd (tb_take key tb t)) t"
  using keyed.take_inv [OF assms(2)] assms(1) tb_take_other [of k key tb t]
  by (cases "k = key") (auto simp: tb_ok_def)

lemma tb_ok_prune: "tb_ok cap perMs k tb t \<Longrightarrow> tb_ok cap perMs k (tb_prune now tb) t"
  by (auto simp: tb_ok_def tb_prune_def bucket_ok_def split: option.splits)

lemma tb_take_idleMs [simp]: "idleMs (snd (tb_take key tb t)) = idleMs tb"
  by (simp add: tb_take_def Let_def)

lemma tb_prune_idleMs [simp]: "idleMs (tb_prune now tb) = idleMs tb"
  by (simp add: tb_prune_def)

lemma rest_ok_later: "rest_ok st now \<Longrightarrow> now \<le> u \<Longrightarrow> rest_ok st u"
  unfolding rest_ok_def by (fastforce intro: keyed.inv_later)

text \<open>Both operations of the limiter keep its buckets well formed, so every state it reaches is.\<close>

lemma rest_ok_prune: "rest_ok st now \<Longrightarrow> rest_ok (rest_prune t st) now"
  unfolding rest_ok_def rest_prune_def by (fastforce intro: tb_ok_prune)

lemma rest_ok_take:
  assumes "rest_ok st now"
  shows "rest_ok (st\<lparr>rl_buckets := (rl_buckets st)
           (cls \<mapsto> snd (tb_take userId (the (rl_buckets st cls)) now))\<rparr>) now"
  unfolding rest_ok_def
proof (clarsimp, intro conjI impI)
  fix c cap r
  assume c: "(c, cap, r) \<in> set rest_classes"
  then obtain tb where tb: "rl_buckets st c = Some tb" "idleMs tb = 120000"
      "\<And>k. tb_ok cap (r / 1000) k tb now"
    using assms by (fastforce simp: rest_ok_def)
  show "\<exists>tb. rl_buckets st c = Some tb \<and> idleMs tb = 120000 \<and> (\<forall>k. tb_ok cap (r / 1000) k tb now)"
    using tb by blast
  assume "c = cls"
  then show "idleMs (the (rl_buckets st cls)) = 120000"
    and "\<forall>k. tb_ok cap (r / 1000) k (snd (tb_take userId (the (rl_buckets st cls)) now)) now"
    using tb by (auto intro: tb_ok_take)
qed

lemma rest_ok_restRateAllow:
  assumes "rest_ok st now"
  shows "rest_ok (snd (restRateAllow env now m u1 u2 userId st)) now"
proof -
  have log: "rest_ok (x\<lparr>rl_report := l\<rparr>) now = rest_ok x now" for x l
    by (simp add: rest_ok_def)
  show ?thesis
    using assms rest_ok_take [OF assms]
    by (auto simp: restRateAllow_def Let_def log split: prod.split)
       (metis snd_conv)+
qed

lemma rest_ok_init: "rest_ok (rest_init t0) now"
  by (auto simp: rest_ok_def rest_init_def rest_classes_def TokenBuckets_def tb_ok_def bucket_ok_def)

text \<open>
  the periodic pruning never changes a verdict: for every class of the REST limiter, every
  user and every later time, the number of tokens a request would find is the same as unpruned.
\<close>

theorem rest_prune_transparent:
  assumes "rest_ok st now" and "now \<le> t"
  shows "rest_level (rest_prune now st) (restClassOf m p) userId t = rest_level st (restClassOf m p) userId t"
proof -
  obtain cap r where c: "(restClassOf m p, cap, r) \<in> set rest_classes"
    using restClassOf_known [of m p] by force
  obtain tb where tb: "rl_buckets st (restClassOf m p) = Some tb" "idleMs tb = 120000"
      "tb_ok cap (r / 1000) userId tb now"
    using assms(1) c by (fastforce simp: rest_ok_def)
  have "cap \<le> of_int (idleMs tb) * (r / 1000)"
    using c tb(2) by (auto simp: rest_classes_def)
  then show ?thesis
    using tb_level_prune [OF tb(3) _ assms(2)] tb(1) by (simp add: rest_level_def rest_prune_def)
qed

theorem rest_prune_transparent_witness:
  "rest_level (rest_prune 500000 (rest_init 0)) (restClassOf ''POST'' ''/x'') ''u'' 500001
     = rest_level (rest_init 0) (restClassOf ''POST'' ''/x'') ''u'' 500001"
  by (rule rest_prune_transparent [OF rest_ok_init]) simp

end
