(* ===== verification/Event_Guard.thy ===== *)
theory Event_Guard
  imports Rate_Limit
begin

text \<open>
  The guard in front of every socket handler, \<open>socket/eventGuard.js\<close>: an incoming packet is an
  event name with arguments; it is passed to the handlers, or dropped with an error code that goes
  to the client's acknowledgement callback when there is one.
\<close>

section \<open>Payload schemas\<close>

datatype ftype = TId | TStr | TBool | TInt

record field_rule =
  f_name :: string
  f_type :: ftype
  f_required :: bool
  f_max :: nat

definition FID :: "string \<Rightarrow> bool \<Rightarrow> field_rule" where
  "FID f req = \<lparr>f_name = f, f_type = TId, f_required = req, f_max = 100\<rparr>"
definition FBOOL :: "string \<Rightarrow> field_rule" where
  "FBOOL f = \<lparr>f_name = f, f_type = TBool, f_required = False, f_max = 0\<rparr>"
definition FINT :: "string \<Rightarrow> nat \<Rightarrow> field_rule" where
  "FINT f m = \<lparr>f_name = f, f_type = TInt, f_required = False, f_max = m\<rparr>"
definition FSTR :: "string \<Rightarrow> bool \<Rightarrow> nat \<Rightarrow> field_rule" where
  "FSTR f req m = \<lparr>f_name = f, f_type = TStr, f_required = req, f_max = m\<rparr>"

definition HANDLED_EVENTS :: "string list" where
  "HANDLED_EVENTS =
    [''stream_heartbeat'', ''join_stream'', ''leave_stream'', ''invite_to_sheet'',
     ''decline_sheet_invite'', ''accept_sheet_invite'', ''toggle_mic_permission'',
     ''set_chat_permission'', ''request_to_join_sheet'', ''accept_sheet_request'',
     ''reject_sheet_request'', ''toggle_sheet_mute'', ''toggle_self_mute'', ''remove_from_sheet'',
     ''toggle_camera_state'', ''leave_sheet'', ''clear_chat'', ''send_gift'', ''send_lucky_gift'',
     ''SEND_MESSAGE'', ''network_quality'']"

definition SCHEMAS :: "(string \<times> field_rule list) list" where
  "SCHEMAS =
    [(''stream_heartbeat'', [FID ''streamId'' True]),
     (''join_stream'', [FID ''streamId'' True]),
     (''leave_stream'', [FID ''streamId'' True]),
     (''decline_sheet_invite'', [FID ''streamId'' True]),
     (''accept_sheet_invite'', [FID ''streamId'' True]),
     (''request_to_join_sheet'', [FID ''streamId'' True]),
     (''leave_sheet'', [FID ''streamId'' True]),
     (''clear_chat'', [FID ''streamId'' True]),
     (''invite_to_sheet'', [FID ''streamId'' True, FID ''targetUserId'' True]),
     (''accept_sheet_request'', [FID ''streamId'' True, FID ''targetUserId'' True]),
     (''reject_sheet_request'', [FID ''streamId'' True, FID ''targetUserId'' True]),
     (''remove_from_sheet'', [FID ''streamId'' True, FID ''targetUserId'' True]),
     (''toggle_sheet_mute'', [FID ''streamId'' True, FID ''targetUserId'' True, FBOOL ''muteState'']),
     (''toggle_self_mute'', [FID ''streamId'' True, FBOOL ''muteState'']),
     (''toggle_camera_state'', [FID ''streamId'' True, FBOOL ''isCameraOn'']),
     (''toggle_mic_permission'', [FID ''streamId'' True, FBOOL ''micPermissionRequired'']),
     (''set_chat_permission'', [FID ''streamId'' True, FSTR ''mode'' False 32]),
     (''send_gift'', [FID ''streamId'' True, FID ''giftId'' True, FID ''receiverId'' False,
        FID ''targetUserId'' False, FINT ''count'' 10000, FINT ''comboCount'' 100000,
        FSTR ''clientTxId'' False 100]),
     (''send_lucky_gift'', [FID ''streamId'' True, FID ''giftId'' True, FID ''receiverId'' False,
        FINT ''comboCount'' 100000, FSTR ''clientTxId'' False 100]),
     (''SEND_MESSAGE'', [FID ''receiverId'' True, FSTR ''text'' True 1000]),
     (''network_quality'', [FSTR ''quality'' True 16, FID ''sessionId'' False, FID ''streamId'' False])]"

text \<open>One iteration of the loop: the problem with this field, if there is one.\<close>

definition absent :: "jsval \<Rightarrow> bool" where
  "absent v \<longleftrightarrow> v = Undefined \<or> v = Null \<or> v = Str []"

definition field_problem :: "field_rule \<Rightarrow> jsval \<Rightarrow> string option" where
  "field_problem r v =
     (if absent v then (if f_required r then Some (f_name r @ '':missing'') else None)
      else case f_type r of
        TId \<Rightarrow> (case v of
                  Str s \<Rightarrow> if length s \<le> f_max r then None else Some (f_name r @ '':type'')
                | Num _ \<Rightarrow> None
                | _ \<Rightarrow> Some (f_name r @ '':type''))
      | TStr \<Rightarrow> (case v of
                   Str s \<Rightarrow> if length s > f_max r then Some (f_name r @ '':too_long'') else None
                 | _ \<Rightarrow> Some (f_name r @ '':type''))
      | TBool \<Rightarrow> (case v of JBool _ \<Rightarrow> None | _ \<Rightarrow> Some (f_name r @ '':type''))
      | TInt \<Rightarrow> (case v of
                   Num q \<Rightarrow> if of_int \<lfloor>q\<rfloor> = q \<and> 1 \<le> q \<and> q \<le> of_nat (f_max r) then None
                            else Some (f_name r @ '':range'')
                 | _ \<Rightarrow> Some (f_name r @ '':range'')))"

fun first_problem :: "field_rule list \<Rightarrow> jsval \<Rightarrow> string option" where
  "first_problem [] payload = None"
| "first_problem (r # rs) payload =
     (case field_problem r (get_field payload (f_name r)) of
        Some p \<Rightarrow> Some p
      | None \<Rightarrow> first_problem rs payload)"

definition payloadProblem :: "string \<Rightarrow> jsval \<Rightarrow> string option" where
  "payloadProblem event payload =
     (case map_of SCHEMAS event of None \<Rightarrow> None | Some rules \<Rightarrow> first_problem rules payload)"

text \<open>What a well-typed field is, stated directly.\<close>

definition field_conforms :: "field_rule \<Rightarrow> jsval \<Rightarrow> bool" where
  "field_conforms r v \<longleftrightarrow>
     (absent v \<and> \<not> f_required r) \<or>
     (\<not> absent v \<and>
      (case f_type r of
         TId \<Rightarrow> (\<exists>s. v = Str s \<and> length s \<le> f_max r) \<or> (\<exists>q. v = Num q)
       | TStr \<Rightarrow> (\<exists>s. v = Str s \<and> length s \<le> f_max r)
       | TBool \<Rightarrow> (\<exists>b. v = JBool b)
       | TInt \<Rightarrow> (\<exists>n. v = Num (of_int n) \<and> 1 \<le> n \<and> n \<le> int (f_max r))))"

lemma field_problem_None_iff: "field_problem r v = None \<longleftrightarrow> field_conforms r v"
proof (cases "absent v")
  case True
  then show ?thesis by (simp add: field_problem_def field_conforms_def)
next
  case False
  have int: "of_int \<lfloor>q\<rfloor> = q \<and> 1 \<le> q \<and> q \<le> of_nat m \<longleftrightarrow>
      (\<exists>n. q = of_int n \<and> 1 \<le> n \<and> n \<le> int m)" for q :: rat and m
    by (metis floor_of_int of_int_1_le_iff of_int_le_iff of_int_of_nat_eq)
  show ?thesis
    using False
    by (cases "f_type r"; cases v)
       (auto simp: field_problem_def field_conforms_def int split: if_splits)
qed

lemma first_problem_None_iff:
  "first_problem rs p = None \<longleftrightarrow> (\<forall>r \<in> set rs. field_conforms r (get_field p (f_name r)))"
  by (induction rs) (auto simp: field_problem_None_iff [symmetric] split: option.split)

section \<open>The guard\<close>

text \<open>\<open>RATE_CLASSES\<close>: burst capacity and refill per second, per socket.\<close>

definition RATE_CLASSES :: "(string \<times> rat \<times> rat) list" where
  "RATE_CLASSES =
     [(''gift'', 40, 10), (''chat'', 10, 2), (''heartbeat'', 6, 1), (''join'', 10, 1),
      (''default'', 60, 20)]"

definition classOf :: "string \<Rightarrow> string" where
  "classOf event =
     (if event = ''send_gift'' \<or> event = ''send_lucky_gift'' then ''gift''
      else if event = ''SEND_MESSAGE'' \<or> event = ''clear_chat'' then ''chat''
      else if event = ''stream_heartbeat'' then ''heartbeat''
      else if event = ''join_stream'' \<or> event = ''leave_stream'' then ''join''
      else ''default'')"

definition class_cap :: "string \<Rightarrow> rat" where
  "class_cap cls = fst (the (map_of RATE_CLASSES cls))"
definition class_rate :: "string \<Rightarrow> rat" where
  "class_rate cls = snd (the (map_of RATE_CLASSES cls))"

record packet =
  p_event :: string
  p_args :: "jsval list"

definition p_payload :: "packet \<Rightarrow> jsval" where
  "p_payload p = (case p_args p of [] \<Rightarrow> Undefined | a # _ \<Rightarrow> a)"

text \<open>\<open>Next\<close> runs the handlers; a dropped packet answers \<open>Some code\<close> when its last element is a callback.\<close>

datatype guard_result = Next | Dropped "string option"

definition reject :: "packet \<Rightarrow> string \<Rightarrow> guard_result" where
  "reject p code =
     Dropped (if p_args p \<noteq> [] \<and> last (p_args p) = Function then Some code else None)"

record guard_state =
  g_buckets :: "string \<Rightarrow> bucket option"
  g_report :: window_log

text \<open>\<open>userId\<close> (the verified user, the claimed one or \<open>anon\<close>) only appears in the log's lines.\<close>

definition socketEventGuard ::
  "(string \<Rightarrow> string option) \<Rightarrow> string \<Rightarrow> int \<Rightarrow> packet \<Rightarrow> guard_state \<Rightarrow>
     guard_result \<times> guard_state" where
  "socketEventGuard env userId now p st =
     (let event = p_event p; payload = p_payload p; handled = (event \<in> set HANDLED_EVENTS) in
      if handled \<and> \<not> isPlainObject payload then
        (reject p ''INVALID_PAYLOAD'',
         st\<lparr>g_report := log_detail (''nobj:'' @ userId @ '':'' @ event) (''dropped '' @ event)
              (log_count now (''dropped_not_object:'' @ event) (g_report st))\<rparr>)
      else
      let rateMode = modeFromEnv env ''LIVE_RATE_LIMIT_MODE'' ''log'';
          cls = classOf event;
          (ok, b) = takeToken (class_cap cls) (class_rate cls) (g_buckets st cls) now;
          st1 = (if rateMode = ''off'' then st
                 else if ok then st\<lparr>g_buckets := (g_buckets st)(cls := b)\<rparr>
                 else st\<lparr>g_buckets := (g_buckets st)(cls := b),
                         g_report := log_detail (''rate:'' @ userId @ '':'' @ cls)
                            (''user '' @ userId @ '' over the '' @ cls @ '' socket rate'')
                            (log_count now (''rate:'' @ cls) (g_report st))\<rparr>)
      in if rateMode = ''enforce'' \<and> \<not> ok then (reject p ''RATE_LIMITED'', st1) else
      let guardMode = modeFromEnv env ''LIVE_SOCKET_GUARD_MODE'' ''log'' in
      if handled \<and> guardMode \<noteq> ''off'' then
        (case payloadProblem event payload of
           None \<Rightarrow> (Next, st1)
         | Some problem \<Rightarrow>
             let st2 = st1\<lparr>g_report :=
                    log_detail (''inv:'' @ userId @ '':'' @ event @ '':'' @ problem)
                      (''user '' @ userId @ '' sent '' @ event @ '' with '' @ problem)
                      (log_count now (''invalid:'' @ event @ '':'' @ problem) (g_report st1))\<rparr>
             in if guardMode = ''enforce'' then (reject p ''INVALID_PAYLOAD'', st2) else (Next, st2))
      else (Next, st1))"

lemma takeToken_Some: "\<exists>b'. snd (takeToken c r b t) = Some b'"
  by (simp add: takeToken_def Let_def)

text \<open>How the guard moves the bucket of a class when limiting is enforced.\<close>

lemma guard_bucket:
  assumes "modeFromEnv env ''LIVE_RATE_LIMIT_MODE'' ''log'' = ''enforce''"
    and "socketEventGuard env u now p st = (r, st1)"
  shows "g_buckets st1 = g_buckets st \<and> r \<noteq> Next \<or>
    (let (ok, b) = takeToken (class_cap (classOf (p_event p))) (class_rate (classOf (p_event p)))
                     (g_buckets st (classOf (p_event p))) now
     in g_buckets st1 = (g_buckets st)(classOf (p_event p) := b) \<and> (r = Next \<longrightarrow> ok))"
  using assms
  by (auto simp: socketEventGuard_def Let_def reject_def split: if_splits prod.splits option.splits)

section \<open>Runs of one socket\<close>

text \<open>How many packets of a class get through, over a timed sequence of packets.\<close>

fun passed :: "(string \<Rightarrow> string option) \<Rightarrow> string \<Rightarrow> string \<Rightarrow> guard_state \<Rightarrow> (int \<times> packet) list \<Rightarrow> nat" where
  "passed env u cls st [] = 0"
| "passed env u cls st ((t, p) # ps) =
     (let (r, st1) = socketEventGuard env u t p st
      in (if r = Next \<and> classOf (p_event p) = cls then 1 else 0) + passed env u cls st1 ps)"

abbreviation bucket_rate :: "string \<Rightarrow> rat" where
  "bucket_rate cls \<equiv> class_rate cls / 1000"

lemma guard_step_level:
  assumes mode: "modeFromEnv env ''LIVE_RATE_LIMIT_MODE'' ''log'' = ''enforce''"
    and ok: "bucket_ok (class_cap cls) (bucket_rate cls) (g_buckets st cls) t"
    and step: "socketEventGuard env u t p st = (r, st1)"
  shows "bucket_ok (class_cap cls) (bucket_rate cls) (g_buckets st1 cls) t"
    and "level (class_cap cls) (bucket_rate cls) (g_buckets st1 cls) t
      + (if r = Next \<and> classOf (p_event p) = cls then 1 else 0)
      \<le> level (class_cap cls) (bucket_rate cls) (g_buckets st cls) t"
proof -
  obtain g b where tk: "takeToken (class_cap cls) (class_rate cls) (g_buckets st cls) t = (g, b)"
    by (cases "takeToken (class_cap cls) (class_rate cls) (g_buckets st cls) t")
  note step_facts = single.take_inv [OF ok] single.take_avail [OF ok]
  have same: "g_buckets st1 cls = g_buckets st cls \<and> (r \<noteq> Next \<or> classOf (p_event p) \<noteq> cls) \<or>
      g_buckets st1 cls = b \<and> (r = Next \<longrightarrow> g)"
    using guard_bucket [OF mode step] tk
    by (cases "classOf (p_event p) = cls") (auto split: prod.splits)
  show "bucket_ok (class_cap cls) (bucket_rate cls) (g_buckets st1 cls) t"
    using same step_facts(1) tk ok by auto
  show "level (class_cap cls) (bucket_rate cls) (g_buckets st1 cls) t
      + (if r = Next \<and> classOf (p_event p) = cls then 1 else 0)
      \<le> level (class_cap cls) (bucket_rate cls) (g_buckets st cls) t"
    using same step_facts(2) tk by auto
qed

lemma passed_le_level:
  assumes mode: "modeFromEnv env ''LIVE_RATE_LIMIT_MODE'' ''log'' = ''enforce''"
  shows "bucket_ok (class_cap cls) (bucket_rate cls) (g_buckets st cls) t0 \<Longrightarrow>
    sorted (t0 # map fst ps @ [t1]) \<Longrightarrow>
    of_nat (passed env u cls st ps)
      \<le> level (class_cap cls) (bucket_rate cls) (g_buckets st cls) t0 + of_int (t1 - t0) * bucket_rate cls"
proof (induction ps arbitrary: st t0)
  case Nil
  then have "0 \<le> of_int (t1 - t0) * bucket_rate cls"
    by (intro elapsed_nonneg) (auto simp: bucket_ok_def)
  then show ?case using level_bounds [OF Nil.prems(1)] by simp
next
  case (Cons tp ps)
  obtain t p where tp: "tp = (t, p)" by (cases tp)
  obtain r st1 where step: "socketEventGuard env u t p st = (r, st1)"
    by (cases "socketEventGuard env u t p st")
  let ?L = "\<lambda>s u. level (class_cap cls) (bucket_rate cls) (g_buckets s cls) u"
  let ?n = "if r = Next \<and> classOf (p_event p) = cls then 1 else 0 :: rat"
  have t: "t0 \<le> t" using Cons.prems(2) tp by simp
  have ok: "bucket_ok (class_cap cls) (bucket_rate cls) (g_buckets st cls) t"
    by (rule bucket_ok_later [OF Cons.prems(1) t])
  note after = guard_step_level [OF mode ok step]
  have "of_nat (passed env u cls st1 ps) \<le> ?L st1 t + of_int (t1 - t) * bucket_rate cls"
    by (rule Cons.IH [OF after(1)]) (use Cons.prems(2) tp in auto)
  moreover have "?L st1 t + ?n \<le> ?L st t" by (rule after(2))
  moreover have "?L st t \<le> ?L st t0 + of_int (t - t0) * bucket_rate cls"
    by (rule level_step(1) [OF Cons.prems(1) t])
  moreover have "of_int (t1 - t0) * bucket_rate cls =
      of_int (t - t0) * bucket_rate cls + of_int (t1 - t) * bucket_rate cls"
    by (simp add: algebra_simps add_divide_distrib [symmetric])
  moreover have "of_nat (passed env u cls st (tp # ps)) = ?n + of_nat (passed env u cls st1 ps)"
    by (simp add: tp step)
  ultimately show ?case by linarith
qed

definition enforcing :: "string \<Rightarrow> string option" where
  "enforcing = (\<lambda>_. Some ''enforce'')"

lemma modeFromEnv_enforcing [simp]: "modeFromEnv enforcing v f = ''enforce''"
  by (simp add: modeFromEnv_def enforcing_def js_simps js_trim_def js_space_def toLowerCase_def
      lower_char_def Let_def)

definition fresh_guard :: "int \<Rightarrow> guard_state" where
  "fresh_guard now = \<lparr>g_buckets = (\<lambda>_. None), g_report = makeWindowLog now\<rparr>"

section \<open>Properties\<close>

text \<open>
  a handled event that reaches its handler always carries a plain object, whatever the modes
  say, and when the payload guard enforces, every field of the event's schema has its type and size.
\<close>

theorem guard_passes_only_objects:
  assumes "fst (socketEventGuard env u now p st) = Next" and "p_event p \<in> set HANDLED_EVENTS"
  shows "isPlainObject (p_payload p) \<and>
    (modeFromEnv env ''LIVE_SOCKET_GUARD_MODE'' ''log'' = ''enforce'' \<longrightarrow>
      (\<forall>rules. map_of SCHEMAS (p_event p) = Some rules \<longrightarrow>
        (\<forall>r \<in> set rules. field_conforms r (get_field (p_payload p) (f_name r)))))"
proof
  show "isPlainObject (p_payload p)"
    using assms by (auto simp: socketEventGuard_def Let_def reject_def split: if_splits)
  have "modeFromEnv env ''LIVE_SOCKET_GUARD_MODE'' ''log'' = ''enforce'' \<Longrightarrow>
      payloadProblem (p_event p) (p_payload p) = None"
    using assms
    by (auto simp: socketEventGuard_def Let_def reject_def split: if_splits prod.splits option.splits)
  then show "modeFromEnv env ''LIVE_SOCKET_GUARD_MODE'' ''log'' = ''enforce'' \<longrightarrow>
      (\<forall>rules. map_of SCHEMAS (p_event p) = Some rules \<longrightarrow>
        (\<forall>r \<in> set rules. field_conforms r (get_field (p_payload p) (f_name r))))"
    by (auto simp: payloadProblem_def first_problem_None_iff)
qed

theorem guard_passes_only_objects_witness:
  "isPlainObject (p_payload \<lparr>p_event = ''join_stream'', p_args = [Obj [(''streamId'', Str ''s1'')]]\<rparr>)"
proof -
  let ?p = "\<lparr>p_event = ''join_stream'', p_args = [Obj [(''streamId'', Str ''s1'')]]\<rparr>"
  have "fst (socketEventGuard enforcing ''u'' 5 ?p (fresh_guard 0)) = Next"
    by (simp add: socketEventGuard_def fresh_guard_def takeToken_def classOf_def class_cap_def
        class_rate_def RATE_CLASSES_def HANDLED_EVENTS_def p_payload_def isPlainObject_def
        payloadProblem_def SCHEMAS_def FID_def field_problem_def absent_def get_field_def)
  from guard_passes_only_objects [OF this] show ?thesis by (simp add: HANDLED_EVENTS_def)
qed

text \<open>
  on one socket, with rate limiting enforced, the packets of a class that get through between
  two moments never exceed the class's burst plus what the time between them refills.
\<close>

theorem socket_class_rate_bound:
  assumes "modeFromEnv env ''LIVE_RATE_LIMIT_MODE'' ''log'' = ''enforce''"
    and "cls \<in> fst ` set RATE_CLASSES"
    and "sorted (t0 # map fst ps @ [t1])"
  shows "of_nat (passed env u cls (fresh_guard t0) ps)
    \<le> class_cap cls + of_int (t1 - t0) * (class_rate cls / 1000)"
proof -
  have "bucket_ok (class_cap cls) (bucket_rate cls) (g_buckets (fresh_guard t0) cls) t0"
    using assms(2) by (auto simp: bucket_ok_def fresh_guard_def RATE_CLASSES_def class_cap_def class_rate_def)
  from passed_le_level [OF assms(1) this assms(3)] show ?thesis
    by (simp add: fresh_guard_def)
qed

theorem socket_class_rate_bound_witness:
  "of_nat (passed enforcing ''u'' ''join'' (fresh_guard 0)
      [(0, \<lparr>p_event = ''join_stream'', p_args = [Null]\<rparr>),
       (7, \<lparr>p_event = ''leave_stream'', p_args = [Obj [(''streamId'', Str ''s1'')]]\<rparr>)])
    \<le> (10 + 1 / 100 :: rat)"
  using socket_class_rate_bound [of enforcing "''join''" 0
      "[(0, \<lparr>p_event = ''join_stream'', p_args = [Null]\<rparr>),
        (7, \<lparr>p_event = ''leave_stream'', p_args = [Obj [(''streamId'', Str ''s1'')]]\<rparr>)]" 10 "''u''"]
  by (simp add: RATE_CLASSES_def class_cap_def class_rate_def del: passed.simps)

end
