(* ===== verification/Redis_Store.thy ===== *)
theory Redis_Store
  imports JS_Prelude
begin

text \<open>
  The interface to Redis, a service outside the repository. \<open>redis\<close> is the record of the client's
  commands the sources call; every function that talks to Redis takes it as an argument. The locales
  state the documented behaviour of the commands while the server answers (\<open>up\<close>); nothing is assumed
  about a call that fails. \<open>mem_redis\<close> is a concrete store that follows them.
\<close>

section \<open>The client\<close>

record set_opts =
  o_nx :: bool               \<comment> \<open>only if the key does not exist\<close>
  o_px :: "int option"       \<comment> \<open>time to live in milliseconds (\<open>EX\<close> gives seconds)\<close>

definition plain :: set_opts where "plain = \<lparr>o_nx = False, o_px = None\<rparr>"
definition ex_s :: "int \<Rightarrow> set_opts" where "ex_s s = \<lparr>o_nx = False, o_px = Some (s * 1000)\<rparr>"
definition nx_ex_s :: "int \<Rightarrow> set_opts" where "nx_ex_s s = \<lparr>o_nx = True, o_px = Some (s * 1000)\<rparr>"
definition nx_px_ms :: "int \<Rightarrow> set_opts" where "nx_px_ms ms = \<lparr>o_nx = True, o_px = Some ms\<rparr>"

text \<open>The life a stored key gets; without one it stays.\<close>

definition ttl_of :: "set_opts \<Rightarrow> int" where
  "ttl_of opt = (case o_px opt of None \<Rightarrow> 1 | Some p \<Rightarrow> p)"

text \<open>\<open>r_set\<close> answers whether the value was stored (\<open>'OK'\<close> against \<open>null\<close>).\<close>

record 'w redis =
  isOpen :: "'w \<Rightarrow> bool"
  r_get :: "string \<Rightarrow> ('w, jtext option) act"
  r_mget :: "string list \<Rightarrow> ('w, jtext option list) act"
  r_set :: "string \<Rightarrow> jtext \<Rightarrow> set_opts \<Rightarrow> ('w, bool) act"
  r_del :: "string list \<Rightarrow> ('w, nat) act"
  r_pexpire :: "string \<Rightarrow> int \<Rightarrow> ('w, nat) act"
  r_incrBy :: "string \<Rightarrow> int \<Rightarrow> ('w, int) act"
  r_zadd :: "string \<Rightarrow> string \<Rightarrow> int \<Rightarrow> ('w, nat) act"
  r_zrem :: "string \<Rightarrow> string \<Rightarrow> ('w, nat) act"
  r_zscore :: "string \<Rightarrow> string \<Rightarrow> ('w, int option) act"
  r_zdue :: "string \<Rightarrow> int \<Rightarrow> nat \<Rightarrow> ('w, string list) act"  \<comment> \<open>\<open>zRangeByScore(key, -inf, max, LIMIT 0 count)\<close>\<close>
  r_hset :: "string \<Rightarrow> string \<Rightarrow> jtext \<Rightarrow> ('w, nat) act"
  r_hget :: "string \<Rightarrow> string \<Rightarrow> ('w, jtext option) act"
  r_hdel :: "string \<Rightarrow> string \<Rightarrow> ('w, nat) act"
  r_smembers :: "string \<Rightarrow> ('w, string list) act"
  r_sismember :: "string \<Rightarrow> string \<Rightarrow> ('w, bool) act"
  r_lrange :: "string \<Rightarrow> ('w, jtext list) act"           \<comment> \<open>\<open>lRange(key, 0, -1)\<close>\<close>
  r_sadd :: "string \<Rightarrow> string list \<Rightarrow> ('w, nat) act"
  r_srem :: "string \<Rightarrow> string \<Rightarrow> ('w, nat) act"
  r_scard :: "string \<Rightarrow> ('w, nat) act"
  r_rpush :: "string \<Rightarrow> jtext \<Rightarrow> ('w, nat) act"
  r_ltrim :: "string \<Rightarrow> int \<Rightarrow> int \<Rightarrow> ('w, unit) act"
  r_hgetall :: "string \<Rightarrow> ('w, (string \<times> jtext) list) act"
  r_exists :: "string \<Rightarrow> ('w, bool) act"
  r_ttl :: "string \<Rightarrow> ('w, int) act"                      \<comment> \<open>seconds; -1 without expiry, -2 without key\<close>
  r_hexists :: "string \<Rightarrow> string \<Rightarrow> ('w, bool) act"
  r_lpush :: "string \<Rightarrow> jtext \<Rightarrow> ('w, nat) act"
  r_setGet :: "string \<Rightarrow> jtext \<Rightarrow> set_opts \<Rightarrow> ('w, jtext option) act"   \<comment> \<open>\<open>SET\<close> with \<open>GET\<close>: the value before\<close>
  r_hincrBy :: "string \<Rightarrow> string \<Rightarrow> int \<Rightarrow> ('w, int) act"

text \<open>\<open>if (redisClient.isOpen) m else n\<close>\<close>

definition ifOpen :: "'w redis \<Rightarrow> ('w, 'a) act \<Rightarrow> ('w, 'a) act \<Rightarrow> ('w, 'a) act" where
  "ifOpen R m n = (\<lambda>w. if isOpen R w then m w else n w)"

lemma ifOpen_run [act_simps]: "ifOpen R m n w = (if isOpen R w then m w else n w)"
  by (simp add: ifOpen_def)

lemma never_throws_ifOpen [intro]: "never_throws m \<Longrightarrow> never_throws n \<Longrightarrow> never_throws (ifOpen R m n)"
  by (simp add: never_throws_def ifOpen_def)

lemma keeps_ifOpen [keeps_intros]: "keeps Q m \<Longrightarrow> keeps Q n \<Longrightarrow> keeps Q (ifOpen R m n)"
  by (simp add: keeps_def ifOpen_def)

section \<open>String keys\<close>

text \<open>\<open>kv w k\<close>: the live value under \<open>k\<close> with its expiry time; \<open>clk w\<close> is the server's clock in ms.\<close>

locale redis_kv =
  fixes R :: "'w redis"
    and kv :: "'w \<Rightarrow> string \<Rightarrow> (jtext \<times> int option) option"
    and clk :: "'w \<Rightarrow> int"
    and up :: "'w \<Rightarrow> bool"
  assumes up_open: "up w \<Longrightarrow> isOpen R w"
    and get: "up w \<Longrightarrow> r_get R k w = (Inr (map_option fst (kv w k)), w)"
    and set_stored: "up w \<Longrightarrow> 0 < ttl_of opt \<Longrightarrow> \<not> (o_nx opt \<and> kv w k \<noteq> None) \<Longrightarrow>
      \<exists>w1. r_set R k v opt w = (Inr True, w1) \<and> up w1 \<and> clk w1 = clk w \<and>
        kv w1 = (kv w)(k \<mapsto> (v, map_option (\<lambda>p. clk w + p) (o_px opt)))"
    and set_refused: "up w \<Longrightarrow> o_nx opt \<Longrightarrow> kv w k \<noteq> None \<Longrightarrow> r_set R k v opt w = (Inr False, w)"
    and del: "up w \<Longrightarrow> \<exists>n w1. r_del R ks w = (Inr n, w1) \<and> up w1 \<and> clk w1 = clk w \<and>
        kv w1 = (\<lambda>k. if k \<in> set ks then None else kv w k)"
    and pexpire: "up w \<Longrightarrow> 0 < ms \<Longrightarrow> kv w k = Some (v, e) \<Longrightarrow>
      \<exists>w1. r_pexpire R k ms w = (Inr 1, w1) \<and> up w1 \<and> clk w1 = clk w \<and>
        kv w1 = (kv w)(k \<mapsto> (v, Some (clk w + ms)))"
begin

lemma set_plain_E:
  assumes "up w" and "\<not> o_nx opt" and "0 < ttl_of opt"
  obtains w1 where "r_set R k v opt w = (Inr True, w1)" "up w1" "clk w1 = clk w"
    "kv w1 = (kv w)(k \<mapsto> (v, map_option (\<lambda>p. clk w + p) (o_px opt)))"
  using set_stored [OF assms(1,3), of k v] assms(2) by blast

lemma set_plain:
  assumes "up w"
  obtains w1 where "r_set R k v plain w = (Inr True, w1)" "up w1" "clk w1 = clk w" "kv w1 = (kv w)(k \<mapsto> (v, None))"
  using set_stored [OF assms, of plain k v] that by (auto simp: plain_def ttl_of_def)

lemma set_ex:
  assumes "up w" and "0 < s"
  obtains w1 where "r_set R k v (ex_s s) w = (Inr True, w1)" "up w1" "clk w1 = clk w"
    "kv w1 = (kv w)(k \<mapsto> (v, Some (clk w + s * 1000)))"
  using set_stored [OF assms(1), of "ex_s s" k v] assms(2) that by (auto simp: ex_s_def ttl_of_def)

lemma del_E:
  assumes "up w"
  obtains n w1 where "r_del R ks w = (Inr n, w1)" "up w1" "clk w1 = clk w"
    "kv w1 = (\<lambda>k. if k \<in> set ks then None else kv w k)"
  using del [OF assms, of ks] by blast

text \<open>\<open>SET NX\<close> as a claim: it succeeds exactly when the key is free, and then the key is taken.\<close>

lemma setnx_claim:
  assumes "up w" and "o_nx opt" and "0 < ttl_of opt"
  obtains w1 where "r_set R k v opt w = (Inr (kv w k = None), w1)" "up w1" "clk w1 = clk w"
    "kv w1 = (if kv w k = None then (kv w)(k \<mapsto> (v, map_option (\<lambda>p. clk w + p) (o_px opt))) else kv w)"
proof (cases "kv w k = None")
  case True
  then obtain w1 where "r_set R k v opt w = (Inr True, w1)" "up w1" "clk w1 = clk w"
      "kv w1 = (kv w)(k \<mapsto> (v, map_option (\<lambda>p. clk w + p) (o_px opt)))"
    using set_stored [OF assms(1,3), of k v] by blast
  with True that [of w1] show thesis by simp
next
  case False
  then have "r_set R k v opt w = (Inr False, w)"
    by (rule set_refused [OF assms(1,2)])
  moreover have "kv w = (if kv w k = None then (kv w)(k \<mapsto> (v, map_option (\<lambda>p. clk w + p) (o_px opt))) else kv w)"
    using False by (rule if_not_P [symmetric])
  ultimately show thesis
    using that [of w] False assms(1) by (simp only: simp_thms)
qed

end

section \<open>Sorted sets and hashes\<close>

locale redis_deadlines = redis_kv R kv clk up
  for R :: "'w redis" and kv clk up +
  fixes zs :: "'w \<Rightarrow> string \<Rightarrow> string \<Rightarrow> int option"
    and hs :: "'w \<Rightarrow> string \<Rightarrow> string \<Rightarrow> jtext option"
  assumes zadd: "up w \<Longrightarrow> \<exists>n w1. r_zadd R z m sc w = (Inr n, w1) \<and> up w1 \<and> hs w1 = hs w \<and>
      zs w1 = (zs w)(z := (zs w z)(m \<mapsto> sc))"
    and zrem: "up w \<Longrightarrow> \<exists>w1. r_zrem R z m w = (Inr (if zs w z m = None then 0 else 1), w1) \<and>
      up w1 \<and> hs w1 = hs w \<and> zs w1 = (zs w)(z := (zs w z)(m := None))"
    and zscore: "up w \<Longrightarrow> r_zscore R z m w = (Inr (zs w z m), w)"
    and zdue: "up w \<Longrightarrow> \<exists>ms. r_zdue R z t n w = (Inr ms, w) \<and> distinct ms \<and> length ms \<le> n \<and>
      (\<forall>m \<in> set ms. \<exists>sc. zs w z m = Some sc \<and> sc \<le> t)"
    and hset: "up w \<Longrightarrow> \<exists>n w1. r_hset R h f v w = (Inr n, w1) \<and> up w1 \<and> zs w1 = zs w \<and>
      hs w1 = (hs w)(h := (hs w h)(f \<mapsto> v))"
    and hget: "up w \<Longrightarrow> r_hget R h f w = (Inr (hs w h f), w)"
    and hdel: "up w \<Longrightarrow> \<exists>n w1. r_hdel R h f w = (Inr n, w1) \<and> up w1 \<and> zs w1 = zs w \<and>
      hs w1 = (hs w)(h := (hs w h)(f := None))"

section \<open>Sets and lists\<close>

text \<open>Every key is used with one type only, as the key names of the sources ensure.\<close>

locale redis_collections = redis_kv R kv clk up
  for R :: "'w redis" and kv clk up +
  fixes ss :: "'w \<Rightarrow> string \<Rightarrow> string set"
    and ls :: "'w \<Rightarrow> string \<Rightarrow> jtext list"
  assumes smembers: "up w \<Longrightarrow> \<exists>xs. r_smembers R k w = (Inr xs, w) \<and> distinct xs \<and> set xs = ss w k"
    and sismember: "up w \<Longrightarrow> r_sismember R k x w = (Inr (x \<in> ss w k), w)"
    and lrange: "up w \<Longrightarrow> r_lrange R k w = (Inr (ls w k), w)"
    and del_collections: "up w \<Longrightarrow> r_del R ks w = (r, w1) \<Longrightarrow>
      ss w1 = (\<lambda>k. if k \<in> set ks then {} else ss w k) \<and> ls w1 = (\<lambda>k. if k \<in> set ks then [] else ls w k)"
    and sadd: "up w \<Longrightarrow> \<exists>n w1. r_sadd R k xs w = (Inr n, w1) \<and> up w1 \<and> clk w1 = clk w \<and> kv w1 = kv w \<and>
      ls w1 = ls w \<and> ss w1 = (ss w)(k := ss w k \<union> set xs)"
    and srem: "up w \<Longrightarrow> \<exists>n w1. r_srem R k x w = (Inr n, w1) \<and> up w1 \<and> clk w1 = clk w \<and> kv w1 = kv w \<and>
      ls w1 = ls w \<and> ss w1 = (ss w)(k := ss w k - {x})"
    and set_collections: "up w \<Longrightarrow> ss w k = {} \<Longrightarrow> ls w k = [] \<Longrightarrow> r_set R k v opt w = (b, w1) \<Longrightarrow>
      ss w1 = ss w \<and> ls w1 = ls w"
    and incr_collections: "up w \<Longrightarrow> ss w k = {} \<Longrightarrow> ls w k = [] \<Longrightarrow> r_incrBy R k d w = (i, w1) \<Longrightarrow>
      up w1 \<and> ss w1 = ss w \<and> ls w1 = ls w"
    and pexpire_collections: "up w \<Longrightarrow> 0 < ms \<Longrightarrow> r_pexpire R k ms w = (r, w1) \<Longrightarrow>
      up w1 \<and> ss w1 = ss w \<and> ls w1 = ls w"

locale redis_lists = redis_collections R kv clk up ss ls
  for R :: "'w redis" and kv clk up ss ls +
  assumes rpush: "up w \<Longrightarrow> \<exists>n w1. r_rpush R k v w = (Inr n, w1) \<and> up w1 \<and> kv w1 = kv w \<and> ss w1 = ss w \<and>
      ls w1 = (ls w)(k := ls w k @ [v])"
    and ltrim_last: "up w \<Longrightarrow> 0 < n \<Longrightarrow> \<exists>w1. r_ltrim R k (- int n) (- 1) w = (Inr (), w1) \<and> up w1 \<and> kv w1 = kv w \<and>
      ss w1 = ss w \<and> ls w1 = (ls w)(k := drop (length (ls w k) - n) (ls w k))"
begin

text \<open>Append and keep the last \<open>n\<close>.\<close>

lemma rpush_ltrim:
  assumes "up w" and "0 < n"
  obtains m w1 w2 where "r_rpush R k v w = (Inr m, w1)" "r_ltrim R k (- int n) (- 1) w1 = (Inr (), w2)" "up w2"
    "kv w2 = kv w" "ls w2 = (ls w)(k := drop (Suc (length (ls w k)) - n) (ls w k @ [v]))"
proof -
  obtain m w1 where 1: "r_rpush R k v w = (Inr m, w1)" "up w1" "kv w1 = kv w" "ls w1 = (ls w)(k := ls w k @ [v])"
    using rpush [OF assms(1)] by blast
  obtain w2 where "r_ltrim R k (- int n) (- 1) w1 = (Inr (), w2)" "up w2" "kv w2 = kv w1"
      "ls w2 = (ls w1)(k := drop (length (ls w1 k) - n) (ls w1 k))"
    using ltrim_last [OF 1(2) assms(2)] by blast
  with 1 show thesis by (intro that [OF 1(1)]) auto
qed

end

section \<open>Counters\<close>

text \<open>\<open>INCRBY\<close>: a missing counter counts from 0, the expiry stays.\<close>

definition counter :: "(jtext \<times> int option) option \<Rightarrow> int option" where
  "counter v = (case v of None \<Rightarrow> Some 0 | Some (t, _) \<Rightarrow> Number_of t)"

locale redis_counters = redis_kv R kv clk up
  for R :: "'w redis" and kv clk up +
  assumes incr: "up w \<Longrightarrow> counter (kv w k) = Some n \<Longrightarrow>
      \<exists>w1. r_incrBy R k d w = (Inr (n + d), w1) \<and> up w1 \<and> clk w1 = clk w \<and>
        kv w1 = (kv w)(k \<mapsto> (Raw (int_str (n + d)), case kv w k of None \<Rightarrow> None | Some (_, e) \<Rightarrow> e))"

section \<open>A store that follows the laws\<close>

record mem =
  m_kv :: "string \<Rightarrow> (jtext \<times> int option) option"
  m_z :: "string \<Rightarrow> (string \<times> int) list"
  m_h :: "string \<Rightarrow> string \<Rightarrow> jtext option"
  m_hk :: "string \<Rightarrow> string list"
  m_s :: "string \<Rightarrow> string list"
  m_l :: "string \<Rightarrow> jtext list"
  m_clk :: int

definition mem0 :: "int \<Rightarrow> mem" where
  "mem0 t = \<lparr>m_kv = (\<lambda>_. None), m_z = (\<lambda>_. []), m_h = (\<lambda>_ _. None), m_hk = (\<lambda>_. []), m_s = (\<lambda>_. []),
     m_l = (\<lambda>_. []), m_clk = t\<rparr>"

definition mem_live :: "('x mem_scheme) \<Rightarrow> string \<Rightarrow> (jtext \<times> int option) option" where
  "mem_live m k =
     (case m_kv m k of
        Some (v, Some e) \<Rightarrow> if m_clk m < e then Some (v, Some e) else None
      | x \<Rightarrow> x)"

definition mem_zs :: "('x mem_scheme) \<Rightarrow> string \<Rightarrow> string \<Rightarrow> int option" where
  "mem_zs m z = map_of (m_z m z)"

text \<open>An expiry of zero or less removes the key at once, as the server does.\<close>

definition mem_redis :: "('x mem_scheme) redis" where
  "mem_redis = \<lparr>
     isOpen = (\<lambda>_. True),
     r_get = (\<lambda>k m. (Inr (map_option fst (mem_live m k)), m)),
     r_mget = (\<lambda>ks m. (Inr (map (\<lambda>k. map_option fst (mem_live m k)) ks), m)),
     r_set = (\<lambda>k v opt m.
        if o_nx opt \<and> mem_live m k \<noteq> None then (Inr False, m)
        else (Inr True, m\<lparr>m_kv := (mem_live m)(k \<mapsto> (v, map_option (\<lambda>p. m_clk m + p) (o_px opt)))\<rparr>)),
     r_del = (\<lambda>ks m.
        (Inr (length (filter (\<lambda>k. mem_live m k \<noteq> None) (remdups ks))),
         m\<lparr>m_kv := (\<lambda>k. if k \<in> set ks then None else mem_live m k),
           m_z := (\<lambda>k. if k \<in> set ks then [] else m_z m k),
           m_h := (\<lambda>k. if k \<in> set ks then (\<lambda>_. None) else m_h m k),
           m_s := (\<lambda>k. if k \<in> set ks then [] else m_s m k),
           m_l := (\<lambda>k. if k \<in> set ks then [] else m_l m k)\<rparr>)),
     r_pexpire = (\<lambda>k ms m.
        case mem_live m k of
          None \<Rightarrow> (Inr 0, m)
        | Some (v, _) \<Rightarrow> (Inr 1, m\<lparr>m_kv := (mem_live m)(k \<mapsto> (v, Some (m_clk m + ms)))\<rparr>)),
     r_incrBy = (\<lambda>k d m.
        let old = counter (mem_live m k);
            e = (case mem_live m k of Some (_, e) \<Rightarrow> e | None \<Rightarrow> None)
        in case old of
             None \<Rightarrow> (Inl (Error ''ERR value is not an integer or out of range''), m)
           | Some i \<Rightarrow> (Inr (i + d), m\<lparr>m_kv := (mem_live m)(k \<mapsto> (Raw (int_str (i + d)), e))\<rparr>)),
     r_zadd = (\<lambda>z mb sc m.
        (Inr (if mem_zs m z mb = None then 1 else 0),
         m\<lparr>m_z := (m_z m)(z := (mb, sc) # filter (\<lambda>(x, _). x \<noteq> mb) (m_z m z))\<rparr>)),
     r_zrem = (\<lambda>z mb m.
        (Inr (if mem_zs m z mb = None then 0 else 1),
         m\<lparr>m_z := (m_z m)(z := filter (\<lambda>(x, _). x \<noteq> mb) (m_z m z))\<rparr>)),
     r_zscore = (\<lambda>z mb m. (Inr (mem_zs m z mb), m)),
     r_zdue = (\<lambda>z t n m.
        (Inr (List.take n (filter (\<lambda>x. case mem_zs m z x of None \<Rightarrow> False | Some sc \<Rightarrow> sc \<le> t)
                (sort_key (\<lambda>x. the (mem_zs m z x)) (remdups (map fst (m_z m z)))))), m)),
     r_hset = (\<lambda>h f v m. (Inr 1, m\<lparr>m_h := (m_h m)(h := (m_h m h)(f \<mapsto> v)),
        m_hk := (m_hk m)(h := if f \<in> set (m_hk m h) then m_hk m h else m_hk m h @ [f])\<rparr>)),
     r_hget = (\<lambda>h f m. (Inr (m_h m h f), m)),
     r_hdel = (\<lambda>h f m. (Inr 1, m\<lparr>m_h := (m_h m)(h := (m_h m h)(f := None))\<rparr>)),
     r_smembers = (\<lambda>k m. (Inr (remdups (m_s m k)), m)),
     r_sismember = (\<lambda>k x m. (Inr (x \<in> set (m_s m k)), m)),
     r_lrange = (\<lambda>k m. (Inr (m_l m k), m)),
     r_sadd = (\<lambda>k xs m. (Inr (length (filter (\<lambda>x. x \<notin> set (m_s m k)) (remdups xs))),
        m\<lparr>m_s := (m_s m)(k := m_s m k @ filter (\<lambda>x. x \<notin> set (m_s m k)) xs)\<rparr>)),
     r_srem = (\<lambda>k x m. (Inr (if x \<in> set (m_s m k) then 1 else 0),
        m\<lparr>m_s := (m_s m)(k := filter (\<lambda>y. y \<noteq> x) (m_s m k))\<rparr>)),
     r_scard = (\<lambda>k m. (Inr (length (remdups (m_s m k))), m)),
     r_rpush = (\<lambda>k v m. (Inr (Suc (length (m_l m k))), m\<lparr>m_l := (m_l m)(k := m_l m k @ [v])\<rparr>)),
     r_ltrim = (\<lambda>k a b m.
        let n = int (length (m_l m k));
            pos = (\<lambda>i. if i < 0 then max 0 (n + i) else i)
        in (Inr (), m\<lparr>m_l := (m_l m)(k := List.drop (nat (pos a)) (List.take (nat (pos b + 1)) (m_l m k)))\<rparr>)),
     r_hgetall = (\<lambda>h m. (Inr (List.map_filter (\<lambda>f. map_option (Pair f) (m_h m h f)) (m_hk m h)), m)),
     r_exists = (\<lambda>k m. (Inr (mem_live m k \<noteq> None \<or> m_s m k \<noteq> [] \<or> m_l m k \<noteq> [] \<or> m_z m k \<noteq> [] \<or>
        list_ex (\<lambda>f. m_h m k f \<noteq> None) (m_hk m k)), m)),
     r_ttl = (\<lambda>k m. (Inr (case mem_live m k of None \<Rightarrow> - 2 | Some (_, None) \<Rightarrow> - 1
        | Some (_, Some e) \<Rightarrow> (e - m_clk m) div 1000), m)),
     r_hexists = (\<lambda>h f m. (Inr (m_h m h f \<noteq> None), m)),
     r_lpush = (\<lambda>k v m. (Inr (Suc (length (m_l m k))), m\<lparr>m_l := (m_l m)(k := v # m_l m k)\<rparr>)),
     r_setGet = (\<lambda>k v opt m. (Inr (map_option fst (mem_live m k)),
        m\<lparr>m_kv := (mem_live m)(k \<mapsto> (v, map_option (\<lambda>p. m_clk m + p) (o_px opt)))\<rparr>)),
     r_hincrBy = (\<lambda>h f d m.
        case (case m_h m h f of None \<Rightarrow> Some 0 | Some t \<Rightarrow> Number_of t) of
          None \<Rightarrow> (Inl (Error ''ERR hash value is not an integer''), m)
        | Some i \<Rightarrow> (Inr (i + d), m\<lparr>m_h := (m_h m)(h := (m_h m h)(f \<mapsto> Raw (int_str (i + d)))),
            m_hk := (m_hk m)(h := if f \<in> set (m_hk m h) then m_hk m h else m_hk m h @ [f])\<rparr>))\<rparr>"

lemma mem_open: "isOpen mem_redis m"
  by (simp add: mem_redis_def)

lemma mem_live_mem0 [simp]: "mem_live (mem0 t) = (\<lambda>_. None)"
  by (simp add: mem_live_def mem0_def fun_eq_iff)

lemma mem_live_put:
  "(case e of None \<Rightarrow> True | Some t \<Rightarrow> m_clk m < t) \<Longrightarrow>
   mem_live (m\<lparr>m_kv := (mem_live m)(k \<mapsto> (v, e))\<rparr>) = (mem_live m)(k \<mapsto> (v, e))"
  by (rule ext) (auto simp: mem_live_def split: option.splits prod.splits)

lemma mem_live_drop:
  "m_clk m1 = m_clk m \<Longrightarrow> m_kv m1 = (\<lambda>k. if P k then None else mem_live m k) \<Longrightarrow>
   mem_live m1 = (\<lambda>k. if P k then None else mem_live m k)"
  by (rule ext) (auto simp: mem_live_def split: option.splits prod.splits)

lemma map_of_drop: "map_of (filter (\<lambda>(x, _). x \<noteq> k) xs) = (map_of xs)(k := None)"
  by (induction xs) (auto simp: fun_eq_iff)

interpretation mem: redis_kv mem_redis mem_live m_clk "\<lambda>_. True"
proof
  fix w :: "'x mem_scheme" and k v opt ks ms e
  show "isOpen mem_redis w" by (rule mem_open)
  show "r_get mem_redis k w = (Inr (map_option fst (mem_live w k)), w)"
    by (simp add: mem_redis_def)
  show "\<exists>w1. r_set mem_redis k v opt w = (Inr True, w1) \<and> True \<and> m_clk w1 = m_clk w \<and>
      mem_live w1 = (mem_live w)(k \<mapsto> (v, map_option (\<lambda>p. m_clk w + p) (o_px opt)))"
    if "0 < ttl_of opt" and "\<not> (o_nx opt \<and> mem_live w k \<noteq> None)"
    using that mem_live_put [of w "map_option (\<lambda>p. m_clk w + p) (o_px opt)" k v]
    by (auto simp: mem_redis_def ttl_of_def split: option.splits)
  show "r_set mem_redis k v opt w = (Inr False, w)" if "o_nx opt" and "mem_live w k \<noteq> None"
    using that by (simp add: mem_redis_def)
  show "\<exists>n w1. r_del mem_redis ks w = (Inr n, w1) \<and> True \<and> m_clk w1 = m_clk w \<and>
      mem_live w1 = (\<lambda>k. if k \<in> set ks then None else mem_live w k)"
    by (simp add: mem_redis_def) (rule mem_live_drop, simp_all)
  show "\<exists>w1. r_pexpire mem_redis k ms w = (Inr 1, w1) \<and> True \<and> m_clk w1 = m_clk w \<and>
      mem_live w1 = (mem_live w)(k \<mapsto> (v, Some (m_clk w + ms)))"
    if "0 < ms" and "mem_live w k = Some (v, e)"
    using that mem_live_put [of w "Some (m_clk w + ms)" k v] by (simp add: mem_redis_def)
qed

interpretation memd: redis_deadlines mem_redis mem_live m_clk "\<lambda>_. True" mem_zs m_h
proof
  fix w :: "'x mem_scheme" and z mb sc t n h f v
  show "\<exists>n w1. r_zadd mem_redis z mb sc w = (Inr n, w1) \<and> True \<and> m_h w1 = m_h w \<and>
      mem_zs w1 = (mem_zs w)(z := (mem_zs w z)(mb \<mapsto> sc))"
    by (auto simp: mem_redis_def mem_zs_def map_of_drop fun_eq_iff)
  show "\<exists>w1. r_zrem mem_redis z mb w = (Inr (if mem_zs w z mb = None then 0 else 1), w1) \<and> True \<and>
      m_h w1 = m_h w \<and> mem_zs w1 = (mem_zs w)(z := (mem_zs w z)(mb := None))"
    by (auto simp: mem_redis_def mem_zs_def map_of_drop fun_eq_iff)
  show "r_zscore mem_redis z mb w = (Inr (mem_zs w z mb), w)"
    by (simp add: mem_redis_def)
  show "\<exists>ms. r_zdue mem_redis z t n w = (Inr ms, w) \<and> distinct ms \<and> length ms \<le> n \<and>
      (\<forall>m\<in>set ms. \<exists>sc. mem_zs w z m = Some sc \<and> sc \<le> t)"
    by (auto simp: mem_redis_def dest!: in_set_takeD split: option.splits)
  show "\<exists>n w1. r_hset mem_redis h f v w = (Inr n, w1) \<and> True \<and> mem_zs w1 = mem_zs w \<and>
      m_h w1 = (m_h w)(h := (m_h w h)(f \<mapsto> v))"
    by (simp add: mem_redis_def mem_zs_def fun_eq_iff)
  show "r_hget mem_redis h f w = (Inr (m_h w h f), w)"
    by (simp add: mem_redis_def)
  show "\<exists>n w1. r_hdel mem_redis h f w = (Inr n, w1) \<and> True \<and> mem_zs w1 = mem_zs w \<and>
      m_h w1 = (m_h w)(h := (m_h w h)(f := None))"
    by (simp add: mem_redis_def mem_zs_def fun_eq_iff)
qed

definition mem_ss :: "'x mem_scheme \<Rightarrow> string \<Rightarrow> string set" where
  "mem_ss m k = set (m_s m k)"

lemma mem_live_same: "m_kv m1 = m_kv m \<Longrightarrow> m_clk m1 = m_clk m \<Longrightarrow> mem_live m1 = mem_live m"
  by (rule ext) (simp add: mem_live_def split: option.split)

interpretation memc: redis_collections mem_redis mem_live m_clk "\<lambda>_. True" mem_ss m_l
proof
  fix w w1 :: "'x mem_scheme" and k x xs ks r v opt
  show "\<exists>xs. r_smembers mem_redis k w = (Inr xs, w) \<and> distinct xs \<and> set xs = mem_ss w k"
    by (simp add: mem_redis_def mem_ss_def)
  show "r_sismember mem_redis k x w = (Inr (x \<in> mem_ss w k), w)"
    by (simp add: mem_redis_def mem_ss_def)
  show "r_lrange mem_redis k w = (Inr (m_l w k), w)"
    by (simp add: mem_redis_def)
  show "mem_ss w1 = (\<lambda>k. if k \<in> set ks then {} else mem_ss w k) \<and>
      m_l w1 = (\<lambda>k. if k \<in> set ks then [] else m_l w k)"
    if "r_del mem_redis ks w = (r, w1)"
    using that by (auto simp: mem_redis_def mem_ss_def fun_eq_iff)
  show "\<exists>n w1. r_sadd mem_redis k xs w = (Inr n, w1) \<and> True \<and> m_clk w1 = m_clk w \<and> mem_live w1 = mem_live w \<and>
      m_l w1 = m_l w \<and> mem_ss w1 = (mem_ss w)(k := mem_ss w k \<union> set xs)"
    by (auto simp: mem_redis_def mem_ss_def fun_eq_iff intro!: mem_live_same [THEN fun_cong])
  show "\<exists>n w1. r_srem mem_redis k x w = (Inr n, w1) \<and> True \<and> m_clk w1 = m_clk w \<and> mem_live w1 = mem_live w \<and>
      m_l w1 = m_l w \<and> mem_ss w1 = (mem_ss w)(k := mem_ss w k - {x})"
    by (auto simp: mem_redis_def mem_ss_def fun_eq_iff intro!: mem_live_same [THEN fun_cong])
  show "mem_ss w1 = mem_ss w \<and> m_l w1 = m_l w"
    if "r_set mem_redis k v opt w = (b, w1)" for b
    using that by (auto simp: mem_redis_def mem_ss_def fun_eq_iff split: if_splits)
  show "True \<and> mem_ss w1 = mem_ss w \<and> m_l w1 = m_l w" if "r_incrBy mem_redis k d w = (i, w1)" for i d
    using that by (auto simp: mem_redis_def mem_ss_def fun_eq_iff Let_def split: option.splits)
  show "True \<and> mem_ss w1 = mem_ss w \<and> m_l w1 = m_l w" if "r_pexpire mem_redis k ms w = (r, w1)" for ms
    using that by (auto simp: mem_redis_def mem_ss_def fun_eq_iff split: option.splits prod.splits)
qed

interpretation memls: redis_lists mem_redis mem_live m_clk "\<lambda>_. True" mem_ss m_l
proof
  fix w :: "'x mem_scheme" and k v and n :: nat
  show "\<exists>n w1. r_rpush mem_redis k v w = (Inr n, w1) \<and> True \<and> mem_live w1 = mem_live w \<and> mem_ss w1 = mem_ss w \<and>
      m_l w1 = (m_l w)(k := m_l w k @ [v])"
    by (auto simp: mem_redis_def mem_ss_def fun_eq_iff intro!: mem_live_same [THEN fun_cong])
  have "nat (max 0 (int l - int n)) = l - n" for l by (simp add: max_def nat_diff_distrib)
  moreover have "nat (max 0 (int l - 1) + 1) = (if l = 0 then 1 else l)" for l by (simp add: max_def)
  ultimately show "\<exists>w1. r_ltrim mem_redis k (- int n) (- 1) w = (Inr (), w1) \<and> True \<and> mem_live w1 = mem_live w \<and>
      mem_ss w1 = mem_ss w \<and> m_l w1 = (m_l w)(k := drop (length (m_l w k) - n) (m_l w k))" if "0 < n"
    using that by (auto simp: mem_redis_def Let_def mem_ss_def fun_eq_iff intro!: mem_live_same [THEN fun_cong])
qed

interpretation memn: redis_counters mem_redis mem_live m_clk "\<lambda>_. True"
proof
  fix w :: "'x mem_scheme" and k n d
  assume c: "counter (mem_live w k) = Some n"
  define e where "e = (case mem_live w k of None \<Rightarrow> None | Some (_, e) \<Rightarrow> e)"
  have e: "case e of None \<Rightarrow> True | Some t \<Rightarrow> m_clk w < t"
    by (auto simp: e_def mem_live_def split: option.splits)
  have "r_incrBy mem_redis k d w = (Inr (n + d), w\<lparr>m_kv := (mem_live w)(k \<mapsto> (Raw (int_str (n + d)), e))\<rparr>)"
    using c by (simp add: mem_redis_def Let_def e_def split: option.split)
  then show "\<exists>w1. r_incrBy mem_redis k d w = (Inr (n + d), w1) \<and> True \<and> m_clk w1 = m_clk w \<and>
      mem_live w1 = (mem_live w)(k \<mapsto> (Raw (int_str (n + d)), case mem_live w k of None \<Rightarrow> None | Some (_, e) \<Rightarrow> e))"
    using mem_live_put [OF e, of k "Raw (int_str (n + d))"] by (auto simp: e_def)
qed

lemma counter_int_str [simp]: "counter (Some (Raw (int_str n), e)) = Some n"
  by (simp add: counter_def Number_of_def)

text \<open>Time passes: keys whose expiry is reached are gone.\<close>

definition mem_tick :: "int \<Rightarrow> 'x mem_scheme \<Rightarrow> 'x mem_scheme" where
  "mem_tick d m = m\<lparr>m_clk := m_clk m + d\<rparr>"

lemma mem_live_tick:
  "0 \<le> d \<Longrightarrow> mem_live (mem_tick d m) k =
     (case mem_live m k of
        Some (v, Some e) \<Rightarrow> if m_clk m + d < e then Some (v, Some e) else None
      | x \<Rightarrow> x)"
  by (auto simp: mem_live_def mem_tick_def split: option.splits prod.splits)

end
