(* ===== verification/Cluster.thy ===== *)
theory Cluster
  imports Redis_Store
begin

text \<open>
  The multi-node primitives of \<open>services/cluster.service.js\<close>: the shutdown flag and hooks, the
  leader lock each singleton loop takes in Redis, and the durable timers whose deadlines live in a
  Redis sorted set and are claimed exactly once by whichever node fires them.
\<close>

section \<open>A node\<close>

text \<open>A local \<open>setTimeout\<close> handle: when it is due, the payload it carries, whether Redis has the deadline.\<close>

record local_timer =
  lt_at :: int
  lt_payload :: jsval
  lt_persisted :: bool

record 'w node =
  nd_id :: string                                     \<comment> \<open>\<open>NODE_ID\<close>\<close>
  shuttingDown :: bool
  shutdownHooks :: "(string \<times> ('w, unit) act) list"
  heldLocks :: "string list"
  localTimers :: "string \<Rightarrow> local_timer option"

record cluster_cfg =
  LEADER_TTL_MS :: int
  local_when_down :: bool                             \<comment> \<open>\<open>LIVE_LEADER_REDIS_DOWN=local\<close>\<close>

definition new_node :: "string \<Rightarrow> 'w node" where
  "new_node i = \<lparr>nd_id = i, shuttingDown = False, shutdownHooks = [], heldLocks = [],
     localTimers = (\<lambda>_. None)\<rparr>"

section \<open>Shutdown\<close>

definition beginShutdown :: "'w node \<Rightarrow> 'w node" where
  "beginShutdown nd = nd\<lparr>shuttingDown := True\<rparr>"

definition onShutdown :: "string \<Rightarrow> ('w, unit) act \<Rightarrow> 'w node \<Rightarrow> 'w node" where
  "onShutdown name fn nd = nd\<lparr>shutdownHooks := shutdownHooks nd @ [(name, fn)]\<rparr>"

definition runShutdownHooks :: "'w node \<Rightarrow> 'w \<Rightarrow> 'w node \<times> 'w" where
  "runShutdownHooks nd w =
     (beginShutdown nd, snd (forA (\<lambda>(name, fn). quietly fn) (rev (shutdownHooks nd)) w))"

section \<open>The leader lock\<close>

definition leaderKey :: "string \<Rightarrow> string" where
  "leaderKey name = ''live:leader:'' @ name"

lemma leaderKey_eq [simp]: "leaderKey a = leaderKey b \<longleftrightarrow> a = b"
  by (simp add: leaderKey_def)

text \<open>The two Lua scripts; Redis runs a script atomically.\<close>

definition renew_lua :: "'w redis \<Rightarrow> string \<Rightarrow> string \<Rightarrow> int \<Rightarrow> ('w, nat) act" where
  "renew_lua R key me ttl =
     bindA (r_get R key) (\<lambda>v. if v = Some (Raw me) then r_pexpire R key ttl else ret 0)"

definition release_lua :: "'w redis \<Rightarrow> string \<Rightarrow> string \<Rightarrow> ('w, nat) act" where
  "release_lua R key me =
     bindA (r_get R key) (\<lambda>v. if v = Some (Raw me) then r_del R [key] else ret 0)"

definition redisDownVerdict :: "cluster_cfg \<Rightarrow> bool" where
  "redisDownVerdict cfg = local_when_down cfg"

text \<open>The \<open>try\<close> block of \<open>isLeader\<close>: take the key if it is free, else renew it if it is ours.\<close>

definition try_lead :: "'w redis \<Rightarrow> cluster_cfg \<Rightarrow> string \<Rightarrow> string \<Rightarrow> ('w, bool) act" where
  "try_lead R cfg me name =
     bindA (r_set R (leaderKey name) (Raw me) (nx_px_ms (LEADER_TTL_MS cfg)))
       (\<lambda>got. if got then ret True
              else bindA (renew_lua R (leaderKey name) me (LEADER_TTL_MS cfg))
                     (\<lambda>renewed. ret (renewed = 1)))"

definition set_add :: "'a \<Rightarrow> 'a list \<Rightarrow> 'a list" where
  "set_add x xs = (if x \<in> set xs then xs else xs @ [x])"

lemma set_set_add [simp]: "set (set_add x xs) = insert x (set xs)"
  by (auto simp: set_add_def)

definition isLeader ::
  "'w redis \<Rightarrow> cluster_cfg \<Rightarrow> string \<Rightarrow> 'w node \<Rightarrow> 'w \<Rightarrow> bool \<times> 'w node \<times> 'w" where
  "isLeader R cfg name nd w =
     (if shuttingDown nd then (False, nd, w)
      else if \<not> isOpen R w then (redisDownVerdict cfg, nd, w)
      else case try_lead R cfg (nd_id nd) name w of
        (Inl err, w1) \<Rightarrow> (redisDownVerdict cfg, nd, w1)
      | (Inr leader, w1) \<Rightarrow>
          (leader,
           nd\<lparr>heldLocks := (if leader then set_add name (heldLocks nd) else removeAll name (heldLocks nd))\<rparr>,
           w1))"

definition runAsLeader ::
  "'w redis \<Rightarrow> cluster_cfg \<Rightarrow> string \<Rightarrow> ('w, 'a) act \<Rightarrow> 'w node \<Rightarrow> 'w \<Rightarrow>
     (exn + 'a option) \<times> 'w node \<times> 'w" where
  "runAsLeader R cfg name fn nd w =
     (case isLeader R cfg name nd w of
        (False, nd1, w1) \<Rightarrow> (Inr None, nd1, w1)
      | (True, nd1, w1) \<Rightarrow>
          (case fn w1 of (Inl e, w2) \<Rightarrow> (Inl e, nd1, w2) | (Inr x, w2) \<Rightarrow> (Inr (Some x), nd1, w2)))"

definition releaseLeaderLocks :: "'w redis \<Rightarrow> 'w node \<Rightarrow> 'w \<Rightarrow> 'w node \<times> 'w" where
  "releaseLeaderLocks R nd w =
     (if \<not> isOpen R w then (nd, w)
      else (nd\<lparr>heldLocks := []\<rparr>,
            snd (forA (\<lambda>name. quietly (release_lua R (leaderKey name) (nd_id nd))) (heldLocks nd) w)))"

lemma isLeader_id [simp]: "nd_id (fst (snd (isLeader R cfg name nd w))) = nd_id nd"
  by (simp add: isLeader_def split: prod.split sum.split)

lemma releaseLeaderLocks_id [simp]: "nd_id (fst (releaseLeaderLocks R nd w)) = nd_id nd"
  by (simp add: releaseLeaderLocks_def)

text \<open>What the lock does while Redis answers.\<close>

context redis_kv
begin

lemma try_lead_free:
  assumes "up w" and "0 < LEADER_TTL_MS cfg" and "kv w (leaderKey name) = None"
  obtains w1 where "try_lead R cfg me name w = (Inr True, w1)" "up w1" "clk w1 = clk w"
    "kv w1 = (kv w)(leaderKey name \<mapsto> (Raw me, Some (clk w + LEADER_TTL_MS cfg)))"
proof -
  obtain w1 where "r_set R (leaderKey name) (Raw me) (nx_px_ms (LEADER_TTL_MS cfg)) w = (Inr True, w1)"
      "up w1" "clk w1 = clk w"
      "kv w1 = (kv w)(leaderKey name \<mapsto> (Raw me, Some (clk w + LEADER_TTL_MS cfg)))"
    using setnx_claim [OF assms(1), of "nx_px_ms (LEADER_TTL_MS cfg)" "leaderKey name" "Raw me"] assms(2,3)
    by (auto simp: nx_px_ms_def ttl_of_def)
  then show thesis
    using that [of w1] by (simp add: try_lead_def act_simps)
qed

lemma try_lead_taken:
  assumes "up w" and "kv w (leaderKey name) = Some (v, e)" and "v \<noteq> Raw me"
  shows "try_lead R cfg me name w = (Inr False, w)"
  using assms set_refused [OF assms(1), of "nx_px_ms (LEADER_TTL_MS cfg)" "leaderKey name" "Raw me"]
  by (simp add: try_lead_def renew_lua_def act_simps get nx_px_ms_def)

lemma try_lead_mine:
  assumes "up w" and "0 < LEADER_TTL_MS cfg" and "kv w (leaderKey name) = Some (Raw me, e)"
  obtains w1 where "try_lead R cfg me name w = (Inr True, w1)" "up w1" "clk w1 = clk w"
    "kv w1 = (kv w)(leaderKey name \<mapsto> (Raw me, Some (clk w + LEADER_TTL_MS cfg)))"
proof -
  obtain w1 where "r_pexpire R (leaderKey name) (LEADER_TTL_MS cfg) w = (Inr 1, w1)"
      "up w1" "clk w1 = clk w"
      "kv w1 = (kv w)(leaderKey name \<mapsto> (Raw me, Some (clk w + LEADER_TTL_MS cfg)))"
    using pexpire [OF assms] by blast
  moreover have "r_set R (leaderKey name) (Raw me) (nx_px_ms (LEADER_TTL_MS cfg)) w = (Inr False, w)"
    using assms by (intro set_refused) (auto simp: nx_px_ms_def)
  ultimately show thesis
    using that [of w1] assms by (simp add: try_lead_def renew_lua_def act_simps get)
qed

text \<open>One attempt, whatever the state of the key.\<close>

lemma try_lead_cases:
  assumes "up w" and "0 < LEADER_TTL_MS cfg"
  obtains w1 b where "try_lead R cfg me name w = (Inr b, w1)" "up w1" "clk w1 = clk w"
    "b \<longleftrightarrow> (\<forall>v e. kv w (leaderKey name) = Some (v, e) \<longrightarrow> v = Raw me)"
    "kv w1 = (if b then (kv w)(leaderKey name \<mapsto> (Raw me, Some (clk w + LEADER_TTL_MS cfg))) else kv w)"
proof (cases "kv w (leaderKey name)")
  case None
  from try_lead_free [OF assms None, of me] show thesis
    using that [of True] None by (metis option.distinct(1))
next
  case (Some ve)
  obtain v e where ve: "ve = (v, e)" by (cases ve)
  show thesis
  proof (cases "v = Raw me")
    case True
    then show thesis
      using try_lead_mine [OF assms, of name me e] that [of True] Some ve by (metis option.inject prod.inject)
  next
    case False
    then show thesis
      using try_lead_taken [OF assms(1), of name v e me cfg] that [of False w] Some ve assms(1) by auto
  qed
qed

lemma release_lua_run:
  assumes "up w"
  obtains n w1 where "release_lua R key me w = (Inr n, w1)" "up w1" "clk w1 = clk w"
    "kv w1 = (kv w)(key := (if map_option fst (kv w key) = Some (Raw me) then None else kv w key))"
proof (cases "map_option fst (kv w key) = Some (Raw me)")
  case True
  obtain n w1 where "r_del R [key] w = (Inr n, w1)" "up w1" "clk w1 = clk w"
      "kv w1 = (\<lambda>k. if k \<in> set [key] then None else kv w k)"
    by (rule del_E [OF assms])
  then show thesis
    using that [of n w1] True by (auto simp: release_lua_def act_simps get [OF assms] fun_eq_iff)
next
  case False
  then show thesis
    using that [of 0 w] assms by (simp add: release_lua_def act_simps get [OF assms])
qed

lemma release_all_run:
  assumes "up w"
  shows "\<exists>w1. forA (\<lambda>name. quietly (release_lua R (leaderKey name) me)) names w = (Inr (), w1) \<and>
    up w1 \<and> clk w1 = clk w \<and>
    (\<forall>k. kv w1 k = (if k \<in> leaderKey ` set names \<and> map_option fst (kv w k) = Some (Raw me)
                    then None else kv w k))"
  using assms
proof (induction names arbitrary: w)
  case Nil
  then show ?case by (simp add: act_simps)
next
  case (Cons name names)
  obtain n w1 where w1: "release_lua R (leaderKey name) me w = (Inr n, w1)" "up w1" "clk w1 = clk w"
      "kv w1 = (kv w)(leaderKey name := (if map_option fst (kv w (leaderKey name)) = Some (Raw me)
                                         then None else kv w (leaderKey name)))"
    by (rule release_lua_run [OF Cons.prems])
  let ?loop = "forA (\<lambda>name. quietly (release_lua R (leaderKey name) me))"
  obtain w2 where w2: "?loop names w1 = (Inr (), w2)" "up w2" "clk w2 = clk w1"
      "\<And>k. kv w2 k = (if k \<in> leaderKey ` set names \<and> map_option fst (kv w1 k) = Some (Raw me)
                       then None else kv w1 k)"
    using Cons.IH [OF w1(2)] by blast
  have "?loop (name # names) w = ?loop names w1"
    by (simp add: thenA_run quietly_run w1(1))
  moreover have "kv w2 k = (if k \<in> leaderKey ` set (name # names) \<and> map_option fst (kv w k) = Some (Raw me)
      then None else kv w k)" for k
    unfolding w2(4) w1(4) by auto
  ultimately show ?case using w1(3) w2(1-3) by metis
qed

end

section \<open>Leadership over time\<close>

text \<open>The server's clock can advance; nothing else changes, but keys past their expiry are gone.\<close>

locale redis_clock = redis_kv R kv clk up
  for R :: "'w redis" and kv clk up +
  fixes tick :: "int \<Rightarrow> 'w \<Rightarrow> 'w"
  assumes tick_up: "up w \<Longrightarrow> up (tick d w)"
    and tick_clk: "clk (tick d w) = clk w + d"
    and tick_kv: "up w \<Longrightarrow> 0 \<le> d \<Longrightarrow> kv (tick d w) k =
      (case kv w k of
         Some (v, Some e) \<Rightarrow> if clk w + d < e then Some (v, Some e) else None
       | x \<Rightarrow> x)"

interpretation memk: redis_clock mem_redis mem_live m_clk "\<lambda>_. True" mem_tick
  by unfold_locales (simp_all add: mem_live_tick, simp add: mem_tick_def)

text \<open>
  The cluster as a state machine: the shared store, every node's state, and for each lock the node
  that was last told it leads, with the time. A step is one node asking, one node handing over its
  locks at shutdown, or time passing.
\<close>

record 'w cluster =
  store :: 'w
  nodes :: "string \<Rightarrow> 'w node"
  lease :: "string \<Rightarrow> (string \<times> int) option"

definition ask :: "'w redis \<Rightarrow> cluster_cfg \<Rightarrow> ('w \<Rightarrow> int) \<Rightarrow> string \<Rightarrow> string \<Rightarrow> 'w cluster \<Rightarrow> 'w cluster" where
  "ask R cfg clk name n c =
     (case isLeader R cfg name (nodes c n) (store c) of
        (yes, nd, w) \<Rightarrow>
          c\<lparr>store := w, nodes := (nodes c)(n := nd),
            lease := (if yes then (lease c)(name \<mapsto> (n, clk w)) else lease c)\<rparr>)"

definition hand_over :: "'w redis \<Rightarrow> string \<Rightarrow> 'w cluster \<Rightarrow> 'w cluster" where
  "hand_over R n c =
     (case releaseLeaderLocks R (nodes c n) (store c) of
        (nd, w) \<Rightarrow>
          c\<lparr>store := w, nodes := (nodes c)(n := nd),
            lease := (\<lambda>name. case lease c name of
                        Some (m, t) \<Rightarrow> if m = n \<and> name \<in> set (heldLocks (nodes c n)) then None else Some (m, t)
                      | None \<Rightarrow> None)\<rparr>)"

inductive lead_reach ::
  "'w redis \<Rightarrow> cluster_cfg \<Rightarrow> ('w \<Rightarrow> int) \<Rightarrow> (int \<Rightarrow> 'w \<Rightarrow> 'w) \<Rightarrow> ('w \<Rightarrow> bool) \<Rightarrow> 'w cluster \<Rightarrow> bool"
  for R cfg clk tick up where
  lead_start: "up w \<Longrightarrow> lead_reach R cfg clk tick up \<lparr>store = w, nodes = new_node, lease = (\<lambda>_. None)\<rparr>"
| lead_ask: "lead_reach R cfg clk tick up c \<Longrightarrow> lead_reach R cfg clk tick up (ask R cfg clk name n c)"
| lead_shutdown: "lead_reach R cfg clk tick up c \<Longrightarrow>
    lead_reach R cfg clk tick up (c\<lparr>nodes := (nodes c)(n := beginShutdown (nodes c n))\<rparr>)"
| lead_release: "lead_reach R cfg clk tick up c \<Longrightarrow> lead_reach R cfg clk tick up (hand_over R n c)"
| lead_tick: "lead_reach R cfg clk tick up c \<Longrightarrow> 0 \<le> d \<Longrightarrow>
    lead_reach R cfg clk tick up (c\<lparr>store := tick d (store c)\<rparr>)"

context redis_clock
begin

definition lead_inv :: "cluster_cfg \<Rightarrow> 'w cluster \<Rightarrow> bool" where
  "lead_inv cfg c \<longleftrightarrow> up (store c) \<and> (\<forall>n. nd_id (nodes c n) = n) \<and>
     (\<forall>name n t. lease c name = Some (n, t) \<longrightarrow> clk (store c) < t + LEADER_TTL_MS cfg \<longrightarrow>
        kv (store c) (leaderKey name) = Some (Raw n, Some (t + LEADER_TTL_MS cfg)))"

lemma lead_invD:
  "lead_inv cfg c \<Longrightarrow> lease c name = Some (n, t) \<Longrightarrow> clk (store c) < t + LEADER_TTL_MS cfg \<Longrightarrow>
   kv (store c) (leaderKey name) = Some (Raw n, Some (t + LEADER_TTL_MS cfg))"
  by (simp add: lead_inv_def)

lemma ask_inv:
  assumes inv: "lead_inv cfg c" and ttl: "0 < LEADER_TTL_MS cfg"
  shows "lead_inv cfg (ask R cfg clk name n c)"
proof (cases "shuttingDown (nodes c n)")
  case True
  then show ?thesis using inv by (simp add: ask_def isLeader_def lead_inv_def)
next
  case False
  have up: "up (store c)" and id: "nd_id (nodes c n) = n" using inv by (auto simp: lead_inv_def)
  obtain w1 b where t: "try_lead R cfg n name (store c) = (Inr b, w1)" "up w1" "clk w1 = clk (store c)"
      "b \<longleftrightarrow> (\<forall>v e. kv (store c) (leaderKey name) = Some (v, e) \<longrightarrow> v = Raw n)"
      "kv w1 = (if b then (kv (store c))(leaderKey name \<mapsto> (Raw n, Some (clk (store c) + LEADER_TTL_MS cfg)))
                else kv (store c))"
    by (rule try_lead_cases [OF up ttl])
  have "isOpen R (store c)" by (rule up_open [OF up])
  then have ask: "ask R cfg clk name n c = c\<lparr>store := w1, nodes := (nodes c)(n := (nodes c n)
        \<lparr>heldLocks := if b then set_add name (heldLocks (nodes c n)) else removeAll name (heldLocks (nodes c n))\<rparr>),
      lease := if b then (lease c)(name \<mapsto> (n, clk w1)) else lease c\<rparr>"
    using False t(1) id by (simp add: ask_def isLeader_def)
  show ?thesis
    using inv t(2,3,5) by (auto simp: ask lead_inv_def)
qed

lemma hand_over_inv:
  assumes inv: "lead_inv cfg c"
  shows "lead_inv cfg (hand_over R n c)"
proof -
  have up: "up (store c)" and id: "nd_id (nodes c n) = n" using inv by (auto simp: lead_inv_def)
  obtain w1 where w1: "forA (\<lambda>name. quietly (release_lua R (leaderKey name) n)) (heldLocks (nodes c n)) (store c)
        = (Inr (), w1)" "up w1" "clk w1 = clk (store c)"
      "\<And>k. kv w1 k = (if k \<in> leaderKey ` set (heldLocks (nodes c n)) \<and>
            map_option fst (kv (store c) k) = Some (Raw n) then None else kv (store c) k)"
    using release_all_run [OF up, of n "heldLocks (nodes c n)"] by blast
  have ho: "hand_over R n c = c\<lparr>store := w1, nodes := (nodes c)(n := (nodes c n)\<lparr>heldLocks := []\<rparr>),
      lease := (\<lambda>name. case lease c name of
                        Some (m, t) \<Rightarrow> if m = n \<and> name \<in> set (heldLocks (nodes c n)) then None else Some (m, t)
                      | None \<Rightarrow> None)\<rparr>"
    using up_open [OF up] w1(1) id by (simp add: hand_over_def releaseLeaderLocks_def)
  have "kv w1 (leaderKey name) = Some (Raw m, Some (t + LEADER_TTL_MS cfg))"
    if "lease c name = Some (m, t)" and "clk (store c) < t + LEADER_TTL_MS cfg"
      and "m = n \<longrightarrow> name \<notin> set (heldLocks (nodes c n))" for name m t
    using lead_invD [OF inv that(1,2)] that(3) by (auto simp: w1(4))
  then show ?thesis
    using inv w1(2,3) by (auto simp: ho lead_inv_def split: option.splits if_splits)
qed

lemma tick_inv:
  assumes inv: "lead_inv cfg c" and d: "0 \<le> d"
  shows "lead_inv cfg (c\<lparr>store := tick d (store c)\<rparr>)"
proof -
  have up: "up (store c)" using inv by (simp add: lead_inv_def)
  have "kv (tick d (store c)) (leaderKey name) = Some (Raw n, Some (t + LEADER_TTL_MS cfg))"
    if "lease c name = Some (n, t)" and "clk (store c) + d < t + LEADER_TTL_MS cfg" for name n t
    using lead_invD [OF inv that(1)] that(2) d by (simp add: tick_kv [OF up d])
  then show ?thesis using inv tick_up [OF up] by (auto simp: lead_inv_def tick_clk)
qed

lemma lead_reach_inv:
  "lead_reach R cfg clk tick up c \<Longrightarrow> 0 < LEADER_TTL_MS cfg \<Longrightarrow> lead_inv cfg c"
proof (induction rule: lead_reach.induct)
  case (lead_start w)
  then show ?case by (simp add: lead_inv_def new_node_def)
next
  case (lead_shutdown c n)
  then show ?case by (auto simp: lead_inv_def beginShutdown_def)
qed (auto intro: ask_inv hand_over_inv tick_inv)

lemma lease_exclusive:
  assumes "lead_reach R cfg clk tick up c" and "0 < LEADER_TTL_MS cfg"
    and "lease c name = Some (n, t)" and "clk (store c) < t + LEADER_TTL_MS cfg" and "m \<noteq> n"
  shows "\<not> fst (isLeader R cfg name (nodes c m) (store c))"
proof -
  have inv: "lead_inv cfg c" by (rule lead_reach_inv [OF assms(1,2)])
  then have up: "up (store c)" and id: "nd_id (nodes c m) = m" by (auto simp: lead_inv_def)
  have "kv (store c) (leaderKey name) = Some (Raw n, Some (t + LEADER_TTL_MS cfg))"
    by (rule lead_invD [OF inv assms(3,4)])
  then have "try_lead R cfg m name (store c) = (Inr False, store c)"
    using assms(5) by (intro try_lead_taken [OF up]) auto
  then show ?thesis using id up_open [OF up] by (simp add: isLeader_def)
qed

end

section \<open>Properties of the leader lock\<close>

text \<open>
  C1: mutual exclusion of leaders. In every reachable state of the cluster, after a node was told it
  leads, no other node is told so for the same lock until the lease's lifetime has passed, unless
  the leader handed the lock over.
\<close>

theorem leader_exclusive:
  assumes "redis_clock R kv clk up tick"
    and "lead_reach R cfg clk tick up c" and "0 < LEADER_TTL_MS cfg"
    and "lease c name = Some (n, t)" and "clk (store c) < t + LEADER_TTL_MS cfg" and "m \<noteq> n"
  shows "\<not> fst (isLeader R cfg name (nodes c m) (store c))"
  by (rule redis_clock.lease_exclusive [OF assms])

definition ttl15 :: cluster_cfg where
  "ttl15 = \<lparr>LEADER_TTL_MS = 15000, local_when_down = False\<rparr>"

theorem leader_exclusive_witness:
  "\<not> fst (isLeader mem_redis ttl15 ''loop''
      (nodes (ask mem_redis ttl15 m_clk ''loop'' ''a'' \<lparr>store = mem0 0, nodes = new_node, lease = (\<lambda>_. None)\<rparr>) ''b'')
      (store (ask mem_redis ttl15 m_clk ''loop'' ''a'' \<lparr>store = mem0 0, nodes = new_node, lease = (\<lambda>_. None)\<rparr>)))"
proof (rule leader_exclusive [of _ mem_live m_clk "\<lambda>_. True" mem_tick _ _ _ "''a''" 0])
  let ?c0 = "\<lparr>store = mem0 0, nodes = new_node, lease = (\<lambda>_. None)\<rparr>"
  show "redis_clock mem_redis mem_live m_clk (\<lambda>_. True) mem_tick" by (rule memk.redis_clock_axioms)
  show "lead_reach mem_redis ttl15 m_clk mem_tick (\<lambda>_. True) (ask mem_redis ttl15 m_clk ''loop'' ''a'' ?c0)"
    by (intro lead_reach.lead_ask lead_reach.lead_start) simp
  show "lease (ask mem_redis ttl15 m_clk ''loop'' ''a'' ?c0) ''loop'' = Some (''a'', 0)"
    and "m_clk (store (ask mem_redis ttl15 m_clk ''loop'' ''a'' ?c0)) < 0 + LEADER_TTL_MS ttl15"
    by (simp_all add: ask_def isLeader_def try_lead_def act_simps mem_redis_def mem0_def mem_live_def
        nx_px_ms_def new_node_def ttl15_def)
qed (simp_all add: ttl15_def)

end
