(* ===== verification/Durable_Timers.thy ===== *)
theory Durable_Timers
  imports Cluster
begin

text \<open>
  The durable timers of \<open>services/cluster.service.js\<close>. A deadline is a member \<open>kind|key\<close> of the
  sorted set \<open>live:deadlines\<close> with a payload in a hash, and a local timer on the node that scheduled
  it. Whoever fires it, a local timer or the leader's sweep, must first remove the member.
\<close>

section \<open>Members\<close>

definition DEADLINES_KEY :: string where "DEADLINES_KEY = ''live:deadlines''"
definition PAYLOAD_KEY :: string where "PAYLOAD_KEY = ''live:deadlines:payload''"
definition SWEEP_GRACE_MS :: int where "SWEEP_GRACE_MS = 1500"

definition memberOf :: "string \<Rightarrow> string \<Rightarrow> string" where
  "memberOf kind key = kind @ CHR ''|'' # key"

text \<open>\<open>member.slice(0, sep)\<close> and \<open>member.slice(sep + 1)\<close> with \<open>sep = member.indexOf('|')\<close>;
  without a bar \<open>sep\<close> is -1, so the kind loses its last character and the key is the whole member.\<close>

definition split_member :: "string \<Rightarrow> string \<times> string" where
  "split_member m =
     (if CHR ''|'' \<in> set m
      then (takeWhile (\<lambda>c. c \<noteq> CHR ''|'') m, tl (dropWhile (\<lambda>c. c \<noteq> CHR ''|'') m))
      else (butlast m, m))"

lemma takeWhile_member: "CHR ''|'' \<notin> set kind \<Longrightarrow>
    takeWhile (\<lambda>c. c \<noteq> CHR ''|'') (kind @ CHR ''|'' # key) = kind \<and>
    dropWhile (\<lambda>c. c \<noteq> CHR ''|'') (kind @ CHR ''|'' # key) = CHR ''|'' # key"
  by (induction kind) auto

lemma memberOf_inject: "CHR ''|'' \<notin> set k1 \<Longrightarrow> CHR ''|'' \<notin> set k2 \<Longrightarrow>
    memberOf k1 a = memberOf k2 b \<longleftrightarrow> k1 = k2 \<and> a = b"
  unfolding memberOf_def by (metis takeWhile_member list.inject)

section \<open>Firing\<close>

text \<open>The registered handlers: a kind's \<open>(key, payload) => Promise\<close>.\<close>

type_synonym 'w handlers = "string \<Rightarrow> (string \<Rightarrow> jsval \<Rightarrow> ('w, unit) act) option"

definition registerDurableHandler ::
  "string \<Rightarrow> (string \<Rightarrow> jsval \<Rightarrow> ('w, unit) act) \<Rightarrow> 'w handlers \<Rightarrow> 'w handlers" where
  "registerDurableHandler kind fn hs = hs(kind \<mapsto> fn)"

definition runHandler :: "'w handlers \<Rightarrow> string \<Rightarrow> jsval \<Rightarrow> ('w, unit) act" where
  "runHandler hs member payload =
     (case split_member member of (kind, key) \<Rightarrow>
        (case hs kind of
           None \<Rightarrow> ret ()
         | Some fn \<Rightarrow> quietly (fn key payload)))"

text \<open>\<open>claim\<close> is \<open>fire\<close> up to the call of the handler: \<open>Some payload\<close> when the handler is to run.\<close>

definition claim :: "'w redis \<Rightarrow> string \<Rightarrow> jsval \<Rightarrow> bool \<Rightarrow> ('w, jsval option) act" where
  "claim R member localPayload persisted = (\<lambda>w.
     if \<not> persisted \<or> \<not> isOpen R w then (Inr (Some localPayload), w)
     else catchA
       (bindA (r_zrem R DEADLINES_KEY member) (\<lambda>removed.
          if removed \<noteq> 1 then ret None
          else bindA (r_hget R PAYLOAD_KEY member) (\<lambda>raw.
               thenA (r_hdel R PAYLOAD_KEY member)
                 (if truthy_text raw
                  then (case JSON_parse (the raw) of
                          None \<Rightarrow> throw (Error ''SyntaxError'')
                        | Some p \<Rightarrow> ret (Some p))
                  else ret (Some localPayload)))))
       (\<lambda>err. ret None) w)"

definition drop_timer :: "string \<Rightarrow> 'w node \<Rightarrow> 'w node" where
  "drop_timer member nd = nd\<lparr>localTimers := (localTimers nd)(member := None)\<rparr>"

definition fire ::
  "'w redis \<Rightarrow> 'w handlers \<Rightarrow> string \<Rightarrow> jsval \<Rightarrow> bool \<Rightarrow> 'w node \<Rightarrow> 'w \<Rightarrow> 'w node \<times> 'w" where
  "fire R hs member localPayload persisted nd w =
     (drop_timer member nd,
      snd (bindA (claim R member localPayload persisted)
             (\<lambda>run. case run of None \<Rightarrow> ret () | Some p \<Rightarrow> runHandler hs member p) w))"

section \<open>Scheduling and cancelling\<close>

text \<open>\<open>MULTI ... EXEC\<close> runs its commands as one step.\<close>

definition persist :: "'w redis \<Rightarrow> string \<Rightarrow> int \<Rightarrow> jsval \<Rightarrow> ('w, unit) act" where
  "persist R member atMs payload =
     thenA (r_zadd R DEADLINES_KEY member atMs)
       (thenA (r_hset R PAYLOAD_KEY member (JSON_stringify payload)) (ret ()))"

definition scheduleDurable ::
  "'w redis \<Rightarrow> int \<Rightarrow> string \<Rightarrow> string \<Rightarrow> int \<Rightarrow> jsval \<Rightarrow> 'w node \<Rightarrow> 'w \<Rightarrow> 'w node \<times> 'w" where
  "scheduleDurable R now kind key atMs payload nd w =
     (let member = memberOf kind key;
          (persisted, w1) =
            (if isOpen R w
             then (case persist R member atMs payload w of
                     (Inl _, w1) \<Rightarrow> (False, w1) | (Inr _, w1) \<Rightarrow> (True, w1))
             else (False, w));
          delay = max 0 (atMs - now)
      in (nd\<lparr>localTimers := (localTimers nd)
               (member \<mapsto> \<lparr>lt_at = now + delay, lt_payload = payload, lt_persisted = persisted\<rparr>)\<rparr>, w1))"

definition unpersist :: "'w redis \<Rightarrow> string \<Rightarrow> ('w, unit) act" where
  "unpersist R member =
     thenA (r_zrem R DEADLINES_KEY member) (thenA (r_hdel R PAYLOAD_KEY member) (ret ()))"

definition cancelDurable :: "'w redis \<Rightarrow> string \<Rightarrow> string \<Rightarrow> 'w node \<Rightarrow> 'w \<Rightarrow> 'w node \<times> 'w" where
  "cancelDurable R kind key nd w =
     (let member = memberOf kind key in
      (drop_timer member nd,
       if \<not> isOpen R w then w else snd (quietly (unpersist R member) w)))"

definition hasDurable :: "'w redis \<Rightarrow> string \<Rightarrow> string \<Rightarrow> 'w node \<Rightarrow> ('w, bool) act" where
  "hasDurable R kind key nd = (\<lambda>w.
     let member = memberOf kind key in
     if localTimers nd member \<noteq> None then (Inr True, w)
     else if \<not> isOpen R w then (Inr False, w)
     else catchA (bindA (r_zscore R DEADLINES_KEY member) (\<lambda>s. ret (s \<noteq> None))) (\<lambda>_. ret False) w)"

text \<open>The callback of a local timer.\<close>

definition timer_callback :: "'w redis \<Rightarrow> 'w handlers \<Rightarrow> string \<Rightarrow> 'w node \<Rightarrow> 'w \<Rightarrow> 'w node \<times> 'w" where
  "timer_callback R hs member nd w =
     (case localTimers nd member of
        None \<Rightarrow> (nd, w)
      | Some t \<Rightarrow> fire R hs member (lt_payload t) (lt_persisted t) nd w)"

section \<open>The sweep\<close>

fun sweep_members :: "'w redis \<Rightarrow> 'w handlers \<Rightarrow> string list \<Rightarrow> 'w node \<Rightarrow> 'w \<Rightarrow> 'w node \<times> 'w" where
  "sweep_members R hs [] nd w = (nd, w)"
| "sweep_members R hs (m # ms) nd w =
     (if localTimers nd m \<noteq> None then sweep_members R hs ms nd w
      else case fire R hs m Null True nd w of (nd1, w1) \<Rightarrow> sweep_members R hs ms nd1 w1)"

definition sweep_once ::
  "'w redis \<Rightarrow> 'w handlers \<Rightarrow> cluster_cfg \<Rightarrow> int \<Rightarrow> 'w node \<Rightarrow> 'w \<Rightarrow> 'w node \<times> 'w" where
  "sweep_once R hs cfg now nd w =
     (case isLeader R cfg ''durable-timers'' nd w of
        (False, nd1, w1) \<Rightarrow> (nd1, w1)
      | (True, nd1, w1) \<Rightarrow>
          if \<not> isOpen R w1 then (nd1, w1)
          else case r_zdue R DEADLINES_KEY (now - SWEEP_GRACE_MS) 100 w1 of
            (Inl _, w2) \<Rightarrow> (nd1, w2)
          | (Inr due, w2) \<Rightarrow> sweep_members R hs due nd1 w2)"

text \<open>The sweeper's shutdown hook: local handles die with the process, the deadlines stay in Redis.\<close>

definition sweeper_hook :: "'w node \<Rightarrow> 'w node" where
  "sweeper_hook nd = nd\<lparr>localTimers := (\<lambda>_. None)\<rparr>"

section \<open>What a claim does while Redis answers\<close>

context redis_deadlines
begin

definition pending :: "'w \<Rightarrow> string \<Rightarrow> bool" where
  "pending w m \<longleftrightarrow> zs w DEADLINES_KEY m \<noteq> None"

lemma claim_gone:
  assumes "up w" and "\<not> pending w m"
  shows "\<exists>w1. claim R m lp True w = (Inr None, w1) \<and> up w1 \<and> hs w1 = hs w \<and>
    (\<forall>x. pending w1 x \<longleftrightarrow> pending w x)"
  using assms zrem [OF assms(1), of DEADLINES_KEY m] up_open [OF assms(1)]
  by (auto simp: claim_def pending_def act_simps)

lemma claim_pending:
  assumes "up w" and "pending w m"
  shows "\<exists>w1 r. claim R m lp True w = (Inr r, w1) \<and> up w1 \<and>
    (\<forall>x. pending w1 x \<longleftrightarrow> pending w x \<and> x \<noteq> m) \<and>
    (\<forall>p. hs w PAYLOAD_KEY m = Some (JSON_stringify p) \<longrightarrow> r = Some p)"
proof -
  obtain w1 where z: "r_zrem R DEADLINES_KEY m w = (Inr 1, w1)" "up w1" "hs w1 = hs w"
      "zs w1 = (zs w)(DEADLINES_KEY := (zs w DEADLINES_KEY)(m := None))"
    using zrem [OF assms(1), of DEADLINES_KEY m] assms(2) by (auto simp: pending_def)
  obtain n w2 where h: "r_hdel R PAYLOAD_KEY m w1 = (Inr n, w2)" "up w2" "zs w2 = zs w1"
    using hdel [OF z(2), of PAYLOAD_KEY m] by blast
  have p: "pending w2 x \<longleftrightarrow> pending w x \<and> x \<noteq> m" for x
    by (simp add: pending_def h(3) z(4))
  have "\<exists>r. claim R m lp True w = (Inr r, w2) \<and>
      (\<forall>p. hs w PAYLOAD_KEY m = Some (JSON_stringify p) \<longrightarrow> r = Some p)"
    using up_open [OF assms(1)]
    by (auto simp: claim_def act_simps z(1) hget [OF z(2)] h(1) z(3) truthy_text_def
        JSON_stringify_def JSON_parse_def split: option.split jtext.split)
  with h(2) p show ?thesis by blast
qed

lemma persist_run:
  assumes "up w"
  shows "\<exists>w1. persist R m t p w = (Inr (), w1) \<and> up w1 \<and>
    hs w1 PAYLOAD_KEY m = Some (JSON_stringify p) \<and> (\<forall>x. pending w1 x \<longleftrightarrow> pending w x \<or> x = m)"
proof -
  obtain n w1 where z: "r_zadd R DEADLINES_KEY m t w = (Inr n, w1)" "up w1" "hs w1 = hs w"
      "zs w1 = (zs w)(DEADLINES_KEY := (zs w DEADLINES_KEY)(m \<mapsto> t))"
    using zadd [OF assms, of DEADLINES_KEY m t] by blast
  obtain n' w2 where "r_hset R PAYLOAD_KEY m (JSON_stringify p) w1 = (Inr n', w2)" "up w2" "zs w2 = zs w1"
      "hs w2 = (hs w1)(PAYLOAD_KEY := (hs w1 PAYLOAD_KEY)(m \<mapsto> JSON_stringify p))"
    using hset [OF z(2), of PAYLOAD_KEY m] by blast
  with z show ?thesis
    by (auto simp: persist_def act_simps pending_def)
qed

lemma unpersist_run:
  assumes "up w"
  shows "\<exists>w1. unpersist R m w = (Inr (), w1) \<and> up w1 \<and> (\<forall>x. pending w1 x \<longleftrightarrow> pending w x \<and> x \<noteq> m)"
proof -
  obtain w1 where z: "r_zrem R DEADLINES_KEY m w = (Inr (if zs w DEADLINES_KEY m = None then 0 else 1), w1)"
      "up w1" "zs w1 = (zs w)(DEADLINES_KEY := (zs w DEADLINES_KEY)(m := None))"
    using zrem [OF assms, of DEADLINES_KEY m] by blast
  obtain n w2 where "r_hdel R PAYLOAD_KEY m w1 = (Inr n, w2)" "up w2" "zs w2 = zs w1"
    using hdel [OF z(2), of PAYLOAD_KEY m] by blast
  with z show ?thesis by (auto simp: unpersist_def act_simps pending_def)
qed

end

section \<open>Deadlines over time\<close>

text \<open>
  A history of one cluster: any node schedules, cancels or claims any member at any moment, in any
  order. \<open>scheduled\<close> and \<open>ran\<close> count, per member, the calls of \<open>scheduleDurable\<close> and the claims
  that led to the handler.
\<close>

datatype d_event = Schedule string int jsval | Cancel string | Claim string jsval

record 'w d_state =
  d_store :: 'w
  scheduled :: "string \<Rightarrow> nat"
  ran :: "string \<Rightarrow> nat"

definition d_step :: "'w redis \<Rightarrow> d_event \<Rightarrow> 'w d_state \<Rightarrow> 'w d_state" where
  "d_step R ev s =
     (case ev of
        Schedule m t p \<Rightarrow>
          s\<lparr>d_store := snd (persist R m t p (d_store s)), scheduled := (scheduled s)(m := Suc (scheduled s m))\<rparr>
      | Cancel m \<Rightarrow> s\<lparr>d_store := snd (quietly (unpersist R m) (d_store s))\<rparr>
      | Claim m lp \<Rightarrow>
          (case claim R m lp True (d_store s) of
             (Inr (Some _), w) \<Rightarrow> s\<lparr>d_store := w, ran := (ran s)(m := Suc (ran s m))\<rparr>
           | (_, w) \<Rightarrow> s\<lparr>d_store := w\<rparr>))"

definition d_run :: "'w redis \<Rightarrow> 'w \<Rightarrow> d_event list \<Rightarrow> 'w d_state" where
  "d_run R w evs = fold (d_step R) evs \<lparr>d_store = w, scheduled = (\<lambda>_. 0), ran = (\<lambda>_. 0)\<rparr>"

context redis_deadlines
begin

definition d_inv :: "'w d_state \<Rightarrow> bool" where
  "d_inv s \<longleftrightarrow> up (d_store s) \<and>
     (\<forall>m. ran s m \<le> scheduled s m \<and> (pending (d_store s) m \<longrightarrow> ran s m < scheduled s m))"

lemma d_step_inv:
  assumes "d_inv s"
  shows "d_inv (d_step R ev s)"
proof (cases ev)
  case (Schedule m t p)
  have up: "up (d_store s)" using assms by (simp add: d_inv_def)
  obtain w1 where "persist R m t p (d_store s) = (Inr (), w1)" "up w1"
      "\<forall>x. pending w1 x \<longleftrightarrow> pending (d_store s) x \<or> x = m"
    using persist_run [OF up] by blast
  then show ?thesis
    using assms by (auto simp: d_inv_def d_step_def Schedule less_Suc_eq_le le_SucI)
next
  case (Cancel m)
  have up: "up (d_store s)" using assms by (simp add: d_inv_def)
  obtain w1 where "unpersist R m (d_store s) = (Inr (), w1)" "up w1"
      "\<forall>x. pending w1 x \<longleftrightarrow> pending (d_store s) x \<and> x \<noteq> m"
    using unpersist_run [OF up] by blast
  then show ?thesis
    using assms by (auto simp: d_inv_def d_step_def Cancel act_simps)
next
  case (Claim m lp)
  have up: "up (d_store s)" using assms by (simp add: d_inv_def)
  show ?thesis
  proof (cases "pending (d_store s) m")
    case True
    obtain w1 r where w1: "claim R m lp True (d_store s) = (Inr r, w1)" "up w1"
        "\<forall>x. pending w1 x \<longleftrightarrow> pending (d_store s) x \<and> x \<noteq> m"
      using claim_pending [OF up True] by blast
    have "ran s m < scheduled s m" using assms True by (simp add: d_inv_def)
    then show ?thesis
      using assms w1 by (auto simp: d_inv_def d_step_def Claim split: option.split)
  next
    case False
    then show ?thesis
      using claim_gone [OF up False, of lp] assms by (auto simp: d_inv_def d_step_def Claim)
  qed
qed

lemma d_run_inv:
  assumes "up w" and "\<And>m. \<not> pending w m"
  shows "d_inv (d_run R w evs)"
proof -
  have "d_inv s \<Longrightarrow> d_inv (fold (d_step R) evs s)" for s
    by (induction evs arbitrary: s) (auto intro: d_step_inv)
  then show ?thesis using assms by (simp add: d_run_def d_inv_def)
qed

lemma at_most_once:
  assumes "up w" and "\<And>m. \<not> pending w m"
  shows "ran (d_run R w evs) m \<le> scheduled (d_run R w evs) m"
  using d_run_inv [OF assms, of evs] by (simp add: d_inv_def)

end

section \<open>Properties\<close>



text \<open>
  C5: a deadline scheduled while Redis answers reaches its own handler with its own key and payload,
  whichever node claims it next, even a node that never saw it (the sweep passes no payload).
\<close>

theorem scheduled_deadline_delivered:
  assumes "redis_deadlines R kv clk up zs hs" and "up w" and "CHR ''|'' \<notin> set kind"
  shows "\<exists>w1 w2. persist R (memberOf kind key) atMs payload w = (Inr (), w1) \<and>
    snd (fire R hdl (memberOf kind key) lp True nd w1) =
      snd ((case hdl kind of None \<Rightarrow> ret () | Some fn \<Rightarrow> quietly (fn key payload)) w2) \<and>
    claim R (memberOf kind key) lp True w1 = (Inr (Some payload), w2)"
proof -
  obtain w1 where w1: "persist R (memberOf kind key) atMs payload w = (Inr (), w1)" "up w1"
      "hs w1 PAYLOAD_KEY (memberOf kind key) = Some (JSON_stringify payload)"
      "redis_deadlines.pending zs w1 (memberOf kind key)"
    using redis_deadlines.persist_run [OF assms(1,2), of "memberOf kind key" atMs payload] by blast
  obtain w2 where w2: "claim R (memberOf kind key) lp True w1 = (Inr (Some payload), w2)"
    using redis_deadlines.claim_pending [OF assms(1) w1(2,4), of lp] w1(3) by blast
  have "split_member (memberOf kind key) = (kind, key)"
    using takeWhile_member [OF assms(3), of key] by (simp add: split_member_def memberOf_def)
  then show ?thesis
    using w1(1) w2 by (auto simp: fire_def act_simps runHandler_def)
qed

theorem scheduled_deadline_delivered_witness:
  "\<exists>w1 w2. persist mem_redis (memberOf ''call'' ''7'') 9000 (Num 3) (mem0 0) = (Inr (), w1) \<and>
    snd (fire mem_redis Map.empty (memberOf ''call'' ''7'') Null True (new_node ''n'') w1) =
      snd ((case Map.empty ''call'' of None \<Rightarrow> ret () | Some fn \<Rightarrow> quietly (fn ''7'' (Num 3))) w2) \<and>
    claim mem_redis (memberOf ''call'' ''7'') Null True w1 = (Inr (Some (Num 3)), w2)"
  using scheduled_deadline_delivered [OF memd.redis_deadlines_axioms, where w = "mem0 0" and kind = "''call''"
      and key = "''7''" and atMs = 9000 and payload = "Num 3" and hdl = Map.empty and lp = Null
      and nd = "new_node ''n''"] by simp

text \<open>
  a cancelled deadline is never run: after \<open>cancelDurable\<close> a claim by any node finds nothing.
\<close>

theorem cancelled_deadline_never_runs:
  assumes "redis_deadlines R kv clk up zs hs" and "up w"
  shows "fst (claim R (memberOf kind key) lp True (snd (cancelDurable R kind key nd w))) = Inr None \<and>
    localTimers (fst (cancelDurable R kind key nd w)) (memberOf kind key) = None"
proof -
  have "isOpen R w"
    by (rule redis_kv.up_open [OF redis_deadlines.axioms(1) [OF assms(1)] assms(2)])
  moreover obtain w1 where "unpersist R (memberOf kind key) w = (Inr (), w1)" "up w1"
      "\<not> redis_deadlines.pending zs w1 (memberOf kind key)"
    using redis_deadlines.unpersist_run [OF assms, of "memberOf kind key"] by blast
  ultimately show ?thesis
    using redis_deadlines.claim_gone [OF assms(1), of w1 "memberOf kind key" lp]
    by (auto simp: cancelDurable_def act_simps drop_timer_def)
qed

theorem cancelled_deadline_never_runs_witness:
  "fst (claim mem_redis (memberOf ''k'' ''1'') Null True
     (snd (cancelDurable mem_redis ''k'' ''1'' (new_node ''n'') (mem0 0)))) = Inr None \<and>
   localTimers (fst (cancelDurable mem_redis ''k'' ''1'' (new_node ''n'') (mem0 0))) (memberOf ''k'' ''1'') = None"
  by (rule cancelled_deadline_never_runs [OF memd.redis_deadlines_axioms]) simp

text \<open>
  the claim is not all-or-nothing. When the member was removed but reading its payload then
  fails, \<open>fire\<close> gives up without calling the handler, although the deadline is already gone.
\<close>

theorem claim_lost_on_failed_read:
  assumes "isOpen R w" and "r_zrem R DEADLINES_KEY m w = (Inr 1, w1)"
    and "r_hget R PAYLOAD_KEY m w1 = (Inl err, w2)"
  shows "fire R hdl m lp True nd w = (drop_timer m nd, w2)"
  using assms by (simp add: fire_def claim_def act_simps)

definition flaky :: "mem redis" where
  "flaky = mem_redis\<lparr>r_hget := (\<lambda>h f m. (Inl (Error ''Socket closed unexpectedly''), m))\<rparr>"

theorem claim_lost_on_failed_read_witness:
  "mem_zs (snd (fire flaky Map.empty ''k|1'' Null True (new_node ''n'')
     ((mem0 0)\<lparr>m_z := (\<lambda>_. [(''k|1'', 10)])\<rparr>))) DEADLINES_KEY ''k|1'' = None"
proof -
  let ?w = "(mem0 0)\<lparr>m_z := (\<lambda>_. [(''k|1'', 10)])\<rparr>"
  have "fire flaky Map.empty ''k|1'' Null True (new_node ''n'') ?w =
      (drop_timer ''k|1'' (new_node ''n''), ?w\<lparr>m_z := (m_z ?w)(DEADLINES_KEY := [])\<rparr>)"
    by (rule claim_lost_on_failed_read) (simp_all add: flaky_def mem_redis_def mem_zs_def)
  then show ?thesis by (simp add: mem_zs_def)
qed

end
