(* ===== verification/Session_Auth.thy ===== *)
theory Session_Auth
  imports Redis_Store Rate_Limit
begin

text \<open>
  Who a request or socket acts as: the token rotation of \<open>utils/jwtRotation.js\<close>, the revocation
  check of \<open>services/session.service.js\<close>, the socket middleware \<open>socket/socketAuth.js\<close>, the REST
  middleware \<open>middlewares/authMiddleware.js\<close> and the rejoin decision of
  \<open>services/rejoinToken.service.js\<close>. The JWT library is the parameter \<open>verify\<close>.
\<close>

section \<open>Tokens\<close>

record payload =
  pl_userId :: "string option"
  pl_sub :: "string option"
  pl_sessionId :: "string option"
  pl_deviceId :: jsval
  pl_tokenVersion :: "int option"
  pl_sessionTokenVersion :: "int option"
  pl_exp :: "int option"

text \<open>\<open>jwt.verify(token, secret, { ignoreExpiration })\<close>\<close>

type_synonym jwt_verify = "string \<Rightarrow> string \<Rightarrow> bool \<Rightarrow> exn + payload"

definition is_jwt_error :: "exn \<Rightarrow> bool" where
  "is_jwt_error e \<longleftrightarrow> e_name e \<in> {''JsonWebTokenError'', ''TokenExpiredError'', ''NotBeforeError''}"

definition verifyRotating ::
  "jwt_verify \<Rightarrow> string \<Rightarrow> string \<Rightarrow> string option \<Rightarrow> bool \<Rightarrow> exn + payload" where
  "verifyRotating verify token current previous ignoreExpiration =
     (case verify token current ignoreExpiration of
        Inr p \<Rightarrow> Inr p
      | Inl err \<Rightarrow>
          if truthy_str previous \<and> is_jwt_error err \<and> e_message err = ''invalid signature''
          then verify token (the previous) ignoreExpiration
          else Inl err)"

lemma verifyRotating_ok:
  "verifyRotating verify t cur prev ign = Inr p \<Longrightarrow>
   verify t cur ign = Inr p \<or>
   (\<exists>s err. prev = Some s \<and> s \<noteq> [] \<and> verify t s ign = Inr p \<and>
      verify t cur ign = Inl err \<and> e_message err = ''invalid signature'')"
  by (auto simp: verifyRotating_def truthy_str_def split: sum.splits if_splits option.splits)

section \<open>Revocation\<close>

datatype verdict = Allow | Deny int string string  \<comment> \<open>status, code, message\<close>

record session_row =
  sr_userId :: string
  sr_isRevoked :: bool
  sr_isActive :: bool
  sr_tokenVersion :: int

text \<open>The \<open>deps\<close> argument of \<open>checkAccessPayload\<close>.\<close>

record 'w session_deps =
  d_mget :: "string list \<Rightarrow> ('w, jtext option list) act"
  d_findUserTokenVersion :: "string \<Rightarrow> ('w, int) act"
  d_findSession :: "string \<Rightarrow> ('w, session_row option) act"

definition key_userTokenVersion :: "string \<Rightarrow> string" where
  "key_userTokenVersion u = ''user:'' @ u @ '':token_version''"
definition key_session :: "string \<Rightarrow> string" where
  "key_session s = ''session:'' @ s"
definition key_deviceBanned :: "string \<Rightarrow> string" where
  "key_deviceBanned d = ''device:'' @ d @ '':banned''"

definition redisMget :: "'w redis \<Rightarrow> string list \<Rightarrow> ('w, jtext option list) act" where
  "redisMget R list = (\<lambda>w.
     if \<not> isOpen R w then (Inr (map (\<lambda>_. None) list), w)
     else catchA (r_mget R list) (\<lambda>_. ret (map (\<lambda>_. None) list)) w)"

definition payload_user :: "payload option \<Rightarrow> string option" where
  "payload_user p = (case p of None \<Rightarrow> None | Some p \<Rightarrow> or_str (pl_userId p) (pl_sub p))"

definition payload_device :: "payload \<Rightarrow> string" where
  "payload_device p = (case pl_deviceId p of Str s \<Rightarrow> js_trim s | _ \<Rightarrow> [])"

definition invalid_session :: verdict where
  "invalid_session = Deny 401 ''SESSION_INVALID'' ''Session invalid''"
definition stale_session :: verdict where
  "stale_session = Deny 401 ''SESSION_TOKEN_STALE'' ''Session token stale''"

text \<open>The cached session blob, or the row when nothing is cached; \<open>None\<close> is "no objection".\<close>

definition check_session ::
  "'w session_deps \<Rightarrow> payload \<Rightarrow> string \<Rightarrow> string \<Rightarrow> jtext option \<Rightarrow> ('w, verdict option) act" where
  "check_session D p userId sessionId sessionRaw =
     (let expected = (case pl_sessionTokenVersion p of None \<Rightarrow> 0 | Some v \<Rightarrow> v);
          blob = (if truthy_text sessionRaw
                  then (case JSON_parse (the sessionRaw) of
                          None \<Rightarrow> Obj [(''revoked'', JBool True)] | Some b \<Rightarrow> b)
                  else Null)
      in if truthy blob then
           ret (if truthy (get_field blob ''revoked'') \<or> get_field blob ''userId'' \<noteq> Str userId
                then Some invalid_session
                else if get_field blob ''sessionTokenVersion'' \<noteq> Num (of_int expected)
                then Some stale_session
                else None)
         else bindA (d_findSession D sessionId) (\<lambda>row.
           ret (case row of
                  None \<Rightarrow> Some invalid_session
                | Some r \<Rightarrow>
                    if sr_isRevoked r \<or> \<not> sr_isActive r \<or> sr_userId r \<noteq> userId then Some invalid_session
                    else if sr_tokenVersion r \<noteq> expected then Some stale_session
                    else None)))"

text \<open>\<open>values[i]\<close>; past the end it is \<open>undefined\<close>, which every use treats as \<open>null\<close>.\<close>

definition at_or_null :: "jtext option list \<Rightarrow> nat \<Rightarrow> jtext option" where
  "at_or_null vs i = (if i < length vs then vs ! i else None)"

definition checkAccessPayload :: "'w session_deps \<Rightarrow> payload option \<Rightarrow> ('w, verdict) act" where
  "checkAccessPayload D po =
     (case payload_user po of
        None \<Rightarrow> ret (Deny 401 ''INVALID_TOKEN'' ''Invalid token'')
      | Some userId \<Rightarrow>
          let p = the po;
              sessionId = (if truthy_str (pl_sessionId p) then pl_sessionId p else None);
              deviceId = payload_device p;
              list = [key_userTokenVersion userId]
                     @ (case sessionId of None \<Rightarrow> [] | Some s \<Rightarrow> [key_session s])
                     @ (if deviceId \<noteq> [] then [key_deviceBanned deviceId] else [])
          in bindA (d_mget D list) (\<lambda>values.
             let tvRaw = at_or_null values 0;
                 sessionRaw = (if sessionId \<noteq> None then at_or_null values 1 else None);
                 deviceBanned = (if deviceId \<noteq> [] then at_or_null values (if sessionId \<noteq> None then 2 else 1) else None);
                 tokenTv = (case pl_tokenVersion p of None \<Rightarrow> 0 | Some v \<Rightarrow> v)
             in bindA (if truthy_text tvRaw then ret (Number_of (the tvRaw))
                       else bindA (d_findUserTokenVersion D userId) (\<lambda>v. ret (Some v))) (\<lambda>userTv.
                if Some tokenTv \<noteq> userTv
                then ret (Deny 401 ''SESSION_INVALID'' ''Session revoked. Please log in again.'')
                else bindA (case sessionId of
                              None \<Rightarrow> ret None
                            | Some s \<Rightarrow> check_session D p userId s sessionRaw) (\<lambda>objection.
                     ret (case objection of
                            Some v \<Rightarrow> v
                          | None \<Rightarrow>
                              if deviceBanned = Some (Raw ''1'')
                              then Deny 403 ''DEVICE_BANNED'' ''This device has been banned from the platform''
                              else Allow)))))"

text \<open>
  The declarative reading of the check over the values it reads: \<open>cache k\<close> is what Redis holds,
  \<open>tvdb u\<close> and \<open>sdb s\<close> are the database's token version and session row.
\<close>

definition session_current ::
  "(string \<Rightarrow> jtext option) \<Rightarrow> (string \<Rightarrow> session_row option) \<Rightarrow> string \<Rightarrow> string \<Rightarrow> int \<Rightarrow> bool" where
  "session_current cache sdb u s v \<longleftrightarrow>
     (\<exists>b. truthy b \<and> truthy_text (cache (key_session s)) \<and> JSON_parse (the (cache (key_session s))) = Some b \<and>
        \<not> truthy (get_field b ''revoked'') \<and> get_field b ''userId'' = Str u \<and>
        get_field b ''sessionTokenVersion'' = Num (of_int v)) \<or>
     ((\<not> truthy_text (cache (key_session s)) \<or>
       (\<exists>b. JSON_parse (the (cache (key_session s))) = Some b \<and> \<not> truthy b)) \<and>
      (\<exists>r. sdb s = Some r \<and> \<not> sr_isRevoked r \<and> sr_isActive r \<and> sr_userId r = u \<and> sr_tokenVersion r = v))"

definition token_current ::
  "(string \<Rightarrow> jtext option) \<Rightarrow> (string \<Rightarrow> int) \<Rightarrow> (string \<Rightarrow> session_row option) \<Rightarrow> payload \<Rightarrow> bool" where
  "token_current cache tvdb sdb p \<longleftrightarrow>
     (\<exists>u. payload_user (Some p) = Some u \<and>
        (if truthy_text (cache (key_userTokenVersion u))
         then Number_of (the (cache (key_userTokenVersion u))) else Some (tvdb u))
          = Some (case pl_tokenVersion p of None \<Rightarrow> 0 | Some v \<Rightarrow> v) \<and>
        (\<forall>s. pl_sessionId p = Some s \<and> s \<noteq> [] \<longrightarrow>
           session_current cache sdb u s (case pl_sessionTokenVersion p of None \<Rightarrow> 0 | Some v \<Rightarrow> v)) \<and>
        (payload_device p \<noteq> [] \<longrightarrow> cache (key_deviceBanned (payload_device p)) \<noteq> Some (Raw ''1'')))"

definition reads_from ::
  "'w session_deps \<Rightarrow> 'w \<Rightarrow> (string \<Rightarrow> jtext option) \<Rightarrow> (string \<Rightarrow> int) \<Rightarrow> (string \<Rightarrow> session_row option) \<Rightarrow> bool" where
  "reads_from D w cache tvdb sdb \<longleftrightarrow>
     (\<forall>ks. d_mget D ks w = (Inr (map cache ks), w)) \<and>
     (\<forall>u. d_findUserTokenVersion D u w = (Inr (tvdb u), w)) \<and>
     (\<forall>s. d_findSession D s w = (Inr (sdb s), w))"

lemma check_session_None:
  assumes "reads_from D w cache tvdb sdb"
  shows "\<exists>v. check_session D p u s (cache (key_session s)) w = (Inr v, w) \<and> v \<noteq> Some Allow \<and>
    (v = None \<longleftrightarrow> session_current cache sdb u s (case pl_sessionTokenVersion p of None \<Rightarrow> 0 | Some v \<Rightarrow> v))"
proof -
  have read: "d_findSession D s w = (Inr (sdb s), w)" using assms by (simp add: reads_from_def)
  let ?c = "cache (key_session s)"
  show ?thesis
  proof (cases "truthy_text ?c")
    case False
    then show ?thesis
      using read by (auto simp: check_session_def session_current_def act_simps truthy_def
          invalid_session_def stale_session_def split: option.split)
  next
    case True
    then show ?thesis
      using read
      by (cases "JSON_parse (the ?c)")
         (auto simp: check_session_def session_current_def act_simps truthy_def get_field_def
          invalid_session_def stale_session_def split: option.split)
  qed
qed

lemma checkAccessPayload_run:
  assumes "reads_from D w cache tvdb sdb"
  shows "\<exists>v. checkAccessPayload D (Some p) w = (Inr v, w) \<and> (v = Allow \<longleftrightarrow> token_current cache tvdb sdb p)"
proof (cases "payload_user (Some p)")
  case None
  then show ?thesis by (simp add: checkAccessPayload_def token_current_def act_simps)
next
  case (Some u)
  have mget: "d_mget D ks w = (Inr (map cache ks), w)" for ks using assms by (simp add: reads_from_def)
  have tv: "d_findUserTokenVersion D u w = (Inr (tvdb u), w)" using assms by (simp add: reads_from_def)
  show ?thesis
  proof (cases "truthy_str (pl_sessionId p)")
    case False
    then have "\<not> (\<exists>s. pl_sessionId p = Some s \<and> s \<noteq> [])"
      by (auto simp: truthy_str_def)
    with False show ?thesis
      using mget tv Some
      by (auto simp: checkAccessPayload_def token_current_def act_simps at_or_null_def Let_def)
  next
    case True
    then obtain s where s: "pl_sessionId p = Some s" "s \<noteq> []"
      by (auto simp: truthy_str_def split: option.splits)
    obtain v where v: "check_session D p u s (cache (key_session s)) w = (Inr v, w)"
        "v \<noteq> Some Allow" "v = None \<longleftrightarrow> session_current cache sdb u s (case pl_sessionTokenVersion p of None \<Rightarrow> 0 | Some v \<Rightarrow> v)"
      using check_session_None [OF assms, of p u s] by blast
    show ?thesis
      using mget tv Some s True v(1,2)
      by (cases v) (auto simp: checkAccessPayload_def token_current_def act_simps at_or_null_def Let_def
          v(3) [symmetric])
  qed
qed

section \<open>Sockets\<close>

text \<open>The handshake's \<open>auth\<close>, \<open>query\<close> and \<open>headers\<close>: missing fields are \<open>Undefined\<close>.\<close>

record handshake =
  hs_auth :: "string \<Rightarrow> jsval"
  hs_query :: "string \<Rightarrow> jsval"
  hs_headers :: "string \<Rightarrow> jsval"

record socket =
  handshake :: handshake
  authUserId :: "string option"     \<comment> \<open>\<open>socket.data.authUserId\<close>\<close>

definition EXPIRED_GRACE_SEC :: int where "EXPIRED_GRACE_SEC = 30 * 86400"

definition mode_of :: "(string \<Rightarrow> string option) \<Rightarrow> string \<Rightarrow> string list \<Rightarrow> string" where
  "mode_of env name modes =
     (let m = toLowerCase (js_trim (str_or (env name) ''log'')) in if m \<in> set modes then m else ''log'')"

definition sessionCheckMode :: "(string \<Rightarrow> string option) \<Rightarrow> string" where
  "sessionCheckMode env = mode_of env ''LIVE_SESSION_CHECK_MODE'' [''log'', ''enforce'']"
definition socketAuthMode :: "(string \<Rightarrow> string option) \<Rightarrow> string" where
  "socketAuthMode env = mode_of env ''LIVE_SOCKET_AUTH_MODE'' [''off'', ''log'', ''enforce'']"

definition jwtSecret :: "(string \<Rightarrow> string option) \<Rightarrow> string option" where
  "jwtSecret env = or_str (env ''JWT_ACCESS_SECRET'') (or_str (env ''JWT_SECRET'') (env ''JWT_SECRET_KEY''))"

definition stripBearer :: "jsval \<Rightarrow> string" where
  "stripBearer v =
     (case v of
        Str x \<Rightarrow> (let s = js_trim x in if startsWith (toLowerCase s) ''bearer '' then js_trim (drop 7 s) else s)
      | _ \<Rightarrow> [])"

definition extractSocketToken :: "handshake \<Rightarrow> string" where
  "extractSocketToken h =
     (case filter (\<lambda>t. t \<noteq> []) (map stripBearer
        [hs_auth h ''token'', hs_auth h ''Authorization'', hs_auth h ''authorization'',
         hs_headers h ''authorization'', hs_query h ''token'']) of
        [] \<Rightarrow> [] | t # _ \<Rightarrow> t)"

definition claimedUserId :: "handshake \<Rightarrow> string option" where
  "claimedUserId h =
     (let v = (if truthy (hs_auth h ''userId'') then hs_auth h ''userId'' else hs_query h ''userId'')
      in if truthy v then Some (js_String v) else None)"

definition socketUserId :: "socket \<Rightarrow> string option" where
  "socketUserId s = (if truthy_str (authUserId s) then authUserId s else claimedUserId (handshake s))"

definition verifySocketToken ::
  "jwt_verify \<Rightarrow> handshake \<Rightarrow> string option \<Rightarrow> int \<Rightarrow> string option \<Rightarrow> string \<times> string option" where
  "verifySocketToken verify h secret nowSec previous =
     (let token = extractSocketToken h in
      if token = [] then (''missing'', None)
      else if \<not> truthy_str secret then (''invalid'', None)
      else let accept = (\<lambda>outcome p. case payload_user (Some p) of
                           None \<Rightarrow> (''invalid'', None) | Some u \<Rightarrow> (outcome, Some u)) in
      case verifyRotating verify token (the secret) previous False of
        Inr p \<Rightarrow> accept ''ok'' p
      | Inl err \<Rightarrow>
          if e_name err \<noteq> ''TokenExpiredError'' then (''invalid'', None)
          else case verifyRotating verify token (the secret) previous True of
            Inl _ \<Rightarrow> (''invalid'', None)
          | Inr p \<Rightarrow>
              (case pl_exp p of
                 None \<Rightarrow> (''expired_too_old'', None)
               | Some e \<Rightarrow>
                   if e = 0 \<or> nowSec - e > EXPIRED_GRACE_SEC then (''expired_too_old'', None)
                   else accept ''expired_ok'' p))"

definition pinHandshakeUserId :: "string \<Rightarrow> handshake \<Rightarrow> handshake" where
  "pinHandshakeUserId u h =
     h\<lparr>hs_auth := (hs_auth h)(''userId'' := Str u),
       hs_query := (hs_query h)(''userId'' := Str u, ''user_id'' := Str u, ''uid'' := Str u, ''id'' := Str u)\<rparr>"

text \<open>What \<open>next\<close> is called with: nothing, or the reason of a rejected connection.\<close>

datatype connect = Connected | Unauthorized string

text \<open>
  \<open>decode\<close> is \<open>jwt.decode\<close>, \<open>checker\<close> the session check (\<open>checkAccessPayload\<close> in production). The
  outcome counters are not modelled.
\<close>

definition socketAuthMiddleware ::
  "(string \<Rightarrow> string option) \<Rightarrow> jwt_verify \<Rightarrow> (string \<Rightarrow> payload option) \<Rightarrow>
     (payload option \<Rightarrow> ('w, verdict) act) \<Rightarrow> int \<Rightarrow> socket \<Rightarrow> 'w \<Rightarrow> connect \<times> socket \<times> 'w" where
  "socketAuthMiddleware env verify decode checker nowSec s w =
     (let mode = socketAuthMode env in
      if mode = ''off'' then (Connected, s, w) else
      let hs = handshake s;
          (outcome, userId) =
            verifySocketToken verify hs (jwtSecret env) nowSec (env ''JWT_ACCESS_SECRET_PREVIOUS'');
          s1 = s\<lparr>authUserId := userId\<rparr>;
          (denied, w1) =
            (case userId of
               None \<Rightarrow> (None, w)
             | Some u \<Rightarrow>
                 (case checker (decode (extractSocketToken hs)) w of
                    (Inl _, w1) \<Rightarrow> (None, w1)
                  | (Inr Allow, w1) \<Rightarrow> (None, w1)
                  | (Inr (Deny st code m), w1) \<Rightarrow>
                      (if code \<noteq> ''SESSION_TOKEN_STALE'' \<and> mode = ''enforce''
                          \<and> sessionCheckMode env = ''enforce''
                       then Some code else None, w1)))
      in case denied of
           Some code \<Rightarrow> (Unauthorized code, s1, w1)
         | None \<Rightarrow>
             if mode = ''log'' then (Connected, s1, w1)
             else case userId of
               None \<Rightarrow> (Unauthorized outcome, s1, w1)
             | Some u \<Rightarrow> (Connected, s1\<lparr>handshake := pinHandshakeUserId u (handshake s1)\<rparr>, w1))"

text \<open>A token proves a user: it verifies with the current or previous secret, unexpired or within the grace.\<close>

definition proves :: "jwt_verify \<Rightarrow> (string \<Rightarrow> string option) \<Rightarrow> int \<Rightarrow> string \<Rightarrow> string \<Rightarrow> bool" where
  "proves verify env nowSec token u \<longleftrightarrow>
     (\<exists>secret p ign. jwtSecret env = Some secret \<and>
        verifyRotating verify token secret (env ''JWT_ACCESS_SECRET_PREVIOUS'') ign = Inr p \<and>
        payload_user (Some p) = Some u \<and>
        (ign \<longrightarrow> (\<exists>e. pl_exp p = Some e \<and> nowSec - e \<le> EXPIRED_GRACE_SEC)))"

lemma verifySocketToken_proves:
  assumes "verifySocketToken verify h (jwtSecret env) nowSec (env ''JWT_ACCESS_SECRET_PREVIOUS'') = (outcome, Some u)"
  shows "proves verify env nowSec (extractSocketToken h) u \<and> u \<noteq> []"
proof -
  have nonempty: "u \<noteq> []" if "payload_user (Some p) = Some u" for p
    using that or_str_Some by (fastforce simp: payload_user_def)
  obtain secret where secret: "jwtSecret env = Some secret"
    using assms by (auto simp: verifySocketToken_def truthy_str_def Let_def split: if_splits option.splits)
  show ?thesis
  proof (cases "verifyRotating verify (extractSocketToken h) secret (env ''JWT_ACCESS_SECRET_PREVIOUS'') False")
    case (Inr p)
    then have "payload_user (Some p) = Some u"
      using assms secret by (auto simp: verifySocketToken_def Let_def split: if_splits option.splits)
    with Inr secret nonempty show ?thesis unfolding proves_def by blast
  next
    case (Inl err)
    then obtain p e where
        "verifyRotating verify (extractSocketToken h) secret (env ''JWT_ACCESS_SECRET_PREVIOUS'') True = Inr p"
        "pl_exp p = Some e" "nowSec - e \<le> EXPIRED_GRACE_SEC" "payload_user (Some p) = Some u"
      using assms secret
      by (auto simp: verifySocketToken_def Let_def split: if_splits option.splits sum.splits)
    with secret nonempty show ?thesis unfolding proves_def by blast
  qed
qed

section \<open>REST\<close>

datatype rest_auth =
    Proceed_as string payload
  | Next_error int string string      \<comment> \<open>status, code, message\<close>
  | Limited int                       \<comment> \<open>answered 429 by the rate limiter\<close>

text \<open>\<open>limiter\<close> is \<open>restRateAllow\<close> for this request, applied to the user id.\<close>

definition authenticate ::
  "(string \<Rightarrow> string option) \<Rightarrow> jwt_verify \<Rightarrow> (payload option \<Rightarrow> ('w, verdict) act) \<Rightarrow>
     (string \<Rightarrow> rate_reply) \<Rightarrow> string option \<Rightarrow> 'w \<Rightarrow> rest_auth \<times> 'w" where
  "authenticate env verify checker limiter authHeader w =
     (let missing = Next_error 401 ''UNAUTHORIZED'' ''Authorization token missing'' in
      if \<not> truthy_str authHeader \<or> \<not> startsWith (the authHeader) ''Bearer '' then (missing, w) else
      let token = js_trim (drop 7 (the authHeader)) in
      if token = [] then (missing, w) else
      let secret = (case jwtSecret env of None \<Rightarrow> [] | Some x \<Rightarrow> x) in
      case verifyRotating verify token secret (env ''JWT_ACCESS_SECRET_PREVIOUS'') False of
        Inl err \<Rightarrow>
          (Next_error 401 ''UNAUTHORIZED''
             (if e_name err = ''TokenExpiredError'' then ''Token expired. Please login again.''
              else ''Invalid token ('' @ e_message err @ '')''), w)
      | Inr p \<Rightarrow>
          (case payload_user (Some p) of
             None \<Rightarrow> (Next_error 401 ''INVALID_TOKEN'' ''Invalid token'', w)
           | Some userId \<Rightarrow>
               let (verdict, w1) = (case checker (Some p) w of
                      (Inl _, w1) \<Rightarrow> (Allow, w1) | (Inr v, w1) \<Rightarrow> (v, w1));
                   proceed = (case limiter userId of
                      Proceed \<Rightarrow> Proceed_as userId p | TooManyRequests n \<Rightarrow> Limited n)
               in case verdict of
                    Allow \<Rightarrow> (proceed, w1)
                  | Deny st code m \<Rightarrow>
                      if sessionCheckMode env = ''enforce'' then (Next_error st code m, w1) else (proceed, w1)))"

section \<open>Rejoining a stream\<close>

record live_stream =
  ls_id :: string
  ls_streamId :: string
  ls_userId :: string
  ls_isLive :: bool

datatype role = Host | Viewer
datatype rejoin = Rejoin role | NoRejoin int string

definition decideRejoin :: "live_stream option \<Rightarrow> string \<Rightarrow> int option \<Rightarrow> bool \<Rightarrow> rejoin" where
  "decideRejoin stream userId kickTtl hasJoined =
     (case stream of
        None \<Rightarrow> NoRejoin 404 ''STREAM_NOT_FOUND''
      | Some s \<Rightarrow>
          if \<not> ls_isLive s then NoRejoin 404 ''STREAM_ENDED''
          else if ls_userId s = userId then Rejoin Host
          else if kickTtl \<noteq> None then NoRejoin 403 ''KICKED''
          else if \<not> hasJoined then NoRejoin 403 ''NOT_JOINED''
          else Rejoin Viewer)"

record 'w rejoin_deps =
  j_getStream :: "string \<Rightarrow> ('w, live_stream option) act"
  j_isKicked :: "string \<Rightarrow> string \<Rightarrow> ('w, int option) act"
  j_hasJoined :: "string \<Rightarrow> string \<Rightarrow> ('w, bool) act"
  j_hostToken :: "string \<Rightarrow> string \<Rightarrow> ('w, string) act"
  j_viewerToken :: "string \<Rightarrow> string \<Rightarrow> ('w, string) act"

datatype rejoin_reply = Token role string string string | Refused int string

definition rejoinTokenService :: "'w rejoin_deps \<Rightarrow> string \<Rightarrow> string \<Rightarrow> ('w, rejoin_reply) act" where
  "rejoinTokenService D sid0 userId =
     bindA (j_getStream D sid0) (\<lambda>stream.
       let isHost = (case stream of None \<Rightarrow> False | Some s \<Rightarrow> ls_userId s = userId);
           sid = (case stream of None \<Rightarrow> [] | Some s \<Rightarrow> ls_streamId s);
           live = (case stream of None \<Rightarrow> False | Some s \<Rightarrow> ls_isLive s)
       in bindA (if live \<and> \<not> isHost
                 then bindA (j_isKicked D sid userId) (\<lambda>k. bindA (j_hasJoined D sid userId) (\<lambda>j. ret (k, j)))
                 else ret (None, False)) (\<lambda>(kickTtl, hasJoined).
          case decideRejoin stream userId kickTtl hasJoined of
            NoRejoin st code \<Rightarrow> ret (Refused st code)
          | Rejoin r \<Rightarrow>
              bindA (case r of Host \<Rightarrow> j_hostToken D sid userId | Viewer \<Rightarrow> j_viewerToken D sid userId)
                (\<lambda>token. ret (Token r token sid (ls_id (the stream))))))"

section \<open>Properties\<close>

text \<open>
  C20: a verified token is allowed exactly when it is current: its version is the cached (else the
  stored) version of its user, its session is neither revoked nor stale, and its device is not banned.
\<close>

theorem access_check_exact:
  assumes "reads_from D w cache tvdb sdb"
  shows "fst (checkAccessPayload D (Some p) w) = Inr Allow \<longleftrightarrow> token_current cache tvdb sdb p"
  using checkAccessPayload_run [OF assms, of p] by auto

definition demo_deps :: "unit session_deps" where
  "demo_deps = \<lparr>d_mget = (\<lambda>ks. ret (map (\<lambda>_. None) ks)), d_findUserTokenVersion = (\<lambda>_. ret 4),
     d_findSession = (\<lambda>_. ret None)\<rparr>"

definition demo_payload :: payload where
  "demo_payload = \<lparr>pl_userId = Some ''u1'', pl_sub = None, pl_sessionId = None, pl_deviceId = Undefined,
     pl_tokenVersion = Some 4, pl_sessionTokenVersion = None, pl_exp = Some 100\<rparr>"

theorem access_check_exact_witness:
  "fst (checkAccessPayload demo_deps (Some demo_payload) ()) = Inr Allow"
proof -
  have "reads_from demo_deps () (\<lambda>_. None) (\<lambda>_. 4) (\<lambda>_. None)"
    by (simp add: reads_from_def demo_deps_def act_simps comp_def)
  from access_check_exact [OF this] show ?thesis
    by (simp add: token_current_def demo_payload_def payload_user_def or_str_def truthy_str_def
        truthy_text_def payload_device_def)
qed

text \<open>
  C11: no socket acts as someone else. In enforce mode a socket is connected only with a token that
  proves a user, and that user's id is what the handlers then read, from the socket and the handshake.
\<close>

theorem enforced_socket_identity:
  assumes "socketAuthMode env = ''enforce''"
    and "socketAuthMiddleware env verify decode checker nowSec s w = (Connected, s1, w1)"
  shows "\<exists>u. proves verify env nowSec (extractSocketToken (handshake s)) u \<and>
    socketUserId s1 = Some u \<and> claimedUserId (handshake s1) = Some u"
proof -
  obtain outcome uo where v: "verifySocketToken verify (handshake s) (jwtSecret env) nowSec
      (env ''JWT_ACCESS_SECRET_PREVIOUS'') = (outcome, uo)"
    by (cases "verifySocketToken verify (handshake s) (jwtSecret env) nowSec (env ''JWT_ACCESS_SECRET_PREVIOUS'')")
  obtain u where u: "uo = Some u" and s1: "s1 = s\<lparr>authUserId := Some u,
      handshake := pinHandshakeUserId u (handshake s)\<rparr>"
    using assms v by (auto simp: socketAuthMiddleware_def Let_def
        split: option.splits prod.splits sum.splits verdict.splits if_splits)
  have "proves verify env nowSec (extractSocketToken (handshake s)) u \<and> u \<noteq> []"
    using verifySocketToken_proves v u by blast
  then show ?thesis
    by (intro exI [of _ u])
      (simp add: s1 socketUserId_def truthy_str_def claimedUserId_def pinHandshakeUserId_def truthy_def js_String_def)
qed

definition demo_env :: "string \<Rightarrow> string option" where
  "demo_env v = (if v = ''JWT_ACCESS_SECRET'' then Some ''k''
     else if v = ''LIVE_SOCKET_AUTH_MODE'' then Some ''enforce'' else None)"

definition demo_verify :: jwt_verify where
  "demo_verify token secret ign = (if token = ''t'' \<and> secret = ''k'' then Inr demo_payload
     else Inl \<lparr>e_name = ''JsonWebTokenError'', e_message = ''invalid signature'', e_code = None, e_status = None, e_details = Undefined\<rparr>)"

definition demo_socket :: socket where
  "demo_socket = \<lparr>handshake = \<lparr>hs_auth = (\<lambda>f. if f = ''token'' then Str ''t'' else if f = ''userId'' then Str ''victim''
       else Undefined), hs_query = (\<lambda>_. Undefined), hs_headers = (\<lambda>_. Undefined)\<rparr>, authUserId = None\<rparr>"

lemma demo_mode: "socketAuthMode demo_env = ''enforce''"
  by (simp add: socketAuthMode_def mode_of_def demo_env_def js_simps js_trim_def js_space_def
      toLowerCase_def lower_char_def Let_def)

lemma demo_connects:
  "fst (socketAuthMiddleware demo_env demo_verify (\<lambda>_. None) (\<lambda>_. ret Allow) 50 demo_socket ()) = Connected"
  unfolding socketAuthMiddleware_def demo_mode
  by (simp add: verifySocketToken_def extractSocketToken_def stripBearer_def demo_socket_def js_trim_def
      js_space_def startsWith_def toLowerCase_def lower_char_def jwtSecret_def demo_env_def or_str_def
      truthy_str_def verifyRotating_def demo_verify_def demo_payload_def payload_user_def act_simps Let_def)

theorem enforced_socket_identity_witness:
  "\<exists>u. proves demo_verify demo_env 50 (extractSocketToken (handshake demo_socket)) u \<and>
    socketUserId (fst (snd (socketAuthMiddleware demo_env demo_verify (\<lambda>_. None) (\<lambda>_. ret Allow) 50 demo_socket ()))) = Some u"
proof -
  let ?r = "socketAuthMiddleware demo_env demo_verify (\<lambda>_. None) (\<lambda>_. ret Allow) 50 demo_socket ()"
  have "?r = (Connected, fst (snd ?r), snd (snd ?r))"
    using demo_connects by (metis prod.collapse)
  from enforced_socket_identity [OF demo_mode this] show ?thesis by blast
qed

text \<open>
  even when nothing is rejected (log mode), a socket that presents a token proving a user acts
  as that user, whatever user id the client claims in the handshake.
\<close>

theorem logged_socket_identity:
  assumes "socketAuthMode env \<noteq> ''off''"
    and "verifySocketToken verify (handshake s) (jwtSecret env) nowSec (env ''JWT_ACCESS_SECRET_PREVIOUS'')
      = (outcome, Some u)"
  shows "socketUserId (fst (snd (socketAuthMiddleware env verify decode checker nowSec s w))) = Some u"
proof -
  have "u \<noteq> []" using verifySocketToken_proves [OF assms(2)] by blast
  then show ?thesis
    using assms by (auto simp: socketAuthMiddleware_def socketUserId_def truthy_str_def Let_def
        split: option.splits prod.splits sum.splits verdict.splits)
qed

theorem logged_socket_identity_witness:
  "socketUserId (fst (snd (socketAuthMiddleware demo_env demo_verify (\<lambda>_. None) (\<lambda>_. ret Allow) 50 demo_socket ())))
    = Some ''u1''"
  by (rule logged_socket_identity [where outcome = "''ok''"])
     (simp add: demo_mode, simp add: verifySocketToken_def extractSocketToken_def stripBearer_def demo_socket_def
      js_trim_def js_space_def startsWith_def toLowerCase_def lower_char_def jwtSecret_def demo_env_def or_str_def
      truthy_str_def verifyRotating_def demo_verify_def demo_payload_def payload_user_def Let_def)



text \<open>
  a rejoin token is given only for a live stream, to its host, or to a viewer who had joined it
  and is not kicked now; the host gets a host token and a viewer a viewer token.
\<close>

theorem rejoin_only_members:
  assumes "rejoinTokenService D i u w = (Inr (Token r token sid i'), w1)"
  shows "\<exists>s w0. j_getStream D i w = (Inr (Some s), w0) \<and> ls_isLive s \<and> sid = ls_streamId s \<and> i' = ls_id s \<and>
    (r = Host \<and> ls_userId s = u \<and> j_hostToken D sid u w0 = (Inr token, w1) \<or>
     r = Viewer \<and> ls_userId s \<noteq> u \<and>
       (\<exists>w2 w3. j_isKicked D sid u w0 = (Inr None, w2) \<and> j_hasJoined D sid u w2 = (Inr True, w3) \<and>
          j_viewerToken D sid u w3 = (Inr token, w1)))"
proof -
  obtain so w0 where g: "j_getStream D i w = (Inr so, w0)"
    using assms by (auto simp: rejoinTokenService_def act_simps split: prod.splits sum.splits)
  obtain s where s: "so = Some s" "ls_isLive s"
    using assms g by (auto simp: rejoinTokenService_def act_simps decideRejoin_def Let_def
        split: prod.splits sum.splits option.splits if_splits rejoin.splits)
  then show ?thesis
    using assms g by (auto simp: rejoinTokenService_def act_simps decideRejoin_def Let_def
        split: prod.splits sum.splits if_splits rejoin.splits role.splits)
qed

definition demo_rejoin :: "unit rejoin_deps" where
  "demo_rejoin = \<lparr>j_getStream = (\<lambda>i. ret (Some \<lparr>ls_id = i, ls_streamId = ''s'', ls_userId = ''h'', ls_isLive = True\<rparr>)),
     j_isKicked = (\<lambda>_ _. ret None), j_hasJoined = (\<lambda>_ _. ret True), j_hostToken = (\<lambda>_ _. ret ''HT''),
     j_viewerToken = (\<lambda>_ _. ret ''VT'')\<rparr>"

theorem rejoin_only_members_witness:
  "\<exists>s w0. j_getStream demo_rejoin ''7'' () = (Inr (Some s), w0) \<and> ls_isLive s"
proof -
  have "rejoinTokenService demo_rejoin ''7'' ''v'' () = (Inr (Token Viewer ''VT'' ''s'' ''7''), ())"
    by (simp add: rejoinTokenService_def demo_rejoin_def act_simps decideRejoin_def Let_def)
  from rejoin_only_members [OF this] show ?thesis by blast
qed

end
