(* ===== verification/Admin_Auth.thy ===== *)
theory Admin_Auth
  imports Session_Auth
begin

text \<open>
  Admin authentication, \<open>middlewares/adminAuthMiddleware.js\<close>: the access token of a system admin, the
  single-session roles, and the views that restrict an admin to a list of endpoints.
\<close>

section \<open>Endpoint keys\<close>

text \<open>\<open>path.split('/')\<close>\<close>

fun split_on :: "char \<Rightarrow> string \<Rightarrow> string list" where
  "split_on c [] = [[]]"
| "split_on c (x # xs) =
     (if x = c then [] # split_on c xs
      else case split_on c xs of [] \<Rightarrow> [[x]] | y # ys \<Rightarrow> (x # y) # ys)"

fun join_with :: "char \<Rightarrow> string list \<Rightarrow> string" where
  "join_with c [] = []"
| "join_with c [x] = x"
| "join_with c (x # y # ys) = x @ c # join_with c (y # ys)"

definition upper_char :: "char \<Rightarrow> char" where
  "upper_char c = (let n = (of_char c :: nat) in if 97 \<le> n \<and> n \<le> 122 then char_of (n - 32) else c)"

definition is_digit :: "char \<Rightarrow> bool" where
  "is_digit c \<longleftrightarrow> (let n = (of_char c :: nat) in 48 \<le> n \<and> n \<le> 57)"

definition is_hex_dash :: "char \<Rightarrow> bool" where
  "is_hex_dash c \<longleftrightarrow> is_digit c \<or> c = CHR ''-'' \<or>
     (let n = (of_char c :: nat) in 97 \<le> n \<and> n \<le> 102 \<or> 65 \<le> n \<and> n \<le> 70)"

definition normal_segment :: "string \<Rightarrow> string" where
  "normal_segment seg =
     (if seg = [] then seg
      else if hd seg = CHR '':'' \<or> (length seg = 36 \<and> list_all is_hex_dash seg) \<or> list_all is_digit seg
      then '':p'' else seg)"

definition strip_slashes :: "string \<Rightarrow> string" where
  "strip_slashes p = rev (dropWhile (\<lambda>c. c = CHR ''/'') (rev p))"

definition normalPath :: "string \<Rightarrow> string" where
  "normalPath path = strip_slashes (join_with CHR ''/'' (map normal_segment
     (split_on CHR ''/'' (takeWhile (\<lambda>c. c \<noteq> CHR ''?'') path))))"

definition normalizeAdminEndpoint :: "string \<Rightarrow> string" where
  "normalizeAdminEndpoint endpoint =
     (if endpoint = [] then []
      else let trimmed = js_trim endpoint;
               found = CHR '' '' \<in> set trimmed;
               meth = (if found then takeWhile (\<lambda>c. c \<noteq> CHR '' '') trimmed else ''GET'');
               path = (if found then tl (dropWhile (\<lambda>c. c \<noteq> CHR '' '') trimmed) else trimmed)
           in map upper_char meth @ CHR '' '' # normalPath path)"

lemma split_on_nonempty: "split_on c s \<noteq> []"
  by (induction s) (auto split: list.split)

lemma split_on_no_sep: "\<forall>seg \<in> set (split_on c s). c \<notin> set seg"
  by (induction s) (auto split: list.splits)

lemma split_on_single: "c \<notin> set s \<Longrightarrow> split_on c s = [s]"
  by (induction s) auto

lemma split_on_cons: "c \<notin> set x \<Longrightarrow> split_on c (x @ c # s) = x # split_on c s"
  by (induction x) auto

lemma split_join: "xs \<noteq> [] \<Longrightarrow> \<forall>x \<in> set xs. c \<notin> set x \<Longrightarrow> split_on c (join_with c xs) = xs"
  by (induction c xs rule: join_with.induct) (auto simp: split_on_single split_on_cons)

lemma normal_segment_idem [simp]: "normal_segment (normal_segment s) = normal_segment s"
  by (simp add: normal_segment_def)

lemma normal_segment_no_slash: "CHR ''/'' \<notin> set s \<Longrightarrow> CHR ''/'' \<notin> set (normal_segment s)"
  by (simp add: normal_segment_def)

section \<open>The checks\<close>

record admin_payload =
  ap_iss :: string
  ap_type :: string
  ap_sub :: "string option"
  ap_sessionId :: "string option"

record admin =
  ad_id :: string
  ad_role :: string
  ad_is_active :: bool
  ad_status :: string

record admin_session =
  as_admin_id :: string

text \<open>The database queries; \<open>a_findSession\<close> looks for an unrevoked, unexpired session of that id.\<close>

record 'w admin_db =
  a_findAdmin :: "string \<Rightarrow> ('w, admin option) act"
  a_findSession :: "string \<Rightarrow> ('w, admin_session option) act"
  a_views :: "string \<Rightarrow> ('w, string list list) act"     \<comment> \<open>endpoint lists of the assigned views\<close>

definition AppError :: "int \<Rightarrow> string \<Rightarrow> string \<Rightarrow> exn" where
  "AppError status msg code =
     \<lparr>e_name = ''AppError'', e_message = msg, e_code = Some code, e_status = Some status, e_details = Undefined\<rparr>"

definition admin_invalid :: exn where
  "admin_invalid = AppError 401 ''Admin token invalid or expired'' ''ADMIN_TOKEN_INVALID''"

definition usesSingleAdminSession :: "string \<Rightarrow> bool" where
  "usesSingleAdminSession r \<longleftrightarrow> r = ''CUSTOMER_SUPPORT'' \<or> r = ''SUPER_ADMIN''"

text \<open>\<open>averify\<close> is \<open>verifyRotating\<close> with HS256 and the admin secrets.\<close>

definition verifyAdminAccessToken ::
  "'w redis \<Rightarrow> 'w admin_db \<Rightarrow> string option \<Rightarrow> (string \<Rightarrow> string \<Rightarrow> exn + admin_payload) \<Rightarrow> string \<Rightarrow>
     ('w, admin_payload \<times> admin) act" where
  "verifyAdminAccessToken R DB secret averify token =
     (if \<not> truthy_str secret
      then throw (AppError 500 ''ADMIN_JWT_SECRET is not configured'' ''ADMIN_JWT_NOT_CONFIGURED'')
      else case averify token (the secret) of
        Inl _ \<Rightarrow> throw admin_invalid
      | Inr p \<Rightarrow>
          if ap_iss p \<noteq> ''offoo-admin'' \<or> ap_type p \<noteq> ''access'' \<or> \<not> truthy_str (ap_sub p)
          then throw admin_invalid
          else let sub = the (ap_sub p) in
          bindA (\<lambda>w. if isOpen R w
                     then catchA (r_get R (''admin:revoked:'' @ sub)) (\<lambda>_. ret None) w
                     else (Inr None, w)) (\<lambda>revoked.
            if truthy_text revoked then throw admin_invalid
            else bindA (a_findAdmin DB sub) (\<lambda>ao.
              case ao of
                None \<Rightarrow> throw (AppError 401 ''Admin not found or inactive'' ''ADMIN_INVALID_CREDENTIALS'')
              | Some ad \<Rightarrow>
                  if \<not> ad_is_active ad \<or> ad_status ad \<noteq> ''ACTIVE''
                  then throw (AppError 401 ''Admin not found or inactive'' ''ADMIN_INVALID_CREDENTIALS'')
                  else if usesSingleAdminSession (ad_role ad)
                  then if \<not> truthy_str (ap_sessionId p) then throw admin_invalid
                       else bindA (a_findSession DB (the (ap_sessionId p))) (\<lambda>so.
                              case so of
                                None \<Rightarrow> throw admin_invalid
                              | Some s \<Rightarrow> if as_admin_id s \<noteq> ad_id ad then throw admin_invalid else ret (p, ad))
                  else ret (p, ad))))"

record view_access =
  va_restricted :: bool
  va_endpoints :: "string list"

definition loadViewAccess :: "'w admin_db \<Rightarrow> string \<Rightarrow> ('w, view_access) act" where
  "loadViewAccess DB adminId =
     bindA (a_views DB adminId) (\<lambda>assignments.
       ret \<lparr>va_restricted = assignments \<noteq> [], va_endpoints = map normalizeAdminEndpoint (concat assignments)\<rparr>)"

definition BASE_ALLOWED_ENDPOINTS :: "string list" where
  "BASE_ALLOWED_ENDPOINTS = map normalizeAdminEndpoint
     [''POST /admin/auth/logout'', ''GET /admin/auth/me'', ''GET /admin/views/me'',
      ''GET /admin/support/notifications'', ''GET /admin/support/notifications/badge'',
      ''POST /admin/support/notifications/read'']"

record request =
  rq_method :: string
  rq_baseUrl :: string
  rq_path :: string

definition currentAdminEndpointKey :: "request \<Rightarrow> string" where
  "currentAdminEndpointKey rq =
     (let mounted = rq_baseUrl rq @ rq_path rq;
          relative = (if startsWith mounted ''/api/v1'' then drop 7 mounted
                      else if startsWith mounted ''/api'' then drop 4 mounted
                      else mounted)
      in normalizeAdminEndpoint (rq_method rq @ CHR '' '' # relative))"

datatype admin_auth =
    Admin_next admin "view_access option"
  | Admin_error int string

definition authenticateAdmin ::
  "'w redis \<Rightarrow> 'w admin_db \<Rightarrow> string option \<Rightarrow> (string \<Rightarrow> string \<Rightarrow> exn + admin_payload) \<Rightarrow> request \<Rightarrow>
     string option \<Rightarrow> ('w, admin_auth) act" where
  "authenticateAdmin R DB secret averify rq authHeader =
     (if \<not> truthy_str authHeader \<or> \<not> startsWith (the authHeader) ''Bearer ''
         \<or> js_trim (drop 7 (the authHeader)) = []
      then ret (Admin_error 401 ''ADMIN_TOKEN_MISSING'')
      else catchA
        (bindA (verifyAdminAccessToken R DB secret averify (js_trim (drop 7 (the authHeader)))) (\<lambda>(p, ad).
           bindA (\<lambda>w. if isOpen R w
                      then quietly (r_set R (''admin:online:'' @ ad_id ad) (Raw ''1'') (ex_s 300)) w
                      else (Inr (), w)) (\<lambda>_.
           if ad_role ad = ''SUPER_ADMIN'' then ret (Admin_next ad None)
           else bindA (loadViewAccess DB (ad_id ad)) (\<lambda>access.
             let key = currentAdminEndpointKey rq in
             if va_restricted access \<and> key \<noteq> [] \<and> key \<notin> set (va_endpoints access)
                \<and> key \<notin> set BASE_ALLOWED_ENDPOINTS
             then ret (Admin_error 403 ''ADMIN_VIEW_FORBIDDEN'')
             else ret (Admin_next ad (Some access))))))
        (\<lambda>err. if e_name err = ''AppError''
               then ret (Admin_error (the (e_status err)) (the (e_code err)))
               else ret (Admin_error 401 ''ADMIN_TOKEN_INVALID'')))"

definition requireAdminRole ::
  "string list \<Rightarrow> request \<Rightarrow> admin option \<Rightarrow> view_access option \<Rightarrow> admin_auth option" where
  "requireAdminRole roles rq adminUser access =
     (case adminUser of
        None \<Rightarrow> Some (Admin_error 401 ''ADMIN_TOKEN_MISSING'')
      | Some ad \<Rightarrow>
          if ad_role ad \<in> set roles then None
          else case access of
            Some a \<Rightarrow>
              if va_restricted a \<and> currentAdminEndpointKey rq \<noteq> []
                 \<and> currentAdminEndpointKey rq \<in> set (va_endpoints a)
              then None else Some (Admin_error 403 ''ADMIN_FORBIDDEN'')
          | None \<Rightarrow> Some (Admin_error 403 ''ADMIN_FORBIDDEN''))"

section \<open>Properties\<close>


definition demo_admin :: admin where
  "demo_admin = \<lparr>ad_id = ''a1'', ad_role = ''SUPER_ADMIN'', ad_is_active = True, ad_status = ''ACTIVE''\<rparr>"

definition demo_admin_db :: "mem admin_db" where
  "demo_admin_db = \<lparr>a_findAdmin = (\<lambda>i. ret (Some demo_admin)),
     a_findSession = (\<lambda>i. ret (Some \<lparr>as_admin_id = ''a1''\<rparr>)), a_views = (\<lambda>_. ret [])\<rparr>"

definition demo_averify :: "string \<Rightarrow> string \<Rightarrow> exn + admin_payload" where
  "demo_averify t k = (if t = ''tok'' \<and> k = ''k''
     then Inr \<lparr>ap_iss = ''offoo-admin'', ap_type = ''access'', ap_sub = Some ''a1'', ap_sessionId = Some ''s1''\<rparr>
     else Inl (Error ''invalid signature''))"


lemma join_no_query: "x \<noteq> c \<Longrightarrow> \<forall>s \<in> set xs. x \<notin> set s \<Longrightarrow> x \<notin> set (join_with c xs)"
  by (induction c xs rule: join_with.induct) auto

lemma normalPath_join:
  assumes "xs \<noteq> []" and "\<forall>s \<in> set xs. CHR ''/'' \<notin> set s \<and> CHR ''?'' \<notin> set s"
  shows "normalPath (join_with CHR ''/'' xs) = strip_slashes (join_with CHR ''/'' (map normal_segment xs))"
proof -
  have "CHR ''?'' \<notin> set (join_with CHR ''/'' xs)"
    using assms(2) by (intro join_no_query) auto
  then have "takeWhile (\<lambda>c. c \<noteq> CHR ''?'') (join_with CHR ''/'' xs) = join_with CHR ''/'' xs"
    unfolding takeWhile_eq_all_conv by (intro ballI notI) simp
  moreover have "split_on CHR ''/'' (join_with CHR ''/'' xs) = xs"
    using assms by (intro split_join) auto
  ultimately show ?thesis unfolding normalPath_def by (simp only:)
qed

text \<open>A segment that stands for an id: a route parameter, a UUID or a number.\<close>

definition id_segment :: "string \<Rightarrow> bool" where
  "id_segment s \<longleftrightarrow> s \<noteq> [] \<and> (hd s = CHR '':'' \<or> (length s = 36 \<and> list_all is_hex_dash s) \<or> list_all is_digit s)"

text \<open>
  an endpoint written in a view with route parameters covers exactly the requests for its ids:
  two paths whose segments agree, up to id segments standing for one another, have the same key.
\<close>

theorem view_pattern_covers_request:
  assumes "xs \<noteq> []"
    and "\<forall>s \<in> set xs \<union> set ys. CHR ''/'' \<notin> set s \<and> CHR ''?'' \<notin> set s"
    and "list_all2 (\<lambda>a b. a = b \<or> id_segment a \<and> id_segment b) xs ys"
  shows "normalPath (join_with CHR ''/'' xs) = normalPath (join_with CHR ''/'' ys)"
proof -
  have "map normal_segment xs = map normal_segment ys"
    using assms(3) by (induction rule: list_all2_induct) (auto simp: normal_segment_def id_segment_def)
  moreover have "ys \<noteq> []" using assms(1,3) by auto
  ultimately show ?thesis
    using assms(1,2) normalPath_join [of xs] normalPath_join [of ys] by simp
qed

theorem view_pattern_covers_request_witness:
  "normalPath (join_with CHR ''/'' [[], ''admin'', '':id'']) = normalPath (join_with CHR ''/'' [[], ''admin'', ''42''])"
  by (rule view_pattern_covers_request) (simp_all add: id_segment_def is_digit_def)

end
