(* ===== verification/Ledger_Client.thy ===== *)
theory Ledger_Client
  imports JS_Prelude
begin

text \<open>
  \<open>src/services/ledgerClient.js\<close>: the client of the money service. One operation is one POST, retried
  for a network error, a timeout or 502, 503 and 504 with the same \<open>requestId\<close>, within a time budget.
  The network, the clock, \<open>crypto\<close> and the environment variables are the arguments in \<open>ledger_env\<close>.
  The counters of \<open>record\<close> and the log lines (with the flag \<open>timedOut\<close> they print) are not modelled.
\<close>

section \<open>The environment\<close>

record post =
  p_url :: string
  p_timestamp :: string
  p_signature :: string
  p_body :: jtext
  p_timeout :: int

record http_res =
  h_status :: int
  h_json :: "exn + jsval"     \<comment> \<open>what \<open>res.json()\<close> settles with\<close>

text \<open>\<open>Response.ok\<close>\<close>

definition h_ok :: "http_res \<Rightarrow> bool" where
  "h_ok r \<longleftrightarrow> 200 \<le> h_status r \<and> h_status r \<le> 299"

record 'w ledger_env =
  le_now :: "'w \<Rightarrow> int"
  le_sleep :: "int \<Rightarrow> ('w, unit) act"
  le_fetch :: "post \<Rightarrow> ('w, http_res) act"
  le_uuid :: "('w, string) act"
  le_hmac :: "string \<Rightarrow> string \<Rightarrow> jtext \<Rightarrow> string"
    \<comment> \<open>hex HMAC-SHA256 under a key of a text followed by a body\<close>
  le_base_url :: "string option"
  le_secret :: "string option"

definition ATTEMPT_TIMEOUT_MS :: int where "ATTEMPT_TIMEOUT_MS = 18000"
definition TOTAL_BUDGET_MS :: int where "TOTAL_BUDGET_MS = 19000"
definition MIN_ATTEMPT_MS :: int where "MIN_ATTEMPT_MS = 1000"
definition RETRY_DELAYS_MS :: "int list" where "RETRY_DELAYS_MS = [100, 300]"
definition RETRY_STATUS :: "int list" where "RETRY_STATUS = [502, 503, 504]"

definition secret :: "'w ledger_env \<Rightarrow> string" where
  "secret E = str_or (le_secret E) []"

definition baseUrl :: "'w ledger_env \<Rightarrow> string" where
  "baseUrl E = rev (dropWhile (\<lambda>c. c = CHR ''/'') (rev (str_or (le_base_url E) ''http://127.0.0.1:3101'')))"

definition signRequest :: "'w ledger_env \<Rightarrow> string \<Rightarrow> string \<Rightarrow> string \<Rightarrow> string \<Rightarrow> jtext \<Rightarrow> string" where
  "signRequest E key timestamp verb path body =
     ''v1='' @ le_hmac E key (timestamp @ ''.'' @ verb @ ''.'' @ path @ ''.'') body"

definition LedgerError :: "string \<Rightarrow> string option \<Rightarrow> int option \<Rightarrow> jsval \<Rightarrow> exn" where
  "LedgerError m code status details =
     \<lparr>e_name = ''LedgerError'', e_message = m, e_code = code, e_status = status, e_details = details\<rparr>"

section \<open>One operation\<close>

record call_opts =
  co_attemptTimeoutMs :: int
  co_budgetMs :: int

definition default_opts :: call_opts where
  "default_opts = \<lparr>co_attemptTimeoutMs = ATTEMPT_TIMEOUT_MS, co_budgetMs = TOTAL_BUDGET_MS\<rparr>"

datatype attempt = Retry exn | Answered jsval | Refused exn

text \<open>\<open>json?.field || null\<close> on a field that holds a text.\<close>

definition text_field :: "jsval \<Rightarrow> string \<Rightarrow> string option" where
  "text_field j f = (case get_field j f of Str s \<Rightarrow> (if s = [] then None else Some s) | _ \<Rightarrow> None)"

definition or_null :: "jsval \<Rightarrow> jsval" where
  "or_null v = (if truthy v then v else Null)"

definition read_answer :: "http_res \<Rightarrow> attempt" where
  "read_answer res =
     (if h_status res \<in> set RETRY_STATUS
      then Retry (LedgerError (''Ledger service unavailable ('' @ int_str (h_status res) @ '')'')
             (Some ''LEDGER_UNAVAILABLE'') (Some (h_status res)) Null)
      else let json = (case h_json res of Inl _ \<Rightarrow> Null | Inr j \<Rightarrow> j) in
        if h_ok res then Answered json
        else Refused (LedgerError
               (str_or (text_field json ''message'') (''Ledger error '' @ int_str (h_status res)))
               (text_field json ''code'') (Some (h_status res)) (or_null (get_field json ''details''))))"

definition one_attempt :: "'w ledger_env \<Rightarrow> call_opts \<Rightarrow> string \<Rightarrow> jtext \<Rightarrow> int \<Rightarrow> ('w, attempt) act" where
  "one_attempt E opts urlPath body remaining =
     bindA (askA (\<lambda>w. int_str (le_now E w))) (\<lambda>timestamp.
       catchA
         (bindA
           (le_fetch E
             \<lparr>p_url = baseUrl E @ urlPath, p_timestamp = timestamp,
              p_signature = signRequest E (secret E) timestamp ''POST'' urlPath body,
              p_body = body,
              p_timeout = max 1 (min (co_attemptTimeoutMs opts) remaining)\<rparr>)
           (\<lambda>res. ret (read_answer res)))
         (\<lambda>err. ret (Retry (LedgerError (''Ledger service unreachable: '' @ e_message err)
                        (Some ''LEDGER_UNAVAILABLE'') None Null))))"

text \<open>
  The loop: \<open>delays\<close> holds, for each attempt left, the wait before it (\<open>None\<close> for the first, which is
  made whatever the budget). \<open>lastErr\<close> is the error of the attempt before.
\<close>

fun ledger_loop :: "'w ledger_env \<Rightarrow> call_opts \<Rightarrow> string \<Rightarrow> jtext \<Rightarrow> int \<Rightarrow> int option list \<Rightarrow> exn
    \<Rightarrow> ('w, jsval) act" where
  "ledger_loop E opts urlPath body started [] lastErr = throw lastErr"
| "ledger_loop E opts urlPath body started (d # ds) lastErr =
     thenA (case d of None \<Rightarrow> ret () | Some ms \<Rightarrow> le_sleep E ms)
       (bindA (askA (\<lambda>w. co_budgetMs opts - (le_now E w - started))) (\<lambda>remaining.
          if d \<noteq> None \<and> remaining < min MIN_ATTEMPT_MS (co_attemptTimeoutMs opts) then throw lastErr
          else bindA (one_attempt E opts urlPath body remaining) (\<lambda>a.
            case a of
              Retry e \<Rightarrow> ledger_loop E opts urlPath body started ds e
            | Answered json \<Rightarrow> ret json
            | Refused e \<Rightarrow> throw e)))"

definition callLedger :: "'w ledger_env \<Rightarrow> call_opts \<Rightarrow> string \<Rightarrow> (string \<times> jsval) list \<Rightarrow> ('w, jsval) act" where
  "callLedger E opts path payload =
     bindA (le_uuid E) (\<lambda>requestId.
       bindA (askA (le_now E)) (\<lambda>started.
         ledger_loop E opts (''/internal/v1/ledger/'' @ path)
           (JSON_stringify (Obj (obj_spread [(''requestId'', Str requestId)] payload)))
           started (None # map Some RETRY_DELAYS_MS) (Error [])))"

section \<open>Errors as the callers expect them\<close>

record ledger_messages =
  lm_insufficient :: "jsval \<Rightarrow> string"
  lm_notFound :: "string option"
  lm_notActive :: "string option"
  lm_invalidState :: "string option"

definition insufficient_only :: "string \<Rightarrow> ledger_messages" where
  "insufficient_only m =
     \<lparr>lm_insufficient = (\<lambda>_. m), lm_notFound = None, lm_notActive = None, lm_invalidState = None\<rparr>"

definition toLocalError :: "exn \<Rightarrow> ledger_messages \<Rightarrow> exn" where
  "toLocalError err messages =
     (if e_name err \<noteq> ''LedgerError'' then err
      else if e_code err = Some ''INSUFFICIENT_COINS'' then
        Error (lm_insufficient messages (if truthy (e_details err) then e_details err else Obj []))
      else if e_code err = Some ''PERSONAL_COINS_FROZEN'' then
        Error ''Your personal coins are currently frozen by admin.''
      else if e_code err = Some ''DUPLICATE_LEDGER_KEY'' then
        (Error ''Duplicate gift send (already processed)'') \<lparr>e_code := Some ''P2002''\<rparr>
      else if e_code err = Some ''GIFT_NOT_FOUND'' then
        Error (str_or (lm_notFound messages) ''Gift not found or is inactive.'')
      else if e_code err = Some ''CALL_NOT_ACTIVE'' then
        Error (str_or (lm_notActive messages) ''Video call session is not active.'')
      else if e_code err = Some ''INVALID_CALL_STATE'' then
        Error (str_or (lm_invalidState messages) ''Invalid session or unauthorized.'')
      else err)"

text \<open>Every error that leaves one attempt, and so the whole call, is a \<open>LedgerError\<close>.\<close>

lemma read_answer_error:
  "read_answer res = Retry e \<or> read_answer res = Refused e \<Longrightarrow> e_name e = ''LedgerError''"
  by (auto simp: read_answer_def LedgerError_def Let_def split: if_splits)

section \<open>What a call sends\<close>

text \<open>
  The network seen from outside: \<open>sent w\<close> lists the requests sent so far. A request is sent once per
  \<open>fetch\<close> and is aborted after its timeout; a sleep takes \<open>ms\<close> and the slack the timer needs.
\<close>

locale ledger_net =
  fixes E :: "'w ledger_env"
    and sent :: "'w \<Rightarrow> post list"
    and slack :: int
  assumes fetch_sends: "sent (snd (le_fetch E p w)) = sent w @ [p]"
    and fetch_time: "1 \<le> p_timeout p \<Longrightarrow> le_now E w \<le> le_now E (snd (le_fetch E p w)) \<and>
      le_now E (snd (le_fetch E p w)) \<le> le_now E w + p_timeout p"
    and sleep_quiet: "sent (snd (le_sleep E ms w)) = sent w"
    and sleep_ok: "0 \<le> ms \<Longrightarrow> fst (le_sleep E ms w) = Inr ()"
    and sleep_time: "0 \<le> ms \<Longrightarrow> le_now E w \<le> le_now E (snd (le_sleep E ms w)) \<and>
      le_now E (snd (le_sleep E ms w)) \<le> le_now E w + ms + slack"
    and slack_nonneg: "0 \<le> slack"
    and uuid_quiet: "fst (le_uuid E w) = Inr rid \<Longrightarrow> sent (snd (le_uuid E w)) = sent w"
    and uuid_now: "le_now E (snd (le_uuid E w)) = le_now E w"
begin

lemma one_attempt_sends:
  obtains a w1 p where "one_attempt E opts urlPath body remaining w = (Inr a, w1)"
    "sent w1 = sent w @ [p]" "p_body p = body" "p_url p = baseUrl E @ urlPath"
    "p_signature p = signRequest E (secret E) (p_timestamp p) ''POST'' urlPath body"
    "le_now E w \<le> le_now E w1"
    "le_now E w1 \<le> le_now E w + max 1 (min (co_attemptTimeoutMs opts) remaining)"
proof -
  define p where "p = \<lparr>p_url = baseUrl E @ urlPath, p_timestamp = int_str (le_now E w),
    p_signature = signRequest E (secret E) (int_str (le_now E w)) ''POST'' urlPath body,
    p_body = body, p_timeout = max 1 (min (co_attemptTimeoutMs opts) remaining)\<rparr>"
  obtain r w1 where f: "le_fetch E p w = (r, w1)" by fastforce
  have "\<exists>a. one_attempt E opts urlPath body remaining w = (Inr a, w1)"
    using f by (cases r) (auto simp: one_attempt_def act_simps p_def)
  then obtain a where "one_attempt E opts urlPath body remaining w = (Inr a, w1)" by blast
  then show thesis
    using that [of a w1 p] fetch_sends [of p w] fetch_time [of p w] f by (simp add: p_def)
qed

lemma loop_trace:
  assumes "ledger_loop E opts urlPath body started ds lastErr w = (r, w1)"
    and "\<forall>d \<in> set ds. case d of None \<Rightarrow> True | Some ms \<Rightarrow> 0 \<le> ms"
  shows "\<exists>ps. sent w1 = sent w @ ps \<and> length ps \<le> length ds \<and>
    (\<forall>p \<in> set ps. p_body p = body \<and> p_url p = baseUrl E @ urlPath \<and>
      p_signature p = signRequest E (secret E) (p_timestamp p) ''POST'' urlPath body)"
  using assms
proof (induction ds arbitrary: lastErr w)
  case Nil
  then show ?case by (auto simp: act_simps)
next
  case (Cons d ds)
  define w0 where "w0 = (case d of None \<Rightarrow> w | Some ms \<Rightarrow> snd (le_sleep E ms w))"
  have s0: "sent w0 = sent w" by (simp add: w0_def sleep_quiet split: option.split)
  have step: "(case d of None \<Rightarrow> ret () | Some ms \<Rightarrow> le_sleep E ms) w = (Inr (), w0)"
    using Cons.prems(2) sleep_ok [of _ w]
    by (auto simp: w0_def act_simps prod_eq_iff split: option.split)
  define rem where "rem = co_budgetMs opts - (le_now E w0 - started)"
  show ?case
  proof (cases "d \<noteq> None \<and> rem < min MIN_ATTEMPT_MS (co_attemptTimeoutMs opts)")
    case True
    then have "w1 = w0"
      using Cons.prems(1) step by (simp add: act_simps flip: rem_def)
    with s0 show ?thesis by simp
  next
    case False
    obtain a w2 p where a: "one_attempt E opts urlPath body rem w0 = (Inr a, w2)"
      "sent w2 = sent w0 @ [p]" "p_body p = body" "p_url p = baseUrl E @ urlPath"
      "p_signature p = signRequest E (secret E) (p_timestamp p) ''POST'' urlPath body"
      by (rule one_attempt_sends)
    have unf: "ledger_loop E opts urlPath body started (d # ds) lastErr w =
        (case a of Retry e \<Rightarrow> ledger_loop E opts urlPath body started ds e w2
         | Answered json \<Rightarrow> (Inr json, w2) | Refused e \<Rightarrow> (Inl e, w2))"
      using step a(1) False by (auto simp: act_simps rem_def split: attempt.split)
    show ?thesis
    proof (cases a)
      case (Retry e)
      then have "ledger_loop E opts urlPath body started ds e w2 = (r, w1)"
        using unf Cons.prems(1) by simp
      from Cons.IH [OF this] Cons.prems(2) obtain ps where ps: "sent w1 = sent w2 @ ps"
        "length ps \<le> length ds" "\<forall>p \<in> set ps. p_body p = body \<and> p_url p = baseUrl E @ urlPath \<and>
          p_signature p = signRequest E (secret E) (p_timestamp p) ''POST'' urlPath body"
        by auto
      show ?thesis
        by (rule exI [of _ "p # ps"]) (use ps a s0 in auto)
    qed (use unf Cons.prems(1) a s0 in \<open>auto intro!: exI [of _ "[p]"]\<close>)
  qed
qed

text \<open>The budget: attempts are cut at the budget, and after the last one only a pause can follow.\<close>

lemma loop_time:
  assumes "ledger_loop E opts urlPath body started ds lastErr w = (r, w1)"
    and "\<forall>d \<in> set ds. case d of None \<Rightarrow> True | Some ms \<Rightarrow> 0 \<le> ms \<and> ms \<le> D" and "0 \<le> D"
    and "1 \<le> co_attemptTimeoutMs opts"
    and "le_now E w \<le> started + co_budgetMs opts"
    and "ds \<noteq> [] \<and> hd ds = None \<longrightarrow> le_now E w < started + co_budgetMs opts" and "None \<notin> set (tl ds)"
  shows "le_now E w1 \<le> started + co_budgetMs opts + D + slack"
  using assms
proof (induction ds arbitrary: lastErr w)
  case Nil
  then show ?case using slack_nonneg by (auto simp: act_simps)
next
  case (Cons d ds)
  define w0 where "w0 = (case d of None \<Rightarrow> w | Some ms \<Rightarrow> snd (le_sleep E ms w))"
  have t0: "le_now E w0 \<le> le_now E w + D + slack" and t1: "d = None \<Longrightarrow> w0 = w"
    using Cons.prems(2,3) slack_nonneg sleep_time [of _ w]
    by (force simp: w0_def split: option.split)+
  have step: "(case d of None \<Rightarrow> ret () | Some ms \<Rightarrow> le_sleep E ms) w = (Inr (), w0)"
    using Cons.prems(2) sleep_ok [of _ w]
    by (auto simp: w0_def act_simps prod_eq_iff split: option.split)
  define rem where "rem = co_budgetMs opts - (le_now E w0 - started)"
  show ?case
  proof (cases "d \<noteq> None \<and> rem < min MIN_ATTEMPT_MS (co_attemptTimeoutMs opts)")
    case True
    then have "w1 = w0"
      using Cons.prems(1) step by (simp add: act_simps flip: rem_def)
    with t0 Cons.prems(5) show ?thesis by simp
  next
    case False
    have rem1: "1 \<le> rem"
      using False Cons.prems(4,6) t1 by (cases "d = None") (auto simp: rem_def MIN_ATTEMPT_MS_def)
    obtain a w2 p where a: "one_attempt E opts urlPath body rem w0 = (Inr a, w2)"
      "le_now E w2 \<le> le_now E w0 + max 1 (min (co_attemptTimeoutMs opts) rem)"
      by (rule one_attempt_sends)
    have t2: "le_now E w2 \<le> started + co_budgetMs opts"
      using a(2) rem1 by (simp add: rem_def)
    have unf: "ledger_loop E opts urlPath body started (d # ds) lastErr w =
        (case a of Retry e \<Rightarrow> ledger_loop E opts urlPath body started ds e w2
         | Answered json \<Rightarrow> (Inr json, w2) | Refused e \<Rightarrow> (Inl e, w2))"
      using step a(1) False by (auto simp: act_simps rem_def split: attempt.split)
    show ?thesis
    proof (cases a)
      case (Retry e)
      then have "ledger_loop E opts urlPath body started ds e w2 = (r, w1)"
        using unf Cons.prems(1) by simp
      moreover have "ds \<noteq> [] \<and> hd ds = None \<longrightarrow> le_now E w2 < started + co_budgetMs opts"
        using Cons.prems(7) by (cases ds) auto
      moreover have "None \<notin> set (tl ds)" using Cons.prems(7) by (cases ds) auto
      ultimately show ?thesis
        using Cons.IH [of e w2] Cons.prems(2,3,4) t2 by simp
    qed (use unf Cons.prems(1,3) t2 slack_nonneg in auto)
  qed
qed

end

section \<open>A network that follows a script\<close>

text \<open>Each element of the script is the outcome of one \<open>fetch\<close> and the milliseconds it takes.\<close>

record net_world =
  nw_clock :: int
  nw_sent :: "post list"
  nw_script :: "((exn + http_res) \<times> int) list"

definition scripted_fetch :: "post \<Rightarrow> (net_world, http_res) act" where
  "scripted_fetch p w =
     (let w1 = w\<lparr>nw_sent := nw_sent w @ [p]\<rparr> in
      case nw_script w of
        [] \<Rightarrow> (Inl (Error ''connect ECONNREFUSED''), w1)
      | (r, t) # rest \<Rightarrow>
          if t < 0 \<or> p_timeout p < t
          then (Inl ((Error ''The operation was aborted due to timeout'') \<lparr>e_name := ''TimeoutError''\<rparr>),
                w1\<lparr>nw_clock := nw_clock w + max 0 (p_timeout p), nw_script := rest\<rparr>)
          else (r, w1\<lparr>nw_clock := nw_clock w + t, nw_script := rest\<rparr>))"

definition scripted_env :: "net_world ledger_env" where
  "scripted_env = \<lparr>le_now = nw_clock, le_sleep = (\<lambda>ms w. (Inr (), w\<lparr>nw_clock := nw_clock w + ms\<rparr>)),
     le_fetch = scripted_fetch,
     le_uuid = (\<lambda>w. (Inr ''uuid'', w)), le_hmac = (\<lambda>k s b. s), le_base_url = None,
     le_secret = Some ''k''\<rparr>"

interpretation scripted: ledger_net scripted_env nw_sent 0
  by unfold_locales (auto simp: scripted_env_def scripted_fetch_def Let_def split: list.split prod.split)

section \<open>Properties\<close>

text \<open>
  C36: However often a call is retried, it sends at most three requests, all with the same signed body
  and therefore the same request id, so the ledger can recognise every retry as the same operation.
\<close>

theorem ledger_retries_one_request:
  assumes "ledger_net E sent slack"
    and "fst (le_uuid E w) = Inr rid"
    and "callLedger E opts path payload w = (r, w1)"
  shows "\<exists>ps. sent w1 = sent w @ ps \<and> length ps \<le> 3 \<and>
    (\<forall>p \<in> set ps. p_body p = Json (Obj (obj_spread [(''requestId'', Str rid)] payload)) \<and>
      p_url p = baseUrl E @ ''/internal/v1/ledger/'' @ path \<and>
      p_signature p = signRequest E (secret E) (p_timestamp p) ''POST'' (''/internal/v1/ledger/'' @ path) (p_body p))"
proof -
  define body where "body = JSON_stringify (Obj (obj_spread [(''requestId'', Str rid)] payload))"
  define w0 where "w0 = snd (le_uuid E w)"
  have u: "le_uuid E w = (Inr rid, w0)"
    using assms(2) by (simp add: w0_def prod_eq_iff)
  have "ledger_loop E opts (''/internal/v1/ledger/'' @ path) body (le_now E w0)
      (None # map Some RETRY_DELAYS_MS) (Error []) w0 = (r, w1)"
    using assms(3) u unfolding callLedger_def body_def by (simp only: bindA_run askA_run prod.case sum.case)
  from ledger_net.loop_trace [OF assms(1) this]
  obtain ps where "sent w1 = sent w0 @ ps" "length ps \<le> 3"
    "\<forall>p \<in> set ps. p_body p = body \<and> p_url p = baseUrl E @ ''/internal/v1/ledger/'' @ path \<and>
      p_signature p = signRequest E (secret E) (p_timestamp p) ''POST'' (''/internal/v1/ledger/'' @ path) body"
    by (auto simp: RETRY_DELAYS_MS_def)
  moreover have "sent w0 = sent w"
    using ledger_net.uuid_quiet [OF assms(1,2)] by (simp add: w0_def)
  ultimately show ?thesis by (auto simp: body_def JSON_stringify_def)
qed

definition demo_script :: net_world where
  "demo_script = \<lparr>nw_clock = 0, nw_sent = [],
     nw_script = [(Inl (Error ''ECONNRESET''), 5), (Inr \<lparr>h_status = 503, h_json = Inr Null\<rparr>, 20),
       (Inr \<lparr>h_status = 200, h_json = Inr (JBool True)\<rparr>, 7)]\<rparr>"

text \<open>A reset connection, a 503, then an answer: three requests in 432 ms.\<close>

lemma demo_script_run:
  "fst (callLedger scripted_env default_opts ''gift'' [] demo_script) = Inr (JBool True)"
  "nw_clock (snd (callLedger scripted_env default_opts ''gift'' [] demo_script)) = 432"
  by (simp_all add: callLedger_def scripted_env_def demo_script_def RETRY_DELAYS_MS_def act_simps one_attempt_def
      scripted_fetch_def default_opts_def ATTEMPT_TIMEOUT_MS_def TOTAL_BUDGET_MS_def MIN_ATTEMPT_MS_def
      read_answer_def RETRY_STATUS_def h_ok_def Let_def)

theorem ledger_retries_one_request_witness:
  "length (nw_sent (snd (callLedger scripted_env default_opts ''gift'' [] demo_script))) \<le> 3"
proof -
  have u: "fst (le_uuid scripted_env demo_script) = Inr ''uuid''" by (simp add: scripted_env_def)
  have "callLedger scripted_env default_opts ''gift'' [] demo_script =
      (Inr (JBool True), snd (callLedger scripted_env default_opts ''gift'' [] demo_script))"
    using demo_script_run(1) by (simp add: prod_eq_iff)
  from ledger_retries_one_request [OF scripted.ledger_net_axioms u this]
  show ?thesis by (auto simp: demo_script_def)
qed

text \<open>
  With the default options a call settles within the 19 s budget, up to the last pause of at most
  300 ms (and the timers' slack), inside the 20 s the app waits.
\<close>

theorem ledger_call_fits_budget:
  assumes "ledger_net E sent slack"
    and "fst (le_uuid E w) = Inr rid"
    and "callLedger E default_opts path payload w = (r, w1)"
  shows "le_now E w1 \<le> le_now E w + 19300 + slack"
proof -
  define body where "body = JSON_stringify (Obj (obj_spread [(''requestId'', Str rid)] payload))"
  define w0 where "w0 = snd (le_uuid E w)"
  have u: "le_uuid E w = (Inr rid, w0)"
    using assms(2) by (simp add: w0_def prod_eq_iff)
  have "ledger_loop E default_opts (''/internal/v1/ledger/'' @ path) body (le_now E w0)
      (None # map Some RETRY_DELAYS_MS) (Error []) w0 = (r, w1)"
    using assms(3) u unfolding callLedger_def body_def by (simp only: bindA_run askA_run prod.case sum.case)
  from ledger_net.loop_time [OF assms(1) this, of 300]
  have "le_now E w1 \<le> le_now E w0 + 19000 + 300 + slack"
    by (simp add: RETRY_DELAYS_MS_def default_opts_def ATTEMPT_TIMEOUT_MS_def TOTAL_BUDGET_MS_def)
  moreover have "le_now E w0 = le_now E w"
    using ledger_net.uuid_now [OF assms(1)] by (simp add: w0_def)
  ultimately show ?thesis by simp
qed

theorem ledger_call_fits_budget_witness:
  "nw_clock (snd (callLedger scripted_env default_opts ''gift'' [] demo_script)) \<le> 19300"
proof -
  have u: "fst (le_uuid scripted_env demo_script) = Inr ''uuid''" by (simp add: scripted_env_def)
  have "callLedger scripted_env default_opts ''gift'' [] demo_script =
      (Inr (JBool True), snd (callLedger scripted_env default_opts ''gift'' [] demo_script))"
    using demo_script_run(1) by (simp add: prod_eq_iff)
  from ledger_call_fits_budget [OF scripted.ledger_net_axioms u this]
  show ?thesis by (simp add: scripted_env_def demo_script_def)
qed

text \<open>
  An answer other than 502, 503 and 504 is final: nothing is sent again, and the call settles with
  the body of a success or with the code and status of a refusal, whatever the body's shape.
\<close>

theorem ledger_answer_is_final:
  assumes "le_uuid E w = (Inr rid, w0)"
    and "le_fetch E \<lparr>p_url = baseUrl E @ ''/internal/v1/ledger/'' @ path, p_timestamp = int_str (le_now E w0),
           p_signature = signRequest E (secret E) (int_str (le_now E w0)) ''POST'' (''/internal/v1/ledger/'' @ path)
             (Json (Obj (obj_spread [(''requestId'', Str rid)] payload))),
           p_body = Json (Obj (obj_spread [(''requestId'', Str rid)] payload)),
           p_timeout = max 1 (min (co_attemptTimeoutMs opts) (co_budgetMs opts))\<rparr> w0 = (Inr res, w1)"
    and "h_status res \<notin> {502, 503, 504}"
  shows "callLedger E opts path payload w =
    (if h_ok res then Inr (case h_json res of Inl _ \<Rightarrow> Null | Inr j \<Rightarrow> j)
     else let j = (case h_json res of Inl _ \<Rightarrow> Null | Inr j \<Rightarrow> j) in
       Inl (LedgerError (str_or (text_field j ''message'') (''Ledger error '' @ int_str (h_status res)))
         (text_field j ''code'') (Some (h_status res)) (or_null (get_field j ''details''))), w1)"
proof -
  have r: "read_answer res = (let json = (case h_json res of Inl _ \<Rightarrow> Null | Inr j \<Rightarrow> j) in
        if h_ok res then Answered json
        else Refused (LedgerError
               (str_or (text_field json ''message'') (''Ledger error '' @ int_str (h_status res)))
               (text_field json ''code'') (Some (h_status res)) (or_null (get_field json ''details''))))"
    using assms(3) by (simp add: read_answer_def RETRY_STATUS_def)
  show ?thesis
    using assms(2) by (simp add: callLedger_def act_simps assms(1) one_attempt_def JSON_stringify_def r Let_def)
qed

theorem ledger_answer_is_final_witness:
  "fst (callLedger scripted_env default_opts ''gift'' []
     \<lparr>nw_clock = 0, nw_sent = [], nw_script = [(Inr \<lparr>h_status = 409, h_json = Inr Null\<rparr>, 3)]\<rparr>)
   = Inl (LedgerError ''Ledger error 409'' None (Some 409) Null)"
proof -
  let ?w = "\<lparr>nw_clock = 0, nw_sent = [], nw_script = [(Inr \<lparr>h_status = 409, h_json = Inr Null\<rparr>, 3)]\<rparr>"
  let ?res = "\<lparr>h_status = 409, h_json = Inr Null\<rparr>"
  have u: "le_uuid scripted_env ?w = (Inr ''uuid'', ?w)" by (simp add: scripted_env_def)
  have f: "3 \<le> p_timeout p \<Longrightarrow> le_fetch scripted_env p ?w = (Inr ?res, snd (scripted_fetch p ?w))" for p
    by (simp add: scripted_env_def scripted_fetch_def)
  have st: "h_status ?res \<notin> {502, 503, 504}" by simp
  have m: "str_or (text_field Null ''message'') (''Ledger error '' @ int_str 409) = ''Ledger error 409''"
    by code_simp
  from ledger_answer_is_final [OF u f st, where opts = default_opts and path = "''gift''" and payload = "[]"]
  have "callLedger scripted_env default_opts ''gift'' [] ?w =
      (Inl (LedgerError (str_or (text_field Null ''message'') (''Ledger error '' @ int_str 409)) None (Some 409) Null),
       snd (callLedger scripted_env default_opts ''gift'' [] ?w))"
    by (simp add: default_opts_def ATTEMPT_TIMEOUT_MS_def TOTAL_BUDGET_MS_def h_ok_def Let_def
        text_field_def get_field_def or_null_def truthy_def)
  then show ?thesis unfolding m by (metis fst_conv)
qed

end
