(* ===== verification/Lucky_Reward.thy ===== *)
theory Lucky_Reward
  imports JS_Prelude
begin

text \<open>
  The draw of a lucky gift: \<open>src/modules/luckyGift/luckyReward.engine.js\<close> with the odds of
  \<open>src/config/luckyGift.config.js\<close>, and the host cut of \<open>hostEarning.engine.js\<close>.
  \<open>Math.random\<close> is a stream of numbers in \<open>[0, 1)\<close> given as the list \<open>rs\<close>; a function that draws
  returns the rest of the list. Weights and ratios are exact rationals.
\<close>

section \<open>The odds\<close>

record combo_odd =
  co_id :: string
  co_name :: string
  co_returnRatio :: rat
  co_weight :: rat

record step_odd =
  so_id :: string
  so_multiplier :: rat
  so_weight :: rat

definition combo_odd' :: "string \<Rightarrow> string \<Rightarrow> rat \<Rightarrow> rat \<Rightarrow> combo_odd" where
  "combo_odd' i n r w = \<lparr>co_id = i, co_name = n, co_returnRatio = r, co_weight = w\<rparr>"

definition step_odd' :: "string \<Rightarrow> rat \<Rightarrow> rat \<Rightarrow> step_odd" where
  "step_odd' i m w = \<lparr>so_id = i, so_multiplier = m, so_weight = w\<rparr>"

lemmas odds_simps [simp] = combo_odd'_def step_odd'_def

definition targetRtpPercent :: rat where "targetRtpPercent = 92"
definition hostEarningPercent :: rat where "hostEarningPercent = 4"

definition comboOdds :: "combo_odd list" where
  "comboOdds =
     [combo_odd' ''MISS'' ''Miss Combo (0x)'' 0 20,
      combo_odd' ''UNLUCKY'' ''Unlucky Combo (0.5x)'' (1/2) 25,
      combo_odd' ''NORMAL'' ''Normal Balanced Combo (0.9x)'' (9/10) 35,
      combo_odd' ''BREAK_EVEN'' ''Break-Even Combo (1.0x)'' 1 15,
      combo_odd' ''WINNER'' ''Winner Combo (1.5x)'' (3/2) 5]"

definition stepMultipliers :: "step_odd list" where
  "stepMultipliers =
     [step_odd' ''MISS'' 0 40, step_odd' ''SMALL'' (1/2) 30, step_odd' ''EQUAL'' 1 20,
      step_odd' ''MEDIUM'' (5/2) 9, step_odd' ''JACKPOT'' 10 1]"

text \<open>A feature flag: on unless the variable holds a word for off.\<close>

definition flag_on :: "string option \<Rightarrow> bool" where
  "flag_on v = (case v of None \<Rightarrow> True | Some s \<Rightarrow>
     s = [] \<or> s \<notin> set [''0'', ''false'', ''False'', ''FALSE'', ''no'', ''off''])"

definition isLegacyComboReduceFixEnabled :: "string option \<Rightarrow> bool" where
  "isLegacyComboReduceFixEnabled v = flag_on v"

definition LEGACY_COMBO_REDUCE_WEIGHTS :: "string \<Rightarrow> rat option" where
  "LEGACY_COMBO_REDUCE_WEIGHTS =
     map_of [(''MISS'', 28), (''UNLUCKY'', 27), (''NORMAL'', 32), (''BREAK_EVEN'', 11), (''WINNER'', 2)]"

definition LEGACY_COMBO_NEUTRAL_EV :: rat where "LEGACY_COMBO_NEUTRAL_EV = 665 / 1000"
definition LEGACY_COMBO_BUGGY_REDUCE_EV :: rat where "LEGACY_COMBO_BUGGY_REDUCE_EV = 7375 / 10000"
definition LEGACY_COMBO_FIXED_REDUCE_EV :: rat where "LEGACY_COMBO_FIXED_REDUCE_EV = 563 / 1000"

section \<open>A single gift\<close>

text \<open>\<open>const s = steps.find(s => s.id === i); if (s) s.weight = f(s.weight)\<close>: the first step of that id.\<close>

fun update_weight :: "string \<Rightarrow> (rat \<Rightarrow> rat) \<Rightarrow> step_odd list \<Rightarrow> step_odd list" where
  "update_weight i f [] = []"
| "update_weight i f (s # ss) =
     (if so_id s = i then s\<lparr>so_weight := f (so_weight s)\<rparr> # ss else s # update_weight i f ss)"

definition getDynamicStepMultipliers :: "rat \<Rightarrow> rat \<Rightarrow> step_odd list" where
  "getDynamicStepMultipliers currentRtp targetRtp =
     (let rtpDiff = targetRtp - currentRtp in
      if rtpDiff > 2 then
        let boostFactor = min 5 rtpDiff in
        update_weight ''MISS'' (\<lambda>w. max 10 (w - of_int (math_round (boostFactor * 2))))
          (update_weight ''JACKPOT'' (\<lambda>w. w + of_int (math_round (boostFactor * (1/2))))
            (update_weight ''MEDIUM'' (\<lambda>w. w + of_int (math_round (boostFactor * (3/2)))) stepMultipliers))
      else if rtpDiff < - 2 then
        let reduceFactor = min 5 \<bar>rtpDiff\<bar> in
        update_weight ''MISS'' (\<lambda>w. w + of_int (math_round (reduceFactor * (8/5))))
          (update_weight ''JACKPOT'' (\<lambda>w. max (1/10) (w - of_int (math_round (reduceFactor * (2/5)))))
            (update_weight ''MEDIUM'' (\<lambda>w. max 2 (w - of_int (math_round (reduceFactor * (6/5))))) stepMultipliers))
      else stepMultipliers)"

text \<open>The first option whose cumulative weight reaches the draw, or the default.\<close>

fun pick_at :: "('a \<Rightarrow> rat) \<Rightarrow> rat \<Rightarrow> rat \<Rightarrow> 'a \<Rightarrow> 'a list \<Rightarrow> 'a" where
  "pick_at wt rand cumulative d [] = d"
| "pick_at wt rand cumulative d (s # ss) =
     (if rand \<le> cumulative + wt s then s else pick_at wt rand (cumulative + wt s) d ss)"

record single_reward =
  sr_rewardCoins :: int
  sr_multiplier :: rat
  sr_category :: string

definition calculateSingleReward :: "int \<Rightarrow> rat \<Rightarrow> rat \<Rightarrow> rat list \<Rightarrow> single_reward \<times> rat list" where
  "calculateSingleReward cost currentRtp targetRtp rs =
     (let steps = getDynamicStepMultipliers currentRtp targetRtp;
          totalWeight = sum_list (map so_weight steps);
          rand = hd rs * totalWeight;
          selectedStep = pick_at so_weight rand 0 (hd steps) steps
      in (\<lparr>sr_rewardCoins = \<lfloor>of_int cost * so_multiplier selectedStep\<rfloor>,
           sr_multiplier = so_multiplier selectedStep,
           sr_category = so_id selectedStep\<rparr>, tl rs))"

section \<open>A combo\<close>

definition expectedComboEv :: "combo_odd list \<Rightarrow> (combo_odd \<Rightarrow> rat) \<Rightarrow> rat" where
  "expectedComboEv odds ratioFn =
     (let weightSum = sum_list (map co_weight odds) in
      if weightSum \<le> 0 then 0
      else sum_list (map (\<lambda>c. co_weight c / weightSum * ratioFn c) odds))"

record combo_draw =
  cd_odds :: "combo_odd list"
  cd_multiplierNudge :: rat
  cd_buggyFloor :: "rat option"

definition comboOddsForDraw :: "string option \<Rightarrow> rat \<Rightarrow> rat \<Rightarrow> combo_draw" where
  "comboOddsForDraw fixFlag currentRtp targetRtp =
     (let rtpDiff = targetRtp - currentRtp in
      if rtpDiff < - 2 \<and> isLegacyComboReduceFixEnabled fixFlag then
        \<lparr>cd_odds = map (\<lambda>c. case LEGACY_COMBO_REDUCE_WEIGHTS (co_id c) of
                        None \<Rightarrow> c | Some w \<Rightarrow> c\<lparr>co_weight := w\<rparr>) comboOdds,
         cd_multiplierNudge = 0, cd_buggyFloor = None\<rparr>
      else if rtpDiff > 2 then
        \<lparr>cd_odds = comboOdds, cd_multiplierNudge = 1/20, cd_buggyFloor = None\<rparr>
      else if rtpDiff < - 2 then
        \<lparr>cd_odds = comboOdds, cd_multiplierNudge = - 1/20, cd_buggyFloor = Some (1/2)\<rparr>
      else \<lparr>cd_odds = comboOdds, cd_multiplierNudge = 0, cd_buggyFloor = None\<rparr>)"

text \<open>The category's return ratio after the nudge.\<close>

definition nudged :: "combo_draw \<Rightarrow> combo_odd \<Rightarrow> rat" where
  "nudged d c =
     (let m = co_returnRatio c; n = cd_multiplierNudge d in
      if 0 < n then m + n
      else if n < 0 then
        (case cd_buggyFloor d of Some fl \<Rightarrow> max fl (m + n) | None \<Rightarrow> max 0 (m + n))
      else m)"

text \<open>The loop that fills all but the last share; what is left of the total comes back.\<close>

fun shares :: "rat \<Rightarrow> int \<Rightarrow> int \<Rightarrow> rat list \<Rightarrow> int list \<times> int" where
  "shares weightSum amount remaining [] = ([], remaining)"
| "shares weightSum amount remaining (w # ws) =
     (let stepShare = math_round (w / weightSum * of_int amount);
          actualStep = min stepShare remaining;
          (rest, left) = shares weightSum amount (remaining - actualStep) ws
      in (actualStep # rest, left))"

definition breakdown :: "nat \<Rightarrow> int \<Rightarrow> rat list \<Rightarrow> int list" where
  "breakdown stepCount amount rs =
     (if 0 < amount then
        let weights = map (\<lambda>r. r + 1/10) (take stepCount rs);
            (firsts, remaining) = shares (sum_list weights) amount amount (take (stepCount - 1) weights)
        in firsts @ [max 0 remaining]
      else replicate stepCount 0)"

record combo_reward =
  cr_totalCost :: int
  cr_totalReward :: int
  cr_breakdownArray :: "int list"
  cr_category :: string

definition calculateComboReward :: "string option \<Rightarrow> int \<Rightarrow> int \<Rightarrow> rat \<Rightarrow> rat \<Rightarrow> rat list
    \<Rightarrow> combo_reward \<times> rat list" where
  "calculateComboReward fixFlag unitCost count currentRtp targetRtp rs =
     (let totalCost = unitCost * count;
          d = comboOddsForDraw fixFlag currentRtp targetRtp;
          rand = hd rs * 100;
          selectedCategory = pick_at co_weight rand 0 (cd_odds d ! 1) (cd_odds d);
          returnMultiplier = nudged d selectedCategory;
          totalReward = math_round (of_int totalCost * returnMultiplier);
          stepCount = nat (min 10 count)
      in (\<lparr>cr_totalCost = totalCost, cr_totalReward = totalReward,
           cr_breakdownArray = breakdown stepCount totalReward (tl rs),
           cr_category = co_id selectedCategory\<rparr>,
          if 0 < totalReward then drop stepCount (tl rs) else tl rs))"

section \<open>The host's cut\<close>

text \<open>\<open>BigInt\<close> division of a non-negative product by 10000; \<open>hostPoints > 0n ? hostPoints : 0n\<close>.\<close>

definition default_hostShareBp :: int where
  "default_hostShareBp = math_round (hostEarningPercent * 100)"

definition calculateHostEarning :: "int \<Rightarrow> int \<Rightarrow> int" where
  "calculateHostEarning totalCost hostShareBp =
     (let hostPoints = sgn (totalCost * hostShareBp) * (\<bar>totalCost * hostShareBp\<bar> div 10000)
      in if 0 < hostPoints then hostPoints else 0)"

section \<open>Lemmas\<close>

lemma pick_at_in: "pick_at wt rand c d ss \<in> insert d (set ss)"
  by (induction wt rand c d ss rule: pick_at.induct) auto

lemma shares_props:
  assumes "0 < weightSum" and "0 \<le> amount" and "0 \<le> remaining" and "\<forall>w \<in> set ws. 0 \<le> w"
    and "shares weightSum amount remaining ws = (xs, left)"
  shows "sum_list xs + left = remaining \<and> 0 \<le> left \<and> (\<forall>x \<in> set xs. 0 \<le> x) \<and> length xs = length ws"
  using assms
proof (induction ws arbitrary: remaining xs)
  case (Cons w ws)
  define a where "a = min (math_round (w / weightSum * of_int amount)) remaining"
  have a: "0 \<le> a" "a \<le> remaining"
    using Cons.prems by (auto simp: a_def intro!: math_round_nonneg mult_nonneg_nonneg divide_nonneg_pos)
  obtain ys where ys: "shares weightSum amount (remaining - a) ws = (ys, left)" "xs = a # ys"
    using Cons.prems(5) by (auto simp: a_def Let_def split: prod.splits)
  have "sum_list ys + left = remaining - a \<and> 0 \<le> left \<and> (\<forall>x \<in> set ys. 0 \<le> x) \<and> length ys = length ws"
    using Cons.IH [OF Cons.prems(1,2) _ _ ys(1)] Cons.prems(4) a by auto
  with ys a show ?case by auto
qed auto

text \<open>Random numbers: at least \<open>n\<close> of them, each in \<open>[0, 1)\<close>.\<close>

definition randoms :: "nat \<Rightarrow> rat list \<Rightarrow> bool" where
  "randoms n rs \<longleftrightarrow> n \<le> length rs \<and> list_all (\<lambda>r. 0 \<le> r \<and> r < 1) rs"

lemma breakdown_props:
  assumes "0 < n" and "randoms n rs" and "0 \<le> amount"
  shows "sum_list (breakdown n amount rs) = amount \<and> (\<forall>x \<in> set (breakdown n amount rs). 0 \<le> x) \<and>
    length (breakdown n amount rs) = n"
proof (cases "0 < amount")
  case False
  then show ?thesis using assms by (simp add: breakdown_def sum_list_replicate)
next
  case True
  define ws where "ws = map (\<lambda>r. r + 1/10) (take n rs)"
  obtain xs left where s: "shares (sum_list ws) amount amount (take (n - 1) ws) = (xs, left)" by fastforce
  have pos: "\<forall>w \<in> set ws. 0 < w"
    using assms(2) by (auto simp: ws_def randoms_def list_all_iff dest!: in_set_takeD)
  have len: "length ws = n" using assms(2) by (simp add: ws_def randoms_def)
  have "0 < sum_list ws"
    using pos len assms(1) by (cases ws) (auto intro!: add_pos_nonneg sum_list_nonneg simp: order_less_imp_le)
  from shares_props [OF this _ _ _ s] pos assms(3) have
    "sum_list xs + left = amount \<and> 0 \<le> left \<and> (\<forall>x \<in> set xs. 0 \<le> x) \<and> length xs = n - 1"
    using len by (force dest!: in_set_takeD)
  moreover have "breakdown n amount rs = xs @ [max 0 left]"
    using True s by (simp add: breakdown_def ws_def Let_def)
  ultimately show ?thesis using assms(1) by auto
qed

lemma combo_odds_cases:
  "comboOddsForDraw fl cur tgt \<in>
     {\<lparr>cd_odds = comboOdds, cd_multiplierNudge = 0, cd_buggyFloor = None\<rparr>,
      \<lparr>cd_odds = comboOdds, cd_multiplierNudge = 1/20, cd_buggyFloor = None\<rparr>,
      \<lparr>cd_odds = comboOdds, cd_multiplierNudge = - 1/20, cd_buggyFloor = Some (1/2)\<rparr>,
      \<lparr>cd_odds = [combo_odd' ''MISS'' ''Miss Combo (0x)'' 0 28,
         combo_odd' ''UNLUCKY'' ''Unlucky Combo (0.5x)'' (1/2) 27,
         combo_odd' ''NORMAL'' ''Normal Balanced Combo (0.9x)'' (9/10) 32,
         combo_odd' ''BREAK_EVEN'' ''Break-Even Combo (1.0x)'' 1 11,
         combo_odd' ''WINNER'' ''Winner Combo (1.5x)'' (3/2) 2],
       cd_multiplierNudge = 0, cd_buggyFloor = None\<rparr>}"
  by (auto simp: comboOddsForDraw_def Let_def LEGACY_COMBO_REDUCE_WEIGHTS_def comboOdds_def)

lemma combo_multiplier_range:
  assumes "c \<in> set (cd_odds (comboOddsForDraw fl cur tgt))"
  shows "0 \<le> nudged (comboOddsForDraw fl cur tgt) c \<and> nudged (comboOddsForDraw fl cur tgt) c \<le> 31/20"
  using combo_odds_cases [of fl cur tgt] assms
  by (auto simp: nudged_def Let_def comboOdds_def)

section \<open>Properties\<close>



text \<open>
  The expected return of a combo is the constant the source documents on each path: 66.5% near the
  target, five points more below it, and above it 56.3% with the fix and 73.75% (more than neutral,
  the bug the flag keeps) without.
\<close>

theorem combo_expected_return:
  "expectedComboEv (cd_odds (comboOddsForDraw fl cur tgt)) (nudged (comboOddsForDraw fl cur tgt)) =
    (if tgt - cur < - 2 then
       (if isLegacyComboReduceFixEnabled fl then LEGACY_COMBO_FIXED_REDUCE_EV else LEGACY_COMBO_BUGGY_REDUCE_EV)
     else if tgt - cur > 2 then LEGACY_COMBO_NEUTRAL_EV + 1/20
     else LEGACY_COMBO_NEUTRAL_EV)"
proof -
  consider "tgt - cur < - 2" "isLegacyComboReduceFixEnabled fl" | "tgt - cur < - 2" "\<not> isLegacyComboReduceFixEnabled fl"
    | "tgt - cur > 2" | "\<not> tgt - cur < - 2" "\<not> tgt - cur > 2"
    by blast
  then show ?thesis
    by cases (simp_all add: expectedComboEv_def comboOddsForDraw_def Let_def nudged_def comboOdds_def
        LEGACY_COMBO_REDUCE_WEIGHTS_def LEGACY_COMBO_FIXED_REDUCE_EV_def LEGACY_COMBO_BUGGY_REDUCE_EV_def
        LEGACY_COMBO_NEUTRAL_EV_def)
qed

text \<open>The expected multiplier of a single gift under given steps.\<close>

definition stepEv :: "step_odd list \<Rightarrow> rat" where
  "stepEv steps = sum_list (map (\<lambda>s. so_weight s * so_multiplier s) steps) / sum_list (map so_weight steps)"

lemma math_round_bounds: "of_int n \<le> x + 1/2 \<Longrightarrow> x + 1/2 < of_int m + 1 \<Longrightarrow> n \<le> math_round x \<and> math_round x \<le> m"
  unfolding math_round_def by (simp add: le_floor_iff floor_le_iff)

text \<open>
  The controller steers a single gift the right way: when the pool's return is more than two points
  below the target the expected multiplier is above the neutral one, more than two points above it is
  below, and otherwise the base odds are used.
\<close>

theorem single_reward_steers:
  "(tgt - cur > 2 \<longrightarrow> stepEv (getDynamicStepMultipliers cur tgt) > stepEv stepMultipliers) \<and>
   (tgt - cur < - 2 \<longrightarrow> stepEv (getDynamicStepMultipliers cur tgt) < stepEv stepMultipliers) \<and>
   (\<bar>tgt - cur\<bar> \<le> 2 \<longrightarrow> getDynamicStepMultipliers cur tgt = stepMultipliers)"
proof (intro conjI impI)
  assume d: "tgt - cur > 2"
  define b where "b = min 5 (tgt - cur)"
  have b: "2 \<le> b" "b \<le> 5" using d by (auto simp: b_def)
  define x where "x = math_round (b * 3 / 2)"
  define y where "y = math_round (b / 2)"
  define z where "z = math_round (b * 2)"
  have x: "3 \<le> x" "x \<le> 8" using math_round_bounds [of 3 "b * 3 / 2" 8] b by (auto simp: x_def)
  have y: "1 \<le> y" "y \<le> 3" using math_round_bounds [of 1 "b / 2" 3] b by (auto simp: y_def)
  have z: "4 \<le> z" "z \<le> 10" using math_round_bounds [of 4 "b * 2" 10] b by (auto simp: z_def)
  have steps: "getDynamicStepMultipliers cur tgt =
      [step_odd' ''MISS'' 0 (40 - of_int z), step_odd' ''SMALL'' (1/2) 30, step_odd' ''EQUAL'' 1 20,
       step_odd' ''MEDIUM'' (5/2) (9 + of_int x), step_odd' ''JACKPOT'' 10 (1 + of_int y)]"
    using d z by (simp add: getDynamicStepMultipliers_def stepMultipliers_def Let_def flip: b_def x_def y_def z_def)
  have ev: "stepEv (getDynamicStepMultipliers cur tgt) =
      (135/2 + 5/2 * of_int x + 10 * of_int y) / (100 + of_int x + of_int y - of_int z)"
    unfolding steps by (simp add: stepEv_def algebra_simps add_divide_distrib)
  have "27/40 * (100 + of_int x + of_int y - of_int z) < 135/2 + 5/2 * of_int x + 10 * (of_int y :: rat)"
  proof -
    have "(3 :: rat) \<le> of_int x" "(1 :: rat) \<le> of_int y" "(4 :: rat) \<le> of_int z"
      using x y z by simp_all
    then show ?thesis by (simp add: algebra_simps)
  qed
  moreover have "(0 :: rat) < 100 + of_int x + of_int y - of_int z"
  proof -
    have "(of_int z :: rat) \<le> 10" "(3 :: rat) \<le> of_int x" "(1 :: rat) \<le> of_int y" using x y z by simp_all
    then show ?thesis by linarith
  qed
  ultimately have "27/40 < stepEv (getDynamicStepMultipliers cur tgt)"
    unfolding ev by (simp add: less_divide_eq)
  moreover have "stepEv stepMultipliers = 27/40" by (simp add: stepEv_def stepMultipliers_def)
  ultimately show "stepEv (getDynamicStepMultipliers cur tgt) > stepEv stepMultipliers" by simp
next
  assume d: "tgt - cur < - 2"
  define b where "b = min 5 (cur - tgt)"
  have b: "2 \<le> b" "b \<le> 5" using d by (auto simp: b_def)
  define x where "x = math_round (b * 6 / 5)"
  define y where "y = math_round (b * 2 / 5)"
  define z where "z = math_round (b * 8 / 5)"
  have x: "2 \<le> x" "x \<le> 6" using math_round_bounds [of 2 "b * 6 / 5" 6] b by (auto simp: x_def)
  have y: "1 \<le> y" "y \<le> 2" using math_round_bounds [of 1 "b * 2 / 5" 2] b by (auto simp: y_def)
  have z: "3 \<le> z" "z \<le> 8" using math_round_bounds [of 3 "b * 8 / 5" 8] b by (auto simp: z_def)
  have y1: "(1 :: rat) - of_int y \<le> 1/10" using y(1) by simp
  have x1: "(2 :: rat) \<le> 9 - of_int x"
  proof -
    have "(of_int x :: rat) \<le> 6" using x by simp
    then show ?thesis by simp
  qed
  have mx: "max 2 (9 - of_int x) = (9 :: rat) - of_int x" using x1 by simp
  have my: "max (1/10) (1 - of_int y) = (1/10 :: rat)" using y1 by simp
  have steps: "getDynamicStepMultipliers cur tgt =
      [step_odd' ''MISS'' 0 (40 + of_int z), step_odd' ''SMALL'' (1/2) 30, step_odd' ''EQUAL'' 1 20,
       step_odd' ''MEDIUM'' (5/2) (9 - of_int x), step_odd' ''JACKPOT'' 10 (1/10)]"
    using d mx my by (simp add: getDynamicStepMultipliers_def stepMultipliers_def Let_def
        flip: b_def x_def y_def z_def)
  have ev: "stepEv (getDynamicStepMultipliers cur tgt) =
      (117/2 - 5/2 * of_int x) / (991/10 + of_int z - of_int x)"
    unfolding steps stepEv_def by (rule arg_cong2 [where f = "(/)"]) (simp_all add: algebra_simps diff_divide_distrib)
  have xz: "(2 :: rat) \<le> of_int x" "(of_int x :: rat) \<le> 6" "(3 :: rat) \<le> of_int z"
    using x z by simp_all
  then have "117/2 - 5/2 * of_int x < 27/40 * (991/10 + of_int z - (of_int x :: rat))"
    by (simp add: algebra_simps)
  moreover have "(0 :: rat) < 991/10 + of_int z - of_int x" using xz by linarith
  ultimately have "stepEv (getDynamicStepMultipliers cur tgt) < 27/40"
    unfolding ev by (simp add: divide_less_eq)
  moreover have "stepEv stepMultipliers = 27/40" by (simp add: stepEv_def stepMultipliers_def)
  ultimately show "stepEv (getDynamicStepMultipliers cur tgt) < stepEv stepMultipliers" by simp
next
  assume "\<bar>tgt - cur\<bar> \<le> 2"
  then show "getDynamicStepMultipliers cur tgt = stepMultipliers"
    by (auto simp: getDynamicStepMultipliers_def Let_def)
qed

theorem single_reward_steers_witness:
  "stepEv (getDynamicStepMultipliers 80 92) > stepEv stepMultipliers \<and>
   stepEv (getDynamicStepMultipliers 99 92) < stepEv stepMultipliers \<and> getDynamicStepMultipliers 91 92 = stepMultipliers"
  using single_reward_steers [of 92 80] single_reward_steers [of 92 99] single_reward_steers [of 92 91] by simp


text \<open>
  The host's cut is the configured share of the cost in basis points, rounded down: never negative,
  never more than the cost.
\<close>

theorem host_earning_exact:
  assumes "0 \<le> totalCost" and "0 \<le> bp" and "bp \<le> 10000"
  shows "0 \<le> calculateHostEarning totalCost bp \<and> calculateHostEarning totalCost bp \<le> totalCost \<and>
    calculateHostEarning totalCost bp * 10000 \<le> totalCost * bp \<and>
    totalCost * bp < (calculateHostEarning totalCost bp + 1) * 10000"
proof -
  have n: "0 \<le> totalCost * bp" using assms by simp
  have "totalCost * bp \<le> totalCost * 10000" using assms by (simp add: mult_left_mono)
  moreover have "calculateHostEarning totalCost bp = totalCost * bp div 10000"
    using n by (auto simp: calculateHostEarning_def Let_def sgn_if)
  ultimately show ?thesis using n by auto
qed

theorem host_earning_exact_witness:
  "calculateHostEarning 1237 default_hostShareBp = 49"
  using host_earning_exact [of 1237 default_hostShareBp]
  by (simp add: default_hostShareBp_def hostEarningPercent_def math_round_def calculateHostEarning_def Let_def)

end
