(* ===== verification/Admin_Settings.thy ===== *)
theory Admin_Settings
  imports Redis_Store
begin

text \<open>
  The admin settings Live-server reads from ol-node-rest's cache key, then from the database row, then
  from constants, with a memo of 30 s per process: \<open>src/services/luckyShares.service.js\<close> (host cut and
  target return of lucky gifts) and \<open>src/services/callRate.service.js\<close> (host share of a video call and
  the caller's price). The memo is passed explicitly; \<open>row\<close> is the database query.
\<close>

section \<open>Lucky gift shares\<close>

definition CONFIG_KEY :: string where "CONFIG_KEY = ''host:revenue-shares''"
definition MEMO_MS :: int where "MEMO_MS = 30000"

record lucky_shares =
  luckyHostShareBp :: int
  luckyTargetRtpBp :: int

record 'a memo =
  me_at :: int
  me_value :: "'a option"

definition no_memo :: "'a memo" where "no_memo = \<lparr>me_at = 0, me_value = None\<rparr>"

definition lucky_defaults :: lucky_shares where
  "lucky_defaults = \<lparr>luckyHostShareBp = math_round (4 * 100), luckyTargetRtpBp = math_round (92 * 100)\<rparr>"

text \<open>\<open>Number.isInteger(v) && v >= min && v <= max\<close>\<close>

definition valid_in :: "int \<Rightarrow> int \<Rightarrow> rat option \<Rightarrow> int option" where
  "valid_in lo hi v = (case v of
      None \<Rightarrow> None
    | Some q \<Rightarrow> if is_integer q \<and> lo \<le> \<lfloor>q\<rfloor> \<and> \<lfloor>q\<rfloor> \<le> hi then Some \<lfloor>q\<rfloor> else None)"

definition lucky_pick :: "jsval \<Rightarrow> lucky_shares option" where
  "lucky_pick src =
     (if \<not> truthy src then None
      else case (valid_in 0 2000 (js_Number (nullish (get_field src ''luckyHostShareBp'') (get_field src ''lucky_host_share_bp''))),
                 valid_in 5000 9900 (js_Number (nullish (get_field src ''luckyTargetRtpBp'') (get_field src ''lucky_target_rtp_bp''))))
           of (Some host, Some rtp) \<Rightarrow> Some \<lparr>luckyHostShareBp = host, luckyTargetRtpBp = rtp\<rparr>
            | _ \<Rightarrow> None)"

text \<open>The cache, then the row; every failure reads as no value.\<close>

definition cached_setting :: "'w redis \<Rightarrow> (jsval \<Rightarrow> 'a option) \<Rightarrow> ('w, 'a option) act" where
  "cached_setting R pick =
     ifOpen R
       (catchA
         (bindA (r_get R CONFIG_KEY) (\<lambda>raw.
            case raw of
              None \<Rightarrow> ret None
            | Some t \<Rightarrow> if truthy_text raw then bindA (parseA t) (\<lambda>v. ret (pick v)) else ret None))
         (\<lambda>_. ret None))
       (ret None)"

definition read_setting :: "'w redis \<Rightarrow> (jsval \<Rightarrow> 'a option) \<Rightarrow> ('w, jsval) act \<Rightarrow> ('w, 'a option) act" where
  "read_setting R pick row =
     bindA (cached_setting R pick) (\<lambda>v.
       case v of
         Some x \<Rightarrow> ret (Some x)
       | None \<Rightarrow> catchA (bindA row (\<lambda>r. ret (pick r))) (\<lambda>_. ret None))"

definition memoized :: "('w \<Rightarrow> int) \<Rightarrow> 'a \<Rightarrow> ('w, 'a option) act \<Rightarrow> 'a memo \<Rightarrow> ('w, 'a \<times> 'a memo) act" where
  "memoized now dflt rd memo =
     bindA (askA now) (\<lambda>t.
       case me_value memo of
         Some v \<Rightarrow>
           if t - me_at memo < MEMO_MS then ret (v, memo)
           else bindA rd (\<lambda>r. bindA (askA now) (\<lambda>t1.
                  let v1 = (case r of Some x \<Rightarrow> x | None \<Rightarrow> dflt)
                  in ret (v1, \<lparr>me_at = t1, me_value = Some v1\<rparr>)))
       | None \<Rightarrow> bindA rd (\<lambda>r. bindA (askA now) (\<lambda>t1.
                  let v1 = (case r of Some x \<Rightarrow> x | None \<Rightarrow> dflt)
                  in ret (v1, \<lparr>me_at = t1, me_value = Some v1\<rparr>))))"

definition getLuckyShares :: "'w redis \<Rightarrow> ('w \<Rightarrow> int) \<Rightarrow> ('w, jsval) act \<Rightarrow> lucky_shares memo
    \<Rightarrow> ('w, lucky_shares \<times> lucky_shares memo) act" where
  "getLuckyShares R now row memo = memoized now lucky_defaults (read_setting R lucky_pick row) memo"

section \<open>The price of a call minute\<close>

definition DEFAULT_VIDEO_CALL_HOST_SHARE_BP :: int where "DEFAULT_VIDEO_CALL_HOST_SHARE_BP = 6000"

definition call_pick :: "jsval \<Rightarrow> int option" where
  "call_pick src =
     (if \<not> truthy src then None
      else valid_in 1000 10000 (js_Number (nullish (get_field src ''videoCallHostShareBp'')
                                                    (get_field src ''video_call_host_share_bp''))))"

definition getVideoCallHostShareBp :: "'w redis \<Rightarrow> ('w \<Rightarrow> int) \<Rightarrow> ('w, jsval) act \<Rightarrow> int memo
    \<Rightarrow> ('w, int \<times> int memo) act" where
  "getVideoCallHostShareBp R now row memo =
     memoized now DEFAULT_VIDEO_CALL_HOST_SHARE_BP (read_setting R call_pick row) memo"

text \<open>\<open>BigInt(Math.max(0, Math.trunc(Number(pricePerMin) || 0)))\<close>, then the ceiling division.\<close>

definition callerCoinsPerMinute :: "jsval \<Rightarrow> int \<Rightarrow> int" where
  "callerCoinsPerMinute pricePerMin hostShareBp =
     (let price = max 0 (math_trunc (case js_Number pricePerMin of None \<Rightarrow> 0 | Some q \<Rightarrow> q))
      in if price = 0 then 0 else (price * 10000 + hostShareBp - 1) div hostShareBp)"

definition currentCallerCoinsPerMinute :: "'w redis \<Rightarrow> ('w \<Rightarrow> int) \<Rightarrow> ('w, jsval) act \<Rightarrow> int memo \<Rightarrow> jsval
    \<Rightarrow> ('w, int \<times> int memo) act" where
  "currentCallerCoinsPerMinute R now row memo pricePerMin =
     bindA (getVideoCallHostShareBp R now row memo) (\<lambda>(bp, memo1).
       ret (callerCoinsPerMinute pricePerMin bp, memo1))"

section \<open>Lemmas\<close>

lemma never_throws_cached [intro]: "never_throws (cached_setting R pick)"
  unfolding cached_setting_def by (intro never_throws_ifOpen never_throws_catchA never_throws_ret)

lemma cached_setting_pick:
  assumes "cached_setting R pick w = (Inr (Some x), w1)"
  shows "\<exists>v. pick v = Some x"
proof -
  obtain r w2 where g: "r_get R CONFIG_KEY w = (r, w2)" by fastforce
  show ?thesis
  proof (cases r)
    case (Inr raw)
    show ?thesis
    proof (cases raw)
      case None
      then show ?thesis using assms g Inr by (simp add: cached_setting_def act_simps split: if_splits)
    next
      case (Some t)
      then show ?thesis
        using assms g Inr by (cases "JSON_parse t") (auto simp: cached_setting_def parseA_def act_simps split: if_splits)
    qed
  qed (use assms g in \<open>simp add: cached_setting_def act_simps split: if_splits\<close>)
qed

lemma read_setting_pick:
  "\<exists>r w1. read_setting R pick row w = (Inr r, w1) \<and> (\<forall>x. r = Some x \<longrightarrow> (\<exists>v. pick v = Some x))"
proof -
  obtain r w0 where c: "cached_setting R pick w = (Inr r, w0)"
    by (rule never_throwsE [OF never_throws_cached])
  show ?thesis
  proof (cases r)
    case None
    then show ?thesis
      using c by (auto simp: read_setting_def act_simps split: sum.split prod.split)
  next
    case (Some x)
    then show ?thesis
      using c cached_setting_pick [of R pick w x w0] by (simp add: read_setting_def act_simps)
  qed
qed

lemma memoized_picks:
  assumes "P dflt" and "\<forall>v x. pick v = Some x \<longrightarrow> P x" and "\<forall>x. me_value memo = Some x \<longrightarrow> P x"
  shows "\<exists>v memo1 w1. memoized now dflt (read_setting R pick row) memo w = (Inr (v, memo1), w1) \<and>
    P v \<and> (\<forall>x. me_value memo1 = Some x \<longrightarrow> P x)"
proof -
  obtain r w1 where r: "read_setting R pick row w = (Inr r, w1)" "\<forall>x. r = Some x \<longrightarrow> (\<exists>v. pick v = Some x)"
    using read_setting_pick [of R pick row w] by (elim exE conjE)
  have "P (case r of Some x \<Rightarrow> x | None \<Rightarrow> dflt)"
  proof (cases r)
    case (Some x)
    then obtain v where "pick v = Some x" using r(2) by blast
    then have "P x" using assms(2) by (elim allE impE) assumption
    then show ?thesis using Some by simp
  qed (simp add: assms(1))
  then show ?thesis
    using r(1) assms(3) by (cases "me_value memo") (auto simp: memoized_def act_simps Let_def)
qed

lemma lucky_pick_range:
  "lucky_pick v = Some x \<Longrightarrow> 0 \<le> luckyHostShareBp x \<and> luckyHostShareBp x \<le> 2000 \<and>
     5000 \<le> luckyTargetRtpBp x \<and> luckyTargetRtpBp x \<le> 9900"
  by (auto simp: lucky_pick_def valid_in_def split: if_splits option.splits)

lemma call_pick_range: "call_pick v = Some x \<Longrightarrow> 1000 \<le> x \<and> x \<le> 10000"
  by (auto simp: call_pick_def valid_in_def split: if_splits option.splits)

section \<open>Properties\<close>

text \<open>The shares a valid memo holds.\<close>

definition shares_ok :: "lucky_shares \<Rightarrow> bool" where
  "shares_ok s \<longleftrightarrow> 0 \<le> luckyHostShareBp s \<and> luckyHostShareBp s \<le> 2000 \<and>
     5000 \<le> luckyTargetRtpBp s \<and> luckyTargetRtpBp s \<le> 9900"

text \<open>
  Reading the lucky gift shares never fails, whatever the cache and the database answer, and always
  gives shares in the admin ranges; the memo keeps only such shares.
\<close>

theorem lucky_shares_in_range:
  assumes "\<forall>s. me_value memo = Some s \<longrightarrow> shares_ok s"
  shows "\<exists>s memo1 w1. getLuckyShares R now row memo w = (Inr (s, memo1), w1) \<and> shares_ok s \<and>
    (\<forall>s. me_value memo1 = Some s \<longrightarrow> shares_ok s)"
  unfolding getLuckyShares_def
proof (rule memoized_picks)
  show "shares_ok lucky_defaults" by (simp add: shares_ok_def lucky_defaults_def math_round_def)
  show "\<forall>v x. lucky_pick v = Some x \<longrightarrow> shares_ok x" using lucky_pick_range by (auto simp: shares_ok_def)
  show "\<forall>x. me_value memo = Some x \<longrightarrow> shares_ok x" by (rule assms)
qed

theorem lucky_shares_in_range_witness:
  "\<exists>s memo1 w1. getLuckyShares mem_redis m_clk (\<lambda>w. (Inl (Error ''db''), w)) no_memo (mem0 5 :: mem)
     = (Inr (s, memo1), w1) \<and> shares_ok s \<and> (\<forall>s. me_value memo1 = Some s \<longrightarrow> shares_ok s)"
  by (rule lucky_shares_in_range) (simp add: no_memo_def)

text \<open>
  The caller's price of a minute is the ceiling of the host's price divided by the share, the least
  price that pays the host in full, it is never below the host's price, and with the default share it
  is the ceiling of five thirds of it, as before the setting existed.
\<close>

theorem caller_price_is_ceiling:
  assumes "1000 \<le> bp" and "bp \<le> 10000" and "0 \<le> price"
  shows "price * 10000 \<le> callerCoinsPerMinute (NumI price) bp * bp \<and>
    (0 < price \<longrightarrow> (callerCoinsPerMinute (NumI price) bp - 1) * bp < price * 10000) \<and>
    price \<le> callerCoinsPerMinute (NumI price) bp \<and>
    callerCoinsPerMinute (NumI price) DEFAULT_VIDEO_CALL_HOST_SHARE_BP = \<lceil>of_int (price * 5) / (3 :: rat)\<rceil>"
proof (intro conjI)
  define c where "c = callerCoinsPerMinute (NumI price) bp"
  have tr: "max 0 (math_trunc (of_int price)) = price"
    using assms(3) by (simp add: math_trunc_def)
  have c: "c = (price * 10000 + bp - 1) div bp"
    using assms unfolding c_def callerCoinsPerMinute_def by (simp add: js_Number_def tr Let_def)
  have m: "(price * 10000 + bp - 1) = c * bp + (price * 10000 + bp - 1) mod bp"
    unfolding c by (simp add: div_mult_mod_eq)
  have b: "0 \<le> (price * 10000 + bp - 1) mod bp" "(price * 10000 + bp - 1) mod bp < bp"
    using assms by auto
  show lo: "price * 10000 \<le> c * bp" using m b by linarith
  show "0 < price \<longrightarrow> (c - 1) * bp < price * 10000"
  proof
    have "c * bp \<le> price * 10000 + bp - 1" using m b by linarith
    then show "(c - 1) * bp < price * 10000" by (simp add: left_diff_distrib)
  qed
  show "price \<le> c"
  proof (rule ccontr)
    assume "\<not> price \<le> c"
    then have "c + 1 \<le> price" by simp
    moreover have "0 \<le> c" unfolding c using assms by (intro pos_imp_zdiv_nonneg_iff [THEN iffD2]) auto
    ultimately have "c * bp < price * 10000"
      using assms mult_mono [of c "price - 1" bp 10000] by (simp add: algebra_simps)
    with lo show False by simp
  qed
  have "callerCoinsPerMinute (NumI price) 6000 = (price * 10000 + 5999) div 6000"
    using assms unfolding callerCoinsPerMinute_def by (simp add: js_Number_def tr Let_def add.commute)
  also have "\<dots> = (price * 10000 + 5999) div (2000 * 3)" by simp
  also have "\<dots> = (price * 10000 + 5999) div 2000 div 3" by (rule zdiv_zmult2_eq) simp
  also have "(price * 10000 + 5999) div 2000 = price * 5 + 2"
    using div_mult_self3 [of 2000 "price * 5" 5999] by (simp add: algebra_simps)
  also have "(price * 5 + 2) div 3 = - ((- (price * 5)) div 3)" by presburger
  also have "\<dots> = \<lceil>of_int (price * 5) / (3 :: rat)\<rceil>"
    using ceiling_divide_eq_div [of "price * 5" 3, where ?'a = rat] by simp
  finally show "callerCoinsPerMinute (NumI price) DEFAULT_VIDEO_CALL_HOST_SHARE_BP = \<lceil>of_int (price * 5) / (3 :: rat)\<rceil>"
    by (simp add: DEFAULT_VIDEO_CALL_HOST_SHARE_BP_def)
qed

theorem caller_price_is_ceiling_witness: "1800 * 10000 \<le> callerCoinsPerMinute (NumI 1800) 7000 * 7000"
  using caller_price_is_ceiling [of 7000 1800] by simp

end
