(* ===== verification/Gift_Info.thy ===== *)
theory Gift_Info
  imports Redis_Store
begin

text \<open>
  What a gift is and who may spend: \<open>src/utils/giftImage.js\<close>, \<open>src/services/giftCatalog.service.js\<close>,
  the gift lookup of \<open>src/routes/service/serviceLive.js\<close> (\<open>isLuckyGift\<close>, \<open>getGiftInfoService\<close>) and the
  freeze check \<open>src/utils/coinRestriction.js\<close>. Database rows are JavaScript objects; the queries are
  parameters. A write that is not awaited (\<open>set(...).catch(() => {})\<close>) is a step whose failure is ignored.
\<close>

section \<open>Images\<close>

definition giftImageFields :: "jsval \<Rightarrow> (string \<times> jsval) list" where
  "giftImageFields gift =
     [(''displayImageUrl'', js_or (js_or (get_field gift ''thumbnailUrl'') (get_field gift ''displayImageUrl'')) Null),
      (''fullImageUrl'', js_or (get_field gift ''displayImageUrl'') Null)]"

definition fields_of :: "jsval \<Rightarrow> (string \<times> jsval) list" where
  "fields_of v = (case v of Obj kvs \<Rightarrow> kvs | _ \<Rightarrow> [])"

definition withGiftThumbnail :: "jsval \<Rightarrow> jsval" where
  "withGiftThumbnail gift = Obj (obj_spread (fields_of gift) (giftImageFields gift))"

section \<open>The catalogue\<close>

definition GIFT_CATALOG_PAGE_SIZE :: int where "GIFT_CATALOG_PAGE_SIZE = 500"

record 'w gift_db =
  gd_findMany_active :: "int \<Rightarrow> int \<Rightarrow> ('w, jsval list) act"   \<comment> \<open>skip, take; cheapest first\<close>
  gd_count_active :: "('w, int) act"
  gd_findUnique :: "string \<Rightarrow> ('w, jsval) act"                 \<comment> \<open>\<open>Null\<close> without a row\<close>

definition catalog_key :: "int \<Rightarrow> string" where
  "catalog_key page = ''gifts:list:live:'' @ int_str page"

definition loadFromDb :: "'w gift_db \<Rightarrow> int \<Rightarrow> ('w, jsval) act" where
  "loadFromDb db page =
     bindA (gd_findMany_active db ((page - 1) * GIFT_CATALOG_PAGE_SIZE) GIFT_CATALOG_PAGE_SIZE) (\<lambda>gifts.
       bindA (gd_count_active db) (\<lambda>n.
         ret (Obj [(''data'', Arr (map withGiftThumbnail gifts)), (''total'', NumI n)])))"

definition getActiveGiftCatalogPage :: "'w redis \<Rightarrow> 'w gift_db \<Rightarrow> int \<Rightarrow> ('w, jsval) act" where
  "getActiveGiftCatalogPage R db page =
     bindA (ifOpen R
              (catchA (bindA (r_get R (catalog_key page)) (\<lambda>hit.
                 if truthy_text hit then bindA (parseA (the hit)) (\<lambda>v. ret (Some v)) else ret None))
                (\<lambda>_. ret None))
              (ret None)) (\<lambda>hit.
       case hit of
         Some v \<Rightarrow> ret v
       | None \<Rightarrow>
           bindA (loadFromDb db page) (\<lambda>result.
             thenA (ifOpen R (quietly (r_set R (catalog_key page) (JSON_stringify result) (ex_s 60))) (ret ()))
               (parseA (JSON_stringify result))))"

section \<open>One gift\<close>

definition is_word :: "string \<Rightarrow> jsval \<Rightarrow> bool" where
  "is_word s v = (case v of Str x \<Rightarrow> toLowerCase x = s | _ \<Rightarrow> False)"

definition isLuckyGift :: "jsval \<Rightarrow> bool" where
  "isLuckyGift gift \<longleftrightarrow> truthy gift \<and>
     (truthy (get_field gift ''isLucky'') \<or>
      (let cat = get_field gift ''gift_categories''
       in is_word ''lucky'' (get_field cat ''name'') \<or> is_word ''lucky'' (get_field cat ''slug'')))"

definition getGiftInfoService :: "'w redis \<Rightarrow> 'w gift_db \<Rightarrow> string \<Rightarrow> ('w, jsval) act" where
  "getGiftInfoService R db giftId =
     (if giftId = [] then ret Null
      else let cacheKey = ''gift:info:'' @ giftId in
        bindA (ifOpen R
                 (bindA (r_get R cacheKey) (\<lambda>cached. ret
                    (if truthy_text cached then
                       (case JSON_parse (the cached) of
                          None \<Rightarrow> None
                        | Some parsed \<Rightarrow>
                            if truthy parsed \<and> get_field parsed ''gift_categories'' \<noteq> Undefined then Some parsed else None)
                     else None)))
                 (ret None)) (\<lambda>hit.
          case hit of
            Some parsed \<Rightarrow> ret parsed
          | None \<Rightarrow>
              bindA (gd_findUnique db giftId) (\<lambda>gift.
                thenA (if truthy gift
                       then ifOpen R (thenA (r_set R cacheKey (JSON_stringify gift) (ex_s 3600)) (ret ())) (ret ())
                       else ret ())
                  (ret gift))))"

section \<open>Frozen coins\<close>

definition frozen_message :: string where
  "frozen_message = ''Your personal coins are currently frozen by admin.''"

definition frozen_key :: "string \<Rightarrow> string" where
  "frozen_key userId = ''user:coins_frozen:'' @ userId"

text \<open>\<open>row\<close> is \<open>prisma.user.findUnique({ select: { personal_coins_frozen } })\<close>.\<close>

definition checkCoinsFrozenFast :: "'w redis \<Rightarrow> (string \<Rightarrow> ('w, jsval) act) \<Rightarrow> string \<Rightarrow> ('w, unit) act" where
  "checkCoinsFrozenFast R row userId =
     (if userId = [] then ret ()
      else
        bindA (catchA
                 (ifOpen R
                    (bindA (r_get R (frozen_key userId)) (\<lambda>cached.
                       case cached of
                         None \<Rightarrow> ret False
                       | Some t \<Rightarrow> if t = Raw ''1'' \<or> t = Raw ''true'' then throw (Error frozen_message) else ret True))
                    (ret False))
                 (\<lambda>redisErr. if e_message redisErr = frozen_message then throw redisErr else ret False)) (\<lambda>answered.
          if answered then ret ()
          else
            bindA (row userId) (\<lambda>user.
              let isFrozen = truthy user \<and> truthy (get_field user ''personal_coins_frozen'') in
              thenA (ifOpen R (quietly (r_set R (frozen_key userId) (Raw (if isFrozen then ''1'' else ''0'')) (ex_s 300))) (ret ()))
                (if isFrozen then throw (Error frozen_message) else ret ()))))"

section \<open>Properties\<close>

text \<open>
  While Redis answers, a user is refused exactly when the cached flag says frozen, or, without a
  cached flag, when the database row does.
\<close>

theorem frozen_check_exact:
  assumes "redis_kv R kv clk up" and "up w" and "userId \<noteq> []"
    and "\<And>w. row userId w = (Inr user, w)"
  shows "fst (checkCoinsFrozenFast R row userId w) =
    (let frozen = (case kv w (frozen_key userId) of
         Some (t, _) \<Rightarrow> t = Raw ''1'' \<or> t = Raw ''true''
       | None \<Rightarrow> truthy user \<and> truthy (get_field user ''personal_coins_frozen''))
     in if frozen then Inl (Error frozen_message) else Inr ())"
proof -
  have g: "r_get R (frozen_key userId) w = (Inr (map_option fst (kv w (frozen_key userId))), w)"
    using redis_kv.get [OF assms(1,2)] .
  have o: "isOpen R w" using redis_kv.up_open [OF assms(1,2)] .
  show ?thesis
  proof (cases "kv w (frozen_key userId)")
    case None
    then show ?thesis
      using g o assms(3,4) by (simp add: checkCoinsFrozenFast_def act_simps Let_def)
  next
    case (Some v)
    then show ?thesis
      using g o assms(3,4) by (cases v) (simp add: checkCoinsFrozenFast_def act_simps Let_def)
  qed
qed

theorem frozen_check_exact_witness:
  "fst (checkCoinsFrozenFast mem_redis (\<lambda>_ w. (Inr (Obj [(''personal_coins_frozen'', JBool True)]), w)) ''u'' (mem0 0 :: mem))
     = Inl (Error frozen_message)"
  using frozen_check_exact [OF mem.redis_kv_axioms TrueI, of "''u''"
      "\<lambda>_ w. (Inr (Obj [(''personal_coins_frozen'', JBool True)]), w)"
      "Obj [(''personal_coins_frozen'', JBool True)]" "mem0 0 :: mem"]
  by (simp add: mem_live_def mem0_def get_field_def truthy_def)

text \<open>Without Redis, or when it fails, the row alone decides.\<close>

lemma frozen_check_without_redis:
  assumes "userId \<noteq> []" and "row userId w1 = (Inr user, w2)"
    and "isOpen R w \<Longrightarrow> r_get R (frozen_key userId) w = (Inl e, w1) \<and> e_message e \<noteq> frozen_message"
    and "\<not> isOpen R w \<Longrightarrow> w1 = w"
  shows "fst (checkCoinsFrozenFast R row userId w) =
    (if truthy user \<and> truthy (get_field user ''personal_coins_frozen'') then Inl (Error frozen_message) else Inr ())"
  using assms by (cases "isOpen R w") (auto simp: checkCoinsFrozenFast_def act_simps Let_def)

text \<open>A catalogue page read from the cache is the page that was stored.\<close>

lemma catalog_hit:
  assumes "redis_kv R kv clk up" and "up w" and "kv w (catalog_key page) = Some (JSON_stringify v, e)"
  shows "getActiveGiftCatalogPage R db page w = (Inr v, w)"
  using redis_kv.get [OF assms(1,2), of "catalog_key page"] redis_kv.up_open [OF assms(1,2)] assms(3)
  by (simp add: getActiveGiftCatalogPage_def act_simps truthy_text_def JSON_stringify_def)

end
