(* ===== verification/Lucky_Gift.thy ===== *)
theory Lucky_Gift
  imports Lucky_Reward Admin_Settings Gift_Info Ledger_Client "HOL-Library.AList"
begin

text \<open>
  Sending a lucky gift: \<open>src/routes/service/serviceLuckyGift.js\<close>, the reserve pool that steers the draw
  (\<open>src/modules/luckyGift/reservePool.engine.js\<close>) and the once-only emission of its events
  (\<open>src/modules/luckyGift/emitDedupe.js\<close>).
\<close>

section \<open>The reserve pool\<close>

text \<open>The table \<open>lucky_reserve_pool\<close>: slots in Postgres, their statements as functions on the rows.\<close>

record pool_row =
  pr_spent :: int
  pr_rewarded :: int
  pr_balance :: rat
  pr_seeded :: bool

type_synonym pool_table = "(int \<times> pool_row) list"

record pool_totals =
  totalSpent :: rat
  totalRewarded :: rat
  poolBalance :: rat

definition zero_totals :: pool_totals where
  "zero_totals = \<lparr>totalSpent = 0, totalRewarded = 0, poolBalance = 0\<rparr>"

record 'w pool_db =
  pd_read :: "('w, pool_table) act"
  pd_update :: "(pool_table \<Rightarrow> pool_table) \<Rightarrow> ('w, unit) act"
  pd_snapshot :: "('w, pool_totals option) act"    \<comment> \<open>the newest audit-log snapshot\<close>

definition SPENT_KEY :: string where "SPENT_KEY = ''lucky:reserve:total_spent''"
definition REWARDED_KEY :: string where "REWARDED_KEY = ''lucky:reserve:total_rewarded''"
definition POOL_KEY :: string where "POOL_KEY = ''lucky:reserve:pool_balance''"

text \<open>\<open>Number(s ?? 0)\<close>; the counters are decimal numbers (a text that is not one reads as 0).\<close>

definition number_text :: "jtext option \<Rightarrow> rat" where
  "number_text t = (case t of
      None \<Rightarrow> 0
    | Some (Raw s) \<Rightarrow> (case rat_of_str s of None \<Rightarrow> 0 | Some q \<Rightarrow> q)
    | Some (Json v) \<Rightarrow> (case js_Number v of None \<Rightarrow> 0 | Some q \<Rightarrow> q))"

definition readRedisCounters :: "'w redis \<Rightarrow> ('w, pool_totals option) act" where
  "readRedisCounters R =
     ifOpen R
       (catchA
         (bindA (r_get R SPENT_KEY) (\<lambda>s. bindA (r_get R REWARDED_KEY) (\<lambda>r. bindA (r_get R POOL_KEY) (\<lambda>p.
            if s = None \<and> r = None \<and> p = None then ret None
            else ret (Some \<lparr>totalSpent = number_text s, totalRewarded = number_text r, poolBalance = number_text p\<rparr>)))))
         (\<lambda>_. ret None))
       (ret None)"

text \<open>\<open>INSERT ... ON CONFLICT (slot) DO UPDATE ... WHERE seeded = false\<close>\<close>

definition seed_sql :: "int \<Rightarrow> int \<Rightarrow> rat \<Rightarrow> pool_table \<Rightarrow> pool_table" where
  "seed_sql spent rewarded pool tbl =
     (case map_of tbl 0 of
        None \<Rightarrow> (0, \<lparr>pr_spent = spent, pr_rewarded = rewarded, pr_balance = pool, pr_seeded = True\<rparr>) # tbl
      | Some row \<Rightarrow>
          if pr_seeded row then tbl
          else AList.update 0
                 \<lparr>pr_spent = pr_spent row + spent, pr_rewarded = pr_rewarded row + rewarded,
                  pr_balance = pr_balance row + pool, pr_seeded = True\<rparr> tbl)"

definition ensureSeeded :: "'w redis \<Rightarrow> 'w pool_db \<Rightarrow> bool \<Rightarrow> ('w, bool) act" where
  "ensureSeeded R db seedChecked =
     (if seedChecked then ret True
      else bindA (pd_read db) (\<lambda>tbl.
        if (case map_of tbl 0 of None \<Rightarrow> False | Some row \<Rightarrow> pr_seeded row) then ret True
        else
          bindA (readRedisCounters R) (\<lambda>counters.
            bindA (case counters of Some c \<Rightarrow> ret (Some c) | None \<Rightarrow> catchA (pd_snapshot db) (\<lambda>_. ret None)) (\<lambda>l.
              let legacy = (case l of Some c \<Rightarrow> c | None \<Rightarrow> zero_totals) in
              thenA (pd_update db (seed_sql (math_round (totalSpent legacy)) (math_round (totalRewarded legacy))
                       (poolBalance legacy)))
                (ret True)))))"

definition sum_rows :: "pool_table \<Rightarrow> pool_totals" where
  "sum_rows tbl =
     \<lparr>totalSpent = of_int (sum_list (map (pr_spent \<circ> snd) tbl)),
      totalRewarded = of_int (sum_list (map (pr_rewarded \<circ> snd) tbl)),
      poolBalance = sum_list (map (pr_balance \<circ> snd) tbl)\<rparr>"

record pool_stats =
  ps_totals :: pool_totals
  ps_currentRtp :: rat
  ps_targetRtp :: rat

definition rtp_of :: "rat \<Rightarrow> pool_totals \<Rightarrow> pool_stats" where
  "rtp_of targetRtp totals =
     \<lparr>ps_totals = totals,
      ps_currentRtp = (if 0 < totalSpent totals then totalRewarded totals / totalSpent totals * 100 else targetRtp),
      ps_targetRtp = targetRtp\<rparr>"

text \<open>
  The memo of the shares and the flag \<open>seedChecked\<close> are the module's state. The \<open>try\<close> of the source
  spans both queries; it is written as two so that the flag survives a failure of the second.
\<close>

definition getReservePoolStats :: "'w redis \<Rightarrow> ('w \<Rightarrow> int) \<Rightarrow> ('w, jsval) act \<Rightarrow> 'w pool_db
    \<Rightarrow> lucky_shares memo \<times> bool \<Rightarrow> ('w, pool_stats \<times> lucky_shares memo \<times> bool) act" where
  "getReservePoolStats R now row db st =
     bindA (getLuckyShares R now row (fst st)) (\<lambda>(sh, memo1).
     bindA (catchA (ensureSeeded R db (snd st)) (\<lambda>_. ret False)) (\<lambda>seeded.
     bindA (if seeded then catchA (bindA (pd_read db) (\<lambda>tbl. ret (Some (sum_rows tbl)))) (\<lambda>_. ret None)
            else ret None) (\<lambda>fromDb.
     bindA (case fromDb of
              Some t \<Rightarrow> ret t
            | None \<Rightarrow> bindA (readRedisCounters R) (\<lambda>c. ret (case c of Some t \<Rightarrow> t | None \<Rightarrow> zero_totals))) (\<lambda>totals.
       ret (rtp_of (of_int (luckyTargetRtpBp sh) / 100) totals, memo1, seeded)))))"

section \<open>Once-only events\<close>

definition isLuckyEmitDedupeEnabled :: "string option \<Rightarrow> bool" where
  "isLuckyEmitDedupeEnabled v = flag_on v"

definition emit_key :: "string \<Rightarrow> string" where
  "emit_key transactionId = ''lucky:emitted:'' @ transactionId"

definition claimLuckyEmit :: "'w redis \<Rightarrow> string option \<Rightarrow> string option \<Rightarrow> ('w, bool) act" where
  "claimLuckyEmit R flag transactionId =
     (if \<not> truthy_str transactionId then ret True
      else if \<not> isLuckyEmitDedupeEnabled flag then ret True
      else catchA (r_set R (emit_key (the transactionId)) (Raw ''1'') (nx_ex_s 86400)) (\<lambda>_. ret True))"

definition withLuckyEmitOnce :: "'w redis \<Rightarrow> string option \<Rightarrow> string option \<Rightarrow> ('w, unit) act \<Rightarrow> ('w, bool) act" where
  "withLuckyEmitOnce R flag transactionId emitFn =
     bindA (claimLuckyEmit R flag transactionId) (\<lambda>mine.
       if mine then thenA emitFn (ret True) else ret False)"

section \<open>Sending\<close>

record 'w lucky_deps =
  ld_ledgerCall :: "string \<Rightarrow> (string \<times> jsval) list \<Rightarrow> ('w, jsval) act"
  ld_getPoolStats :: "('w, pool_stats) act"
  ld_checkFrozen :: "string \<Rightarrow> ('w, unit) act"
  ld_redis :: "'w redis"
  ld_getGiftInfo :: "string \<Rightarrow> ('w, jsval) act"
  ld_uuid :: "('w, string) act"
  ld_random :: "('w, rat list) act"       \<comment> \<open>the numbers \<open>Math.random\<close> will give\<close>
  ld_comboFix :: "string option"

record draw =
  dr_totalReward :: int
  dr_breakdown :: "int list"
  dr_category :: string

record lucky_tx =
  tx_log_id :: jsval
  tx_finalBalanceCoins :: int
  tx_wealth :: jsval
  tx_hostPoints :: int
  tx_engine :: string
  tx_rewardCoins :: "int option"
  tx_category :: jsval
  tx_breakdownArray :: "jsval option"
  tx_tierId :: jsval
  tx_configVersion :: jsval

definition lucky_insufficient :: "jsval \<Rightarrow> string" where
  "lucky_insufficient d = ''Insufficient coin balance. Required: '' @ js_String (get_field d ''required'') @
     '', Available: '' @ js_String (get_field d ''balance'')"

definition bigint_opt :: "jsval \<Rightarrow> ('w, int option) act" where
  "bigint_opt v = (if is_nullish v then ret None else bindA (bigint v) (\<lambda>i. ret (Some i)))"

text \<open>
  The fields \<open>agencyUserId\<close>, \<open>pointsAfterHost\<close> and \<open>effectiveReceiverId\<close> are read by nobody in this
  repository; of them only the conversion of \<open>pointsAfterHost\<close>, which can fail, is kept.
\<close>

definition luckyGiftRemoteLedger :: "'w lucky_deps \<Rightarrow> string \<Rightarrow> string option \<Rightarrow> jsval \<Rightarrow> int \<Rightarrow> string \<Rightarrow> string
    \<Rightarrow> draw \<Rightarrow> ('w, lucky_tx) act" where
  "luckyGiftRemoteLedger D senderId receiverId gift count giftTransactionId txKeyBase luckyResult =
     bindA
       (catchA
         (bindA (dot gift ''id'') (\<lambda>gid.
            ld_ledgerCall D ''lucky-gift''
              [(''senderId'', Str senderId), (''receiverId'', js_or (str_or_null receiverId) Null), (''giftId'', gid),
               (''count'', NumI count), (''giftTransactionId'', Str giftTransactionId), (''txKeyBase'', Str txKeyBase),
               (''rewardCoins'', Str (int_str (dr_totalReward luckyResult))),
               (''category'', Str (str_or (Some (dr_category luckyResult)) ''LUCKY'')), (''supportsServerDraw'', JBool True)]))
         (\<lambda>err. throw (toLocalError err
            \<lparr>lm_insufficient = lucky_insufficient, lm_notFound = None, lm_notActive = None, lm_invalidState = None\<rparr>)))
       (\<lambda>r.
         bindA (dot r ''transactionId'') (\<lambda>txid.
         bindA (bigint (get_field r ''finalBalanceCoins'')) (\<lambda>bal.
         bindA (bigint_opt (get_field r ''pointsAfterHost'')) (\<lambda>_.
         bindA (bigint (get_field r ''hostPoints'')) (\<lambda>host.
         bindA (bigint_opt (get_field r ''rewardCoins'')) (\<lambda>reward.
           ret \<lparr>tx_log_id = txid, tx_finalBalanceCoins = bal, tx_wealth = get_field r ''wealth'', tx_hostPoints = host,
                tx_engine = (if get_field r ''engine'' = Str ''water_v1'' then ''water_v1'' else ''legacy''),
                tx_rewardCoins = reward, tx_category = nullish (get_field r ''category'') Null,
                tx_breakdownArray = (case get_field r ''breakdownArray'' of Arr xs \<Rightarrow> Some (Arr xs) | _ \<Rightarrow> None),
                tx_tierId = nullish (get_field r ''tierId'') Null,
                tx_configVersion = nullish (get_field r ''configVersion'') Null\<rparr>))))))"

text \<open>\<open>a > b\<close> on numbers; a comparison with \<open>NaN\<close> is false.\<close>

definition js_gt :: "jsval \<Rightarrow> jsval \<Rightarrow> bool" where
  "js_gt a b = (case (js_Number a, js_Number b) of (Some x, Some y) \<Rightarrow> y < x | _ \<Rightarrow> False)"

record lucky_request =
  lq_senderId :: string
  lq_receiverId :: "string option"
  lq_streamId :: "string option"
  lq_giftId :: string
  lq_comboCount :: jsval
  lq_clientTxId :: "string option"
  lq_preFetchedGift :: jsval

definition gift_fields :: "jsval \<Rightarrow> jsval" where
  "gift_fields gift = Obj ([(''id'', get_field gift ''id''), (''name'', get_field gift ''name'')] @ giftImageFields gift @
     [(''coinCost'', get_field gift ''coinCost''), (''effectLuckyGift'', JBool True)])"

text \<open>\<open>resultPayload\<close>\<close>

definition lucky_payload :: "lucky_request \<Rightarrow> jsval \<Rightarrow> int \<Rightarrow> int \<Rightarrow> lucky_tx \<Rightarrow> draw \<Rightarrow> jsval \<Rightarrow> bool \<Rightarrow> jsval" where
  "lucky_payload q gift count totalCost tx luckyResult wealthLevel isLevelUp =
     (let useWater = tx_engine tx = ''water_v1'';
          totalRewardCoins = (case tx_rewardCoins tx of
             Some r \<Rightarrow> if useWater then r else dr_totalReward luckyResult | None \<Rightarrow> dr_totalReward luckyResult);
          category = (if useWater \<and> \<not> is_nullish (tx_category tx) then tx_category tx else Str (dr_category luckyResult));
          breakdownArray = (case tx_breakdownArray tx of
             Some b \<Rightarrow> if useWater then b else Arr (map NumI (dr_breakdown luckyResult))
           | None \<Rightarrow> Arr (map NumI (dr_breakdown luckyResult)));
          receiver = str_or_null (lq_receiverId q);
          stream = str_or_null (lq_streamId q)
      in Obj
        ([(''success'', JBool True), (''transactionId'', tx_log_id tx), (''isLucky'', JBool True), (''streamId'', stream),
          (''senderId'', Str (lq_senderId q)), (''receiverId'', receiver), (''gift'', gift_fields gift),
          (''count'', NumI count), (''totalCost'', NumI totalCost), (''hostEarningPoints'', NumI (tx_hostPoints tx)),
          (''totalRewardCoins'', NumI totalRewardCoins), (''breakdownArray'', breakdownArray), (''category'', category),
          (''senderRemainingCoins'', NumI (tx_finalBalanceCoins tx)), (''currentLevel'', wealthLevel),
          (''isLevelUp'', JBool isLevelUp),
          (''socketPayload'', Obj
             [(''success'', JBool True), (''streamId'', stream), (''senderId'', Str (lq_senderId q)),
              (''senderRemainingCoins'', NumI (tx_finalBalanceCoins tx)), (''receiverId'', receiver),
              (''gift'', gift_fields gift), (''count'', NumI count), (''totalCost'', NumI totalCost),
              (''pointsAwarded'', NumI (tx_hostPoints tx)), (''wealthLevel'', wealthLevel), (''isLevelUp'', JBool isLevelUp),
              (''isLucky'', JBool True)]),
          (''luckyWin'',
             if 0 < totalRewardCoins then Obj
               ([(''senderId'', Str (lq_senderId q)), (''receiverId'', receiver), (''giftId'', get_field gift ''id''),
                 (''giftName'', get_field gift ''name''),
                 (''giftDisplayImageUrl'', get_field (Obj (giftImageFields gift)) ''displayImageUrl''),
                 (''unitCoinCost'', get_field gift ''coinCost''), (''rewardCoins'', NumI totalRewardCoins),
                 (''category'', category), (''breakdownArray'', breakdownArray)] @
                (if useWater then [(''transactionId'', tx_log_id tx)] else []))
             else Null)] @
         (if useWater then [(''engine'', Str ''water_v1''), (''tierId'', tx_tierId tx), (''configVersion'', tx_configVersion tx)]
          else [])))"

text \<open>\<open>Math.max(1, Math.min(1000, Number(comboCount)))\<close>, an \<open>undefined\<close> count being 1; \<open>None\<close> is \<open>NaN\<close>.\<close>

definition combo_count :: "jsval \<Rightarrow> rat option" where
  "combo_count v = (if v = Undefined then Some 1 else map_option (\<lambda>n. max 1 (min 1000 n)) (js_Number v))"

definition BigInt_count :: "rat option \<Rightarrow> ('w, int) act" where
  "BigInt_count c = (case c of
      Some n \<Rightarrow> bigint (Num n) | None \<Rightarrow> throw ((Error ''NaN cannot be converted to a BigInt'') \<lparr>e_name := ''RangeError''\<rparr>))"

definition lucky_gift_of :: "'w lucky_deps \<Rightarrow> lucky_request \<Rightarrow> ('w, jsval) act" where
  "lucky_gift_of D q =
     (if truthy (lq_preFetchedGift q) then ret (lq_preFetchedGift q)
      else bindA (ld_getGiftInfo D (lq_giftId q)) (\<lambda>gift.
        if \<not> truthy gift \<or> \<not> truthy (get_field gift ''isActive'') then throw (Error ''Gift not found or is inactive.'')
        else if \<not> isLuckyGift gift then throw (Error ''This gift is not a lucky gift.'')
        else ret gift))"

definition lucky_draw :: "string option \<Rightarrow> int \<Rightarrow> int \<Rightarrow> pool_stats \<Rightarrow> rat list \<Rightarrow> draw" where
  "lucky_draw fixFlag coinCost count stats rs =
     (if 1 < count then
        let c = fst (calculateComboReward fixFlag coinCost count (ps_currentRtp stats) (ps_targetRtp stats) rs)
        in \<lparr>dr_totalReward = cr_totalReward c, dr_breakdown = cr_breakdownArray c, dr_category = cr_category c\<rparr>
      else
        let s = fst (calculateSingleReward coinCost (ps_currentRtp stats) (ps_targetRtp stats) rs)
        in \<lparr>dr_totalReward = sr_rewardCoins s, dr_breakdown = [sr_rewardCoins s], dr_category = sr_category s\<rparr>)"

definition lucky_idem_key :: "lucky_request \<Rightarrow> string option" where
  "lucky_idem_key q =
     (if truthy_str (lq_clientTxId q)
      then Some (''lucky:idempotency:'' @ lq_senderId q @ '':'' @ the (lq_clientTxId q)) else None)"

text \<open>The send after the replay check: it charges through the ledger and builds the payload.\<close>

definition lucky_charge :: "'w lucky_deps \<Rightarrow> lucky_request \<Rightarrow> ('w, jsval) act" where
  "lucky_charge D q =
     bindA (lucky_gift_of D q) (\<lambda>gift.
     bindA (bigint (get_field gift ''coinCost'')) (\<lambda>unitCost.
     bindA (BigInt_count (combo_count (lq_comboCount q))) (\<lambda>count.
     bindA (ld_getPoolStats D) (\<lambda>poolStats.
     bindA (ld_random D) (\<lambda>rs.
     bindA (ld_uuid D) (\<lambda>giftTransactionId.
       let luckyResult = lucky_draw (ld_comboFix D) unitCost count poolStats rs;
           txKeyBase = (if truthy_str (lq_clientTxId q) then ''lucky:'' @ lq_senderId q @ '':'' @ the (lq_clientTxId q)
                        else ''lucky:'' @ giftTransactionId)
       in
       bindA (luckyGiftRemoteLedger D (lq_senderId q) (lq_receiverId q) gift count giftTransactionId txKeyBase luckyResult) (\<lambda>tx.
       bindA (dot (tx_wealth tx) ''newLevel'') (\<lambda>wealthLevel.
         ret (lucky_payload q gift count (unitCost * count) tx luckyResult wealthLevel
           (js_gt wealthLevel (get_field (tx_wealth tx) ''previousLevel''))))))))))) "

definition sendLuckyGiftService :: "'w lucky_deps \<Rightarrow> lucky_request \<Rightarrow> ('w, jsval) act" where
  "sendLuckyGiftService D q =
     thenA (ld_checkFrozen D (lq_senderId q))
       (bindA (case lucky_idem_key q of
                 None \<Rightarrow> ret None
               | Some k \<Rightarrow> bindA (r_get (ld_redis D) k) (\<lambda>cachedTx.
                   if truthy_text cachedTx then bindA (parseA (the cachedTx)) (\<lambda>v. ret (Some v)) else ret None)) (\<lambda>cached.
          case cached of
            Some v \<Rightarrow> ret v
          | None \<Rightarrow>
              bindA (lucky_charge D q) (\<lambda>resultPayload.
                thenA (case lucky_idem_key q of
                         None \<Rightarrow> ret ()
                       | Some k \<Rightarrow> thenA (r_set (ld_redis D) k (JSON_stringify resultPayload) (ex_s 86400)) (ret ()))
                  (ret resultPayload))))"

section \<open>Lemmas\<close>

lemma seed_sql_seeded:
  "case map_of (seed_sql s r p tbl) 0 of None \<Rightarrow> False | Some row \<Rightarrow> pr_seeded row"
  by (auto simp: seed_sql_def update_conv split: option.split)

lemma seed_sql_keeps_seeded:
  "(case map_of tbl 0 of None \<Rightarrow> False | Some row \<Rightarrow> pr_seeded row) \<Longrightarrow> seed_sql s r p tbl = tbl"
  by (auto simp: seed_sql_def split: option.splits)

text \<open>The database keeps one table: statements run one after the other and see it.\<close>

locale pool_store =
  fixes db :: "'w pool_db" and tbl :: "'w \<Rightarrow> pool_table"
  assumes update_tbl: "pd_update db f w = (r, w1) \<Longrightarrow> tbl w1 = (case r of Inl _ \<Rightarrow> tbl w | Inr _ \<Rightarrow> f (tbl w))"
    and read_tbl: "pd_read db w = (rt, w1) \<Longrightarrow> tbl w1 = tbl w \<and> (\<forall>t. rt = Inr t \<longrightarrow> t = tbl w)"
    and snapshot_tbl: "tbl (snd (pd_snapshot db w)) = tbl w"
begin

text \<open>Seeding changes the table at most once: afterwards, on any node, it does nothing.\<close>

lemma ensureSeeded_seeded_noop:
  assumes "case map_of (tbl w) 0 of None \<Rightarrow> False | Some row \<Rightarrow> pr_seeded row"
    and "ensureSeeded R db chk w = (r, w1)"
  shows "tbl w1 = tbl w"
proof (cases chk)
  case False
  obtain x w2 where rd: "pd_read db w = (x, w2)" by fastforce
  show ?thesis
  proof (cases x)
    case (Inr t)
    then have "t = tbl w" "tbl w2 = tbl w" using read_tbl [OF rd] by auto
    then show ?thesis using assms False rd Inr by (auto simp: ensureSeeded_def act_simps)
  qed (use assms(2) False rd read_tbl [OF rd] in \<open>auto simp: ensureSeeded_def act_simps\<close>)
qed (use assms(2) in \<open>simp add: ensureSeeded_def act_simps\<close>)

lemma ensureSeeded_seeds:
  assumes "ensureSeeded R db False w = (Inr b, w1)"
  shows "case map_of (tbl w1) 0 of None \<Rightarrow> False | Some row \<Rightarrow> pr_seeded row"
proof -
  obtain x w2 where rd: "pd_read db w = (x, w2)" by fastforce
  with assms obtain t where x: "x = Inr t" by (cases x) (auto simp: ensureSeeded_def act_simps)
  then have t: "t = tbl w" "tbl w2 = tbl w" using read_tbl [OF rd] by auto
  show ?thesis
  proof (cases "case map_of t 0 of None \<Rightarrow> False | Some row \<Rightarrow> pr_seeded row")
    case True
    then show ?thesis using assms rd x t by (simp add: ensureSeeded_def act_simps)
  next
    case False
    then obtain s r p w3 u w4 where "pd_update db (seed_sql s r p) w3 = (Inr u, w4)" "w1 = w4"
      using assms rd x by (auto simp: ensureSeeded_def act_simps Let_def split: prod.splits sum.splits)
    then show ?thesis using update_tbl [of "seed_sql s r p" w3 "Inr u" w4] seed_sql_seeded by simp
  qed
qed

end

text \<open>A world that is just the table.\<close>

definition table_db :: "pool_table pool_db" where
  "table_db = \<lparr>pd_read = (\<lambda>t. (Inr t, t)), pd_update = (\<lambda>f t. (Inr (), f t)), pd_snapshot = (\<lambda>t. (Inr None, t))\<rparr>"

interpretation table: pool_store table_db "\<lambda>t. t"
  by unfold_locales (auto simp: table_db_def)

section \<open>Properties\<close>

text \<open>
  C37: A lucky gift sent again with the same client transaction id gets the first payload back: the
  ledger is not called, nothing is drawn and nothing is stored.
\<close>

theorem lucky_send_idempotent:
  assumes "redis_kv (ld_redis D) kv clk (\<lambda>_. True)"
    and "lucky_idem_key q = Some k"
    and "sendLuckyGiftService D q w = (Inr v, w1)"
    and "ld_checkFrozen D (lq_senderId q) w1 = (Inr (), w2)" and "kv w2 k = kv w1 k"
  shows "sendLuckyGiftService D q w1 = (Inr v, w2)"
proof -
  note get = redis_kv.get [OF assms(1) TrueI]
  have stored: "\<exists>t e. kv w1 k = Some (t, e) \<and> truthy_text (Some t) \<and> JSON_parse t = Some v"
  proof -
    obtain w0 where w0: "ld_checkFrozen D (lq_senderId q) w = (Inr (), w0)"
      using assms(3) by (auto simp: sendLuckyGiftService_def act_simps split: prod.splits sum.splits)
    show ?thesis
    proof (cases "truthy_text (map_option fst (kv w0 k))")
      case True
      then show ?thesis
        using assms(2,3) w0 get
        by (auto simp: sendLuckyGiftService_def act_simps parseA_def truthy_text_def split: option.splits)
    next
      case False
      then obtain w3 where c: "lucky_charge D q w0 = (Inr v, w3)"
        "r_set (ld_redis D) k (JSON_stringify v) (ex_s 86400) w3 = (Inr True, w1) \<or>
         (\<exists>b. r_set (ld_redis D) k (JSON_stringify v) (ex_s 86400) w3 = (Inr b, w1))"
        using assms(2,3) w0 get by (auto simp: sendLuckyGiftService_def act_simps split: prod.splits sum.splits)
      obtain w4 where "r_set (ld_redis D) k (JSON_stringify v) (ex_s 86400) w3 = (Inr True, w4)"
        "kv w4 = (kv w3)(k \<mapsto> (JSON_stringify v, map_option (\<lambda>p. clk w3 + p) (o_px (ex_s 86400))))"
        by (rule redis_kv.set_plain_E [OF assms(1) TrueI, of "ex_s 86400" k "JSON_stringify v"])
          (auto simp: ex_s_def ttl_of_def)
      with c show ?thesis by (auto simp: truthy_text_def JSON_stringify_def JSON_parse_def)
    qed
  qed
  then obtain t e where "kv w2 k = Some (t, e)" "truthy_text (Some t)" "JSON_parse t = Some v"
    using assms(5) by auto
  then show ?thesis
    using assms(2,4) get by (simp add: sendLuckyGiftService_def act_simps parseA_def)
qed

definition demo_lucky :: "mem lucky_deps" where
  "demo_lucky = \<lparr>ld_ledgerCall = (\<lambda>_ _ w. (Inr (Obj [(''transactionId'', Str ''t''), (''finalBalanceCoins'', Num 5),
       (''hostPoints'', Num 4), (''wealth'', Obj [(''newLevel'', Num 2), (''previousLevel'', Num 1)])]), w)),
     ld_getPoolStats = ret (rtp_of 92 zero_totals), ld_checkFrozen = (\<lambda>_. ret ()), ld_redis = mem_redis,
     ld_getGiftInfo = (\<lambda>_. ret Null), ld_uuid = ret ''u'', ld_random = ret [1/2], ld_comboFix = None\<rparr>"

definition demo_lucky_request :: lucky_request where
  "demo_lucky_request = \<lparr>lq_senderId = ''s'', lq_receiverId = Some ''h'', lq_streamId = None, lq_giftId = ''g'',
     lq_comboCount = Undefined, lq_clientTxId = Some ''c'', lq_preFetchedGift = Obj [(''coinCost'', Num 100)]\<rparr>"

lemma demo_lucky_charge: "\<exists>v w1. lucky_charge demo_lucky demo_lucky_request w = (Inr v, w1) \<and> w1 = w"
  by (simp add: lucky_charge_def demo_lucky_def demo_lucky_request_def lucky_gift_of_def truthy_def bigint_def
      get_field_def is_integer_def BigInt_count_def combo_count_def luckyGiftRemoteLedger_def dot_def is_nullish_def
      bigint_opt_def act_simps Let_def)

lemma demo_lucky_send: "\<exists>v w1. sendLuckyGiftService demo_lucky demo_lucky_request (mem0 0) = (Inr v, w1)"
proof -
  obtain v where "lucky_charge demo_lucky demo_lucky_request (mem0 0) = (Inr v, mem0 0)"
    using demo_lucky_charge by blast
  then show ?thesis
    by (simp add: sendLuckyGiftService_def act_simps lucky_idem_key_def demo_lucky_request_def [THEN arg_cong [of _ _ lq_clientTxId]]
      demo_lucky_request_def [THEN arg_cong [of _ _ lq_senderId]] truthy_str_def demo_lucky_def mem_redis_def mem_live_def mem0_def truthy_text_def
      split: option.split prod.split sum.split)
qed

theorem lucky_send_idempotent_witness:
  "\<exists>v w1. sendLuckyGiftService demo_lucky demo_lucky_request (mem0 0) = (Inr v, w1) \<and>
     sendLuckyGiftService demo_lucky demo_lucky_request w1 = (Inr v, w1)"
proof -
  obtain v w1 where s: "sendLuckyGiftService demo_lucky demo_lucky_request (mem0 0) = (Inr v, w1)"
    using demo_lucky_send by blast
  have r: "redis_kv (ld_redis demo_lucky) mem_live m_clk (\<lambda>_. True)"
    using mem.redis_kv_axioms by (simp add: demo_lucky_def)
  have k: "lucky_idem_key demo_lucky_request = Some ''lucky:idempotency:s:c''"
    by (simp add: lucky_idem_key_def demo_lucky_request_def truthy_str_def)
  have f: "ld_checkFrozen demo_lucky (lq_senderId demo_lucky_request) w1 = (Inr (), w1)"
    by (simp add: demo_lucky_def act_simps)
  from lucky_send_idempotent [OF r k s f refl] s show ?thesis by blast
qed

text \<open>
  If Redis refuses the replay snapshot after the ledger has charged the gift, the send is reported
  as failed with the Redis error, although the coins are spent.
\<close>

theorem lucky_paid_but_reported_failed:
  assumes "lucky_idem_key q = Some k"
    and "ld_checkFrozen D (lq_senderId q) w = (Inr (), w0)"
    and "r_get (ld_redis D) k w0 = (Inr None, w1)"
    and "lucky_charge D q w1 = (Inr v, w2)"
    and "r_set (ld_redis D) k (JSON_stringify v) (ex_s 86400) w2 = (Inl e, w3)"
  shows "sendLuckyGiftService D q w = (Inl e, w3)"
  using assms by (simp add: sendLuckyGiftService_def act_simps truthy_text_def)

theorem lucky_paid_but_reported_failed_witness:
  "fst (sendLuckyGiftService
     (demo_lucky\<lparr>ld_redis := mem_redis\<lparr>r_set := \<lambda>_ _ _. throw (Error ''READONLY'')\<rparr>\<rparr>)
     demo_lucky_request (mem0 0)) = Inl (Error ''READONLY'')"
proof -
  let ?D = "demo_lucky\<lparr>ld_redis := mem_redis\<lparr>r_set := \<lambda>_ _ _. throw (Error ''READONLY'')\<rparr>\<rparr> :: mem lucky_deps"
  have same: "lucky_charge ?D demo_lucky_request = lucky_charge demo_lucky demo_lucky_request"
    by (simp add: lucky_charge_def lucky_gift_of_def luckyGiftRemoteLedger_def)
  obtain v where c: "lucky_charge ?D demo_lucky_request (mem0 0) = (Inr v, mem0 0)"
    unfolding same using demo_lucky_charge by blast
  have k: "lucky_idem_key demo_lucky_request = Some ''lucky:idempotency:s:c''"
    by (simp add: lucky_idem_key_def demo_lucky_request_def truthy_str_def)
  have f: "ld_checkFrozen ?D (lq_senderId demo_lucky_request) (mem0 0) = (Inr (), mem0 0)"
    by (simp add: demo_lucky_def act_simps)
  have g: "r_get (ld_redis ?D) ''lucky:idempotency:s:c'' (mem0 0) = (Inr None, mem0 0)"
    by (simp add: mem_redis_def mem_live_def mem0_def)
  have s: "r_set (ld_redis ?D) ''lucky:idempotency:s:c'' (JSON_stringify v) (ex_s 86400) (mem0 0) =
      (Inl (Error ''READONLY''), mem0 0)"
    by (simp add: act_simps)
  from lucky_paid_but_reported_failed [OF k f g c s] show ?thesis by simp
qed

text \<open>
  The Redis-era totals are added to the pool once: after one node's seeding has completed, the
  update another node may still send and every later seeding on any node leave the table as it is.
\<close>

theorem pool_seeded_once:
  assumes "pool_store db tbl" and "ensureSeeded R db False w = (Inr b, w1)"
    and "tbl w2 = tbl w1" and "ensureSeeded R' db chk w2 = (r, w3)"
  shows "tbl w3 = tbl w1 \<and> (\<forall>s rw p. seed_sql s rw p (tbl w1) = tbl w1)"
proof -
  have d: "case map_of (tbl w1) 0 of None \<Rightarrow> False | Some row \<Rightarrow> pr_seeded row"
    by (rule pool_store.ensureSeeded_seeds [OF assms(1,2)])
  have "tbl w3 = tbl w2"
    by (rule pool_store.ensureSeeded_seeded_noop [OF assms(1) _ assms(4)]) (use d assms(3) in simp)
  with d assms(3) show ?thesis by (simp add: seed_sql_keeps_seeded)
qed

text \<open>A client with no connection, on the table's world.\<close>

definition closed_redis :: "pool_table redis" where
  "closed_redis = \<lparr>isOpen = (\<lambda>_. False), r_get = (\<lambda>_. ret None), r_mget = (\<lambda>_. ret []), r_set = (\<lambda>_ _ _. ret False),
     r_del = (\<lambda>_. ret 0), r_pexpire = (\<lambda>_ _. ret 0), r_incrBy = (\<lambda>_ _. ret 0), r_zadd = (\<lambda>_ _ _. ret 0),
     r_zrem = (\<lambda>_ _. ret 0), r_zscore = (\<lambda>_ _. ret None), r_zdue = (\<lambda>_ _ _. ret []), r_hset = (\<lambda>_ _ _. ret 0),
     r_hget = (\<lambda>_ _. ret None), r_hdel = (\<lambda>_ _. ret 0), r_smembers = (\<lambda>_. ret []), r_sismember = (\<lambda>_ _. ret False),
     r_lrange = (\<lambda>_. ret []), r_sadd = (\<lambda>_ _. ret 0), r_srem = (\<lambda>_ _. ret 0), r_scard = (\<lambda>_. ret 0),
     r_rpush = (\<lambda>_ _. ret 0), r_ltrim = (\<lambda>_ _ _. ret ()), r_hgetall = (\<lambda>_. ret []), r_exists = (\<lambda>_. ret False),
     r_ttl = (\<lambda>_. ret (- 2)),
     r_hexists = (\<lambda>_ _. ret False), r_lpush = (\<lambda>_ _. ret 0), r_setGet = (\<lambda>_ _ _. ret None), r_hincrBy = (\<lambda>_ _ _. ret 0)\<rparr>"

theorem pool_seeded_once_witness:
  "\<exists>t. ensureSeeded closed_redis table_db False [] = (Inr True, t) \<and> snd (ensureSeeded closed_redis table_db False t) = t"
proof -
  obtain t where t: "ensureSeeded closed_redis table_db False [] = (Inr True, t)"
    by (simp add: ensureSeeded_def table_db_def readRedisCounters_def closed_redis_def act_simps Let_def)
  obtain r t3 where e: "ensureSeeded closed_redis table_db False t = (r, t3)" by fastforce
  from pool_seeded_once [OF table.pool_store_axioms t refl e] t e show ?thesis by auto
qed

text \<open>
  The events of one lucky transaction are emitted once: the call that finds its key free takes the
  key for a day and emits; a call that finds it taken emits nothing.
\<close>

theorem lucky_emit_once:
  assumes "redis_kv R kv clk (\<lambda>_. True)" and "isLuckyEmitDedupeEnabled flag" and "t \<noteq> []"
  shows "(kv w (emit_key t) \<noteq> None \<longrightarrow> withLuckyEmitOnce R flag (Some t) f w = (Inr False, w)) \<and>
    (kv w (emit_key t) = None \<longrightarrow>
      (\<exists>w1. kv w1 = (kv w)(emit_key t \<mapsto> (Raw ''1'', Some (clk w + 86400000))) \<and>
        withLuckyEmitOnce R flag (Some t) f w = thenA f (ret True) w1))"
proof -
  have claim: "claimLuckyEmit R flag (Some t) w' = (Inr b, w1)"
    if "r_set R (emit_key t) (Raw ''1'') (nx_ex_s 86400) w' = (Inr b, w1)" for w' b w1
    using assms(2,3) that by (simp add: claimLuckyEmit_def act_simps truthy_str_def)
  show ?thesis
  proof (intro conjI impI)
    assume "kv w (emit_key t) \<noteq> None"
    then have "r_set R (emit_key t) (Raw ''1'') (nx_ex_s 86400) w = (Inr False, w)"
      by (intro redis_kv.set_refused [OF assms(1) TrueI]) (simp_all add: nx_ex_s_def)
    from claim [OF this] show "withLuckyEmitOnce R flag (Some t) f w = (Inr False, w)"
      by (simp add: withLuckyEmitOnce_def act_simps)
  next
    assume free: "kv w (emit_key t) = None"
    obtain w1 where "r_set R (emit_key t) (Raw ''1'') (nx_ex_s 86400) w = (Inr True, w1)"
      "kv w1 = (kv w)(emit_key t \<mapsto> (Raw ''1'', map_option (\<lambda>p. clk w + p) (o_px (nx_ex_s 86400))))"
      using redis_kv.set_stored [OF assms(1) TrueI, of "nx_ex_s 86400" w "emit_key t" "Raw ''1''"] free
      by (auto simp: nx_ex_s_def ttl_of_def)
    with claim [OF this(1)] show "\<exists>w1. kv w1 = (kv w)(emit_key t \<mapsto> (Raw ''1'', Some (clk w + 86400000))) \<and>
        withLuckyEmitOnce R flag (Some t) f w = thenA f (ret True) w1"
      by (intro exI [of _ w1]) (simp add: withLuckyEmitOnce_def nx_ex_s_def act_simps)
  qed
qed

theorem lucky_emit_once_witness:
  "fst (withLuckyEmitOnce mem_redis None (Some ''t'') (ret ()) (mem0 0 :: mem)) = Inr True \<and>
   fst (withLuckyEmitOnce mem_redis None (Some ''t'') (ret ())
     ((mem0 0 :: mem)\<lparr>m_kv := [emit_key ''t'' \<mapsto> (Raw ''1'', None)]\<rparr>)) = Inr False"
proof -
  have on: "isLuckyEmitDedupeEnabled None" by (simp add: isLuckyEmitDedupeEnabled_def flag_on_def)
  have "mem_live (mem0 0 :: mem) (emit_key ''t'') = None" by (simp add: mem_live_def mem0_def)
  moreover have "mem_live ((mem0 0 :: mem)\<lparr>m_kv := [emit_key ''t'' \<mapsto> (Raw ''1'', None)]\<rparr>) (emit_key ''t'') \<noteq> None"
    by (simp add: mem_live_def)
  ultimately show ?thesis
    using lucky_emit_once [OF mem.redis_kv_axioms on, of "''t''" "mem0 0 :: mem" "ret ()"]
      lucky_emit_once [OF mem.redis_kv_axioms on, of "''t''" "(mem0 0 :: mem)\<lparr>m_kv := [emit_key ''t'' \<mapsto> (Raw ''1'', None)]\<rparr>" "ret ()"]
    by (auto simp: act_simps)
qed

end
