(* ===== verification/Stream_Room.thy ===== *)
theory Stream_Room
  imports Gift_Info
begin

text \<open>
  The state of one live room, \<open>src/routes/service/serviceLive.js\<close>: the cached stream row, its admins,
  kicked users, password, microphone and chat permissions, the sheet of speakers and the camera clock.
  The tables are parameters (\<open>room_db\<close>); a row is a JavaScript object, \<open>Null\<close> when there is none, and a
  \<open>Date\<close> in it is its number of milliseconds. Steps of a \<open>Promise.all\<close> run in the order listed.
\<close>

section \<open>Tables\<close>

record 'w room_db =
  rd_stream_by_id :: "string \<Rightarrow> ('w, jsval) act"
  rd_stream_by_streamId :: "string \<Rightarrow> ('w, jsval) act"
  rd_stream_by_either :: "string \<Rightarrow> ('w, jsval) act"                \<comment> \<open>\<open>OR: [{ id }, { streamId: id }]\<close>\<close>
  rd_admin_find :: "string \<Rightarrow> string \<Rightarrow> ('w, bool) act"             \<comment> \<open>host, admin\<close>
  rd_admin_list :: "string \<Rightarrow> ('w, string list) act"
  rd_admin_delete :: "string \<Rightarrow> string \<Rightarrow> ('w, unit) act"
  rd_admin_upsert :: "string \<Rightarrow> string \<Rightarrow> ('w, unit) act"
  rd_set_field :: "string \<Rightarrow> string \<Rightarrow> jsval \<Rightarrow> ('w, unit) act"     \<comment> \<open>\<open>update({ where: { streamId } })\<close>\<close>
  rd_get_field :: "string \<Rightarrow> string \<Rightarrow> ('w, jsval) act"            \<comment> \<open>the row with one selected field\<close>

definition js_str :: "jsval \<Rightarrow> string option" where
  "js_str v = (case v of Str s \<Rightarrow> Some s | _ \<Rightarrow> None)"

definition key :: "string \<Rightarrow> string \<Rightarrow> string" where
  "key name i = name @ '':'' @ i"

section \<open>The cached row\<close>

definition getLiveStreamService :: "'w redis \<Rightarrow> 'w room_db \<Rightarrow> string option \<Rightarrow> ('w, jsval) act" where
  "getLiveStreamService R db sid =
     (if \<not> truthy_str sid then ret Null
      else let i = the sid in
        bindA (ifOpen R
                 (bindA (r_get R (key ''stream:info'' i)) (\<lambda>cached. ret
                    (if truthy_text cached then JSON_parse (the cached) else None)))
                 (ret None)) (\<lambda>hit.
          case hit of
            Some v \<Rightarrow> ret v
          | None \<Rightarrow>
              bindA (rd_stream_by_id db i) (\<lambda>s0.
              bindA (if truthy s0 then ret s0 else rd_stream_by_streamId db i) (\<lambda>stream.
                thenA
                  (if truthy stream
                   then ifOpen R
                     (thenA (r_set R (key ''stream:info'' (js_String (get_field stream ''id''))) (JSON_stringify stream) (ex_s 86400))
                       (thenA (r_set R (key ''stream:info'' (js_String (get_field stream ''streamId''))) (JSON_stringify stream) (ex_s 86400))
                         (ret ())))
                     (ret ())
                   else ret ())
                  (ret stream)))))"

text \<open>\<open>let finalHostUserId = hostUserId; if (!finalHostUserId && streamId) ...\<close>\<close>

definition final_host :: "'w redis \<Rightarrow> 'w room_db \<Rightarrow> string option \<Rightarrow> string option \<Rightarrow> ('w, string option) act" where
  "final_host R db streamId hostUserId =
     (if \<not> truthy_str hostUserId \<and> truthy_str streamId then
        bindA (getLiveStreamService R db streamId) (\<lambda>stream.
          ret (if truthy stream then js_str (get_field stream ''userId'') else hostUserId))
      else ret hostUserId)"

section \<open>Admins\<close>

definition bumpViewerCardsEpoch :: "'w redis \<Rightarrow> string option \<Rightarrow> ('w, unit) act" where
  "bumpViewerCardsEpoch R streamId =
     ifOpen R
       (if \<not> truthy_str streamId then ret ()
        else quietly (thenA (r_incrBy R (key ''stream:viewer_cards_epoch'' (the streamId)) 1)
               (r_pexpire R (key ''stream:viewer_cards_epoch'' (the streamId)) 86400000)))
       (ret ())"

text \<open>A set named after an optional id: not a member when the id is missing.\<close>

definition in_set_of :: "'w redis \<Rightarrow> string \<Rightarrow> string option \<Rightarrow> string \<Rightarrow> ('w, bool) act" where
  "in_set_of R name i x = (if truthy_str i then r_sismember R (key name (the i)) x else ret False)"

definition isStreamAdminService :: "'w redis \<Rightarrow> 'w room_db \<Rightarrow> string option \<Rightarrow> string option \<Rightarrow> string option
    \<Rightarrow> ('w, bool) act" where
  "isStreamAdminService R db streamId userId hostUserId =
     (if \<not> truthy_str userId then ret False
      else let u = the userId in
        bindA (final_host R db streamId hostUserId) (\<lambda>host.
        bindA (ifOpen R
                 (bindA (in_set_of R ''stream:admins'' streamId u) (\<lambda>a.
                    if a then ret True else in_set_of R ''host:admins'' host u))
                 (ret False)) (\<lambda>cached.
          if cached then ret True
          else if truthy_str host then
            catchA
              (bindA (rd_admin_find db (the host) u) (\<lambda>dbAdmin.
                 if dbAdmin then
                   thenA (ifOpen R (thenA (r_sadd R (key ''host:admins'' (the host)) [u]) (ret ())) (ret ())) (ret True)
                 else ret False))
              (\<lambda>_. ret False)
          else ret False)))"

definition when_id :: "string option \<Rightarrow> (string \<Rightarrow> ('w, 'a) act) \<Rightarrow> ('w, unit) act" where
  "when_id i f = (if truthy_str i then thenA (f (the i)) (ret ()) else ret ())"

definition demote :: "'w redis \<Rightarrow> 'w room_db \<Rightarrow> string option \<Rightarrow> string option \<Rightarrow> string \<Rightarrow> ('w, unit) act" where
  "demote R db streamId host target =
     thenA (ifOpen R
              (thenA (when_id streamId (\<lambda>s. r_srem R (key ''stream:admins'' s) target))
                (when_id host (\<lambda>h. r_srem R (key ''host:admins'' h) target)))
              (ret ()))
       (when_id host (\<lambda>h. quietly (rd_admin_delete db h target)))"

definition promote :: "'w redis \<Rightarrow> 'w room_db \<Rightarrow> string option \<Rightarrow> string option \<Rightarrow> string \<Rightarrow> ('w, unit) act" where
  "promote R db streamId host target =
     thenA (ifOpen R
              (thenA (when_id streamId (\<lambda>s. r_sadd R (key ''stream:admins'' s) [target]))
                (when_id host (\<lambda>h. r_sadd R (key ''host:admins'' h) [target])))
              (ret ()))
       (when_id host (\<lambda>h. quietly (rd_admin_upsert db h target)))"

definition promoteDemoteAdminService :: "'w redis \<Rightarrow> 'w room_db \<Rightarrow> string option \<Rightarrow> string option \<Rightarrow> string
    \<Rightarrow> ('w, bool) act" where
  "promoteDemoteAdminService R db streamId hostUserId targetUserId =
     bindA (final_host R db streamId hostUserId) (\<lambda>host.
     bindA (isStreamAdminService R db streamId (Some targetUserId) host) (\<lambda>isCurrentlyAdmin.
       thenA (if isCurrentlyAdmin then demote R db streamId host targetUserId
              else promote R db streamId host targetUserId)
         (thenA (bumpViewerCardsEpoch R streamId) (ret (\<not> isCurrentlyAdmin)))))"

definition getStreamAdminsService :: "'w redis \<Rightarrow> 'w room_db \<Rightarrow> string option \<Rightarrow> string option \<Rightarrow> ('w, string list) act" where
  "getStreamAdminsService R db streamId hostUserId =
     bindA (final_host R db streamId hostUserId) (\<lambda>host.
     bindA (ifOpen R
              (bindA (if truthy_str streamId then r_smembers R (key ''stream:admins'' (the streamId)) else ret []) (\<lambda>a.
               bindA (if truthy_str host then r_smembers R (key ''host:admins'' (the host)) else ret []) (\<lambda>b.
                 ret (a @ b))))
              (ret [])) (\<lambda>cached.
     bindA (if truthy_str host
            then bindA (catchA (bindA (rd_admin_list db (the host)) (\<lambda>l. ret (Some l))) (\<lambda>_. ret None)) (\<lambda>l.
              case l of
                None \<Rightarrow> ret []
              | Some dbAdmins \<Rightarrow>
                  thenA (ifOpen R (if dbAdmins = [] then ret ()
                                   else quietly (r_sadd R (key ''host:admins'' (the host)) dbAdmins)) (ret ()))
                    (ret dbAdmins))
            else ret []) (\<lambda>dbAdmins.
       ret (rev (remdups (rev (cached @ dbAdmins)))))))"

section \<open>Kicked users\<close>

definition kicked_key :: "string \<Rightarrow> string \<Rightarrow> string" where
  "kicked_key streamId userId = ''stream:kicked:'' @ streamId @ '':'' @ userId"

definition kickUserService :: "'w redis \<Rightarrow> string \<Rightarrow> string \<Rightarrow> ('w, unit) act" where
  "kickUserService R streamId targetUserId =
     thenA (r_set R (kicked_key streamId targetUserId) (Raw ''1'') (ex_s 600))
       (thenA (r_srem R (key ''stream:active'' streamId) targetUserId)
         (thenA (r_srem R (key ''stream:admins'' streamId) targetUserId) (ret ())))"

definition isUserKickedService :: "'w redis \<Rightarrow> string \<Rightarrow> string \<Rightarrow> ('w, int option) act" where
  "isUserKickedService R streamId userId =
     bindA (r_get R (kicked_key streamId userId)) (\<lambda>isKicked.
       if \<not> truthy_text isKicked then ret None
       else bindA (r_ttl R (kicked_key streamId userId)) (\<lambda>ttl. ret (Some (if 0 < ttl then ttl else 0))))"

section \<open>Password and permissions\<close>

definition setStreamPasswordService :: "'w redis \<Rightarrow> string \<Rightarrow> string option \<Rightarrow> ('w, unit) act" where
  "setStreamPasswordService R streamId password =
     (if \<not> truthy_str password then thenA (r_del R [key ''stream:password'' streamId]) (ret ())
      else thenA (r_set R (key ''stream:password'' streamId) (Raw (the password)) plain) (ret ()))"

definition getStreamPasswordService :: "'w redis \<Rightarrow> string \<Rightarrow> ('w, jtext option) act" where
  "getStreamPasswordService R streamId = r_get R (key ''stream:password'' streamId)"

definition setMicPermissionService :: "'w redis \<Rightarrow> 'w room_db \<Rightarrow> string \<Rightarrow> jsval \<Rightarrow> ('w, bool) act" where
  "setMicPermissionService R db streamId micPermissionRequired =
     (let isRequired = micPermissionRequired \<noteq> JBool False \<and> micPermissionRequired \<noteq> Str ''false'' in
      thenA (quietly (rd_set_field db streamId ''micPermissionRequired'' (JBool isRequired)))
        (thenA (r_set R (key ''stream:mic_permission'' streamId) (Raw (if isRequired then ''1'' else ''0'')) plain)
          (ret isRequired)))"

text \<open>The column is a boolean; a row without it leaves the default.\<close>

definition getMicPermissionService :: "'w redis \<Rightarrow> 'w room_db \<Rightarrow> string \<Rightarrow> ('w, bool) act" where
  "getMicPermissionService R db streamId =
     bindA (r_get R (key ''stream:mic_permission'' streamId)) (\<lambda>cached.
       case cached of
         Some t \<Rightarrow> ret (t = Raw ''1'')
       | None \<Rightarrow>
           bindA (catchA (bindA (rd_get_field db streamId ''micPermissionRequired'') (\<lambda>stream. ret
                    (if truthy stream \<and> get_field stream ''micPermissionRequired'' \<noteq> Undefined
                     then truthy (get_field stream ''micPermissionRequired'') else True)))
                   (\<lambda>_. ret True)) (\<lambda>isRequired.
             thenA (r_set R (key ''stream:mic_permission'' streamId) (Raw (if isRequired then ''1'' else ''0'')) plain)
               (ret isRequired)))"

definition chat_modes :: "string list" where
  "chat_modes = [''EVERYONE'', ''ALL_MUTED'', ''FOLLOWERS_ONLY'', ''ADMINS_ONLY'']"

definition setChatPermissionService :: "'w redis \<Rightarrow> 'w room_db \<Rightarrow> string \<Rightarrow> jsval \<Rightarrow> ('w, string) act" where
  "setChatPermissionService R db streamId mode =
     (let targetMode = (case mode of Str s \<Rightarrow> if s \<in> set chat_modes then s else ''EVERYONE'' | _ \<Rightarrow> ''EVERYONE'') in
      thenA (quietly (rd_set_field db streamId ''chatPermissionMode'' (Str targetMode)))
        (thenA (r_set R (key ''stream:chat_permission'' streamId) (Raw targetMode) plain) (ret targetMode)))"

definition getChatPermissionService :: "'w redis \<Rightarrow> 'w room_db \<Rightarrow> string \<Rightarrow> ('w, string) act" where
  "getChatPermissionService R db streamId =
     bindA (r_get R (key ''stream:chat_permission'' streamId)) (\<lambda>cached.
       case cached of
         Some (Raw s) \<Rightarrow> ret s
       | Some (Json v) \<Rightarrow> ret (js_String v)
       | None \<Rightarrow>
           bindA (catchA (bindA (rd_get_field db streamId ''chatPermissionMode'') (\<lambda>stream. ret
                    (if truthy stream \<and> truthy (get_field stream ''chatPermissionMode'')
                     then js_String (get_field stream ''chatPermissionMode'') else ''EVERYONE'')))
                   (\<lambda>_. ret ''EVERYONE'')) (\<lambda>mode.
             thenA (r_set R (key ''stream:chat_permission'' streamId) (Raw mode) plain) (ret mode)))"

section \<open>The sheet of speakers\<close>

definition addUserToSheetService :: "'w redis \<Rightarrow> (string \<Rightarrow> string \<Rightarrow> ('w, jsval) act) \<Rightarrow> string \<Rightarrow> string \<Rightarrow> jsval
    \<Rightarrow> ('w, unit) act" where
  "addUserToSheetService R isUserRestrictedFast streamId userId username =
     bindA (isUserRestrictedFast userId ''LIVE_AUDIO_MUTE'') (\<lambda>r.
       thenA (r_hset R (key ''stream:sheet'' streamId) userId (JSON_stringify (Obj
                [(''userId'', Str userId), (''username'', username), (''isMuted'', JBool (truthy r)),
                 (''mutedByHost'', JBool (truthy r))])))
         (ret ()))"

definition removeUserFromSheetService :: "'w redis \<Rightarrow> string \<Rightarrow> string \<Rightarrow> ('w, unit) act" where
  "removeUserFromSheetService R streamId userId = thenA (r_hdel R (key ''stream:sheet'' streamId) userId) (ret ())"

definition toggleUserSheetMuteService :: "'w redis \<Rightarrow> ('w \<Rightarrow> int) \<Rightarrow> string \<Rightarrow> string \<Rightarrow> jsval \<Rightarrow> jsval
    \<Rightarrow> ('w, jsval) act" where
  "toggleUserSheetMuteService R now streamId userId muteState mutedByHost =
     bindA (r_hget R (key ''stream:sheet'' streamId) userId) (\<lambda>rawUser.
       if \<not> truthy_text rawUser then ret Null
       else bindA (parseA (the rawUser)) (\<lambda>userObj.
         bindA (askA now) (\<lambda>t.
           let u = Obj (obj_spread (fields_of userObj)
                 ([(''isMuted'', muteState)] @
                  (if mutedByHost \<noteq> Undefined
                   then [(''mutedByHost'', mutedByHost),
                         (''mutedUntil'', if truthy mutedByHost then NumI (t + 30 * 60 * 1000) else Null)]
                   else [])))
           in thenA (r_hset R (key ''stream:sheet'' streamId) userId (JSON_stringify u)) (ret u))))"

text \<open>\<open>mutedUntil\<close> is a number once set.\<close>

definition mute_over :: "int \<Rightarrow> jsval \<Rightarrow> bool" where
  "mute_over t u \<longleftrightarrow> truthy (get_field u ''mutedByHost'') \<and> truthy (get_field u ''mutedUntil'') \<and>
     (case js_Number (get_field u ''mutedUntil'') of None \<Rightarrow> False | Some q \<Rightarrow> q \<le> of_int t)"

definition unmuted :: "jsval \<Rightarrow> jsval" where
  "unmuted u = Obj (obj_spread (fields_of u)
     [(''mutedByHost'', JBool False), (''isMuted'', JBool False), (''mutedUntil'', Null)])"

fun sheet_users :: "'w redis \<Rightarrow> string \<Rightarrow> int \<Rightarrow> (string \<times> jtext) list \<Rightarrow> ('w, jsval list) act" where
  "sheet_users R streamId t [] = ret []"
| "sheet_users R streamId t ((_, val) # rest) =
     bindA (parseA val) (\<lambda>userObj.
     bindA (if mute_over t userObj
            then thenA (r_hset R (key ''stream:sheet'' streamId) (js_String (get_field userObj ''userId''))
                         (JSON_stringify (unmuted userObj))) (ret (unmuted userObj))
            else ret userObj) (\<lambda>u.
     bindA (sheet_users R streamId t rest) (\<lambda>us. ret (u # us))))"

definition getSheetUsersService :: "'w redis \<Rightarrow> ('w \<Rightarrow> int) \<Rightarrow> string \<Rightarrow> ('w, jsval list) act" where
  "getSheetUsersService R now streamId =
     bindA (r_hgetall R (key ''stream:sheet'' streamId)) (\<lambda>rawData.
     bindA (askA now) (\<lambda>t. sheet_users R streamId t rawData))"

section \<open>The camera clock\<close>

text \<open>\<open>Math.floor((now - Number(text)) / 1000)\<close>; a text that is not a number compares as \<open>NaN\<close>.\<close>

definition off_seconds :: "int \<Rightarrow> jtext \<Rightarrow> int option" where
  "off_seconds t text = map_option (\<lambda>n. (t - n) div 1000) (Number_of text)"

definition count_excess :: "'w redis \<Rightarrow> string \<Rightarrow> int option \<Rightarrow> ('w, unit) act" where
  "count_excess R keyUncounted offSec =
     (case offSec of
        Some s \<Rightarrow> if 60 < s then thenA (r_incrBy R keyUncounted (s - 60)) (ret ()) else ret ()
      | None \<Rightarrow> ret ())"

definition handleCameraStateChangeService :: "'w redis \<Rightarrow> ('w \<Rightarrow> int) \<Rightarrow> string option \<Rightarrow> bool \<Rightarrow> ('w, unit) act" where
  "handleCameraStateChangeService R now streamId isCameraOn =
     ifOpen R
       (if \<not> truthy_str streamId then ret ()
        else let keyOff = key ''stream:camera_off_at'' (the streamId);
                 keyUncounted = key ''stream:uncounted_seconds'' (the streamId) in
          bindA (r_get R keyOff) (\<lambda>offAt.
            if \<not> isCameraOn then
              (if truthy_text offAt then ret ()
               else bindA (askA now) (\<lambda>t. thenA (r_set R keyOff (Raw (int_str t)) plain) (ret ())))
            else
              (if truthy_text offAt then
                 bindA (askA now) (\<lambda>t.
                   thenA (count_excess R keyUncounted (off_seconds t (the offAt)))
                     (thenA (r_del R [keyOff]) (ret ())))
               else ret ())))
       (ret ())"

section \<open>Lemmas\<close>

lemma int_str_nonempty [simp]: "int_str i \<noteq> []"
  by (simp add: int_str_def digits_of_nonempty)

lemma truthy_text_int_str [simp]: "truthy_text (Some (Raw (int_str t)))"
  by (simp add: truthy_text_def)

lemma truthy_str_Some [simp]: "truthy_str (Some s) \<longleftrightarrow> s \<noteq> []"
  by (simp add: truthy_str_def)

lemma key_eq [simp]: "key a i = key a j \<longleftrightarrow> i = j"
  by (simp add: key_def)

text \<open>The rooms' sets and the table of host admins, under the laws of Redis and the table's queries.\<close>

locale room_store = redis_collections R kv clk up ss ls
  for R :: "'w redis" and kv clk up ss ls +
  fixes db :: "'w room_db" and adm :: "'w \<Rightarrow> (string \<times> string) set"
  assumes admin_find: "up w \<Longrightarrow> rd_admin_find db h u w = (Inr ((h, u) \<in> adm w), w)"
    and admin_delete: "up w \<Longrightarrow> \<exists>w1. rd_admin_delete db h u w = (Inr (), w1) \<and> up w1 \<and> ss w1 = ss w \<and>
      ls w1 = ls w \<and> adm w1 = adm w - {(h, u)}"
    and admin_upsert: "up w \<Longrightarrow> \<exists>w1. rd_admin_upsert db h u w = (Inr (), w1) \<and> up w1 \<and> ss w1 = ss w \<and>
      ls w1 = ls w \<and> adm w1 = insert (h, u) (adm w)"
    and adm_sadd: "adm (snd (r_sadd R k xs w)) = adm w"
    and adm_srem: "adm (snd (r_srem R k x w)) = adm w"
    and adm_incr: "adm (snd (r_incrBy R k d w)) = adm w"
    and adm_pexpire: "adm (snd (r_pexpire R k ms w)) = adm w"
begin

definition is_admin :: "'w \<Rightarrow> string \<Rightarrow> string \<Rightarrow> string \<Rightarrow> bool" where
  "is_admin w s h u \<longleftrightarrow>
     u \<in> ss w (key ''stream:admins'' s) \<or> u \<in> ss w (key ''host:admins'' h) \<or> (h, u) \<in> adm w"

lemma saddE:
  assumes "up w"
  obtains n w1 where "r_sadd R k xs w = (Inr n, w1)" "up w1" "ss w1 = (ss w)(k := ss w k \<union> set xs)"
    "ls w1 = ls w" "adm w1 = adm w"
  using sadd [OF assms, of k xs] adm_sadd [of k xs w] by auto

lemma sremE:
  assumes "up w"
  obtains n w1 where "r_srem R k x w = (Inr n, w1)" "up w1" "ss w1 = (ss w)(k := ss w k - {x})"
    "ls w1 = ls w" "adm w1 = adm w"
  using srem [OF assms, of k x] adm_srem [of k x w] by auto

lemma keys_differ [simp]: "key ''stream:admins'' i \<noteq> key ''host:admins'' j"
  "key ''host:admins'' j \<noteq> key ''stream:admins'' i"
  "key ''stream:viewer_cards_epoch'' l \<noteq> key ''host:admins'' j"
  "key ''stream:viewer_cards_epoch'' l \<noteq> key ''stream:admins'' i"
  by (simp_all add: key_def)

lemma isStreamAdmin_value:
  assumes "up w" and "s \<noteq> []" and "h \<noteq> []" and "u \<noteq> []"
  obtains w1 where "isStreamAdminService R db (Some s) (Some u) (Some h) w = (Inr (is_admin w s h u), w1)"
    "up w1" "\<not> is_admin w s h u \<Longrightarrow> w1 = w" "ss w1 (key ''stream:viewer_cards_epoch'' s) = ss w (key ''stream:viewer_cards_epoch'' s)"
    "ls w1 = ls w"
proof -
  note o = up_open [OF assms(1)] and m = sismember [OF assms(1)] and f = admin_find [OF assms(1)]
  obtain n w1 where sa: "r_sadd R (key ''host:admins'' h) [u] w = (Inr n, w1)" "up w1"
    "ss w1 = (ss w)(key ''host:admins'' h := ss w (key ''host:admins'' h) \<union> set [u])" "ls w1 = ls w" "adm w1 = adm w"
    by (rule saddE [OF assms(1)])
  show thesis
  proof (cases "u \<in> ss w (key ''stream:admins'' s) \<or> u \<in> ss w (key ''host:admins'' h)")
    case True
    then show ?thesis
      using that [of w] assms o m
      by (auto simp: isStreamAdminService_def final_host_def in_set_of_def act_simps is_admin_def)
  next
    case False
    show ?thesis
    proof (cases "(h, u) \<in> adm w")
      case True
      then show ?thesis
        using that [of w1] False assms o m f sa
        by (auto simp: isStreamAdminService_def final_host_def in_set_of_def act_simps is_admin_def)
    next
      case not: False
      then show ?thesis
        using that [of w] False assms o m f
        by (auto simp: isStreamAdminService_def final_host_def in_set_of_def act_simps is_admin_def)
    qed
  qed
qed

lemma demote_value:
  assumes "up w" and "s \<noteq> []" and "h \<noteq> []"
  obtains w1 where "demote R db (Some s) (Some h) u w = (Inr (), w1)" "up w1" "\<not> is_admin w1 s h u"
    "ss w1 (key ''stream:viewer_cards_epoch'' s) = ss w (key ''stream:viewer_cards_epoch'' s)" "ls w1 = ls w"
proof -
  obtain n w1 where a: "r_srem R (key ''stream:admins'' s) u w = (Inr n, w1)" "up w1"
    "ss w1 = (ss w)(key ''stream:admins'' s := ss w (key ''stream:admins'' s) - {u})" "ls w1 = ls w" "adm w1 = adm w"
    by (rule sremE [OF assms(1)])
  obtain m w2 where b: "r_srem R (key ''host:admins'' h) u w1 = (Inr m, w2)" "up w2"
    "ss w2 = (ss w1)(key ''host:admins'' h := ss w1 (key ''host:admins'' h) - {u})" "ls w2 = ls w1" "adm w2 = adm w1"
    by (rule sremE [OF a(2)])
  obtain w3 where c: "rd_admin_delete db h u w2 = (Inr (), w3)" "up w3" "ss w3 = ss w2" "ls w3 = ls w2"
    "adm w3 = adm w2 - {(h, u)}"
    using admin_delete [OF b(2)] by blast
  show thesis
    by (rule that [of w3])
      (use assms up_open [OF assms(1)] a b c in \<open>auto simp: demote_def when_id_def act_simps is_admin_def\<close>)
qed

lemma promote_value:
  assumes "up w" and "s \<noteq> []" and "h \<noteq> []"
  obtains w1 where "promote R db (Some s) (Some h) u w = (Inr (), w1)" "up w1" "is_admin w1 s h u"
    "ss w1 (key ''stream:viewer_cards_epoch'' s) = ss w (key ''stream:viewer_cards_epoch'' s)" "ls w1 = ls w"
proof -
  obtain n w1 where a: "r_sadd R (key ''stream:admins'' s) [u] w = (Inr n, w1)" "up w1"
    "ss w1 = (ss w)(key ''stream:admins'' s := ss w (key ''stream:admins'' s) \<union> set [u])" "ls w1 = ls w" "adm w1 = adm w"
    by (rule saddE [OF assms(1)])
  obtain m w2 where b: "r_sadd R (key ''host:admins'' h) [u] w1 = (Inr m, w2)" "up w2"
    "ss w2 = (ss w1)(key ''host:admins'' h := ss w1 (key ''host:admins'' h) \<union> set [u])" "ls w2 = ls w1" "adm w2 = adm w1"
    by (rule saddE [OF a(2)])
  obtain w3 where c: "rd_admin_upsert db h u w2 = (Inr (), w3)" "up w3" "ss w3 = ss w2" "ls w3 = ls w2"
    "adm w3 = insert (h, u) (adm w2)"
    using admin_upsert [OF b(2)] by blast
  show thesis
    by (rule that [of w3])
      (use assms up_open [OF assms(1)] a b c in \<open>auto simp: promote_def when_id_def act_simps is_admin_def\<close>)
qed

lemma bump_value:
  assumes "up w" and "ss w (key ''stream:viewer_cards_epoch'' s) = {}" and "ls w (key ''stream:viewer_cards_epoch'' s) = []"
  obtains w1 where "bumpViewerCardsEpoch R (Some s) w = (Inr (), w1)" "up w1" "ss w1 = ss w" "adm w1 = adm w"
proof (cases "s = []")
  case True
  then show ?thesis using that [of w] up_open [OF assms(1)] assms(1) by (simp add: bumpViewerCardsEpoch_def act_simps)
next
  case False
  obtain i w1 where i: "r_incrBy R (key ''stream:viewer_cards_epoch'' s) 1 w = (i, w1)" by fastforce
  have w1: "up w1" "ss w1 = ss w" "adm w1 = adm w"
    using incr_collections [OF assms(1-3) i] adm_incr [of "key ''stream:viewer_cards_epoch'' s" 1 w] i by auto
  obtain r w2 where e: "r_pexpire R (key ''stream:viewer_cards_epoch'' s) 86400000 w1 = (r, w2)" by fastforce
  have w2: "up w2" "ss w2 = ss w" "adm w2 = adm w"
    using pexpire_collections [OF w1(1) _ e] adm_pexpire [of "key ''stream:viewer_cards_epoch'' s" 86400000 w1] e w1 by auto
  show ?thesis
    by (cases i) (use that [of w1] that [of w2] w1 w2 i e False up_open [OF assms(1)] in
      \<open>auto simp: bumpViewerCardsEpoch_def act_simps\<close>)
qed

lemma toggle_value:
  assumes "up w" and "s \<noteq> []" and "h \<noteq> []" and "u \<noteq> []"
    and "ss w (key ''stream:viewer_cards_epoch'' s) = {}" and "ls w (key ''stream:viewer_cards_epoch'' s) = []"
  obtains w1 where "promoteDemoteAdminService R db (Some s) (Some h) u w = (Inr (\<not> is_admin w s h u), w1)"
    "up w1" "is_admin w1 s h u \<longleftrightarrow> \<not> is_admin w s h u"
proof -
  obtain w1 where a: "isStreamAdminService R db (Some s) (Some u) (Some h) w = (Inr (is_admin w s h u), w1)"
    "up w1" "ss w1 (key ''stream:viewer_cards_epoch'' s) = ss w (key ''stream:viewer_cards_epoch'' s)" "ls w1 = ls w"
    by (rule isStreamAdmin_value [OF assms(1-4)])
  define act where "act = (if is_admin w s h u then demote R db (Some s) (Some h) u else promote R db (Some s) (Some h) u)"
  obtain w2 where b: "act w1 = (Inr (), w2)" "up w2" "is_admin w2 s h u \<longleftrightarrow> \<not> is_admin w s h u"
    "ss w2 (key ''stream:viewer_cards_epoch'' s) = ss w1 (key ''stream:viewer_cards_epoch'' s)" "ls w2 = ls w1"
  proof (cases "is_admin w s h u")
    case True
    obtain w2 where "demote R db (Some s) (Some h) u w1 = (Inr (), w2)" "up w2" "\<not> is_admin w2 s h u"
      "ss w2 (key ''stream:viewer_cards_epoch'' s) = ss w1 (key ''stream:viewer_cards_epoch'' s)" "ls w2 = ls w1"
      by (rule demote_value [OF a(2) assms(2,3)])
    with True show ?thesis by (intro that [of w2]) (simp_all add: act_def)
  next
    case False
    obtain w2 where "promote R db (Some s) (Some h) u w1 = (Inr (), w2)" "up w2" "is_admin w2 s h u"
      "ss w2 (key ''stream:viewer_cards_epoch'' s) = ss w1 (key ''stream:viewer_cards_epoch'' s)" "ls w2 = ls w1"
      by (rule promote_value [OF a(2) assms(2,3)])
    with False show ?thesis by (intro that [of w2]) (simp_all add: act_def)
  qed
  obtain w3 where c: "bumpViewerCardsEpoch R (Some s) w2 = (Inr (), w3)" "up w3" "ss w3 = ss w2" "adm w3 = adm w2"
    using bump_value [OF b(2), of s] assms(5,6) a(3,4) b(4,5) by auto
  have "promoteDemoteAdminService R db (Some s) (Some h) u w = (Inr (\<not> is_admin w s h u), w3)"
    using a(1) b(1) c(1) assms(3) by (simp add: promoteDemoteAdminService_def final_host_def act_simps flip: act_def)
  moreover have "is_admin w3 s h u \<longleftrightarrow> \<not> is_admin w s h u"
    using b(3) c(3,4) by (simp add: is_admin_def)
  ultimately show thesis using that c(2) by blast
qed

end

section \<open>A concrete database\<close>

text \<open>The in-memory store with the tables of streams and of host admins beside it.\<close>

record room_mem = mem +
  rm_streams :: "jsval list"
  rm_admins :: "(string \<times> string) list"

definition room0 :: "int \<Rightarrow> room_mem" where
  "room0 t = mem.extend (mem0 t) \<lparr>rm_streams = [], rm_admins = []\<rparr>"

definition find_row :: "(jsval \<Rightarrow> bool) \<Rightarrow> ('x room_mem_scheme, jsval) act" where
  "find_row P = (\<lambda>w. (Inr (case find P (rm_streams w) of None \<Rightarrow> Null | Some r \<Rightarrow> r), w))"

definition mem_room_db :: "('x room_mem_scheme) room_db" where
  "mem_room_db = \<lparr>
     rd_stream_by_id = (\<lambda>i. find_row (\<lambda>r. get_field r ''id'' = Str i)),
     rd_stream_by_streamId = (\<lambda>i. find_row (\<lambda>r. get_field r ''streamId'' = Str i)),
     rd_stream_by_either = (\<lambda>i. find_row (\<lambda>r. get_field r ''id'' = Str i \<or> get_field r ''streamId'' = Str i)),
     rd_admin_find = (\<lambda>h u w. (Inr ((h, u) \<in> set (rm_admins w)), w)),
     rd_admin_list = (\<lambda>h w. (Inr (map snd (filter (\<lambda>(x, _). x = h) (rm_admins w))), w)),
     rd_admin_delete = (\<lambda>h u w. (Inr (), w\<lparr>rm_admins := filter (\<lambda>x. x \<noteq> (h, u)) (rm_admins w)\<rparr>)),
     rd_admin_upsert = (\<lambda>h u w. (Inr (), w\<lparr>rm_admins := List.insert (h, u) (rm_admins w)\<rparr>)),
     rd_set_field = (\<lambda>i f v w. (Inr (), w\<lparr>rm_streams := map (\<lambda>r. if get_field r ''streamId'' = Str i
        then Obj (obj_spread (fields_of r) [(f, v)]) else r) (rm_streams w)\<rparr>)),
     rd_get_field = (\<lambda>i f w. (Inr (case find (\<lambda>r. get_field r ''streamId'' = Str i) (rm_streams w) of
        None \<Rightarrow> Null | Some r \<Rightarrow> Obj [(f, get_field r f)]), w))\<rparr>"

interpretation memr: room_store mem_redis mem_live m_clk "\<lambda>_. True" mem_ss m_l mem_room_db "\<lambda>w. set (rm_admins w)"
proof
  fix w :: "'x room_mem_scheme" and h u k x xs d ms
  show "rd_admin_find mem_room_db h u w = (Inr ((h, u) \<in> set (rm_admins w)), w)"
    by (simp add: mem_room_db_def)
  show "\<exists>w1. rd_admin_delete mem_room_db h u w = (Inr (), w1) \<and> True \<and> mem_ss w1 = mem_ss w \<and>
      m_l w1 = m_l w \<and> set (rm_admins w1) = set (rm_admins w) - {(h, u)}"
    by (auto simp: mem_room_db_def mem_ss_def fun_eq_iff)
  show "\<exists>w1. rd_admin_upsert mem_room_db h u w = (Inr (), w1) \<and> True \<and> mem_ss w1 = mem_ss w \<and>
      m_l w1 = m_l w \<and> set (rm_admins w1) = insert (h, u) (set (rm_admins w))"
    by (auto simp: mem_room_db_def mem_ss_def fun_eq_iff)
  show "set (rm_admins (snd (r_sadd mem_redis k xs w))) = set (rm_admins w)" by (simp add: mem_redis_def)
  show "set (rm_admins (snd (r_srem mem_redis k x w))) = set (rm_admins w)" by (simp add: mem_redis_def)
  show "set (rm_admins (snd (r_incrBy mem_redis k d w))) = set (rm_admins w)"
    by (simp add: mem_redis_def Let_def split: option.split)
  show "set (rm_admins (snd (r_pexpire mem_redis k ms w))) = set (rm_admins w)"
    by (simp add: mem_redis_def split: option.split prod.split)
qed

section \<open>Properties\<close>



text \<open>
  A camera-off period costs exactly its whole seconds beyond the 60 s grace: they are added to the
  stream's uncounted seconds when the camera comes back, and the mark is gone.
\<close>

theorem camera_cycle_uncounted:
  assumes "redis_counters R kv clk up" and "s \<noteq> []"
    and "up w" and "kv w (key ''stream:camera_off_at'' s) = None"
    and "handleCameraStateChangeService R now (Some s) False w = (r, w1)"
    and "up w2" and "kv w2 (key ''stream:camera_off_at'' s) = kv w1 (key ''stream:camera_off_at'' s)"
    and "counter (kv w2 (key ''stream:uncounted_seconds'' s)) = Some n"
    and "handleCameraStateChangeService R now (Some s) True w2 = (r2, w3)"
  shows "r = Inr () \<and> r2 = Inr () \<and> kv w3 (key ''stream:camera_off_at'' s) = None \<and>
    counter (kv w3 (key ''stream:uncounted_seconds'' s)) = Some (n + max 0 ((now w2 - now w) div 1000 - 60))"
proof -
  define ko where "ko = key ''stream:camera_off_at'' s"
  define ku where "ku = key ''stream:uncounted_seconds'' s"
  have ne: "ku \<noteq> ko" by (simp add: ko_def ku_def key_def)
  have base: "redis_kv R kv clk up" using assms(1) by (simp add: redis_counters_def)
  have g: "r_get R ko w = (Inr None, w)"
    using redis_kv.get [OF base assms(3), of ko] assms(4) by (simp add: ko_def)
  obtain w1' where st: "r_set R ko (Raw (int_str (now w))) plain w = (Inr True, w1')"
    "kv w1' = (kv w)(ko \<mapsto> (Raw (int_str (now w)), None))"
    by (rule redis_kv.set_plain [OF base assms(3)])
  have off: "r = Inr ()" "w1 = w1'"
    using assms(2,5) g st redis_kv.up_open [OF base assms(3)]
    by (auto simp: handleCameraStateChangeService_def act_simps Let_def truthy_text_def simp flip: ko_def)
  then have g2: "r_get R ko w2 = (Inr (Some (Raw (int_str (now w)))), w2)"
    using redis_kv.get [OF base assms(6), of ko] assms(7) st by (simp add: ko_def)
  define d where "d = (now w2 - now w) div 1000"
  have "\<exists>w4. count_excess R ku (Some d) w2 = (Inr (), w4) \<and> up w4 \<and> counter (kv w4 ku) = Some (n + max 0 (d - 60))"
  proof (cases "60 < d")
    case True
    obtain w4 where "r_incrBy R ku (d - 60) w2 = (Inr (n + (d - 60)), w4)" "up w4"
      "kv w4 = (kv w2)(ku \<mapsto> (Raw (int_str (n + (d - 60))), case kv w2 ku of None \<Rightarrow> None | Some (_, e) \<Rightarrow> e))"
      using redis_counters.incr [OF assms(1,6), of ku n "d - 60"] assms(8) by (auto simp: ku_def)
    with True show ?thesis by (auto simp: count_excess_def act_simps)
  next
    case False
    then show ?thesis using assms(6,8) by (simp add: count_excess_def act_simps ku_def)
  qed
  then obtain w4 where w4: "count_excess R ku (Some d) w2 = (Inr (), w4)" "up w4"
    "counter (kv w4 ku) = Some (n + max 0 (d - 60))" by blast
  obtain m w5 where w5: "r_del R [ko] w4 = (Inr m, w5)" "kv w5 = (\<lambda>k. if k \<in> set [ko] then None else kv w4 k)"
    by (rule redis_kv.del_E [OF base w4(2)])
  have "off_seconds (now w2) (Raw (int_str (now w))) = Some d"
    by (simp add: off_seconds_def Number_of_def d_def)
  then have "r2 = Inr ()" "w3 = w5"
    using assms(2,9) g2 w4(1) w5(1) redis_kv.up_open [OF base assms(6)]
    by (auto simp: handleCameraStateChangeService_def act_simps Let_def simp flip: ko_def ku_def)
  with off w5 w4(3) ne show ?thesis by (simp add: ko_def ku_def d_def)
qed

theorem camera_cycle_uncounted_witness:
  "\<exists>w1 w3. handleCameraStateChangeService mem_redis m_clk (Some ''s'') False (mem0 0 :: mem) = (Inr (), w1) \<and>
     handleCameraStateChangeService mem_redis m_clk (Some ''s'') True (mem_tick 90500 w1) = (Inr (), w3) \<and>
     counter (mem_live w3 (key ''stream:uncounted_seconds'' ''s'')) = Some 30"
proof -
  obtain r w1 where a: "handleCameraStateChangeService mem_redis m_clk (Some ''s'') False (mem0 0 :: mem) = (r, w1)"
    by fastforce
  then have w1: "w1 = (mem0 0)\<lparr>m_kv := [key ''stream:camera_off_at'' ''s'' \<mapsto> (Raw (int_str 0), None)]\<rparr>"
    by (simp add: handleCameraStateChangeService_def act_simps mem_redis_def truthy_text_def plain_def Let_def)
       (simp add: mem0_def)
  obtain r2 w3 where b: "handleCameraStateChangeService mem_redis m_clk (Some ''s'') True (mem_tick 90500 w1) = (r2, w3)"
    by fastforce
  have "r = Inr () \<and> r2 = Inr () \<and> mem_live w3 (key ''stream:camera_off_at'' ''s'') = None \<and>
      counter (mem_live w3 (key ''stream:uncounted_seconds'' ''s'')) =
        Some (0 + max 0 ((m_clk (mem_tick 90500 w1) - m_clk (mem0 0 :: mem)) div 1000 - 60))"
    by (rule camera_cycle_uncounted [OF memn.redis_counters_axioms _ TrueI _ a TrueI _ _ b])
      (simp_all add: mem_live_def mem0_def mem_tick_def w1 key_def counter_def)
  then show ?thesis using a b by (auto simp: w1 mem_tick_def mem0_def)
qed

text \<open>
  A kicked user is out: the kick holds (with its ten minutes as time to live), and the user is
  neither among the room's viewers nor its admins.
\<close>

theorem kicked_user_is_out:
  assumes "redis_collections R kv clk up ss ls" and "up w"
    and "ss w (kicked_key s u) = {}" and "ls w (kicked_key s u) = []"
  shows "\<exists>w1. kickUserService R s u w = (Inr (), w1) \<and>
    kv w1 (kicked_key s u) = Some (Raw ''1'', Some (clk w + 600000)) \<and>
    u \<notin> ss w1 (key ''stream:active'' s) \<and> u \<notin> ss w1 (key ''stream:admins'' s)"
proof -
  have base: "redis_kv R kv clk up" using assms(1) by (simp add: redis_collections_def)
  obtain w1 where a: "r_set R (kicked_key s u) (Raw ''1'') (ex_s 600) w = (Inr True, w1)" "up w1"
    "kv w1 = (kv w)(kicked_key s u \<mapsto> (Raw ''1'', Some (clk w + 600 * 1000)))"
    by (rule redis_kv.set_ex [OF base assms(2), of 600]) auto
  obtain n w2 where b: "r_srem R (key ''stream:active'' s) u w1 = (Inr n, w2)" "up w2" "kv w2 = kv w1"
    "ss w2 = (ss w1)(key ''stream:active'' s := ss w1 (key ''stream:active'' s) - {u})"
    using redis_collections.srem [OF assms(1) a(2)] by blast
  obtain m w3 where c: "r_srem R (key ''stream:admins'' s) u w2 = (Inr m, w3)" "kv w3 = kv w2"
    "ss w3 = (ss w2)(key ''stream:admins'' s := ss w2 (key ''stream:admins'' s) - {u})"
    using redis_collections.srem [OF assms(1) b(2)] by blast
  show ?thesis
    by (rule exI [of _ w3]) (use a b c in \<open>simp add: kickUserService_def act_simps\<close>)
qed

theorem kicked_user_is_out_witness:
  "\<exists>w1. kickUserService mem_redis ''s'' ''u'' (mem0 5 :: mem) = (Inr (), w1) \<and>
    mem_live w1 (kicked_key ''s'' ''u'') = Some (Raw ''1'', Some (5 + 600000)) \<and>
    ''u'' \<notin> mem_ss w1 (key ''stream:active'' ''s'') \<and> ''u'' \<notin> mem_ss w1 (key ''stream:admins'' ''s'')"
  using kicked_user_is_out [OF memc.redis_collections_axioms TrueI, of "mem0 5 :: mem" "''s''" "''u''"]
  by (simp add: mem0_def mem_ss_def)

end
