(* ===== verification/Stream_Lifecycle.thy ===== *)
theory Stream_Lifecycle
  imports Stream_Room
begin

text \<open>
  The life of a live stream, \<open>src/routes/service/serviceLive.js\<close>: going live
  (\<open>fastGoLiveStreamService\<close>), clearing its Redis keys (\<open>clearLiveStreamRedisKeys\<close>) and ending it
  (\<open>endLiveStreamService\<close>). LiveKit, the notification services, the clock and the random ids are the
  fields of \<open>life_env\<close>; the tables are \<open>life_db\<close>. A call that is not awaited is a step in its place
  whose failure is ignored.
\<close>

section \<open>The environment\<close>

record 'w life_env =
  en_now :: "'w \<Rightarrow> int"
  en_uuid :: "('w, string) act"
  en_streamKey :: "('w, string) act"
  en_sleep :: "int \<Rightarrow> ('w, unit) act"
  en_isProduction :: bool
  en_hostToken :: "string \<Rightarrow> string \<Rightarrow> ('w, string) act"
  en_deleteRoom :: "string \<Rightarrow> ('w, unit) act"
  en_stopEgress :: "string \<Rightarrow> ('w, unit) act"
  en_stopLocalHls :: "string \<Rightarrow> string \<Rightarrow> ('w, unit) act"
  en_publishLiveStatus :: "string \<Rightarrow> bool \<Rightarrow> string option \<Rightarrow> ('w, unit) act"
  en_broadcast :: "string \<Rightarrow> string \<Rightarrow> jsval \<Rightarrow> ('w, unit) act"
  en_isUserRestricted :: "string \<Rightarrow> string \<Rightarrow> ('w, jsval) act"
  en_localeString :: "jsval \<Rightarrow> string"

record 'w life_db = "'w room_db" +
  lf_activeOf :: "string \<Rightarrow> ('w, jsval) act"                  \<comment> \<open>\<open>findFirst({ userId, isLive: true })\<close>\<close>
  lf_claimEnd :: "string \<Rightarrow> int \<Rightarrow> ('w, nat) act"              \<comment> \<open>\<open>updateMany({ id, isLive: true })\<close>: rows flipped\<close>
  lf_finishEnd :: "string \<Rightarrow> int \<Rightarrow> int \<Rightarrow> string \<Rightarrow> ('w, jsval) act"
  lf_create :: "jsval \<Rightarrow> ('w, unit) act"
  lf_user :: "string \<Rightarrow> ('w, jsval) act"
  lf_livePhoto :: "string \<Rightarrow> ('w, jsval) act"
  lf_pointsSum :: "string \<Rightarrow> int \<Rightarrow> int \<Rightarrow> ('w, jsval) act"      \<comment> \<open>points received in a time span\<close>
  lf_followers :: "string \<Rightarrow> int \<Rightarrow> int \<Rightarrow> ('w, int) act"
  lf_createMessages :: "jsval list \<Rightarrow> ('w, unit) act"

definition closeLivekitRoom :: "'w life_env \<Rightarrow> string \<Rightarrow> ('w, unit) act" where
  "closeLivekitRoom E roomName = quietly (en_deleteRoom E roomName)"

section \<open>Redis keys\<close>

definition key_if :: "string \<Rightarrow> string option \<Rightarrow> string list" where
  "key_if name i = (if truthy_str i then [key name (the i)] else [])"

definition live_keys :: "string option \<Rightarrow> string option \<Rightarrow> string option \<Rightarrow> string list" where
  "live_keys streamId userId i =
     (let sid = or_str streamId i in
      key_if ''user:active_stream'' userId @
      key_if ''stream:info'' sid @
      (if truthy_str i \<and> i \<noteq> sid then key_if ''stream:info'' i else []) @
      key_if ''stream:heartbeat'' sid @
      key_if ''stream:heartbeat:user'' userId @
      key_if ''stream:active'' sid @
      key_if ''stream:history'' sid @
      key_if ''stream:chats'' sid @
      key_if ''stream:admins'' sid @
      key_if ''stream:kicked'' sid @
      key_if ''stream:password'' sid @
      key_if ''stream:sheet'' sid @
      key_if ''stream:mic_permission'' sid @
      key_if ''stream:chat_permission'' sid @
      key_if ''stream:uncounted_seconds'' sid @
      key_if ''stream:camera_off_at'' sid @
      key_if ''host:disconnect_timer'' sid @
      key_if ''stream:host_confirmed'' sid @
      key_if ''stream:host_absent_since'' sid @
      key_if ''stream:viewer_cards_epoch'' sid)"

definition clearLiveStreamRedisKeys :: "'w redis \<Rightarrow> string option \<Rightarrow> string option \<Rightarrow> string option \<Rightarrow> ('w, unit) act" where
  "clearLiveStreamRedisKeys R streamId userId i =
     ifOpen R
       (if live_keys streamId userId i = [] then ret () else quietly (r_del R (live_keys streamId userId i)))
       (ret ())"

section \<open>Ending\<close>

definition parseInt10 :: "jtext \<Rightarrow> int" where
  "parseInt10 t = (case Number_of t of None \<Rightarrow> 0 | Some n \<Rightarrow> n)"

text \<open>\<open>String(v).padStart(2, '0')\<close>, hours, minutes and seconds.\<close>

definition pad2 :: "int \<Rightarrow> string" where
  "pad2 n = (let s = int_str n in if length s < 2 then replicate (2 - length s) CHR ''0'' @ s else s)"

definition hms :: "int \<Rightarrow> string" where
  "hms d = pad2 (d div 3600) @ '':'' @ pad2 (d mod 3600 div 60) @ '':'' @ pad2 (d mod 60)"

text \<open>\<open>date.getTime()\<close>\<close>

definition time_of :: "jsval \<Rightarrow> ('w, int) act" where
  "time_of v = (case v of Num q \<Rightarrow> ret \<lfloor>q\<rfloor> | _ \<Rightarrow> throw (TypeError ''getTime is not a function''))"

definition row_str :: "jsval \<Rightarrow> string \<Rightarrow> string option" where
  "row_str row f = js_str (get_field row f)"

text \<open>The row has gone live in Redis only: drop it there.\<close>

definition redis_abort :: "'w life_env \<Rightarrow> 'w redis \<Rightarrow> string \<Rightarrow> string \<Rightarrow> jsval \<Rightarrow> ('w, jsval) act" where
  "redis_abort E R i userId parsed =
     (let sid = str_or (row_str parsed ''streamId'') (str_or (row_str parsed ''id'') i) in
      thenA (clearLiveStreamRedisKeys R (Some sid) (Some userId) (Some (str_or (row_str parsed ''id'') i)))
        (thenA (closeLivekitRoom E sid)
          (thenA (quietly (en_publishLiveStatus E userId False None))
            (bindA (askA (en_now E)) (\<lambda>t. ret (Obj
               [(''stream'', Obj (obj_spread (fields_of parsed) [(''isLive'', JBool False), (''endedAt'', NumI t)])),
                (''summary'', Obj
                   [(''streamId'', Str sid),
                    (''host'', Obj [(''id'', Str userId), (''name'', Str ''Host''), (''avatarUrl'', Null)]),
                    (''durationSeconds'', NumI 0), (''durationFormatted'', Str ''00:00:00''), (''wonPoints'', NumI 0),
                    (''newFollowersCount'', NumI 0), (''totalAudiencesCount'', NumI 0), (''reason'', Str ''REDIS_ABORT'')]),
                (''redisOnly'', JBool True)]))))))"

definition redis_only :: "'w redis \<Rightarrow> string \<Rightarrow> string \<Rightarrow> ('w, jsval option) act" where
  "redis_only R i userId =
     bindA (catchA (r_get R (key ''stream:info'' i)) (\<lambda>_. ret None)) (\<lambda>raw.
       ret (if truthy_text raw then
              (case JSON_parse (the raw) of
                 None \<Rightarrow> None
               | Some parsed \<Rightarrow> if truthy parsed \<and> get_field parsed ''userId'' = Str userId then Some parsed else None)
            else None))"

text \<open>Camera and duration: the seconds to bill, from the claim at \<open>endedAt\<close>.\<close>

definition end_camera :: "'w redis \<Rightarrow> string \<Rightarrow> int \<Rightarrow> ('w, unit) act" where
  "end_camera R streamIdKey endedAt =
     ifOpen R
       (bindA (r_get R (key ''stream:camera_off_at'' streamIdKey)) (\<lambda>offAt.
          if truthy_text offAt then
            thenA (count_excess R (key ''stream:uncounted_seconds'' streamIdKey) (off_seconds endedAt (the offAt)))
              (thenA (r_del R [key ''stream:camera_off_at'' streamIdKey]) (ret ()))
          else ret ()))
       (ret ())"

definition end_duration :: "'w redis \<Rightarrow> string \<Rightarrow> int \<Rightarrow> int \<Rightarrow> ('w, int) act" where
  "end_duration R streamIdKey startedAt endedAt =
     bindA (ifOpen R
              (bindA (r_get R (key ''stream:uncounted_seconds'' streamIdKey)) (\<lambda>u.
                 ret (if truthy_text u then parseInt10 (the u) else 0)))
              (ret 0)) (\<lambda>uncountedSec.
       ret (max 0 (max 0 ((endedAt - startedAt) div 1000) - uncountedSec)))"

definition end_egress :: "'w life_env \<Rightarrow> 'w redis \<Rightarrow> jsval \<Rightarrow> string \<Rightarrow> ('w, unit) act" where
  "end_egress E R stream streamIdKey =
     thenA (if en_isProduction E \<and> truthy (get_field stream ''playbackId'')
            then quietly (en_stopEgress E (js_String (get_field stream ''playbackId''))) else ret ())
       (ifOpen R
          (quietly (bindA (r_get R (key ''stream:egress'' streamIdKey)) (\<lambda>eg.
             if truthy_text eg then
               thenA (en_stopLocalHls E (case the eg of Raw s \<Rightarrow> s | Json v \<Rightarrow> js_String v) streamIdKey)
                 (thenA (r_del R [key ''stream:egress'' streamIdKey]) (ret ()))
             else ret ())))
          (ret ()))"

text \<open>The summary and the chat sync of the winning end, in the order of the source.\<close>

definition end_host :: "'w life_db \<Rightarrow> string \<Rightarrow> ('w, jsval) act" where
  "end_host db hostId =
     catchA (bindA (lf_user db hostId) (\<lambda>u. ret
               (if truthy u then Obj
                  [(''id'', get_field u ''id''), (''name'', js_or (get_field u ''username'') (Str ''Host'')),
                   (''avatarUrl'', get_field u ''avatarUrl'')]
                else Obj [(''id'', Str hostId), (''name'', Str ''Host''), (''avatarUrl'', Null)])))
       (\<lambda>_. ret (Obj [(''id'', Str hostId), (''name'', Str ''Host''), (''avatarUrl'', Null)]))"

definition chat_row :: "jsval \<Rightarrow> jsval" where
  "chat_row p = Obj
     [(''id'', get_field p ''id''), (''streamId'', get_field p ''streamId''), (''senderId'', get_field p ''senderId''),
      (''message'', get_field p ''message''), (''createdAt'', get_field p ''createdAt''),
      (''replyToMessageId'', js_or (get_field p ''replyToMessageId'') Null),
      (''replyToUserId'', js_or (get_field p ''replyToUserId'') Null),
      (''replyToUsername'', js_or (get_field p ''replyToUsername'') Null),
      (''replyToText'', js_or (get_field p ''replyToText'') Null)]"

fun parse_all :: "jtext list \<Rightarrow> ('w, jsval list) act" where
  "parse_all [] = ret []"
| "parse_all (t # ts) = bindA (parseA t) (\<lambda>v. bindA (parse_all ts) (\<lambda>vs. ret (v # vs)))"

definition sync_chats :: "'w redis \<Rightarrow> 'w life_db \<Rightarrow> string \<Rightarrow> ('w, unit) act" where
  "sync_chats R db sid =
     quietly (bindA (r_lrange R (key ''stream:chats'' sid)) (\<lambda>rawChats.
       if rawChats = [] then ret ()
       else bindA (parse_all rawChats) (\<lambda>ps. lf_createMessages db (map chat_row ps))))"

definition end_summary :: "'w life_env \<Rightarrow> 'w redis \<Rightarrow> 'w life_db \<Rightarrow> jsval \<Rightarrow> int \<Rightarrow> int \<Rightarrow> int \<Rightarrow> ('w, jsval) act" where
  "end_summary E R db stream startedAt endedAt durationSeconds =
     (let hostId = js_String (get_field stream ''userId'');
          sid = js_String (get_field stream ''streamId'') in
      bindA (end_host db hostId) (\<lambda>host.
      bindA (catchA (bindA (lf_pointsSum db hostId startedAt endedAt) (\<lambda>p. ret (js_or p (NumI 0)))) (\<lambda>_. ret (NumI 0))) (\<lambda>wonPoints.
      bindA (catchA (lf_followers db hostId startedAt endedAt) (\<lambda>_. ret 0)) (\<lambda>newFollowersCount.
      bindA (catchA (bindA (r_smembers R (key ''stream:history'' sid)) (\<lambda>vs. ret (length vs))) (\<lambda>_. ret 0)) (\<lambda>totalAudiencesCount.
      thenA (sync_chats R db sid)
        (thenA (closeLivekitRoom E sid)
          (ret (Obj
             [(''streamId'', Str sid), (''host'', host), (''durationSeconds'', NumI durationSeconds),
              (''durationFormatted'', Str (hms durationSeconds)), (''wonPoints'', wonPoints),
              (''newFollowersCount'', NumI newFollowersCount),
              (''totalAudiencesCount'', NumI (int totalAudiencesCount))]))))))))"

definition end_release :: "'w life_env \<Rightarrow> 'w redis \<Rightarrow> jsval \<Rightarrow> string \<Rightarrow> string \<Rightarrow> ('w, unit) act" where
  "end_release E R stream streamIdKey userId =
     thenA (ifOpen R
              (thenA (clearLiveStreamRedisKeys R (row_str stream ''streamId'') (Some userId)
                        (Some (js_String (get_field stream ''id''))))
                (quietly (r_del R [key ''stream:uncounted_seconds'' streamIdKey])))
              (ret ()))
       (quietly (en_publishLiveStatus E (js_String (get_field stream ''userId'')) False None))"

text \<open>Egress, camera, billed duration, the final row and the cleared markers: start, duration and row.\<close>

definition end_account :: "'w life_env \<Rightarrow> 'w redis \<Rightarrow> 'w life_db \<Rightarrow> jsval \<Rightarrow> string \<Rightarrow> string \<Rightarrow> string \<Rightarrow> int
    \<Rightarrow> ('w, int \<times> int \<times> jsval) act" where
  "end_account E R db stream i userId reason endedAt =
     (let streamIdKey = str_or (row_str stream ''streamId'') i;
          rowId = js_String (get_field stream ''id'') in
      thenA (end_egress E R stream streamIdKey)
      (thenA (end_camera R streamIdKey endedAt)
      (bindA (time_of (js_or (get_field stream ''startedAt'') (js_or (get_field stream ''createdAt'') (NumI endedAt)))) (\<lambda>startedAt.
       bindA (end_duration R streamIdKey startedAt endedAt) (\<lambda>effectiveDurationSeconds.
       bindA (lf_finishEnd db rowId endedAt effectiveDurationSeconds (take 64 (str_or (Some reason) ''UNKNOWN''))) (\<lambda>updatedStream.
       thenA (end_release E R stream streamIdKey userId)
         (ret (startedAt, effectiveDurationSeconds, updatedStream))))))))"

definition end_winner :: "'w life_env \<Rightarrow> 'w redis \<Rightarrow> 'w life_db \<Rightarrow> jsval \<Rightarrow> string \<Rightarrow> string \<Rightarrow> string \<Rightarrow> int \<Rightarrow> ('w, jsval) act" where
  "end_winner E R db stream i userId reason endedAt =
     bindA (end_account E R db stream i userId reason endedAt) (\<lambda>(startedAt, durationSeconds, updatedStream).
     bindA (end_summary E R db stream startedAt endedAt durationSeconds) (\<lambda>summary.
       ret (Obj [(''stream'', updatedStream), (''summary'', summary)])))"

definition end_loser :: "'w redis \<Rightarrow> 'w life_db \<Rightarrow> jsval \<Rightarrow> string \<Rightarrow> ('w, jsval) act" where
  "end_loser R db stream userId =
     (let rowId = js_String (get_field stream ''id'') in
      bindA (if truthy (get_field stream ''isLive'') then rd_stream_by_id db rowId else ret stream) (\<lambda>fresh.
        thenA (clearLiveStreamRedisKeys R (row_str stream ''streamId'') (Some userId) (Some rowId))
          (ret (Obj [(''stream'', js_or fresh stream), (''alreadyEnded'', JBool True)]))))"

definition endLiveStreamService :: "'w life_env \<Rightarrow> 'w redis \<Rightarrow> 'w life_db \<Rightarrow> string \<Rightarrow> string \<Rightarrow> string \<Rightarrow> ('w, jsval) act" where
  "endLiveStreamService E R db i userId reason =
     bindA (rd_stream_by_either db i) (\<lambda>stream.
     bindA (if truthy stream then ret None else ifOpen R (redis_only R i userId) (ret None)) (\<lambda>abort.
       case abort of
         Some parsed \<Rightarrow> redis_abort E R i userId parsed
       | None \<Rightarrow>
           if \<not> truthy stream then throw (Error ''Live stream not found.'')
           else if get_field stream ''userId'' \<noteq> Str userId then throw (Error ''Unauthorized to end this live stream.'')
           else
             bindA (askA (en_now E)) (\<lambda>endedAt.
             bindA (if truthy (get_field stream ''isLive'')
                    then lf_claimEnd db (js_String (get_field stream ''id'')) endedAt else ret 0) (\<lambda>count.
               if count = 0 then end_loser R db stream userId
               else end_winner E R db stream i userId reason endedAt))))"

section \<open>Going live\<close>

definition go_live_suspension :: "'w life_env \<Rightarrow> 'w redis \<Rightarrow> string \<Rightarrow> jsval \<Rightarrow> ('w, unit) act" where
  "go_live_suspension E R userId user =
     bindA (askA (en_now E)) (\<lambda>t.
       let until = get_field user ''suspended_until'' in
       if truthy user \<and> truthy until \<and> (case js_Number until of None \<Rightarrow> False | Some q \<Rightarrow> of_int t < q) then
         thenA (ifOpen R (thenA (r_set R (key ''user:suspended'' userId) (Raw ''true'') (ex_s 300)) (ret ())) (ret ()))
           (throw (Error (''Your streaming privileges are suspended until '' @ en_localeString E until @
              '' due to moderation violations.'')))
       else if truthy user then
         ifOpen R (thenA (r_set R (key ''user:suspended'' userId) (Raw ''false'') (ex_s 3600)) (ret ())) (ret ())
       else ret ())"

definition try_create :: "'w life_db \<Rightarrow> jsval \<Rightarrow> ('w, bool) act" where
  "try_create db row = catchA (thenA (lf_create db row) (ret True)) (\<lambda>e. ret (e_code e = Some ''P2002''))"

text \<open>Two attempts, 100 ms apart; then the Redis markers are cleared and going live fails.\<close>

definition create_row :: "'w life_env \<Rightarrow> 'w redis \<Rightarrow> 'w life_db \<Rightarrow> string \<Rightarrow> string \<Rightarrow> jsval \<Rightarrow> ('w, unit) act" where
  "create_row E R db streamId userId row =
     bindA (try_create db row) (\<lambda>ok.
       if ok then ret ()
       else thenA (en_sleep E 100)
         (bindA (try_create db row) (\<lambda>ok2.
            if ok2 then ret ()
            else thenA (clearLiveStreamRedisKeys R (Some streamId) (Some userId) (Some streamId))
              (throw (Error ''Could not start the live stream. Please try again.'')))))"

definition end_previous :: "'w life_env \<Rightarrow> 'w redis \<Rightarrow> 'w life_db \<Rightarrow> string \<Rightarrow> ('w, unit) act" where
  "end_previous E R db userId =
     bindA (lf_activeOf db userId) (\<lambda>active.
       if truthy active then
         let aid = js_String (get_field active ''id'') in
         thenA
           (quietly (bindA (endLiveStreamService E R db aid userId ''REPLACED_BY_NEW_GOLIVE'') (\<lambda>endSummary.
              if truthy (get_field endSummary ''stream'') then
                en_broadcast E
                  (js_String (js_or (get_field (get_field endSummary ''stream'') ''streamId'')
                     (js_or (get_field active ''streamId'') (Str aid))))
                  ''stream_ended'' (js_or (get_field endSummary ''summary'') (Obj []))
              else ret ())))
           (ifOpen R (quietly (r_del R [key ''user:active_stream'' userId])) (ret ()))
       else ret ())"

definition stream_row :: "string \<Rightarrow> string \<Rightarrow> jsval \<Rightarrow> jsval \<Rightarrow> jsval \<Rightarrow> string \<Rightarrow> int \<Rightarrow> (string \<times> jsval) list" where
  "stream_row streamId userId title heading cover streamKey t =
     [(''id'', Str streamId), (''userId'', Str userId), (''title'', title), (''heading'', heading),
      (''coverImageUrl'', cover), (''streamId'', Str streamId), (''streamKey'', Str streamKey),
      (''isLive'', JBool True), (''startedAt'', NumI t), (''endedAt'', Null)]"

definition fastGoLiveStreamService :: "'w life_env \<Rightarrow> 'w redis \<Rightarrow> 'w life_db \<Rightarrow> string \<Rightarrow> jsval \<Rightarrow> jsval \<Rightarrow> jsval
    \<Rightarrow> ('w, jsval) act" where
  "fastGoLiveStreamService E R db userId title heading isCameraOn =
     bindA (ifOpen R (bindA (r_get R (key ''user:active_stream'' userId)) (\<lambda>_. r_get R (key ''user:suspended'' userId)))
              (ret None)) (\<lambda>isSuspended.
     bindA (en_isUserRestricted E userId ''LIVE_STREAM_START_BAN'') (\<lambda>ban.
       if truthy ban then
         throw (Error (''You are banned from starting a live stream until '' @
           en_localeString E (get_field ban ''restrictedUntil'')))
       else if isSuspended = Some (Raw ''true'') then
         throw (Error ''Your streaming privileges are suspended due to moderation violations.'')
       else
         thenA (end_previous E R db userId)
         (bindA (if isSuspended \<noteq> None then ret Null else lf_user db userId) (\<lambda>user.
          bindA (lf_livePhoto db userId) (\<lambda>livePhoto.
          thenA (go_live_suspension E R userId user)
          (bindA (en_uuid E) (\<lambda>streamId.
           bindA (en_streamKey E) (\<lambda>streamKey.
           bindA (askA (en_now E)) (\<lambda>t.
             let cover = js_or (get_field livePhoto ''imageUrl'') (js_or (get_field user ''avatarUrl'') Null);
                 row = stream_row streamId userId title heading cover streamKey t;
                 createdStream = Obj (row @ [(''createdAt'', NumI t), (''updatedAt'', NumI t)]) in
             thenA (ifOpen R
                      (thenA (r_set R (key ''stream:info'' streamId) (JSON_stringify createdStream) (ex_s 86400))
                        (thenA (r_set R (key ''user:active_stream'' userId) (Raw streamId) (ex_s 86400)) (ret ())))
                      (ret ()))
             (thenA (if isCameraOn = JBool False \<or> isCameraOn = Str ''false''
                     then handleCameraStateChangeService R (en_now E) (Some streamId) False else ret ())
             (bindA (en_hostToken E streamId userId) (\<lambda>token.
              thenA (create_row E R db streamId userId (Obj row))
              (thenA (quietly (en_publishLiveStatus E userId True (Some streamId)))
                (ret (Obj [(''stream'', createdStream), (''token'', Str token)])))))))))))))))"

section \<open>Lemmas\<close>

lemma js_String_str [simp]: "row_str stream f = Some s \<Longrightarrow> js_String (get_field stream f) = s"
  by (auto simp: row_str_def js_str_def js_String_def split: jsval.splits)

lemma row_str_truthy: "row_str stream f = Some s \<Longrightarrow> truthy stream"
  by (cases stream) (auto simp: row_str_def js_str_def get_field_def truthy_def)

lemma live_keys_mem:
  assumes "s \<noteq> []"
  shows "key ''stream:history'' s \<in> set (live_keys (Some s) u i)" "key ''stream:chats'' s \<in> set (live_keys (Some s) u i)"
    "key ''stream:info'' s \<in> set (live_keys (Some s) u i)"
    "u = Some v \<Longrightarrow> v \<noteq> [] \<Longrightarrow> key ''user:active_stream'' v \<in> set (live_keys (Some s) u i)"
  using assms by (simp_all add: live_keys_def or_str_def key_if_def Let_def)

text \<open>The steps of an end that do not touch the room's sets and lists.\<close>

locale end_frame = redis_collections R kv clk "\<lambda>_. True" ss ls
  for R :: "'w redis" and kv clk ss ls +
  fixes E :: "'w life_env" and db :: "'w life_db"
  assumes publish_frame: "ss (snd (en_publishLiveStatus E u b s w)) = ss w \<and> ls (snd (en_publishLiveStatus E u b s w)) = ls w"
    and user_frame: "ss (snd (lf_user db u w)) = ss w \<and> ls (snd (lf_user db u w)) = ls w"
    and points_frame: "ss (snd (lf_pointsSum db u t1 t2 w)) = ss w \<and> ls (snd (lf_pointsSum db u t1 t2 w)) = ls w"
    and followers_frame: "ss (snd (lf_followers db u t1 t2 w)) = ss w \<and> ls (snd (lf_followers db u t1 t2 w)) = ls w"
begin

lemma del_quiet: "ss (snd (r_del R ks w)) = (\<lambda>k. if k \<in> set ks then {} else ss w k) \<and>
    ls (snd (r_del R ks w)) = (\<lambda>k. if k \<in> set ks then [] else ls w k)"
  using del_collections [OF TrueI] by (metis prod.collapse)

lemma end_release_clears:
  assumes "row_str stream ''streamId'' = Some s" and "s \<noteq> []"
    and "end_release E R stream streamIdKey userId w = (r, w1)"
  shows "ss w1 (key ''stream:history'' s) = {} \<and> ls w1 (key ''stream:chats'' s) = []"
proof -
  let ?ks = "live_keys (Some s) (Some userId) (Some (js_String (get_field stream ''id'')))"
  have ne: "?ks \<noteq> []" by (simp add: live_keys_def key_if_def Let_def or_str_def assms(2))
  have "w1 = snd (en_publishLiveStatus E (js_String (get_field stream ''userId'')) False None
       (snd (r_del R [key ''stream:uncounted_seconds'' streamIdKey] (snd (r_del R ?ks w)))))"
    using assms(1,3) ne by (auto simp: end_release_def clearLiveStreamRedisKeys_def act_simps up_open)
  then show ?thesis
    using del_quiet publish_frame live_keys_mem [OF assms(2)] by simp
qed

lemma end_account_clears:
  assumes "end_account E R db stream i userId reason endedAt w = (Inr x, w1)"
    and "row_str stream ''streamId'' = Some s" and "s \<noteq> []"
  shows "ss w1 (key ''stream:history'' s) = {} \<and> ls w1 (key ''stream:chats'' s) = []"
proof -
  obtain w2 r where "end_release E R stream (str_or (row_str stream ''streamId'') i) userId w2 = (r, w1)"
    using assms(1) unfolding end_account_def Let_def act_Inr by blast
  then show ?thesis by (rule end_release_clears [OF assms(2,3)])
qed

lemma end_host_frame: "ss (snd (end_host db h w)) = ss w \<and> ls (snd (end_host db h w)) = ls w"
  using user_frame [of h w]
  by (auto simp: end_host_def act_simps split: prod.split sum.split)

lemma end_summary_empty:
  assumes "end_summary E R db stream t0 t1 d w = (Inr v, w1)"
    and "row_str stream ''streamId'' = Some s"
    and "ss w (key ''stream:history'' s) = {}" and "ls w (key ''stream:chats'' s) = []"
  shows "get_field v ''totalAudiencesCount'' = NumI 0 \<and>
    end_summary E R (db\<lparr>lf_createMessages := f\<rparr>) stream t0 t1 d w = (Inr v, w1)"
proof -
  define hid where "hid = js_String (get_field stream ''userId'')"
  obtain host w2 where h: "end_host db hid w = (Inr host, w2)"
    using assms(1) by (auto simp: end_summary_def Let_def act_Inr hid_def)
  have h2: "end_host (db\<lparr>lf_createMessages := f\<rparr>) hid w = (Inr host, w2)"
    using h by (simp add: end_host_def)
  define points where "points = catchA (bindA (lf_pointsSum db hid t0 t1) (\<lambda>p. ret (js_or p (NumI 0)))) (\<lambda>_. ret (NumI 0))"
  obtain p w3 where p: "points w2 = (Inr p, w3)"
    by (rule never_throwsE [of points w2]) (auto simp: points_def)
  define followers where "followers = catchA (lf_followers db hid t0 t1) (\<lambda>_. ret 0)"
  obtain n w4 where n: "followers w3 = (Inr n, w4)"
    by (rule never_throwsE [of followers w3]) (auto simp: followers_def)
  have f3: "ss w3 = ss w2 \<and> ls w3 = ls w2"
    using p points_frame [of hid t0 t1 w2] by (auto simp: points_def act_simps split: prod.splits sum.splits)
  have f4: "ss w4 = ss w3 \<and> ls w4 = ls w3"
    using n followers_frame [of hid t0 t1 w3] by (auto simp: followers_def act_simps split: prod.splits sum.splits)
  have f2: "ss w2 = ss w \<and> ls w2 = ls w" using end_host_frame [of hid w] h by simp
  obtain xs where sm: "r_smembers R (key ''stream:history'' s) w4 = (Inr xs, w4)" "set xs = ss w4 (key ''stream:history'' s)"
    using smembers [OF TrueI] by blast
  have xs: "xs = []" using sm(2) f2 f3 f4 assms(3) by simp
  have lr: "r_lrange R (key ''stream:chats'' s) w4 = (Inr [], w4)"
    using lrange [OF TrueI, where w = w4 and k = "key ''stream:chats'' s"] f2 f3 f4 assms(4) by simp
  have sync: "sync_chats R db s w4 = (Inr (), w4)" "sync_chats R (db\<lparr>lf_createMessages := f\<rparr>) s w4 = (Inr (), w4)"
    using lr by (simp_all add: sync_chats_def act_simps)
  have js: "js_String (get_field stream ''streamId'') = s" using assms(2) by simp
  have aud: "catchA (bindA (r_smembers R (key ''stream:history'' s)) (\<lambda>vs. ret (length vs))) (\<lambda>_. ret 0) w4 = (Inr 0, w4)"
    using sm(1) xs by (simp add: act_simps)
  define obj where "obj = Obj [(''streamId'', Str s), (''host'', host), (''durationSeconds'', NumI d),
    (''durationFormatted'', Str (hms d)), (''wonPoints'', p), (''newFollowersCount'', NumI n), (''totalAudiencesCount'', NumI (int 0))]"
  have run: "end_summary E R db stream t0 t1 d w = thenA (closeLivekitRoom E s) (ret obj) w4"
    unfolding end_summary_def Let_def js hid_def [symmetric] points_def [symmetric] followers_def [symmetric]
    by (simp add: bindA_run h p n aud thenA_run [of "sync_chats R db s"] sync obj_def)
  have run2: "end_summary E R (db\<lparr>lf_createMessages := f\<rparr>) stream t0 t1 d w = thenA (closeLivekitRoom E s) (ret obj) w4"
    unfolding end_summary_def Let_def js hid_def [symmetric]
    by (simp add: bindA_run h2 p [unfolded points_def, simplified] n [unfolded followers_def] aud
        thenA_run [of "sync_chats R (db\<lparr>lf_createMessages := f\<rparr>) s"] sync obj_def)
  have "v = obj" using assms(1) run by (simp add: act_Inr)
  then show ?thesis using assms(1) run run2 by (simp add: obj_def get_field_def)
qed

end

text \<open>A go-live whose row cannot be written leaves no marker of the stream in Redis.\<close>

lemma create_row_failure_clears:
  assumes "redis_kv R kv clk (\<lambda>_. True)" and "sid \<noteq> []" and "u \<noteq> []"
    and "lf_create db row w = (Inl e1, wa)" and "e_code e1 \<noteq> Some ''P2002''"
    and "en_sleep E 100 wa = (Inr (), wb)"
    and "lf_create db row wb = (Inl e2, wc)" and "e_code e2 \<noteq> Some ''P2002''"
  shows "\<exists>w1. create_row E R db sid u row w = (Inl (Error ''Could not start the live stream. Please try again.''), w1) \<and>
    kv w1 (key ''stream:info'' sid) = None \<and> kv w1 (key ''user:active_stream'' u) = None"
proof -
  let ?ks = "live_keys (Some sid) (Some u) (Some sid)"
  have ne: "?ks \<noteq> []" by (simp add: live_keys_def key_if_def Let_def or_str_def assms(2))
  obtain n w1 where d: "r_del R ?ks wc = (Inr n, w1)" "kv w1 = (\<lambda>k. if k \<in> set ?ks then None else kv wc k)"
    by (rule redis_kv.del_E [OF assms(1) TrueI])
  have "create_row E R db sid u row w = (Inl (Error ''Could not start the live stream. Please try again.''), w1)"
    using assms d(1) ne redis_kv.up_open [OF assms(1) TrueI]
    by (simp add: create_row_def try_create_def clearLiveStreamRedisKeys_def act_simps)
  then show ?thesis using d(2) live_keys_mem(3,4) [OF assms(2)] assms(3) by simp
qed

section \<open>A concrete world\<close>

record life_mem = room_mem +
  lm_messages :: "jsval list"

definition life0 :: "int \<Rightarrow> life_mem" where
  "life0 t = \<lparr>m_kv = (\<lambda>_. None), m_z = (\<lambda>_. []), m_h = (\<lambda>_ _. None), m_hk = (\<lambda>_. []), m_s = (\<lambda>_. []),
     m_l = (\<lambda>_. []), m_clk = t, rm_streams = [], rm_admins = [], lm_messages = []\<rparr>"

definition set_row :: "string \<Rightarrow> (string \<times> jsval) list \<Rightarrow> jsval \<Rightarrow> jsval" where
  "set_row i fs r = (if get_field r ''id'' = Str i then Obj (obj_spread (fields_of r) fs) else r)"

definition mem_life_db :: "life_mem life_db" where
  "mem_life_db = \<lparr>
     rd_stream_by_id = rd_stream_by_id mem_room_db, rd_stream_by_streamId = rd_stream_by_streamId mem_room_db,
     rd_stream_by_either = rd_stream_by_either mem_room_db, rd_admin_find = rd_admin_find mem_room_db,
     rd_admin_list = rd_admin_list mem_room_db, rd_admin_delete = rd_admin_delete mem_room_db,
     rd_admin_upsert = rd_admin_upsert mem_room_db, rd_set_field = rd_set_field mem_room_db,
     rd_get_field = rd_get_field mem_room_db,
     lf_activeOf = (\<lambda>u. find_row (\<lambda>r. get_field r ''userId'' = Str u \<and> truthy (get_field r ''isLive''))),
     lf_claimEnd = (\<lambda>i t w. (Inr (length (filter (\<lambda>r. get_field r ''id'' = Str i \<and> truthy (get_field r ''isLive'')) (rm_streams w))),
        w\<lparr>rm_streams := map (set_row i [(''isLive'', JBool False), (''endedAt'', NumI t)]) (rm_streams w)\<rparr>)),
     lf_finishEnd = (\<lambda>i t d why w.
        let rows = map (set_row i [(''isLive'', JBool False), (''endedAt'', NumI t), (''effectiveDurationSeconds'', NumI d),
              (''endReason'', Str why)]) (rm_streams w)
        in (Inr (case find (\<lambda>r. get_field r ''id'' = Str i) rows of None \<Rightarrow> Null | Some r \<Rightarrow> r), w\<lparr>rm_streams := rows\<rparr>)),
     lf_create = (\<lambda>r w. (Inr (), w\<lparr>rm_streams := r # rm_streams w\<rparr>)),
     lf_user = (\<lambda>_. ret Null), lf_livePhoto = (\<lambda>_. ret Null),
     lf_pointsSum = (\<lambda>_ _ _. ret Null), lf_followers = (\<lambda>_ _ _. ret 0),
     lf_createMessages = (\<lambda>ms w. (Inr (), w\<lparr>lm_messages := lm_messages w @ ms\<rparr>))\<rparr>"

definition mem_life_env :: "life_mem life_env" where
  "mem_life_env = \<lparr>en_now = m_clk, en_uuid = ret ''uuid'', en_streamKey = ret ''key'',
     en_sleep = (\<lambda>d w. (Inr (), mem_tick d w)), en_isProduction = False, en_hostToken = (\<lambda>_ _. ret ''token''),
     en_deleteRoom = (\<lambda>_. ret ()), en_stopEgress = (\<lambda>_. ret ()), en_stopLocalHls = (\<lambda>_ _. ret ()),
     en_publishLiveStatus = (\<lambda>_ _ _. ret ()), en_broadcast = (\<lambda>_ _ _. ret ()),
     en_isUserRestricted = (\<lambda>_ _. ret Null), en_localeString = js_String\<rparr>"

interpretation meml: end_frame mem_redis mem_live m_clk mem_ss m_l mem_life_env mem_life_db
  by unfold_locales (simp_all add: mem_life_env_def mem_life_db_def ret_def)

section \<open>Properties\<close>

text \<open>
  The summary of every ended stream counts no audience and its chats are never written to the
  database, whoever watched and whatever was said: the room's Redis keys are deleted before they are
  read. The result is the same whatever the message table does, since it is never called.
\<close>

theorem end_summary_loses_room:
  assumes "end_frame R kv clk ss ls E db"
    and "rd_stream_by_either db i w = (Inr stream, w0)"
    and "row_str stream ''streamId'' = Some s" and "s \<noteq> []"
    and "endLiveStreamService E R db i userId reason w = (Inr v, w1)"
    and "get_field v ''alreadyEnded'' = Undefined"
  shows "get_field (get_field v ''summary'') ''totalAudiencesCount'' = NumI 0 \<and>
    endLiveStreamService E R (db\<lparr>lf_createMessages := f\<rparr>) i userId reason w = (Inr v, w1)"
proof -
  have tr: "truthy stream" using row_str_truthy [OF assms(3)] .
  have own: "get_field stream ''userId'' = Str userId"
    using assms(2,5) tr by (auto simp: endLiveStreamService_def act_simps split: if_splits)
  define claim where "claim = (if truthy (get_field stream ''isLive'')
     then lf_claimEnd db (js_String (get_field stream ''id'')) (en_now E w0) else ret 0)"
  obtain n w2 where c: "claim w0 = (Inr n, w2)"
    using assms(2,5) tr own by (auto simp: endLiveStreamService_def act_simps claim_def split: prod.splits sum.splits)
  have end_eq: "endLiveStreamService E R db' i userId reason w =
      (if n = 0 then end_loser R db' stream userId w2 else end_winner E R db' stream i userId reason (en_now E w0) w2)"
    if "rd_stream_by_either db' = rd_stream_by_either db" "lf_claimEnd db' = lf_claimEnd db" for db'
    using assms(2) tr own c that
    by (cases "truthy (get_field stream ''isLive'')") (simp_all add: endLiveStreamService_def act_simps claim_def)
  have n: "n \<noteq> 0"
  proof
    assume "n = 0"
    then have "end_loser R db stream userId w2 = (Inr v, w1)" using end_eq [of db] assms(5) by simp
    then show False using assms(6) by (auto simp: end_loser_def Let_def act_Inr get_field_def)
  qed
  then have win: "end_winner E R db stream i userId reason (en_now E w0) w2 = (Inr v, w1)"
    using end_eq [of db] assms(5) by simp
  then obtain t0 d row w3 sm where a: "end_account E R db stream i userId reason (en_now E w0) w2 = (Inr (t0, d, row), w3)"
    "end_summary E R db stream t0 (en_now E w0) d w3 = (Inr sm, w1)"
    "v = Obj [(''stream'', row), (''summary'', sm)]"
    by (auto simp: end_winner_def act_Inr)
  have empty: "ss w3 (key ''stream:history'' s) = {}" "ls w3 (key ''stream:chats'' s) = []"
    using end_frame.end_account_clears [OF assms(1) a(1) assms(3,4)] by auto
  note sum = end_frame.end_summary_empty [where R = R and kv = kv and clk = clk and ss = ss and ls = ls and E = E and
      db = db and s = s and w = w3, OF assms(1) a(2) assms(3) empty, of f]
  have "end_account E R (db\<lparr>lf_createMessages := f\<rparr>) stream i userId reason (en_now E w0) w2 = (Inr (t0, d, row), w3)"
    using a(1) by (simp add: end_account_def)
  then have "end_winner E R (db\<lparr>lf_createMessages := f\<rparr>) stream i userId reason (en_now E w0) w2 = (Inr v, w1)"
    using sum a(3) by (simp add: end_winner_def bindA_run ret_run)
  then show ?thesis
    using end_eq [of "db\<lparr>lf_createMessages := f\<rparr>"] n sum a(3) by (simp add: get_field_def)
qed

text \<open>A live stream a minute old, with one viewer in its history and one chat.\<close>

definition demo_live :: life_mem where
  "demo_live = (life0 60000)\<lparr>
     rm_streams := [Obj [(''id'', Str ''r''), (''userId'', Str ''h''), (''streamId'', Str ''s''), (''isLive'', JBool True),
        (''startedAt'', NumI 0)]],
     m_s := (\<lambda>k. if k = key ''stream:history'' ''s'' then [''viewer''] else []),
     m_l := (\<lambda>k. if k = key ''stream:chats'' ''s'' then [Json (Obj [(''id'', Str ''m'')])] else [])\<rparr>"

definition fresh_end :: "exn + jsval \<Rightarrow> bool" where
  "fresh_end r = (case r of Inr v \<Rightarrow> get_field v ''alreadyEnded'' = Undefined | Inl _ \<Rightarrow> False)"

lemma demo_live_end: "fresh_end (fst (endLiveStreamService mem_life_env mem_redis mem_life_db ''s'' ''h'' ''USER'' demo_live))"
  by code_simp

theorem end_summary_loses_room_witness:
  "m_s demo_live (key ''stream:history'' ''s'') = [''viewer''] \<and>
   (\<exists>v w1. endLiveStreamService mem_life_env mem_redis mem_life_db ''s'' ''h'' ''USER'' demo_live = (Inr v, w1) \<and>
      get_field (get_field v ''summary'') ''totalAudiencesCount'' = NumI 0)"
proof
  show "m_s demo_live (key ''stream:history'' ''s'') = [''viewer'']" by (simp add: demo_live_def)
  obtain v w1 where e: "endLiveStreamService mem_life_env mem_redis mem_life_db ''s'' ''h'' ''USER'' demo_live = (Inr v, w1)"
    "get_field v ''alreadyEnded'' = Undefined"
    using demo_live_end
    by (cases "endLiveStreamService mem_life_env mem_redis mem_life_db ''s'' ''h'' ''USER'' demo_live")
      (auto simp: fresh_end_def split: sum.splits)
  have r: "rd_stream_by_either mem_life_db ''s'' demo_live = (Inr (Obj [(''id'', Str ''r''), (''userId'', Str ''h''),
      (''streamId'', Str ''s''), (''isLive'', JBool True), (''startedAt'', NumI 0)]), demo_live)"
    by (simp add: mem_life_db_def mem_room_db_def find_row_def demo_live_def get_field_def)
  have i: "row_str (Obj [(''id'', Str ''r''), (''userId'', Str ''h''),
      (''streamId'', Str ''s''), (''isLive'', JBool True), (''startedAt'', NumI 0)]) ''streamId'' = Some ''s''"
    by (simp add: row_str_def js_str_def get_field_def)
  have "get_field (get_field v ''summary'') ''totalAudiencesCount'' = NumI 0 \<and>
      endLiveStreamService mem_life_env mem_redis (mem_life_db\<lparr>lf_createMessages := \<lambda>_. ret ()\<rparr>) ''s'' ''h'' ''USER''
        demo_live = (Inr v, w1)"
    by (rule end_summary_loses_room [OF meml.end_frame_axioms r i _ e]) simp
  with e(1) show "\<exists>v w1. endLiveStreamService mem_life_env mem_redis mem_life_db ''s'' ''h'' ''USER'' demo_live = (Inr v, w1) \<and>
      get_field (get_field v ''summary'') ''totalAudiencesCount'' = NumI 0"
    by blast
qed





end
