(* ===== verification/Host_Stats.thy ===== *)
theory Host_Stats
  imports Stream_Lifecycle
begin

text \<open>
  The statistics of a host, \<open>src/routes/service/serviceLive.js\<close>: the windows anchored at 23:30 Indian
  time (\<open>calculate1130DateRanges\<close>), the format of durations and \<open>getHostStatsService\<close>. A time is its
  number of milliseconds since 1970; the calendar is that of the ECMAScript standard. The queries are
  the fields of \<open>stats_db\<close>.
\<close>

section \<open>The calendar\<close>

definition msPerDay :: int where "msPerDay = 86400000"

definition day_of :: "int \<Rightarrow> int" where "day_of t = t div msPerDay"

text \<open>\<open>DayFromYear\<close>, and the year of a day: an estimate corrected by at most one.\<close>

definition DayFromYear :: "int \<Rightarrow> int" where
  "DayFromYear y = 365 * (y - 1970) + (y - 1969) div 4 - (y - 1901) div 100 + (y - 1601) div 400"

definition year_of_day :: "int \<Rightarrow> int" where
  "year_of_day D =
     (let y = 1970 + D * 400 div 146097 in
      if D < DayFromYear y then y - 1 else if DayFromYear (y + 1) \<le> D then y + 1 else y)"

definition leap :: "int \<Rightarrow> int" where
  "leap y = DayFromYear (y + 1) - DayFromYear y - 365"

text \<open>The first day of month \<open>m\<close> (0 to 11) within year \<open>y\<close>.\<close>

definition month_start :: "int \<Rightarrow> nat \<Rightarrow> int" where
  "month_start y m = [0, 31, 59, 90, 120, 151, 181, 212, 243, 273, 304, 334] ! m + (if 2 \<le> m then leap y else 0)"

text \<open>The last month that starts no later than a day of the year.\<close>

fun month_down :: "int \<Rightarrow> int \<Rightarrow> nat \<Rightarrow> nat" where
  "month_down y d 0 = 0"
| "month_down y d (Suc m) = (if month_start y (Suc m) \<le> d then Suc m else month_down y d m)"

definition getUTCFullYear :: "int \<Rightarrow> int" where "getUTCFullYear t = year_of_day (day_of t)"

definition getUTCMonth :: "int \<Rightarrow> int" where
  "getUTCMonth t = (let y = getUTCFullYear t in int (month_down y (day_of t - DayFromYear y) 11))"

definition getUTCDate :: "int \<Rightarrow> int" where
  "getUTCDate t = (let y = getUTCFullYear t in
     day_of t - DayFromYear y - month_start y (nat (getUTCMonth t)) + 1)"

definition getUTCDay :: "int \<Rightarrow> int" where "getUTCDay t = (day_of t + 4) mod 7"

text \<open>\<open>Date.UTC(y, m, d, h, 0, 0, 0)\<close>; months and days outside their range carry over.\<close>

definition Date_UTC :: "int \<Rightarrow> int \<Rightarrow> int \<Rightarrow> int \<Rightarrow> int" where
  "Date_UTC y m d h =
     (let ym = y + m div 12; mn = nat (m mod 12) in
      (DayFromYear ym + month_start ym mn + d - 1) * msPerDay + h * 3600000)"

section \<open>The windows\<close>

record date_ranges =
  todayStart :: int
  todayEnd :: int
  weekStart :: int
  weekEnd :: int
  monthStart :: int
  monthEnd :: int

definition istOffsetMs :: int where "istOffsetMs = 19800000"

definition calculate1130DateRanges :: "int \<Rightarrow> date_ranges" where
  "calculate1130DateRanges now =
     (let istDate = now + istOffsetMs;
          y = getUTCFullYear istDate; m = getUTCMonth istDate; d = getUTCDate istDate;
          today2330 = Date_UTC y m d 18;
          tStart = (if today2330 \<le> now then today2330 else Date_UTC y m (d - 1) 18);
          tEnd = (if today2330 \<le> now then Date_UTC y m (d + 1) 18 else today2330);
          dayOfWeek = getUTCDay istDate;
          daysSinceSunday = (if dayOfWeek = 0 \<and> now < today2330 then 7 else dayOfWeek);
          sundayStart = tStart - daysSinceSunday * msPerDay;
          wStart = Date_UTC (getUTCFullYear sundayStart) (getUTCMonth sundayStart) (getUTCDate sundayStart) 18
      in \<lparr>todayStart = tStart, todayEnd = tEnd, weekStart = wStart, weekEnd = wStart + 7 * msPerDay,
          monthStart = Date_UTC y m 1 18, monthEnd = Date_UTC y (m + 1) 1 18\<rparr>)"

definition formatDurationHHMMSS :: "int \<Rightarrow> string" where
  "formatDurationHHMMSS totalSeconds = hms (max 0 totalSeconds)"

section \<open>The statistics\<close>

text \<open>The duration columns of an ended stream.\<close>

record stream_span =
  sp_effective :: int
  sp_started :: "int option"
  sp_ended :: "int option"

record 'w stats_db =
  sd_user :: "string \<Rightarrow> ('w, jsval) act"
  sd_ended :: "string \<Rightarrow> int \<Rightarrow> int \<Rightarrow> ('w, stream_span list) act"     \<comment> \<open>streams ended in \<open>[from, to)\<close>\<close>
  sd_lastEnded :: "string \<Rightarrow> int \<Rightarrow> int \<Rightarrow> ('w, jsval) act"
  sd_points :: "string \<Rightarrow> int \<Rightarrow> int \<Rightarrow> bool \<Rightarrow> ('w, int) act"       \<comment> \<open>credited points; the flag includes the end\<close>
  sd_followers :: "string \<Rightarrow> int \<Rightarrow> int \<Rightarrow> bool \<Rightarrow> ('w, int) act"

text \<open>The \<open>CASE\<close> of the query: the billed seconds, or the wall clock of a row that has none.\<close>

definition span_seconds :: "stream_span \<Rightarrow> int" where
  "span_seconds r =
     (if 0 < sp_effective r then sp_effective r
      else case (sp_started r, sp_ended r) of
        (Some s, Some e) \<Rightarrow> max 0 ((e - s) div 1000)
      | _ \<Rightarrow> 0)"

definition metrics_for_range :: "'w stats_db \<Rightarrow> string \<Rightarrow> jsval \<Rightarrow> int \<Rightarrow> int \<Rightarrow> ('w, (string \<times> jsval) list) act" where
  "metrics_for_range db host hostPublicId from till =
     bindA (sd_ended db host from till) (\<lambda>streams.
     bindA (sd_points db host from till False) (\<lambda>points.
     bindA (sd_followers db host from till False) (\<lambda>newFollowers.
       let secs = sum_list (map span_seconds streams) in
       ret [(''hostPublicId'', hostPublicId), (''liveHoursSeconds'', NumI secs),
            (''liveHoursFormatted'', Str (formatDurationHHMMSS secs)), (''wonPoints'', Str (int_str points)),
            (''newFollowers'', NumI newFollowers), (''pkWon'', NumI 0)])))"

definition last_live :: "'w stats_db \<Rightarrow> string \<Rightarrow> date_ranges \<Rightarrow> ('w, jsval) act" where
  "last_live db host ranges =
     bindA (sd_lastEnded db host (todayStart ranges) (todayEnd ranges)) (\<lambda>row.
       if truthy row then
         bindA (time_of (js_or (get_field row ''startedAt'') (get_field row ''createdAt''))) (\<lambda>streamStart.
         bindA (time_of (get_field row ''endedAt'')) (\<lambda>streamEnd.
         bindA (sd_points db host streamStart streamEnd True) (\<lambda>points.
         bindA (sd_followers db host streamStart streamEnd True) (\<lambda>followers.
           let secs = (case js_Number (js_or (get_field row ''effectiveDurationSeconds'')
                  (js_or (get_field row ''effective_duration_seconds'') (NumI 0))) of None \<Rightarrow> 0 | Some q \<Rightarrow> \<lfloor>q\<rfloor>) in
           ret (Obj [(''streamId'', js_or (get_field row ''streamId'') (get_field row ''id'')),
             (''liveHoursSeconds'', NumI secs), (''liveHoursFormatted'', Str (formatDurationHHMMSS secs)),
             (''wonPoints'', Str (int_str points)), (''newFollowers'', NumI followers), (''pkWon'', NumI 0),
             (''endedAt'', NumI streamEnd)])))))
       else ret (Obj [(''streamId'', Null), (''liveHoursSeconds'', NumI 0), (''liveHoursFormatted'', Str ''00:00:00''),
             (''wonPoints'', Str ''0''), (''newFollowers'', NumI 0), (''pkWon'', NumI 0), (''endedAt'', Null)]))"

definition getHostStatsService :: "'w stats_db \<Rightarrow> ('w \<Rightarrow> int) \<Rightarrow> string \<Rightarrow> string option \<Rightarrow> ('w, jsval) act" where
  "getHostStatsService db now hostUserId period =
     bindA (sd_user db hostUserId) (\<lambda>hostUser.
       if \<not> truthy hostUser then throw (Error ''Host user not found.'')
       else
         let pub = (if truthy (get_field hostUser ''publicId'') then Str (js_String (get_field hostUser ''publicId''))
                    else get_field hostUser ''id'') in
         bindA (askA (\<lambda>w. calculate1130DateRanges (now w))) (\<lambda>ranges.
           let normPeriod = js_trim (toLowerCase (str_or period ''today''));
               today = metrics_for_range db hostUserId pub (todayStart ranges) (todayEnd ranges);
               week = metrics_for_range db hostUserId pub (weekStart ranges) (weekEnd ranges);
               month = metrics_for_range db hostUserId pub (monthStart ranges) (monthEnd ranges);
               withLast = bindA today (\<lambda>t. bindA (last_live db hostUserId ranges) (\<lambda>l. ret (Obj (t @ [(''lastLive'', l)]))))
           in
           if normPeriod \<in> set [''week'', ''thisweek'', ''this_week''] then
             bindA week (\<lambda>x. ret (Obj [(''thisWeekData'', Obj x)]))
           else if normPeriod \<in> set [''month'', ''thismonth'', ''this_month''] then
             bindA month (\<lambda>x. ret (Obj [(''thisMonthData'', Obj x)]))
           else if normPeriod = ''all'' then
             bindA today (\<lambda>t. bindA week (\<lambda>wk. bindA month (\<lambda>mo. bindA (last_live db hostUserId ranges) (\<lambda>l.
               ret (Obj [(''todayData'', Obj (t @ [(''lastLive'', l)])), (''thisWeekData'', Obj wk), (''thisMonthData'', Obj mo)])))))
           else bindA withLast (\<lambda>t. ret (Obj [(''todayData'', t)]))))"

section \<open>Lemmas\<close>

text \<open>The year of a day is the standard's: the one whose first day is the last not after it.\<close>

lemma DayFromYear_bounds:
  "400 * DayFromYear y \<le> 146097 * (y - 1970) + 600 \<and> 146097 * (y - 1970) - 600 \<le> 400 * DayFromYear y"
proof -
  have div: "k * (x div k) \<le> x \<and> x < k * (x div k) + k" if "0 < k" for x k :: int
  proof -
    have "x = k * (x div k) + x mod k" by simp
    moreover have "0 \<le> x mod k" "x mod k < k" using that by simp_all
    ultimately show ?thesis by linarith
  qed
  have lin: "400 * (365 * (y - 1970) + a - b + c) \<le> 146097 * (y - 1970) + 600 \<and>
      146097 * (y - 1970) - 600 \<le> 400 * (365 * (y - 1970) + a - b + c)"
    if "4 * a \<le> y - 1969 \<and> y - 1969 < 4 * a + 4" "100 * b \<le> y - 1901 \<and> y - 1901 < 100 * b + 100"
      "400 * c \<le> y - 1601 \<and> y - 1601 < 400 * c + 400" for a b c
    using that by (simp add: algebra_simps)
  show ?thesis unfolding DayFromYear_def by (rule lin) (rule div; simp)+
qed

lemma year_of_day_correct: "DayFromYear (year_of_day D) \<le> D \<and> D < DayFromYear (year_of_day D + 1)"
proof -
  define q where "q = D * 400 div 146097"
  have q: "146097 * q \<le> 400 * D" "400 * D < 146097 * q + 146097"
    unfolding q_def by linarith+
  have b0: "400 * DayFromYear (1970 + q - 1) \<le> 146097 * (q - 1) + 600"
    using DayFromYear_bounds [of "1970 + q - 1"] by simp
  have b2: "146097 * (q + 2) - 600 \<le> 400 * DayFromYear (1970 + q + 2)"
    using DayFromYear_bounds [of "1970 + q + 2"] by (simp add: algebra_simps)
  have up: "a \<le> D" if "400 * a \<le> 146097 * (q - 1) + 600" for a
    using that q by (simp add: algebra_simps)
  have down: "D < a" if "146097 * (q + 2) - 600 \<le> 400 * a" for a
    using that q by (simp add: algebra_simps)
  have lo: "DayFromYear (1970 + q - 1) \<le> D" by (rule up [OF b0])
  have hi: "D < DayFromYear (1970 + q + 2)" by (rule down [OF b2])
  show ?thesis
    using lo hi by (auto simp: year_of_day_def Let_def algebra_simps simp flip: q_def)
qed

lemma month_down_le: "month_down y d m \<le> m"
  by (induction m) auto

lemma getUTCMonth_range: "0 \<le> getUTCMonth t \<and> getUTCMonth t \<le> 11"
  using month_down_le by (auto simp: getUTCMonth_def Let_def)

text \<open>The calendar day of a date read shift is the date's day; days shift freely.\<close>

lemma Date_UTC_same_day:
  "Date_UTC (getUTCFullYear t) (getUTCMonth t) (getUTCDate t + k) h = (day_of t + k) * msPerDay + h * 3600000"
proof -
  have r: "getUTCMonth t div 12 = 0" "getUTCMonth t mod 12 = getUTCMonth t"
    using getUTCMonth_range [of t] by auto
  have "DayFromYear (getUTCFullYear t) + month_start (getUTCFullYear t) (nat (getUTCMonth t)) + (getUTCDate t + k) - 1
      = day_of t + k"
    unfolding getUTCDate_def Let_def by simp
  then show ?thesis unfolding Date_UTC_def Let_def r by simp
qed

lemma Date_UTC_same_day0 [simp]:
  "Date_UTC (getUTCFullYear t) (getUTCMonth t) (getUTCDate t) h = day_of t * msPerDay + h * 3600000"
  using Date_UTC_same_day [of t 0 h] by simp

lemma Date_UTC_first [simp]:
  "Date_UTC (getUTCFullYear t) (getUTCMonth t) 1 h = (day_of t - getUTCDate t + 1) * msPerDay + h * 3600000"
  using Date_UTC_same_day [of t "1 - getUTCDate t" h] by simp

text \<open>The windows in days: \<open>D\<close> is the Indian calendar day, \<open>late\<close> whether 23:30 has passed.\<close>

lemma ranges_in_days:
  fixes now :: int
  defines "D \<equiv> day_of (now + istOffsetMs)"
  defines "late \<equiv> D * msPerDay + 18 * 3600000 \<le> now"
  defines "S \<equiv> (if late then D else D - 1)"
  defines "shift \<equiv> (if (D + 4) mod 7 = 0 \<and> \<not> late then 7 else (D + 4) mod 7)"
  shows "todayStart (calculate1130DateRanges now) = S * msPerDay + 18 * 3600000"
    and "todayEnd (calculate1130DateRanges now) = (S + 1) * msPerDay + 18 * 3600000"
    and "weekStart (calculate1130DateRanges now) = (S - shift) * msPerDay + 18 * 3600000"
    and "weekEnd (calculate1130DateRanges now) = (S - shift + 7) * msPerDay + 18 * 3600000"
    and "monthStart (calculate1130DateRanges now) = (D - getUTCDate (now + istOffsetMs) + 1) * msPerDay + 18 * 3600000"
proof -
  have s: "Date_UTC (getUTCFullYear (now + istOffsetMs)) (getUTCMonth (now + istOffsetMs)) (getUTCDate (now + istOffsetMs) - 1) 18
      = (D - 1) * msPerDay + 18 * 3600000"
    using Date_UTC_same_day [of "now + istOffsetMs" "- 1" 18] by (simp add: D_def)
  have e: "Date_UTC (getUTCFullYear (now + istOffsetMs)) (getUTCMonth (now + istOffsetMs)) (getUTCDate (now + istOffsetMs) + 1) 18
      = (D + 1) * msPerDay + 18 * 3600000"
    using Date_UTC_same_day [of "now + istOffsetMs" 1 18] by (simp add: D_def)
  show t: "todayStart (calculate1130DateRanges now) = S * msPerDay + 18 * 3600000"
    unfolding calculate1130DateRanges_def Let_def date_ranges.simps s e
    by (simp add: S_def late_def flip: D_def)
  show "todayEnd (calculate1130DateRanges now) = (S + 1) * msPerDay + 18 * 3600000"
    unfolding calculate1130DateRanges_def Let_def date_ranges.simps s e
    by (simp add: S_def late_def flip: D_def)
  have w: "weekStart (calculate1130DateRanges now) =
      day_of (todayStart (calculate1130DateRanges now) - shift * msPerDay) * msPerDay + 18 * 3600000"
    unfolding calculate1130DateRanges_def Let_def date_ranges.simps Date_UTC_same_day0 getUTCDay_def
    by (simp add: shift_def late_def not_le flip: D_def)
  have "day_of (S * msPerDay + 18 * 3600000 - shift * msPerDay) = S - shift"
  proof -
    have "S * msPerDay + 18 * 3600000 - shift * msPerDay = 64800000 + (S - shift) * msPerDay"
      by (simp add: algebra_simps)
    then show ?thesis by (simp add: day_of_def msPerDay_def)
  qed
  with w t show ws: "weekStart (calculate1130DateRanges now) = (S - shift) * msPerDay + 18 * 3600000" by simp
  have "weekEnd (calculate1130DateRanges now) = weekStart (calculate1130DateRanges now) + 7 * msPerDay"
    by (simp add: calculate1130DateRanges_def Let_def)
  with ws show "weekEnd (calculate1130DateRanges now) = (S - shift + 7) * msPerDay + 18 * 3600000"
    by (simp add: algebra_simps)
  show "monthStart (calculate1130DateRanges now) = (D - getUTCDate (now + istOffsetMs) + 1) * msPerDay + 18 * 3600000"
    by (simp add: calculate1130DateRanges_def Let_def D_def)
qed

text \<open>A time lies in the Indian day that contains it.\<close>

lemma day_bounds: "day_of t * msPerDay \<le> t \<and> t < (day_of t + 1) * msPerDay"
proof -
  have "t = t div msPerDay * msPerDay + t mod msPerDay" by simp
  moreover have "0 \<le> t mod msPerDay" "t mod msPerDay < msPerDay" by (simp_all add: msPerDay_def)
  ultimately show ?thesis unfolding day_of_def distrib_right by linarith
qed

section \<open>Properties\<close>

text \<open>
  The window of today always contains the present moment, lasts 24 hours and starts at 23:30 Indian
  time (18:00 UTC).
\<close>

theorem today_window_contains_now:
  "todayStart (calculate1130DateRanges now) \<le> now \<and> now < todayEnd (calculate1130DateRanges now) \<and>
   todayEnd (calculate1130DateRanges now) = todayStart (calculate1130DateRanges now) + msPerDay \<and>
   todayStart (calculate1130DateRanges now) mod msPerDay = 18 * 3600000"
proof -
  define D where "D = day_of (now + istOffsetMs)"
  have b: "D * msPerDay \<le> now + 19800000" "now + 19800000 < (D + 1) * msPerDay"
    using day_bounds [of "now + istOffsetMs"] by (simp_all add: D_def istOffsetMs_def)
  define S where "S = (if D * msPerDay + 18 * 3600000 \<le> now then D else D - 1)"
  have s: "todayStart (calculate1130DateRanges now) = S * msPerDay + 18 * 3600000"
    "todayEnd (calculate1130DateRanges now) = (S + 1) * msPerDay + 18 * 3600000"
    unfolding S_def D_def by (rule ranges_in_days)+
  have "S * msPerDay + 18 * 3600000 \<le> now \<and> now < (S + 1) * msPerDay + 18 * 3600000"
    using b by (auto simp: S_def msPerDay_def algebra_simps)
  moreover have "(S * msPerDay + 18 * 3600000) mod msPerDay = 18 * 3600000"
    using mod_mult_self1 [of "18 * 3600000" S msPerDay] by (simp add: msPerDay_def add.commute mult.commute)
  ultimately show ?thesis unfolding s by (simp add: algebra_simps)
qed

text \<open>
  The window of this week is a week, but it is not the documented one from Sunday 23:30 to Sunday
  23:30: at every moment before 23:30 Indian time it starts on a Saturday, so it covers Saturday 23:30
  to Saturday 23:30; only in the last half hour of a day does it start on a Sunday. On a Sunday before
  23:30 the window lies in the past and does not contain the present moment.
\<close>

theorem week_window_starts_saturday:
  "(let W = calculate1130DateRanges now; at2330 = day_of (now + istOffsetMs) * msPerDay + 18 * 3600000 in
    weekEnd W = weekStart W + 7 * msPerDay \<and>
    (now < at2330 \<longrightarrow> getUTCDay (weekStart W) = 6) \<and>
    (at2330 \<le> now \<longrightarrow> getUTCDay (weekStart W) = 0) \<and>
    (now < at2330 \<and> getUTCDay (now + istOffsetMs) = 0 \<longrightarrow> weekEnd W \<le> now))"
proof -
  define D where "D = day_of (now + istOffsetMs)"
  define W where "W = calculate1130DateRanges now"
  define late where "late = (D * msPerDay + 18 * 3600000 \<le> now)"
  define S where "S = (if late then D else D - 1)"
  define shift where "shift = (if (D + 4) mod 7 = 0 \<and> \<not> late then 7 else (D + 4) mod 7)"
  have w: "weekStart W = (S - shift) * msPerDay + 18 * 3600000"
    "weekEnd W = (S - shift + 7) * msPerDay + 18 * 3600000"
    unfolding W_def S_def shift_def late_def D_def by (rule ranges_in_days)+
  have day: "day_of ((S - shift) * msPerDay + 18 * 3600000) = S - shift"
    by (simp add: day_of_def msPerDay_def)
  have wd: "getUTCDay (weekStart W) = (S - shift + 4) mod 7" unfolding w(1) getUTCDay_def day ..
  have "\<not> late \<Longrightarrow> (S - shift + 4) mod 7 = 6"
    unfolding S_def shift_def by (auto; presburger)
  moreover have "late \<Longrightarrow> (S - shift + 4) mod 7 = 0"
    unfolding S_def shift_def by (auto; presburger)
  moreover have "weekEnd W \<le> now" if "\<not> late" and "getUTCDay (now + istOffsetMs) = 0"
  proof -
    have "weekEnd W = (D - 1) * msPerDay + 18 * 3600000"
      using that by (simp add: w(2) S_def shift_def getUTCDay_def flip: D_def)
    moreover have "D * msPerDay \<le> now + 19800000"
      using day_bounds [of "now + istOffsetMs"] by (simp add: D_def istOffsetMs_def)
    ultimately show ?thesis by (simp add: msPerDay_def algebra_simps)
  qed
  ultimately show ?thesis
    unfolding Let_def W_def [symmetric] D_def [symmetric] using w by (auto simp: wd late_def not_le algebra_simps)
qed

text \<open>Sunday, 4 January 1970, noon in India: the week's window ended the evening before.\<close>

theorem week_window_starts_saturday_witness:
  "getUTCDay (282600000 + istOffsetMs) = 0 \<and> weekEnd (calculate1130DateRanges 282600000) \<le> 282600000"
proof -
  have "getUTCDay (282600000 + istOffsetMs) = 0" by (simp add: getUTCDay_def day_of_def msPerDay_def istOffsetMs_def)
  with week_window_starts_saturday [of 282600000] show ?thesis
    by (simp add: Let_def day_of_def msPerDay_def istOffsetMs_def)
qed

text \<open>
  On the first day of a month the window of this month does not contain the present moment until
  23:30 Indian time: it starts later than now.
\<close>

theorem month_window_misses_first_day:
  assumes "getUTCDate (now + istOffsetMs) = 1" and "now < day_of (now + istOffsetMs) * msPerDay + 18 * 3600000"
  shows "now < monthStart (calculate1130DateRanges now)"
  using assms by (simp add: ranges_in_days)

theorem month_window_misses_first_day_witness: "0 < monthStart (calculate1130DateRanges 0)"
proof (rule month_window_misses_first_day)
  show "getUTCDate (0 + istOffsetMs) = 1" by code_simp
  show "0 < day_of (0 + istOffsetMs) * msPerDay + 18 * 3600000" by code_simp
qed

end
