(* ===== verification/User_Names.thy ===== *)
theory User_Names
  imports Stream_Room
begin

text \<open>
  How a user is shown to others: the cached privacy card (\<open>getUserPrivacyService\<close>,
  \<open>src/routes/service/serviceLive.js\<close>), the display name, and the alias a user with mystery mode keeps
  for one stream (\<open>src/routes/service/serviceMessage.js\<close>). The user table and \<open>Math.random\<close> are
  parameters.
\<close>

section \<open>Names\<close>

definition text_of :: "jsval \<Rightarrow> string" where
  "text_of v = (if truthy v then js_String v else [])"

text \<open>The template of first and last name, trimmed.\<close>

definition full_name :: "jsval \<Rightarrow> string" where
  "full_name u = js_trim (text_of (get_field u ''firstName'') @ '' '' @ text_of (get_field u ''lastName''))"

definition is_stealth :: "jsval \<Rightarrow> bool" where
  "is_stealth u \<longleftrightarrow> truthy (get_field u ''privacyMysteryLive'') \<and> truthy (get_field u ''vipSubscriptionActive'')"

definition buildDisplayName :: "jsval \<Rightarrow> string" where
  "buildDisplayName u =
     (if \<not> truthy u then []
      else let first = js_trim (text_of (get_field u ''firstName'')); last = js_trim (text_of (get_field u ''lastName'')) in
        if first \<noteq> [] \<and> last \<noteq> [] then first @ '' '' @ last
        else if first \<noteq> [] then first
        else if last \<noteq> [] then last
        else text_of (get_field u ''username''))"

section \<open>The privacy card\<close>

definition privacy_card :: "jsval \<Rightarrow> jsval" where
  "privacy_card u = Obj
     [(''publicId'', if truthy (get_field u ''publicId'') then Str (js_String (get_field u ''publicId'')) else Null),
      (''name'', js_or (Str (full_name u)) (js_or (get_field u ''username'') (Str ''Guest''))),
      (''username'', js_or (get_field u ''username'') (Str ''Guest'')),
      (''avatarUrl'', js_or (get_field u ''avatarUrl'') Null),
      (''isStealth'', JBool (is_stealth u))]"

definition cached_card :: "jtext option \<Rightarrow> jsval option" where
  "cached_card cached =
     (if truthy_text cached then
        (case JSON_parse (the cached) of
           None \<Rightarrow> None
         | Some parsed \<Rightarrow> if truthy parsed \<and> get_field parsed ''publicId'' \<noteq> Undefined then Some parsed else None)
      else None)"

definition getUserPrivacyService :: "'w redis \<Rightarrow> (string \<Rightarrow> ('w, jsval) act) \<Rightarrow> string option \<Rightarrow> ('w, jsval) act" where
  "getUserPrivacyService R user userId =
     (if \<not> truthy_str userId then ret (Obj [(''username'', Str ''Guest''), (''avatarUrl'', Null), (''isStealth'', JBool False)])
      else let cacheKey = key ''user:privacy'' (the userId) in
        bindA (ifOpen R (bindA (r_get R cacheKey) (\<lambda>cached. ret (cached_card cached))) (ret None)) (\<lambda>hit.
          case hit of
            Some parsed \<Rightarrow> ret parsed
          | None \<Rightarrow>
              bindA (user (the userId)) (\<lambda>u.
                thenA (ifOpen R (thenA (r_set R cacheKey (JSON_stringify (privacy_card u)) (ex_s 300)) (ret ())) (ret ()))
                  (ret (privacy_card u)))))"

section \<open>The alias of a stream session\<close>

definition char_at_random :: "string \<Rightarrow> rat \<Rightarrow> char" where
  "char_at_random s r = s ! nat \<lfloor>r * of_nat (length s)\<rfloor>"

definition letters :: string where "letters = ''abcdefghijklmnopqrstuvwxyz''"
definition nums :: string where "nums = ''0123456789''"

definition generateFakeName :: "('w, rat) act \<Rightarrow> ('w, string) act" where
  "generateFakeName random =
     bindA random (\<lambda>a. bindA random (\<lambda>b. bindA random (\<lambda>c. bindA random (\<lambda>d. bindA random (\<lambda>e.
       ret (''**'' @ map (char_at_random letters) [a, b, c] @ map (char_at_random nums) [d, e]))))))"

definition generateFakePublicId :: "('w, rat) act \<Rightarrow> ('w, string) act" where
  "generateFakePublicId random = bindA random (\<lambda>r. ret (int_str \<lfloor>100000000 + r * 900000000\<rfloor>))"

definition alias_key :: "string \<Rightarrow> string \<Rightarrow> string" where
  "alias_key streamId userId = ''stream:alias:'' @ streamId @ '':'' @ userId"

definition alias_obj :: "string \<Rightarrow> string \<Rightarrow> jsval" where
  "alias_obj alias fakePublicId = Obj [(''alias'', Str alias), (''fakePublicId'', Str fakePublicId)]"

text \<open>\<open>{ alias: generateFakeName(), fakePublicId: generateFakePublicId() }\<close>\<close>

definition fresh_alias :: "('w, rat) act \<Rightarrow> ('w, jsval) act" where
  "fresh_alias random = bindA (generateFakeName random) (\<lambda>a. bindA (generateFakePublicId random) (\<lambda>p. ret (alias_obj a p)))"

text \<open>A stored text that is no alias object is itself the alias; the text of a JSON value is left short.\<close>

definition raw_alias :: "('w, rat) act \<Rightarrow> jtext \<Rightarrow> ('w, jsval) act" where
  "raw_alias random t = bindA (generateFakePublicId random) (\<lambda>p.
     ret (alias_obj (case t of Raw s \<Rightarrow> s | Json v \<Rightarrow> js_String v) p))"

definition is_object_type :: "jsval \<Rightarrow> bool" where
  "is_object_type v \<longleftrightarrow> (case v of Null \<Rightarrow> True | Arr _ \<Rightarrow> True | Obj _ \<Rightarrow> True | _ \<Rightarrow> False)"

definition stored_alias :: "'w redis \<Rightarrow> ('w, rat) act \<Rightarrow> string \<Rightarrow> jtext \<Rightarrow> ('w, jsval) act" where
  "stored_alias R random redisKey rawData =
     catchA
       (bindA (parseA rawData) (\<lambda>parsed.
        bindA (if is_object_type parsed then dot parsed ''alias'' else ret Undefined) (\<lambda>al.
          if truthy al then ret parsed
          else bindA (raw_alias random rawData) (\<lambda>dataObj.
            thenA (r_set R redisKey (JSON_stringify dataObj) (ex_s 86400)) (ret dataObj)))))
       (\<lambda>_. raw_alias random rawData)"

definition getOrCreateSessionAliasObj :: "'w redis \<Rightarrow> ('w, rat) act \<Rightarrow> string option \<Rightarrow> string option \<Rightarrow> ('w, jsval) act" where
  "getOrCreateSessionAliasObj R random streamId userId =
     (if \<not> truthy_str streamId \<or> \<not> truthy_str userId then fresh_alias random
      else let redisKey = alias_key (the streamId) (the userId) in
        catchA
          (bindA (r_get R redisKey) (\<lambda>rawData.
             if \<not> truthy_text rawData then
               bindA (fresh_alias random) (\<lambda>dataObj.
                 thenA (r_set R redisKey (JSON_stringify dataObj) (ex_s 86400)) (ret dataObj))
             else stored_alias R random redisKey (the rawData)))
          (\<lambda>_. fresh_alias random))"

definition getOrCreateSessionAlias :: "'w redis \<Rightarrow> ('w, rat) act \<Rightarrow> string option \<Rightarrow> string option \<Rightarrow> ('w, jsval) act" where
  "getOrCreateSessionAlias R random streamId userId =
     bindA (getOrCreateSessionAliasObj R random streamId userId) (\<lambda>obj.
       if truthy obj then ret (get_field obj ''alias'') else bindA (generateFakeName random) (\<lambda>a. ret (Str a)))"

definition removeSessionAlias :: "'w redis \<Rightarrow> string option \<Rightarrow> string option \<Rightarrow> ('w, unit) act" where
  "removeSessionAlias R streamId userId =
     (if \<not> truthy_str streamId \<or> \<not> truthy_str userId then ret ()
      else quietly (r_del R [alias_key (the streamId) (the userId)]))"

section \<open>Lemmas\<close>

lemma never_throws_alias:
  assumes "never_throws random"
  shows "never_throws (getOrCreateSessionAliasObj R random streamId userId)"
proof -
  have f: "never_throws (fresh_alias random)"
    unfolding fresh_alias_def generateFakeName_def generateFakePublicId_def
    by (intro never_throws_bindA never_throws_ret assms)
  then show ?thesis
    unfolding getOrCreateSessionAliasObj_def Let_def by (intro never_throws_if never_throws_catchA)
qed

text \<open>
  The card of a user is computed once: while the card is cached, nobody asks the user table, and the
  card tells what the table said.
\<close>

lemma cached_privacy_card [simp]: "cached_card (Some (Json (privacy_card u))) = Some (privacy_card u)"
  by (simp add: cached_card_def truthy_text_def JSON_parse_def privacy_card_def truthy_def get_field_def)

lemma privacy_then_cached:
  assumes "redis_kv R kv clk up" and "up w" and "u \<noteq> []" and "user u w = (Inr row, w)"
    and "kv w (key ''user:privacy'' u) = None"
  obtains w1 where "getUserPrivacyService R user (Some u) w = (Inr (privacy_card row), w1)" and "up w1"
    and "getUserPrivacyService R any (Some u) w1 = (Inr (privacy_card row), w1)"
proof -
  obtain w1 where s: "r_set R (key ''user:privacy'' u) (Json (privacy_card row)) (ex_s 300) w = (Inr True, w1)" "up w1"
      "kv w1 = (kv w)(key ''user:privacy'' u \<mapsto> (Json (privacy_card row), Some (clk w + 300 * 1000)))"
    by (rule redis_kv.set_ex [OF assms(1,2), of 300 "key ''user:privacy'' u" "Json (privacy_card row)"]) auto
  have o: "isOpen R w" "isOpen R w1"
    using redis_kv.up_open [OF assms(1)] assms(2) s(2) by auto
  have g: "r_get R (key ''user:privacy'' u) w = (Inr None, w)"
    "r_get R (key ''user:privacy'' u) w1 = (Inr (Some (Json (privacy_card row))), w1)"
    using redis_kv.get [OF assms(1)] assms(2,5) s(2,3) by auto
  show thesis
  proof (rule that [OF _ s(2)])
    show "getUserPrivacyService R user (Some u) w = (Inr (privacy_card row), w1)"
      using assms(3,4) o g s(1)
      by (simp add: getUserPrivacyService_def act_simps Let_def JSON_stringify_def cached_card_def [of None] truthy_text_def)
    show "getUserPrivacyService R any (Some u) w1 = (Inr (privacy_card row), w1)"
      using assms(3) o g by (simp add: getUserPrivacyService_def act_simps Let_def)
  qed
qed

end
