(* ===== verification/Stream_Gift.thy ===== *)
theory Stream_Gift
  imports Lucky_Gift Stream_Lifecycle User_Names
begin

text \<open>
  Gifts in a live stream and what surrounds them, \<open>src/routes/service/serviceLive.js\<close>: the host's gift
  gallery, \<open>sendStreamGiftService\<close> with its ledger call, following, and the paid global message. Tables,
  the calendar and the random numbers are parameters.
\<close>

section \<open>The gift gallery\<close>

record 'w gallery_db =
  ga_yearMonth :: "'w \<Rightarrow> int \<times> int"
  ga_gallery :: "int \<Rightarrow> int \<Rightarrow> ('w, jsval) act"
  ga_galleryWith :: "int \<Rightarrow> int \<Rightarrow> string \<Rightarrow> ('w, jsval) act"       \<comment> \<open>its items of one gift\<close>
  ga_progress :: "string \<Rightarrow> int \<Rightarrow> int \<Rightarrow> ('w, string list) act"
  ga_upsert :: "jsval \<Rightarrow> string \<Rightarrow> string \<Rightarrow> jsval \<Rightarrow> string \<Rightarrow> ('w, unit) act"

definition ym_key :: "string \<Rightarrow> int \<Rightarrow> int \<Rightarrow> string" where
  "ym_key p y m = p @ '':'' @ int_str y @ '':'' @ int_str m"

definition host_ym_key :: "string \<Rightarrow> string \<Rightarrow> int \<Rightarrow> int \<Rightarrow> string" where
  "host_ym_key p h y m = p @ '':'' @ h @ '':'' @ int_str y @ '':'' @ int_str m"

definition arr :: "jsval \<Rightarrow> jsval list" where
  "arr v = (case v of Arr xs \<Rightarrow> xs | _ \<Rightarrow> [])"

text \<open>\<open>Number(v)\<close> as a value.\<close>

definition as_number :: "jsval \<Rightarrow> jsval" where
  "as_number v = (case js_Number v of Some q \<Rightarrow> Num q | None \<Rightarrow> NonFinite)"

definition gallery_items :: "jsval \<Rightarrow> jsval list" where
  "gallery_items gallery =
     concat (map (\<lambda>section.
       map (\<lambda>item. let g = get_field item ''gift'' in
              Obj ([(''id'', get_field item ''id''), (''giftId'', get_field g ''id''), (''name'', get_field g ''name'')] @
                giftImageFields g @
                [(''coinCost'', as_number (get_field g ''coinCost''))]))
         (filter (\<lambda>item. let g = get_field item ''gift'' in truthy g \<and> truthy (get_field g ''isActive''))
           (arr (get_field section ''gifts''))))
       (arr (get_field gallery ''sections'')))"

definition load_gallery :: "'w redis \<Rightarrow> 'w gallery_db \<Rightarrow> int \<Rightarrow> int \<Rightarrow> ('w, unit) act" where
  "load_gallery R db y m =
     bindA (ga_gallery db y m) (\<lambda>gallery.
       let galleryItems = gallery_items gallery; ids = ym_key ''gift_gallery:gift_ids'' y m in
       thenA
         (if galleryItems \<noteq> [] then
            thenA (r_del R [ids])
            (thenA (r_sadd R ids (map (\<lambda>i. js_String (get_field i ''giftId'')) galleryItems))
            (thenA (r_pexpire R ids 86400000)
            (thenA (r_set R (ym_key ''gift_gallery:active'' y m) (JSON_stringify (Arr galleryItems)) (ex_s 86400)) (ret ()))))
          else
            thenA (r_set R (ym_key ''gift_gallery:active'' y m) (JSON_stringify (Arr [])) (ex_s 300)) (ret ()))
         (thenA (r_set R (ym_key ''gift_gallery:loaded'' y m) (Raw ''1'') (ex_s 86400)) (ret ())))"

definition ensureActiveGalleryCached :: "'w redis \<Rightarrow> 'w gallery_db \<Rightarrow> int \<Rightarrow> int \<Rightarrow> ('w, unit) act" where
  "ensureActiveGalleryCached R db y m =
     bindA (r_exists R (ym_key ''gift_gallery:loaded'' y m)) (\<lambda>isLoaded.
     bindA (r_exists R (ym_key ''gift_gallery:gift_ids'' y m)) (\<lambda>hasGiftIds.
       if \<not> isLoaded \<or> \<not> hasGiftIds then load_gallery R db y m else ret ()))"

definition ensureHostProgressCached :: "'w redis \<Rightarrow> 'w gallery_db \<Rightarrow> string \<Rightarrow> int \<Rightarrow> int \<Rightarrow> ('w, unit) act" where
  "ensureHostProgressCached R db hostId y m =
     bindA (r_exists R (host_ym_key ''host_gallery_progress:loaded'' hostId y m)) (\<lambda>isLoaded.
       if isLoaded then ret ()
       else bindA (ga_progress db hostId y m) (\<lambda>collected.
         thenA
           (if collected \<noteq> [] then
              thenA (r_sadd R (host_ym_key ''host_gallery_progress'' hostId y m) collected)
                (thenA (r_pexpire R (host_ym_key ''host_gallery_progress'' hostId y m) 604800000) (ret ()))
            else ret ())
           (thenA (r_set R (host_ym_key ''host_gallery_progress:loaded'' hostId y m) (Raw ''1'') (ex_s 604800)) (ret ()))))"

definition getGiftGalleryTargetsService :: "'w redis \<Rightarrow> 'w gallery_db \<Rightarrow> string \<Rightarrow> ('w, jsval) act" where
  "getGiftGalleryTargetsService R db hostId =
     bindA (askA (ga_yearMonth db)) (\<lambda>(y, m).
     thenA (ensureActiveGalleryCached R db y m)
     (thenA (ensureHostProgressCached R db hostId y m)
     (bindA (r_get R (ym_key ''gift_gallery:active'' y m)) (\<lambda>raw.
      bindA (if truthy_text raw then parseA (the raw) else ret (Arr [])) (\<lambda>galleryItems.
      bindA (r_smembers R (host_ym_key ''host_gallery_progress'' hostId y m)) (\<lambda>collected.
        let resultGifts = map (\<lambda>item. Obj (obj_spread (fields_of item)
              [(''isReceived'', JBool (js_String (get_field item ''giftId'') \<in> set collected))])) (arr galleryItems) in
        ret (Obj [(''year'', NumI y), (''month'', NumI m), (''totalTarget'', NumI (int (length resultGifts))),
          (''currentProgress'', NumI (int (length (filter (\<lambda>g. truthy (get_field g ''isReceived'')) resultGifts)))),
          (''gifts'', Arr resultGifts)])))))))"

definition persist_progress :: "'w gallery_db \<Rightarrow> int \<Rightarrow> int \<Rightarrow> string \<Rightarrow> string \<Rightarrow> string \<Rightarrow> ('w, unit) act" where
  "persist_progress db y m giftId receiverId senderId =
     quietly (bindA (ga_galleryWith db y m giftId) (\<lambda>gallery.
       forA (\<lambda>sec. forA (\<lambda>item. quietly (ga_upsert db (get_field gallery ''id'') receiverId giftId (get_field item ''id'') senderId))
              (arr (get_field sec ''gifts'')))
         (arr (get_field gallery ''sections''))))"

definition processGiftGalleryProgress :: "'w redis \<Rightarrow> 'w gallery_db \<Rightarrow> string \<Rightarrow> string \<Rightarrow> string \<Rightarrow> ('w, jsval) act" where
  "processGiftGalleryProgress R db giftId receiverId senderId =
     catchA
       (bindA (askA (ga_yearMonth db)) (\<lambda>(y, m).
        thenA (ensureActiveGalleryCached R db y m)
        (thenA (ensureHostProgressCached R db receiverId y m)
          (ifOpen R
            (bindA (r_sismember R (ym_key ''gift_gallery:gift_ids'' y m) giftId) (\<lambda>isGalleryGift.
              thenA
                (if isGalleryGift then
                   thenA (r_sadd R (host_ym_key ''host_gallery_progress'' receiverId y m) [giftId])
                   (thenA (r_pexpire R (host_ym_key ''host_gallery_progress'' receiverId y m) 604800000)
                     (persist_progress db y m giftId receiverId senderId))
                 else ret ())
                (getGiftGalleryTargetsService R db receiverId)))
            (ret Null)))))
       (\<lambda>_. ret Null)"

section \<open>A gift to a stream\<close>

record 'w gift_env =
  gv_redis :: "'w redis"
  gv_room :: "'w room_db"
  gv_gifts :: "'w gift_db"
  gv_gallery :: "'w gallery_db"
  gv_user :: "string \<Rightarrow> ('w, jsval) act"
  gv_frozen :: "string \<Rightarrow> ('w, jsval) act"
  gv_random :: "('w, rat) act"
  gv_lucky :: "'w lucky_deps"
  gv_ledger :: "'w ledger_env"
  gv_uuid :: "('w, string) act"

definition put :: "jsval \<Rightarrow> (string \<times> jsval) list \<Rightarrow> jsval" where
  "put v fs = Obj (obj_spread (fields_of v) fs)"

text \<open>What the stream shows of sender and receiver.\<close>

record parties =
  pa_stealth :: bool
  pa_senderName :: jsval
  pa_senderPublicId :: jsval
  pa_sender :: jsval
  pa_receiverName :: jsval
  pa_receiverPublicId :: jsval

definition parties_of :: "jsval \<Rightarrow> jsval \<Rightarrow> jsval \<Rightarrow> parties" where
  "parties_of sender receiver stealthAlias =
     (let st = truthy (get_field sender ''isStealth'') in
      \<lparr>pa_stealth = st,
       pa_senderName = (if st then js_or stealthAlias (Str ''Mystery Gifter'')
         else js_or (get_field sender ''name'') (js_or (get_field sender ''username'') (Str ''User''))),
       pa_senderPublicId = (if st then Null else js_or (get_field sender ''publicId'') Null),
       pa_sender = sender,
       pa_receiverName = (if truthy receiver
         then js_or (get_field receiver ''name'') (js_or (get_field receiver ''username'') (Str ''Host'')) else Str ''Host''),
       pa_receiverPublicId = (if truthy receiver then js_or (get_field receiver ''publicId'') Null else Null)\<rparr>)"

definition unless_stealth :: "parties \<Rightarrow> jsval \<Rightarrow> jsval" where
  "unless_stealth p v = (if pa_stealth p then Null else js_or v Null)"

text \<open>The lucky payload completed with the parties, its win with the winner's card.\<close>

definition decorate_lucky :: "parties \<Rightarrow> jsval \<Rightarrow> jsval" where
  "decorate_lucky p luckyResult =
     (let socket = put (get_field luckyResult ''socketPayload'')
            ([(''senderName'', pa_senderName p), (''senderPublicId'', if pa_stealth p then Null else pa_senderPublicId p),
              (''senderAvatarUrl'', unless_stealth p (get_field (pa_sender p) ''avatarUrl'')),
              (''receiverName'', pa_receiverName p), (''receiverPublicId'', pa_receiverPublicId p),
              (''targetUserPublicId'', pa_receiverPublicId p), (''isMystery'', JBool (pa_stealth p))] @
             (if pa_stealth p then [(''senderId'', Null), (''wealthLevel'', NumI 0)] else []));
          win = get_field luckyResult ''luckyWin'';
          pubId = (if pa_stealth p then Null else pa_senderPublicId p);
          win' = put win
            [(''senderName'', pa_senderName p),
             (''senderFirstName'', unless_stealth p (get_field (pa_sender p) ''firstName'')),
             (''senderLastName'', unless_stealth p (get_field (pa_sender p) ''lastName'')),
             (''senderAvatarUrl'', unless_stealth p (get_field (pa_sender p) ''avatarUrl'')),
             (''senderPublicId'', pubId), (''publicId'', pubId),
             (''receiverName'', pa_receiverName p), (''receiverPublicId'', pa_receiverPublicId p)]
      in put luckyResult ([(''socketPayload'', socket)] @ (if truthy win then [(''luckyWin'', win')] else [])))"

definition add_gallery :: "jsval \<Rightarrow> jsval \<Rightarrow> jsval" where
  "add_gallery luckyResult g =
     (if truthy g then put luckyResult [(''galleryProgress'', g),
        (''socketPayload'', put (get_field luckyResult ''socketPayload'') [(''galleryProgress'', g)])]
      else luckyResult)"

record gift_settlement =
  gs_coins :: int
  gs_points :: int
  gs_level :: jsval
  gs_levelUp :: bool

definition sendStreamGiftRemoteLedger :: "'w gift_env \<Rightarrow> string \<Rightarrow> string \<Rightarrow> jsval \<Rightarrow> int \<Rightarrow> string \<Rightarrow> string
    \<Rightarrow> ('w, gift_settlement) act" where
  "sendStreamGiftRemoteLedger V senderId receiverId giftId giftCount giftTransactionId idemBase =
     catchA
       (bindA (callLedger (gv_ledger V) default_opts ''gift''
          [(''context'', Str ''live_stream''), (''senderId'', Str senderId), (''receiverId'', Str receiverId),
           (''giftId'', giftId), (''quantity'', NumI giftCount), (''giftTransactionId'', Str giftTransactionId),
           (''idemBase'', Str idemBase)]) (\<lambda>r.
        bindA (dot r ''balanceAfterCoins'') (\<lambda>c. bindA (bigint c) (\<lambda>coins.
        bindA (bigint (get_field r ''balanceAfterPoints'')) (\<lambda>points.
        bindA (dot (get_field r ''wealth'') ''newLevel'') (\<lambda>level.
          ret \<lparr>gs_coins = coins, gs_points = points, gs_level = level,
               gs_levelUp = js_gt level (get_field (get_field r ''wealth'') ''previousLevel'')\<rparr>))))))
       (\<lambda>err. throw (toLocalError err (insufficient_only ''Insufficient coins to send this gift.'')))"

definition gift_payload :: "jsval \<Rightarrow> string \<Rightarrow> string \<Rightarrow> string option \<Rightarrow> jsval \<Rightarrow> int \<Rightarrow> int \<Rightarrow> parties \<Rightarrow> gift_settlement
    \<Rightarrow> jsval \<Rightarrow> jsval" where
  "gift_payload stream senderId receiverId targetUserId gift giftCount coinCost p st gallery = Obj
     [(''success'', JBool True), (''streamId'', get_field stream ''streamId''),
      (''senderId'', if pa_stealth p then Null else Str senderId),
      (''senderPublicId'', if pa_stealth p then Null else pa_senderPublicId p),
      (''senderName'', pa_senderName p), (''senderAvatarUrl'', unless_stealth p (get_field (pa_sender p) ''avatarUrl'')),
      (''isMystery'', JBool (pa_stealth p)), (''senderRemainingCoins'', NumI (gs_coins st)),
      (''receiverId'', Str receiverId), (''receiverPublicId'', pa_receiverPublicId p), (''receiverName'', pa_receiverName p),
      (''pointsAwarded'', NumI (math_trunc (of_int (coinCost * 60) / 100))), (''receiverTotalPoints'', NumI (gs_points st)),
      (''targetUserId'', js_or (str_or_null targetUserId) Null), (''targetUserPublicId'', pa_receiverPublicId p),
      (''targetUserName'', pa_receiverName p), (''count'', NumI giftCount), (''totalCost'', NumI coinCost),
      (''gift'', Obj ([(''id'', get_field gift ''id''), (''name'', get_field gift ''name'')] @ giftImageFields gift @
         [(''effectUrl'', get_field gift ''effectUrl''), (''vapUrl'', get_field gift ''vapUrl''),
          (''isVap'', JBool (truthy (get_field gift ''vapUrl''))), (''coinCost'', as_number (get_field gift ''coinCost''))])),
      (''wealthLevel'', if pa_stealth p then NumI 0 else gs_level st), (''isLevelUp'', JBool (gs_levelUp st)),
      (''galleryProgress'', gallery), (''galleryProgressUpdate'', gallery)]"

text \<open>After the commit: the epoch, the gallery, the payload.\<close>

definition after_commit :: "'w gift_env \<Rightarrow> jsval \<Rightarrow> string \<Rightarrow> string \<Rightarrow> string option \<Rightarrow> jsval \<Rightarrow> int \<Rightarrow> int \<Rightarrow> parties \<Rightarrow> string
    \<Rightarrow> gift_settlement \<Rightarrow> ('w, jsval) act" where
  "after_commit V stream senderId receiverId targetUserId gift giftCount coinCost p giftTransactionId st =
     thenA (bumpViewerCardsEpoch (gv_redis V) (row_str stream ''streamId''))
       (bindA (processGiftGalleryProgress (gv_redis V) (gv_gallery V) (js_String (get_field gift ''id'')) receiverId senderId) (\<lambda>g.
          ret (Obj [(''transactionId'', Str giftTransactionId),
            (''socketPayload'', gift_payload stream senderId receiverId targetUserId gift giftCount coinCost p st g),
            (''galleryProgress'', g), (''galleryProgressUpdate'', g), (''newBalance'', NumI (gs_coins st)),
            (''currentLevel'', gs_level st), (''isLevelUp'', JBool (gs_levelUp st))])))"

definition gift_count :: "jsval \<Rightarrow> rat option" where
  "gift_count v = map_option (\<lambda>n. max 1 (min 1000 n)) (js_Number (js_or v (NumI 1)))"

text \<open>A lucky gift goes its own way, its payload completed afterwards.\<close>

definition stream_lucky_gift :: "'w gift_env \<Rightarrow> jsval \<Rightarrow> string \<Rightarrow> string \<Rightarrow> string \<Rightarrow> jsval \<Rightarrow> int \<Rightarrow> parties \<Rightarrow> string option
    \<Rightarrow> ('w, jsval) act" where
  "stream_lucky_gift V stream senderId receiverId giftId gift giftCount p clientTxId =
     bindA (sendLuckyGiftService (gv_lucky V)
       \<lparr>lq_senderId = senderId, lq_receiverId = Some receiverId, lq_streamId = row_str stream ''streamId'',
        lq_giftId = giftId, lq_comboCount = NumI giftCount, lq_clientTxId = clientTxId, lq_preFetchedGift = gift\<rparr>)
       (\<lambda>luckyResult.
          bindA (processGiftGalleryProgress (gv_redis V) (gv_gallery V) (js_String (get_field gift ''id'')) receiverId senderId)
            (\<lambda>g. ret (add_gallery (decorate_lucky p luckyResult) g)))"

definition stream_paid_gift :: "'w gift_env \<Rightarrow> jsval \<Rightarrow> string \<Rightarrow> string \<Rightarrow> string option \<Rightarrow> jsval \<Rightarrow> int \<Rightarrow> int \<Rightarrow> parties
    \<Rightarrow> string option \<Rightarrow> ('w, jsval) act" where
  "stream_paid_gift V stream senderId receiverId targetUserId gift giftCount coinCost p clientTxId =
     bindA (gv_uuid V) (\<lambda>giftTransactionId.
     bindA (sendStreamGiftRemoteLedger V senderId receiverId (get_field gift ''id'') giftCount giftTransactionId
              (''gift-stream:'' @ (if truthy_str clientTxId then senderId @ '':'' @ the clientTxId else giftTransactionId)))
       (after_commit V stream senderId receiverId targetUserId gift giftCount coinCost p giftTransactionId))"

text \<open>Price, count and names of a gift that can be sent, then the way it goes.\<close>

definition stream_gift_to :: "'w gift_env \<Rightarrow> jsval \<Rightarrow> string \<Rightarrow> string \<Rightarrow> string \<Rightarrow> string option \<Rightarrow> jsval \<Rightarrow> string option
    \<Rightarrow> jsval \<Rightarrow> jsval \<Rightarrow> jsval \<Rightarrow> ('w, jsval) act" where
  "stream_gift_to V stream senderId receiverId giftId targetUserId count clientTxId gift sender receiver =
     bindA (bigint (get_field gift ''coinCost'')) (\<lambda>unitCost.
     bindA (BigInt_count (gift_count count)) (\<lambda>giftCount.
     bindA (if truthy (get_field sender ''isStealth'')
            then getOrCreateSessionAlias (gv_redis V) (gv_random V) (row_str stream ''streamId'') (Some senderId)
            else ret Null) (\<lambda>alias.
       let p = parties_of sender receiver alias in
       if isLuckyGift gift then stream_lucky_gift V stream senderId receiverId giftId gift giftCount p clientTxId
       else stream_paid_gift V stream senderId receiverId targetUserId gift giftCount (unitCost * giftCount) p clientTxId)))"

definition sendStreamGiftService :: "'w gift_env \<Rightarrow> string \<Rightarrow> string \<Rightarrow> string \<Rightarrow> string option \<Rightarrow> jsval \<Rightarrow> string option
    \<Rightarrow> ('w, jsval) act" where
  "sendStreamGiftService V streamDbId senderId giftId targetUserId count clientTxId =
     thenA (checkCoinsFrozenFast (gv_redis V) (gv_frozen V) senderId)
     (bindA (getLiveStreamService (gv_redis V) (gv_room V) (Some streamDbId)) (\<lambda>stream.
       if \<not> truthy stream then throw (Error ''Live stream not found.'')
       else if get_field stream ''endedAt'' \<noteq> Null then throw (Error ''Live stream has already ended.'')
       else
         let receiverId = str_or targetUserId (js_String (get_field stream ''userId'')) in
         bindA (getGiftInfoService (gv_redis V) (gv_gifts V) giftId) (\<lambda>gift.
         bindA (getUserPrivacyService (gv_redis V) (gv_user V) (Some senderId)) (\<lambda>sender.
         bindA (getUserPrivacyService (gv_redis V) (gv_user V) (Some receiverId)) (\<lambda>receiver.
           if \<not> truthy gift \<or> \<not> truthy (get_field gift ''isActive'') then throw (Error ''Gift not found or is inactive.'')
           else stream_gift_to V stream senderId receiverId giftId targetUserId count clientTxId gift sender receiver)))))"

section \<open>Following\<close>

record 'w social_db =
  so_user :: "string \<Rightarrow> ('w, jsval) act"
  so_followFind :: "string \<Rightarrow> string \<Rightarrow> ('w, bool) act"
  so_followCreate :: "string \<Rightarrow> string \<Rightarrow> ('w, unit) act"
  so_followDelete :: "string \<Rightarrow> string \<Rightarrow> ('w, unit) act"

definition followUserService :: "'w social_db \<Rightarrow> string \<Rightarrow> string \<Rightarrow> ('w, jsval) act" where
  "followUserService db followerId followingId =
     (if followerId = followingId then throw (Error ''You cannot follow yourself.'')
      else bindA (so_user db followingId) (\<lambda>targetUser.
        if \<not> truthy targetUser then throw (Error ''Target user not found.'')
        else bindA (so_user db followerId) (\<lambda>followerUser.
          if \<not> truthy followerUser then throw (Error ''Follower user not found.'')
          else bindA (so_followFind db followerId followingId) (\<lambda>existing.
            thenA (if existing then ret () else so_followCreate db followerId followingId)
              (ret (Obj [(''followerId'', Str followerId), (''followerName'', get_field followerUser ''username''),
                 (''followingId'', Str followingId), (''followingName'', get_field targetUser ''username'')]))))))"

definition unfollowUserService :: "'w social_db \<Rightarrow> string \<Rightarrow> string \<Rightarrow> ('w, bool) act" where
  "unfollowUserService db followerId followingId = thenA (so_followDelete db followerId followingId) (ret True)"

definition checkFollowStatusService :: "'w social_db \<Rightarrow> string \<Rightarrow> string \<Rightarrow> ('w, bool) act" where
  "checkFollowStatusService db followerId followingId = so_followFind db followerId followingId"

section \<open>The global message\<close>

definition globalMessageRemoteLedger :: "'w gift_env \<Rightarrow> string \<Rightarrow> string \<Rightarrow> string \<Rightarrow> string \<Rightarrow> ('w, int \<times> jsval) act" where
  "globalMessageRemoteLedger V senderId messageTxId idemKey message =
     catchA
       (bindA (callLedger (gv_ledger V) default_opts ''global-message''
          [(''senderId'', Str senderId), (''messageTxId'', Str messageTxId), (''idemKey'', Str idemKey),
           (''message'', Str (take 100 message))]) (\<lambda>r.
        bindA (dot r ''balanceAfterCoins'') (\<lambda>c. bindA (bigint c) (\<lambda>coins. ret (coins, get_field r ''wealthLevel'')))))
       (\<lambda>err. throw (toLocalError err (insufficient_only ''Insufficient coins to send a global message.'')))"

definition sendGlobalMessageService :: "'w gift_env \<Rightarrow> ('w \<Rightarrow> string) \<Rightarrow> string \<Rightarrow> string option \<Rightarrow> string option \<Rightarrow> string option
    \<Rightarrow> ('w, jsval) act" where
  "sendGlobalMessageService V isoNow senderId message streamId clientTxId =
     thenA (checkCoinsFrozenFast (gv_redis V) (gv_frozen V) senderId)
     (if \<not> truthy_str message \<or> js_trim (the message) = [] then throw (Error ''Message content cannot be empty.'')
      else bindA (gv_user V senderId) (\<lambda>senderUser.
        if \<not> truthy senderUser then throw (Error ''Sender user not found.'')
        else
          bindA (gv_uuid V) (\<lambda>messageTxId.
          bindA (globalMessageRemoteLedger V senderId messageTxId
                   (''global-msg:'' @ (if truthy_str clientTxId then senderId @ '':'' @ the clientTxId else messageTxId)) (the message))
            (\<lambda>(balance, wealthLevel).
               bindA (askA isoNow) (\<lambda>ts. ret (Obj
                 [(''transactionId'', Str messageTxId), (''newBalance'', NumI balance),
                  (''socketPayload'', Obj
                     [(''senderId'', Str senderId),
                      (''senderName'', js_or (Str (full_name senderUser)) (js_or (get_field senderUser ''username'') (Str ''User''))),
                      (''senderProfilePic'', js_or (get_field senderUser ''avatarUrl'') Null),
                      (''wealthLevel'', if is_stealth senderUser then NumI 0 else wealthLevel),
                      (''message'', Str (the message)), (''streamId'', js_or (str_or_null streamId) Null),
                      (''timestamp'', Str ts)])]))))))"

section \<open>Lemmas\<close>

lemma never_throws_bump: "never_throws (bumpViewerCardsEpoch R sid)"
  by (auto simp: bumpViewerCardsEpoch_def Let_def)

lemma never_throws_gallery: "never_throws (processGiftGalleryProgress R db g r s)"
  unfolding processGiftGalleryProgress_def by (rule never_throws_catchA) simp

lemma get_field_put: "get_field (put v fs) f = (case map_of fs f of Some x \<Rightarrow> x | None \<Rightarrow> get_field v f)"
  by (cases v) (simp_all add: put_def get_field_def fields_of_def map_of_obj_spread split: option.split)

text \<open>The month without an active gallery: nothing marks it as loaded, so it is loaded each time.\<close>

lemma empty_gallery_loads:
  assumes "ga_gallery db y m w = (Inr gallery, w)" and "gallery_items gallery = []"
    and "r_exists R (ym_key ''gift_gallery:loaded'' y m) w = (Inr b, w)"
    and "r_exists R (ym_key ''gift_gallery:gift_ids'' y m) w = (Inr False, w)"
  shows "ensureActiveGalleryCached R db y m w = load_gallery R db y m w"
  using assms by (simp add: ensureActiveGalleryCached_def act_simps)

section \<open>Properties\<close>

text \<open>
  C38: Once the ledger has charged a stream gift the send answers with success, the new balance and the
  transaction id, whatever Redis and the gallery tables do.
\<close>

theorem gift_committed_never_fails:
  assumes "gv_uuid V w = (Inr t, w0)"
    and "sendStreamGiftRemoteLedger V s h (get_field gift ''id'') n t
      (''gift-stream:'' @ (if truthy_str tx then s @ '':'' @ the tx else t)) w0 = (Inr st, w1)"
  shows "\<exists>r w2. stream_paid_gift V stream s h tgt gift n cost p tx w = (Inr r, w2) \<and>
    get_field r ''newBalance'' = NumI (gs_coins st) \<and> get_field r ''transactionId'' = Str t \<and>
    get_field (get_field r ''socketPayload'') ''success'' = JBool True"
proof -
  obtain u wa where a: "bumpViewerCardsEpoch (gv_redis V) (row_str stream ''streamId'') w1 = (Inr u, wa)"
    using never_throws_bump by (rule never_throwsE)
  obtain g wb where b: "processGiftGalleryProgress (gv_redis V) (gv_gallery V) (js_String (get_field gift ''id'')) h s wa = (Inr g, wb)"
    using never_throws_gallery by (rule never_throwsE)
  show ?thesis
    using assms a b
    by (simp add: stream_paid_gift_def after_commit_def act_simps get_field_def gift_payload_def)
qed

definition demo_ledger :: "('x room_mem_scheme) ledger_env" where
  "demo_ledger = \<lparr>le_now = m_clk, le_sleep = (\<lambda>_. ret ()),
     le_fetch = (\<lambda>_. ret \<lparr>h_status = 200, h_json = Inr (Obj [(''balanceAfterCoins'', Str ''5''), (''balanceAfterPoints'', Str ''6''),
       (''wealth'', Obj [(''newLevel'', Num 2), (''previousLevel'', Num 1)])])\<rparr>),
     le_uuid = ret ''rid'', le_hmac = (\<lambda>k s b. s), le_base_url = None, le_secret = Some ''k''\<rparr>"

text \<open>The tables of the gallery are down.\<close>

definition demo_gift_env :: "('x room_mem_scheme) gift_env" where
  "demo_gift_env = \<lparr>gv_redis = mem_redis, gv_room = mem_room_db,
     gv_gifts = \<lparr>gd_findMany_active = (\<lambda>_ _. ret []), gd_count_active = ret 0, gd_findUnique = (\<lambda>_. ret Null)\<rparr>,
     gv_gallery = \<lparr>ga_yearMonth = (\<lambda>_. (2026, 10)), ga_gallery = (\<lambda>_ _. throw (Error ''db'')),
       ga_galleryWith = (\<lambda>_ _ _. throw (Error ''db'')), ga_progress = (\<lambda>_ _ _. ret []), ga_upsert = (\<lambda>_ _ _ _ _. ret ())\<rparr>,
     gv_user = (\<lambda>_. ret Null), gv_frozen = (\<lambda>_. ret Null), gv_random = ret 0,
     gv_lucky = \<lparr>ld_ledgerCall = (\<lambda>_ _. throw (Error ''none'')), ld_getPoolStats = ret (rtp_of 92 zero_totals),
       ld_checkFrozen = (\<lambda>_. ret ()), ld_redis = mem_redis, ld_getGiftInfo = (\<lambda>_. ret Null), ld_uuid = ret ''u'',
       ld_random = ret [], ld_comboFix = None\<rparr>,
     gv_ledger = demo_ledger, gv_uuid = ret ''t''\<rparr>"

definition demo_settled :: "(exn + gift_settlement) \<times> room_mem \<Rightarrow> bool" where
  "demo_settled r = (case r of (Inr st, w) \<Rightarrow> gs_coins st = 5 | _ \<Rightarrow> False)"

lemma demo_ledger_settles:
  "demo_settled (sendStreamGiftRemoteLedger demo_gift_env ''s'' ''h'' (Str ''g'') 1 ''t'' ''gift-stream:t'' (room0 0))"
  by code_simp

theorem gift_committed_never_fails_witness:
  "\<exists>r w2. stream_paid_gift demo_gift_env Null ''s'' ''h'' None (Obj [(''id'', Str ''g'')]) 1 100
      (parties_of Null Null Null) None (room0 0) = (Inr r, w2) \<and> get_field r ''newBalance'' = NumI 5"
proof -
  obtain st w1 where l: "sendStreamGiftRemoteLedger demo_gift_env ''s'' ''h'' (Str ''g'') 1 ''t'' ''gift-stream:t'' (room0 0) = (Inr st, w1)"
    and c: "gs_coins st = 5"
    using demo_ledger_settles by (auto simp: demo_settled_def split: prod.splits sum.splits)
  have u: "gv_uuid demo_gift_env (room0 0) = (Inr ''t'', room0 0)"
    by (simp add: demo_gift_env_def act_simps)
  have l': "sendStreamGiftRemoteLedger demo_gift_env ''s'' ''h'' (get_field (Obj [(''id'', Str ''g'')]) ''id'') 1 ''t''
      (''gift-stream:'' @ (if truthy_str None then ''s'' @ '':'' @ the None else ''t'')) (room0 0) = (Inr st, w1)"
    using l by (simp add: truthy_str_def get_field_def)
  show ?thesis
    using gift_committed_never_fails [OF u l', of Null None 100 "parties_of Null Null Null"] c by (elim exE conjE) auto
qed

text \<open>
  A sender in mystery mode is hidden in the gift event of a lucky gift, and named by his user id in
  the win event that the same send broadcasts.
\<close>

theorem stealth_lucky_win_leaks:
  assumes "pa_stealth p" and "l = lucky_payload q gift n cost tx d lvl up" and "truthy (get_field l ''luckyWin'')"
    and "r = add_gallery (decorate_lucky p l) g"
  shows "get_field (get_field r ''socketPayload'') ''senderId'' = Null \<and>
    get_field (get_field r ''luckyWin'') ''senderPublicId'' = Null \<and>
    get_field (get_field r ''luckyWin'') ''senderId'' = Str (lq_senderId q)"
proof -
  have win: "get_field (get_field l ''luckyWin'') ''senderId'' = Str (lq_senderId q)"
    using assms(3) by (auto simp: assms(2) lucky_payload_def Let_def get_field_def truthy_def split: option.splits if_splits)
  have "get_field (get_field (decorate_lucky p l) ''socketPayload'') ''senderId'' = Null"
    "get_field (get_field (decorate_lucky p l) ''luckyWin'') ''senderPublicId'' = Null"
    "get_field (get_field (decorate_lucky p l) ''luckyWin'') ''senderId'' = Str (lq_senderId q)"
    using assms(1,3) win by (simp_all add: decorate_lucky_def Let_def get_field_put)
  then show ?thesis
    unfolding assms(4) by (simp add: add_gallery_def get_field_put)
qed

definition demo_win :: jsval where
  "demo_win = lucky_payload demo_lucky_request (Obj []) 1 100
     \<lparr>tx_log_id = Null, tx_finalBalanceCoins = 5, tx_wealth = Null, tx_hostPoints = 4, tx_engine = ''legacy'', tx_rewardCoins = None,
      tx_category = Null, tx_breakdownArray = None, tx_tierId = Null, tx_configVersion = Null\<rparr>
     \<lparr>dr_totalReward = 200, dr_breakdown = [200], dr_category = ''MEDIUM''\<rparr> (Num 2) False"

theorem stealth_lucky_win_leaks_witness:
  "get_field (get_field (add_gallery (decorate_lucky (parties_of (Obj [(''isStealth'', JBool True)]) Null Null) demo_win) Null)
     ''luckyWin'') ''senderId'' = Str ''s''"
proof -
  have p: "pa_stealth (parties_of (Obj [(''isStealth'', JBool True)]) Null Null)"
    by (simp add: parties_of_def Let_def truthy_def get_field_def)
  have w: "truthy (get_field demo_win ''luckyWin'')"
    by code_simp
  show ?thesis
    using stealth_lucky_win_leaks [OF p demo_win_def w refl, of Null] by (simp add: demo_lucky_request_def)
qed

end
