(* ===== verification/Censor.thy ===== *)
theory Censor
  imports JS_Prelude "HOL-Library.Word"
begin

text \<open>
  The fuzzy censor of chat messages, \<open>src/utils/censor.js\<close>, with the list wrapper of
  \<open>src/routes/service/serviceMessage.js\<close> (\<open>withCurve\<close>). Texts are lists of UTF-16 units (\<open>16 word\<close>),
  because the source names the Devanagari range. \<open>toLowerCase\<close> lowers the ASCII letters, the only
  letters with a case that its word pattern admits. The rolling row of the distance, the length bound
  and the verdict cache are proved equal to the plain definition.
\<close>

section \<open>Text\<close>

type_synonym u16 = "16 word"

definition lower_unit :: "u16 \<Rightarrow> u16" where
  "lower_unit c = (if 65 \<le> c \<and> c \<le> 90 then c + 32 else c)"

definition lower :: "u16 list \<Rightarrow> u16 list" where
  "lower s = map lower_unit s"

text \<open>\<open>\w\<close>: ASCII letters, digits and the underscore.\<close>

definition is_w :: "u16 \<Rightarrow> bool" where
  "is_w c \<longleftrightarrow> 48 \<le> c \<and> c \<le> 57 \<or> 65 \<le> c \<and> c \<le> 90 \<or> 97 \<le> c \<and> c \<le> 122 \<or> c = 95"

text \<open>\<open>/[a-zA-Z0-9\u0900-\u097F]/\<close>\<close>

definition is_wordchar :: "u16 \<Rightarrow> bool" where
  "is_wordchar c \<longleftrightarrow> 97 \<le> c \<and> c \<le> 122 \<or> 65 \<le> c \<and> c \<le> 90 \<or> 48 \<le> c \<and> c \<le> 57 \<or> 0x900 \<le> c \<and> c \<le> 0x97F"

text \<open>
  \<open>text.split(/(\b)/g)\<close>: the runs of word and of other units, with the empty capture between two runs.
\<close>

function split_b :: "u16 list \<Rightarrow> u16 list list" where
  "split_b [] = []"
| "split_b (c # cs) =
     (let rest = dropWhile (\<lambda>d. is_w d = is_w c) cs in
      (c # takeWhile (\<lambda>d. is_w d = is_w c) cs) # (if rest = [] then [] else [] # split_b rest))"
  by pat_completeness auto
termination
  by (relation "measure length") (auto simp: le_imp_less_Suc length_dropWhile_le)

definition units :: "string \<Rightarrow> u16 list" where
  "units s = map (\<lambda>c. word_of_nat (of_char c)) s"

definition chars :: "u16 list \<Rightarrow> string" where
  "chars s = map (\<lambda>u. char_of (unat u)) s"

section \<open>The distance\<close>

text \<open>One pass of the inner loop; \<open>costs\<close> and \<open>lastValue\<close> are its variables.\<close>

definition lev_step :: "u16 list \<Rightarrow> u16 list \<Rightarrow> nat \<Rightarrow> nat \<Rightarrow> nat list \<times> nat \<Rightarrow> nat list \<times> nat" where
  "lev_step s1 s2 i j = (\<lambda>(costs, lastValue).
     let newValue = costs ! (j - 1);
         newValue = (if s1 ! (i - 1) \<noteq> s2 ! (j - 1) then min (min newValue lastValue) (costs ! j) + 1 else newValue)
     in (costs[j - 1 := lastValue], newValue))"

definition lev_row :: "u16 list \<Rightarrow> u16 list \<Rightarrow> nat \<Rightarrow> nat list \<Rightarrow> nat list" where
  "lev_row s1 s2 i costs =
     (let (costs, lastValue) = fold (lev_step s1 s2 i) [1..<Suc (length s2)] (costs, i)
      in costs[length s2 := lastValue])"

definition getLevenshteinDistance :: "u16 list \<Rightarrow> u16 list \<Rightarrow> nat" where
  "getLevenshteinDistance s1 s2 =
     (let s1 = lower s1; s2 = lower s2
      in fold (lev_row s1 s2) [1..<Suc (length s1)] [0..<Suc (length s2)] ! length s2)"

definition getSimilarity :: "u16 list \<Rightarrow> u16 list \<Rightarrow> rat" where
  "getSimilarity s1 s2 =
     (let longer = (if length s2 < length s1 then s1 else s2);
          shorter = (if length s2 < length s1 then s2 else s1);
          longerLength = length longer
      in if longerLength = 0 then 1
         else (of_nat longerLength - of_nat (getLevenshteinDistance longer shorter)) / of_nat longerLength)"

section \<open>Verdicts\<close>

definition SAFE_WORDS :: "u16 list list" where
  "SAFE_WORDS = map units [''shut'', ''beach'', ''sheet'', ''came'', ''duck'', ''puck'', ''push'', ''dock'', ''much'', ''such'', ''rich'']"

definition VERDICT_CACHE_MAX :: nat where "VERDICT_CACHE_MAX = 5000"

fun isBannedWord :: "u16 list \<Rightarrow> u16 list list \<Rightarrow> rat \<Rightarrow> bool" where
  "isBannedWord lowerPart [] threshold = False"
| "isBannedWord lowerPart (w # ws) threshold =
     (let longer = max (length lowerPart) (length w) in
      if longer = 0 then threshold \<le> 1
      else if of_nat (min (length lowerPart) (length w)) / of_nat longer < threshold then isBannedWord lowerPart ws threshold
      else if threshold \<le> getSimilarity lowerPart w then True
      else isBannedWord lowerPart ws threshold)"

text \<open>The cached verdicts of one list at one threshold, as the \<open>Map\<close> keeps them.\<close>

type_synonym verdicts = "(u16 list \<times> bool) list"

definition censor_part :: "u16 list list \<Rightarrow> rat \<Rightarrow> u16 list \<Rightarrow> verdicts \<Rightarrow> u16 list \<times> verdicts" where
  "censor_part words threshold part verdicts =
     (if part = [] \<or> \<not> list_all is_wordchar part then (part, verdicts)
      else let lowerPart = lower part in
        if lowerPart \<in> set SAFE_WORDS then (part, verdicts)
        else
          let (isBanned, verdicts) =
            (case map_of verdicts lowerPart of
               Some b \<Rightarrow> (b, verdicts)
             | None \<Rightarrow>
                 let b = isBannedWord lowerPart words threshold;
                     verdicts = (if VERDICT_CACHE_MAX \<le> length verdicts then [] else verdicts)
                 in (b, (lowerPart, b) # verdicts))
          in (if isBanned then replicate (length part) 42 else part, verdicts))"

fun censor_parts :: "u16 list list \<Rightarrow> rat \<Rightarrow> u16 list list \<Rightarrow> verdicts \<Rightarrow> u16 list list \<times> verdicts" where
  "censor_parts words threshold [] verdicts = ([], verdicts)"
| "censor_parts words threshold (p # ps) verdicts =
     (let (q, verdicts) = censor_part words threshold p verdicts;
          (qs, verdicts) = censor_parts words threshold ps verdicts
      in (q # qs, verdicts))"

text \<open>
  A list of banned words is an object: \<open>bl_id\<close> is its identity, the key of the \<open>WeakMap\<close>s, and its rows
  hold their \<open>word\<close>.
\<close>

record blist =
  bl_id :: nat
  bl_words :: "u16 list option list"      \<comment> \<open>\<open>None\<close>: \<open>null\<close> or \<open>undefined\<close>\<close>

record prepared =
  pr_words :: "u16 list list"
  pr_verdicts :: "(rat \<times> verdicts) list"

type_synonym prepared_lists = "(nat \<times> prepared) list"

definition word_of_row :: "u16 list option \<Rightarrow> u16 list" where
  "word_of_row b = lower (case b of None \<Rightarrow> [] | Some w \<Rightarrow> w)"

definition prepareList :: "blist \<Rightarrow> rat \<Rightarrow> prepared_lists \<Rightarrow> u16 list list \<times> verdicts" where
  "prepareList bannedWords threshold preparedLists =
     (case map_of preparedLists (bl_id bannedWords) of
        None \<Rightarrow> (map word_of_row (bl_words bannedWords), [])
      | Some p \<Rightarrow> (pr_words p, case map_of (pr_verdicts p) threshold of None \<Rightarrow> [] | Some v \<Rightarrow> v))"

text \<open>The \<open>Map\<close> that \<open>prepareList\<close> handed out is changed in place: it is put back under its keys.\<close>

definition keep_verdicts :: "blist \<Rightarrow> rat \<Rightarrow> u16 list list \<Rightarrow> verdicts \<Rightarrow> prepared_lists \<Rightarrow> prepared_lists" where
  "keep_verdicts bannedWords threshold words verdicts preparedLists =
     (bl_id bannedWords,
      \<lparr>pr_words = words,
       pr_verdicts = (threshold, verdicts) #
         (case map_of preparedLists (bl_id bannedWords) of None \<Rightarrow> [] | Some p \<Rightarrow> pr_verdicts p)\<rparr>) # preparedLists"

definition censorTextWithFuzzyMatch :: "u16 list \<Rightarrow> blist \<Rightarrow> rat \<Rightarrow> prepared_lists \<Rightarrow> u16 list \<times> prepared_lists" where
  "censorTextWithFuzzyMatch text bannedWords threshold preparedLists =
     (if text = [] then (text, preparedLists)
      else if bl_words bannedWords = [] then (text, preparedLists)
      else
        let (words, verdicts) = prepareList bannedWords threshold preparedLists;
            (processedParts, verdicts) = censor_parts words threshold (split_b text) verdicts
        in (concat processedParts, keep_verdicts bannedWords threshold words verdicts preparedLists))"

section \<open>The banned list\<close>

definition CACHE_LIFETIME :: int where "CACHE_LIFETIME = 15 * 60 * 1000"

record ban_cache =
  cachedBannedWords :: blist
  lastLoadedTime :: int

text \<open>
  \<open>fetched\<close> is what the query gives (\<open>Inl\<close> when it fails). The boolean tells whether a background refresh
  is started; \<open>bg_refresh\<close> is its end.
\<close>

definition getBannedWords :: "(exn + blist) \<Rightarrow> int \<Rightarrow> ban_cache \<Rightarrow> blist \<times> bool \<times> ban_cache" where
  "getBannedWords fetched now c =
     (if bl_words (cachedBannedWords c) = [] then
        (case fetched of
           Inl err \<Rightarrow> (cachedBannedWords c, False, c)
         | Inr ws \<Rightarrow> (ws, False, \<lparr>cachedBannedWords = ws, lastLoadedTime = now\<rparr>))
      else if CACHE_LIFETIME \<le> now - lastLoadedTime c then
        (cachedBannedWords c, True, c\<lparr>lastLoadedTime := now\<rparr>)
      else (cachedBannedWords c, False, c))"

definition bg_refresh :: "(exn + blist) \<Rightarrow> ban_cache \<Rightarrow> ban_cache" where
  "bg_refresh fetched c = (case fetched of Inl err \<Rightarrow> c | Inr ws \<Rightarrow> c\<lparr>cachedBannedWords := ws\<rparr>)"

text \<open>\<open>fresh\<close> is the identity of the array that the spread creates.\<close>

definition withCurve :: "nat \<Rightarrow> blist \<Rightarrow> (nat \<times> blist) list \<Rightarrow> blist \<times> (nat \<times> blist) list" where
  "withCurve fresh bannedList curveLists =
     (case map_of curveLists (bl_id bannedList) of
        Some l \<Rightarrow> (l, curveLists)
      | None \<Rightarrow>
          let l = \<lparr>bl_id = fresh,
                   bl_words = (if list_ex (\<lambda>b. word_of_row b = units ''curve'') (bl_words bannedList)
                               then bl_words bannedList else bl_words bannedList @ [Some (units ''curve'')])\<rparr>
          in (l, (bl_id bannedList, l) # curveLists))"

section \<open>The rolling row computes the distance of prefixes\<close>

text \<open>The distance of the prefixes of lengths \<open>i\<close> and \<open>j\<close>, by the textbook recursion.\<close>

fun lev_ix :: "'a list \<Rightarrow> 'a list \<Rightarrow> nat \<Rightarrow> nat \<Rightarrow> nat" where
  "lev_ix s t 0 j = j"
| "lev_ix s t (Suc i) 0 = Suc i"
| "lev_ix s t (Suc i) (Suc j) =
     (if s ! i \<noteq> t ! j then min (min (lev_ix s t i j) (lev_ix s t (Suc i) j)) (lev_ix s t i (Suc j)) + 1
      else lev_ix s t i j)"

lemma lev_ix_0 [simp]: "lev_ix s t i 0 = i"
  by (cases i) simp_all

definition is_row :: "u16 list \<Rightarrow> u16 list \<Rightarrow> nat \<Rightarrow> nat list \<Rightarrow> bool" where
  "is_row s t i costs \<longleftrightarrow> length costs = Suc (length t) \<and> (\<forall>j \<le> length t. costs ! j = lev_ix s t i j)"

lemma lev_inner:
  assumes "is_row s t i costs" and "k \<le> length t"
  shows "case fold (lev_step s t (Suc i)) [1..<Suc k] (costs, Suc i) of (c, l) \<Rightarrow>
    length c = Suc (length t) \<and> l = lev_ix s t (Suc i) k \<and>
    (\<forall>m \<le> length t. c ! m = (if m < k then lev_ix s t (Suc i) m else lev_ix s t i m))"
  using assms(2)
proof (induction k)
  case 0
  then show ?case using assms(1) by (simp add: is_row_def)
next
  case (Suc k)
  obtain c l where f: "fold (lev_step s t (Suc i)) [1..<Suc k] (costs, Suc i) = (c, l)" by fastforce
  have upt: "[1..<Suc (Suc k)] = [1..<Suc k] @ [Suc k]" by simp
  have step: "fold (lev_step s t (Suc i)) [1..<Suc (Suc k)] (costs, Suc i) = lev_step s t (Suc i) (Suc k) (c, l)"
    unfolding upt fold_append using f by (simp del: upt_Suc)
  have "length c = Suc (length t)" "l = lev_ix s t (Suc i) k"
    "\<forall>m \<le> length t. c ! m = (if m < k then lev_ix s t (Suc i) m else lev_ix s t i m)"
    using Suc f by (auto simp del: upt_Suc)
  then show ?case
    unfolding step using Suc.prems by (auto simp: lev_step_def Let_def nth_list_update less_Suc_eq)
qed

lemma lev_row_row: "is_row s t i costs \<Longrightarrow> is_row s t (Suc i) (lev_row s t (Suc i) costs)"
  using lev_inner [of s t i costs "length t"]
  by (auto simp: is_row_def lev_row_def Let_def nth_list_update simp del: upt_Suc split: prod.splits)

lemma lev_rows: "is_row s t m (fold (lev_row s t) [1..<Suc m] [0..<Suc (length t)])"
proof (induction m)
  case 0
  show ?case by (simp add: is_row_def nth_append del: upt_Suc)
next
  case (Suc m)
  then show ?case using lev_row_row [of s t m] by simp
qed

lemma distance_is_lev_ix:
  "getLevenshteinDistance s1 s2 = lev_ix (lower s1) (lower s2) (length s1) (length s2)"
  using lev_rows [of "lower s1" "lower s2" "length s1"]
  by (simp add: getLevenshteinDistance_def Let_def is_row_def lower_def del: upt_Suc)

section \<open>The distance is the least number of edits\<close>

text \<open>Turning one text into another from the front to the back: keep, replace, insert or remove a unit.\<close>

inductive edits :: "'a list \<Rightarrow> 'a list \<Rightarrow> nat \<Rightarrow> bool" where
  edits_done: "edits [] [] 0"
| edits_keep: "edits xs ys n \<Longrightarrow> edits (xs @ [x]) (ys @ [x]) n"
| edits_replace: "edits xs ys n \<Longrightarrow> edits (xs @ [x]) (ys @ [y]) (Suc n)"
| edits_insert: "edits xs ys n \<Longrightarrow> edits xs (ys @ [y]) (Suc n)"
| edits_remove: "edits xs ys n \<Longrightarrow> edits (xs @ [x]) ys (Suc n)"

inductive_simps edits_empty: "edits [] [] n"

lemma lev_ix_lipschitz:
  "lev_ix s t i j \<le> Suc (lev_ix s t (Suc i) j) \<and> lev_ix s t i j \<le> Suc (lev_ix s t i (Suc j)) \<and>
   lev_ix s t (Suc i) j \<le> Suc (lev_ix s t i j) \<and> lev_ix s t i (Suc j) \<le> Suc (lev_ix s t i j)"
proof (induction "i + j" arbitrary: i j rule: less_induct)
  case less
  have a: "lev_ix s t i j \<le> Suc (lev_ix s t (Suc i) j) \<and> lev_ix s t (Suc i) j \<le> Suc (lev_ix s t i j)"
  proof (cases j)
    case (Suc j')
    have "lev_ix s t i j \<le> Suc (lev_ix s t i j')" "lev_ix s t i j' \<le> Suc (lev_ix s t (Suc i) j')"
      "lev_ix s t i j' \<le> Suc (lev_ix s t i j)"
      using less [of i j'] Suc by auto
    then show ?thesis using Suc by (auto simp: min_def)
  qed simp
  have b: "lev_ix s t i j \<le> Suc (lev_ix s t i (Suc j)) \<and> lev_ix s t i (Suc j) \<le> Suc (lev_ix s t i j)"
  proof (cases i)
    case (Suc i')
    have "lev_ix s t i j \<le> Suc (lev_ix s t i' j)" "lev_ix s t i' j \<le> Suc (lev_ix s t i' (Suc j))"
      "lev_ix s t i' j \<le> Suc (lev_ix s t i j)"
      using less [of i' j] Suc by auto
    then show ?thesis using Suc by (auto simp: min_def)
  qed simp
  show ?case using a b by blast
qed

lemma lev_ix_append [simp]:
  "i \<le> length s \<Longrightarrow> j \<le> length t \<Longrightarrow> lev_ix (s @ a) (t @ b) i j = lev_ix s t i j"
  by (induction s t i j rule: lev_ix.induct) (auto simp: nth_append)

lemma lev_ix_append_left: "i \<le> length s \<Longrightarrow> j \<le> length t \<Longrightarrow> lev_ix (s @ a) t i j = lev_ix s t i j"
  using lev_ix_append [of i s j t a "[]"] by simp

lemma lev_ix_append_right: "i \<le> length s \<Longrightarrow> j \<le> length t \<Longrightarrow> lev_ix s (t @ b) i j = lev_ix s t i j"
  using lev_ix_append [of i s j t "[]" b] by simp

lemma edits_lower_bound: "edits s t n \<Longrightarrow> lev_ix s t (length s) (length t) \<le> n"
proof (induction rule: edits.induct)
  case (edits_replace xs ys n x y)
  then show ?case by (auto simp: min_def)
next
  case (edits_insert xs ys n y)
  have "lev_ix xs (ys @ [y]) (length xs) (Suc (length ys)) \<le> Suc (lev_ix xs (ys @ [y]) (length xs) (length ys))"
    using lev_ix_lipschitz by blast
  then show ?case using edits_insert by (simp add: lev_ix_append_right)
next
  case (edits_remove xs ys n x)
  have "lev_ix (xs @ [x]) ys (Suc (length xs)) (length ys) \<le> Suc (lev_ix (xs @ [x]) ys (length xs) (length ys))"
    using lev_ix_lipschitz by blast
  then show ?case using edits_remove by (simp add: lev_ix_append_left)
qed simp_all

lemma edits_attained:
  "i \<le> length s \<Longrightarrow> j \<le> length t \<Longrightarrow> edits (take i s) (take j t) (lev_ix s t i j)"
proof (induction s t i j rule: lev_ix.induct)
  case (1 s t j)
  then show ?case
  proof (induction j)
    case (Suc j)
    then show ?case using edits_insert [of "[]" "take j t" j "t ! j"] by (simp add: take_Suc_conv_app_nth)
  qed (simp add: edits_done)
next
  case (2 s t i)
  then show ?case
  proof (induction i)
    case 0
    then show ?case using edits_remove [OF edits_done, of "s ! 0"] by (cases s) simp_all
  next
    case (Suc i)
    then show ?case
      using edits_remove [of "take (Suc i) s" "[]" "Suc i" "s ! Suc i"] by (simp add: take_Suc_conv_app_nth [of "Suc i"])
  qed
next
  case (3 s t i j)
  have tk: "take (Suc i) s = take i s @ [s ! i]" "take (Suc j) t = take j t @ [t ! j]"
    using 3 by (simp_all add: take_Suc_conv_app_nth)
  show ?case
  proof (cases "s ! i = t ! j")
    case True
    then show ?thesis using 3 tk edits_keep by auto
  next
    case False
    define a b c where "a = lev_ix s t i j" and "b = lev_ix s t (Suc i) j" and "c = lev_ix s t i (Suc j)"
    have e: "edits (take i s) (take j t) a" "edits (take (Suc i) s) (take j t) b" "edits (take i s) (take (Suc j) t) c"
      using 3 False by (simp_all add: a_def b_def c_def)
    have "lev_ix s t (Suc i) (Suc j) = Suc (min (min a b) c)"
      using False by (simp add: a_def b_def c_def)
    moreover have "min (min a b) c \<in> {a, b, c}" by (auto simp: min_def)
    moreover have "edits (take (Suc i) s) (take (Suc j) t) (Suc a)"
      using edits_replace [OF e(1)] tk by simp
    moreover have "edits (take (Suc i) s) (take (Suc j) t) (Suc b)"
      using edits_insert [OF e(2), of "t ! j"] tk(2) by simp
    moreover have "edits (take (Suc i) s) (take (Suc j) t) (Suc c)"
      using edits_remove [OF e(3), of "s ! i"] tk(1) by simp
    ultimately show ?thesis by auto
  qed
qed

lemma lower_idem [simp]: "lower (lower s) = lower s"
proof -
  have "lower_unit (lower_unit c) = lower_unit c" for c
    unfolding lower_unit_def by (simp split: if_split) (unat_arith)
  then show ?thesis by (simp add: lower_def)
qed

section \<open>The bound and the cache change no verdict\<close>

lemma lev_ix_length: "i \<le> lev_ix s t i j + j \<and> j \<le> lev_ix s t i j + i"
  by (induction s t i j rule: lev_ix.induct) (auto simp: min_def)

lemma similarity_bound:
  assumes "max (length p) (length w) \<noteq> 0"
  shows "getSimilarity p w \<le> of_nat (min (length p) (length w)) / of_nat (max (length p) (length w))"
proof -
  have d: "max (length a) (length b) \<le> getLevenshteinDistance a b + min (length a) (length b)" for a b
    unfolding distance_is_lev_ix using lev_ix_length [of "length a" "lower a" "lower b" "length b"] by (auto simp: min_def)
  have "of_nat (length a) - of_nat (getLevenshteinDistance a b) \<le> (of_nat (length b) :: rat)"
    if "length b \<le> length a" for a b
  proof -
    have "length a \<le> getLevenshteinDistance a b + length b" using d [of a b] that by simp
    then show ?thesis by (simp add: algebra_simps flip: of_nat_add)
  qed
  then show ?thesis
    using assms by (auto simp: getSimilarity_def Let_def divide_right_mono)
qed

lemma similarity_le_1: "getSimilarity p w \<le> 1"
  by (simp add: getSimilarity_def Let_def)

text \<open>The verdict without the pruning.\<close>

definition banned :: "u16 list \<Rightarrow> u16 list list \<Rightarrow> rat \<Rightarrow> bool" where
  "banned p words threshold \<longleftrightarrow> (\<exists>w \<in> set words. threshold \<le> getSimilarity p w)"

lemma isBannedWord_banned: "isBannedWord p words threshold = banned p words threshold"
proof (induction words)
  case Nil
  show ?case by (simp add: banned_def)
next
  case (Cons w ws)
  have c: "banned p (w # ws) threshold \<longleftrightarrow> threshold \<le> getSimilarity p w \<or> banned p ws threshold"
    by (auto simp: banned_def)
  show ?case
  proof (cases "max (length p) (length w) = 0")
    case True
    then have "getSimilarity p w = 1" by (simp add: getSimilarity_def)
    then show ?thesis
      using True c similarity_le_1 by (auto simp: banned_def intro: order_trans)
  next
    case False
    then show ?thesis
      using similarity_bound [OF False] Cons c by (auto simp: Let_def)
  qed
qed

text \<open>What the censor promises: each word of the text is starred or kept, by its own verdict.\<close>

definition censored_part :: "u16 list list \<Rightarrow> rat \<Rightarrow> u16 list \<Rightarrow> u16 list" where
  "censored_part words threshold part =
     (if part \<noteq> [] \<and> list_all is_wordchar part \<and> lower part \<notin> set SAFE_WORDS \<and> banned (lower part) words threshold
      then replicate (length part) 42 else part)"

definition censored :: "u16 list \<Rightarrow> u16 list list \<Rightarrow> rat \<Rightarrow> u16 list" where
  "censored text words threshold = concat (map (censored_part words threshold) (split_b text))"

definition sound_verdicts :: "u16 list list \<Rightarrow> rat \<Rightarrow> verdicts \<Rightarrow> bool" where
  "sound_verdicts words threshold vs \<longleftrightarrow>
     length vs \<le> VERDICT_CACHE_MAX \<and> (\<forall>(p, b) \<in> set vs. b = banned p words threshold)"

lemma sound_lookup: "sound_verdicts words th vs \<Longrightarrow> map_of vs p = Some b \<Longrightarrow> b = banned p words th"
  by (auto simp: sound_verdicts_def dest!: map_of_SomeD)

lemma sound_add:
  "sound_verdicts words th vs \<Longrightarrow>
   sound_verdicts words th ((p, banned p words th) # (if VERDICT_CACHE_MAX \<le> length vs then [] else vs))"
  by (auto simp: sound_verdicts_def VERDICT_CACHE_MAX_def)

lemma censor_part_value:
  assumes "sound_verdicts words th vs"
  obtains vs' where "censor_part words th part vs = (censored_part words th part, vs')" and "sound_verdicts words th vs'"
proof (cases "part = [] \<or> \<not> list_all is_wordchar part \<or> lower part \<in> set SAFE_WORDS")
  case True
  then show thesis using that [OF _ assms] by (auto simp: censor_part_def censored_part_def Let_def)
next
  case False
  show thesis
  proof (cases "map_of vs (lower part)")
    case None
    then show thesis
      using that [OF _ sound_add [OF assms]] False
      by (auto simp: censor_part_def censored_part_def Let_def isBannedWord_banned)
  next
    case (Some b)
    then show thesis
      using that [OF _ assms] False sound_lookup [OF assms Some]
      by (auto simp: censor_part_def censored_part_def Let_def)
  qed
qed

lemma censor_parts_value:
  assumes "sound_verdicts words th vs"
  shows "\<exists>vs'. censor_parts words th ps vs = (map (censored_part words th) ps, vs') \<and> sound_verdicts words th vs'"
  using assms
proof (induction ps arbitrary: vs)
  case (Cons p ps)
  obtain vs1 where a: "censor_part words th p vs = (censored_part words th p, vs1)" "sound_verdicts words th vs1"
    using censor_part_value [OF Cons.prems] by blast
  obtain vs2 where "censor_parts words th ps vs1 = (map (censored_part words th) ps, vs2)" "sound_verdicts words th vs2"
    using Cons.IH [OF a(2)] by blast
  with a show ?case by simp
qed simp

text \<open>\<open>content\<close> gives the rows of each list object; the objects are never changed after their creation.\<close>

definition prepared_ok :: "(nat \<Rightarrow> u16 list option list) \<Rightarrow> prepared_lists \<Rightarrow> bool" where
  "prepared_ok content pl \<longleftrightarrow> (\<forall>(i, p) \<in> set pl. pr_words p = map word_of_row (content i) \<and>
     (\<forall>(th, vs) \<in> set (pr_verdicts p). sound_verdicts (pr_words p) th vs))"

lemma prepareList_ok:
  assumes "prepared_ok content pl" and "bl_words l = content (bl_id l)"
    and "prepareList l th pl = (words, vs)"
  shows "words = map word_of_row (bl_words l) \<and> sound_verdicts words th vs"
proof (cases "map_of pl (bl_id l)")
  case None
  then show ?thesis using assms(3) by (auto simp: prepareList_def sound_verdicts_def)
next
  case (Some p)
  then have p: "pr_words p = map word_of_row (content (bl_id l))"
    "\<forall>(th, vs) \<in> set (pr_verdicts p). sound_verdicts (pr_words p) th vs"
    using assms(1) by (auto simp: prepared_ok_def dest!: map_of_SomeD)
  then show ?thesis
    using assms(2,3) Some by (auto simp: prepareList_def sound_verdicts_def split: option.splits dest!: map_of_SomeD)
qed

lemma keep_verdicts_ok:
  assumes "prepared_ok content pl" and "words = map word_of_row (content (bl_id l))" and "sound_verdicts words th vs"
  shows "prepared_ok content (keep_verdicts l th words vs pl)"
proof -
  have "\<forall>(th, vs) \<in> set (case map_of pl (bl_id l) of None \<Rightarrow> [] | Some p \<Rightarrow> pr_verdicts p). sound_verdicts words th vs"
  proof (cases "map_of pl (bl_id l)")
    case (Some p)
    have "pr_words p = words" "\<forall>(th, vs) \<in> set (pr_verdicts p). sound_verdicts (pr_words p) th vs"
      using assms(1,2) map_of_SomeD [OF Some] by (auto simp: prepared_ok_def)
    then show ?thesis using Some by simp
  qed simp
  then show ?thesis using assms by (simp add: prepared_ok_def keep_verdicts_def)
qed

lemma concat_split_b [simp]: "concat (split_b t) = t"
proof (induction t rule: split_b.induct)
  case (2 c cs)
  then show ?case
    using takeWhile_dropWhile_id [of "\<lambda>d. is_w d = is_w c" cs] by (auto simp: Let_def)
qed simp

lemma censored_no_words: "censored t [] th = t"
proof -
  have "censored_part [] th = id" by (rule ext) (simp add: censored_part_def banned_def)
  then show ?thesis by (simp add: censored_def)
qed

lemma length_censored: "length (censored t words th) = length t"
proof -
  have "length (concat (map (censored_part words th) ps)) = length (concat ps)" for ps
    by (induction ps) (simp_all add: censored_part_def)
  then show ?thesis by (simp add: censored_def)
qed

section \<open>Properties\<close>

text \<open>
  C34: The rolling-row distance is the least number of units to insert, remove or replace that turns the
  first word, in lower case, into the second.
\<close>

theorem levenshtein_minimal:
  "getLevenshteinDistance s1 s2 = (LEAST n. edits (lower s1) (lower s2) n)"
proof (rule Least_equality [symmetric])
  show "edits (lower s1) (lower s2) (getLevenshteinDistance s1 s2)"
    using edits_attained [of "length s1" "lower s1" "length s2" "lower s2"] unfolding distance_is_lev_ix
    by (simp add: lower_def)
  show "getLevenshteinDistance s1 s2 \<le> n" if "edits (lower s1) (lower s2) n" for n
    using edits_lower_bound [OF that] unfolding distance_is_lev_ix by (simp add: lower_def)
qed

text \<open>
  The length bound and the verdict cache change no verdict: whatever the censor has seen before, a
  text is censored word by word as the plain similarity test says, and the cache stays sound and small.
\<close>

theorem censor_cache_transparent:
  assumes "prepared_ok content pl" and "bl_words l = content (bl_id l)"
  shows "\<exists>pl'. censorTextWithFuzzyMatch t l th pl = (censored t (map word_of_row (bl_words l)) th, pl') \<and>
    prepared_ok content pl'"
proof (cases "t = [] \<or> bl_words l = []")
  case True
  then show ?thesis
    using assms(1) by (cases "t = []") (auto simp: censorTextWithFuzzyMatch_def censored_no_words, simp add: censored_def)
next
  case False
  obtain words vs where p: "prepareList l th pl = (words, vs)" by fastforce
  note ok = prepareList_ok [OF assms p]
  obtain vs' where "censor_parts words th (split_b t) vs = (map (censored_part words th) (split_b t), vs')"
      and s: "sound_verdicts words th vs'"
    using censor_parts_value ok by blast
  then show ?thesis
    using False p ok keep_verdicts_ok [OF assms(1) _ s, of l] assms(2)
    by (auto simp: censorTextWithFuzzyMatch_def censored_def)
qed

definition demo_list :: blist where
  "demo_list = \<lparr>bl_id = 7, bl_words = [Some (units ''badword''), None]\<rparr>"

theorem censor_cache_transparent_witness:
  "fst (censorTextWithFuzzyMatch (units ''a b@dword BadWord'') demo_list (3/5) []) =
   censored (units ''a b@dword BadWord'') (map word_of_row (bl_words demo_list)) (3/5)"
  using censor_cache_transparent [of "\<lambda>_. bl_words demo_list" "[]" demo_list "units ''a b@dword BadWord''" "3/5"]
  by (auto simp: prepared_ok_def)

text \<open>
  C0: Two words of Devanagari script with a space between them are never censored, whatever the banned
  list holds: the source splits at the borders of ASCII words only.
\<close>

definition is_devanagari :: "u16 \<Rightarrow> bool" where
  "is_devanagari c \<longleftrightarrow> 0x900 \<le> c \<and> c \<le> 0x97F"

lemma devanagari_not_w: "is_devanagari c \<Longrightarrow> \<not> is_w c"
  unfolding is_devanagari_def is_w_def by (auto simp: word_le_nat_alt)

theorem devanagari_sentence_uncensored:
  assumes "list_all is_devanagari (a @ b)" and "t = a @ [32] @ b"
  shows "fst (censorTextWithFuzzyMatch t l th pl) = t"
proof (cases t)
  case (Cons c cs)
  have n: "\<not> is_w d" if "d \<in> set t" for d
    using that assms devanagari_not_w by (auto simp: list_all_iff is_w_def word_le_nat_alt)
  have "split_b t = [t]"
    using n Cons by (auto simp: Let_def takeWhile_eq_all_conv [THEN iffD2])
  moreover have "\<not> is_wordchar (32 :: u16)"
    by (simp add: is_wordchar_def word_le_nat_alt)
  then have "\<not> list_all is_wordchar t" using assms(2) by simp
  ultimately show ?thesis
    by (auto simp: censorTextWithFuzzyMatch_def censor_part_def split: prod.split)
qed (use assms in simp)

theorem devanagari_sentence_uncensored_witness:
  "fst (censorTextWithFuzzyMatch [0x915, 32, 0x915] \<lparr>bl_id = 0, bl_words = [Some [0x915]]\<rparr> (3/5) []) = [0x915, 32, 0x915] \<and>
   fst (censorTextWithFuzzyMatch [0x915] \<lparr>bl_id = 0, bl_words = [Some [0x915]]\<rparr> (3/5) []) = [42]"
proof
  show "fst (censorTextWithFuzzyMatch [0x915, 32, 0x915] \<lparr>bl_id = 0, bl_words = [Some [0x915]]\<rparr> (3/5) []) = [0x915, 32, 0x915]"
    by (rule devanagari_sentence_uncensored [of "[0x915]" "[0x915]"]) (simp_all add: is_devanagari_def)
  show "fst (censorTextWithFuzzyMatch [0x915] \<lparr>bl_id = 0, bl_words = [Some [0x915]]\<rparr> (3/5) []) = [42]"
    by code_simp
qed

end
