(* ===== verification/Restrictions.thy ===== *)
theory Restrictions
  imports Stream_Lifecycle
begin

text \<open>
  Timed restrictions of a user (chat mute, audio mute, messaging, start ban) and the coin freeze,
  \<open>src/routes/service/serviceAdmin.js\<close>. The restriction table is a list of rows that a statement
  reads or changes as a whole; a date is the number of its milliseconds. What \<open>setImmediate\<close> defers is
  a job, given to \<open>ad_defer\<close> and run later by \<open>run_job\<close>.
\<close>

section \<open>Rows and statements\<close>

record restr =
  rs_id :: string
  rs_userId :: string
  rs_type :: string
  rs_until :: int
  rs_reason :: jsval
  rs_reportId :: jsval
  rs_createdBy :: string
  rs_createdAt :: int
  rs_clearedAt :: "int option"
  rs_clearedBy :: jsval

definition active :: "int \<Rightarrow> restr \<Rightarrow> bool" where
  "active now r \<longleftrightarrow> rs_clearedAt r = None \<and> now < rs_until r"

definition restr_json :: "restr \<Rightarrow> jsval" where
  "restr_json r = Obj
     [(''id'', Str (rs_id r)), (''userId'', Str (rs_userId r)), (''type'', Str (rs_type r)), (''restrictedUntil'', NumI (rs_until r)),
      (''reason'', rs_reason r), (''reportId'', rs_reportId r), (''createdByAdminId'', Str (rs_createdBy r)),
      (''createdAt'', NumI (rs_createdAt r)),
      (''clearedAt'', case rs_clearedAt r of None \<Rightarrow> Null | Some t \<Rightarrow> NumI t), (''clearedByAdminId'', rs_clearedBy r)]"

text \<open>\<open>updateMany\<close> that stamps the rows of \<open>P\<close> as cleared.\<close>

definition soft_clear :: "(restr \<Rightarrow> bool) \<Rightarrow> int \<Rightarrow> jsval \<Rightarrow> restr list \<Rightarrow> restr list" where
  "soft_clear P now adminId tbl =
     map (\<lambda>r. if P r then r\<lparr>rs_clearedAt := Some now, rs_clearedBy := adminId\<rparr> else r) tbl"

datatype admin_job =
    KillStream string
  | EndCalls string
  | KickSheets string
  | UnmuteSheets string
  | EmitCleared string string
  | NotifySuperAdmins string string jsval int jsval

text \<open>\<open>ad_modify\<close> applies one statement or transaction atomically and gives the table as it was before.\<close>

record 'w admin_env =
  ad_redis :: "'w redis"
  ad_now :: "'w \<Rightarrow> int"
  ad_read :: "('w, restr list) act"
  ad_modify :: "(restr list \<Rightarrow> restr list) \<Rightarrow> ('w, restr list) act"
  ad_uuid :: "('w, string) act"
  ad_grants :: "string \<Rightarrow> ('w, jsval list) act"                \<comment> \<open>the countries granted to an admin\<close>
  ad_country :: "string \<Rightarrow> ('w, jsval) act"                    \<comment> \<open>the user's row with its country\<close>
  ad_setFrozen :: "string \<Rightarrow> bool \<Rightarrow> ('w, jsval) act"
  ad_defer :: "admin_job \<Rightarrow> ('w, unit) act"
  ad_baseUrl :: "string option"
  ad_secret :: "string option"

section \<open>Who may moderate\<close>

definition AppError :: "int \<Rightarrow> string \<Rightarrow> string \<Rightarrow> exn" where
  "AppError st m c = (Error m)\<lparr>e_name := ''AppError'', e_code := Some c, e_status := Some st\<rparr>"

definition assertCountryAccessOrThrow :: "'w admin_env \<Rightarrow> string option \<Rightarrow> string option \<Rightarrow> string \<Rightarrow> ('w, unit) act" where
  "assertCountryAccessOrThrow A adminId adminRole targetUserId =
     (if adminRole = Some ''SUPER_ADMIN'' then ret ()
      else if \<not> truthy_str adminId then ret ()
      else bindA (ad_grants A (the adminId)) (\<lambda>grants.
        if grants = [] then ret ()
        else bindA (ad_country A targetUserId) (\<lambda>targetUser.
          let country = get_field targetUser ''country'' in
          if \<not> truthy country \<or> country \<notin> set grants
          then throw (AppError 403 ''You do not have access to this user's country'' ''COUNTRY_ACCESS_FORBIDDEN'')
          else ret ())))"

definition notifySuperAdminsOfModeration :: "'w admin_env \<Rightarrow> string \<Rightarrow> string \<Rightarrow> jsval \<Rightarrow> int \<Rightarrow> jsval \<Rightarrow> ('w, unit) act" where
  "notifySuperAdminsOfModeration A t targetUserId reason restrictedUntil adminId =
     (if \<not> truthy_str (ad_baseUrl A) \<or> \<not> truthy_str (ad_secret A) then ret ()
      else ad_defer A (NotifySuperAdmins t targetUserId (js_or reason Undefined) restrictedUntil adminId))"

definition VALID_RESTRICTION_TYPES :: "string list" where
  "VALID_RESTRICTION_TYPES = [''LIVE_CHAT_MUTE'', ''LIVE_AUDIO_MUTE'', ''MESSAGING_DISABLE'', ''LIVE_STREAM_START_BAN'']"

section \<open>Checking\<close>

definition restr_key :: "string \<Rightarrow> string \<Rightarrow> string" where
  "restr_key userId t = ''user:restriction:'' @ userId @ '':'' @ t"

text \<open>\<open>new Date(v).getTime()\<close> of a date value; \<open>None\<close> is an invalid date.\<close>

definition date_ms :: "jsval \<Rightarrow> int option" where
  "date_ms v = (case v of Num q \<Rightarrow> Some \<lfloor>q\<rfloor> | Null \<Rightarrow> Some 0 | JBool b \<Rightarrow> Some (if b then 1 else 0) | _ \<Rightarrow> None)"

definition current :: "int \<Rightarrow> jsval \<Rightarrow> bool" where
  "current now v \<longleftrightarrow> \<not> truthy (get_field v ''clearedAt'') \<and>
     (case date_ms (get_field v ''restrictedUntil'') of None \<Rightarrow> False | Some t \<Rightarrow> now < t)"

definition getActiveUserRestriction :: "'w admin_env \<Rightarrow> string \<Rightarrow> string \<Rightarrow> ('w, jsval) act" where
  "getActiveUserRestriction A userId t =
     bindA (askA (ad_now A)) (\<lambda>now. bindA (ad_read A) (\<lambda>tbl.
       ret (case find (\<lambda>r. rs_userId r = userId \<and> rs_type r = t \<and> active now r) tbl of
              None \<Rightarrow> Null | Some r \<Rightarrow> restr_json r)))"

definition ttl_seconds :: "int \<Rightarrow> int \<Rightarrow> int" where
  "ttl_seconds until now = max 1 ((until - now) div 1000)"

definition cached_restriction :: "'w admin_env \<Rightarrow> string \<Rightarrow> ('w, jsval option) act" where
  "cached_restriction A redisKey =
     catchA
       (ifOpen (ad_redis A)
          (bindA (r_get (ad_redis A) redisKey) (\<lambda>cached.
             if truthy_text cached then
               bindA (parseA (the cached)) (\<lambda>parsed.
               bindA (dot parsed ''clearedAt'') (\<lambda>_.
               bindA (askA (ad_now A)) (\<lambda>now.
                 if current now parsed then ret (Some parsed)
                 else thenA (quietly (r_del (ad_redis A) [redisKey])) (ret None))))
             else ret None))
          (ret None))
       (\<lambda>_. ret None)"

definition isUserRestrictedFast :: "'w admin_env \<Rightarrow> string \<Rightarrow> string \<Rightarrow> ('w, jsval) act" where
  "isUserRestrictedFast A userId t =
     bindA (cached_restriction A (restr_key userId t)) (\<lambda>hit.
       case hit of
         Some v \<Rightarrow> ret v
       | None \<Rightarrow>
           bindA (getActiveUserRestriction A userId t) (\<lambda>row.
             thenA
               (ifOpen (ad_redis A)
                  (if truthy row then
                     bindA (askA (ad_now A)) (\<lambda>now.
                       quietly (r_set (ad_redis A) (restr_key userId t) (JSON_stringify row)
                         (ex_s (ttl_seconds (case date_ms (get_field row ''restrictedUntil'') of None \<Rightarrow> 0 | Some u \<Rightarrow> u) now))))
                   else quietly (r_del (ad_redis A) [restr_key userId t]))
                  (ret ()))
               (ret row)))"

definition getUserActiveRestrictions :: "'w admin_env \<Rightarrow> string \<Rightarrow> ('w, restr list) act" where
  "getUserActiveRestrictions A userId =
     bindA (askA (ad_now A)) (\<lambda>now. bindA (ad_read A) (\<lambda>tbl.
       ret (rev (sort_key rs_createdAt (filter (\<lambda>r. rs_userId r = userId \<and> active now r) tbl)))))"

definition getUserRestrictionsHistory :: "'w admin_env \<Rightarrow> string \<Rightarrow> ('w, restr list) act" where
  "getUserRestrictionsHistory A userId =
     bindA (ad_read A) (\<lambda>tbl. ret (rev (sort_key rs_createdAt (filter (\<lambda>r. rs_userId r = userId) tbl))))"

section \<open>Applying\<close>

fun join :: "string \<Rightarrow> string list \<Rightarrow> string" where
  "join s [] = []"
| "join s [x] = x"
| "join s (x # y # ys) = x @ s @ join s (y # ys)"

record restr_request =
  rq_userId :: string
  rq_type :: string
  rq_restrictedUntil :: jsval
  rq_reason :: jsval
  rq_reportId :: jsval
  rq_adminId :: "string option"
  rq_adminRole :: "string option"

text \<open>The transaction: clear the active rows of the type, then insert.\<close>

definition replace_active :: "int \<Rightarrow> jsval \<Rightarrow> restr \<Rightarrow> restr list \<Rightarrow> restr list" where
  "replace_active now adminId new tbl =
     soft_clear (\<lambda>r. rs_userId r = rs_userId new \<and> rs_type r = rs_type new \<and> active now r) now adminId tbl @ [new]"

definition new_restr :: "restr_request \<Rightarrow> string \<Rightarrow> int \<Rightarrow> int \<Rightarrow> restr" where
  "new_restr q i until now = \<lparr>rs_id = i, rs_userId = rq_userId q, rs_type = rq_type q, rs_until = until,
     rs_reason = js_or (rq_reason q) Null, rs_reportId = js_or (rq_reportId q) Null,
     rs_createdBy = str_or (rq_adminId q) (rq_userId q), rs_createdAt = now, rs_clearedAt = None, rs_clearedBy = Null\<rparr>"

text \<open>What follows the transaction: the cache, the notice to the super admins, the deferred jobs.\<close>

definition after_restriction :: "'w admin_env \<Rightarrow> restr_request \<Rightarrow> restr \<Rightarrow> ('w, unit) act" where
  "after_restriction A q r =
     bindA (askA (ad_now A)) (\<lambda>now.
     thenA (ifOpen (ad_redis A)
              (quietly (r_set (ad_redis A) (restr_key (rq_userId q) (rq_type q)) (JSON_stringify (restr_json r))
                (ex_s (ttl_seconds (rs_until r) now))))
              (ret ()))
     (thenA (whenA (rq_type q = ''LIVE_CHAT_MUTE'' \<or> rq_type q = ''LIVE_AUDIO_MUTE'')
              (notifySuperAdminsOfModeration A (rq_type q) (rq_userId q) (rq_reason q) (rs_until r)
                (str_or_null (rq_adminId q))))
     (thenA (whenA (rq_type q = ''LIVE_STREAM_START_BAN'') (ad_defer A (KillStream (rq_userId q))))
     (thenA (whenA (rq_type q = ''PERSONAL_COINS_FREEZE'' \<or> rq_type q = ''TRADING_COINS_FREEZE'')
              (ad_defer A (EndCalls (rq_userId q))))
       (whenA (rq_type q = ''LIVE_AUDIO_MUTE'') (ad_defer A (KickSheets (rq_userId q))))))))"

definition applyUserRestrictionService :: "'w admin_env \<Rightarrow> restr_request \<Rightarrow> ('w, restr) act" where
  "applyUserRestrictionService A q =
     bindA (askA (ad_now A)) (\<lambda>now.
       case date_ms (rq_restrictedUntil q) of
         None \<Rightarrow> throw (Error ''restrictedUntil must be a valid future date/time'')
       | Some until \<Rightarrow>
           if until \<le> now then throw (Error ''restrictedUntil must be a valid future date/time'')
           else if rq_type q \<notin> set VALID_RESTRICTION_TYPES then
             throw (Error (''Invalid restriction type. Must be one of: '' @ join '', '' VALID_RESTRICTION_TYPES))
           else
             thenA (whenA (rq_type q = ''LIVE_CHAT_MUTE'' \<or> rq_type q = ''LIVE_AUDIO_MUTE'')
                      (assertCountryAccessOrThrow A (rq_adminId q) (rq_adminRole q) (rq_userId q)))
             (bindA (ad_uuid A) (\<lambda>i.
                let r = new_restr q i until now in
                thenA (ad_modify A (replace_active now (str_or_null (rq_adminId q)) r))
                (thenA (after_restriction A q r) (ret r)))))"

section \<open>Clearing\<close>

text \<open>\<open>count > 0\<close>: drop the cached restriction, unmute the sheets, tell the user.\<close>

definition after_clear :: "'w admin_env \<Rightarrow> string \<Rightarrow> string \<Rightarrow> ('w, unit) act" where
  "after_clear A userId t =
     thenA (ifOpen (ad_redis A) (quietly (r_del (ad_redis A) [restr_key userId t])) (ret ()))
     (thenA (whenA (t = ''LIVE_AUDIO_MUTE'') (ad_defer A (UnmuteSheets userId)))
       (ad_defer A (EmitCleared userId t)))"

definition clearRestrictionByIdService :: "'w admin_env \<Rightarrow> string \<Rightarrow> string \<Rightarrow> jsval \<Rightarrow> ('w, bool) act" where
  "clearRestrictionByIdService A userId restrictionId adminId =
     bindA (askA (ad_now A)) (\<lambda>now.
     bindA (ad_read A) (\<lambda>tbl0.
     let P = (\<lambda>r. rs_id r = restrictionId \<and> rs_userId r = userId \<and> rs_clearedAt r = None) in
     bindA (ad_modify A (soft_clear P now adminId)) (\<lambda>tbl.
       let count = length (filter P tbl) in
       thenA
         (case find (\<lambda>r. rs_id r = restrictionId \<and> rs_userId r = userId) tbl0 of
            None \<Rightarrow> ret ()
          | Some restriction \<Rightarrow> whenA (0 < count) (after_clear A userId (rs_type restriction)))
         (ret (0 < count)))))"

definition clearRestrictionsByTypeService :: "'w admin_env \<Rightarrow> string \<Rightarrow> string \<Rightarrow> jsval \<Rightarrow> ('w, nat) act" where
  "clearRestrictionsByTypeService A userId t adminId =
     bindA (askA (ad_now A)) (\<lambda>now.
     let P = (\<lambda>r. rs_userId r = userId \<and> rs_type r = t \<and> rs_clearedAt r = None) in
     bindA (ad_modify A (soft_clear P now adminId)) (\<lambda>tbl.
       let count = length (filter P tbl) in
       thenA (whenA (0 < count) (after_clear A userId t)) (ret count)))"

definition toggleUserCoinsFreezeService :: "'w admin_env \<Rightarrow> string \<Rightarrow> bool \<Rightarrow> ('w, jsval) act" where
  "toggleUserCoinsFreezeService A userId isFrozen =
     bindA (ad_setFrozen A userId isFrozen) (\<lambda>updatedUser.
       thenA (ifOpen (ad_redis A)
                (thenA (r_set (ad_redis A) (''user:coins_frozen:'' @ userId) (Raw (if isFrozen then ''1'' else ''0'')) (ex_s 300)) (ret ()))
                (ret ()))
         (ret updatedUser))"

section \<open>The deferred jobs\<close>

record 'w job_env =
  jb_life :: "'w life_env"
  jb_db :: "'w life_db"
  jb_liveOf :: "string \<Rightarrow> ('w, jsval) act"                   \<comment> \<open>the live, unended stream of a user\<close>
  jb_liveStreams :: "('w, jsval list) act"
  jb_activeCallsOf :: "string \<Rightarrow> ('w, jsval list) act"        \<comment> \<open>sessions he pays as caller\<close>
  jb_endVideoCall :: "string \<Rightarrow> string \<Rightarrow> string \<Rightarrow> ('w, unit) act"
  jb_emitTo :: "string \<Rightarrow> string \<Rightarrow> jsval \<Rightarrow> ('w, unit) act"
  jb_postNotice :: "jsval \<Rightarrow> ('w, unit) act"

text \<open>On every live stream where the user sits on the sheet.\<close>

definition on_sheets :: "'w admin_env \<Rightarrow> 'w job_env \<Rightarrow> string \<Rightarrow> (string \<Rightarrow> ('w, unit) act) \<Rightarrow> ('w, unit) act" where
  "on_sheets A J userId f =
     bindA (jb_liveStreams J) (\<lambda>streams.
       forA (\<lambda>s. let sid = js_String (js_or (get_field s ''streamId'') (get_field s ''id'')) in
         bindA (r_hget (ad_redis A) (key ''stream:sheet'' sid) userId) (\<lambda>rawUser.
           whenA (truthy_text rawUser) (f sid))) streams)"

fun run_job :: "'w admin_env \<Rightarrow> 'w job_env \<Rightarrow> admin_job \<Rightarrow> ('w, unit) act" where
  "run_job A J (KillStream userId) = quietly
     (bindA (jb_liveOf J userId) (\<lambda>s.
        whenA (truthy s) (thenA (endLiveStreamService (jb_life J) (ad_redis A) (jb_db J) (js_String (get_field s ''id'')) userId
          ''ADMIN_RESTRICTION_BAN'') (ret ()))))"
| "run_job A J (EndCalls userId) = quietly
     (bindA (jb_activeCallsOf J userId) (\<lambda>ss.
        forA (\<lambda>s. jb_endVideoCall J (js_String (get_field s ''id'')) (js_String (get_field s ''callerId'')) ''ADMIN_FREEZE'') ss))"
| "run_job A J (KickSheets userId) = quietly (on_sheets A J userId (\<lambda>sid.
     thenA (removeUserFromSheetService (ad_redis A) sid userId)
       (en_broadcast (jb_life J) sid ''user_left_sheet''
         (Obj [(''userId'', Str userId), (''reason'', Str ''ADMIN_RESTRICTION'')]))))"
| "run_job A J (UnmuteSheets userId) = quietly (on_sheets A J userId (\<lambda>sid.
     thenA (toggleUserSheetMuteService (ad_redis A) (ad_now A) sid userId (JBool False) (JBool False))
       (en_broadcast (jb_life J) sid ''sheet_mute_changed''
         (Obj [(''userId'', Str userId), (''isMuted'', JBool False)]))))"
| "run_job A J (EmitCleared userId t) = quietly (jb_emitTo J (''user:'' @ userId) ''user_restriction_cleared''
     (Obj [(''userId'', Str userId), (''type'', Str t)]))"
| "run_job A J (NotifySuperAdmins t userId reason until adminId) = quietly (jb_postNotice J
     (Obj [(''type'', Str t), (''targetUserId'', Str userId), (''reason'', reason), (''restrictedUntil'', NumI until),
           (''performedByAdminId'', adminId)]))"

section \<open>The table\<close>

text \<open>Every history of the table: restrictions applied, cleared by id or by type, while time goes on.\<close>

inductive restr_history :: "int \<Rightarrow> restr list \<Rightarrow> bool" where
  hist_empty: "restr_history now []"
| hist_time: "restr_history now tbl \<Longrightarrow> now \<le> now' \<Longrightarrow> restr_history now' tbl"
| hist_apply: "restr_history now tbl \<Longrightarrow> restr_history now (replace_active now adminId (new_restr q i until now) tbl)"
| hist_clear: "restr_history now tbl \<Longrightarrow> restr_history now (soft_clear P now adminId tbl)"

definition active_of :: "int \<Rightarrow> string \<Rightarrow> string \<Rightarrow> restr list \<Rightarrow> restr list" where
  "active_of now u t tbl = filter (\<lambda>r. rs_userId r = u \<and> rs_type r = t \<and> active now r) tbl"

lemma active_of_later: "now \<le> now' \<Longrightarrow> length (active_of now' u t tbl) \<le> length (active_of now u t tbl)"
  by (induction tbl) (auto simp: active_of_def active_def)

lemma active_of_soft_clear: "length (active_of now u t (soft_clear P c a tbl)) \<le> length (active_of now u t tbl)"
  by (induction tbl) (auto simp: active_of_def active_def soft_clear_def)

lemma soft_clear_all:
  "(\<And>r. rs_userId r = u \<Longrightarrow> rs_type r = t \<Longrightarrow> active now r \<Longrightarrow> P r) \<Longrightarrow> active_of now u t (soft_clear P c a tbl) = []"
  by (induction tbl) (auto simp: active_of_def soft_clear_def, simp_all add: active_def)

lemma soft_clear_others:
  "(\<And>r. P r \<Longrightarrow> rs_userId r = u \<Longrightarrow> rs_type r \<noteq> t) \<Longrightarrow> active_of now u t (soft_clear P c a tbl) = active_of now u t tbl"
  by (induction tbl) (auto simp: active_of_def soft_clear_def)

lemma active_of_snoc:
  "active_of now u t (tbl @ [r]) =
     active_of now u t tbl @ (if rs_userId r = u \<and> rs_type r = t \<and> active now r then [r] else [])"
  by (simp add: active_of_def)

lemma active_of_replace:
  "length (active_of now u t (replace_active now a new tbl)) \<le>
     (if rs_userId new = u \<and> rs_type new = t then 1 else length (active_of now u t tbl))"
proof (cases "rs_userId new = u \<and> rs_type new = t")
  case True
  then show ?thesis
    unfolding replace_active_def active_of_snoc by (subst soft_clear_all) auto
next
  case False
  then show ?thesis
    unfolding replace_active_def active_of_snoc by (subst soft_clear_others) auto
qed

section \<open>The cache\<close>

text \<open>Statements and jobs leave Redis alone.\<close>

locale admin_store = redis_kv "ad_redis A" kv clk up
  for A :: "'w admin_env" and kv clk up +
  assumes modify_frame: "up w \<Longrightarrow> ad_modify A f w = (r, w1) \<Longrightarrow> up w1 \<and> kv w1 = kv w \<and> ad_now A w1 = ad_now A w"
    and defer_frame: "up w \<Longrightarrow> \<exists>w1. ad_defer A j w = (Inr (), w1) \<and> up w1 \<and> kv w1 = kv w \<and> ad_now A w1 = ad_now A w"
    and uuid_frame: "up w \<Longrightarrow> ad_uuid A w = (i, w1) \<Longrightarrow> up w1 \<and> kv w1 = kv w \<and> ad_now A w1 = ad_now A w"
    and check_frame: "up w \<Longrightarrow> assertCountryAccessOrThrow A x y u w = (c, w1) \<Longrightarrow> up w1 \<and> ad_now A w1 = ad_now A w"
    and set_frame: "up w \<Longrightarrow> r_set (ad_redis A) k v opt w = (b, w1) \<Longrightarrow> ad_now A w1 = ad_now A w"
begin

definition quiet :: "('w, unit) act \<Rightarrow> bool" where
  "quiet m \<longleftrightarrow> (\<forall>w. up w \<longrightarrow> (\<exists>w1. m w = (Inr (), w1) \<and> up w1 \<and> kv w1 = kv w \<and> ad_now A w1 = ad_now A w))"

lemma quiet_defer: "quiet (ad_defer A j)"
  using defer_frame by (simp add: quiet_def)

lemma quiet_ret: "quiet (ret ())"
  by (simp add: quiet_def act_simps)

lemma quiet_when: "quiet m \<Longrightarrow> quiet (whenA b m)"
  by (simp add: quiet_def act_simps)

lemma quiet_then: "quiet m \<Longrightarrow> quiet n \<Longrightarrow> quiet (thenA m n)"
  unfolding quiet_def
proof (intro allI impI)
  fix w
  assume m: "\<forall>w. up w \<longrightarrow> (\<exists>w1. m w = (Inr (), w1) \<and> up w1 \<and> kv w1 = kv w \<and> ad_now A w1 = ad_now A w)"
    and n: "\<forall>w. up w \<longrightarrow> (\<exists>w1. n w = (Inr (), w1) \<and> up w1 \<and> kv w1 = kv w \<and> ad_now A w1 = ad_now A w)" and "up w"
  then obtain w1 where 1: "m w = (Inr (), w1)" "up w1" "kv w1 = kv w" "ad_now A w1 = ad_now A w" by blast
  then obtain w2 where 2: "n w1 = (Inr (), w2)" "up w2" "kv w2 = kv w1" "ad_now A w2 = ad_now A w1" using n by blast
  show "\<exists>w1. thenA m n w = (Inr (), w1) \<and> up w1 \<and> kv w1 = kv w \<and> ad_now A w1 = ad_now A w"
    using 1 2 by (simp add: act_simps)
qed

lemma quiet_notify: "quiet (notifySuperAdminsOfModeration A t u r d i)"
  by (simp add: notifySuperAdminsOfModeration_def quiet_ret quiet_defer)

lemma after_restriction_caches:
  assumes "up w"
  obtains w1 e where "after_restriction A q r w = (Inr (), w1)" "up w1" "ad_now A w1 = ad_now A w"
    "kv w1 (restr_key (rq_userId q) (rq_type q)) = Some (Json (restr_json r), e)"
proof -
  let ?k = "restr_key (rq_userId q) (rq_type q)"
  obtain w0 where s: "r_set (ad_redis A) ?k (Json (restr_json r)) (ex_s (ttl_seconds (rs_until r) (ad_now A w))) w = (Inr True, w0)"
      "up w0" "kv w0 = (kv w)(?k \<mapsto> (Json (restr_json r), Some (clk w + ttl_seconds (rs_until r) (ad_now A w) * 1000)))"
    by (rule set_ex [OF assms, of "ttl_seconds (rs_until r) (ad_now A w)" ?k "Json (restr_json r)"])
      (auto simp: ttl_seconds_def)
  define rest where "rest = thenA (whenA (rq_type q = ''LIVE_CHAT_MUTE'' \<or> rq_type q = ''LIVE_AUDIO_MUTE'')
              (notifySuperAdminsOfModeration A (rq_type q) (rq_userId q) (rq_reason q) (rs_until r) (str_or_null (rq_adminId q))))
     (thenA (whenA (rq_type q = ''LIVE_STREAM_START_BAN'') (ad_defer A (KillStream (rq_userId q))))
     (thenA (whenA (rq_type q = ''PERSONAL_COINS_FREEZE'' \<or> rq_type q = ''TRADING_COINS_FREEZE'')
              (ad_defer A (EndCalls (rq_userId q))))
       (whenA (rq_type q = ''LIVE_AUDIO_MUTE'') (ad_defer A (KickSheets (rq_userId q))))))"
  have "quiet rest"
    unfolding rest_def by (intro quiet_then quiet_when quiet_defer quiet_notify)
  then obtain w1 where "rest w0 = (Inr (), w1)" "up w1" "kv w1 = kv w0" "ad_now A w1 = ad_now A w0"
    using s(2) unfolding quiet_def by blast
  moreover have "after_restriction A q r w = rest w0"
    using up_open [OF assms] s(1) unfolding after_restriction_def rest_def [symmetric]
    by (simp add: bindA_run askA_run thenA_run quietly_run ifOpen_run JSON_stringify_def)
  ultimately show thesis
    using that set_frame [OF assms s(1)] s(3) by simp
qed

lemma cached_is_answer:
  assumes "up w" and "kv w (restr_key u t) = Some (Json (restr_json r), e)" and "active (ad_now A w) r"
  shows "isUserRestrictedFast A u t w = (Inr (restr_json r), w)"
proof -
  have "current (ad_now A w) (restr_json r)"
    using assms(3) by (simp add: current_def restr_json_def get_field_def date_ms_def active_def truthy_def)
  moreover have "r_get (ad_redis A) (restr_key u t) w = (Inr (Some (Json (restr_json r))), w)"
    using get [OF assms(1), of "restr_key u t"] assms(2) by simp
  moreover have "(dot (restr_json r) ''clearedAt'' :: ('w, jsval) act) = ret (get_field (restr_json r) ''clearedAt'')"
    by (simp add: dot_def restr_json_def is_nullish_def)
  ultimately show ?thesis
    using up_open [OF assms(1)] by (simp add: isUserRestrictedFast_def cached_restriction_def act_simps truthy_text_def)
qed

lemma applied_is_checked:
  assumes "up w" and "applyUserRestrictionService A q w = (Inr r, w1)"
  shows "isUserRestrictedFast A (rq_userId q) (rq_type q) w1 = (Inr (restr_json r), w1)"
proof -
  obtain until where u: "date_ms (rq_restrictedUntil q) = Some until" "ad_now A w < until"
    and v: "rq_type q \<in> set VALID_RESTRICTION_TYPES"
    using assms(2) by (auto simp: applyUserRestrictionService_def act_simps split: option.splits if_splits)
  have eq: "thenA (whenA (rq_type q = ''LIVE_CHAT_MUTE'' \<or> rq_type q = ''LIVE_AUDIO_MUTE'')
        (assertCountryAccessOrThrow A (rq_adminId q) (rq_adminRole q) (rq_userId q)))
      (bindA (ad_uuid A) (\<lambda>i. thenA (ad_modify A (replace_active (ad_now A w) (str_or_null (rq_adminId q)) (new_restr q i until (ad_now A w))))
        (thenA (after_restriction A q (new_restr q i until (ad_now A w))) (ret (new_restr q i until (ad_now A w)))))) w = (Inr r, w1)"
    using assms(2) u v by (simp add: applyUserRestrictionService_def bindA_run [of "askA (ad_now A)"] askA_run Let_def)
  then obtain x w2 where c: "whenA (rq_type q = ''LIVE_CHAT_MUTE'' \<or> rq_type q = ''LIVE_AUDIO_MUTE'')
        (assertCountryAccessOrThrow A (rq_adminId q) (rq_adminRole q) (rq_userId q)) w = (Inr x, w2)"
      and d: "bindA (ad_uuid A) (\<lambda>i. thenA (ad_modify A (replace_active (ad_now A w) (str_or_null (rq_adminId q)) (new_restr q i until (ad_now A w))))
        (thenA (after_restriction A q (new_restr q i until (ad_now A w))) (ret (new_restr q i until (ad_now A w))))) w2 = (Inr r, w1)"
    unfolding thenA_Inr by blast
  have f2: "up w2 \<and> ad_now A w2 = ad_now A w"
    using c check_frame [OF assms(1)] assms(1) by (auto simp: whenA_run split: if_splits)
  obtain i w3 y w4 z w5 where "ad_uuid A w2 = (Inr i, w3)"
    "ad_modify A (replace_active (ad_now A w) (str_or_null (rq_adminId q)) (new_restr q i until (ad_now A w))) w3 = (Inr y, w4)"
    and a: "after_restriction A q (new_restr q i until (ad_now A w)) w4 = (Inr z, w5)" and e: "r = new_restr q i until (ad_now A w)" "w1 = w5"
    using d unfolding act_Inr by blast
  then have f4: "up w4 \<and> ad_now A w4 = ad_now A w"
    using f2 uuid_frame modify_frame by metis
  obtain w6 e' where g: "after_restriction A q r w4 = (Inr (), w6)" "up w6" "ad_now A w6 = ad_now A w4"
      "kv w6 (restr_key (rq_userId q) (rq_type q)) = Some (Json (restr_json r), e')"
    by (rule after_restriction_caches [of w4 q r]) (use f4 in auto)
  have "w1 = w6" using a e g(1) by simp
  moreover have "active (ad_now A w6) r"
    using u(2) f4 g(3) e by (simp add: active_def new_restr_def)
  ultimately show ?thesis using cached_is_answer [OF g(2,4)] by simp
qed

end

section \<open>A concrete table\<close>

record admin_mem = mem +
  am_tbl :: "restr list"
  am_jobs :: "admin_job list"

definition admin0 :: "int \<Rightarrow> admin_mem" where
  "admin0 t = mem.extend (mem0 t) \<lparr>am_tbl = [], am_jobs = []\<rparr>"

definition mem_admin_env :: "admin_mem admin_env" where
  "mem_admin_env = \<lparr>ad_redis = mem_redis, ad_now = m_clk, ad_read = askA am_tbl,
     ad_modify = (\<lambda>f w. (Inr (am_tbl w), w\<lparr>am_tbl := f (am_tbl w)\<rparr>)), ad_uuid = ret ''i'',
     ad_grants = (\<lambda>_. ret []), ad_country = (\<lambda>_. ret Null), ad_setFrozen = (\<lambda>u b. ret Null),
     ad_defer = (\<lambda>j w. (Inr (), w\<lparr>am_jobs := am_jobs w @ [j]\<rparr>)), ad_baseUrl = None, ad_secret = None\<rparr>"

lemma mem_set_clk: "r_set mem_redis k v opt w = (b, w1) \<Longrightarrow> m_clk w1 = m_clk w"
  by (auto simp: mem_redis_def split: if_splits)

interpretation adm: admin_store mem_admin_env mem_live m_clk "\<lambda>_. True"
proof -
  have r: "ad_redis mem_admin_env = mem_redis" by (simp add: mem_admin_env_def)
  have l: "mem_live (w\<lparr>am_tbl := x\<rparr>) = mem_live w" "mem_live (w\<lparr>am_jobs := y\<rparr>) = mem_live w" for w x y
    by (rule mem_live_same; simp)+
  show "admin_store mem_admin_env mem_live m_clk (\<lambda>_. True)"
    unfolding admin_store_def r admin_store_axioms_def
    using mem.redis_kv_axioms mem_set_clk
    by (auto simp: mem_admin_env_def l act_simps assertCountryAccessOrThrow_def split: if_splits)
qed

section \<open>Properties\<close>


definition demo_mute :: "int \<Rightarrow> restr_request" where
  "demo_mute t = \<lparr>rq_userId = ''u'', rq_type = ''MESSAGING_DISABLE'', rq_restrictedUntil = NumI t, rq_reason = Null,
     rq_reportId = Null, rq_adminId = Some ''a'', rq_adminRole = None\<rparr>"


text \<open>
  C32: A restriction that was applied is seen by the next check at once: the check gives the created row
  from the cache, without reading the table.
\<close>

theorem applied_restriction_checked:
  assumes "admin_store A kv clk up" and "up w" and "applyUserRestrictionService A q w = (Inr r, w1)"
  shows "isUserRestrictedFast A (rq_userId q) (rq_type q) w1 = (Inr (restr_json r), w1)"
  by (rule admin_store.applied_is_checked [OF assms])

definition accepted :: "(exn + restr) \<times> admin_mem \<Rightarrow> bool" where
  "accepted x = (case x of (Inr r, w) \<Rightarrow> rs_until r = 90000 | _ \<Rightarrow> False)"

lemma demo_mute_accepted: "accepted (applyUserRestrictionService mem_admin_env (demo_mute 90000) (admin0 0))"
  by code_simp

theorem applied_restriction_checked_witness:
  "\<exists>r w1. applyUserRestrictionService mem_admin_env (demo_mute 90000) (admin0 0) = (Inr r, w1) \<and> rs_until r = 90000 \<and>
    isUserRestrictedFast mem_admin_env ''u'' ''MESSAGING_DISABLE'' w1 = (Inr (restr_json r), w1)"
proof -
  obtain r w1 where a: "applyUserRestrictionService mem_admin_env (demo_mute 90000) (admin0 0) = (Inr r, w1)" "rs_until r = 90000"
    using demo_mute_accepted by (auto simp: accepted_def split: prod.splits sum.splits)
  have "isUserRestrictedFast mem_admin_env (rq_userId (demo_mute 90000)) (rq_type (demo_mute 90000)) w1 = (Inr (restr_json r), w1)"
    by (rule applied_restriction_checked [OF adm.admin_store_axioms _ a(1)]) simp
  then show ?thesis using a by (simp add: demo_mute_def)
qed

text \<open>
  A coin freeze is no valid restriction type: the service refuses it before anything happens, so its
  branch that ends the active video calls of a frozen user is never taken.
\<close>

theorem freeze_restriction_refused:
  assumes "rq_type q = ''PERSONAL_COINS_FREEZE'' \<or> rq_type q = ''TRADING_COINS_FREEZE''"
  shows "\<exists>e. applyUserRestrictionService A q w = (Inl e, w)"
proof -
  have "rq_type q \<notin> set VALID_RESTRICTION_TYPES"
    using assms by (elim disjE) (simp_all add: VALID_RESTRICTION_TYPES_def)
  then show ?thesis
    by (cases "date_ms (rq_restrictedUntil q)") (simp_all add: applyUserRestrictionService_def act_simps)
qed

theorem freeze_restriction_refused_witness:
  "\<exists>e. applyUserRestrictionService mem_admin_env ((demo_mute 90000)\<lparr>rq_type := ''PERSONAL_COINS_FREEZE''\<rparr>) (admin0 0) =
    (Inl e, admin0 0)"
  by (rule freeze_restriction_refused) simp

end
