(* ===== verification/Stream_Chat.thy ===== *)
theory Stream_Chat
  imports Censor Restrictions User_Names
begin

text \<open>
  The chat of a stream and its viewers, \<open>src/routes/service/serviceMessage.js\<close>: who may write, what is
  stored, what everybody receives, the history, and the sets of viewers. Tables, the id generator and
  the printed dates are parameters; the censor's module state is part of the world.
\<close>

section \<open>The environment\<close>

definition SYSTEM_SENDER_ID :: string where
  "SYSTEM_SENDER_ID = ''00000000-0000-0000-0000-000000000000''"

record censor_state =
  cs_ban :: ban_cache
  cs_curve :: "(nat \<times> blist) list"
  cs_prepared :: prepared_lists
  cs_fresh :: nat                        \<comment> \<open>identities of list objects from here on are unused\<close>

record 'w chat_env =
  ch_admin :: "'w admin_env"
  ch_room :: "'w room_db"
  ch_random :: "('w, rat) act"
  ch_uuid :: "('w, string) act"
  ch_user :: "string \<Rightarrow> ('w, jsval) act"
  ch_levels :: "string \<Rightarrow> ('w, (string \<times> jsval) list) act"     \<comment> \<open>level type, current level\<close>
  ch_bubble :: "string \<Rightarrow> ('w, jsval) act"
  ch_follows :: "string \<Rightarrow> string \<Rightarrow> ('w, bool) act"
  ch_messages :: "string \<Rightarrow> ('w, jsval list) act"              \<comment> \<open>the stored rows of a stream, oldest first\<close>
  ch_localeString :: "jsval \<Rightarrow> string"
  ch_censor :: "'w \<Rightarrow> censor_state"
  ch_putCensor :: "censor_state \<Rightarrow> 'w \<Rightarrow> 'w"
  ch_fetchBanned :: "('w, blist) act"
  ch_deferRefresh :: "('w, unit) act"

abbreviation ch_redis :: "'w chat_env \<Rightarrow> 'w redis" where "ch_redis C \<equiv> ad_redis (ch_admin C)"

section \<open>Who may write\<close>

definition refuse_restricted :: "'w chat_env \<Rightarrow> jsval \<Rightarrow> string \<Rightarrow> ('w, unit) act" where
  "refuse_restricted C r prefix =
     (if truthy r then throw (Error (prefix @ ch_localeString C (get_field r ''restrictedUntil''))) else ret ())"

definition chat_mode_gate :: "'w chat_env \<Rightarrow> string \<Rightarrow> string \<Rightarrow> string \<Rightarrow> ('w, unit) act" where
  "chat_mode_gate C streamId senderId mode =
     (if mode = ''EVERYONE'' then ret ()
      else
        bindA (rd_get_field (ch_room C) streamId ''userId'') (\<lambda>stream.
        bindA (isStreamAdminService (ch_redis C) (ch_room C) (Some streamId) (Some senderId) None) (\<lambda>isAdmin.
          let isHost = truthy stream \<and> get_field stream ''userId'' = Str senderId in
          if mode = ''ALL_MUTED'' then
            (if \<not> isHost then throw (Error ''Chat is muted by the host.'') else ret ())
          else if mode = ''ADMINS_ONLY'' then
            (if \<not> isHost \<and> \<not> isAdmin then throw (Error ''Only the host and admins are allowed to send messages.'') else ret ())
          else if mode = ''FOLLOWERS_ONLY'' then
            bindA (dot stream ''userId'') (\<lambda>h.
            bindA (ch_follows C senderId (js_String h)) (\<lambda>isFollowing.
              if \<not> isFollowing then throw (Error ''Only followers of the host are allowed to send messages.'') else ret ()))
          else ret ())))"

definition chat_gate :: "'w chat_env \<Rightarrow> string \<Rightarrow> string \<Rightarrow> ('w, unit) act" where
  "chat_gate C streamId senderId =
     bindA (isUserRestrictedFast (ch_admin C) senderId ''LIVE_CHAT_MUTE'') (\<lambda>chatMute.
     bindA (isUserRestrictedFast (ch_admin C) senderId ''MESSAGING_DISABLE'') (\<lambda>msgDisable.
     bindA (getChatPermissionService (ch_redis C) (ch_room C) streamId) (\<lambda>mode.
       thenA (refuse_restricted C chatMute ''You are muted from sending chat messages until '')
       (thenA (refuse_restricted C msgDisable ''Messaging has been disabled for your account until '')
         (chat_mode_gate C streamId senderId mode)))))"

section \<open>The sender's card\<close>

text \<open>The level map is built from the rows in order, so a later row wins.\<close>

definition level_of :: "(string \<times> jsval) list \<Rightarrow> string \<Rightarrow> string \<Rightarrow> jsval \<Rightarrow> jsval" where
  "level_of levels t column u =
     nullish (case map_of (rev levels) t of None \<Rightarrow> Undefined | Some v \<Rightarrow> v)
       (js_or (get_field (get_field u ''userLevel'') column) (NumI 1))"

definition load_banned :: "'w chat_env \<Rightarrow> ('w, blist) act" where
  "load_banned C =
     bindA (askA (ad_now (ch_admin C))) (\<lambda>now.
     bindA (askA (ch_censor C)) (\<lambda>s.
     bindA (if bl_words (cachedBannedWords (cs_ban s)) = []
            then catchA (bindA (ch_fetchBanned C) (\<lambda>l. ret (Inr l))) (\<lambda>err. ret (Inl err))
            else ret (Inl (Error []))) (\<lambda>fetched.
       let (words, start, ban) = getBannedWords fetched now (cs_ban s) in
       thenA (\<lambda>w. (Inr (), ch_putCensor C ((ch_censor C w)\<lparr>cs_ban := ban\<rparr>) w))
       (thenA (whenA start (ch_deferRefresh C)) (ret words)))))"

text \<open>\<open>censorTextWithFuzzyMatch(message, withCurve(bannedList), 0.6)\<close>; a message that is no text stays.\<close>

definition censor_message :: "blist \<Rightarrow> jsval \<Rightarrow> censor_state \<Rightarrow> jsval \<times> censor_state" where
  "censor_message bannedList message s =
     (let (l, curve) = withCurve (cs_fresh s) bannedList (cs_curve s);
          s = s\<lparr>cs_curve := curve, cs_fresh := Suc (cs_fresh s)\<rparr> in
      case message of
        Str m \<Rightarrow>
          let (t, prepared) = censorTextWithFuzzyMatch (units m) l (3/5) (cs_prepared s)
          in (Str (chars t), s\<lparr>cs_prepared := prepared\<rparr>)
      | _ \<Rightarrow> (message, s))"

text \<open>The active bubble is computed and then left out of the answer.\<close>

definition chat_bubble :: "int \<Rightarrow> jsval \<Rightarrow> jsval" where
  "chat_bubble now b =
     (let item = get_field b ''userStoreItem'' in
      if truthy b \<and> truthy item \<and> truthy (get_field item ''isActive'') \<and>
         (case date_ms (get_field item ''expiresAt'') of None \<Rightarrow> False | Some t \<Rightarrow> now < t)
      then Obj [(''name'', get_field (get_field item ''storeItem'') ''name''),
                (''effectUrl'', get_field (get_field item ''storeItem'') ''effectUrl'')]
      else Null)"

text \<open>Someone's row with his levels; \<open>Null\<close> and level 0 when nobody is shown.\<close>

record shown =
  sh_user :: jsval
  sh_wealth :: jsval
  sh_live :: jsval

definition nobody :: shown where
  "nobody = \<lparr>sh_user = Null, sh_wealth = NumI 0, sh_live = NumI 0\<rparr>"

definition load_shown :: "'w chat_env \<Rightarrow> string \<Rightarrow> ('w, shown) act" where
  "load_shown C i =
     bindA (ch_user C i) (\<lambda>u. bindA (ch_levels C i) (\<lambda>levels. ret
       \<lparr>sh_user = u, sh_wealth = level_of levels ''WEALTH'' ''wealthLevel'' u,
        sh_live = level_of levels ''LIVESTREAM'' ''livestreamLevel'' u\<rparr>))"

text \<open>Round 2 of a user's message: card, censored text.\<close>

definition user_message :: "'w chat_env \<Rightarrow> string \<Rightarrow> jsval \<Rightarrow> ('w, shown \<times> jsval \<times> jsval) act" where
  "user_message C senderId message =
     bindA (catchA (ch_bubble C senderId) (\<lambda>_. ret Null)) (\<lambda>bubble.
     bindA (load_banned C) (\<lambda>bannedList.
     bindA (load_shown C senderId) (\<lambda>sh w.
       let (filtered, s) = censor_message bannedList message (ch_censor C w)
       in (Inr (sh, filtered, chat_bubble (ad_now (ch_admin C) w) bubble), ch_putCensor C s w))))"

section \<open>Sending\<close>

record message_request =
  mq_streamId :: string
  mq_senderId :: string
  mq_message :: jsval
  mq_replyToMessageId :: jsval
  mq_replyToUserId :: jsval
  mq_replyToUsername :: jsval
  mq_messageType :: jsval
  mq_isLuckyGift :: jsval
  mq_giftId :: jsval
  mq_giftCount :: jsval

definition message_data :: "message_request \<Rightarrow> string \<Rightarrow> jsval \<Rightarrow> int \<Rightarrow> (string \<times> jsval) list" where
  "message_data q i filtered now =
     [(''id'', Str i), (''streamId'', Str (mq_streamId q)), (''senderId'', Str (mq_senderId q)), (''message'', filtered),
      (''replyToMessageId'', js_or (mq_replyToMessageId q) Null), (''replyToUserId'', js_or (mq_replyToUserId q) Null),
      (''replyToUsername'', js_or (mq_replyToUsername q) Null), (''messageType'', mq_messageType q),
      (''isLuckyGift'', mq_isLuckyGift q), (''giftId'', mq_giftId q), (''giftCount'', mq_giftCount q), (''createdAt'', NumI now)]"

definition system_card :: jsval where
  "system_card = Obj [(''id'', Str SYSTEM_SENDER_ID), (''username'', Str ''System''), (''name'', Str ''System''),
     (''avatarUrl'', Null), (''wealthLevel'', NumI 0), (''livestreamLevel'', NumI 0)]"

definition unknown_card :: jsval where
  "unknown_card = Obj [(''username'', Str ''Unknown User''), (''name'', Str ''Unknown User''), (''avatarUrl'', Null),
     (''wealthLevel'', NumI 0), (''livestreamLevel'', NumI 0)]"

text \<open>\<open>a\<close> is the alias object, \<open>Null\<close> for a user who shows himself.\<close>

definition user_card :: "shown \<Rightarrow> bool \<Rightarrow> jsval \<Rightarrow> jsval" where
  "user_card sh stealth a =
     (let u = sh_user sh in Obj
       [(''id'', if stealth then Null else get_field u ''id''),
        (''publicId'', if stealth then get_field a ''fakePublicId''
           else if truthy (get_field u ''publicId'') then Str (js_String (get_field u ''publicId'')) else Null),
        (''username'', if stealth then js_or (get_field a ''alias'') (Str ''sdg52'') else get_field u ''username''),
        (''name'', if stealth then js_or (get_field a ''alias'') (Str ''sdg52'') else Str (buildDisplayName u)),
        (''avatarUrl'', if stealth then Null else js_or (get_field u ''avatarUrl'') Null),
        (''wealthLevel'', if stealth then NumI 0 else sh_wealth sh),
        (''livestreamLevel'', if stealth then NumI 0 else sh_live sh),
        (''isMystery'', JBool stealth)])"

definition alias_if :: "'w chat_env \<Rightarrow> bool \<Rightarrow> string \<Rightarrow> string \<Rightarrow> ('w, jsval) act" where
  "alias_if C stealth streamId u =
     (if stealth then getOrCreateSessionAliasObj (ch_redis C) (ch_random C) (Some streamId) (Some u) else ret Null)"

definition sender_card :: "message_request \<Rightarrow> shown \<Rightarrow> jsval \<Rightarrow> jsval" where
  "sender_card q sh a =
     (if truthy (sh_user sh) then user_card sh (is_stealth (sh_user sh)) a
      else if mq_senderId q = SYSTEM_SENDER_ID then system_card else unknown_card)"

text \<open>Stored, then shown: the list keeps the last 200 messages.\<close>

definition store_message :: "'w chat_env \<Rightarrow> string \<Rightarrow> jsval \<Rightarrow> ('w, unit) act" where
  "store_message C streamId v =
     thenA (r_rpush (ch_redis C) (key ''stream:chats'' streamId) (JSON_stringify v))
       (r_ltrim (ch_redis C) (key ''stream:chats'' streamId) (- 200) (- 1))"

definition publish_message :: "'w chat_env \<Rightarrow> message_request \<Rightarrow> shown \<Rightarrow> jsval \<Rightarrow> ('w, jsval) act" where
  "publish_message C q sh filtered =
     bindA (ch_uuid C) (\<lambda>i.
     bindA (askA (ad_now (ch_admin C))) (\<lambda>now.
       let messageData = message_data q i filtered now in
       thenA (store_message C (mq_streamId q) (Obj messageData))
       (bindA (alias_if C (is_stealth (sh_user sh)) (mq_streamId q)
                 (if mq_senderId q = SYSTEM_SENDER_ID then js_String (get_field (sh_user sh) ''id'') else mq_senderId q)) (\<lambda>a.
          ret (Obj (messageData @ [(''sender'', sender_card q sh a)]))))))"

text \<open>A message of the system shows the user it replies to; a failure to load him shows nobody.\<close>

definition reply_target :: "'w chat_env \<Rightarrow> jsval \<Rightarrow> ('w, shown) act" where
  "reply_target C replyToUserId =
     (if \<not> truthy replyToUserId then ret nobody
      else catchA
        (bindA (load_shown C (js_String replyToUserId)) (\<lambda>sh. ret (if truthy (sh_user sh) then sh else nobody)))
        (\<lambda>_. ret nobody))"

definition sendMessageService :: "'w chat_env \<Rightarrow> message_request \<Rightarrow> ('w, jsval) act" where
  "sendMessageService C q =
     (if mq_senderId q \<noteq> SYSTEM_SENDER_ID then
        thenA (chat_gate C (mq_streamId q) (mq_senderId q))
        (bindA (user_message C (mq_senderId q) (mq_message q)) (\<lambda>(sh, filtered, chatBubble). publish_message C q sh filtered))
      else
        bindA (reply_target C (mq_replyToUserId q)) (\<lambda>sh. publish_message C q sh (mq_message q)))"

section \<open>The history\<close>

definition stored_messages :: "'w chat_env \<Rightarrow> string \<Rightarrow> ('w, jsval list) act" where
  "stored_messages C streamId =
     bindA (r_lrange (ch_redis C) (key ''stream:chats'' streamId)) (\<lambda>rawMessages.
       if rawMessages \<noteq> [] then parse_all rawMessages
       else bindA (ch_messages C streamId) (\<lambda>rows. ret (map (\<lambda>m. Obj
         [(''id'', get_field m ''id''), (''streamId'', get_field m ''streamId''), (''senderId'', get_field m ''senderId''),
          (''message'', get_field m ''message''), (''createdAt'', get_field m ''createdAt''),
          (''replyToMessageId'', get_field m ''replyToMessageId''), (''replyToUserId'', get_field m ''replyToUserId''),
          (''replyToUsername'', get_field m ''replyToUsername''), (''replyToText'', get_field m ''replyToText'')]) rows)))"

text \<open>Messages up to the clearing of the chat are hidden; the stored time is the number of its milliseconds.\<close>

definition after_clearing :: "jtext option \<Rightarrow> jsval list \<Rightarrow> jsval list" where
  "after_clearing clearedAt ms =
     (if truthy_text clearedAt then
        filter (\<lambda>m. case (date_ms (get_field m ''createdAt''), Number_of (the clearedAt)) of
          (Some t, Some c) \<Rightarrow> c < t | _ \<Rightarrow> False) ms
      else ms)"

definition by_filter :: "string \<Rightarrow> jsval list \<Rightarrow> jsval list" where
  "by_filter f ms =
     (if f = ''chat'' then filter (\<lambda>m. get_field m ''senderId'' \<noteq> Str SYSTEM_SENDER_ID) ms
      else if f = ''room'' then filter (\<lambda>m. get_field m ''senderId'' = Str SYSTEM_SENDER_ID) ms
      else ms)"

text \<open>Whom a message shows.\<close>

definition shown_id :: "jsval \<Rightarrow> jsval" where
  "shown_id m =
     (if get_field m ''senderId'' = Str SYSTEM_SENDER_ID \<and> truthy (get_field m ''replyToUserId'')
      then get_field m ''replyToUserId'' else get_field m ''senderId'')"

text \<open>The card of a system message in the history hides nobody.\<close>

definition plain_card :: "shown \<Rightarrow> jsval" where
  "plain_card sh =
     (let u = sh_user sh in Obj
       [(''id'', get_field u ''id''),
        (''publicId'', if truthy (get_field u ''publicId'') then Str (js_String (get_field u ''publicId'')) else Null),
        (''username'', get_field u ''username''), (''name'', Str (buildDisplayName u)),
        (''avatarUrl'', js_or (get_field u ''avatarUrl'') Null),
        (''wealthLevel'', sh_wealth sh), (''livestreamLevel'', sh_live sh)])"

definition history_card :: "'w chat_env \<Rightarrow> string \<Rightarrow> jsval \<Rightarrow> shown \<Rightarrow> ('w, jsval) act" where
  "history_card C streamId m sh =
     (let u = sh_user sh; st = is_stealth u in
      if get_field m ''senderId'' = Str SYSTEM_SENDER_ID then ret (if truthy u then plain_card sh else system_card)
      else if \<not> truthy u then ret unknown_card
      else bindA (alias_if C st streamId (js_String (get_field u ''id''))) (\<lambda>a. ret (Obj (obj_spread (fields_of (user_card sh st a))
             [(''wealthLevel'', sh_wealth sh), (''livestreamLevel'', sh_live sh)]))))"

fun history_cards :: "'w chat_env \<Rightarrow> string \<Rightarrow> (string \<times> shown) list \<Rightarrow> jsval list \<Rightarrow> ('w, jsval list) act" where
  "history_cards C streamId users [] = ret []"
| "history_cards C streamId users (m # ms) =
     bindA (history_card C streamId m (case map_of users (js_String (shown_id m)) of None \<Rightarrow> nobody | Some sh \<Rightarrow> sh)) (\<lambda>card.
     bindA (history_cards C streamId users ms) (\<lambda>rest. ret (Obj (obj_spread (fields_of m) [(''sender'', card)]) # rest)))"

fun load_all :: "'w chat_env \<Rightarrow> string list \<Rightarrow> ('w, (string \<times> shown) list) act" where
  "load_all C [] = ret []"
| "load_all C (i # is) = bindA (load_shown C i) (\<lambda>sh. bindA (load_all C is) (\<lambda>rest. ret ((i, sh) # rest)))"

definition user_ids :: "jsval list \<Rightarrow> string list" where
  "user_ids ms = remdups (concat (map (\<lambda>m.
     (if truthy (get_field m ''senderId'') \<and> get_field m ''senderId'' \<noteq> Str SYSTEM_SENDER_ID
      then [js_String (get_field m ''senderId'')] else []) @
     (if truthy (get_field m ''replyToUserId'') then [js_String (get_field m ''replyToUserId'')] else [])) ms))"

definition getMessagesService :: "'w chat_env \<Rightarrow> string \<Rightarrow> string \<Rightarrow> bool \<Rightarrow> ('w, jsval list) act" where
  "getMessagesService C streamId f chatsOnly =
     (let effectiveFilter = (if f = ''all'' \<and> chatsOnly then ''chat'' else f) in
      bindA (stored_messages C streamId) (\<lambda>all.
      bindA (r_get (ch_redis C) (key ''stream:chat_cleared'' streamId)) (\<lambda>clearedAt.
        let ms = by_filter effectiveFilter (after_clearing clearedAt all) in
        bindA (load_all C (user_ids ms)) (\<lambda>users. history_cards C streamId users ms))))"

section \<open>Viewers\<close>

definition joinStreamService :: "'w chat_env \<Rightarrow> string \<Rightarrow> string \<Rightarrow> ('w, unit) act" where
  "joinStreamService C streamId userId =
     bindA (getUserPrivacyService (ch_redis C) (ch_user C) (Some userId)) (\<lambda>p.
       thenA (r_sadd (ch_redis C) (key ''stream:history'' streamId) [userId])
       (if \<not> truthy (get_field p ''isStealth'')
        then thenA (r_sadd (ch_redis C) (key ''stream:active'' streamId) [userId]) (ret ()) else ret ()))"

definition leaveStreamService :: "'w chat_env \<Rightarrow> string \<Rightarrow> string \<Rightarrow> ('w, unit) act" where
  "leaveStreamService C streamId userId = thenA (r_srem (ch_redis C) (key ''stream:active'' streamId) userId) (ret ())"

definition getViewerCountService :: "'w chat_env \<Rightarrow> string \<Rightarrow> ('w, nat) act" where
  "getViewerCountService C streamId = r_scard (ch_redis C) (key ''stream:active'' streamId)"

definition getStreamViewersService :: "'w chat_env \<Rightarrow> string \<Rightarrow> ('w, string list) act" where
  "getStreamViewersService C streamId = r_smembers (ch_redis C) (key ''stream:active'' streamId)"

section \<open>Lemmas\<close>

lemma chars_units [simp]: "chars (units s) = s"
proof -
  have "unat (word_of_nat (of_char c) :: u16) = of_char c" for c :: char
  proof -
    have "(of_char c :: nat) mod 256 < 256" by simp
    then have "(of_char c :: nat) < 256" by (simp only: of_char_mod_256)
    then have "(of_char c :: nat) < 2 ^ LENGTH(16)" by (rule order_less_trans) simp
    then show ?thesis by (simp add: unat_of_nat take_bit_nat_eq_self)
  qed
  then show ?thesis by (simp add: chars_def units_def map_idI)
qed

text \<open>The gate refuses a restricted sender whatever the room's mode is.\<close>

lemma restricted_gate:
  assumes "isUserRestrictedFast (ch_admin C) u ''LIVE_CHAT_MUTE'' w = (Inr v, w0)" and "truthy v"
  shows "\<exists>e w1. chat_gate C s u w = (Inl e, w1)"
proof -
  have "\<exists>e w1. bindA (getChatPermissionService (ch_redis C) (ch_room C) s) (\<lambda>mode.
      thenA (refuse_restricted C v p) (thenA (refuse_restricted C x p') (chat_mode_gate C s u mode))) wx = (Inl e, w1)" for p p' x wx
  proof (cases "getChatPermissionService (ch_redis C) (ch_room C) s wx")
    case (Pair r w1)
    then show ?thesis using assms(2) by (cases r) (simp_all add: act_simps refuse_restricted_def)
  qed
  then show ?thesis
    unfolding chat_gate_def using assms(1)
    by (cases "isUserRestrictedFast (ch_admin C) u ''MESSAGING_DISABLE'' w0")
      (auto simp: bindA_run [of "isUserRestrictedFast _ _ _"] split: sum.split)
qed

section \<open>Properties\<close>


definition mem_chat :: "admin_mem chat_env" where
  "mem_chat = \<lparr>ch_admin = mem_admin_env,
     ch_room = \<lparr>rd_stream_by_id = (\<lambda>_. ret Null), rd_stream_by_streamId = (\<lambda>_. ret Null), rd_stream_by_either = (\<lambda>_. ret Null),
       rd_admin_find = (\<lambda>_ _. ret False), rd_admin_list = (\<lambda>_. ret []), rd_admin_delete = (\<lambda>_ _. ret ()),
       rd_admin_upsert = (\<lambda>_ _. ret ()), rd_set_field = (\<lambda>_ _ _. ret ()),
       rd_get_field = (\<lambda>_ f. ret (Obj [(''userId'', Str ''h''), (''chatPermissionMode'', Str ''EVERYONE'')]))\<rparr>,
     ch_random = ret 0, ch_uuid = ret ''m1'',
     ch_user = (\<lambda>i. ret (Obj [(''id'', Str i), (''username'', Str ''real''), (''privacyMysteryLive'', JBool True),
       (''vipSubscriptionActive'', JBool True)])),
     ch_levels = (\<lambda>_. ret []), ch_bubble = (\<lambda>_. ret Null), ch_follows = (\<lambda>_ _. ret False), ch_messages = (\<lambda>_. ret []),
     ch_localeString = js_String,
     ch_censor = (\<lambda>_. \<lparr>cs_ban = \<lparr>cachedBannedWords = \<lparr>bl_id = 0, bl_words = []\<rparr>, lastLoadedTime = 0\<rparr>, cs_curve = [],
       cs_prepared = [], cs_fresh = 1\<rparr>),
     ch_putCensor = (\<lambda>_ w. w), ch_fetchBanned = ret \<lparr>bl_id = 0, bl_words = []\<rparr>, ch_deferRefresh = ret ()\<rparr>"

definition demo_message :: "string \<Rightarrow> message_request" where
  "demo_message u = \<lparr>mq_streamId = ''s'', mq_senderId = u, mq_message = Str ''hello'', mq_replyToMessageId = Null,
     mq_replyToUserId = Null, mq_replyToUsername = Null, mq_messageType = Str ''CHAT'', mq_isLuckyGift = JBool False,
     mq_giftId = Null, mq_giftCount = NumI 1\<rparr>"

definition demo_chat_mute :: restr_request where
  "demo_chat_mute = (demo_mute 90000)\<lparr>rq_type := ''LIVE_CHAT_MUTE''\<rparr>"

lemma demo_chat_mute_accepted: "accepted (applyUserRestrictionService mem_admin_env demo_chat_mute (admin0 0))"
  by code_simp


lemma chat_stored:
  assumes "redis_lists (ch_redis C) kv clk up ss ls" and "up w"
  shows "\<exists>w1. store_message C s v w = (Inr (), w1) \<and>
    ls w1 (key ''stream:chats'' s) = drop (Suc (length (ls w (key ''stream:chats'' s))) - 200) (ls w (key ''stream:chats'' s) @ [Json v])"
proof -
  let ?k = "key ''stream:chats'' s"
  obtain m w1 w2 where "r_rpush (ch_redis C) ?k (Json v) w = (Inr m, w1)"
      "r_ltrim (ch_redis C) ?k (- int 200) (- 1) w1 = (Inr (), w2)"
      "ls w2 = (ls w)(?k := drop (Suc (length (ls w ?k)) - 200) (ls w ?k @ [Json v]))"
    by (rule redis_lists.rpush_ltrim [OF assms, of 200 ?k "Json v"]) auto
  then show ?thesis
    by (intro exI [of _ w2]) (simp add: store_message_def act_simps JSON_stringify_def)
qed

text \<open>
  The chat list of a stream keeps the newest messages: a stored message is the last of the list, the
  messages before it keep their order, and there are never more than 200.
\<close>

theorem chat_list_bounded:
  assumes "redis_lists (ch_redis C) kv clk up ss ls" and "up w"
  shows "\<exists>w1. store_message C s v w = (Inr (), w1) \<and>
    ls w1 (key ''stream:chats'' s) = drop (Suc (length (ls w (key ''stream:chats'' s))) - 200) (ls w (key ''stream:chats'' s) @ [Json v]) \<and>
    length (ls w1 (key ''stream:chats'' s)) \<le> 200 \<and> last (ls w1 (key ''stream:chats'' s)) = Json v"
  using chat_stored [OF assms, of s v] by (elim exE conjE) (simp add: last_drop)

theorem chat_list_bounded_witness:
  "\<exists>w1. store_message mem_chat ''s'' Null (admin0 0) = (Inr (), w1) \<and> last (m_l w1 (key ''stream:chats'' ''s'')) = Json Null"
proof -
  have r: "ch_redis mem_chat = mem_redis" by (simp add: mem_chat_def mem_admin_env_def)
  have "redis_lists (ch_redis mem_chat) mem_live m_clk (\<lambda>_. True) mem_ss m_l"
    unfolding r by (rule memls.redis_lists_axioms)
  from chat_list_bounded [OF this TrueI, of "''s''" Null "admin0 0"] show ?thesis by blast
qed

text \<open>
  A message of a user in mystery mode carries a card without his id and, beside the card, his id: the
  message that everybody in the room receives names him.
\<close>

theorem stealth_message_names_sender:
  assumes "is_stealth (sh_user sh)" and "mq_senderId q \<noteq> SYSTEM_SENDER_ID"
    and "publish_message C q sh filtered w = (Inr r, w1)"
  shows "get_field (get_field r ''sender'') ''id'' = Null \<and> get_field (get_field r ''sender'') ''isMystery'' = JBool True \<and>
    get_field r ''senderId'' = Str (mq_senderId q)"
proof -
  have "truthy (sh_user sh)"
    using assms(1) by (cases "sh_user sh") (auto simp: is_stealth_def get_field_def truthy_def)
  moreover obtain i t a where "r = Obj (message_data q i filtered t @ [(''sender'', sender_card q sh a)])"
    using assms(3) by (auto simp: publish_message_def act_Inr Let_def)
  ultimately show ?thesis
    using assms(1) by (simp add: get_field_def message_data_def sender_card_def user_card_def Let_def)
qed

definition mystery_user :: shown where
  "mystery_user = \<lparr>sh_user = Obj [(''id'', Str ''u''), (''privacyMysteryLive'', JBool True), (''vipSubscriptionActive'', JBool True)],
     sh_wealth = NumI 3, sh_live = NumI 1\<rparr>"

lemma demo_published:
  "\<exists>r w1. publish_message mem_chat (demo_message ''u'') mystery_user (Str ''hello'') (admin0 0) = (Inr r, w1)"
proof -
  have r: "ch_redis mem_chat = mem_redis" by (simp add: mem_chat_def mem_admin_env_def)
  have "redis_lists (ch_redis mem_chat) mem_live m_clk (\<lambda>_. True) mem_ss m_l"
    unfolding r by (rule memls.redis_lists_axioms)
  from chat_stored [OF this TrueI, of "''s''" "Obj (message_data (demo_message ''u'') ''m1'' (Str ''hello'') 0)" "admin0 0"]
  obtain w1 where st: "store_message mem_chat ''s'' (Obj (message_data (demo_message ''u'') ''m1'' (Str ''hello'') 0)) (admin0 0) = (Inr (), w1)"
    by blast
  have "never_throws (ch_random mem_chat)" by (simp add: mem_chat_def)
  then have "never_throws (alias_if mem_chat x y z)" for x y z
    by (simp add: alias_if_def never_throws_alias)
  then obtain a w2 where al: "alias_if mem_chat (is_stealth (sh_user mystery_user)) ''s'' ''u'' w1 = (Inr a, w2)"
    by (rule never_throwsE)
  have u: "ch_uuid mem_chat (admin0 0) = (Inr ''m1'', admin0 0)" "ad_now (ch_admin mem_chat) (admin0 0) = 0"
    by (simp_all add: mem_chat_def mem_admin_env_def act_simps admin0_def mem0_def mem.defs)
  have q: "mq_streamId (demo_message ''u'') = ''s''" "mq_senderId (demo_message ''u'') = ''u''" "''u'' \<noteq> SYSTEM_SENDER_ID"
    by (simp_all add: demo_message_def SYSTEM_SENDER_ID_def)
  show ?thesis
    unfolding publish_message_def Let_def by (simp add: bindA_run thenA_run u askA_run ret_run q st al)
qed

theorem stealth_message_names_sender_witness:
  "\<exists>r w1. publish_message mem_chat (demo_message ''u'') mystery_user (Str ''hello'') (admin0 0) = (Inr r, w1) \<and>
    get_field r ''senderId'' = Str ''u''"
proof -
  obtain r w1 where p: "publish_message mem_chat (demo_message ''u'') mystery_user (Str ''hello'') (admin0 0) = (Inr r, w1)"
    using demo_published by blast
  have "is_stealth (sh_user mystery_user)" by (simp add: mystery_user_def is_stealth_def get_field_def truthy_def)
  moreover have "mq_senderId (demo_message ''u'') \<noteq> SYSTEM_SENDER_ID" by (simp add: demo_message_def SYSTEM_SENDER_ID_def)
  ultimately show ?thesis
    using stealth_message_names_sender [OF _ _ p] p by (simp add: demo_message_def)
qed

text \<open>In the history the card of a system message is the full card of a user in mystery mode.\<close>

lemma history_names_mystery_user:
  assumes "get_field m ''senderId'' = Str SYSTEM_SENDER_ID" and "truthy (sh_user sh)"
  shows "history_card C s m sh w = (Inr (plain_card sh), w) \<and> get_field (plain_card sh) ''id'' = get_field (sh_user sh) ''id''"
  using assms by (simp add: history_card_def Let_def act_simps plain_card_def get_field_def)

end
