(* ===== verification/LiveKit_Events.thy ===== *)
theory LiveKit_Events
  imports Stream_Lifecycle
begin

text \<open>
  What the server knows of a host's media: the webhook record of a room
  (\<open>src/services/livekitEvents.service.js\<close>), the presence question (\<open>src/routes/service/livekitPresence.js\<close>),
  the time without video (\<open>src/routes/service/hostNoVideo.js\<close>) and the last socket disconnect
  (\<open>src/services/socketDisconnect.service.js\<close>). LiveKit's participant list is a parameter; the counters of
  the log reports are not modelled.
\<close>

section \<open>Webhook events\<close>

definition DISCONNECT_REASONS :: "string list" where
  "DISCONNECT_REASONS =
     [''UNKNOWN_REASON'', ''CLIENT_INITIATED'', ''DUPLICATE_IDENTITY'', ''SERVER_SHUTDOWN'', ''PARTICIPANT_REMOVED'',
      ''ROOM_DELETED'', ''STATE_MISMATCH'', ''JOIN_FAILURE'', ''MIGRATION'', ''SIGNAL_CLOSE'', ''ROOM_CLOSED'',
      ''USER_UNAVAILABLE'', ''USER_REJECTED'', ''SIP_TRUNK_FAILURE'', ''CONNECTION_TIMEOUT'', ''MEDIA_FAILURE'']"

text \<open>\<open>Array.at\<close>: a negative index counts from the end, out of range is \<open>undefined\<close>.\<close>

definition array_at :: "'a list \<Rightarrow> int \<Rightarrow> 'a option" where
  "array_at xs i =
     (let j = (if i < 0 then i + int (length xs) else i) in
      if 0 \<le> j \<and> j < int (length xs) then Some (xs ! nat j) else None)"

definition disconnectReasonName :: "jsval \<Rightarrow> jsval" where
  "disconnectReasonName r = (case r of
      Str s \<Rightarrow> Str s
    | Num q \<Rightarrow> if is_integer q then
         (case array_at DISCONNECT_REASONS \<lfloor>q\<rfloor> of Some s \<Rightarrow> Str s | None \<Rightarrow> Str (''REASON_'' @ int_str \<lfloor>q\<rfloor>))
       else Null
    | _ \<Rightarrow> Null)"

definition isAbnormalLeave :: "jsval \<Rightarrow> bool" where
  "isAbnormalLeave reason \<longleftrightarrow> truthy reason \<and> reason \<notin> Str ` set
     [''CLIENT_INITIATED'', ''ROOM_DELETED'', ''ROOM_CLOSED'', ''PARTICIPANT_REMOVED'', ''DUPLICATE_IDENTITY'']"

definition isVideoTrack :: "jsval \<Rightarrow> bool" where
  "isVideoTrack track \<longleftrightarrow> get_field track ''type'' = NumI 1 \<or> get_field track ''type'' = Str ''VIDEO''"

definition PRESENCE_TTL_SEC :: int where "PRESENCE_TTL_SEC = 12 * 3600"
definition EVENTS_TTL_SEC :: int where "EVENTS_TTL_SEC = 24 * 3600"
definition EVENTS_MAX :: int where "EVENTS_MAX = 50"

definition presenceKey :: "string \<Rightarrow> string" where "presenceKey room = ''lk:presence:'' @ room"
definition roomEventsKey :: "string \<Rightarrow> string" where "roomEventsKey room = ''lk:events:'' @ room"

text \<open>The short mark of an event in the room's history.\<close>

definition short_mark :: "string \<Rightarrow> jsval \<Rightarrow> jsval \<Rightarrow> string option" where
  "short_mark t identity event =
     (if truthy identity \<and> t = ''participant_joined'' then Some ''j''
      else if truthy identity \<and> t = ''participant_left'' then Some ''l''
      else if truthy identity \<and> t = ''track_published'' \<and> isVideoTrack (get_field event ''track'') then Some ''v''
      else None)"

definition event_entry :: "string \<Rightarrow> jsval \<Rightarrow> jsval \<Rightarrow> int \<Rightarrow> jsval" where
  "event_entry short identity event now =
     Obj ([(''e'', Str short), (''id'', identity), (''at'', NumI now)] @
          (if short = ''l'' then [(''r'', disconnectReasonName (get_field (get_field event ''participant'') ''disconnectReason''))] else []))"

definition push_event :: "'w redis \<Rightarrow> string \<Rightarrow> jsval \<Rightarrow> ('w, unit) act" where
  "push_event R room entry =
     quietly (thenA (r_lpush R (roomEventsKey room) (JSON_stringify entry))
       (thenA (r_ltrim R (roomEventsKey room) 0 (EVENTS_MAX - 1))
         (r_pexpire R (roomEventsKey room) (EVENTS_TTL_SEC * 1000))))"

definition recordLivekitEvent :: "'w redis \<Rightarrow> ('w \<Rightarrow> int) \<Rightarrow> jsval \<Rightarrow> ('w, unit) act" where
  "recordLivekitEvent R clock event =
     (let t = js_String (js_or (get_field event ''event'') (Str ''unknown''));
          room = get_field (get_field event ''room'') ''name'';
          identity = get_field (get_field event ''participant'') ''identity'';
          i = js_String identity; r = js_String room
      in if \<not> truthy room then ret ()
      else ifOpen R
        (bindA (askA clock) (\<lambda>now.
          thenA (case short_mark t identity event of
                   None \<Rightarrow> ret () | Some s \<Rightarrow> push_event R r (event_entry s identity event now))
          (quietly
            (if t = ''participant_joined'' \<and> truthy identity then
               thenA (r_hset R (presenceKey r) i (Raw (int_str now)))
                 (thenA (r_pexpire R (presenceKey r) (PRESENCE_TTL_SEC * 1000)) (ret ()))
             else if t = ''participant_left'' \<and> truthy identity then thenA (r_hdel R (presenceKey r) i) (ret ())
             else if t = ''room_finished'' then thenA (r_del R [presenceKey r]) (ret ())
             else ret ()))))
        (ret ()))"

record host_facts =
  hf_joined :: bool
  hf_publishedVideo :: bool
  hf_joins :: int
  hf_lastLeftReason :: jsval
  hf_lastLeftAt :: jsval
  hf_gone :: bool

definition no_facts :: host_facts where
  "no_facts = \<lparr>hf_joined = False, hf_publishedVideo = False, hf_joins = 0, hf_lastLeftReason = Null, hf_lastLeftAt = Null,
     hf_gone = False\<rparr>"

definition add_fact :: "string \<Rightarrow> jsval \<Rightarrow> bool \<times> host_facts \<Rightarrow> bool \<times> host_facts" where
  "add_fact identity e = (\<lambda>(newest, f).
     if get_field e ''id'' \<noteq> Str identity then (newest, f)
     else
       let k = get_field e ''e'';
           jl = (k = Str ''j'' \<or> k = Str ''l'');
           f1 = (if newest \<and> jl then f\<lparr>hf_gone := (k = Str ''l'')\<rparr> else f);
           f2 = (if k = Str ''j'' then f1\<lparr>hf_joined := True, hf_joins := hf_joins f1 + 1\<rparr>
                 else if k = Str ''v'' then f1\<lparr>hf_publishedVideo := True\<rparr>
                 else if k = Str ''l'' \<and> hf_lastLeftAt f1 = Null
                 then f1\<lparr>hf_lastLeftAt := get_field e ''at'', hf_lastLeftReason := js_or (get_field e ''r'') Null\<rparr>
                 else f1)
       in (newest \<and> \<not> jl, f2))"

text \<open>A text that is no JSON is skipped; a \<open>null\<close> stops the loop with the facts found so far.\<close>

fun facts_loop :: "string \<Rightarrow> jtext list \<Rightarrow> bool \<times> host_facts \<Rightarrow> host_facts" where
  "facts_loop identity [] s = snd s"
| "facts_loop identity (r # rs) s =
     (case JSON_parse r of
        None \<Rightarrow> facts_loop identity rs s
      | Some e \<Rightarrow> if is_nullish e then snd s else facts_loop identity rs (add_fact identity e s))"

definition hostStreamFacts :: "'w redis \<Rightarrow> string \<Rightarrow> string \<Rightarrow> ('w, host_facts) act" where
  "hostStreamFacts R room identity =
     (if room = [] \<or> identity = [] then ret no_facts
      else ifOpen R
        (catchA (bindA (r_lrange R (roomEventsKey room)) (\<lambda>raw.
                   ret (facts_loop identity (take (nat EVENTS_MAX) raw) (True, no_facts))))
           (\<lambda>_. ret no_facts))
        (ret no_facts))"

definition livekitCause :: "host_facts \<Rightarrow> string" where
  "livekitCause f =
     (if \<not> hf_joined f then ''NEVER_REACHED_LIVEKIT''
      else if hf_gone f then ''LEFT_LIVEKIT_'' @ js_String (js_or (hf_lastLeftReason f) (Str ''UNKNOWN_REASON''))
      else if \<not> hf_publishedVideo f then ''IN_LIVEKIT_NO_VIDEO''
      else ''IN_LIVEKIT'')"

definition getRoomPresence :: "'w redis \<Rightarrow> string \<Rightarrow> ('w, (string \<times> int option) list) act" where
  "getRoomPresence R room =
     (if room = [] then ret []
      else ifOpen R (bindA (r_hgetall R (presenceKey room)) (\<lambda>raw. ret (map (\<lambda>(k, v). (k, Number_of v)) raw))) (ret []))"

section \<open>The last disconnect\<close>

definition lastdisc_key :: "string \<Rightarrow> string" where
  "lastdisc_key userId = ''live:lastdisc:'' @ userId"

definition noteDisconnect :: "'w redis \<Rightarrow> ('w \<Rightarrow> int) \<Rightarrow> string \<Rightarrow> jsval \<Rightarrow> string \<Rightarrow> ('w, unit) act" where
  "noteDisconnect R clock userId reason sid =
     (if userId = [] then ret ()
      else ifOpen R
        (bindA (askA clock) (\<lambda>now. quietly (r_set R (lastdisc_key userId)
           (JSON_stringify (Obj [(''reason'', Str (js_String (js_or reason (Str ''unknown'')))), (''at'', NumI now), (''sid'', Str sid)]))
           (ex_s 3600))))
        (ret ()))"

text \<open>\<open>d.reason\<close>, \<open>d.at\<close>, and the time since then; a number is kept as written.\<close>

definition lastDisconnect :: "'w redis \<Rightarrow> string \<Rightarrow> int \<Rightarrow> ('w, jsval) act" where
  "lastDisconnect R userId now =
     (if userId = [] then ret Null
      else ifOpen R
        (catchA
          (bindA (r_get R (lastdisc_key userId)) (\<lambda>raw.
             if \<not> truthy_text raw then ret Null
             else bindA (parseA (the raw)) (\<lambda>d. bindA (dot d ''reason'') (\<lambda>reason.
               ret (Obj [(''reason'', reason), (''at'', get_field d ''at''),
                 (''agoMs'', case js_Number (get_field d ''at'') of Some q \<Rightarrow> Num (of_int now - q) | None \<Rightarrow> NonFinite)])))))
          (\<lambda>_. ret Null))
        (ret Null))"

definition disconnectMeta :: "'w redis \<Rightarrow> ('w \<Rightarrow> int) \<Rightarrow> string \<Rightarrow> ('w, (string \<times> jsval) list) act" where
  "disconnectMeta R clock userId =
     bindA (askA clock) (\<lambda>now. bindA (lastDisconnect R userId now) (\<lambda>d. ret
       (if truthy d then [(''socketDisconnect'', get_field d ''reason''), (''socketDisconnectAgoMs'', get_field d ''agoMs'')] else [])))"

section \<open>Presence\<close>

definition livekitApiHostIsPresent :: "(string \<Rightarrow> ('w, jsval list) act) \<Rightarrow> string \<Rightarrow> string \<Rightarrow> ('w, bool) act" where
  "livekitApiHostIsPresent listParticipants roomName hostUserId =
     catchA (bindA (listParticipants roomName) (\<lambda>ps. ret (list_ex (\<lambda>p. get_field p ''identity'' = Str hostUserId) ps)))
       (\<lambda>_. ret False)"

text \<open>\<open>None\<close>: the host is not in the room, or LiveKit cannot be asked.\<close>

definition tracks_of :: "jsval \<Rightarrow> jsval list" where
  "tracks_of p = (case get_field p ''tracks'' of Arr ts \<Rightarrow> ts | _ \<Rightarrow> [])"

definition livekitHostPublishingVideo :: "(string \<Rightarrow> ('w, jsval list) act) \<Rightarrow> string \<Rightarrow> string \<Rightarrow> ('w, bool option) act" where
  "livekitHostPublishingVideo listParticipants roomName hostUserId =
     catchA
       (bindA (listParticipants roomName) (\<lambda>ps. ret
          (case find (\<lambda>p. get_field p ''identity'' = Str hostUserId) ps of
             None \<Rightarrow> None
           | Some host \<Rightarrow> Some (list_ex (\<lambda>t. isVideoTrack t \<and> \<not> truthy (get_field t ''muted'')) (tracks_of host)))))
       (\<lambda>_. ret None)"

definition webhookHostIsPresent :: "'w redis \<Rightarrow> string \<Rightarrow> string \<Rightarrow> ('w, bool option) act" where
  "webhookHostIsPresent R roomName hostUserId =
     ifOpen R
       (bindA (r_exists R (presenceKey roomName)) (\<lambda>there.
        bindA (r_hexists R (presenceKey roomName) hostUserId) (\<lambda>hit. ret (if there then Some hit else None))))
       (ret None)"

definition livekitHostIsPresent :: "'w redis \<Rightarrow> (string \<Rightarrow> ('w, jsval list) act) \<Rightarrow> string \<Rightarrow> string \<Rightarrow> string \<Rightarrow> ('w, bool) act" where
  "livekitHostIsPresent R listParticipants mode roomName hostUserId =
     (if roomName = [] \<or> hostUserId = [] then ret False
      else if mode = ''off'' then livekitApiHostIsPresent listParticipants roomName hostUserId
      else bindA (catchA (webhookHostIsPresent R roomName hostUserId) (\<lambda>_. ret None)) (\<lambda>fromWebhook.
        if mode = ''enforce'' \<and> fromWebhook \<noteq> None then ret (the fromWebhook)
        else livekitApiHostIsPresent listParticipants roomName hostUserId))"

section \<open>Time without video\<close>

definition hostNoVideoKey :: "string \<Rightarrow> string" where
  "hostNoVideoKey i = ''stream:host_novideo_since:'' @ i"

text \<open>\<open>Number(text)\<close> taken from \<open>now\<close>: a missing text counts as 0, an unreadable one gives 0.\<close>

definition since_ms :: "int \<Rightarrow> jtext option \<Rightarrow> int" where
  "since_ms now t = (case t of None \<Rightarrow> now | Some x \<Rightarrow> (case Number_of x of None \<Rightarrow> 0 | Some n \<Rightarrow> now - n))"

text \<open>\<open>checkedAt\<close> is the module's map of the last check of each stream.\<close>

definition note_checked :: "string \<Rightarrow> int \<Rightarrow> (string \<times> int) list \<Rightarrow> (string \<times> int) list" where
  "note_checked i now m =
     (let m = (i, now) # filter (\<lambda>(k, _). k \<noteq> i) m in if 5000 < length m then [] else m)"

definition hostNoVideoMs :: "'w redis \<Rightarrow> (string \<Rightarrow> ('w, jsval list) act) \<Rightarrow> ('w \<Rightarrow> (string \<times> int) list)
    \<Rightarrow> ((string \<times> int) list \<Rightarrow> 'w \<Rightarrow> 'w) \<Rightarrow> string \<Rightarrow> string \<Rightarrow> int \<Rightarrow> ('w, int option) act" where
  "hostNoVideoMs R listParticipants checkedAt putCheckedAt streamIdKey hostUserId now =
     bindA (askA checkedAt) (\<lambda>m.
       if now - (case map_of m streamIdKey of None \<Rightarrow> 0 | Some t \<Rightarrow> t) < 30000 then ret None
       else thenA (\<lambda>w. (Inr (), putCheckedAt (note_checked streamIdKey now m) w))
         (ifOpen R
           (bindA (livekitHostPublishingVideo listParticipants streamIdKey hostUserId) (\<lambda>publishing.
            bindA (r_get R (key ''stream:camera_off_at'' streamIdKey)) (\<lambda>cameraOff.
              if publishing \<noteq> Some False \<or> truthy_text cameraOff then
                thenA (r_del R [hostNoVideoKey streamIdKey]) (ret None)
              else
                thenA (r_set R (hostNoVideoKey streamIdKey) (Raw (int_str now)) (nx_ex_s 86400))
                  (bindA (r_get R (hostNoVideoKey streamIdKey)) (\<lambda>t. ret (Some (since_ms now t)))))))
           (ret None)))"

section \<open>Lemmas\<close>

lemma never_throws_presence: "never_throws (livekitHostIsPresent R l mode room host)"
  unfolding livekitHostIsPresent_def livekitApiHostIsPresent_def
  by (intro never_throws_if never_throws_ret never_throws_catchA never_throws_bindA)

text \<open>A failed question is answered like an empty room.\<close>

lemma api_failure_is_absence:
  assumes "listParticipants room w = (Inl e, w1)"
  shows "livekitApiHostIsPresent listParticipants room host w = (Inr False, w1)"
  using assms by (simp add: livekitApiHostIsPresent_def act_simps)

text \<open>The newest join or leave of the identity decides whether it is gone.\<close>

lemma facts_gone_settled:
  "hf_gone (facts_loop i rs (False, f)) = hf_gone f"
proof (induction rs arbitrary: f)
  case (Cons r rs)
  have g: "\<exists>f'. add_fact i e (False, f) = (False, f') \<and> hf_gone f' = hf_gone f" for e
    by (auto simp: add_fact_def Let_def)
  show ?case
  proof (cases "JSON_parse r")
    case (Some e)
    obtain f' where "add_fact i e (False, f) = (False, f')" "hf_gone f' = hf_gone f" using g by blast
    then show ?thesis using Some Cons.IH by simp
  qed (use Cons.IH in simp)
qed simp

end
