(* ===== verification/Heartbeat.thy ===== *)
theory Heartbeat
  imports LiveKit_Events
begin

text \<open>
  The monitor that ends dead streams, \<open>src/routes/service/serviceHeartbeat.js\<close> with its policy
  \<open>src/routes/service/heartbeatPolicy.js\<close> and the bounded loop \<open>src/utils/forEachLimit.js\<close>. A check of a
  stream is split where the code decides: \<open>check_decide\<close> is everything before the end, \<open>perform\<close> the end
  and what follows it. The three maps that only limit log lines are not modelled.
\<close>

section \<open>Configuration and environment\<close>

text \<open>The numbers the module reads from the environment once, with the defaults of the source.\<close>

record hb_cfg =
  HEARTBEAT_TIMEOUT_MS :: int
  HEARTBEAT_START_GRACE_MS :: int
  LIVEKIT_HOST_GRACE_MS :: int
  GHOST_SWEEP_ENABLED :: bool
  HOST_ABSENCE_MAX_MS :: int
  HOST_NOVIDEO_MAX_MS :: int
  SWEEP_CONCURRENCY :: int

definition default_cfg :: hb_cfg where
  "default_cfg = \<lparr>HEARTBEAT_TIMEOUT_MS = 90000, HEARTBEAT_START_GRACE_MS = 15000, LIVEKIT_HOST_GRACE_MS = 20000,
     GHOST_SWEEP_ENABLED = True, HOST_ABSENCE_MAX_MS = 5 * 60 * 1000, HOST_NOVIDEO_MAX_MS = 5 * 60 * 1000,
     SWEEP_CONCURRENCY = 8\<rparr>"

text \<open>\<open>Math.min(32, Math.max(1, Number(v) || 8))\<close> of an integer text.\<close>

definition sweep_concurrency :: "string option \<Rightarrow> int" where
  "sweep_concurrency v =
     (let n = (case v of None \<Rightarrow> 8 | Some s \<Rightarrow> (case int_of_str (js_trim s) of None \<Rightarrow> 8 | Some i \<Rightarrow> if i = 0 then 8 else i))
      in min 32 (max 1 n))"

definition HEARTBEAT_KEY_TTL_SEC :: "hb_cfg \<Rightarrow> int" where
  "HEARTBEAT_KEY_TTL_SEC c = \<lceil>of_int (HEARTBEAT_TIMEOUT_MS c) / 1000 :: rat\<rceil> + 15"

definition mode_log :: "string option \<Rightarrow> string" where
  "mode_log v = (if toLowerCase (js_trim (str_or v ''log'')) = ''enforce'' then ''enforce'' else ''log'')"

definition hostAbsenceMode :: "string option \<Rightarrow> string" where "hostAbsenceMode v = mode_log v"
definition hostNoVideoMode :: "string option \<Rightarrow> string" where "hostNoVideoMode v = mode_log v"

record 'w hb_env =
  hb_cfg :: hb_cfg
  hb_absence :: "string option"                 \<comment> \<open>\<open>LIVE_HOST_ABSENCE_MODE\<close>\<close>
  hb_novideo :: "string option"                 \<comment> \<open>\<open>LIVE_HOST_NOVIDEO_MODE\<close>\<close>
  hb_presence :: string                         \<comment> \<open>\<open>LIVE_PRESENCE_MODE\<close>, read by \<open>modeFromEnv\<close>\<close>
  hb_redis :: "'w redis"
  hb_now :: "'w \<Rightarrow> int"
  hb_participants :: "string \<Rightarrow> ('w, jsval list) act"
  hb_checkedAt :: "'w \<Rightarrow> (string \<times> int) list"
  hb_putCheckedAt :: "(string \<times> int) list \<Rightarrow> 'w \<Rightarrow> 'w"
  hb_activeCall :: "string \<Rightarrow> ('w, jsval) act"   \<comment> \<open>an active video call of the user\<close>
  hb_life :: "'w life_env"
  hb_db :: "'w life_db"
  hb_liveStreams :: "('w, jsval list) act"
  hb_recordFailure :: "jsval \<Rightarrow> ('w, unit) act"
  hb_emit :: "string \<Rightarrow> jsval \<Rightarrow> ('w, unit) act" \<comment> \<open>\<open>stream_ended\<close> to a room\<close>

section \<open>Heartbeats and marks\<close>

definition recordStreamHeartbeat :: "'w hb_env \<Rightarrow> string \<Rightarrow> string option \<Rightarrow> ('w, int option) act" where
  "recordStreamHeartbeat H streamId userId =
     (if streamId = [] then ret None
      else bindA (askA (hb_now H)) (\<lambda>now.
        let payload = JSON_stringify (Obj [(''userId'', str_or_null userId), (''timestamp'', NumI now)]);
            opt = ex_s (HEARTBEAT_KEY_TTL_SEC (hb_cfg H)) in
        thenA
          (ifOpen (hb_redis H)
             (quietly (thenA (r_set (hb_redis H) (key ''stream:heartbeat'' streamId) payload opt)
                (if truthy_str userId then thenA (r_set (hb_redis H) (key ''stream:heartbeat:user'' (the userId)) payload opt) (ret ())
                 else ret ())))
             (ret ()))
          (ret (Some now))))"

definition getStreamHeartbeat :: "'w hb_env \<Rightarrow> string \<Rightarrow> ('w, jsval) act" where
  "getStreamHeartbeat H streamId =
     (if streamId = [] then ret Null
      else ifOpen (hb_redis H)
        (catchA (bindA (r_get (hb_redis H) (key ''stream:heartbeat'' streamId)) (\<lambda>raw.
                   if \<not> truthy_text raw then ret Null else parseA (the raw)))
           (\<lambda>_. ret Null))
        (ret Null))"

definition hostConfirmedKey :: "string \<Rightarrow> string" where "hostConfirmedKey i = ''stream:host_confirmed:'' @ i"
definition hostAbsentKey :: "string \<Rightarrow> string" where "hostAbsentKey i = ''stream:host_absent_since:'' @ i"

definition markHostConfirmed :: "'w hb_env \<Rightarrow> string \<Rightarrow> ('w, unit) act" where
  "markHostConfirmed H i =
     ifOpen (hb_redis H) (quietly (r_set (hb_redis H) (hostConfirmedKey i) (Raw ''1'') (ex_s 86400))) (ret ())"

definition isHostConfirmed :: "'w hb_env \<Rightarrow> string \<Rightarrow> ('w, bool) act" where
  "isHostConfirmed H i =
     ifOpen (hb_redis H)
       (catchA (bindA (r_get (hb_redis H) (hostConfirmedKey i)) (\<lambda>t. ret (truthy_text t))) (\<lambda>_. ret False))
       (ret False)"

definition noteHostAbsent :: "'w hb_env \<Rightarrow> string \<Rightarrow> ('w, int) act" where
  "noteHostAbsent H i =
     ifOpen (hb_redis H)
       (catchA
         (bindA (askA (hb_now H)) (\<lambda>now.
          thenA (r_set (hb_redis H) (hostAbsentKey i) (Raw (int_str now)) (nx_ex_s 86400))
            (bindA (r_get (hb_redis H) (hostAbsentKey i)) (\<lambda>t. ret (since_ms now t)))))
         (\<lambda>_. ret 0))
       (ret 0)"

definition clearHostAbsent :: "'w hb_env \<Rightarrow> string \<Rightarrow> ('w, unit) act" where
  "clearHostAbsent H i = ifOpen (hb_redis H) (quietly (r_del (hb_redis H) [hostAbsentKey i])) (ret ())"

definition hostPausedForCallOrReturn :: "'w hb_env \<Rightarrow> string \<Rightarrow> string \<Rightarrow> ('w, bool) act" where
  "hostPausedForCallOrReturn H hostUserId i =
     bindA (hb_activeCall H hostUserId) (\<lambda>activeVideoCall.
       if truthy activeVideoCall then ret True
       else ifOpen (hb_redis H)
         (bindA (r_get (hb_redis H) (''host:return_timer:'' @ i @ '':'' @ hostUserId)) (\<lambda>t1.
          bindA (r_get (hb_redis H) (''host:return_timer:'' @ hostUserId)) (\<lambda>t2.
            ret (truthy_text t1 \<or> truthy_text t2))))
         (ret False))"

section \<open>The policy\<close>

datatype hb_verdict = Alive | Keepalive | Paused | End

text \<open>\<open>lastHeartbeatTime\<close> is falsy when it is missing or 0.\<close>

definition heartbeatVerdict :: "int \<Rightarrow> int \<Rightarrow> int option \<Rightarrow> int \<Rightarrow> int \<Rightarrow> bool \<Rightarrow> bool \<Rightarrow> hb_verdict" where
  "heartbeatVerdict now ageMs lastHeartbeatTime timeoutMs startGraceMs paused hostInLiveKit =
     (if ageMs < startGraceMs then Alive
      else
        let sinceLastPing = (case lastHeartbeatTime of Some t \<Rightarrow> if t \<noteq> 0 then now - t else ageMs | None \<Rightarrow> ageMs) in
        if sinceLastPing \<le> timeoutMs then Alive
        else if hostInLiveKit then Keepalive
        else if paused then Paused
        else End)"

section \<open>One stream\<close>

text \<open>How a check ends a stream: reason, text for the viewers, failure, and the mark cleaned up afterwards.\<close>

record hb_end =
  he_reason :: string
  he_message :: string
  he_kind :: string
  he_code :: string
  he_text :: string
  he_meta :: "(string \<times> jsval) list"
  he_cleanup :: "string option"          \<comment> \<open>a key deleted after the end\<close>

text \<open>What the LiveKit part of a check leaves to the heartbeat part: an end, or what it learned of the host.\<close>

datatype media_check = EndStream hb_end | GoOn "bool option"

definition end_no_video :: "string \<Rightarrow> int \<Rightarrow> int \<Rightarrow> hb_end" where
  "end_no_video i ageMs ms = \<lparr>he_reason = ''HOST_MEDIA_LOST'',
     he_message = ''Live stream ended because the host's video was lost.'', he_kind = ''HEARTBEAT_LOST'', he_code = ''HOST_NO_VIDEO'',
     he_text = ''Host in LiveKit but published no video for '' @ int_str ms @ '' ms; stream auto-ended.'',
     he_meta = [(''ageMs'', NumI ageMs), (''noVideoMs'', NumI ms)], he_cleanup = Some (hostNoVideoKey i)\<rparr>"

definition end_absent :: "string \<Rightarrow> int \<Rightarrow> int \<Rightarrow> hb_end" where
  "end_absent i ageMs ms = \<lparr>he_reason = ''HOST_MEDIA_LOST'',
     he_message = ''Live stream ended because the host's video was lost.'', he_kind = ''HEARTBEAT_LOST'', he_code = ''HOST_MEDIA_LOST'',
     he_text = ''Host heartbeating but absent from LiveKit for '' @ int_str ms @ '' ms; stream auto-ended.'',
     he_meta = [(''ageMs'', NumI ageMs), (''absentMs'', NumI ms)], he_cleanup = Some (hostAbsentKey i)\<rparr>"

definition end_ghost :: "int \<Rightarrow> hb_end" where
  "end_ghost ageMs = \<lparr>he_reason = ''NO_LIVEKIT_HOST'',
     he_message = ''Live stream ended because the host never connected media.'', he_kind = ''GHOST_STREAM_ENDED'', he_code = ''NO_LIVEKIT_HOST'',
     he_text = ''Host never appeared in the LiveKit room; stream auto-ended.'', he_meta = [(''ageMs'', NumI ageMs)], he_cleanup = None\<rparr>"

definition end_silent :: "int \<Rightarrow> int option \<Rightarrow> int \<Rightarrow> hb_end" where
  "end_silent ageMs lastHeartbeatTime ms = \<lparr>he_reason = ''HEARTBEAT_LOST'',
     he_message = ''Live stream ended due to host network loss.'', he_kind = ''HEARTBEAT_LOST'',
     he_code = (case lastHeartbeatTime of Some t \<Rightarrow> if t \<noteq> 0 then ''HEARTBEAT_LOST'' else ''NO_HEARTBEAT_EVER'' | None \<Rightarrow> ''NO_HEARTBEAT_EVER''),
     he_text = ''No host heartbeat for '' @ int_str ms @ ''ms; stream auto-ended.'',
     he_meta = [(''ageMs'', NumI ageMs), (''sinceLastPingMs'', NumI ms)], he_cleanup = None\<rparr>"

definition host_present :: "'w hb_env \<Rightarrow> string \<Rightarrow> string \<Rightarrow> ('w, bool) act" where
  "host_present H i hostUserId = livekitHostIsPresent (hb_redis H) (hb_participants H) (hb_presence H) i hostUserId"

text \<open>The host is in the room: is there video?\<close>

definition present_check :: "'w hb_env \<Rightarrow> string \<Rightarrow> string \<Rightarrow> int \<Rightarrow> int \<Rightarrow> ('w, media_check) act" where
  "present_check H i hostUserId now ageMs =
     thenA (markHostConfirmed H i)
     (thenA (clearHostAbsent H i)
     (bindA (hostNoVideoMs (hb_redis H) (hb_participants H) (hb_checkedAt H) (hb_putCheckedAt H) i hostUserId now) (\<lambda>noVideoMs.
        ret (case noVideoMs of
               None \<Rightarrow> GoOn (Some True)
             | Some ms \<Rightarrow>
                 if HOST_NOVIDEO_MAX_MS (hb_cfg H) \<le> ms \<and> hostNoVideoMode (hb_novideo H) = ''enforce''
                 then EndStream (end_no_video i ageMs ms) else GoOn (Some True)))))"

text \<open>The host is not in the room: on a call, dropped, or never there.\<close>

definition absent_check :: "'w hb_env \<Rightarrow> string \<Rightarrow> string \<Rightarrow> int \<Rightarrow> ('w, media_check) act" where
  "absent_check H i hostUserId ageMs =
     bindA (hostPausedForCallOrReturn H hostUserId i) (\<lambda>paused.
       if paused then thenA (clearHostAbsent H i) (ret (GoOn (Some False)))
       else bindA (isHostConfirmed H i) (\<lambda>confirmed.
         if confirmed then
           bindA (noteHostAbsent H i) (\<lambda>absentMs. ret
             (if HOST_ABSENCE_MAX_MS (hb_cfg H) \<le> absentMs \<and> hostAbsenceMode (hb_absence H) = ''enforce''
              then EndStream (end_absent i ageMs absentMs) else GoOn (Some False)))
         else ret (EndStream (end_ghost ageMs))))"

definition media_decide :: "'w hb_env \<Rightarrow> string \<Rightarrow> string \<Rightarrow> int \<Rightarrow> int \<Rightarrow> ('w, media_check) act" where
  "media_decide H i hostUserId now ageMs =
     (if GHOST_SWEEP_ENABLED (hb_cfg H) \<and> LIVEKIT_HOST_GRACE_MS (hb_cfg H) \<le> ageMs then
        bindA (host_present H i hostUserId) (\<lambda>hostInLk.
          if hostInLk then present_check H i hostUserId now ageMs else absent_check H i hostUserId ageMs)
      else ret (GoOn None))"

text \<open>\<open>parsed.timestamp\<close>; a text that is no JSON reads as a number.\<close>

definition heartbeat_time :: "jtext option \<Rightarrow> ('w, int option) act" where
  "heartbeat_time rawHb =
     (if \<not> truthy_text rawHb then ret None
      else case JSON_parse (the rawHb) of
        None \<Rightarrow> ret (Number_of (the rawHb))
      | Some Null \<Rightarrow> ret (Number_of (the rawHb))
      | Some parsed \<Rightarrow> ret (case get_field parsed ''timestamp'' of Num q \<Rightarrow> Some \<lfloor>q\<rfloor> | _ \<Rightarrow> None))"

definition since_ping :: "int \<Rightarrow> int \<Rightarrow> int option \<Rightarrow> int" where
  "since_ping now ageMs lastPing = (case lastPing of Some t \<Rightarrow> if t \<noteq> 0 then now - t else ageMs | None \<Rightarrow> ageMs)"

definition silence_decide :: "'w hb_env \<Rightarrow> string \<Rightarrow> string \<Rightarrow> int \<Rightarrow> int \<Rightarrow> bool option \<Rightarrow> ('w, hb_end option) act" where
  "silence_decide H i hostUserId now ageMs known =
     (if ageMs < HEARTBEAT_START_GRACE_MS (hb_cfg H) then ret None
      else
        bindA (ifOpen (hb_redis H) (bindA (r_get (hb_redis H) (key ''stream:heartbeat'' i)) heartbeat_time) (ret None)) (\<lambda>ping.
          if since_ping now ageMs ping \<le> HEARTBEAT_TIMEOUT_MS (hb_cfg H) then ret None
          else
            bindA (case known of Some b \<Rightarrow> ret b | None \<Rightarrow> host_present H i hostUserId) (\<lambda>hostInLk.
            bindA (if hostInLk then ret False else hostPausedForCallOrReturn H hostUserId i) (\<lambda>paused.
              case heartbeatVerdict now ageMs ping (HEARTBEAT_TIMEOUT_MS (hb_cfg H)) (HEARTBEAT_START_GRACE_MS (hb_cfg H)) paused hostInLk of
                Keepalive \<Rightarrow>
                  thenA (recordStreamHeartbeat H i (Some hostUserId)) (thenA (markHostConfirmed H i) (ret None))
              | Paused \<Rightarrow> ret None
              | _ \<Rightarrow> ret (Some (end_silent ageMs ping (since_ping now ageMs ping)))))))"

text \<open>The row's start time, or now.\<close>

definition start_time :: "int \<Rightarrow> jsval \<Rightarrow> int" where
  "start_time now stream = (case js_or (get_field stream ''startedAt'') (get_field stream ''createdAt'') of Num q \<Rightarrow> \<lfloor>q\<rfloor> | _ \<Rightarrow> now)"

definition stream_key :: "jsval \<Rightarrow> string" where
  "stream_key stream = js_String (js_or (get_field stream ''streamId'') (get_field stream ''id''))"

definition check_decide :: "'w hb_env \<Rightarrow> jsval \<Rightarrow> int \<Rightarrow> ('w, hb_end option) act" where
  "check_decide H stream now =
     bindA (askA (hb_now H)) (\<lambda>t.
       let i = stream_key stream; host = js_String (get_field stream ''userId''); ageMs = now - start_time t stream in
       bindA (media_decide H i host now ageMs) (\<lambda>m.
         case m of EndStream e \<Rightarrow> ret (Some e) | GoOn known \<Rightarrow> silence_decide H i host now ageMs known))"

definition emitStreamEnded :: "'w hb_env \<Rightarrow> jsval \<Rightarrow> string \<Rightarrow> string \<Rightarrow> string \<Rightarrow> ('w, unit) act" where
  "emitStreamEnded H stream i reason message =
     (let payload = Obj [(''streamId'', Str i), (''streamDbId'', get_field stream ''id''), (''reason'', Str reason), (''message'', Str message)] in
      thenA (hb_emit H i payload)
        (if truthy (get_field stream ''id'') \<and> get_field stream ''id'' \<noteq> Str i
         then hb_emit H (js_String (get_field stream ''id'')) payload else ret ()))"

text \<open>The failure with what LiveKit and the socket saw; without it when they cannot be asked.\<close>

definition sweep_failure :: "'w hb_env \<Rightarrow> string \<Rightarrow> string \<Rightarrow> hb_end \<Rightarrow> ('w, jsval) act" where
  "sweep_failure H i host e =
     (let base = [(''kind'', Str (he_kind e)), (''userId'', Str host), (''streamId'', Str i), (''code'', Str (he_code e)),
                  (''message'', Str (he_text e)), (''meta'', Obj (he_meta e))] in
      catchA
        (bindA (hostStreamFacts (hb_redis H) i host) (\<lambda>facts.
         bindA (disconnectMeta (hb_redis H) (hb_now H) host) (\<lambda>disc.
           ret (Obj (obj_spread base [(''role'', Str ''host''),
             (''meta'', Obj (obj_spread (obj_spread (he_meta e)
                [(''livekit'', Str (livekitCause facts)), (''livekitJoins'', NumI (hf_joins facts))]) disc))])))))
        (\<lambda>_. ret (Obj base)))"

text \<open>End first; the failure is recorded and the viewers told only if this sweep's end won.\<close>

definition endFromSweep :: "'w hb_env \<Rightarrow> jsval \<Rightarrow> string \<Rightarrow> hb_end \<Rightarrow> ('w, unit) act" where
  "endFromSweep H stream i e =
     bindA (catchA (endLiveStreamService (hb_life H) (hb_redis H) (hb_db H) (js_String (get_field stream ''id''))
              (js_String (get_field stream ''userId'')) (he_reason e))
             (\<lambda>_. ret Null)) (\<lambda>result.
       if \<not> truthy result \<or> truthy (get_field result ''alreadyEnded'') then ret ()
       else bindA (sweep_failure H i (js_String (get_field stream ''userId'')) e) (\<lambda>failure.
         thenA (hb_recordFailure H failure) (emitStreamEnded H stream i (he_reason e) (he_message e))))"

definition perform :: "'w hb_env \<Rightarrow> jsval \<Rightarrow> hb_end \<Rightarrow> ('w, unit) act" where
  "perform H stream e =
     thenA (endFromSweep H stream (stream_key stream) e)
       (case he_cleanup e of
          None \<Rightarrow> ret ()
        | Some k \<Rightarrow> ifOpen (hb_redis H) (quietly (r_del (hb_redis H) [k])) (ret ()))"

definition checkStream :: "'w hb_env \<Rightarrow> jsval \<Rightarrow> int \<Rightarrow> ('w, unit) act" where
  "checkStream H stream now =
     bindA (check_decide H stream now) (\<lambda>d. case d of None \<Rightarrow> ret () | Some e \<Rightarrow> perform H stream e)"

section \<open>A tick\<close>

text \<open>
  \<open>forEachLimit\<close>: the workers share one index, so the items are started in order; each settles on its own
  and its error goes to \<open>onError\<close>. The model runs the items one after another.
\<close>

definition forEachLimit :: "('a \<Rightarrow> ('w, unit) act) \<Rightarrow> (exn \<Rightarrow> 'a \<Rightarrow> ('w, unit) act) \<Rightarrow> 'a list \<Rightarrow> ('w, unit) act" where
  "forEachLimit f onError items = forA (\<lambda>x. catchA (f x) (\<lambda>e. onError e x)) items"

text \<open>\<open>running\<close> is \<open>tickRunning\<close>; \<open>leader\<close> is \<open>isLeader('stream-heartbeat-monitor')\<close>.\<close>

definition monitor_tick :: "'w hb_env \<Rightarrow> ('w, bool) act \<Rightarrow> bool \<Rightarrow> ('w, unit) act" where
  "monitor_tick H leader running =
     (if running then ret ()
      else quietly (bindA leader (\<lambda>l.
        if \<not> l then ret ()
        else bindA (hb_liveStreams H) (\<lambda>activeStreams.
          if activeStreams = [] then ret ()
          else bindA (askA (hb_now H)) (\<lambda>now.
            forEachLimit (\<lambda>s. checkStream H s now) (\<lambda>_ _. ret ()) activeStreams)))))"

section \<open>Lemmas\<close>

lemma never_throws_confirmed: "never_throws (isHostConfirmed H i)"
  unfolding isHostConfirmed_def by (intro never_throws_ifOpen never_throws_catchA never_throws_ret)

lemma never_throws_absent: "never_throws (noteHostAbsent H i)"
  unfolding noteHostAbsent_def by (intro never_throws_ifOpen never_throws_catchA never_throws_ret)

lemma never_throws_mark: "never_throws (markHostConfirmed H i)" "never_throws (clearHostAbsent H i)"
  unfolding markHostConfirmed_def clearHostAbsent_def by (intro never_throws_ifOpen never_throws_quietly never_throws_ret)+

text \<open>With the host in the room the policy never ends a stream; without a pause and without him it always does.\<close>

lemma verdict_in_room: "heartbeatVerdict now age l tm g p True \<noteq> End" "heartbeatVerdict now age l tm g p True \<noteq> Paused"
  by (simp_all add: heartbeatVerdict_def Let_def)

lemma verdict_gone:
  "g \<le> age \<Longrightarrow> tm < since_ping now age l \<Longrightarrow> heartbeatVerdict now age l tm g False False = End"
  by (auto simp: heartbeatVerdict_def since_ping_def Let_def split: option.splits)

lemma present_goes_on:
  assumes "hostNoVideoMode (hb_novideo H) \<noteq> ''enforce''" and "present_check H i host now age w = (Inr m, w1)"
  shows "m = GoOn (Some True)"
  using assms by (auto simp: present_check_def act_Inr split: option.splits)

lemma silence_in_room:
  assumes "known = Some True \<or> known = None \<and> (\<forall>w b w1. host_present H i host w = (Inr b, w1) \<longrightarrow> b)"
    and "silence_decide H i host now age known w = (Inr d, w1)"
  shows "d = None"
proof -
  have "d = None" if "heartbeatVerdict now age l tm g p True = v"
    and "(case v of Keepalive \<Rightarrow> thenA a (thenA b (ret None)) | Paused \<Rightarrow> ret None | _ \<Rightarrow> ret (Some e)) w' = (Inr d, w'')"
    and "v \<noteq> Alive" for l tm g p v e w' w'' and a :: "('a, int option) act" and b :: "('a, unit) act"
    using that verdict_in_room [of now age l tm g p] by (cases v) (auto simp: act_Inr)
  moreover have "heartbeatVerdict now age l (HEARTBEAT_TIMEOUT_MS (hb_cfg H)) (HEARTBEAT_START_GRACE_MS (hb_cfg H)) p True \<noteq> Alive"
    if "\<not> since_ping now age l \<le> HEARTBEAT_TIMEOUT_MS (hb_cfg H)" "\<not> age < HEARTBEAT_START_GRACE_MS (hb_cfg H)" for l p
    using that by (auto simp: heartbeatVerdict_def since_ping_def Let_def split: option.splits)
  ultimately show ?thesis
    using assms
    by (auto simp: silence_decide_def act_Inr ret_Inr split: if_splits option.splits)
       metis+
qed

section \<open>Properties\<close>

text \<open>
  C6: While the presence question answers that the host is in his LiveKit room, no check ends his stream,
  however old the last heartbeat is; only the no-video cap, when it is enforced, can.
\<close>

theorem host_in_room_not_ended:
  assumes "\<And>w b w1. host_present H (stream_key stream) (js_String (get_field stream ''userId'')) w = (Inr b, w1) \<Longrightarrow> b"
    and "hostNoVideoMode (hb_novideo H) \<noteq> ''enforce''"
    and "check_decide H stream now w = (Inr d, w1)"
  shows "d = None"
proof -
  let ?i = "stream_key stream" and ?h = "js_String (get_field stream ''userId'')"
  let ?age = "now - start_time (hb_now H w) stream"
  obtain m w2 where m: "media_decide H ?i ?h now ?age w = (Inr m, w2)"
      "(case m of EndStream e \<Rightarrow> ret (Some e) | GoOn known \<Rightarrow> silence_decide H ?i ?h now ?age known) w2 = (Inr d, w1)"
    using assms(3) by (auto simp: check_decide_def bindA_Inr askA_run Let_def)
  have "m = GoOn (Some True) \<or> m = GoOn None"
    using m(1) assms(1) present_goes_on [OF assms(2)]
    by (auto simp: media_decide_def act_Inr split: if_splits)
  then show ?thesis
    using m(2) silence_in_room [of _ H ?i ?h now ?age w2 d w1] assms(1) by fastforce
qed

text \<open>A LiveKit whose rooms are given, and tables without calls.\<close>

definition demo_hb :: "(string \<Rightarrow> (life_mem, jsval list) act) \<Rightarrow> life_mem hb_env" where
  "demo_hb rooms = \<lparr>hb_cfg = default_cfg, hb_absence = None, hb_novideo = None, hb_presence = ''off'', hb_redis = mem_redis,
     hb_now = m_clk, hb_participants = rooms, hb_checkedAt = (\<lambda>_. []), hb_putCheckedAt = (\<lambda>_ w. w),
     hb_activeCall = (\<lambda>_. ret Null), hb_life = mem_life_env, hb_db = mem_life_db, hb_liveStreams = ret [],
     hb_recordFailure = (\<lambda>_. ret ()), hb_emit = (\<lambda>_ _. ret ())\<rparr>"

definition demo_stream :: jsval where
  "demo_stream = Obj [(''id'', Str ''s''), (''streamId'', Str ''s''), (''userId'', Str ''h''), (''startedAt'', Num 1)]"

definition closed_mem :: "life_mem redis" where
  "closed_mem = mem_redis\<lparr>isOpen := \<lambda>_. False\<rparr>"

abbreviation room_of_h :: "string \<Rightarrow> (life_mem, jsval list) act" where
  "room_of_h \<equiv> (\<lambda>_. ret [Obj [(''identity'', Str ''h'')]])"

lemma demo_stream_fields:
  "stream_key demo_stream = ''s''" "js_String (get_field demo_stream ''userId'') = ''h''" "start_time t demo_stream = 1"
  by (simp_all add: demo_stream_def stream_key_def js_or_def js_String_def get_field_def truthy_def start_time_def)

lemma demo_host_present: "host_present ((demo_hb room_of_h)\<lparr>hb_redis := R\<rparr>) ''s'' ''h'' w = (Inr True, w)"
  by (simp add: host_present_def demo_hb_def livekitHostIsPresent_def livekitApiHostIsPresent_def act_simps get_field_def)

theorem host_in_room_not_ended_witness:
  "\<exists>w1. check_decide ((demo_hb room_of_h)\<lparr>hb_redis := closed_mem\<rparr>) demo_stream 400000 (life0 400000) = (Inr None, w1)"
proof -
  let ?H = "(demo_hb room_of_h)\<lparr>hb_redis := closed_mem\<rparr>"
  have closed: "isOpen closed_mem w = False" for w by (simp add: closed_mem_def)
  have f: "hb_redis ?H = closed_mem" "hb_now ?H = m_clk" "hb_cfg ?H = default_cfg" "hb_checkedAt ?H = (\<lambda>_. [])"
    "hb_putCheckedAt ?H = (\<lambda>_ w. w)"
    by (simp_all add: demo_hb_def)
  have "\<exists>d. check_decide ?H demo_stream 400000 (life0 400000) = (Inr d, life0 400000)"
    by (simp add: check_decide_def media_decide_def present_check_def silence_decide_def demo_stream_fields demo_host_present f closed
        markHostConfirmed_def clearHostAbsent_def hostNoVideoMs_def recordStreamHeartbeat_def act_simps Let_def life0_def default_cfg_def
        since_ping_def heartbeatVerdict_def)
  then obtain d where d: "check_decide ?H demo_stream 400000 (life0 400000) = (Inr d, life0 400000)" by blast
  have "d = None"
  proof (rule host_in_room_not_ended [OF _ _ d])
    show "b" if "host_present ?H (stream_key demo_stream) (js_String (get_field demo_stream ''userId'')) w = (Inr b, w1)" for w b w1
      using that by (simp add: demo_stream_fields demo_host_present)
    have "hostNoVideoMode None \<noteq> ''enforce''" by code_simp
    then show "hostNoVideoMode (hb_novideo ?H) \<noteq> ''enforce''" by (simp add: demo_hb_def)
  qed
  with d show ?thesis by blast
qed

definition heartbeat_read :: "'w hb_env \<Rightarrow> string \<Rightarrow> ('w, int option) act" where
  "heartbeat_read H i = ifOpen (hb_redis H) (bindA (r_get (hb_redis H) (key ''stream:heartbeat'' i)) heartbeat_time) (ret None)"



text \<open>
  A failure of LiveKit's participant list ends fresh streams: a host who was not yet confirmed counts
  as a ghost once the stream is twenty seconds old, even if his heartbeat is recent.
\<close>

theorem api_outage_ends_fresh_stream:
  assumes "hb_presence H = ''off''" and "stream_key stream \<noteq> []" and "js_String (get_field stream ''userId'') \<noteq> []"
    and "hb_participants H (stream_key stream) w = (Inl err, w1)"
    and "hostPausedForCallOrReturn H (js_String (get_field stream ''userId'')) (stream_key stream) w1 = (Inr False, w2)"
    and "isHostConfirmed H (stream_key stream) w2 = (Inr False, w3)"
    and "GHOST_SWEEP_ENABLED (hb_cfg H)" and "LIVEKIT_HOST_GRACE_MS (hb_cfg H) \<le> now - start_time (hb_now H w) stream"
  shows "check_decide H stream now w = (Inr (Some (end_ghost (now - start_time (hb_now H w) stream))), w3)"
proof -
  have "host_present H (stream_key stream) (js_String (get_field stream ''userId'')) w = (Inr False, w1)"
    using assms(1-4) by (simp add: host_present_def livekitHostIsPresent_def livekitApiHostIsPresent_def act_simps)
  then show ?thesis
    using assms(5-8) by (simp add: check_decide_def media_decide_def absent_check_def act_simps Let_def)
qed

definition beating :: life_mem where
  "beating = snd (recordStreamHeartbeat (demo_hb (\<lambda>_. throw (Error ''503''))) ''s'' (Some ''h'') (life0 25000))"

theorem api_outage_ends_fresh_stream_witness:
  "\<exists>w1. check_decide (demo_hb (\<lambda>_. throw (Error ''503''))) demo_stream 25000 beating = (Inr (Some (end_ghost 24999)), w1)"
proof -
  let ?H = "demo_hb (\<lambda>_. throw (Error ''503''))"
  have "\<not> truthy_text (map_option fst (mem_live beating (hostConfirmedKey ''s'')))"
    and "\<not> truthy_text (map_option fst (mem_live beating ''host:return_timer:s:h''))"
    and "\<not> truthy_text (map_option fst (mem_live beating ''host:return_timer:h''))"
    and "m_clk beating = 25000"
    by code_simp+
  then have "isHostConfirmed ?H ''s'' beating = (Inr False, beating)"
      "hostPausedForCallOrReturn ?H ''h'' ''s'' beating = (Inr False, beating)" "m_clk beating = 25000"
    by (simp_all add: isHostConfirmed_def hostPausedForCallOrReturn_def demo_hb_def act_simps mem_redis_def truthy_def)
  then show ?thesis
    using api_outage_ends_fresh_stream [of ?H demo_stream beating "Error ''503''" beating beating beating 25000]
    by (simp add: demo_stream_fields demo_hb_def act_simps default_cfg_def)
qed

text \<open>
  A sweep that lost the end to someone else records no failure and tells the viewers nothing: it
  leaves the world as the end left it.
\<close>

theorem lost_end_is_silent:
  assumes "endLiveStreamService (hb_life H) (hb_redis H) (hb_db H) (js_String (get_field stream ''id''))
      (js_String (get_field stream ''userId'')) (he_reason e) w = (r, w1)"
    and "case r of Inl err \<Rightarrow> True | Inr v \<Rightarrow> truthy (get_field v ''alreadyEnded'')"
  shows "endFromSweep H stream i e w = (Inr (), w1)"
  using assms by (cases r) (simp_all add: endFromSweep_def act_simps truthy_def [of Null])

theorem lost_end_is_silent_witness:
  "endFromSweep ((demo_hb room_of_h)\<lparr>hb_redis := closed_mem\<rparr>) demo_stream ''s'' (end_ghost 1) (life0 5) = (Inr (), life0 5)"
proof -
  let ?H = "(demo_hb room_of_h)\<lparr>hb_redis := closed_mem\<rparr>"
  have "endLiveStreamService (hb_life ?H) (hb_redis ?H) (hb_db ?H) (js_String (get_field demo_stream ''id''))
      (js_String (get_field demo_stream ''userId'')) (he_reason (end_ghost 1)) (life0 5) =
      (Inl (Error ''Live stream not found.''), life0 5)"
    by (simp add: endLiveStreamService_def demo_hb_def mem_life_db_def mem_room_db_def find_row_def life0_def truthy_def
        closed_mem_def act_simps)
  then show ?thesis by (rule lost_end_is_silent) simp
qed

end
