(* ===== verification/Call_Session.thy ===== *)
theory Call_Session
  imports Stream_Lifecycle User_Names LiveKit_Events Gift_Info Admin_Settings Ledger_Client Cluster
begin

text \<open>
  The paid video call, \<open>src/modules/videoCall/service.js\<close> and \<open>src/modules/videoCall/livekit.js\<close>: heartbeats,
  starting a call under the two locks, accepting, rejecting and ending it, and what a call leaves to the
  host's live stream. A session row is \<open>call_row\<close>; queries, LiveKit, sockets of other nodes and the durable
  timers (theory \<open>Durable_Timers\<close>) are fields of \<open>call_env\<close>. What the source starts without waiting runs in its place.
\<close>

section \<open>The row and the environment\<close>

datatype call_status = RINGING | ACTIVE | ENDED | MISSED | REJECTED

record call_row =
  vs_id :: string
  vs_callerId :: string
  vs_creatorId :: string
  vs_room :: string
  vs_price :: int
  vs_status :: call_status
  vs_mins :: int
  vs_startedAt :: int
  vs_endedAt :: "int option"
  vs_endReason :: "string option"

definition live_status :: "call_status \<Rightarrow> bool" where
  "live_status s \<longleftrightarrow> s = RINGING \<or> s = ACTIVE"

record 'w call_env =
  vc_redis :: "'w redis"
  vc_now :: "'w \<Rightarrow> int"
  vc_uuid :: "('w, string) act"
  vc_ledger :: "'w ledger_env"
  vc_find :: "string \<Rightarrow> ('w, call_row option) act"
  vc_flip :: "string \<Rightarrow> call_status \<Rightarrow> call_status \<Rightarrow> int \<Rightarrow> string \<Rightarrow> ('w, nat) act"
     \<comment> \<open>\<open>updateMany({ where: { id, status }, data: { status, endedAt, endReason } })\<close>: rows changed\<close>
  vc_create :: "string \<Rightarrow> string \<Rightarrow> string \<Rightarrow> int \<Rightarrow> ('w, call_row) act"
  vc_busy :: "string \<Rightarrow> ('w, call_row option) act"     \<comment> \<open>a ringing or active call of a user\<close>
  vc_activeCalls :: "('w, call_row list) act"
  vc_ringingBefore :: "int \<Rightarrow> ('w, call_row list) act"
  vc_settings :: "string \<Rightarrow> ('w, jsval) act"
  vc_blocked :: "string \<Rightarrow> string \<Rightarrow> ('w, bool) act"
  vc_wealth :: "string \<Rightarrow> ('w, int option) act"
  vc_wallet :: "string \<Rightarrow> ('w, string option) act"     \<comment> \<open>the id of a user's coin wallet\<close>
  vc_insertWallet :: "string \<Rightarrow> ('w, unit) act"
  vc_lastCoins :: "string \<Rightarrow> ('w, int option) act"     \<comment> \<open>\<open>balanceAfter\<close> of a wallet's newest entry\<close>
  vc_user :: "string \<Rightarrow> ('w, jsval) act"
  vc_shareRow :: "('w, jsval) act"
  vc_memo :: "'w \<Rightarrow> int memo"
  vc_putMemo :: "int memo \<Rightarrow> 'w \<Rightarrow> 'w"
  vc_hb :: "'w \<Rightarrow> string \<Rightarrow> int option"                \<comment> \<open>\<open>heartbeatCache\<close>\<close>
  vc_putHb :: "(string \<Rightarrow> int option) \<Rightarrow> 'w \<Rightarrow> 'w"
  vc_sockets :: "'w \<Rightarrow> string \<Rightarrow> string option"        \<comment> \<open>\<open>userSockets\<close> of this node\<close>
  vc_putSockets :: "(string \<Rightarrow> string option) \<Rightarrow> 'w \<Rightarrow> 'w"
  vc_io :: "string \<Rightarrow> string \<Rightarrow> jsval \<Rightarrow> ('w, unit) act" \<comment> \<open>emit to one socket of the cluster\<close>
  vc_deleteRoom :: "string \<Rightarrow> ('w, unit) act"
  vc_token :: "string \<Rightarrow> string \<Rightarrow> ('w, string) act"
  vc_schedule :: "string \<Rightarrow> string \<Rightarrow> int \<Rightarrow> jsval \<Rightarrow> ('w, unit) act"
  vc_cancel :: "string \<Rightarrow> string \<Rightarrow> ('w, unit) act"
  vc_has :: "string \<Rightarrow> string \<Rightarrow> ('w, bool) act"
  vc_liveOfEither :: "string \<Rightarrow> string \<Rightarrow> ('w, jsval) act" \<comment> \<open>a live, unended stream of one of two users\<close>
  vc_liveOf :: "string \<Rightarrow> ('w, jsval) act"
  vc_liveStream :: "string \<Rightarrow> string \<Rightarrow> ('w, jsval) act"   \<comment> \<open>live with this stream id or this host\<close>
  vc_parts :: "'w \<Rightarrow> (string \<times> (string \<times> string) option \<times> int) list"   \<comment> \<open>\<open>participantCache\<close>: value, expiry\<close>
  vc_putParts :: "(string \<times> (string \<times> string) option \<times> int) list \<Rightarrow> 'w \<Rightarrow> 'w"
  vc_recordFailure :: "jsval \<Rightarrow> ('w, unit) act"
  vc_life :: "'w life_env"
  vc_db :: "'w life_db"

definition text_str :: "jtext \<Rightarrow> string" where
  "text_str t = (case t of Raw s \<Rightarrow> s | Json v \<Rightarrow> js_String v)"

section \<open>Reaching a user\<close>

definition userSocketKey :: "string \<Rightarrow> string" where
  "userSocketKey userId = ''vc:usersock:'' @ userId"

text \<open>The local socket, else the one another node noted in Redis.\<close>

definition emitToUser :: "'w call_env \<Rightarrow> string \<Rightarrow> string \<Rightarrow> jsval \<Rightarrow> ('w, unit) act" where
  "emitToUser C userId eventName payload =
     (if userId = [] then ret ()
      else bindA (askA (vc_sockets C)) (\<lambda>socks.
        if truthy_str (socks userId) then vc_io C (the (socks userId)) eventName payload
        else ifOpen (vc_redis C)
          (quietly (bindA (r_get (vc_redis C) (userSocketKey userId)) (\<lambda>remote.
             whenA (truthy_text remote) (vc_io C (text_str (the remote)) eventName payload))))
          (ret ())))"

definition closeCallRoom :: "'w call_env \<Rightarrow> string \<Rightarrow> ('w, unit) act" where
  "closeCallRoom C roomName = quietly (vc_deleteRoom C roomName)"

section \<open>Heartbeats of a call\<close>

definition HEARTBEAT_REDIS_TTL_SEC :: int where "HEARTBEAT_REDIS_TTL_SEC = 120"

definition callHeartbeatKey :: "string \<Rightarrow> string" where "callHeartbeatKey sid = ''vc:hb:'' @ sid"

definition recordHeartbeat :: "'w call_env \<Rightarrow> string \<Rightarrow> string \<Rightarrow> ('w, unit) act" where
  "recordHeartbeat C sid userId =
     (if sid = [] then ret ()
      else bindA (askA (vc_now C)) (\<lambda>now.
        thenA (\<lambda>w. (Inr (), vc_putHb C
                 (let m = (vc_hb C w)(sid \<mapsto> now) in
                  if userId \<noteq> [] then m(sid @ '':'' @ userId \<mapsto> now) else m) w))
          (ifOpen (vc_redis C)
             (quietly (r_set (vc_redis C) (callHeartbeatKey sid) (Raw (int_str now)) (ex_s HEARTBEAT_REDIS_TTL_SEC)))
             (ret ()))))"

text \<open>\<open>v || null\<close> of a time.\<close>

definition or_none :: "int option \<Rightarrow> int option" where
  "or_none t = (case t of Some n \<Rightarrow> if n = 0 then None else Some n | None \<Rightarrow> None)"

definition newer :: "int option \<Rightarrow> int option \<Rightarrow> int option" where
  "newer here remote =
     (case remote of
        None \<Rightarrow> here
      | Some r \<Rightarrow> (case here of Some l \<Rightarrow> if l > r then Some l else Some r | None \<Rightarrow> Some r))"

definition getCallHeartbeat :: "'w call_env \<Rightarrow> string \<Rightarrow> ('w, int option) act" where
  "getCallHeartbeat C sid =
     bindA (askA (\<lambda>w. or_none (vc_hb C w sid))) (\<lambda>here.
       ifOpen (vc_redis C)
         (catchA
            (bindA (r_get (vc_redis C) (callHeartbeatKey sid)) (\<lambda>raw.
               ret (newer here (if truthy_text raw then or_none (Number_of (the raw)) else None))))
            (\<lambda>_. ret here))
         (ret here))"

definition clearCallHeartbeat :: "'w call_env \<Rightarrow> string \<Rightarrow> string list \<Rightarrow> ('w, unit) act" where
  "clearCallHeartbeat C sid userIds =
     thenA (\<lambda>w. (Inr (), vc_putHb C
              (\<lambda>k. if k = sid \<or> k \<in> set (map (\<lambda>u. sid @ '':'' @ u) (filter (\<lambda>u. u \<noteq> []) userIds)) then None else vc_hb C w k) w))
       (ifOpen (vc_redis C) (quietly (r_del (vc_redis C) [callHeartbeatKey sid])) (ret ()))"

section \<open>What the caller can pay\<close>

definition getOrCreateWallet :: "'w call_env \<Rightarrow> string \<Rightarrow> ('w, string option) act" where
  "getOrCreateWallet C userId =
     bindA (vc_wallet C userId) (\<lambda>wallet.
       case wallet of
         Some i \<Rightarrow> ret (Some i)
       | None \<Rightarrow> thenA (vc_insertWallet C userId) (vc_wallet C userId))"

definition getFastCoinBalance :: "'w call_env \<Rightarrow> string \<Rightarrow> ('w, int) act" where
  "getFastCoinBalance C walletId =
     bindA (vc_lastCoins C walletId) (\<lambda>latest. ret (case latest of Some b \<Rightarrow> b | None \<Rightarrow> 0))"

text \<open>\<open>wallet.id\<close> of a missing wallet is a \<open>TypeError\<close>.\<close>

definition coins_of :: "'w call_env \<Rightarrow> string \<Rightarrow> ('w, int) act" where
  "coins_of C userId =
     bindA (getOrCreateWallet C userId) (\<lambda>wallet.
       case wallet of
         None \<Rightarrow> throw (TypeError ''Cannot read properties of null'')
       | Some i \<Rightarrow> getFastCoinBalance C i)"

definition coin_rate :: "'w call_env \<Rightarrow> int \<Rightarrow> ('w, int) act" where
  "coin_rate C pricePerMin =
     bindA (askA (vc_memo C)) (\<lambda>m.
     bindA (currentCallerCoinsPerMinute (vc_redis C) (vc_now C) (vc_shareRow C) m (NumI pricePerMin)) (\<lambda>(r, m1).
       thenA (\<lambda>w. (Inr (), vc_putMemo C m1 w)) (ret r)))"

definition frozen_check :: "'w call_env \<Rightarrow> string \<Rightarrow> ('w, unit) act" where
  "frozen_check C userId = checkCoinsFrozenFast (vc_redis C) (vc_user C) userId"

section \<open>Ending a call\<close>

definition LOWCOIN_TIMER :: string where "LOWCOIN_TIMER = ''vc_lowcoin''"
definition HOST_RETURN_TIMER :: string where "HOST_RETURN_TIMER = ''host_return''"
definition BILL_TIMER :: string where "BILL_TIMER = ''vc_bill''"
definition DISCONNECT_TIMER :: string where "DISCONNECT_TIMER = ''vc_disconnect''"

definition CALL_NET_LOST_REASONS :: "string list" where
  "CALL_NET_LOST_REASONS = [''HEARTBEAT_LOST'', ''USER_DISCONNECTED_TIMEOUT'']"

definition SYSTEM_END_REASONS :: "string list" where
  "SYSTEM_END_REASONS = [''HEARTBEAT_LOST'', ''INSUFFICIENT_BALANCE'', ''RINGING_TIMEOUT'', ''TEST_RESET'', ''SYSTEM_RESET'',
     ''ROOM_FINISHED_WEBHOOK'', ''VIOLATION_NUDITY'']"

definition duration_sec :: "int \<Rightarrow> call_row \<Rightarrow> int" where
  "duration_sec now s = math_round (of_int (now - vs_startedAt s) / 1000)"

text \<open>One side of the failure: what LiveKit saw of it and how its last socket closed.\<close>

definition side_meta :: "'w call_env \<Rightarrow> call_row \<Rightarrow> string \<Rightarrow> string \<Rightarrow> ('w, (string \<times> jsval) list) act" where
  "side_meta C session tag uid =
     bindA (hostStreamFacts (vc_redis C) (vs_room session) uid) (\<lambda>facts.
     bindA (askA (vc_now C)) (\<lambda>now.
     bindA (lastDisconnect (vc_redis C) uid now) (\<lambda>disc. ret
       ((tag @ ''Livekit'', Str (livekitCause facts)) #
        (if truthy disc then [(tag @ ''SocketClose'', get_field disc ''reason'')] else [])))))"

definition recordCallNetLost :: "'w call_env \<Rightarrow> call_row \<Rightarrow> string option \<Rightarrow> string \<Rightarrow> ('w, unit) act" where
  "recordCallNetLost C session droppedUserId reason =
     bindA (askA (vc_now C)) (\<lambda>now.
     bindA (side_meta C session ''caller'' (vs_callerId session)) (\<lambda>a.
     bindA (side_meta C session ''callee'' (vs_creatorId session)) (\<lambda>b.
       vc_recordFailure C (Obj
         [(''kind'', Str ''CALL_NET_LOST''), (''userId'', Str (str_or droppedUserId (vs_callerId session))),
          (''callId'', Str (vs_id session)),
          (''role'', if truthy_str droppedUserId
             then Str (if droppedUserId = Some (vs_callerId session) then ''caller'' else ''callee'') else Null),
          (''code'', Str reason), (''message'', Str (''Paid call ended after a lost connection ('' @ reason @ '').'')),
          (''meta'', Obj ([(''reason'', Str reason), (''durationSec'', NumI (duration_sec now session))] @ a @ b))]))))"

text \<open>One round of the loop: the call is over, the status moved under us, or this caller's flip won.\<close>

datatype end_try = Gone | Moved | Won call_row "call_row option"

definition ended_status :: "call_status \<Rightarrow> call_status" where
  "ended_status s = (if s = RINGING then MISSED else ENDED)"

text \<open>What the row read allows: an error, nothing to end, or the session to end.\<close>

definition end_gate :: "call_row option \<Rightarrow> string option \<Rightarrow> string \<Rightarrow> exn + call_row option" where
  "end_gate s userId reason = (case s of
       None \<Rightarrow> Inr None
     | Some session \<Rightarrow>
         if \<not> live_status (vs_status session) then Inr None
         else
           let systemEnd = userId = None \<and> reason \<in> set SYSTEM_END_REASONS in
           if \<not> systemEnd \<and> Some (vs_callerId session) \<noteq> userId \<and> Some (vs_creatorId session) \<noteq> userId
           then Inl (Error ''Unauthorized to end this call.'') else Inr (Some session))"

definition end_write :: "'w call_env \<Rightarrow> string \<Rightarrow> string \<Rightarrow> int option \<Rightarrow> call_row \<Rightarrow> ('w, end_try) act" where
  "end_write C sid reason endedAtOverride session =
     bindA (askA (vc_now C)) (\<lambda>now.
       bindA (vc_flip C sid (vs_status session) (ended_status (vs_status session))
           (case endedAtOverride of Some t \<Rightarrow> t | None \<Rightarrow> now) reason) (\<lambda>count.
         if count = 1 then bindA (vc_find C sid) (\<lambda>u. ret (Won session u)) else ret Moved))"

definition end_attempt :: "'w call_env \<Rightarrow> string \<Rightarrow> string option \<Rightarrow> string \<Rightarrow> int option \<Rightarrow> ('w, end_try) act" where
  "end_attempt C sid userId reason endedAtOverride =
     bindA (vc_find C sid) (\<lambda>s. case end_gate s userId reason of
         Inl e \<Rightarrow> throw e
       | Inr None \<Rightarrow> ret Gone
       | Inr (Some session) \<Rightarrow> end_write C sid reason endedAtOverride session)"

fun end_loop :: "nat \<Rightarrow> 'w call_env \<Rightarrow> string \<Rightarrow> string option \<Rightarrow> string \<Rightarrow> int option \<Rightarrow> ('w, (call_row \<times> call_row) option) act" where
  "end_loop 0 C sid userId reason ov = ret None"
| "end_loop (Suc n) C sid userId reason ov =
     bindA (end_attempt C sid userId reason ov) (\<lambda>t. case t of
       Gone \<Rightarrow> ret None
     | Won s (Some u) \<Rightarrow> ret (Some (s, u))
     | _ \<Rightarrow> end_loop n C sid userId reason ov)"

text \<open>The host of a paused stream gets two minutes to come back.\<close>

definition return_grace :: "'w call_env \<Rightarrow> string \<Rightarrow> call_row \<Rightarrow> ('w, unit) act" where
  "return_grace C sid session = quietly
     (bindA (r_get (vc_redis C) (''video_call:stream_pause:'' @ sid)) (\<lambda>t.
        whenA (truthy_text t)
          (let streamId = text_str (the t) in
           bindA (vc_liveOf C (vs_creatorId session)) (\<lambda>a.
           bindA (if \<not> truthy a \<and> vs_callerId session \<noteq> []
                  then bindA (vc_liveOf C (vs_callerId session)) (\<lambda>b.
                    ret (if truthy b then vs_callerId session else vs_creatorId session))
                  else ret (vs_creatorId session)) (\<lambda>hostId.
             thenA (ifOpen (vc_redis C)
                      (thenA (quietly (r_set (vc_redis C) (''host:return_timer:'' @ streamId @ '':'' @ hostId) (Raw ''pending'') (ex_s 120)))
                        (quietly (r_set (vc_redis C) (''host:return_timer:'' @ hostId) (Raw ''pending'') (ex_s 120))))
                      (ret ()))
               (bindA (askA (vc_now C)) (\<lambda>now.
                  vc_schedule C HOST_RETURN_TIMER hostId (now + 120000)
                    (Obj [(''streamId'', Str streamId), (''sessionId'', Str sid)]))))))))"

definition end_notice :: "'w call_env \<Rightarrow> string \<Rightarrow> call_row \<Rightarrow> string option \<Rightarrow> string \<Rightarrow> ('w, unit) act" where
  "end_notice C sid session userId reason =
     (let socketEvent = (if vs_status session = RINGING then ''CALL_MISSED'' else ''CALL_ENDED'');
          payload = Obj [(''sessionId'', Str sid), (''reason'', Str reason)]
      in if reason \<in> set SYSTEM_END_REASONS \<or> userId = None then
           thenA (emitToUser C (vs_callerId session) socketEvent payload) (emitToUser C (vs_creatorId session) socketEvent payload)
         else emitToUser C (if Some (vs_callerId session) = userId then vs_creatorId session else vs_callerId session) socketEvent payload)"

definition clear_call :: "'w call_env \<Rightarrow> string \<Rightarrow> call_row \<Rightarrow> ('w, unit) act" where
  "clear_call C sid session =
     thenA (closeCallRoom C (vs_room session))
     (thenA (clearCallHeartbeat C sid [vs_callerId session, vs_creatorId session])
     (thenA (ifOpen (vc_redis C)
        (thenA (whenA (vs_callerId session \<noteq> []) (quietly (r_del (vc_redis C) [''call:disconnect:'' @ sid @ '':'' @ vs_callerId session])))
          (whenA (vs_creatorId session \<noteq> []) (quietly (r_del (vc_redis C) [''call:disconnect:'' @ sid @ '':'' @ vs_creatorId session]))))
        (ret ()))
     (thenA (quietly (vc_cancel C LOWCOIN_TIMER sid))
     (thenA (quietly (vc_cancel C BILL_TIMER sid))
     (thenA (whenA (vs_callerId session \<noteq> []) (quietly (vc_cancel C DISCONNECT_TIMER (sid @ '':'' @ vs_callerId session))))
       (whenA (vs_creatorId session \<noteq> []) (quietly (vc_cancel C DISCONNECT_TIMER (sid @ '':'' @ vs_creatorId session)))))))))"

definition after_end :: "'w call_env \<Rightarrow> string \<Rightarrow> call_row \<Rightarrow> string option \<Rightarrow> string \<Rightarrow> ('w, unit) act" where
  "after_end C sid session userId reason =
     thenA (whenA (vs_status session = ACTIVE \<and> reason \<in> set CALL_NET_LOST_REASONS)
              (quietly (recordCallNetLost C session userId reason)))
     (thenA (end_notice C sid session userId reason)
     (thenA (clear_call C sid session)
       (return_grace C sid session)))"

definition endCall :: "'w call_env \<Rightarrow> string \<Rightarrow> string option \<Rightarrow> string \<Rightarrow> int option \<Rightarrow> ('w, call_row option) act" where
  "endCall C sid userId reason endedAtOverride =
     bindA (end_loop 2 C sid userId reason endedAtOverride) (\<lambda>r. case r of
       None \<Rightarrow> ret None
     | Some (session, updated) \<Rightarrow> thenA (after_end C sid session userId reason) (ret (Some updated)))"

section \<open>Starting a call\<close>

text \<open>A call that holds a user busy although nobody is in it: rung for 45 s, or silent for 30 s.\<close>

definition stale_call :: "'w call_env \<Rightarrow> call_row \<Rightarrow> ('w, bool) act" where
  "stale_call C s =
     (if vs_status s = RINGING then bindA (askA (vc_now C)) (\<lambda>now. ret (now - vs_startedAt s > 45000))
      else if vs_status s = ACTIVE then
        bindA (getCallHeartbeat C (vs_id s)) (\<lambda>lastPing.
        bindA (askA (vc_now C)) (\<lambda>now. ret
          (case lastPing of None \<Rightarrow> True | Some t \<Rightarrow> t = 0 \<or> now - t > 30000)))
      else ret False)"

definition clear_busy :: "'w call_env \<Rightarrow> string \<Rightarrow> ('w, unit) act \<Rightarrow> ('w, unit) act" where
  "clear_busy C userId refuse =
     bindA (vc_busy C userId) (\<lambda>busy. case busy of
       None \<Rightarrow> ret ()
     | Some s \<Rightarrow> bindA (stale_call C s) (\<lambda>isStale.
         if isStale then thenA (endCall C (vs_id s) (Some (vs_callerId s)) ''CLEANUP_STALE_BEFORE_INITIATE'' None) (ret ())
         else refuse))"

definition wealth_level :: "int option \<Rightarrow> int" where
  "wealth_level row = (case row of Some l \<Rightarrow> l | None \<Rightarrow> 1)"

text \<open>Name, avatar and public id another user is shown.\<close>

definition card_name :: "jsval \<Rightarrow> jsval" where
  "card_name u = (if truthy u then js_or (Str (full_name u)) (get_field u ''username'') else Str ''Unknown'')"

definition card_avatar :: "jsval \<Rightarrow> jsval" where
  "card_avatar u = (if truthy u then get_field u ''avatarUrl'' else Null)"

definition card_publicId :: "jsval \<Rightarrow> jsval" where
  "card_publicId u =
     (if truthy u \<and> \<not> is_nullish (get_field u ''publicId'')
      then (case js_Number (get_field u ''publicId'') of Some q \<Rightarrow> Num q | None \<Rightarrow> NonFinite) else Null)"

definition block_gate :: "jsval \<Rightarrow> int \<Rightarrow> ('w, unit) act" where
  "block_gate settings level =
     (if truthy (get_field settings ''blockLv10'') \<and> level \<le> 10
      then throw (Error ''Receiver is blocked for users below or equal to wealth level 10.'')
      else if truthy (get_field settings ''blockLv5'') \<and> level \<le> 5
      then throw (Error ''Receiver is blocked for users below or equal to wealth level 5.'')
      else ret ())"

text \<open>\<open>settings.pricePerMin\<close>, an integer column.\<close>

definition price_of :: "jsval \<Rightarrow> int" where
  "price_of settings = (case get_field settings ''pricePerMin'' of Num q \<Rightarrow> \<lfloor>q\<rfloor> | _ \<Rightarrow> 0)"

definition may_call :: "'w call_env \<Rightarrow> string \<Rightarrow> string \<Rightarrow> ('w, jsval) act" where
  "may_call C callerId creatorId =
     thenA (frozen_check C callerId)
     (if callerId = creatorId then throw (Error ''You can't call yourself.'')
      else bindA (vc_user C creatorId) (\<lambda>creator.
        if \<not> truthy creator then throw (Error ''Receiver not found.'')
        else bindA (vc_settings C creatorId) (\<lambda>settings.
          if \<not> truthy settings then throw (Error ''Receiver has not enabled video calls.'')
          else if get_field settings ''acceptVideoCalls'' = JBool False
          then throw (Error ''This user is not accepting video calls right now.'')
          else bindA (vc_blocked C callerId creatorId) (\<lambda>isBlocked.
            if isBlocked then throw (Error ''Cannot call this user because of block restrictions.'')
            else bindA (vc_wealth C callerId) (\<lambda>row.
              thenA (block_gate settings (wealth_level row))
              (bindA (coin_rate C (price_of settings)) (\<lambda>coinRate.
               bindA (coins_of C callerId) (\<lambda>callerCoins.
                 if callerCoins < coinRate then throw (Error ''Insufficient balance to initiate call.'')
                 else ret settings))))))))"

definition ring :: "'w call_env \<Rightarrow> string \<Rightarrow> string \<Rightarrow> jsval \<Rightarrow> ('w, call_row) act" where
  "ring C callerId creatorId settings =
     bindA (askA (vc_now C)) (\<lambda>now.
       let room = ''room_'' @ callerId @ ''_'' @ int_str now in
       bindA (vc_create C callerId creatorId room (price_of settings)) (\<lambda>session.
       bindA (vc_user C callerId) (\<lambda>u.
         thenA (emitToUser C creatorId ''CALL_INCOMING'' (Obj
             [(''sessionId'', Str (vs_id session)), (''callerId'', Str callerId), (''callerPublicId'', card_publicId u),
              (''livekitRoom'', Str room), (''callerName'', card_name u), (''callerAvatar'', card_avatar u)]))
           (ret session))))"

definition initiateCallUnlocked :: "'w call_env \<Rightarrow> string \<Rightarrow> string \<Rightarrow> ('w, call_row) act" where
  "initiateCallUnlocked C callerId creatorId =
     bindA (may_call C callerId creatorId) (\<lambda>settings.
     thenA (clear_busy C callerId (throw (Error ''You are already in an active call.'')))
     (thenA (clear_busy C creatorId
        (thenA (emitToUser C callerId ''USER_BUSY'' (Obj [(''creatorId'', Str creatorId)]))
          (throw (Error ''Receiver is currently busy.''))))
       (ring C callerId creatorId settings)))"

definition INITIATE_LOCK_MS :: int where "INITIATE_LOCK_MS = 5000"

definition initiateLockKey :: "string \<Rightarrow> string" where "initiateLockKey userId = ''vc:initiate:lock:'' @ userId"

definition releaseInitiateLocks :: "'w call_env \<Rightarrow> string list \<Rightarrow> string \<Rightarrow> ('w, unit) act" where
  "releaseInitiateLocks C keys token =
     ifOpen (vc_redis C) (forA (\<lambda>k. quietly (release_lua (vc_redis C) k token)) keys) (ret ())"

text \<open>\<open>try { m } finally { f }\<close>\<close>

definition finallyA :: "('w, 'a) act \<Rightarrow> ('w, unit) act \<Rightarrow> ('w, 'a) act" where
  "finallyA m f = (\<lambda>w. case m w of
      (Inl e, w1) \<Rightarrow> thenA f (throw e) w1
    | (Inr x, w1) \<Rightarrow> thenA f (ret x) w1)"

definition onErrorA :: "('w, 'a) act \<Rightarrow> ('w, unit) act \<Rightarrow> ('w, 'a) act" where
  "onErrorA m f = catchA m (\<lambda>e. thenA f (throw e))"

definition take_lock :: "'w call_env \<Rightarrow> string \<Rightarrow> string \<Rightarrow> ('w, bool) act" where
  "take_lock C userId token =
     r_set (vc_redis C) (initiateLockKey userId) (Raw token) (nx_px_ms INITIATE_LOCK_MS)"

text \<open>The locks are taken in order, and whatever happens the ones held are released.\<close>

definition initiateCall :: "'w call_env \<Rightarrow> string \<Rightarrow> string \<Rightarrow> ('w, call_row) act" where
  "initiateCall C callerId creatorId =
     (if callerId = creatorId then throw (Error ''You can't call yourself.'')
      else ifOpen (vc_redis C)
        (bindA (vc_uuid C) (\<lambda>token.
         let k1 = initiateLockKey callerId; k2 = initiateLockKey creatorId in
         bindA (take_lock C callerId token) (\<lambda>mine.
           if \<not> mine then throw (Error ''You are already in an active call.'')
           else bindA (onErrorA (take_lock C creatorId token) (releaseInitiateLocks C [k1] token)) (\<lambda>theirs.
             if \<not> theirs then
               finallyA (thenA (emitToUser C callerId ''USER_BUSY'' (Obj [(''creatorId'', Str creatorId)]))
                           (throw (Error ''Receiver is currently busy.'')))
                 (releaseInitiateLocks C [k1] token)
             else finallyA (initiateCallUnlocked C callerId creatorId) (releaseInitiateLocks C [k1, k2] token)))))
        (initiateCallUnlocked C callerId creatorId))"

section \<open>Accepting and rejecting\<close>

text \<open>\<open>broadcastToStream\<close> is the socket service's; it is a field of the life environment.\<close>

definition pause_stream :: "'w call_env \<Rightarrow> string \<Rightarrow> call_row \<Rightarrow> ('w, unit) act" where
  "pause_stream C sid session = quietly
     (bindA (vc_liveOfEither C (vs_creatorId session) (vs_callerId session)) (\<lambda>activeStream.
        whenA (truthy activeStream)
          (let streamId = js_String (js_or (get_field activeStream ''streamId'') (get_field activeStream ''id'')) in
           thenA (r_set (vc_redis C) (''video_call:stream_pause:'' @ sid) (Raw streamId) (ex_s 86400))
           (thenA (en_broadcast (vc_life C) streamId ''HOST_LIVE_PAUSED''
                     (Obj [(''streamId'', Str streamId), (''isPaused'', JBool True), (''message'', Str ''Will Be Back'')]))
           (bindA (getSheetUsersService (vc_redis C) (vc_now C) streamId) (\<lambda>sheetUsers.
              forA (\<lambda>su. let u = js_String (get_field su ''userId'') in
                thenA (removeUserFromSheetService (vc_redis C) streamId u)
                  (en_broadcast (vc_life C) streamId ''user_left_sheet''
                     (Obj [(''userId'', get_field su ''userId''), (''reason'', Str ''HOST_ON_VIDEO_CALL'')]))) sheetUsers))))))"

definition scheduleLowCoinDisconnect :: "'w call_env \<Rightarrow> string \<Rightarrow> string \<Rightarrow> int \<Rightarrow> int \<Rightarrow> int \<Rightarrow> ('w, unit) act" where
  "scheduleLowCoinDisconnect C sid callerId coinRate disconnectAtMs minute =
     vc_schedule C LOWCOIN_TIMER sid disconnectAtMs (Obj [(''callerId'', Str callerId), (''coinRate'', Str (int_str coinRate)),
       (''disconnectAtMs'', NumI disconnectAtMs), (''minute'', NumI minute)])"

text \<open>When the caller cannot pay another minute and nothing is scheduled, schedule the end of minute \<open>m\<close>.\<close>

definition low_coin_check :: "'w call_env \<Rightarrow> string \<Rightarrow> string \<Rightarrow> int \<Rightarrow> int \<Rightarrow> int \<Rightarrow> ('w, unit) act" where
  "low_coin_check C sid callerId coinRate startedAt m =
     bindA (vc_has C LOWCOIN_TIMER sid) (\<lambda>pending.
       if pending then ret ()
       else bindA (coins_of C callerId) (\<lambda>coins.
         if coins < coinRate then bindA (askA (vc_now C)) (\<lambda>now.
           whenA (0 < startedAt + m * 60000 - now)
             (scheduleLowCoinDisconnect C sid callerId coinRate (startedAt + m * 60000) m))
         else ret ()))"

text \<open>After accepting, the balance is read before the pending timer is asked for.\<close>

definition first_low_coin :: "'w call_env \<Rightarrow> string \<Rightarrow> string \<Rightarrow> int \<Rightarrow> call_row option \<Rightarrow> ('w, unit) act" where
  "first_low_coin C sid callerId coinRate updated = quietly
     (bindA (coins_of C callerId) (\<lambda>coins.
        if coins < coinRate then
          bindA (vc_has C LOWCOIN_TIMER sid) (\<lambda>pending.
            if pending then ret ()
            else case updated of
              None \<Rightarrow> throw (TypeError ''Cannot read properties of null'')
            | Some u \<Rightarrow> bindA (askA (vc_now C)) (\<lambda>now.
                whenA (0 < vs_startedAt u + 60000 - now)
                  (scheduleLowCoinDisconnect C sid callerId coinRate (vs_startedAt u + 60000) 1)))
        else ret ()))"

definition BILL_MIN_GAP_MS :: int where "BILL_MIN_GAP_MS = 5000"

definition scheduleNextBilling :: "'w call_env \<Rightarrow> call_row option \<Rightarrow> ('w, unit) act" where
  "scheduleNextBilling C session =
     (case session of
        None \<Rightarrow> ret ()
      | Some s \<Rightarrow>
          if vs_status s \<noteq> ACTIVE then ret ()
          else bindA (askA (vc_now C)) (\<lambda>now.
            quietly (vc_schedule C BILL_TIMER (vs_id s) (max (vs_startedAt s + vs_mins s * 60000) (now + BILL_MIN_GAP_MS)) Null)))"

record accepted_call =
  ac_session :: "call_row option"
  ac_token :: string
  ac_callerId :: string
  ac_callerPublicId :: jsval
  ac_callerName :: jsval
  ac_callerAvatar :: jsval
  ac_pointRatePerMin :: int
  ac_earnedRatioPercentage :: int

definition acceptCallRemoteLedger :: "'w call_env \<Rightarrow> string \<Rightarrow> string \<Rightarrow> ('w, call_row option) act" where
  "acceptCallRemoteLedger C sid receiverId =
     bindA (catchA
        (callLedger (vc_ledger C) default_opts ''call-accept'' [(''sessionId'', Str sid), (''receiverId'', Str receiverId)])
        (\<lambda>err. throw (toLocalError err (insufficient_only ''Insufficient balance to accept call.'')))) (\<lambda>_.
       vc_find C sid)"

definition accept_after_ledger :: "'w call_env \<Rightarrow> string \<Rightarrow> string \<Rightarrow> call_row \<Rightarrow> int \<Rightarrow> call_row option \<Rightarrow> ('w, accepted_call) act" where
  "accept_after_ledger C sid receiverId session coinRate updated =
     bindA (vc_token C (vs_room session) receiverId) (\<lambda>receiverToken.
     bindA (vc_token C (vs_room session) (vs_callerId session)) (\<lambda>callerToken.
     bindA (vc_user C (vs_callerId session)) (\<lambda>callerUser.
     bindA (vc_user C receiverId) (\<lambda>receiverUser.
       thenA (emitToUser C (vs_callerId session) ''CALL_ACCEPTED'' (Obj
           [(''sessionId'', Str sid), (''roomName'', Str (vs_room session)), (''token'', Str callerToken),
            (''receiverId'', Str (vs_creatorId session)), (''receiverPublicId'', card_publicId receiverUser),
            (''receiverName'', card_name receiverUser), (''receiverAvatar'', card_avatar receiverUser),
            (''coinRatePerMin'', NumI coinRate)]))
       (thenA (recordHeartbeat C sid (vs_callerId session))
       (thenA (recordHeartbeat C sid (vs_creatorId session))
       (thenA (quietly (scheduleNextBilling C updated))
       (thenA (first_low_coin C sid (vs_callerId session) coinRate updated)
       (thenA (pause_stream C sid session)
         (ret \<lparr>ac_session = updated, ac_token = receiverToken, ac_callerId = vs_callerId session,
            ac_callerPublicId = card_publicId callerUser, ac_callerName = card_name callerUser,
            ac_callerAvatar = card_avatar callerUser, ac_pointRatePerMin = vs_price session,
            ac_earnedRatioPercentage = 60\<rparr>))))))))))"

definition ringing_for :: "call_row option \<Rightarrow> string \<Rightarrow> bool" where
  "ringing_for s receiverId \<longleftrightarrow> (case s of None \<Rightarrow> False | Some r \<Rightarrow> vs_status r = RINGING \<and> vs_creatorId r = receiverId)"

definition acceptCall :: "'w call_env \<Rightarrow> string \<Rightarrow> string \<Rightarrow> ('w, accepted_call) act" where
  "acceptCall C sid receiverId =
     bindA (vc_find C sid) (\<lambda>s.
       if \<not> ringing_for s receiverId then throw (Error ''Invalid session or unauthorized.'')
       else let session = the s in
         thenA (frozen_check C (vs_callerId session))
         (bindA (coin_rate C (vs_price session)) (\<lambda>coinRate.
          bindA (acceptCallRemoteLedger C sid receiverId) (\<lambda>updated.
            accept_after_ledger C sid receiverId session coinRate updated))))"

definition rejectCall :: "'w call_env \<Rightarrow> string \<Rightarrow> string \<Rightarrow> ('w, unit) act" where
  "rejectCall C sid receiverId =
     bindA (vc_find C sid) (\<lambda>s.
       if \<not> ringing_for s receiverId then throw (Error ''Invalid session or unauthorized.'')
       else bindA (askA (vc_now C)) (\<lambda>now.
         bindA (vc_flip C sid RINGING REJECTED now ''REJECTED_BY_RECEIVER'') (\<lambda>count.
           if count = 0 then throw (Error ''Invalid session or unauthorized.'')
           else emitToUser C (vs_callerId (the s)) ''CALL_REJECTED'' (Obj [(''sessionId'', Str sid)]))))"

section \<open>Questions about a call\<close>

definition PARTICIPANT_CACHE_MS :: int where "PARTICIPANT_CACHE_MS = 60000"

text \<open>The in-process cache of a call's two users; a missing session is kept as well.\<close>

definition getCallParticipants :: "'w call_env \<Rightarrow> string \<Rightarrow> ('w, (string \<times> string) option) act" where
  "getCallParticipants C sid =
     (if sid = [] then ret None
      else bindA (askA (\<lambda>w. (map_of (vc_parts C w) sid, vc_now C w))) (\<lambda>(hit, now).
        if (case hit of Some (_, e) \<Rightarrow> e > now | None \<Rightarrow> False) then ret (fst (the hit))
        else
          bindA (vc_find C sid) (\<lambda>s. bindA (askA (vc_now C)) (\<lambda>t.
            let v = map_option (\<lambda>r. (vs_callerId r, vs_creatorId r)) s in
            thenA (\<lambda>w. (Inr (), vc_putParts C ((sid, v, t + PARTICIPANT_CACHE_MS) #
                (if length (vc_parts C w) > 20000 then [] else filter (\<lambda>(k, _). k \<noteq> sid) (vc_parts C w))) w)) (ret v)))))"

definition isCallParticipant :: "(string \<times> string) option \<Rightarrow> string option \<Rightarrow> bool" where
  "isCallParticipant participants userId \<longleftrightarrow>
     (case participants of None \<Rightarrow> False
      | Some (a, b) \<Rightarrow> truthy_str userId \<and> (Some a = userId \<or> Some b = userId))"

record call_settings =
  cg_pricePerMin :: jsval
  cg_callerRatePerMin :: int
  cg_accept :: bool
  cg_isEligible :: bool
  cg_reason :: "string option"
  cg_wealthLevel :: int
  cg_callerCoins :: int

text \<open>The first reason against a call, before the balance is looked at.\<close>

definition refusal :: "jsval \<Rightarrow> bool \<Rightarrow> int \<Rightarrow> string option" where
  "refusal settings isBlocked level =
     (if get_field settings ''acceptVideoCalls'' = JBool False then Some ''NOT_ACCEPTING_CALLS''
      else if isBlocked then Some ''BLOCKED''
      else if truthy (get_field settings ''blockLv10'') \<and> level \<le> 10 then Some ''WEALTH_BLOCKED_LV10''
      else if truthy (get_field settings ''blockLv5'') \<and> level \<le> 5 then Some ''WEALTH_BLOCKED_LV5''
      else None)"

definition getCallSettingsForCaller :: "'w call_env \<Rightarrow> string \<Rightarrow> string \<Rightarrow> ('w, call_settings) act" where
  "getCallSettingsForCaller C callerId creatorId =
     (if callerId = creatorId then throw (Error ''You cannot check call settings for yourself.'')
      else bindA (vc_user C creatorId) (\<lambda>creator.
        if \<not> truthy creator then throw (Error ''Receiver not found.'')
        else bindA (vc_settings C creatorId) (\<lambda>settings.
          if \<not> truthy settings then throw (Error ''Receiver has not enabled video calls.'')
          else bindA (vc_blocked C callerId creatorId) (\<lambda>isBlocked.
          bindA (vc_wealth C callerId) (\<lambda>row.
          bindA (coin_rate C (price_of settings)) (\<lambda>coinRate.
          bindA (coins_of C callerId) (\<lambda>callerCoins.
            let level = wealth_level row;
                why = refusal settings isBlocked level;
                accepts = get_field settings ''acceptVideoCalls'' \<noteq> JBool False
            in ret \<lparr>cg_pricePerMin = get_field settings ''pricePerMin'', cg_callerRatePerMin = coinRate, cg_accept = accepts,
                 cg_isEligible = (why = None \<and> \<not> callerCoins < coinRate),
                 cg_reason = (if callerCoins < coinRate \<and> why = None then Some ''INSUFFICIENT_BALANCE'' else why),
                 cg_wealthLevel = level, cg_callerCoins = callerCoins\<rparr>)))))))"

text \<open>Once per call: exactly one side has joined LiveKit.\<close>

definition checkCallConnected :: "'w call_env \<Rightarrow> call_row \<Rightarrow> ('w, unit) act" where
  "checkCallConnected C session =
     ifOpen (vc_redis C)
       (if vs_callerId session = [] \<or> vs_creatorId session = [] then ret ()
        else bindA (hostStreamFacts (vc_redis C) (vs_room session) (vs_callerId session)) (\<lambda>caller.
        bindA (hostStreamFacts (vc_redis C) (vs_room session) (vs_creatorId session)) (\<lambda>callee.
          if hf_joined caller = hf_joined callee then ret ()
          else bindA (r_set (vc_redis C) (''vc:connectfail:'' @ vs_id session) (Raw ''1'') (nx_ex_s 3600)) (\<lambda>first.
            if \<not> first then ret ()
            else
              let missing = (if hf_joined caller then vs_creatorId session else vs_callerId session) in
              bindA (askA (vc_now C)) (\<lambda>now.
              bindA (disconnectMeta (vc_redis C) (vc_now C) missing) (\<lambda>disc.
                vc_recordFailure C (Obj
                  [(''kind'', Str ''CALL_CONNECT_FAIL''), (''userId'', Str missing), (''callId'', Str (vs_id session)),
                   (''role'', Str (if missing = vs_callerId session then ''caller'' else ''callee'')),
                   (''code'', Str ''CALL_CONNECT_FAIL''),
                   (''message'', Str ''Accepted call: one side never reached the LiveKit room.''),
                   (''meta'', Obj ((''ageSec'', NumI (duration_sec now session)) # disc))])))))))
       (ret ())"

section \<open>The handlers of the durable timers\<close>

text \<open>\<open>vc_lowcoin\<close>: the call ends at the boundary the caller cannot pay for.\<close>

definition lowcoin_handler :: "'w call_env \<Rightarrow> string \<Rightarrow> jsval \<Rightarrow> ('w, unit) act" where
  "lowcoin_handler C sid payload =
     (if \<not> truthy (get_field payload ''callerId'') then ret ()
      else bindA (bigint (get_field payload ''coinRate'')) (\<lambda>coinRate.
        bindA (vc_find C sid) (\<lambda>fresh.
          if (case fresh of None \<Rightarrow> True | Some f \<Rightarrow> vs_status f \<noteq> ACTIVE) then ret ()
          else bindA (coins_of C (js_String (get_field payload ''callerId''))) (\<lambda>c.
            whenA (c < coinRate)
              (thenA (endCall C sid (js_str (get_field payload ''callerId'')) ''INSUFFICIENT_BALANCE''
                 (case get_field payload ''disconnectAtMs'' of Num q \<Rightarrow> Some \<lfloor>q\<rfloor> | _ \<Rightarrow> None)) (ret ()))))))"

text \<open>\<open>host_return\<close>: the host of a paused stream did not come back in two minutes.\<close>

definition host_return_handler :: "'w call_env \<Rightarrow> string \<Rightarrow> jsval \<Rightarrow> ('w, unit) act" where
  "host_return_handler C hostId payload =
     (if \<not> truthy (get_field payload ''streamId'') then ret ()
      else
        let streamId = js_String (get_field payload ''streamId'');
            k1 = ''host:return_timer:'' @ streamId @ '':'' @ hostId;
            k2 = ''host:return_timer:'' @ hostId
        in
        bindA (ifOpen (vc_redis C)
                 (bindA (r_get (vc_redis C) k1) (\<lambda>v1. bindA (r_get (vc_redis C) k2) (\<lambda>v2. ret
                    (v1 = Some (Raw ''pending'') \<or> v2 = Some (Raw ''pending'')))))
                 (ret True)) (\<lambda>isStillPending.
          if \<not> isStillPending then ret ()
          else
            thenA (ifOpen (vc_redis C)
              (thenA (quietly (r_del (vc_redis C) [k1]))
              (thenA (quietly (r_del (vc_redis C) [k2]))
                (whenA (truthy (get_field payload ''sessionId''))
                   (quietly (r_del (vc_redis C) [''video_call:stream_pause:'' @ js_String (get_field payload ''sessionId'')])))))
              (ret ()))
            (bindA (vc_liveStream C streamId hostId) (\<lambda>activeStream.
               whenA (truthy activeStream)
                 (thenA (en_broadcast (vc_life C) streamId ''stream_ended''
                    (Obj [(''streamId'', Str streamId), (''reason'', Str ''HOST_NOT_RETURNED_2MIN''),
                      (''message'', Str ''Live stream ended because host did not return within 2 minutes after video call.'')]))
                  (thenA (endLiveStreamService (vc_life C) (vc_redis C) (vc_db C) (js_String (get_field activeStream ''id'')) hostId
                     ''HOST_NOT_RETURNED_2MIN'') (ret ())))))))"

definition clearHostReturnTimeout :: "'w call_env \<Rightarrow> string \<Rightarrow> ('w, unit) act" where
  "clearHostReturnTimeout C hostId = quietly (vc_cancel C HOST_RETURN_TIMER hostId)"

end
