(* ===== verification/Call_Safety.thy ===== *)
theory Call_Safety
  imports Call_Session
begin

text \<open>
  What keeps a call's row and locks consistent: racing ends and the moves of the status, the locks of a start, the two minutes a host
  has to return, and the agreement of the shown eligibility with the checks. The definitions are those of
  \<open>Call_Session\<close>; the locales state what they need of the session table, of Redis and of the timers.
\<close>

section \<open>Racing ends\<close>

text \<open>The moves of a call's status.\<close>

inductive call_move :: "call_status \<Rightarrow> call_status \<Rightarrow> bool" where
  accept: "call_move RINGING ACTIVE"
| reject: "call_move RINGING REJECTED"
| miss: "call_move RINGING MISSED"
| finish: "call_move ACTIVE ENDED"

inductive_simps call_move_from [simp]:
  "call_move RINGING s" "call_move ACTIVE s" "call_move ENDED s" "call_move MISSED s" "call_move REJECTED s"

text \<open>The table as the conditional update sees it.\<close>

locale call_table =
  fixes C :: "'w call_env"
    and rows :: "'w \<Rightarrow> string \<Rightarrow> call_row option"
  assumes find: "vc_find C i w = (Inr (rows w i), w)"
    and flip_hit: "rows w i = Some s \<Longrightarrow> vs_status s = a \<Longrightarrow> \<exists>w1. vc_flip C i a b t r w = (Inr 1, w1) \<and>
      rows w1 = (rows w)(i \<mapsto> s\<lparr>vs_status := b, vs_endedAt := Some t, vs_endReason := Some r\<rparr>)"
    and flip_miss: "\<not> (\<exists>s. rows w i = Some s \<and> vs_status s = a) \<Longrightarrow> \<exists>w1. vc_flip C i a b t r w = (Inr 0, w1) \<and> rows w1 = rows w"

text \<open>
  Several ends of one call run at the same time: each is between its read and its conditional write, and
  meanwhile the other operations move the status.
\<close>

record ender =
  er_user :: "string option"
  er_reason :: string
  er_at :: "int option"

datatype end_pc = AtRead nat | AtWrite nat call_row | Done "(call_row \<times> call_row) option" | Failed exn

fun ender_step :: "'w call_env \<Rightarrow> string \<Rightarrow> ender \<Rightarrow> end_pc \<Rightarrow> 'w \<Rightarrow> end_pc \<times> 'w" where
  "ender_step C sid e (AtRead 0) w = (Done None, w)"
| "ender_step C sid e (AtRead (Suc n)) w =
     (case vc_find C sid w of
        (Inl x, w1) \<Rightarrow> (Failed x, w1)
      | (Inr s, w1) \<Rightarrow>
          (case end_gate s (er_user e) (er_reason e) of
             Inl x \<Rightarrow> (Failed x, w1) | Inr None \<Rightarrow> (Done None, w1) | Inr (Some session) \<Rightarrow> (AtWrite n session, w1)))"
| "ender_step C sid e (AtWrite n session) w =
     (case end_write C sid (er_reason e) (er_at e) session w of
        (Inl x, w1) \<Rightarrow> (Failed x, w1)
      | (Inr Gone, w1) \<Rightarrow> (Done None, w1)
      | (Inr (Won s (Some u)), w1) \<Rightarrow> (Done (Some (s, u)), w1)
      | (Inr _, w1) \<Rightarrow> (AtRead n, w1))"
| "ender_step C sid e pc w = (pc, w)"

text \<open>Alone, the steps are the loop of the source.\<close>

definition solo :: "'w call_env \<Rightarrow> string \<Rightarrow> ender \<Rightarrow> end_pc \<times> 'w \<Rightarrow> end_pc \<times> 'w" where
  "solo C sid e = (\<lambda>(pc, w). ender_step C sid e pc w)"

definition settled :: "(exn + (call_row \<times> call_row) option) \<times> 'w \<Rightarrow> end_pc \<times> 'w" where
  "settled x = (case x of (Inl e, w) \<Rightarrow> (Failed e, w) | (Inr r, w) \<Rightarrow> (Done r, w))"

lemma solo_loop:
  "\<exists>k. (solo C sid e ^^ k) (AtRead n, w) = settled (end_loop n C sid (er_user e) (er_reason e) (er_at e) w)"
proof (induction n arbitrary: w)
  case 0
  show ?case by (rule exI [of _ 1]) (simp add: solo_def settled_def ret_def)
next
  case (Suc n)
  obtain f w1 where f: "vc_find C sid w = (f, w1)" by fastforce
  have one: "solo C sid e (AtRead (Suc n), w) = (case f of Inl x \<Rightarrow> (Failed x, w1) | Inr s \<Rightarrow>
      (case end_gate s (er_user e) (er_reason e) of Inl x \<Rightarrow> (Failed x, w1) | Inr None \<Rightarrow> (Done None, w1)
       | Inr (Some session) \<Rightarrow> (AtWrite n session, w1)))"
    using f by (simp add: solo_def split: sum.split)
  show ?case
  proof (cases "\<exists>s session. f = Inr s \<and> end_gate s (er_user e) (er_reason e) = Inr (Some session)")
    case False
    then have "solo C sid e (AtRead (Suc n), w) = settled (end_loop (Suc n) C sid (er_user e) (er_reason e) (er_at e) w)"
      using f one by (auto simp: settled_def end_attempt_def act_simps split: sum.split option.split)
    then show ?thesis by (intro exI [of _ 1]) simp
  next
    case True
    then obtain s session where s: "f = Inr s" "end_gate s (er_user e) (er_reason e) = Inr (Some session)" by blast
    obtain r w2 where r: "end_write C sid (er_reason e) (er_at e) session w1 = (r, w2)" by fastforce
    have a: "end_attempt C sid (er_user e) (er_reason e) (er_at e) w = (r, w2)"
      using f s r by (simp add: end_attempt_def act_simps)
    have two: "(solo C sid e ^^ 2) (AtRead (Suc n), w) = ender_step C sid e (AtWrite n session) w1"
      using one s by (simp add: numeral_2_eq_2 solo_def)
    show ?thesis
    proof (cases "r = Inr Moved \<or> (\<exists>s1. r = Inr (Won s1 None))")
      case False
      then have "(solo C sid e ^^ 2) (AtRead (Suc n), w) = settled (end_loop (Suc n) C sid (er_user e) (er_reason e) (er_at e) w)"
        using two r a by (auto simp: settled_def act_simps split: sum.split end_try.split option.split)
      then show ?thesis by blast
    next
      case True
      obtain k where k: "(solo C sid e ^^ k) (AtRead n, w2) = settled (end_loop n C sid (er_user e) (er_reason e) (er_at e) w2)"
        using Suc.IH by blast
      have "(solo C sid e ^^ 2) (AtRead (Suc n), w) = (AtRead n, w2)"
        using True two r by auto
      then have "(solo C sid e ^^ (k + 2)) (AtRead (Suc n), w) = (solo C sid e ^^ k) (AtRead n, w2)"
        by (simp only: funpow_add comp_def)
      also have "\<dots> = settled (end_loop (Suc n) C sid (er_user e) (er_reason e) (er_at e) w)"
        using k a True by (auto simp: act_simps)
      finally show ?thesis by blast
    qed
  qed
qed

text \<open>All the enders of one call, interleaved with each other and with the rest of the system.\<close>

inductive ends :: "'w call_env \<Rightarrow> ('w \<Rightarrow> string \<Rightarrow> call_row option) \<Rightarrow> string \<Rightarrow> ender list \<Rightarrow> end_pc list \<Rightarrow> 'w \<Rightarrow> end_pc list \<Rightarrow> 'w \<Rightarrow> bool"
  for C rows sid es pcs0 w0 where
  start: "ends C rows sid es pcs0 w0 pcs0 w0"
| run: "ends C rows sid es pcs0 w0 pcs w \<Longrightarrow> k < length es \<Longrightarrow> ender_step C sid (es ! k) (pcs ! k) w = (pc, w1) \<Longrightarrow>
    ends C rows sid es pcs0 w0 (pcs[k := pc]) w1"
| others: "ends C rows sid es pcs0 w0 pcs w \<Longrightarrow> rows w sid = Some s \<Longrightarrow> rows w1 sid = Some s1 \<Longrightarrow>
    vs_status s1 = vs_status s \<or> call_move (vs_status s) (vs_status s1) \<Longrightarrow> ends C rows sid es pcs0 w0 pcs w1"

definition won :: "end_pc \<Rightarrow> bool" where
  "won pc = (case pc of Done (Some _) \<Rightarrow> True | _ \<Rightarrow> False)"

definition reads_live :: "end_pc \<Rightarrow> bool" where
  "reads_live pc = (case pc of AtWrite _ s \<Rightarrow> live_status (vs_status s) | _ \<Rightarrow> True)"

lemma ended_not_live [simp]: "live_status s \<Longrightarrow> \<not> live_status (ended_status s)"
  by (auto simp: live_status_def ended_status_def)

lemma ended_move: "live_status s \<Longrightarrow> call_move s (ended_status s)"
  by (auto simp: live_status_def ended_status_def)

lemma terminal_stays: "call_move a b \<Longrightarrow> live_status a"
  by (induction rule: call_move.induct) (simp_all add: live_status_def)

lemma count_update:
  "k < length xs \<Longrightarrow> length (filter P (xs[k := y])) + (if P (xs ! k) then 1 else 0) = length (filter P xs) + (if P y then 1 else 0)"
proof (induction xs arbitrary: k)
  case (Cons x xs)
  then show ?case by (cases k) auto
qed simp

context call_table begin

lemma end_write_cases:
  assumes "end_write C sid reason ov session w = (r, w1)"
  shows "(\<exists>s. rows w sid = Some s \<and> vs_status s = vs_status session \<and>
      (\<exists>s1. rows w1 sid = Some s1 \<and> vs_status s1 = ended_status (vs_status session) \<and> r = Inr (Won session (Some s1)))) \<or>
    r = Inr Moved \<and> rows w1 = rows w"
proof (cases "\<exists>s. rows w sid = Some s \<and> vs_status s = vs_status session")
  case True
  then obtain s where s: "rows w sid = Some s" "vs_status s = vs_status session" by blast
  obtain w2 where "vc_flip C sid (vs_status session) (ended_status (vs_status session))
      (case ov of Some t \<Rightarrow> t | None \<Rightarrow> vc_now C w) reason w = (Inr 1, w2)"
    "rows w2 = (rows w)(sid \<mapsto> s\<lparr>vs_status := ended_status (vs_status session),
       vs_endedAt := Some (case ov of Some t \<Rightarrow> t | None \<Rightarrow> vc_now C w), vs_endReason := Some reason\<rparr>)"
    using flip_hit [OF s] by blast
  then show ?thesis using assms s by (auto simp: end_write_def act_simps find)
next
  case False
  obtain w2 where "vc_flip C sid (vs_status session) (ended_status (vs_status session))
      (case ov of Some t \<Rightarrow> t | None \<Rightarrow> vc_now C w) reason w = (Inr 0, w2)" "rows w2 = rows w"
    using flip_miss [OF False] by blast
  then show ?thesis using assms by (auto simp: end_write_def act_simps)
qed

text \<open>A step keeps the row, or ends it from the status it is in and wins.\<close>

lemma ender_step_cases:
  assumes "ender_step C sid e pc w = (pc1, w1)" and "reads_live pc"
  shows "reads_live pc1 \<and>
    (rows w1 = rows w \<and> (won pc1 \<longrightarrow> won pc) \<and> (won pc \<longrightarrow> pc1 = pc) \<or>
     \<not> won pc \<and> won pc1 \<and> (\<exists>s s1. rows w sid = Some s \<and> rows w1 sid = Some s1 \<and> live_status (vs_status s) \<and>
       vs_status s1 = ended_status (vs_status s)))"
proof (cases "\<exists>n session. pc = AtWrite n session")
  case True
  then obtain n session where pc: "pc = AtWrite n session" by blast
  obtain r w2 where r: "end_write C sid (er_reason e) (er_at e) session w = (r, w2)" by fastforce
  show ?thesis
    using end_write_cases [OF r] assms pc r by (auto simp: reads_live_def won_def)
next
  case False
  show ?thesis
  proof (cases "\<exists>n. pc = AtRead (Suc n)")
    case True
    then obtain n where "pc = AtRead (Suc n)" by blast
    then show ?thesis
      using assms by (auto simp: find reads_live_def won_def end_gate_def Let_def split: sum.splits option.splits if_splits)
  next
    case nr: False
    with False have "pc = AtRead 0 \<or> (\<exists>r. pc = Done r) \<or> (\<exists>x. pc = Failed x)"
      by (metis end_pc.exhaust nat.exhaust)
    then show ?thesis using assms by (auto simp: reads_live_def won_def)
  qed
qed

definition race_inv :: "string \<Rightarrow> end_pc list \<Rightarrow> 'w \<Rightarrow> bool" where
  "race_inv sid pcs w \<longleftrightarrow> list_all reads_live pcs \<and>
     length (filter won pcs) + (case rows w sid of Some s \<Rightarrow> if live_status (vs_status s) then 1 else 0 | None \<Rightarrow> 0) \<le> 1"

lemma race_inv_run:
  assumes "race_inv sid pcs w" and "k < length pcs" and st: "ender_step C sid e (pcs ! k) w = (pc, w1)"
  shows "race_inv sid (pcs[k := pc]) w1"
proof -
  have rl: "reads_live (pcs ! k)" using assms(1,2) by (simp add: race_inv_def list_all_length)
  note c = count_update [OF assms(2), of won pc]
  have la: "list_all reads_live (pcs[k := pc])"
    using assms(1) ender_step_cases [OF st rl] set_update_subset_insert [of pcs k pc]
    by (auto simp: race_inv_def list_all_iff)
  from ender_step_cases [OF st rl] consider
      (keep) "rows w1 = rows w" "won pc \<longrightarrow> won (pcs ! k)"
    | (win) s s1 where "\<not> won (pcs ! k)" "won pc" "rows w sid = Some s" "rows w1 sid = Some s1" "live_status (vs_status s)"
        "vs_status s1 = ended_status (vs_status s)"
    by blast
  then show ?thesis
  proof cases
    case keep
    then have "length (filter won (pcs[k := pc])) \<le> length (filter won pcs)" using c by (simp split: if_splits)
    then show ?thesis using assms(1) la keep(1) by (simp add: race_inv_def)
  next
    case win
    then have "length (filter won (pcs[k := pc])) = length (filter won pcs) + 1" using c by simp
    then show ?thesis using assms(1) la win by (simp add: race_inv_def)
  qed
qed

lemma race_inv_others:
  assumes "race_inv sid pcs w" and "rows w sid = Some s" "rows w1 sid = Some s1"
    and "vs_status s1 = vs_status s \<or> call_move (vs_status s) (vs_status s1)"
  shows "race_inv sid pcs w1"
  using assms terminal_stays [of "vs_status s" "vs_status s1"] by (auto simp: race_inv_def split: if_splits)

lemma race_inv_ends:
  assumes "ends C rows sid es pcs0 w0 pcs w" and "length pcs0 = length es" and "list_all (\<lambda>pc. reads_live pc \<and> \<not> won pc) pcs0"
  shows "length pcs = length es \<and> race_inv sid pcs w"
  using assms
proof (induction rule: ends.induct)
  case start
  then show ?case by (auto simp: race_inv_def list_all_iff filter_empty_conv split: option.split)
next
  case (run pcs w k pc w1)
  then show ?case using race_inv_run by auto
next
  case (others pcs w s w1 s1)
  then show ?case using race_inv_others by blast
qed

lemma status_path:
  assumes "ends C rows sid es pcs0 w0 pcs w" and "length pcs0 = length es" and "list_all (\<lambda>pc. reads_live pc \<and> \<not> won pc) pcs0"
    and "rows w0 sid = Some s0"
  shows "\<exists>s. rows w sid = Some s \<and> call_move\<^sup>*\<^sup>* (vs_status s0) (vs_status s)"
  using assms
proof (induction rule: ends.induct)
  case start
  then show ?case by simp
next
  case (run pcs w k pc w1)
  have "length pcs = length es" "race_inv sid pcs w" using race_inv_ends [OF run.hyps(1)] run.prems by auto
  then have "reads_live (pcs ! k)" using run.hyps(2) by (simp add: race_inv_def list_all_length)
  from ender_step_cases [OF run.hyps(3) this] run.IH [OF run.prems] show ?case
    by (metis ended_move option.inject rtranclp.rtrancl_into_rtrancl)
next
  case (others pcs w s w1 s1)
  then show ?case by (metis option.inject rtranclp.rtrancl_into_rtrancl)
qed

end

lemma ended_or_active: "call_move\<^sup>*\<^sup>* ACTIVE s \<Longrightarrow> s = ACTIVE \<or> s = ENDED"
  by (induction rule: rtranclp_induct) auto

section \<open>A concrete world\<close>

record call_mem = mem +
  cm_rows :: "string \<Rightarrow> call_row option"
  cm_ids :: "string list"
  cm_hb :: "string \<Rightarrow> int option"
  cm_socks :: "string \<Rightarrow> string option"
  cm_memo :: "int memo"
  cm_parts :: "(string \<times> (string \<times> string) option \<times> int) list"
  cm_sent :: "(string \<times> string \<times> jsval) list"
  cm_timers :: "(string \<times> string \<times> int \<times> jsval) list"
  cm_failures :: "jsval list"
  cm_coins :: "string \<Rightarrow> int option"
  cm_posts :: "jtext list"

definition demo_call :: "string \<Rightarrow> call_status \<Rightarrow> int \<Rightarrow> int \<Rightarrow> call_row" where
  "demo_call i st started mins = \<lparr>vs_id = i, vs_callerId = ''a'', vs_creatorId = ''b'', vs_room = ''room'', vs_price = 60,
     vs_status = st, vs_mins = mins, vs_startedAt = started, vs_endedAt = None, vs_endReason = None\<rparr>"

definition call0 :: "int \<Rightarrow> call_row list \<Rightarrow> call_mem" where
  "call0 t rs = \<lparr>m_kv = (\<lambda>_. None), m_z = (\<lambda>_. []), m_h = (\<lambda>_ _. None), m_hk = (\<lambda>_. []), m_s = (\<lambda>_. []),
     m_l = (\<lambda>_. []), m_clk = t, cm_rows = map_of (map (\<lambda>r. (vs_id r, r)) rs), cm_ids = map vs_id rs, cm_hb = (\<lambda>_. None),
     cm_socks = (\<lambda>_. None), cm_memo = no_memo, cm_parts = [], cm_sent = [], cm_timers = [], cm_failures = [],
     cm_coins = (\<lambda>_. Some 1000), cm_posts = []\<rparr>"

text \<open>A ledger that accepts a ringing call, and bills the next minute of an active one while the coins last.\<close>

definition bill_call :: "call_mem \<Rightarrow> call_row \<Rightarrow> http_res \<times> call_mem" where
  "bill_call w s =
     (let u = vs_callerId s; cost = callerCoinsPerMinute (NumI (vs_price s)) 6000 in
      case cm_coins w u of
        Some c \<Rightarrow> if c < cost then (\<lparr>h_status = 402, h_json = Inr (Obj [(''code'', Str ''INSUFFICIENT_COINS'')])\<rparr>, w)
          else (\<lparr>h_status = 200, h_json = Inr (Obj [])\<rparr>,
            w\<lparr>cm_coins := (cm_coins w)(u \<mapsto> c - cost),
              cm_rows := (cm_rows w)(vs_id s \<mapsto> s\<lparr>vs_status := ACTIVE, vs_mins := vs_mins s + 1\<rparr>)\<rparr>)
      | None \<Rightarrow> (\<lparr>h_status = 402, h_json = Inr (Obj [(''code'', Str ''INSUFFICIENT_COINS'')])\<rparr>, w))"

definition mem_answer :: "post \<Rightarrow> (call_mem, http_res) act" where
  "mem_answer p w =
     (case p_body p of
        Json b \<Rightarrow>
          (case cm_rows w (js_String (get_field b ''sessionId'')) of
             None \<Rightarrow> (Inr \<lparr>h_status = 404, h_json = Inr (Obj [(''code'', Str ''INVALID_CALL_STATE'')])\<rparr>, w)
           | Some s \<Rightarrow>
               if endsWith (p_url p) ''call-accept'' then
                 (if vs_status s = RINGING then (case bill_call w s of (r, w1) \<Rightarrow> (Inr r, w1))
                  else (Inr \<lparr>h_status = 409, h_json = Inr (Obj [(''code'', Str ''INVALID_CALL_STATE'')])\<rparr>, w))
               else if endsWith (p_url p) ''call-minute'' then
                 (if vs_status s \<noteq> ACTIVE then (Inr \<lparr>h_status = 409, h_json = Inr (Obj [(''code'', Str ''CALL_NOT_ACTIVE'')])\<rparr>, w)
                  else if get_field b ''minute'' = NumI (vs_mins s + 1) then (case bill_call w s of (r, w1) \<Rightarrow> (Inr r, w1))
                  else (Inr \<lparr>h_status = 409, h_json = Inr (Obj [(''code'', Str ''MINUTE_OUT_OF_ORDER'')])\<rparr>, w))
               else (Inr \<lparr>h_status = 200, h_json = Inr (Obj [])\<rparr>, w))
      | _ \<Rightarrow> (Inr \<lparr>h_status = 400, h_json = Inr Null\<rparr>, w))"

definition mem_fetch :: "post \<Rightarrow> (call_mem, http_res) act" where
  "mem_fetch p w = mem_answer p (w\<lparr>cm_posts := cm_posts w @ [p_body p]\<rparr>)"

definition mem_ledger :: "call_mem ledger_env" where
  "mem_ledger = \<lparr>le_now = m_clk, le_sleep = (\<lambda>d w. (Inr (), mem_tick d w)), le_fetch = mem_fetch, le_uuid = ret ''uuid'',
     le_hmac = (\<lambda>k s b. s), le_base_url = None, le_secret = Some ''k''\<rparr>"

definition idle_life_env :: "('x mem_scheme) life_env" where
  "idle_life_env = \<lparr>en_now = m_clk, en_uuid = ret ''uuid'', en_streamKey = ret ''key'', en_sleep = (\<lambda>_. ret ()),
     en_isProduction = False, en_hostToken = (\<lambda>_ _. ret ''token''), en_deleteRoom = (\<lambda>_. ret ()),
     en_stopEgress = (\<lambda>_. ret ()), en_stopLocalHls = (\<lambda>_ _. ret ()), en_publishLiveStatus = (\<lambda>_ _ _. ret ()),
     en_broadcast = (\<lambda>_ _ _. ret ()), en_isUserRestricted = (\<lambda>_ _. ret Null), en_localeString = js_String\<rparr>"

definition idle_life_db :: "('x mem_scheme) life_db" where
  "idle_life_db = \<lparr>rd_stream_by_id = (\<lambda>_. ret Null), rd_stream_by_streamId = (\<lambda>_. ret Null), rd_stream_by_either = (\<lambda>_. ret Null),
     rd_admin_find = (\<lambda>_ _. ret False), rd_admin_list = (\<lambda>_. ret []), rd_admin_delete = (\<lambda>_ _. ret ()),
     rd_admin_upsert = (\<lambda>_ _. ret ()), rd_set_field = (\<lambda>_ _ _. ret ()), rd_get_field = (\<lambda>_ _. ret Null),
     lf_activeOf = (\<lambda>_. ret Null), lf_claimEnd = (\<lambda>_ _. ret 0), lf_finishEnd = (\<lambda>_ _ _ _. ret Null), lf_create = (\<lambda>_. ret ()),
     lf_user = (\<lambda>_. ret Null), lf_livePhoto = (\<lambda>_. ret Null), lf_pointsSum = (\<lambda>_ _ _. ret Null), lf_followers = (\<lambda>_ _ _. ret 0),
     lf_createMessages = (\<lambda>_. ret ())\<rparr>"

definition mem_call :: "call_mem call_env" where
  "mem_call = \<lparr>
     vc_redis = mem_redis, vc_now = m_clk, vc_uuid = ret ''token'', vc_ledger = mem_ledger,
     vc_find = (\<lambda>i w. (Inr (cm_rows w i), w)),
     vc_flip = (\<lambda>i a b t r w. case cm_rows w i of
        Some s \<Rightarrow> if vs_status s = a
          then (Inr 1, w\<lparr>cm_rows := (cm_rows w)(i \<mapsto> s\<lparr>vs_status := b, vs_endedAt := Some t, vs_endReason := Some r\<rparr>)\<rparr>)
          else (Inr 0, w)
      | None \<Rightarrow> (Inr 0, w)),
     vc_create = (\<lambda>a b room price w.
        let i = ''c'' @ int_str (int (length (cm_ids w)));
            s = \<lparr>vs_id = i, vs_callerId = a, vs_creatorId = b, vs_room = room, vs_price = price, vs_status = RINGING,
                 vs_mins = 0, vs_startedAt = m_clk w, vs_endedAt = None, vs_endReason = None\<rparr>
        in (Inr s, w\<lparr>cm_rows := (cm_rows w)(i \<mapsto> s), cm_ids := cm_ids w @ [i]\<rparr>)),
     vc_busy = (\<lambda>u w. (Inr (case List.map_filter (cm_rows w) (cm_ids w) of
        ss \<Rightarrow> find (\<lambda>s. (vs_callerId s = u \<or> vs_creatorId s = u) \<and> live_status (vs_status s)) ss), w)),
     vc_activeCalls = (\<lambda>w. (Inr (filter (\<lambda>s. vs_status s = ACTIVE) (List.map_filter (cm_rows w) (cm_ids w))), w)),
     vc_ringingBefore = (\<lambda>t w. (Inr (filter (\<lambda>s. vs_status s = RINGING \<and> vs_startedAt s < t)
        (List.map_filter (cm_rows w) (cm_ids w))), w)),
     vc_settings = (\<lambda>_. ret (Obj [(''pricePerMin'', Num 60)])), vc_blocked = (\<lambda>_ _. ret False), vc_wealth = (\<lambda>_. ret None),
     vc_wallet = (\<lambda>u. ret (Some u)), vc_insertWallet = (\<lambda>_. ret ()), vc_lastCoins = (\<lambda>u w. (Inr (cm_coins w u), w)),
     vc_user = (\<lambda>u. ret (Obj [(''id'', Str u), (''username'', Str u)])), vc_shareRow = ret Null,
     vc_memo = cm_memo, vc_putMemo = (\<lambda>m w. w\<lparr>cm_memo := m\<rparr>), vc_hb = cm_hb, vc_putHb = (\<lambda>h w. w\<lparr>cm_hb := h\<rparr>),
     vc_sockets = cm_socks, vc_putSockets = (\<lambda>h w. w\<lparr>cm_socks := h\<rparr>),
     vc_io = (\<lambda>s ev p w. (Inr (), w\<lparr>cm_sent := cm_sent w @ [(s, ev, p)]\<rparr>)), vc_deleteRoom = (\<lambda>_. ret ()),
     vc_token = (\<lambda>r u. ret (r @ u)),
     vc_schedule = (\<lambda>k i t p w. (Inr (), w\<lparr>cm_timers := (k, i, t, p) # filter (\<lambda>(k', i', _). (k', i') \<noteq> (k, i)) (cm_timers w)\<rparr>)),
     vc_cancel = (\<lambda>k i w. (Inr (), w\<lparr>cm_timers := filter (\<lambda>(k', i', _). (k', i') \<noteq> (k, i)) (cm_timers w)\<rparr>)),
     vc_has = (\<lambda>k i w. (Inr (list_ex (\<lambda>(k', i', _). (k', i') = (k, i)) (cm_timers w)), w)),
     vc_liveOfEither = (\<lambda>_ _. ret Null), vc_liveOf = (\<lambda>u. ret (Obj [(''id'', Str ''s'')])), vc_liveStream = (\<lambda>_ _. ret Null),
     vc_parts = cm_parts, vc_putParts = (\<lambda>p w. w\<lparr>cm_parts := p\<rparr>),
     vc_recordFailure = (\<lambda>f w. (Inr (), w\<lparr>cm_failures := cm_failures w @ [f]\<rparr>)),
     vc_life = idle_life_env, vc_db = idle_life_db\<rparr>"

interpretation memcall: call_table mem_call cm_rows
  by unfold_locales (auto simp: mem_call_def split: option.split)

section \<open>Properties\<close>

text \<open>
  C12: However many ends of one call race (the user, the sweep, the timers, the webhook, the disconnect grace), each between its
  read and its conditional write, and whatever moves the status meanwhile: at most one of them wins, and
  after it won the call is over. Only the winner goes on to notify, close the room and start the host's grace.
\<close>

theorem call_ended_once:
  assumes "call_table C rows" and "ends C rows sid es pcs0 w0 pcs w"
    and "length pcs0 = length es" and "list_all (\<lambda>pc. reads_live pc \<and> \<not> won pc) pcs0"
  shows "length (filter won pcs) \<le> 1 \<and>
    ((\<exists>pc \<in> set pcs. won pc) \<longrightarrow> \<not> (\<exists>s. rows w sid = Some s \<and> live_status (vs_status s)))"
proof -
  have i: "length (filter won pcs) + (case rows w sid of Some s \<Rightarrow> if live_status (vs_status s) then 1 else 0 | None \<Rightarrow> 0) \<le> 1"
    using call_table.race_inv_ends [OF assms(1,2,3,4)] by (simp add: call_table.race_inv_def [OF assms(1)])
  moreover have "0 < length (filter won pcs)" if "\<exists>pc \<in> set pcs. won pc"
    using that by (auto simp: filter_empty_conv)
  ultimately show ?thesis by (auto split: option.splits if_splits)
qed

text \<open>
  A call the ledger has accepted is never recorded as missed: from the moment it is active, ends that read it while it
  was still ringing leave it alone, and it stays active or becomes ended.
\<close>

theorem accepted_call_not_missed:
  assumes "call_table C rows" and "ends C rows sid es pcs0 w0 pcs w"
    and "length pcs0 = length es" and "list_all (\<lambda>pc. reads_live pc \<and> \<not> won pc) pcs0"
    and "rows w0 sid = Some s0" and "vs_status s0 = ACTIVE"
  shows "\<exists>s. rows w sid = Some s \<and> (vs_status s = ACTIVE \<or> vs_status s = ENDED)"
  using call_table.status_path [OF assms(1-5)] assms(6) ended_or_active by auto

text \<open>Two ends: the caller hangs up while the sweep, which read the call ringing, is about to write.\<close>

definition race_es :: "ender list" where
  "race_es = [\<lparr>er_user = Some ''a'', er_reason = ''USER_ENDED'', er_at = None\<rparr>,
     \<lparr>er_user = Some ''a'', er_reason = ''RINGING_TIMEOUT'', er_at = None\<rparr>]"

definition race_pcs :: "end_pc list" where
  "race_pcs = [AtRead 2, AtWrite 1 (demo_call ''c'' RINGING 0 0)]"

definition race0 :: call_mem where "race0 = call0 5000 [demo_call ''c'' ACTIVE 0 1]"

lemma race_run:
  "\<exists>pcs w. ends mem_call cm_rows ''c'' race_es race_pcs race0 pcs w \<and> list_all (\<lambda>pc. \<not> (\<exists>n. pc = AtRead n)) pcs"
proof -
  obtain pc1 w1 where 1: "ender_step mem_call ''c'' (race_es ! 0) (race_pcs ! 0) race0 = (pc1, w1)" by fastforce
  have pc1: "pc1 = AtWrite 1 (demo_call ''c'' ACTIVE 0 1)" "w1 = race0"
    using 1 by (auto simp: race_es_def race_pcs_def mem_call_def race0_def call0_def demo_call_def end_gate_def live_status_def
        numeral_2_eq_2)
  have "ends mem_call cm_rows ''c'' race_es race_pcs race0 (race_pcs[0 := pc1]) w1"
    by (rule ends.run [OF ends.start _ 1]) (simp add: race_es_def)
  moreover obtain pc2 w2 where 2: "ender_step mem_call ''c'' (race_es ! 0) ((race_pcs[0 := pc1]) ! 0) w1 = (pc2, w2)" by fastforce
  ultimately have "ends mem_call cm_rows ''c'' race_es race_pcs race0 ((race_pcs[0 := pc1])[0 := pc2]) w2"
    by (intro ends.run [OF _ _ 2]) (auto simp: race_es_def)
  moreover have "\<not> (\<exists>n. pc2 = AtRead n)"
    using 2 unfolding pc1 by (auto simp: race_es_def race_pcs_def mem_call_def race0_def call0_def demo_call_def end_write_def act_simps)
  ultimately show ?thesis by (intro exI conjI) (auto simp: race_pcs_def)
qed

theorem call_ended_once_witness:
  "\<exists>pcs w. ends mem_call cm_rows ''c'' race_es race_pcs race0 pcs w \<and> length (filter won pcs) \<le> 1"
proof -
  obtain pcs w where r: "ends mem_call cm_rows ''c'' race_es race_pcs race0 pcs w" using race_run by blast
  have "length (filter won pcs) \<le> 1 \<and> ((\<exists>pc \<in> set pcs. won pc) \<longrightarrow>
      \<not> (\<exists>s. cm_rows w ''c'' = Some s \<and> live_status (vs_status s)))"
    by (rule call_ended_once [OF memcall.call_table_axioms r])
      (simp_all add: race_es_def race_pcs_def reads_live_def won_def demo_call_def live_status_def)
  with r show ?thesis by blast
qed

theorem accepted_call_not_missed_witness:
  "\<exists>pcs w s. ends mem_call cm_rows ''c'' race_es race_pcs race0 pcs w \<and> cm_rows w ''c'' = Some s \<and>
     (vs_status s = ACTIVE \<or> vs_status s = ENDED)"
proof -
  obtain pcs w where r: "ends mem_call cm_rows ''c'' race_es race_pcs race0 pcs w" using race_run by blast
  have "\<exists>s. cm_rows w ''c'' = Some s \<and> (vs_status s = ACTIVE \<or> vs_status s = ENDED)"
    by (rule accepted_call_not_missed [OF memcall.call_table_axioms r, where ?s0.0 = "demo_call ''c'' ACTIVE 0 1"])
      (simp_all add: race_es_def race_pcs_def reads_live_def won_def demo_call_def live_status_def race0_def call0_def)
  with r show ?thesis by blast
qed

text \<open>What an initiation needs of Redis beside the keys: sockets and the id generator leave the keys alone.\<close>

locale call_locks = redis_kv "vc_redis C" kv clk up
  for C :: "'w call_env" and kv clk up +
  assumes uuid: "up w \<Longrightarrow> \<exists>t w1. vc_uuid C w = (Inr t, w1) \<and> up w1 \<and> kv w1 = kv w"
    and io_frame: "up w \<Longrightarrow> \<exists>w1. vc_io C s ev p w = (Inr (), w1) \<and> up w1 \<and> kv w1 = kv w"
begin

lemma emit_frame:
  assumes "up w"
  shows "\<exists>w1. emitToUser C u ev p w = (Inr (), w1) \<and> up w1 \<and> kv w1 = kv w"
proof -
  let ?t = "map_option fst (kv w (userSocketKey u))"
  have g: "r_get (vc_redis C) (userSocketKey u) w = (Inr ?t, w)" by (rule get [OF assms])
  consider "u = []" | "u \<noteq> []" "truthy_str (vc_sockets C w u)" | "u \<noteq> []" "\<not> truthy_str (vc_sockets C w u)" by blast
  then show ?thesis
  proof cases
    case 1
    then show ?thesis using assms by (simp add: emitToUser_def act_simps)
  next
    case 2
    then show ?thesis using io_frame [OF assms] by (simp add: emitToUser_def act_simps)
  next
    case 3
    obtain w1 where io: "vc_io C (text_str (the ?t)) ev p w = (Inr (), w1)" "up w1" "kv w1 = kv w"
      using io_frame [OF assms] by blast
    have "emitToUser C u ev p w = (Inr (), if truthy_text ?t then w1 else w)"
      using 3 g io(1) up_open [OF assms] by (simp add: emitToUser_def bindA_run askA_run ifOpen_run quietly_run whenA_run)
    then show ?thesis using io assms by simp
  qed
qed

lemma release_own:
  assumes "up w" and "kv w k = Some (Raw tok, e)"
  obtains w1 where "releaseInitiateLocks C [k] tok w = (Inr (), w1)" "up w1" "kv w1 = (kv w)(k := None)"
proof -
  obtain n w1 where "r_del (vc_redis C) [k] w = (Inr n, w1)" "up w1" "kv w1 = (\<lambda>x. if x \<in> set [k] then None else kv w x)"
    by (rule del_E [OF assms(1)])
  then show thesis
    using assms up_open [OF assms(1)] get [OF assms(1)]
    by (intro that [of w1]) (auto simp: releaseInitiateLocks_def release_lua_def act_simps fun_eq_iff)
qed

lemma busy_caller:
  assumes "up w" and "callerId \<noteq> creatorId" and "kv w (initiateLockKey callerId) \<noteq> None"
  shows "\<exists>w1. initiateCall C callerId creatorId w = (Inl (Error ''You are already in an active call.''), w1) \<and> kv w1 = kv w"
proof -
  obtain t w1 where u: "vc_uuid C w = (Inr t, w1)" "up w1" "kv w1 = kv w" using uuid [OF assms(1)] by blast
  have "r_set (vc_redis C) (initiateLockKey callerId) (Raw t) (nx_px_ms INITIATE_LOCK_MS) w1 = (Inr False, w1)"
    using set_refused [OF u(2)] assms(3) u(3) by (simp add: nx_px_ms_def)
  then show ?thesis
    using assms(2) u up_open [OF assms(1)] by (auto simp: initiateCall_def take_lock_def act_simps Let_def)
qed

lemma busy_receiver:
  assumes "up w" and "callerId \<noteq> creatorId" and "kv w (initiateLockKey callerId) = None"
    and "kv w (initiateLockKey creatorId) \<noteq> None"
  shows "\<exists>w1. initiateCall C callerId creatorId w = (Inl (Error ''Receiver is currently busy.''), w1) \<and> kv w1 = kv w"
proof -
  let ?k1 = "initiateLockKey callerId" and ?k2 = "initiateLockKey creatorId"
  have ne: "?k1 \<noteq> ?k2" using assms(2) by (simp add: initiateLockKey_def)
  obtain t w1 where u: "vc_uuid C w = (Inr t, w1)" "up w1" "kv w1 = kv w" using uuid [OF assms(1)] by blast
  obtain w2 where s: "r_set (vc_redis C) ?k1 (Raw t) (nx_px_ms INITIATE_LOCK_MS) w1 = (Inr True, w2)" "up w2"
      "kv w2 = (kv w1)(?k1 \<mapsto> (Raw t, map_option (\<lambda>p. clk w1 + p) (o_px (nx_px_ms INITIATE_LOCK_MS))))"
    using set_stored [OF u(2), of "nx_px_ms INITIATE_LOCK_MS" ?k1 "Raw t"] assms(3) u(3)
    by (auto simp: ttl_of_def nx_px_ms_def INITIATE_LOCK_MS_def)
  have r: "r_set (vc_redis C) ?k2 (Raw t) (nx_px_ms INITIATE_LOCK_MS) w2 = (Inr False, w2)"
    using set_refused [OF s(2)] assms(4) s(3) u(3) ne by (simp add: nx_px_ms_def)
  obtain w3 where e: "emitToUser C callerId ''USER_BUSY'' (Obj [(''creatorId'', Str creatorId)]) w2 = (Inr (), w3)" "up w3" "kv w3 = kv w2"
    using emit_frame [OF s(2)] by blast
  obtain w4 where d: "releaseInitiateLocks C [?k1] t w3 = (Inr (), w4)" "kv w4 = (kv w3)(?k1 := None)"
    using release_own [OF e(2), of ?k1 t] e(3) s(3) by auto
  have "kv w4 = kv w" using d(2) e(3) s(3) u(3) assms(3) by (simp add: fun_upd_idem)
  then show ?thesis
    using assms(2) u(1) s(1) r e(1) d(1) up_open [OF assms(1)]
    by (simp add: initiateCall_def take_lock_def onErrorA_def finallyA_def act_simps Let_def)
qed

end

interpretation meminit: call_locks mem_call mem_live m_clk "\<lambda>_. True"
proof (intro call_locks.intro call_locks_axioms.intro)
  show "redis_kv (vc_redis mem_call) mem_live m_clk (\<lambda>_. True)"
    using mem.redis_kv_axioms by (simp add: mem_call_def)
  fix w :: call_mem and s ev p
  show "\<exists>t w1. vc_uuid mem_call w = (Inr t, w1) \<and> True \<and> mem_live w1 = mem_live w"
    by (simp add: mem_call_def act_simps)
  show "\<exists>w1. vc_io mem_call s ev p w = (Inr (), w1) \<and> True \<and> mem_live w1 = mem_live w"
    by (auto simp: mem_call_def intro!: mem_live_same)
qed

text \<open>
  While the lock of either user is held, a second start of a call between them or with anybody else is refused before any
  session is created, and it leaves every lock as it found it; the receiver's lock does not keep the caller's.
\<close>

theorem initiate_lock_excludes:
  assumes "call_locks C kv clk up" and "up w" and "callerId \<noteq> creatorId"
    and "kv w (initiateLockKey callerId) \<noteq> None \<or> kv w (initiateLockKey creatorId) \<noteq> None"
  shows "\<exists>e w1. initiateCall C callerId creatorId w = (Inl e, w1) \<and> kv w1 = kv w"
  using call_locks.busy_caller [OF assms(1-3)] call_locks.busy_receiver [OF assms(1-3)] assms(4) by blast

definition locked_b :: call_mem where
  "locked_b = (call0 1000 [])\<lparr>m_kv := (\<lambda>_. None)(initiateLockKey ''b'' \<mapsto> (Raw ''other'', Some 6000))\<rparr>"

theorem initiate_lock_excludes_witness:
  "\<exists>e w1. initiateCall mem_call ''a'' ''b'' locked_b = (Inl e, w1) \<and> mem_live w1 = mem_live locked_b"
  by (rule initiate_lock_excludes [where up = "\<lambda>_. True", OF meminit.call_locks_axioms TrueI])
    (simp_all add: locked_b_def call0_def mem_live_def)

text \<open>The keys that mark a host as expected back live exactly as long as the deadline is away.\<close>

locale return_clock = redis_clock "vc_redis C" kv clk up tick
  for C :: "'w call_env" and kv clk up tick +
  assumes now: "up w \<Longrightarrow> vc_now C w = clk w"
    and schedule_frame: "up w \<Longrightarrow> \<exists>w1. vc_schedule C k i t p w = (Inr (), w1) \<and> up w1 \<and> kv w1 = kv w \<and> clk w1 = clk w"
begin

lemma grace_schedules:
  assumes "up w" and "kv w (''video_call:stream_pause:'' @ sid) = Some (Raw streamId, e)" and "streamId \<noteq> []"
    and "\<And>w. up w \<Longrightarrow> vc_liveOf C (vs_creatorId session) w = (Inr v, w)" and "truthy v"
  shows "\<exists>w0 w1. return_grace C sid session w = (Inr (), w1) \<and>
    vc_schedule C HOST_RETURN_TIMER (vs_creatorId session) (clk w + 120000)
      (Obj [(''streamId'', Str streamId), (''sessionId'', Str sid)]) w0 = (Inr (), w1) \<and> up w1 \<and> clk w1 = clk w \<and>
    (\<forall>k \<in> {''host:return_timer:'' @ streamId @ '':'' @ vs_creatorId session, ''host:return_timer:'' @ vs_creatorId session}.
      kv w1 k = Some (Raw ''pending'', Some (clk w + 120000)))"
proof -
  let ?h = "vs_creatorId session"
  let ?k1 = "''host:return_timer:'' @ streamId @ '':'' @ ?h" and ?k2 = "''host:return_timer:'' @ ?h"
  obtain w1 where 1: "r_set (vc_redis C) ?k1 (Raw ''pending'') (ex_s 120) w = (Inr True, w1)" "up w1" "clk w1 = clk w"
      "kv w1 = (kv w)(?k1 \<mapsto> (Raw ''pending'', Some (clk w + 120 * 1000)))"
    by (rule set_ex [OF assms(1), of 120]) simp_all
  obtain w2 where 2: "r_set (vc_redis C) ?k2 (Raw ''pending'') (ex_s 120) w1 = (Inr True, w2)" "up w2" "clk w2 = clk w1"
      "kv w2 = (kv w1)(?k2 \<mapsto> (Raw ''pending'', Some (clk w1 + 120 * 1000)))"
    by (rule set_ex [OF 1(2), of 120]) simp_all
  obtain w3 where 3: "vc_schedule C HOST_RETURN_TIMER ?h (clk w + 120000)
      (Obj [(''streamId'', Str streamId), (''sessionId'', Str sid)]) w2 = (Inr (), w3)" "up w3" "kv w3 = kv w2" "clk w3 = clk w2"
    using schedule_frame [OF 2(2)] by blast
  have o: "isOpen (vc_redis C) w" by (rule up_open [OF assms(1)])
  have g: "r_get (vc_redis C) (''video_call:stream_pause:'' @ sid) w = (Inr (Some (Raw streamId)), w)"
    using get [OF assms(1)] assms(2) by simp
  have "return_grace C sid session w = (Inr (), w3)"
    using g o assms(3,4,5) 1 2 3(1) now [OF 2(2)] assms(1)
    by (simp add: return_grace_def quietly_run whenA_run bindA_run truthy_text_def text_str_def ifOpen_run thenA_run ret_run askA_run
        Let_def)
  moreover have "kv w3 k = Some (Raw ''pending'', Some (clk w + 120000))" if "k \<in> {?k1, ?k2}" for k
    using that 1(3,4) 2(4) 3(3) by auto
  ultimately show ?thesis using 1(3) 2(3) 3 by auto
qed

lemma handler_finds_nothing:
  assumes "up w" and "\<And>k. k \<in> {''host:return_timer:'' @ streamId @ '':'' @ h, ''host:return_timer:'' @ h} \<Longrightarrow>
      kv w k = Some (Raw ''pending'', Some e)" and "e \<le> clk w + d" and "0 \<le> d" and "streamId \<noteq> []"
  shows "host_return_handler C h (Obj [(''streamId'', Str streamId), (''sessionId'', Str sid)]) (tick d w) = (Inr (), tick d w)"
proof -
  have u: "up (tick d w)" by (rule tick_up [OF assms(1)])
  have n: "r_get (vc_redis C) k (tick d w) = (Inr None, tick d w)"
    if "k \<in> {''host:return_timer:'' @ streamId @ '':'' @ h, ''host:return_timer:'' @ h}" for k
    using get [OF u] tick_kv [OF assms(1,4)] assms(2) [OF that] assms(3) by simp
  show ?thesis
    using n up_open [OF u] assms(5)
    by (simp add: host_return_handler_def get_field_def truthy_def js_String_def Let_def act_simps)
qed

end

lemma mem_call_sel [simp]:
  "vc_redis mem_call = mem_redis" "vc_now mem_call = m_clk" "vc_liveOf mem_call u = ret (Obj [(''id'', Str ''s'')])"
  by (simp_all add: mem_call_def)

interpretation memret: return_clock mem_call mem_live m_clk "\<lambda>_. True" mem_tick
proof (intro return_clock.intro return_clock_axioms.intro)
  show "redis_clock (vc_redis mem_call) mem_live m_clk (\<lambda>_. True) mem_tick"
    using memk.redis_clock_axioms by simp
  fix w :: call_mem and k i t p
  show "vc_now mem_call w = m_clk w" by simp
  show "\<exists>w1. vc_schedule mem_call k i t p w = (Inr (), w1) \<and> True \<and> mem_live w1 = mem_live w \<and> m_clk w1 = m_clk w"
    by (auto simp: mem_call_def intro!: mem_live_same)
qed

text \<open>
  The two minutes a host has to come back after a call never end his stream. The end of the call sets two keys that expire after
  120 s and schedules the deadline 120 s ahead; whenever the deadline's handler runs, at that time or later, both keys
  are gone, it takes the host for returned and does nothing.
\<close>

theorem host_return_never_fires:
  assumes "return_clock C kv clk up tick" and "up w"
    and "kv w (''video_call:stream_pause:'' @ sid) = Some (Raw streamId, e)" and "streamId \<noteq> []"
    and "\<And>w. up w \<Longrightarrow> vc_liveOf C (vs_creatorId session) w = (Inr v, w)" and "truthy v" and "120000 \<le> d"
  shows "\<exists>w0 w1. return_grace C sid session w = (Inr (), w1) \<and>
    vc_schedule C HOST_RETURN_TIMER (vs_creatorId session) (clk w + 120000)
      (Obj [(''streamId'', Str streamId), (''sessionId'', Str sid)]) w0 = (Inr (), w1) \<and>
    host_return_handler C (vs_creatorId session) (Obj [(''streamId'', Str streamId), (''sessionId'', Str sid)]) (tick d w1) =
      (Inr (), tick d w1)"
proof -
  obtain w0 w1 where g: "return_grace C sid session w = (Inr (), w1)"
    "vc_schedule C HOST_RETURN_TIMER (vs_creatorId session) (clk w + 120000)
      (Obj [(''streamId'', Str streamId), (''sessionId'', Str sid)]) w0 = (Inr (), w1)" "up w1" "clk w1 = clk w"
    "\<forall>k \<in> {''host:return_timer:'' @ streamId @ '':'' @ vs_creatorId session, ''host:return_timer:'' @ vs_creatorId session}.
      kv w1 k = Some (Raw ''pending'', Some (clk w + 120000))"
    using return_clock.grace_schedules [OF assms(1-6)] by blast
  have "host_return_handler C (vs_creatorId session) (Obj [(''streamId'', Str streamId), (''sessionId'', Str sid)]) (tick d w1) =
      (Inr (), tick d w1)"
    by (rule return_clock.handler_finds_nothing [OF assms(1) g(3), where e = "clk w + 120000"])
      (use g(4,5) assms(4,7) in auto)
  with g(1,2) show ?thesis by blast
qed

definition paused_mem :: call_mem where
  "paused_mem = (call0 1000 [])\<lparr>m_kv := (\<lambda>_. None)(''video_call:stream_pause:c'' \<mapsto> (Raw ''s'', Some 86401000))\<rparr>"

theorem host_return_never_fires_witness:
  "\<exists>w1. return_grace mem_call ''c'' (demo_call ''c'' ACTIVE 0 1) paused_mem = (Inr (), w1) \<and>
    host_return_handler mem_call ''b'' (Obj [(''streamId'', Str ''s''), (''sessionId'', Str ''c'')]) (mem_tick 120500 w1) =
      (Inr (), mem_tick 120500 w1)"
proof -
  let ?s = "demo_call ''c'' ACTIVE 0 1"
  have k: "mem_live paused_mem (''video_call:stream_pause:'' @ ''c'') = Some (Raw ''s'', Some 86401000)"
    by (simp add: paused_mem_def call0_def mem_live_def)
  have l: "vc_liveOf mem_call (vs_creatorId ?s) w = (Inr (Obj [(''id'', Str ''s'')]), w)" for w
    by (simp add: ret_def)
  have h: "vs_creatorId ?s = ''b''" by (simp add: demo_call_def)
  note r = host_return_never_fires [where C = mem_call and kv = mem_live and clk = m_clk and up = "\<lambda>_. True" and tick = mem_tick
      and w = paused_mem and sid = "''c''" and streamId = "''s''" and session = ?s and e = "Some 86401000"
      and v = "Obj [(''id'', Str ''s'')]" and d = 120500, OF memret.return_clock_axioms TrueI k _ l]
  obtain w0 w1 where "return_grace mem_call ''c'' ?s paused_mem = (Inr (), w1) \<and>
    vc_schedule mem_call HOST_RETURN_TIMER (vs_creatorId ?s) (m_clk paused_mem + 120000)
      (Obj [(''streamId'', Str ''s''), (''sessionId'', Str ''c'')]) w0 = (Inr (), w1) \<and>
    host_return_handler mem_call (vs_creatorId ?s) (Obj [(''streamId'', Str ''s''), (''sessionId'', Str ''c'')])
      (mem_tick 120500 w1) = (Inr (), mem_tick 120500 w1)"
    using r by (auto simp: truthy_def)
  then show ?thesis unfolding h by blast
qed

text \<open>A step that answers \<open>v\<close> in every world.\<close>

definition answers :: "('w, 'a) act \<Rightarrow> 'a \<Rightarrow> bool" where
  "answers m v \<longleftrightarrow> (\<forall>w. \<exists>w1. m w = (Inr v, w1))"

lemma answersE: "answers m v \<Longrightarrow> (\<And>w1. m w = (Inr v, w1) \<Longrightarrow> thesis) \<Longrightarrow> thesis"
  by (auto simp: answers_def)


definition fixed_call :: "call_mem call_env" where
  "fixed_call = mem_call\<lparr>vc_redis := mem_redis\<lparr>isOpen := \<lambda>_. False\<rparr>, vc_lastCoins := \<lambda>_. ret (Some 1000), vc_memo := \<lambda>_. no_memo\<rparr>"

lemma fixed_rate: "answers (coin_rate fixed_call 60) 100"
proof -
  have v: "callerCoinsPerMinute (NumI 60) 6000 = 100" by code_simp
  show ?thesis
    using v by (simp add: answers_def coin_rate_def currentCallerCoinsPerMinute_def getVideoCallHostShareBp_def memoized_def
        read_setting_def cached_setting_def act_simps fixed_call_def mem_call_def no_memo_def call_pick_def truthy_def
        DEFAULT_VIDEO_CALL_HOST_SHARE_BP_def)
qed


end
