(* ===== verification/Call_Billing.thy ===== *)
theory Call_Billing
  imports Call_Safety Rate_Limit
begin

text \<open>
  The minutes of a call and their price, \<open>src/modules/videoCall/service.js\<close>: billing what is due, the per-call deadline
  with its slots, and the sweep every five seconds. The ledger is the client of \<open>Ledger_Client\<close>; \<open>mode\<close> is
  \<open>CALL_BILL_TO_LAST_HB\<close> as \<open>modeFromEnv\<close> reads it.
\<close>

section \<open>Billing what is due\<close>

definition billToLastHeartbeatMode :: "(string \<Rightarrow> string option) \<Rightarrow> string" where
  "billToLastHeartbeatMode env = modeFromEnv env ''CALL_BILL_TO_LAST_HB'' ''log''"

definition BILL_HEARTBEAT_STALE_MS :: int where "BILL_HEARTBEAT_STALE_MS = 30000"

definition minute_start :: "call_row \<Rightarrow> int \<Rightarrow> int" where
  "minute_start s m = vs_startedAt s + (m - 1) * 60000"

text \<open>Neither side has sent a heartbeat for 30 s when the minute starts.\<close>

definition quiet_minute :: "call_row \<Rightarrow> int option \<Rightarrow> int \<Rightarrow> bool" where
  "quiet_minute s lastHeartbeat m =
     (case lastHeartbeat of None \<Rightarrow> False | Some t \<Rightarrow> t \<noteq> 0 \<and> BILL_HEARTBEAT_STALE_MS < minute_start s m - t)"

text \<open>The caller's socket was gone at the boundary, or within five seconds of it.\<close>

definition caller_gone :: "'w call_env \<Rightarrow> call_row \<Rightarrow> int \<Rightarrow> ('w, bool) act" where
  "caller_gone C s m =
     ifOpen (vc_redis C)
       (bindA (r_get (vc_redis C) (''call:disconnect:'' @ vs_id s @ '':'' @ vs_callerId s)) (\<lambda>discVal. ret
          (truthy_text discVal \<and>
           (case Number_of (the discVal) of None \<Rightarrow> False | Some t \<Rightarrow> t \<le> minute_start s m + 5000))))
       (ret False)"

definition ledger_minute :: "'w call_env \<Rightarrow> call_row \<Rightarrow> int \<Rightarrow> ('w, unit) act" where
  "ledger_minute C s m =
     catchA (thenA (callLedger (vc_ledger C) default_opts ''call-minute'' [(''sessionId'', Str (vs_id s)), (''minute'', NumI m)])
              (ret ()))
       (\<lambda>err. throw (if e_code err = Some ''INSUFFICIENT_COINS'' then Error ''INSUFFICIENT_BALANCE'' else err))"

definition bill_minute :: "'w call_env \<Rightarrow> call_row \<Rightarrow> int \<Rightarrow> int \<Rightarrow> ('w, bool) act" where
  "bill_minute C s coinRate m =
     catchA
       (thenA (ledger_minute C s m)
         (thenA (low_coin_check C (vs_id s) (vs_callerId s) coinRate (vs_startedAt s) m) (ret True)))
       (\<lambda>err. if e_message err = ''INSUFFICIENT_BALANCE''
         then thenA (endCall C (vs_id s) (Some (vs_callerId s)) ''INSUFFICIENT_BALANCE'' None) (ret False)
         else ret False)"

text \<open>A minute that is not billed stops the pass.\<close>

fun bill_loop :: "'w call_env \<Rightarrow> string \<Rightarrow> call_row \<Rightarrow> int \<Rightarrow> int option \<Rightarrow> int list \<Rightarrow> ('w, unit) act" where
  "bill_loop C mode s coinRate lastHeartbeat [] = ret ()"
| "bill_loop C mode s coinRate lastHeartbeat (m # ms) =
     (if quiet_minute s lastHeartbeat m \<and> mode = ''enforce'' then ret ()
      else bindA (caller_gone C s m) (\<lambda>gone.
        if gone then ret ()
        else bindA (bill_minute C s coinRate m) (\<lambda>billed.
          if billed then bill_loop C mode s coinRate lastHeartbeat ms else ret ())))"

definition current_minute :: "int \<Rightarrow> call_row \<Rightarrow> int" where
  "current_minute now s = (now - vs_startedAt s) div 60000 + 1"

definition billDueMinutes :: "'w call_env \<Rightarrow> string \<Rightarrow> call_row \<Rightarrow> ('w, unit) act" where
  "billDueMinutes C mode s =
     bindA (askA (vc_now C)) (\<lambda>now.
       let currentMinute = current_minute now s in
       if vs_mins s < currentMinute then
         bindA (coin_rate C (vs_price s)) (\<lambda>coinRate.
         bindA (if mode = ''off'' then ret None else getCallHeartbeat C (vs_id s)) (\<lambda>lastHeartbeat.
           bill_loop C mode s coinRate lastHeartbeat [vs_mins s + 1..currentMinute]))
       else ret ())"

text \<open>The handler of \<open>vc_bill\<close>, inside its slot.\<close>

definition bill_handler :: "'w call_env \<Rightarrow> string \<Rightarrow> string \<Rightarrow> ('w, unit) act" where
  "bill_handler C mode sid =
     bindA (vc_find C sid) (\<lambda>fresh. case fresh of
       None \<Rightarrow> ret ()
     | Some s \<Rightarrow>
         if vs_status s \<noteq> ACTIVE then ret ()
         else thenA (billDueMinutes C mode s) (bindA (vc_find C sid) (scheduleNextBilling C)))"

section \<open>The sweep\<close>

definition sweep_heartbeats :: "'w call_env \<Rightarrow> string \<Rightarrow> int \<Rightarrow> call_row \<Rightarrow> ('w, unit) act" where
  "sweep_heartbeats C mode now s =
     (let sessionAge = now - vs_startedAt s in
      thenA (whenA (20000 \<le> sessionAge \<and> sessionAge \<le> 120000) (quietly (checkCallConnected C s)))
        (whenA (45000 < sessionAge)
          (bindA (getCallHeartbeat C (vs_id s)) (\<lambda>hb.
             let sessionPing = (case or_none hb of Some t \<Rightarrow> t | None \<Rightarrow> vs_startedAt s) in
             whenA (60000 < now - sessionPing)
               (thenA (\<lambda>w. (Inr (), vc_putHb C ((vc_hb C w)(vs_id s := None)) w))
                 (thenA (endCall C (vs_id s) (Some (vs_callerId s)) ''HEARTBEAT_LOST''
                    (if mode = ''enforce'' \<and> vs_startedAt s < sessionPing then Some sessionPing else None)) (ret ())))))))"

definition sweep_ringing :: "'w call_env \<Rightarrow> call_row \<Rightarrow> ('w, unit) act" where
  "sweep_ringing C s = thenA (endCall C (vs_id s) (Some (vs_callerId s)) ''RINGING_TIMEOUT'' None) (ret ())"

definition sweep_billing :: "'w call_env \<Rightarrow> string \<Rightarrow> call_row \<Rightarrow> ('w, unit) act" where
  "sweep_billing C mode s =
     thenA (billDueMinutes C mode s)
       (bindA (vc_has C BILL_TIMER (vs_id s)) (\<lambda>armed.
          if armed then ret () else bindA (vc_find C (vs_id s)) (scheduleNextBilling C)))"

text \<open>One tick on the leader: three passes, an error ends its pass only.\<close>

definition call_sweep :: "'w call_env \<Rightarrow> string \<Rightarrow> ('w, bool) act \<Rightarrow> ('w, unit) act" where
  "call_sweep C mode leader =
     bindA (catchA leader (\<lambda>_. ret False)) (\<lambda>l.
       if \<not> l then ret ()
       else bindA (askA (vc_now C)) (\<lambda>now.
         thenA (quietly (bindA (vc_activeCalls C) (forA (sweep_heartbeats C mode now))))
         (thenA (quietly (bindA (vc_ringingBefore C (now - 45000)) (forA (sweep_ringing C))))
           (quietly (bindA (vc_activeCalls C) (forA (sweep_billing C mode)))))))"

section \<open>Billing slots\<close>

text \<open>
  \<open>withBillingSlot\<close>: how many run, who waits, and who has been woken but has not continued yet: a woken waiter
  continues in a later turn of the event loop, where it counts itself in without looking at the counter again.
\<close>

record slots =
  billingInFlight :: nat
  billingWaiters :: "nat list"
  sl_woken :: "nat list"

definition BILL_CONCURRENCY :: nat where "BILL_CONCURRENCY = 10"

definition slot_enter :: "nat \<Rightarrow> slots \<Rightarrow> slots" where
  "slot_enter i s =
     (if BILL_CONCURRENCY \<le> billingInFlight s then s\<lparr>billingWaiters := billingWaiters s @ [i]\<rparr>
      else s\<lparr>billingInFlight := billingInFlight s + 1\<rparr>)"

definition slot_leave :: "slots \<Rightarrow> slots" where
  "slot_leave s = s\<lparr>billingInFlight := billingInFlight s - 1, billingWaiters := tl (billingWaiters s),
     sl_woken := sl_woken s @ take 1 (billingWaiters s)\<rparr>"

definition slot_resume :: "slots \<Rightarrow> slots" where
  "slot_resume s = (if sl_woken s = [] then s else s\<lparr>billingInFlight := billingInFlight s + 1, sl_woken := tl (sl_woken s)\<rparr>)"

datatype slot_event = Enter nat | Leave | Resume

fun slot_step :: "slot_event \<Rightarrow> slots \<Rightarrow> slots" where
  "slot_step (Enter i) s = slot_enter i s"
| "slot_step Leave s = (if billingInFlight s = 0 then s else slot_leave s)"
| "slot_step Resume s = slot_resume s"

definition no_slots :: slots where
  "no_slots = \<lparr>billingInFlight = 0, billingWaiters = [], sl_woken = []\<rparr>"

section \<open>What a pass asks of the ledger\<close>

text \<open>
  \<open>asked w\<close>: the minutes of the call the ledger was asked to bill, one per operation. Only \<open>callLedger\<close> adds to them;
  the other operations of a pass leave them alone.
\<close>

locale billing_frame =
  fixes C :: "'w call_env" and sid :: string and asked :: "'w \<Rightarrow> int list"
  assumes ask: "callLedger (vc_ledger C) default_opts ''call-minute'' [(''sessionId'', Str sid), (''minute'', NumI m)] w = (r, w1) \<Longrightarrow>
      asked w1 = asked w @ [m]"
    and redis_frame [keeps_intros]: "keeps (\<lambda>w. asked w = a) (r_get (vc_redis C) k)"
      "keeps (\<lambda>w. asked w = a) (r_set (vc_redis C) k v opt)" "keeps (\<lambda>w. asked w = a) (r_del (vc_redis C) ks)"
      "keeps (\<lambda>w. asked w = a) (r_lrange (vc_redis C) k)"
    and table_frame [keeps_intros]: "keeps (\<lambda>w. asked w = a) (vc_find C i)" "keeps (\<lambda>w. asked w = a) (vc_flip C i s s' t x)"
      "keeps (\<lambda>w. asked w = a) (vc_wallet C u)" "keeps (\<lambda>w. asked w = a) (vc_insertWallet C u)"
      "keeps (\<lambda>w. asked w = a) (vc_lastCoins C u)" "keeps (\<lambda>w. asked w = a) (vc_shareRow C)"
      "keeps (\<lambda>w. asked w = a) (vc_liveOf C u)" "keeps (\<lambda>w. asked w = a) (vc_recordFailure C f)"
    and timer_frame [keeps_intros]: "keeps (\<lambda>w. asked w = a) (vc_has C kd i)"
      "keeps (\<lambda>w. asked w = a) (vc_schedule C kd i t p)" "keeps (\<lambda>w. asked w = a) (vc_cancel C kd i)"
    and io_frame [keeps_intros]: "keeps (\<lambda>w. asked w = a) (vc_io C so ev p)" "keeps (\<lambda>w. asked w = a) (vc_deleteRoom C room)"
    and memory_frame: "asked (vc_putHb C h w) = asked w" "asked (vc_putMemo C me w) = asked w"
begin

lemma keeps_memory [keeps_intros]:
  "keeps (\<lambda>w. asked w = a) (\<lambda>w. (Inr (), vc_putHb C (h w) w))" "keeps (\<lambda>w. asked w = a) (\<lambda>w. (Inr (), vc_putMemo C me w))"
  by (simp_all add: keeps_def memory_frame)

lemma keeps_coins [keeps_intros]: "keeps (\<lambda>w. asked w = a) (coins_of C u)"
  unfolding coins_of_def getOrCreateWallet_def getFastCoinBalance_def by (intro keeps_intros)

lemma keeps_low_coin [keeps_intros]: "keeps (\<lambda>w. asked w = a) (low_coin_check C i u r s m)"
  unfolding low_coin_check_def scheduleLowCoinDisconnect_def by (intro keeps_intros)

lemma keeps_heartbeat [keeps_intros]: "keeps (\<lambda>w. asked w = a) (getCallHeartbeat C i)"
  unfolding getCallHeartbeat_def by (intro keeps_intros)

lemma keeps_gone [keeps_intros]: "keeps (\<lambda>w. asked w = a) (caller_gone C s m)"
  unfolding caller_gone_def by (intro keeps_intros)

lemma keeps_rate [keeps_intros]: "keeps (\<lambda>w. asked w = a) (coin_rate C p)"
  unfolding coin_rate_def currentCallerCoinsPerMinute_def getVideoCallHostShareBp_def memoized_def read_setting_def cached_setting_def
    Let_def by (intro keeps_intros)

lemma keeps_emit [keeps_intros]: "keeps (\<lambda>w. asked w = a) (emitToUser C u ev p)"
  unfolding emitToUser_def by (intro keeps_intros)

lemma keeps_loop [keeps_intros]: "keeps (\<lambda>w. asked w = a) (end_loop n C i u r t)"
proof (induction n)
  case (Suc n)
  have "keeps (\<lambda>w. asked w = a) (end_attempt C i u r t)"
    unfolding end_attempt_def end_write_def by (intro keeps_intros)
  with Suc show ?case by (auto intro!: keeps_intros split: end_try.split option.split)
qed (simp add: keeps_intros)

lemma keeps_end [keeps_intros]: "keeps (\<lambda>w. asked w = a) (endCall C i u r t)"
  unfolding endCall_def after_end_def end_notice_def clear_call_def closeCallRoom_def clearCallHeartbeat_def return_grace_def
    recordCallNetLost_def side_meta_def hostStreamFacts_def lastDisconnect_def Let_def
  by (intro keeps_intros)

lemma ledger_minute_asks:
  assumes "vs_id s = sid" and "ledger_minute C s m w = (r, w1)"
  shows "asked w1 = asked w @ [m]"
proof -
  obtain r0 w0 where c: "callLedger (vc_ledger C) default_opts ''call-minute'' [(''sessionId'', Str sid), (''minute'', NumI m)] w = (r0, w0)"
    by (rule prod.exhaust)
  then have "asked w0 = asked w @ [m]" by (rule ask)
  with c assms show ?thesis
    by (cases r0) (auto simp: ledger_minute_def catchA_run thenA_run ret_run throw_run)
qed

lemma bill_minute_asks:
  assumes "vs_id s = sid" and "bill_minute C s rate m w = (r, w1)"
  shows "asked w1 = asked w @ [m]"
proof -
  obtain r0 w0 where l: "ledger_minute C s m w = (r0, w0)" by (rule prod.exhaust)
  have a: "asked w0 = asked w @ [m]" by (rule ledger_minute_asks [OF assms(1) l])
  obtain r2 w2 where p: "thenA (ledger_minute C s m)
      (thenA (low_coin_check C (vs_id s) (vs_callerId s) rate (vs_startedAt s) m) (ret True)) w = (r2, w2)"
    by (rule prod.exhaust)
  have "asked w2 = asked w @ [m]"
    by (rule keeps_after_then [where Q = "\<lambda>v. asked v = asked w @ [m]", OF l a p]) (intro keeps_intros)
  then show ?thesis
    by (rule keeps_after_catch [where Q = "\<lambda>v. asked v = asked w @ [m]", OF p _ assms(2) [unfolded bill_minute_def]])
      (intro keeps_intros)
qed

lemma bill_loop_asks:
  assumes "vs_id s = sid" and "bill_loop C mode s rate hb ms w = (r, w1)"
  shows "\<exists>n. asked w1 = asked w @ take n ms \<and> (mode = ''enforce'' \<longrightarrow> list_all (\<lambda>m. \<not> quiet_minute s hb m) (take n ms))"
  using assms(2)
proof (induction ms arbitrary: w)
  case (Cons m ms)
  show ?case
  proof (cases "quiet_minute s hb m \<and> mode = ''enforce''")
    case False
    obtain g w0 where g: "caller_gone C s m w = (g, w0)" by (rule prod.exhaust)
    have a0: "asked w0 = asked w" using keepsD [OF keeps_gone g] by blast
    show ?thesis
    proof (cases "g = Inr False")
      case True
      obtain b w2 where b: "bill_minute C s rate m w0 = (b, w2)" by (rule prod.exhaust)
      have a2: "asked w2 = asked w @ [m]" using bill_minute_asks [OF assms(1) b] a0 by simp
      have "(r, w1) = (case b of Inl e \<Rightarrow> (Inl e, w2) | Inr billed \<Rightarrow>
          if billed then bill_loop C mode s rate hb ms w2 else (Inr (), w2))"
        using Cons.prems False g True b by (auto simp: bindA_run ret_run split: sum.split)
      then consider "w1 = w2" | "bill_loop C mode s rate hb ms w2 = (r, w1)"
        by (auto split: sum.splits if_splits)
      then show ?thesis
      proof cases
        case 1
        then show ?thesis using a2 False by (intro exI [of _ 1]) auto
      next
        case 2
        from Cons.IH [OF this] obtain n where "asked w1 = asked w2 @ take n ms"
          "mode = ''enforce'' \<longrightarrow> list_all (\<lambda>m. \<not> quiet_minute s hb m) (take n ms)" by blast
        then show ?thesis using a2 False by (intro exI [of _ "Suc n"]) auto
      qed
    next
      case False
      then have "w1 = w0"
        using Cons.prems \<open>\<not> (quiet_minute s hb m \<and> mode = ''enforce'')\<close> g by (auto simp: bindA_run ret_run split: sum.splits if_splits)
      with a0 show ?thesis by (intro exI [of _ 0]) simp
    qed
  qed (use Cons.prems in \<open>auto simp: ret_run intro: exI [of _ 0]\<close>)
qed (auto simp: ret_run)

end

text \<open>A prefix of a range of minutes is a range of minutes.\<close>

lemma take_upto: "i \<le> j + 1 \<Longrightarrow> \<exists>k. i - 1 \<le> k \<and> k \<le> j \<and> take n [i..j] = [i..k]"
proof (induction n arbitrary: i)
  case 0
  then show ?case by (intro exI [of _ "i - 1"]) simp
next
  case (Suc n)
  show ?case
  proof (cases "i \<le> j")
    case True
    from Suc.IH [of "i + 1"] True obtain k where k: "i \<le> k" "k \<le> j" "take n [i + 1..j] = [i + 1..k]" by auto
    then show ?thesis using True by (intro exI [of _ k]) (simp add: upto_rec1)
  next
    case False
    with Suc.prems show ?thesis by (intro exI [of _ "i - 1"]) simp
  qed
qed

text \<open>
  C14: One billing pass asks the ledger for the minutes after those billed, in order and without a gap, and for none after the
  current one; with \<open>CALL_BILL_TO_LAST_HB=enforce\<close> it asks for no minute that starts more than 30 s after the last heartbeat.
\<close>

theorem billed_minutes_consecutive:
  assumes "billing_frame C (vs_id s) asked" and "vs_mins s < current_minute (vc_now C w) s"
    and "coin_rate C (vs_price s) w = (Inr rate, w2)"
    and "(if mode = ''off'' then ret None else getCallHeartbeat C (vs_id s)) w2 = (Inr hb, w3)"
    and "billDueMinutes C mode s w = (r, w1)"
  shows "\<exists>k. vs_mins s \<le> k \<and> k \<le> current_minute (vc_now C w) s \<and> asked w1 = asked w @ [vs_mins s + 1..k] \<and>
    (mode = ''enforce'' \<longrightarrow> (\<forall>m \<in> {vs_mins s + 1..k}. \<forall>t. hb = Some t \<and> t \<noteq> 0 \<longrightarrow> vs_startedAt s + (m - 1) * 60000 \<le> t + 30000))"
proof -
  have a2: "asked w2 = asked w" by (rule keepsD [OF billing_frame.keeps_rate [OF assms(1)] assms(3)]) simp
  have "keeps (\<lambda>v. asked v = asked w) (if mode = ''off'' then ret None else getCallHeartbeat C (vs_id s))"
    by (intro keeps_intros billing_frame.keeps_heartbeat [OF assms(1)])
  from keepsD [OF this assms(4) a2] have a3: "asked w3 = asked w" .
  have "bill_loop C mode s rate hb [vs_mins s + 1..current_minute (vc_now C w) s] w3 = (r, w1)"
    using assms(2-5) by (simp add: billDueMinutes_def bindA_run askA_run Let_def)
  from billing_frame.bill_loop_asks [OF assms(1) refl this] obtain n where
    n: "asked w1 = asked w3 @ take n [vs_mins s + 1..current_minute (vc_now C w) s]"
      "mode = ''enforce'' \<longrightarrow> list_all (\<lambda>m. \<not> quiet_minute s hb m) (take n [vs_mins s + 1..current_minute (vc_now C w) s])" by blast
  obtain k where k: "vs_mins s \<le> k" "k \<le> current_minute (vc_now C w) s"
    "take n [vs_mins s + 1..current_minute (vc_now C w) s] = [vs_mins s + 1..k]"
    using take_upto [of "vs_mins s + 1" "current_minute (vc_now C w) s" n] assms(2) by auto
  show ?thesis
    using n k a3 by (intro exI [of _ k])
      (auto simp: list_all_iff quiet_minute_def minute_start_def BILL_HEARTBEAT_STALE_MS_def)
qed

text \<open>The ledger of the concrete world answers every request, so one operation is one request.\<close>

definition posted_minute :: "jtext \<Rightarrow> int" where
  "posted_minute t = (case t of Json b \<Rightarrow> (case get_field b ''minute'' of Num r \<Rightarrow> \<lfloor>r\<rfloor> | _ \<Rightarrow> 0) | _ \<Rightarrow> 0)"

abbreviation mem_asked :: "call_mem \<Rightarrow> int list" where
  "mem_asked w \<equiv> map posted_minute (cm_posts w)"

lemma mem_answer_final:
  obtains res w1 where "mem_answer p w = (Inr res, w1)" "h_status res \<notin> set RETRY_STATUS" "cm_posts w1 = cm_posts w"
  by (cases "mem_answer p w") (auto simp: mem_answer_def bill_call_def RETRY_STATUS_def Let_def split: jtext.splits option.splits if_splits)

lemma mem_asks:
  assumes "callLedger mem_ledger default_opts ''call-minute'' [(''sessionId'', Str sid), (''minute'', NumI m)] w = (r, w1)"
  shows "mem_asked w1 = mem_asked w @ [m]"
proof -
  define body where "body = obj_spread [(''requestId'', Str ''uuid'')] [(''sessionId'', Str sid), (''minute'', NumI m)]"
  define p where "p = \<lparr>p_url = baseUrl mem_ledger @ ''/internal/v1/ledger/call-minute'', p_timestamp = int_str (m_clk w),
    p_signature = signRequest mem_ledger (secret mem_ledger) (int_str (m_clk w)) ''POST'' ''/internal/v1/ledger/call-minute'' (Json (Obj body)),
    p_body = Json (Obj body), p_timeout = 18000\<rparr>"
  obtain res w2 where f: "mem_answer p (w\<lparr>cm_posts := cm_posts w @ [Json (Obj body)]\<rparr>) = (Inr res, w2)"
    "h_status res \<notin> set RETRY_STATUS" "cm_posts w2 = cm_posts (w\<lparr>cm_posts := cm_posts w @ [Json (Obj body)]\<rparr>)"
    by (rule mem_answer_final)
  have a: "one_attempt mem_ledger default_opts ''/internal/v1/ledger/call-minute'' (Json (Obj body)) TOTAL_BUDGET_MS w =
      (Inr (read_answer res), w2)"
    using f(1) by (simp add: one_attempt_def act_simps mem_ledger_def mem_fetch_def p_def default_opts_def ATTEMPT_TIMEOUT_MS_def
        TOTAL_BUDGET_MS_def)
  have "w1 = w2"
    using assms a f(2) by (auto simp: callLedger_def body_def read_answer_def Let_def act_simps mem_ledger_def default_opts_def
        JSON_stringify_def split: if_splits)
  with f(3) show ?thesis by (simp add: posted_minute_def body_def get_field_def map_of_obj_spread)
qed

interpretation membill: billing_frame mem_call sid mem_asked
  by unfold_locales (auto simp: mem_call_def keeps_def act_simps mem_redis_def intro: mem_asks split: option.splits)

definition bill0 :: call_mem where
  "bill0 = (call0 130000 [demo_call ''c'' ACTIVE 0 1])\<lparr>cm_hb := (\<lambda>_. Some 85000)\<rparr>"

theorem billed_minutes_consecutive_witness:
  "\<exists>r w1 k. billDueMinutes mem_call ''enforce'' (demo_call ''c'' ACTIVE 0 1) bill0 = (r, w1) \<and> 1 \<le> k \<and> k \<le> 2 \<and>
     mem_asked w1 = [2..k]"
proof -
  let ?s = "demo_call ''c'' ACTIVE 0 1"
  obtain x w2 where c: "coin_rate mem_call (vs_price ?s) bill0 = (x, w2)" by (rule prod.exhaust)
  have "\<not> isl (fst (coin_rate mem_call (vs_price ?s) bill0))" by code_simp
  with c obtain rate where x: "x = Inr rate" by (cases x) auto
  obtain y w3 where h: "getCallHeartbeat mem_call (vs_id ?s) w2 = (y, w3)" by (rule prod.exhaust)
  have "fst (getCallHeartbeat mem_call (vs_id ?s) (snd (coin_rate mem_call (vs_price ?s) bill0))) = Inr (Some 85000)" by code_simp
  with c h have y: "y = Inr (Some 85000)" by simp
  obtain r w1 where b: "billDueMinutes mem_call ''enforce'' ?s bill0 = (r, w1)" by (rule prod.exhaust)
  have d: "vs_mins ?s < current_minute (vc_now mem_call bill0) ?s" by code_simp
  have h2: "(if ''enforce'' = ''off'' then ret None else getCallHeartbeat mem_call (vs_id ?s)) w2 = (Inr (Some 85000), w3)"
    using h y by simp
  from billed_minutes_consecutive [OF membill.billing_frame_axioms d c [unfolded x] h2 b] obtain k where
    k: "vs_mins ?s \<le> k" "k \<le> current_minute (vc_now mem_call bill0) ?s" "mem_asked w1 = mem_asked bill0 @ [vs_mins ?s + 1..k]"
    "\<forall>m \<in> {vs_mins ?s + 1..k}. vs_startedAt ?s + (m - 1) * 60000 \<le> 85000 + 30000" by auto
  have "k \<le> 2" using k(4) by (force simp: demo_call_def dest: bspec [of _ _ 3])
  with b k show ?thesis by (intro exI [of _ r] exI [of _ w1] exI [of _ k]) (simp add: demo_call_def bill0_def call0_def)
qed

section \<open>The slots serve everyone\<close>

text \<open>Somebody is running or about to run whenever somebody waits.\<close>

definition slots_ok :: "slots \<Rightarrow> bool" where
  "slots_ok s \<longleftrightarrow> billingWaiters s = [] \<or> 0 < billingInFlight s \<or> sl_woken s \<noteq> []"

lemma slots_ok_step: "slots_ok s \<Longrightarrow> slots_ok (slot_step e s)"
  by (cases e; cases "billingWaiters s")
    (auto simp: slots_ok_def slot_enter_def slot_leave_def slot_resume_def BILL_CONCURRENCY_def)

lemma slots_ok_run: "slots_ok s \<Longrightarrow> slots_ok (fold slot_step es s)"
  by (induction es arbitrary: s) (simp_all add: slots_ok_step)

lemma slots_drain:
  "slots_ok s \<Longrightarrow> n = length (billingWaiters s) \<Longrightarrow> billingWaiters (fold slot_step (concat (replicate n [Resume, Leave])) s) = []"
proof (induction n arbitrary: s)
  case (Suc n)
  have "slots_ok (slot_step Leave (slot_step Resume s))" by (intro slots_ok_step Suc.prems(1))
  moreover have "n = length (billingWaiters (slot_step Leave (slot_step Resume s)))"
    using Suc.prems by (cases "sl_woken s") (auto simp: slots_ok_def slot_leave_def slot_resume_def)
  ultimately show ?case using Suc.IH by simp
qed simp


text \<open>No call arrives between a wake-up and the turn in which the woken call counts itself in.\<close>

fun undisturbed :: "slot_event list \<Rightarrow> slots \<Rightarrow> bool" where
  "undisturbed [] s = True"
| "undisturbed (e # es) s = ((case e of Enter _ \<Rightarrow> sl_woken s = [] | _ \<Rightarrow> True) \<and> undisturbed es (slot_step e s))"

lemma slots_bounded:
  "billingInFlight s + length (sl_woken s) \<le> BILL_CONCURRENCY \<Longrightarrow> undisturbed es s \<Longrightarrow>
     billingInFlight (fold slot_step es s) + length (sl_woken (fold slot_step es s)) \<le> BILL_CONCURRENCY"
proof (induction es arbitrary: s)
  case (Cons e es)
  have "billingInFlight (slot_step e s) + length (sl_woken (slot_step e s)) \<le> BILL_CONCURRENCY"
    using Cons.prems by (cases e; cases "billingWaiters s"; cases "sl_woken s")
      (auto simp: slot_enter_def slot_leave_def slot_resume_def)
  then show ?case using Cons by simp
qed simp

text \<open>
  At most ten billings run at once as long as no call arrives in the gap between a wake-up and the turn in which the
  woken call counts itself in; a call that arrives in that gap makes it eleven.
\<close>

theorem billing_slots_bound:
  "(undisturbed es no_slots \<longrightarrow> billingInFlight (fold slot_step es no_slots) \<le> 10) \<and>
   billingInFlight (fold slot_step (map Enter [0..<11] @ [Leave, Enter 11, Resume]) no_slots) = 11"
proof -
  have "undisturbed es no_slots \<longrightarrow> billingInFlight (fold slot_step es no_slots) \<le> 10"
    using slots_bounded [of no_slots es] by (auto simp: no_slots_def BILL_CONCURRENCY_def)
  moreover have "billingInFlight (fold slot_step (map Enter [0..<11] @ [Leave, Enter 11, Resume]) no_slots) = 11" by code_simp
  ultimately show ?thesis by blast
qed

theorem billing_slots_bound_witness:
  "billingInFlight (fold slot_step (map Enter [0..<11] @ [Leave, Resume, Enter 11]) no_slots) \<le> 10"
proof -
  have "undisturbed (map Enter [0..<11] @ [Leave, Resume, Enter 11]) no_slots" by code_simp
  with billing_slots_bound show ?thesis by blast
qed

end
