(* ===== verification/Network_Notice.thy ===== *)
theory Network_Notice
  imports Call_Session Rate_Limit
begin

text \<open>
  Telling the other side that somebody's network is weak, \<open>src/services/networkNotice.service.js\<close>, the ownership
  check in its two modes, \<open>src/utils/ownershipCheck.js\<close>, and the public id a room may show,
  \<open>src/routes/service/roomPublicId.js\<close>. Emits and tables are parameters; the counters of the log are not modelled.
\<close>

section \<open>Who may act, what a room may show\<close>

definition ownershipCheckMode :: "(string \<Rightarrow> string option) \<Rightarrow> string" where
  "ownershipCheckMode env =
     (let m = toLowerCase (js_trim (str_or (env ''LIVE_OWNERSHIP_CHECK_MODE'') ''log''))
      in if m \<in> {''log'', ''enforce''} then m else ''log'')"

definition rejectNotOwner :: "(string \<Rightarrow> string option) \<Rightarrow> bool" where
  "rejectNotOwner env \<longleftrightarrow> ownershipCheckMode env = ''enforce''"

definition roomPublicId :: "jsval \<Rightarrow> jsval" where
  "roomPublicId user =
     (if \<not> truthy user then Null
      else if is_stealth user then Null
      else if \<not> is_nullish (get_field user ''publicId'') then Str (js_String (get_field user ''publicId'')) else Null)"

text \<open>One seat completed with its public id.\<close>

definition seat_with_id :: "(string \<Rightarrow> ('w, jsval) act) \<Rightarrow> jsval \<Rightarrow> ('w, jsval) act" where
  "seat_with_id lookupPrivacy su =
     (if \<not> truthy su \<or> \<not> truthy (get_field su ''userId'') \<or> truthy (get_field su ''publicId'') then ret su
      else catchA
        (bindA (lookupPrivacy (js_String (get_field su ''userId''))) (\<lambda>p. ret (Obj (obj_spread (fields_of su)
           [(''publicId'', if truthy (get_field p ''isStealth'') then Null else nullish (get_field p ''publicId'') Null)]))))
        (\<lambda>_. ret (Obj (obj_spread (fields_of su) [(''publicId'', Null)]))))"

fun withSheetPublicIds :: "(string \<Rightarrow> ('w, jsval) act) \<Rightarrow> jsval list \<Rightarrow> ('w, jsval list) act" where
  "withSheetPublicIds lookupPrivacy [] = ret []"
| "withSheetPublicIds lookupPrivacy (su # us) =
     bindA (seat_with_id lookupPrivacy su) (\<lambda>v. bindA (withSheetPublicIds lookupPrivacy us) (\<lambda>vs. ret (v # vs)))"

section \<open>Notices\<close>

datatype notice_target = InStream string | InCall string string   \<comment> \<open>stream; call and the other side\<close>

record 'w net_env =
  nn_redis :: "'w redis"
  nn_mode :: string                                          \<comment> \<open>\<open>LIVE_NETWORK_NOTICE_MODE\<close> as \<open>modeFromEnv\<close> reads it\<close>
  nn_stream :: "string \<Rightarrow> ('w, jsval) act"                   \<comment> \<open>a live, unended stream of a room\<close>
  nn_callOfRoom :: "string \<Rightarrow> ('w, call_row option) act"
  nn_call :: "string \<Rightarrow> ('w, call_row option) act"
  nn_broadcast :: "string \<Rightarrow> string \<Rightarrow> jsval \<Rightarrow> ('w, unit) act"
  nn_emit :: "string \<Rightarrow> string \<Rightarrow> jsval \<Rightarrow> ('w, unit) act"

definition STATE_TTL_SEC :: int where "STATE_TTL_SEC = 600"

definition networkNoticeMode :: "(string \<Rightarrow> string option) \<Rightarrow> string" where
  "networkNoticeMode env = modeFromEnv env ''LIVE_NETWORK_NOTICE_MODE'' ''log''"

definition stateKey :: "string \<Rightarrow> string \<Rightarrow> string \<Rightarrow> string" where
  "stateKey scope i userId = ''live:netstate:'' @ scope @ '':'' @ i @ '':'' @ userId"

definition state_changed :: "jtext option \<Rightarrow> string \<Rightarrow> bool" where
  "state_changed prev state \<longleftrightarrow> prev \<noteq> Some (Raw state) \<and> \<not> (state = ''back'' \<and> prev = None)"

definition changeState :: "'w net_env \<Rightarrow> string \<Rightarrow> string \<Rightarrow> string \<Rightarrow> string \<Rightarrow> ('w, bool) act" where
  "changeState N scope i userId state =
     ifOpen (nn_redis N)
       (catchA (bindA (r_setGet (nn_redis N) (stateKey scope i userId) (Raw state) (ex_s STATE_TTL_SEC)) (\<lambda>prev.
          ret (state_changed prev state))) (\<lambda>_. ret False))
       (ret True)"

definition reason_field :: "jsval \<Rightarrow> (string \<times> jsval) list" where
  "reason_field reason = (if truthy reason then [(''reason'', reason)] else [])"

definition send_notice :: "'w net_env \<Rightarrow> ('w, unit) act \<Rightarrow> ('w, unit) act" where
  "send_notice N emit = (if nn_mode N = ''enforce'' then emit else ret ())"

definition resolveRoom :: "'w net_env \<Rightarrow> string \<Rightarrow> string \<Rightarrow> ('w, notice_target option) act" where
  "resolveRoom N room identity =
     bindA (nn_stream N room) (\<lambda>stream.
       if truthy stream then
         ret (if get_field stream ''userId'' = Str identity then Some (InStream (js_String (get_field stream ''streamId''))) else None)
       else bindA (nn_callOfRoom N room) (\<lambda>call. ret (case call of
           None \<Rightarrow> None
         | Some s \<Rightarrow>
             if vs_status s \<noteq> ACTIVE then None
             else if identity = vs_callerId s then Some (InCall (vs_id s) (vs_creatorId s))
             else if identity = vs_creatorId s then Some (InCall (vs_id s) (vs_callerId s))
             else None)))"

definition notice_payload :: "notice_target \<Rightarrow> string \<Rightarrow> string \<Rightarrow> jsval \<Rightarrow> jsval" where
  "notice_payload tgt userId state reason = (case tgt of
      InStream s \<Rightarrow> Obj ([(''streamId'', Str s), (''state'', Str state)] @ reason_field reason)
    | InCall c other \<Rightarrow> Obj ([(''sessionId'', Str c), (''userId'', Str userId), (''state'', Str state)] @ reason_field reason))"

definition noticeState :: "'w net_env \<Rightarrow> notice_target \<Rightarrow> string \<Rightarrow> string \<Rightarrow> jsval \<Rightarrow> ('w, unit) act" where
  "noticeState N tgt userId state reason =
     quietly (case tgt of
       InStream s \<Rightarrow> bindA (changeState N ''stream'' s userId state) (\<lambda>changed.
         if changed then send_notice N (nn_broadcast N s ''host_network'' (notice_payload tgt userId state reason)) else ret ())
     | InCall c other \<Rightarrow> bindA (changeState N ''call'' c userId state) (\<lambda>changed.
         if changed then send_notice N (nn_emit N other ''peer_network'' (notice_payload tgt userId state reason)) else ret ()))"

text \<open>What a webhook says of a participant's network: the state and the reason.\<close>

definition event_state :: "jsval \<Rightarrow> (string \<times> jsval) option" where
  "event_state event =
     (if get_field event ''event'' = Str ''participant_left'' then
        let reason = disconnectReasonName (get_field (get_field event ''participant'') ''disconnectReason'') in
        if isAbnormalLeave reason then Some (''reconnecting'', reason) else None
      else if get_field event ''event'' = Str ''participant_joined'' then Some (''back'', Null)
      else None)"

definition handleLivekitNetworkEvent :: "'w net_env \<Rightarrow> jsval \<Rightarrow> ('w, unit) act" where
  "handleLivekitNetworkEvent N event =
     (let room = get_field (get_field event ''room'') ''name'';
          identity = get_field (get_field event ''participant'') ''identity'' in
      if nn_mode N = ''off'' \<or> \<not> truthy room \<or> \<not> truthy identity then ret ()
      else case event_state event of
        None \<Rightarrow> ret ()
      | Some (state, reason) \<Rightarrow>
          bindA (resolveRoom N (js_String room) (js_String identity)) (\<lambda>tgt. case tgt of
            None \<Rightarrow> ret () | Some t \<Rightarrow> noticeState N t (js_String identity) state reason))"

definition quality_state :: "jsval \<Rightarrow> string option" where
  "quality_state data =
     (let quality = toLowerCase (js_String (js_or (get_field data ''quality'') (Str []))) in
      if quality \<in> {''poor'', ''lost''} then Some ''weak''
      else if quality \<in> {''excellent'', ''good''} then Some ''back'' else None)"

text \<open>\<open>hosting\<close>: the stream of a socket whose \<open>data.isHost\<close> is set; \<open>userId\<close> its \<open>data.authUserId\<close>.\<close>

definition quality_target :: "'w net_env \<Rightarrow> string \<Rightarrow> string option \<Rightarrow> jsval \<Rightarrow> ('w, notice_target option) act" where
  "quality_target N userId hosting data =
     (case hosting of
        Some s \<Rightarrow> ret (Some (InStream s))
      | None \<Rightarrow> (case get_field data ''sessionId'' of
          Str c \<Rightarrow> bindA (nn_call N c) (\<lambda>call. ret (case call of
              None \<Rightarrow> None
            | Some s \<Rightarrow>
                if vs_status s = ACTIVE \<and> (vs_callerId s = userId \<or> vs_creatorId s = userId)
                then Some (InCall (vs_id s) (if vs_callerId s = userId then vs_creatorId s else vs_callerId s)) else None))
        | _ \<Rightarrow> ret None))"

definition handleClientQuality :: "'w net_env \<Rightarrow> string option \<Rightarrow> string option \<Rightarrow> jsval \<Rightarrow> ('w, unit) act" where
  "handleClientQuality N authUserId hosting data =
     (if nn_mode N = ''off'' \<or> \<not> truthy_str authUserId then ret ()
      else case quality_state data of
        None \<Rightarrow> ret ()
      | Some state \<Rightarrow>
          bindA (quality_target N (the authUserId) (if truthy_str hosting then hosting else None) data) (\<lambda>tgt. case tgt of
            None \<Rightarrow> ret () | Some t \<Rightarrow> noticeState N t (the authUserId) state Null))"

section \<open>Only changes are told\<close>

text \<open>The states a listener hears of those reported: no state twice in a row, and no recovery from nothing.\<close>

fun told :: "string option \<Rightarrow> string list \<Rightarrow> string list" where
  "told prev [] = []"
| "told prev (s # ss) = (if prev = Some s \<or> (s = ''back'' \<and> prev = None) then told (Some s) ss else s # told (Some s) ss)"

lemma told_some: "told (Some p) ss = tl (remdups_adj (p # ss))"
proof (induction ss arbitrary: p)
  case (Cons s ss)
  then show ?case using remdups_adj_Cons' [of s ss] by (cases "p = s") auto
qed simp

lemma told_none: "told None ss = (case remdups_adj ss of [] \<Rightarrow> [] | d # ds \<Rightarrow> if d = ''back'' then ds else d # ds)"
proof (cases ss)
  case (Cons s rest)
  have "\<exists>ds. remdups_adj (s # rest) = s # ds" unfolding remdups_adj_Cons' by blast
  with Cons show ?thesis by (auto simp: told_some)
qed simp

fun notice_key :: "notice_target \<Rightarrow> string \<Rightarrow> string" where
  "notice_key (InStream s) u = stateKey ''stream'' s u"
| "notice_key (InCall c other) u = stateKey ''call'' c u"

fun listener :: "notice_target \<Rightarrow> string" where
  "listener (InStream s) = s"
| "listener (InCall c other) = other"

definition last_state :: "('w \<Rightarrow> string \<Rightarrow> (jtext \<times> int option) option) \<Rightarrow> notice_target \<Rightarrow> string \<Rightarrow> 'w \<Rightarrow> jtext option" where
  "last_state kv tgt u w = map_option fst (kv w (notice_key tgt u))"

locale notice_net = redis_kv "nn_redis N" kv clk up
  for N :: "'w net_env" and kv clk up +
  fixes heard :: "'w \<Rightarrow> (string \<times> jsval) list"    \<comment> \<open>who was told what\<close>
  assumes setGet: "up w \<Longrightarrow> 0 < ttl_of opt \<Longrightarrow> \<not> o_nx opt \<Longrightarrow>
      \<exists>w1. r_setGet (nn_redis N) k v opt w = (Inr (map_option fst (kv w k)), w1) \<and> up w1 \<and> heard w1 = heard w \<and>
        kv w1 = (kv w)(k \<mapsto> (v, map_option (\<lambda>p. clk w + p) (o_px opt)))"
    and broadcast: "up w \<Longrightarrow> \<exists>w1. nn_broadcast N s ev p w = (Inr (), w1) \<and> up w1 \<and> kv w1 = kv w \<and> heard w1 = heard w @ [(s, p)]"
    and emit: "up w \<Longrightarrow> \<exists>w1. nn_emit N u ev p w = (Inr (), w1) \<and> up w1 \<and> kv w1 = kv w \<and> heard w1 = heard w @ [(u, p)]"
begin

lemma changed_E:
  assumes "up w"
  obtains w1 where "changeState N scope i u s w = (Inr (state_changed (map_option fst (kv w (stateKey scope i u))) s), w1)"
    "up w1" "heard w1 = heard w" "map_option fst (kv w1 (stateKey scope i u)) = Some (Raw s)"
proof -
  have "0 < ttl_of (ex_s STATE_TTL_SEC)" "\<not> o_nx (ex_s STATE_TTL_SEC)"
    by (simp_all add: ttl_of_def ex_s_def STATE_TTL_SEC_def)
  from setGet [OF assms this, of "stateKey scope i u" "Raw s"] obtain w1 where
    "r_setGet (nn_redis N) (stateKey scope i u) (Raw s) (ex_s STATE_TTL_SEC) w =
       (Inr (map_option fst (kv w (stateKey scope i u))), w1)" "up w1" "heard w1 = heard w"
    "map_option fst (kv w1 (stateKey scope i u)) = Some (Raw s)" by auto
  then show thesis
    using that up_open [OF assms] by (simp add: changeState_def act_simps)
qed

lemma notice_E:
  assumes "up w" and "nn_mode N = ''enforce''"
  obtains w1 where "noticeState N tgt u s Null w = (Inr (), w1)" "up w1" "last_state kv tgt u w1 = Some (Raw s)"
    "heard w1 = heard w @ (if state_changed (last_state kv tgt u w) s then [(listener tgt, notice_payload tgt u s Null)] else [])"
proof (cases tgt)
  case (InStream i)
  obtain w1 where c: "changeState N ''stream'' i u s w = (Inr (state_changed (last_state kv tgt u w) s), w1)" "up w1"
    "heard w1 = heard w" "last_state kv tgt u w1 = Some (Raw s)"
    using changed_E [OF assms(1), of "''stream''" i u s] unfolding InStream last_state_def notice_key.simps .
  obtain w2 where "nn_broadcast N i ''host_network'' (notice_payload tgt u s Null) w1 = (Inr (), w2)" "up w2" "kv w2 = kv w1"
      "heard w2 = heard w1 @ [(i, notice_payload tgt u s Null)]" using broadcast [OF c(2)] by blast
  with c that show thesis using assms(2)
    by (cases "state_changed (last_state kv tgt u w) s") (auto simp: noticeState_def InStream send_notice_def last_state_def act_simps)
next
  case (InCall i other)
  obtain w1 where c: "changeState N ''call'' i u s w = (Inr (state_changed (last_state kv tgt u w) s), w1)" "up w1"
    "heard w1 = heard w" "last_state kv tgt u w1 = Some (Raw s)"
    using changed_E [OF assms(1), of "''call''" i u s] unfolding InCall last_state_def notice_key.simps .
  obtain w2 where "nn_emit N other ''peer_network'' (notice_payload tgt u s Null) w1 = (Inr (), w2)" "up w2" "kv w2 = kv w1"
      "heard w2 = heard w1 @ [(other, notice_payload tgt u s Null)]" using emit [OF c(2)] by blast
  with c that show thesis using assms(2)
    by (cases "state_changed (last_state kv tgt u w) s") (auto simp: noticeState_def InCall send_notice_def last_state_def act_simps)
qed

lemma notices_told:
  assumes "up w" and "nn_mode N = ''enforce''" and "last_state kv tgt u w = map_option Raw prev"
  shows "\<exists>w1. forA (\<lambda>s. noticeState N tgt u s Null) ss w = (Inr (), w1) \<and>
    heard w1 = heard w @ map (\<lambda>s. (listener tgt, notice_payload tgt u s Null)) (told prev ss)"
  using assms(1,3)
proof (induction ss arbitrary: w prev)
  case (Cons s ss)
  obtain w1 where n: "noticeState N tgt u s Null w = (Inr (), w1)" "up w1" "last_state kv tgt u w1 = Some (Raw s)"
    "heard w1 = heard w @ (if state_changed (last_state kv tgt u w) s then [(listener tgt, notice_payload tgt u s Null)] else [])"
    by (rule notice_E [OF Cons.prems(1) assms(2)])
  from Cons.IH [OF n(2), of "Some s"] n(3) obtain w2 where
    "forA (\<lambda>s. noticeState N tgt u s Null) ss w1 = (Inr (), w2)"
    "heard w2 = heard w1 @ map (\<lambda>s. (listener tgt, notice_payload tgt u s Null)) (told (Some s) ss)" by auto
  with n Cons.prems(2) show ?case by (cases prev) (auto simp: thenA_run state_changed_def)
qed (simp add: ret_run)

end

section \<open>Properties\<close>

text \<open>
  C19: In enforce mode the listeners of a participant hear exactly the changes of his network state: of the
  states reported one after the other no state twice in a row, and no recovery before there was a problem.
\<close>

theorem notices_are_changes:
  assumes "notice_net N kv clk up heard" and "up w" and "nn_mode N = ''enforce''" and "kv w (notice_key tgt u) = None"
  shows "\<exists>w1. forA (\<lambda>s. noticeState N tgt u s Null) ss w = (Inr (), w1) \<and>
    heard w1 = heard w @ map (\<lambda>s. (listener tgt, notice_payload tgt u s Null))
      (case remdups_adj ss of [] \<Rightarrow> [] | d # ds \<Rightarrow> if d = ''back'' then ds else d # ds)"
  using notice_net.notices_told [OF assms(1,2,3), of tgt u None ss] assms(4)
  by (simp add: told_none last_state_def)

record net_mem = mem +
  nm_heard :: "(string \<times> jsval) list"

definition mem_net :: "net_mem net_env" where
  "mem_net = \<lparr>nn_redis = mem_redis, nn_mode = ''enforce'', nn_stream = (\<lambda>_. ret Null), nn_callOfRoom = (\<lambda>_. ret None),
     nn_call = (\<lambda>_. ret None), nn_broadcast = (\<lambda>s ev p w. (Inr (), w\<lparr>nm_heard := nm_heard w @ [(s, p)]\<rparr>)),
     nn_emit = (\<lambda>u ev p w. (Inr (), w\<lparr>nm_heard := nm_heard w @ [(u, p)]\<rparr>))\<rparr>"

interpretation memnet: notice_net mem_net mem_live m_clk "\<lambda>_. True" nm_heard
proof (intro notice_net.intro notice_net_axioms.intro)
  show "redis_kv (nn_redis mem_net) mem_live m_clk (\<lambda>_. True)"
    using mem.redis_kv_axioms by (simp add: mem_net_def)
  fix w :: net_mem and opt k v s ev p u
  show "\<exists>w1. r_setGet (nn_redis mem_net) k v opt w = (Inr (map_option fst (mem_live w k)), w1) \<and> True \<and>
      nm_heard w1 = nm_heard w \<and> mem_live w1 = (mem_live w)(k \<mapsto> (v, map_option (\<lambda>p. m_clk w + p) (o_px opt)))"
    if "0 < ttl_of opt"
    using that mem_live_put [of w "map_option (\<lambda>p. m_clk w + p) (o_px opt)" k v]
    by (auto simp: mem_net_def mem_redis_def ttl_of_def split: option.splits)
  show "\<exists>w1. nn_broadcast mem_net s ev p w = (Inr (), w1) \<and> True \<and> mem_live w1 = mem_live w \<and>
      nm_heard w1 = nm_heard w @ [(s, p)]"
    by (auto simp: mem_net_def intro!: mem_live_same)
  show "\<exists>w1. nn_emit mem_net u ev p w = (Inr (), w1) \<and> True \<and> mem_live w1 = mem_live w \<and>
      nm_heard w1 = nm_heard w @ [(u, p)]"
    by (auto simp: mem_net_def intro!: mem_live_same)
qed

definition net0 :: net_mem where "net0 = mem.extend (mem0 0) \<lparr>nm_heard = []\<rparr>"

theorem notices_are_changes_witness:
  "\<exists>w1. forA (\<lambda>s. noticeState mem_net (InStream ''s'') ''h'' s Null) [''back'', ''weak'', ''weak'', ''back''] net0 = (Inr (), w1) \<and>
     map (\<lambda>(l, p). js_String (get_field p ''state'')) (nm_heard w1) = [''weak'', ''back'']"
proof -
  have k: "mem_live net0 (notice_key (InStream ''s'') ''h'') = None" by code_simp
  have e: "nn_mode mem_net = ''enforce''" by (simp add: mem_net_def)
  from notices_are_changes [where up = "\<lambda>_. True", OF memnet.notice_net_axioms TrueI e k, of "[''back'', ''weak'', ''weak'', ''back'']"]
  show ?thesis by (auto simp: net0_def mem.defs notice_payload_def get_field_def js_String_def)
qed

end
