(* ===== verification/Live_Socket.thy ===== *)
theory Live_Socket
  imports Network_Notice Stream_Chat Stream_Gift Heartbeat
begin

text \<open>
  The socket events of a live room, \<open>src/routes/service/socket-live-service.js\<close>: joining and leaving with the
  state kept on the socket, the seats of the audio sheet, permissions, gifts, and the two durable deadlines.
  socket.io is a parameter (\<open>so_to\<close> emits to a room, \<open>so_emit\<close> to one socket), so are the tables. Ids in a payload
  are texts. A handler acts for the verified user of its socket; a socket without one is an \<open>option\<close> where the
  code tests it. What \<open>setImmediate\<close> defers runs where it is written.
\<close>

section \<open>The environment\<close>

record sock_data =
  sd_streamId :: "string option"
  sd_userId :: "string option"
  sd_isStealth :: bool
  sd_wealthLevel :: jsval
  sd_publicId :: jsval
  sd_isHost :: bool
  sd_dbStreamId :: "string option"

record 'w sock_env =
  so_chat :: "'w chat_env"
  so_gift :: "'w gift_env"
  so_life :: "'w life_env"
  so_db :: "'w life_db"
  so_calls :: "'w call_env"
  so_hb :: "'w hb_env"
  so_disconnectMs :: int                                  \<comment> \<open>\<open>HOST_DISCONNECT_TIMEOUT_MS\<close>\<close>
  so_ownership :: "string \<Rightarrow> string option"
  so_emitFlag :: "string option"                          \<comment> \<open>the flag of \<open>withLuckyEmitOnce\<close>\<close>
  so_shuttingDown :: "'w \<Rightarrow> bool"
  so_ready :: "'w \<Rightarrow> bool"                                 \<comment> \<open>\<open>ioInstance\<close> is set\<close>
  so_user :: "string \<Rightarrow> ('w, jsval) act"
  so_walletLevel :: "string \<Rightarrow> ('w, jsval) act"
  so_ride :: "string \<Rightarrow> ('w, jsval) act"
  so_stream :: "string \<Rightarrow> ('w, jsval) act"                 \<comment> \<open>\<open>findFirst({ streamId, endedAt: null })\<close>\<close>
  so_liveOr :: "string \<Rightarrow> string \<Rightarrow> ('w, jsval) act"       \<comment> \<open>live, with this stream id or this row id\<close>
  so_activeCall :: "string \<Rightarrow> ('w, jsval) act"
  so_to :: "string \<Rightarrow> string \<Rightarrow> jsval \<Rightarrow> ('w, unit) act"
  so_emit :: "string \<Rightarrow> string \<Rightarrow> jsval \<Rightarrow> ('w, unit) act"
  so_join :: "string \<Rightarrow> string \<Rightarrow> ('w, unit) act"
  so_leave :: "string \<Rightarrow> string \<Rightarrow> ('w, unit) act"
  so_sockets :: "string \<Rightarrow> ('w, string list) act"          \<comment> \<open>\<open>in(room).fetchSockets()\<close>\<close>
  so_data :: "'w \<Rightarrow> string \<Rightarrow> sock_data"
  so_putData :: "string \<Rightarrow> sock_data \<Rightarrow> 'w \<Rightarrow> 'w"
  so_schedule :: "string \<Rightarrow> string \<Rightarrow> int \<Rightarrow> jsval \<Rightarrow> ('w, unit) act"
  so_cancel :: "string \<Rightarrow> string \<Rightarrow> ('w, unit) act"

abbreviation so_admin :: "'w sock_env \<Rightarrow> 'w admin_env" where "so_admin S \<equiv> ch_admin (so_chat S)"
abbreviation so_redis :: "'w sock_env \<Rightarrow> 'w redis" where "so_redis S \<equiv> ad_redis (so_admin S)"
abbreviation so_room :: "'w sock_env \<Rightarrow> 'w room_db" where "so_room S \<equiv> ch_room (so_chat S)"
abbreviation so_now :: "'w sock_env \<Rightarrow> 'w \<Rightarrow> int" where "so_now S \<equiv> ad_now (so_admin S)"
abbreviation so_alias :: "'w sock_env \<Rightarrow> string \<Rightarrow> string \<Rightarrow> ('w, jsval) act" where
  "so_alias S streamId u \<equiv> getOrCreateSessionAlias (so_redis S) (ch_random (so_chat S)) (Some streamId) (Some u)"

definition HOST_DISCONNECT_TIMER :: string where "HOST_DISCONNECT_TIMER = ''host_disconnect''"
definition SHEET_UNMUTE_TIMER :: string where "SHEET_UNMUTE_TIMER = ''sheet_unmute''"
definition SHEET_UNMUTE_MS :: int where "SHEET_UNMUTE_MS = 30 * 60 * 1000"
definition LIVE_ROOMS_ALL :: string where "LIVE_ROOMS_ALL = ''live:rooms:all''"

text \<open>\<open>streamId:userId\<close>, split at the last colon.\<close>

definition splitStreamUserKey :: "string \<Rightarrow> string \<times> string" where
  "splitStreamUserKey k =
     (let u = rev (takeWhile (\<lambda>c. c \<noteq> CHR '':'') (rev k)) in (take (length k - length u - 1) k, u))"

section \<open>Broadcasts\<close>

definition broadcastToStream :: "'w sock_env \<Rightarrow> string \<Rightarrow> string \<Rightarrow> jsval \<Rightarrow> ('w, unit) act" where
  "broadcastToStream S streamId ev data = (\<lambda>w. if so_ready S w then so_to S streamId ev data w else (Inr (), w))"

definition GLOBAL_EVENTS_WITH_LISTENERS :: "string list" where
  "GLOBAL_EVENTS_WITH_LISTENERS = [''GLOBAL_ANNOUNCEMENT'', ''GLOBAL_MESSAGE_SENT'']"

definition broadcastGlobalMessage :: "'w sock_env \<Rightarrow> string \<Rightarrow> jsval \<Rightarrow> ('w, unit) act" where
  "broadcastGlobalMessage S ev data = (\<lambda>w.
     if so_ready S w \<and> ev \<in> set GLOBAL_EVENTS_WITH_LISTENERS then quietly (so_to S LIVE_ROOMS_ALL ev data) w else (Inr (), w))"

definition put_data :: "'w sock_env \<Rightarrow> string \<Rightarrow> (sock_data \<Rightarrow> sock_data) \<Rightarrow> ('w, unit) act" where
  "put_data S sid f = (\<lambda>w. (Inr (), so_putData S sid (f (so_data S w sid)) w))"

definition forceLeaveRoom :: "'w sock_env \<Rightarrow> string \<Rightarrow> string \<Rightarrow> ('w, unit) act" where
  "forceLeaveRoom S userId room = (\<lambda>w.
     if so_ready S w then
       bindA (so_sockets S (''user:'' @ userId)) (forA (\<lambda>s.
         thenA (so_leave S s room) (thenA (so_leave S s LIVE_ROOMS_ALL) (put_data S s (\<lambda>d. d\<lparr>sd_streamId := None\<rparr>))))) w
     else (Inr (), w))"

section \<open>The durable deadlines\<close>

definition disconnect_timer_key :: "string \<Rightarrow> string" where
  "disconnect_timer_key streamId = ''host:disconnect_timer:'' @ streamId"

definition return_pending :: "'w sock_env \<Rightarrow> string \<Rightarrow> string \<Rightarrow> ('w, bool) act" where
  "return_pending S streamId userId =
     bindA (r_get (so_redis S) (''host:return_timer:'' @ streamId @ '':'' @ userId)) (\<lambda>val1.
     bindA (r_get (so_redis S) (''host:return_timer:'' @ userId)) (\<lambda>val2.
       ret (val1 = Some (Raw ''pending'') \<or> val2 = Some (Raw ''pending''))))"

definition end_abandoned :: "'w sock_env \<Rightarrow> string \<Rightarrow> string \<Rightarrow> string option \<Rightarrow> ('w, unit) act" where
  "end_abandoned S streamId userId dbStreamId =
     bindA (so_liveOr S streamId (str_or dbStreamId streamId)) (\<lambda>activeStream.
       if \<not> truthy activeStream then ret ()
       else bindA (so_activeCall S userId) (\<lambda>activeCall.
         bindA (ifOpen (so_redis S) (return_pending S streamId userId) (ret False)) (\<lambda>isReturnGraceActive.
           if truthy activeCall \<or> isReturnGraceActive then ret ()
           else
             thenA (broadcastToStream S streamId ''stream_ended'' (Obj
               [(''streamId'', Str streamId), (''reason'', Str ''HOST_DISCONNECTED_TIMEOUT''),
                (''message'', Str ''Live stream ended due to host network disconnection.'')]))
             (thenA (endLiveStreamService (so_life S) (so_redis S) (so_db S) (js_String (get_field activeStream ''id'')) userId
                ''HOST_DISCONNECTED_TIMEOUT'') (ret ())))))"

definition host_disconnect_handler :: "'w sock_env \<Rightarrow> string \<Rightarrow> jsval \<Rightarrow> ('w, unit) act" where
  "host_disconnect_handler S k payload =
     (let (streamId, userId) = splitStreamUserKey k; timerKey = disconnect_timer_key streamId in
      bindA (ifOpen (so_redis S)
               (bindA (r_get (so_redis S) timerKey) (\<lambda>val. ret (val = Some (Raw ''pending''))))
               (ret True)) (\<lambda>isStillPending.
        if \<not> isStillPending then ret ()
        else thenA (ifOpen (so_redis S) (quietly (r_del (so_redis S) [timerKey])) (ret ()))
          (end_abandoned S streamId userId (js_str (get_field payload ''dbStreamId'')))))"

definition sheet_unmute_handler :: "'w sock_env \<Rightarrow> string \<Rightarrow> ('w, unit) act" where
  "sheet_unmute_handler S k =
     (let (streamId, target) = splitStreamUserKey k in
      bindA (r_hget (so_redis S) (key ''stream:sheet'' streamId) target) (\<lambda>rawUser.
        if \<not> truthy_text rawUser then ret ()
        else bindA (parseA (the rawUser)) (\<lambda>userObj.
          if truthy (get_field userObj ''mutedByHost'') then
            thenA (toggleUserSheetMuteService (so_redis S) (so_now S) streamId target (JBool False) (JBool False))
              (broadcastToStream S streamId ''sheet_mute_changed'' (Obj [(''userId'', Str target), (''isMuted'', JBool False)]))
          else ret ())))"

section \<open>Rights\<close>

definition checkUserRestriction :: "'w sock_env \<Rightarrow> string \<Rightarrow> string \<Rightarrow> ('w, jsval) act" where
  "checkUserRestriction S userId t = catchA (isUserRestrictedFast (so_admin S) userId t) (\<lambda>_. ret Null)"

definition checkIsHostOrAdmin :: "'w sock_env \<Rightarrow> string \<Rightarrow> string option \<Rightarrow> ('w, bool) act" where
  "checkIsHostOrAdmin S streamId userId =
     (if \<not> truthy_str userId then ret False
      else catchA
        (bindA (so_stream S streamId) (\<lambda>stream.
           if \<not> truthy stream then ret False
           else if get_field stream ''userId'' = Str (the userId) then ret True
           else isStreamAdminService (so_redis S) (so_room S) (Some streamId) userId (js_str (get_field stream ''userId''))))
        (\<lambda>_. ret False))"

text \<open>The guard most events of the host and the admins start with; errors end in the log.\<close>

definition as_host_or_admin :: "'w sock_env \<Rightarrow> string \<Rightarrow> string option \<Rightarrow> ('w, unit) act \<Rightarrow> ('w, unit) act" where
  "as_host_or_admin S streamId userId m =
     quietly (bindA (checkIsHostOrAdmin S streamId userId) (\<lambda>isAuthorized. if isAuthorized then m else ret ()))"

definition emit_error :: "'w sock_env \<Rightarrow> string \<Rightarrow> string \<Rightarrow> ('w, unit) act" where
  "emit_error S sid m = so_emit S sid ''error'' (Obj [(''message'', Str m)])"

section \<open>Names\<close>

definition room_name :: "jsval \<Rightarrow> string \<Rightarrow> jsval" where
  "room_name u dflt = (if truthy u then js_or (Str (full_name u)) (js_or (get_field u ''username'') (Str dflt)) else Str dflt)"

definition room_display :: "'w sock_env \<Rightarrow> string \<Rightarrow> string \<Rightarrow> jsval \<Rightarrow> ('w, jsval) act" where
  "room_display S streamId u row =
     (if is_stealth row then bindA (so_alias S streamId u) (\<lambda>a. ret (js_or a (Str ''Mystery User'')))
      else ret (room_name row ''Guest''))"

definition system_message :: "string \<Rightarrow> string \<Rightarrow> jsval \<Rightarrow> jsval \<Rightarrow> message_request" where
  "system_message streamId m replyToUserId replyToUsername =
     \<lparr>mq_streamId = streamId, mq_senderId = SYSTEM_SENDER_ID, mq_message = Str m, mq_replyToMessageId = Null,
      mq_replyToUserId = replyToUserId, mq_replyToUsername = replyToUsername, mq_messageType = Str ''CHAT'',
      mq_isLuckyGift = JBool False, mq_giftId = Null, mq_giftCount = NumI 1\<rparr>"

definition announce :: "'w sock_env \<Rightarrow> string \<Rightarrow> message_request \<Rightarrow> ('w, unit) act" where
  "announce S streamId q = bindA (sendMessageService (so_chat S) q) (broadcastToStream S streamId ''new_message'')"

section \<open>Joining and leaving\<close>

definition stream_heartbeat :: "'w sock_env \<Rightarrow> string \<Rightarrow> string option \<Rightarrow> string \<Rightarrow> ('w, unit) act" where
  "stream_heartbeat S sid userId streamId =
     (if streamId = [] then ret ()
      else bindA (askA (\<lambda>w. sd_userId (so_data S w sid))) (\<lambda>du.
        thenA (recordStreamHeartbeat (so_hb S) streamId (if truthy_str du then du else userId)) (ret ())))"

text \<open>What the socket remembers of its user.\<close>

definition join_card :: "jsval \<Rightarrow> jsval \<Rightarrow> sock_data \<Rightarrow> sock_data" where
  "join_card user levelRow d =
     (if truthy user then
        d\<lparr>sd_isStealth := is_stealth user,
          sd_publicId := (if truthy (get_field user ''publicId'') then Str (js_String (get_field user ''publicId'')) else Null),
          sd_wealthLevel := (if is_stealth user then NumI 0
            else nullish (get_field levelRow ''currentLevel'') (js_or (get_field (get_field user ''userLevel'') ''wealthLevel'') (NumI 1)))\<rparr>
      else d\<lparr>sd_isStealth := False, sd_publicId := Null, sd_wealthLevel := NumI 1\<rparr>)"

text \<open>The host is back: his timers are cleared and a paused stream goes on.\<close>

definition host_rejoin :: "'w sock_env \<Rightarrow> string \<Rightarrow> string \<Rightarrow> ('w, unit) act" where
  "host_rejoin S streamId userId =
     (let k = disconnect_timer_key streamId;
          k1 = ''host:return_timer:'' @ streamId @ '':'' @ userId; k2 = ''host:return_timer:'' @ userId in
      thenA (r_srem (so_redis S) (key ''stream:active'' streamId) userId)
      (ifOpen (so_redis S)
        (thenA (bindA (r_get (so_redis S) k) (\<lambda>pendingDisconnect.
            if truthy_text pendingDisconnect then quietly (r_del (so_redis S) [k]) else ret ()))
        (thenA (clearHostReturnTimeout (so_calls S) userId)
        (bindA (return_pending S streamId userId) (\<lambda>pending.
           if pending then
             thenA (quietly (r_del (so_redis S) [k1, k2]))
               (broadcastToStream S streamId ''HOST_LIVE_RESUMED'' (Obj [(''streamId'', Str streamId), (''isPaused'', JBool False)]))
           else ret ()))))
        (ret ())))"

text \<open>A viewer who shows himself is counted; a host is recognised and not counted.\<close>

definition join_counted :: "'w sock_env \<Rightarrow> string \<Rightarrow> string \<Rightarrow> string \<Rightarrow> ('w, unit) act" where
  "join_counted S sid streamId userId =
     thenA (r_sadd (so_redis S) (key ''stream:active'' streamId) [userId])
     (bindA (so_stream S streamId) (\<lambda>streamObj.
        let hostId = (if truthy streamObj then js_str (get_field streamObj ''userId'') else None);
            isHost = (truthy_str hostId \<and> hostId = Some userId) in
        thenA (put_data S sid (\<lambda>d. d\<lparr>sd_isHost := isHost,
            sd_dbStreamId := (if truthy streamObj then js_str (get_field streamObj ''id'') else None)\<rparr>))
          (whenA isHost (host_rejoin S streamId userId))))"

definition entry_ride :: "int \<Rightarrow> jsval \<Rightarrow> jsval" where
  "entry_ride now r =
     (let item = get_field r ''userStoreItem'' in
      if truthy r \<and> truthy item \<and> truthy (get_field item ''isActive'') \<and>
         (case date_ms (get_field item ''expiresAt'') of None \<Rightarrow> False | Some t \<Rightarrow> now < t)
      then let st = get_field item ''storeItem'' in
        Obj [(''name'', get_field st ''name''), (''effectUrl'', get_field st ''effectUrl''),
             (''displayImageUrl'', get_field st ''displayImageUrl'')]
      else Null)"

definition welcome_viewer :: "'w sock_env \<Rightarrow> string \<Rightarrow> string \<Rightarrow> string \<Rightarrow> jsval \<Rightarrow> nat \<Rightarrow> ('w, unit) act" where
  "welcome_viewer S sid streamId userId user viewerCount =
     bindA (catchA (bindA (so_ride S userId) (\<lambda>r. bindA (askA (so_now S)) (\<lambda>now. ret (entry_ride now r)))) (\<lambda>_. ret Null)) (\<lambda>ride.
     bindA (askA (\<lambda>w. so_data S w sid)) (\<lambda>d.
       let name = room_name user ''Guest'';
           username = (if truthy user then get_field user ''username'' else Str ''Guest'') in
       thenA (broadcastToStream S streamId ''user_joined'' (Obj
         [(''userId'', Str userId), (''publicId'', js_or (sd_publicId d) Null), (''name'', name), (''username'', username),
          (''viewerCount'', NumI (int viewerCount)), (''ride'', ride), (''wealthLevel'', nullish (sd_wealthLevel d) (NumI 1))]))
       (quietly (announce S streamId
          (system_message streamId (js_String name @ '' joined the room.'') (Str userId) name)))))"

text \<open>Counted and announced, or neither.\<close>

definition join_room :: "'w sock_env \<Rightarrow> string \<Rightarrow> string \<Rightarrow> string \<Rightarrow> jsval \<Rightarrow> bool \<Rightarrow> ('w, unit) act" where
  "join_room S sid streamId u user isStealth =
     thenA (whenA (\<not> isStealth) (join_counted S sid streamId u))
     (bindA (r_scard (so_redis S) (key ''stream:active'' streamId)) (\<lambda>viewerCount.
      bindA (askA (\<lambda>w. sd_isHost (so_data S w sid))) (\<lambda>isHost.
        if isStealth then thenA (so_alias S streamId u) (ret ())
        else whenA (\<not> isHost) (welcome_viewer S sid streamId u user viewerCount))))"

definition join_stream :: "'w sock_env \<Rightarrow> string \<Rightarrow> string option \<Rightarrow> string \<Rightarrow> ('w, unit) act" where
  "join_stream S sid userId streamId =
     thenA (so_join S sid streamId)
     (thenA (so_join S sid LIVE_ROOMS_ALL)
     (thenA (put_data S sid (\<lambda>d. d\<lparr>sd_streamId := Some streamId, sd_userId := userId\<rparr>))
     (if \<not> truthy_str userId then ret ()
      else let u = the userId in quietly
        (bindA (so_user S u) (\<lambda>user.
         bindA (so_walletLevel S u) (\<lambda>levelRow.
         thenA (put_data S sid (join_card user levelRow))
         (thenA (r_sadd (so_redis S) (key ''stream:history'' streamId) [u])
         (bindA (askA (\<lambda>w. sd_isStealth (so_data S w sid))) (join_room S sid streamId u user)))))))))"

definition leave_seat :: "'w sock_env \<Rightarrow> string \<Rightarrow> string \<Rightarrow> ('w, unit) act" where
  "leave_seat S streamId userId =
     thenA (removeUserFromSheetService (so_redis S) streamId userId)
       (broadcastToStream S streamId ''user_left_sheet'' (Obj [(''userId'', Str userId)]))"

definition leave_stream :: "'w sock_env \<Rightarrow> string \<Rightarrow> string option \<Rightarrow> string \<Rightarrow> ('w, unit) act" where
  "leave_stream S sid userId streamId =
     thenA (so_leave S sid streamId)
     (thenA (so_leave S sid LIVE_ROOMS_ALL)
     (thenA (put_data S sid (\<lambda>d. d\<lparr>sd_streamId := None\<rparr>))
     (if \<not> truthy_str userId then ret ()
      else thenA (quietly (leave_seat S streamId (the userId)))
        (bindA (askA (\<lambda>w. sd_isStealth (so_data S w sid))) (\<lambda>isStealth.
           whenA isStealth (removeSessionAlias (so_redis S) (Some streamId) userId))))))"

text \<open>A host whose socket is gone has the grace of the heartbeat monitor to come back.\<close>

definition start_disconnect_grace :: "'w sock_env \<Rightarrow> string \<Rightarrow> string \<Rightarrow> string option \<Rightarrow> ('w, unit) act" where
  "start_disconnect_grace S streamId userId dbStreamId =
     (let ms = so_disconnectMs S in
      thenA (ifOpen (so_redis S)
         (quietly (r_set (so_redis S) (disconnect_timer_key streamId) (Raw ''pending'') (ex_s \<lceil>of_int ms / 1000 :: rat\<rceil>))) (ret ()))
      (bindA (askA (so_now S)) (\<lambda>now.
         so_schedule S HOST_DISCONNECT_TIMER (streamId @ '':'' @ userId) (now + ms)
           (Obj [(''dbStreamId'', str_or_null (if truthy_str dbStreamId then dbStreamId else None))]))))"

definition socket_disconnect :: "'w sock_env \<Rightarrow> string \<Rightarrow> ('w, unit) act" where
  "socket_disconnect S sid =
     bindA (askA (so_shuttingDown S)) (\<lambda>down.
       if down then ret ()
       else bindA (askA (\<lambda>w. so_data S w sid)) (\<lambda>d.
         if \<not> truthy_str (sd_streamId d) \<or> \<not> truthy_str (sd_userId d) then ret ()
         else let streamId = the (sd_streamId d); userId = the (sd_userId d) in
           thenA (whenA (sd_isHost d) (start_disconnect_grace S streamId userId (sd_dbStreamId d)))
           (thenA (quietly (leave_seat S streamId userId))
             (quietly (thenA (leaveStreamService (so_chat S) streamId userId)
                (removeSessionAlias (so_redis S) (Some streamId) (Some userId)))))))"

definition network_quality :: "'w sock_env \<Rightarrow> 'w net_env \<Rightarrow> string \<Rightarrow> string option \<Rightarrow> jsval \<Rightarrow> ('w, unit) act" where
  "network_quality S N sid authUserId data =
     bindA (askA (\<lambda>w. so_data S w sid)) (\<lambda>d.
       quietly (handleClientQuality N authUserId (if sd_isHost d then sd_streamId d else None) data))"

section \<open>Seats\<close>

definition to_user :: "'w sock_env \<Rightarrow> string \<Rightarrow> string \<Rightarrow> jsval \<Rightarrow> ('w, unit) act" where
  "to_user S u ev data = so_to S (''user:'' @ u) ev data"

definition invite_to_sheet :: "'w sock_env \<Rightarrow> string \<Rightarrow> string option \<Rightarrow> string \<Rightarrow> string \<Rightarrow> ('w, unit) act" where
  "invite_to_sheet S sid userId streamId targetUserId =
     as_host_or_admin S streamId userId
       (bindA (checkUserRestriction S targetUserId ''LIVE_AUDIO_MUTE'') (\<lambda>restricted.
          if truthy restricted then emit_error S sid ''This user is restricted by Admin from joining live audio seats.''
          else bindA (so_user S (the userId)) (\<lambda>hostUser.
            let hostName = room_name hostUser ''Host/Admin'' in
            to_user S targetUserId ''sheet_invite_received'' (Obj
              [(''streamId'', Str streamId), (''name'', hostName), (''hostName'', hostName),
               (''hostUsername'', if truthy hostUser then get_field hostUser ''username'' else Str ''Host/Admin'')]))))"

definition decline_sheet_invite :: "'w sock_env \<Rightarrow> string \<Rightarrow> string \<Rightarrow> ('w, unit) act" where
  "decline_sheet_invite S userId streamId = quietly
     (bindA (so_user S userId) (\<lambda>user.
      bindA (room_display S streamId userId user) (\<lambda>n.
      bindA (so_stream S streamId) (\<lambda>stream.
        if \<not> truthy stream then ret ()
        else let p = Obj [(''name'', n), (''username'', n)] in
          thenA (to_user S (js_String (get_field stream ''userId'')) ''sheet_invite_declined'' p)
          (bindA (getStreamAdminsService (so_redis S) (so_room S) (Some streamId) None)
             (forA (\<lambda>a. to_user S a ''sheet_invite_declined'' p)))))))"

text \<open>Taking a seat: the entry in the sheet, then the room hears of it.\<close>

definition seat_event :: "string \<Rightarrow> jsval \<Rightarrow> jsval \<Rightarrow> jsval" where
  "seat_event userId user n = Obj
     [(''userId'', if is_stealth user then Null else Str userId), (''publicId'', roomPublicId user), (''name'', n),
      (''username'', n), (''isMuted'', JBool False), (''isMystery'', JBool (is_stealth user))]"

definition take_seat :: "'w sock_env \<Rightarrow> string \<Rightarrow> string \<Rightarrow> jsval \<Rightarrow> jsval \<Rightarrow> bool \<Rightarrow> ('w, unit) act" where
  "take_seat S streamId userId user n tellUser =
     thenA (addUserToSheetService (so_redis S) (isUserRestrictedFast (so_admin S)) streamId userId n)
     (thenA (whenA tellUser (to_user S userId ''sheet_request_accepted'' (Obj [(''streamId'', Str streamId)])))
       (broadcastToStream S streamId ''user_joined_sheet'' (seat_event userId user n)))"

definition accept_sheet_invite :: "'w sock_env \<Rightarrow> string \<Rightarrow> string \<Rightarrow> string \<Rightarrow> ('w, unit) act" where
  "accept_sheet_invite S sid userId streamId = quietly
     (bindA (checkUserRestriction S userId ''LIVE_AUDIO_MUTE'') (\<lambda>restricted.
        if truthy restricted then emit_error S sid ''You are restricted by Admin from joining live audio seats.''
        else bindA (so_user S userId) (\<lambda>user.
          bindA (room_display S streamId userId user) (\<lambda>n. take_seat S streamId userId user n False))))"

definition toggle_mic_permission :: "'w sock_env \<Rightarrow> string option \<Rightarrow> string \<Rightarrow> jsval \<Rightarrow> ('w, unit) act" where
  "toggle_mic_permission S userId streamId required =
     as_host_or_admin S streamId userId
       (thenA (setMicPermissionService (so_redis S) (so_room S) streamId required) (ret ()))"

definition set_chat_permission :: "'w sock_env \<Rightarrow> string option \<Rightarrow> string \<Rightarrow> jsval \<Rightarrow> ('w, unit) act" where
  "set_chat_permission S userId streamId mode =
     as_host_or_admin S streamId userId
       (bindA (setChatPermissionService (so_redis S) (so_room S) streamId mode) (\<lambda>updatedMode.
          broadcastToStream S streamId ''chat_permission_changed''
            (Obj [(''streamId'', Str streamId), (''chatPermissionMode'', Str updatedMode)])))"

text \<open>A request for a seat that has to be approved: an admin's goes to the host only.\<close>

definition request_payload :: "string \<Rightarrow> jsval \<Rightarrow> bool \<Rightarrow> jsval" where
  "request_payload userId n byAdmin = Obj
     [(''userId'', Str userId), (''name'', n), (''username'', n), (''isAdminRequest'', JBool byAdmin), (''isMystery'', JBool False)]"

definition ask_for_seat :: "'w sock_env \<Rightarrow> string \<Rightarrow> string \<Rightarrow> jsval \<Rightarrow> string \<Rightarrow> ('w, unit) act" where
  "ask_for_seat S streamId userId realName host =
     bindA (isStreamAdminService (so_redis S) (so_room S) (Some streamId) (Some userId) (Some host)) (\<lambda>isRequesterAdmin.
       if isRequesterAdmin then to_user S host ''sheet_request_received'' (request_payload userId realName True)
       else thenA (to_user S host ''sheet_request_received'' (request_payload userId realName False))
         (bindA (getStreamAdminsService (so_redis S) (so_room S) (Some streamId) (Some host)) (\<lambda>adminIds.
            forA (\<lambda>a. to_user S a ''sheet_request_received'' (request_payload userId realName False))
              (filter (\<lambda>a. a \<noteq> userId) adminIds))))"

definition request_to_join_sheet :: "'w sock_env \<Rightarrow> string \<Rightarrow> string \<Rightarrow> string \<Rightarrow> ('w, unit) act" where
  "request_to_join_sheet S sid userId streamId = quietly
     (bindA (checkUserRestriction S userId ''LIVE_AUDIO_MUTE'') (\<lambda>restricted.
        if truthy restricted then emit_error S sid ''You are restricted by Admin from joining live audio seats.''
        else bindA (so_user S userId) (\<lambda>user.
          bindA (room_display S streamId userId user) (\<lambda>n.
          bindA (so_stream S streamId) (\<lambda>stream.
            if \<not> truthy stream then ret ()
            else bindA (getMicPermissionService (so_redis S) (so_room S) streamId) (\<lambda>micPermissionRequired.
              if \<not> micPermissionRequired then take_seat S streamId userId user n True
              else ask_for_seat S streamId userId (room_name user ''Guest'') (js_String (get_field stream ''userId''))))))))"

definition accept_sheet_request :: "'w sock_env \<Rightarrow> string \<Rightarrow> string option \<Rightarrow> string \<Rightarrow> string \<Rightarrow> ('w, unit) act" where
  "accept_sheet_request S sid userId streamId targetUserId =
     as_host_or_admin S streamId userId
       (bindA (so_stream S streamId) (\<lambda>stream.
          if \<not> truthy stream then ret ()
          else bindA (isStreamAdminService (so_redis S) (so_room S) (Some streamId) (Some targetUserId)
                 (js_str (get_field stream ''userId''))) (\<lambda>isTargetAdmin.
            if isTargetAdmin \<and> get_field stream ''userId'' \<noteq> Str (the userId)
            then emit_error S sid ''Only the Host can approve a Room Admin's mic request.''
            else bindA (checkUserRestriction S targetUserId ''LIVE_AUDIO_MUTE'') (\<lambda>restricted.
              if truthy restricted then emit_error S sid ''This user is restricted by Admin from joining live audio seats.''
              else bindA (so_user S targetUserId) (\<lambda>user.
                bindA (room_display S streamId targetUserId user) (\<lambda>n. take_seat S streamId targetUserId user n True))))))"

definition reject_sheet_request :: "'w sock_env \<Rightarrow> string option \<Rightarrow> string \<Rightarrow> string \<Rightarrow> ('w, unit) act" where
  "reject_sheet_request S userId streamId targetUserId =
     as_host_or_admin S streamId userId
       (to_user S targetUserId ''sheet_request_rejected'' (Obj [(''streamId'', Str streamId)]))"

section \<open>Muting\<close>

definition mute_text :: "bool \<Rightarrow> jsval \<Rightarrow> jsval \<Rightarrow> string" where
  "mute_text muted targetName operatorName =
     js_String targetName @ '' has been '' @ (if muted then ''muted'' else ''unmuted'') @ '' by '' @ js_String operatorName @ ''.''"

definition announce_mute :: "'w sock_env \<Rightarrow> string \<Rightarrow> string \<Rightarrow> string \<Rightarrow> bool \<Rightarrow> ('w, unit) act" where
  "announce_mute S streamId userId targetUserId muted = quietly
     (bindA (so_user S userId) (\<lambda>operatorUser.
      bindA (so_user S targetUserId) (\<lambda>targetUser.
        let targetName = room_name targetUser ''User'' in
        announce S streamId (system_message streamId
          (mute_text muted targetName (room_name operatorUser ''Host/Admin'')) (Str targetUserId) targetName))))"

definition mute_changed :: "'w sock_env \<Rightarrow> string \<Rightarrow> string \<Rightarrow> jsval \<Rightarrow> ('w, unit) act" where
  "mute_changed S streamId userId muteState =
     broadcastToStream S streamId ''sheet_mute_changed'' (Obj [(''userId'', Str userId), (''isMuted'', muteState)])"

definition toggle_sheet_mute :: "'w sock_env \<Rightarrow> string \<Rightarrow> string option \<Rightarrow> string \<Rightarrow> string \<Rightarrow> jsval \<Rightarrow> ('w, unit) act" where
  "toggle_sheet_mute S sid userId streamId targetUserId muteState =
     as_host_or_admin S streamId userId
       (bindA (if truthy muteState then ret Null else checkUserRestriction S targetUserId ''LIVE_AUDIO_MUTE'') (\<lambda>restricted.
          if truthy restricted then emit_error S sid ''User is restricted by Admin from speaking in live audio seats.''
          else bindA (toggleUserSheetMuteService (so_redis S) (so_now S) streamId targetUserId muteState muteState) (\<lambda>updatedUser.
            if \<not> truthy updatedUser then ret ()
            else thenA (mute_changed S streamId targetUserId muteState)
              (thenA (announce_mute S streamId (the userId) targetUserId (truthy muteState))
                (if truthy muteState then
                   bindA (askA (so_now S)) (\<lambda>now.
                     so_schedule S SHEET_UNMUTE_TIMER (streamId @ '':'' @ targetUserId) (now + SHEET_UNMUTE_MS) Null)
                 else so_cancel S SHEET_UNMUTE_TIMER (streamId @ '':'' @ targetUserId))))))"

text \<open>Muted by the host, and the half hour is not over.\<close>

definition mute_holds :: "int \<Rightarrow> jsval \<Rightarrow> bool" where
  "mute_holds now userObj \<longleftrightarrow> truthy (get_field userObj ''mutedByHost'') \<and>
     \<not> (truthy (get_field userObj ''mutedUntil'') \<and>
        (case js_Number (get_field userObj ''mutedUntil'') of None \<Rightarrow> False | Some t \<Rightarrow> t \<le> of_int now))"

definition toggle_self_mute :: "'w sock_env \<Rightarrow> string \<Rightarrow> string \<Rightarrow> string \<Rightarrow> jsval \<Rightarrow> ('w, unit) act" where
  "toggle_self_mute S sid userId streamId muteState = quietly
     (bindA (checkUserRestriction S userId ''LIVE_AUDIO_MUTE'') (\<lambda>restricted.
        if truthy restricted \<and> \<not> truthy muteState then emit_error S sid ''You are restricted from speaking in live audio seats.''
        else bindA (r_hget (so_redis S) (key ''stream:sheet'' streamId) userId) (\<lambda>rawUser.
          bindA (if truthy_text rawUser then bindA (parseA (the rawUser)) (\<lambda>v. ret (Some v)) else ret None) (\<lambda>userObj.
          bindA (askA (so_now S)) (\<lambda>now.
            if (case userObj of None \<Rightarrow> False | Some v \<Rightarrow> \<not> truthy muteState \<and> mute_holds now v) then ret ()
            else bindA (toggleUserSheetMuteService (so_redis S) (so_now S) streamId userId muteState (JBool False)) (\<lambda>updatedUser.
              whenA (truthy updatedUser) (mute_changed S streamId userId muteState)))))))"

definition remove_from_sheet :: "'w sock_env \<Rightarrow> string option \<Rightarrow> string \<Rightarrow> string \<Rightarrow> ('w, unit) act" where
  "remove_from_sheet S userId streamId targetUserId = as_host_or_admin S streamId userId (leave_seat S streamId targetUserId)"

definition leave_sheet :: "'w sock_env \<Rightarrow> string \<Rightarrow> string \<Rightarrow> ('w, unit) act" where
  "leave_sheet S userId streamId = quietly (leave_seat S streamId userId)"

section \<open>Camera and chat\<close>

definition toggle_camera_state :: "'w sock_env \<Rightarrow> string \<Rightarrow> string \<Rightarrow> jsval \<Rightarrow> ('w, unit) act" where
  "toggle_camera_state S userId streamId isCameraOn = quietly
     (bindA (getLiveStreamService (so_redis S) (so_room S) (Some streamId)) (\<lambda>streamObj.
        if (\<not> truthy streamObj \<or> get_field streamObj ''userId'' \<noteq> Str userId) \<and> rejectNotOwner (so_ownership S) then ret ()
        else thenA (handleCameraStateChangeService (so_redis S) (so_now S) (Some streamId) (truthy isCameraOn))
          (broadcastToStream S streamId ''camera_state_changed''
             (Obj [(''userId'', Str userId), (''isCameraOn'', JBool (truthy isCameraOn))]))))"

definition clear_chat :: "'w sock_env \<Rightarrow> string option \<Rightarrow> string \<Rightarrow> ('w, unit) act" where
  "clear_chat S userId streamId =
     as_host_or_admin S streamId userId
       (bindA (askA (so_now S)) (\<lambda>now.
        thenA (r_set (so_redis S) (key ''stream:chat_cleared'' streamId) (Raw (int_str now)) plain)
        (thenA (broadcastToStream S streamId ''chat_cleared'' (Obj [(''clearedAt'', NumI now)]))
        (quietly
          (bindA (getLiveStreamService (so_redis S) (so_room S) (Some streamId)) (\<lambda>streamObj.
             announce S streamId (system_message streamId
               (if truthy streamObj \<and> get_field streamObj ''userId'' = Str (the userId)
                then ''The host cleared all room messages.'' else ''The admin cleared all room messages.'') Null Null)))))))"

section \<open>Gifts\<close>

definition gift_events :: "'w sock_env \<Rightarrow> string \<Rightarrow> jsval \<Rightarrow> ('w, unit) act" where
  "gift_events S streamId result =
     thenA (broadcastToStream S streamId ''GIFT_SENT'' (get_field result ''socketPayload''))
       (whenA (truthy (get_field result ''luckyWin'')) (broadcastToStream S streamId ''LUCKY_GIFT_WIN'' (get_field result ''luckyWin'')))"

definition gallery_events :: "'w sock_env \<Rightarrow> string \<Rightarrow> jsval \<Rightarrow> ('w, unit) act" where
  "gallery_events S streamId result =
     (let progressData = js_or (get_field (get_field result ''socketPayload'') ''galleryProgress'')
            (js_or (get_field result ''galleryProgress'') (get_field result ''galleryProgressUpdate'')) in
      whenA (truthy progressData)
        (thenA (broadcastToStream S streamId ''GIFT_GALLERY_UPDATE'' progressData)
          (broadcastToStream S streamId ''GIFT_GALLERY_PROGRESS_UPDATED'' progressData)))"

text \<open>A count that is not sent is 1.\<close>

definition dflt :: "jsval \<Rightarrow> jsval \<Rightarrow> jsval" where
  "dflt v d = (if v = Undefined then d else v)"

definition report_error :: "'w sock_env \<Rightarrow> string \<Rightarrow> ('w, unit) act \<Rightarrow> ('w, unit) act" where
  "report_error S sid m = catchA m (\<lambda>err. emit_error S sid (e_message err))"

definition send_gift :: "'w sock_env \<Rightarrow> string \<Rightarrow> string option \<Rightarrow> string \<Rightarrow> string option \<Rightarrow> string option \<Rightarrow> string \<Rightarrow> jsval \<Rightarrow> jsval
    \<Rightarrow> string option \<Rightarrow> ('w, unit) act" where
  "send_gift S sid userId streamId receiverId targetUserId giftId count comboCount clientTxId = report_error S sid
     (if \<not> truthy_str userId then emit_error S sid ''Unauthorized socket user''
      else bindA (sendStreamGiftService (so_gift S) streamId (the userId) giftId
             (if truthy_str targetUserId then targetUserId else receiverId)
             (js_or (dflt count (NumI 1)) (js_or (dflt comboCount (NumI 1)) (NumI 1))) clientTxId) (\<lambda>result.
        thenA
          (if truthy (get_field result ''isLucky'') then
             thenA (withLuckyEmitOnce (so_redis S) (so_emitFlag S) (js_str (get_field result ''transactionId''))
               (gift_events S streamId result)) (ret ())
           else gift_events S streamId result)
          (gallery_events S streamId result)))"

text \<open>
  The columns of \<open>User\<close> that a query may select (\<open>prisma/schema.prisma\<close>); Prisma rejects a query that selects
  anything else before it is run.
\<close>

definition USER_FIELDS :: "string list" where
  "USER_FIELDS =
     [''id'', ''username'', ''publicId'', ''defaultPublicId'', ''firstName'', ''lastName'', ''dateOfBirth'', ''country'', ''gender'', ''avatarUrl'',
      ''bio'', ''usernameUpdatedAt'', ''status'', ''passwordSet'', ''profileCompletedAt'', ''currentVipPublicId'', ''vipPublicIdExpiresAt'',
      ''vipPurchaseAt'', ''originalPublicId'', ''vipSubscriptionActive'', ''vipSubscriptionStartAt'', ''vipSubscriptionExpiresAt'',
      ''privacyInvisibleVisitor'', ''privacyMysteryLive'', ''privacyMysteryRank'', ''privacyInvisibleOnline'', ''privacyInvisibleOnlineAt'',
      ''fcmToken'', ''fcmTokenUpdatedAt'', ''hideMicStatus'', ''isSupport'', ''privacyUpdatedAt'', ''isAgent'', ''isTagged'', ''lastActiveAt'',
      ''currentAgencyId'', ''lastIpAddress'', ''lastLatitude'', ''lastLongitude'', ''lastLocatedAt'', ''tokenVersion'', ''createdAt'',
      ''updatedAt'', ''admin_tags'', ''personal_coins_frozen'', ''points_frozen'', ''posting_banned'', ''posting_suspended_until'',
      ''suspended_until'', ''trading_coins_frozen'']"

definition PrismaClientValidationError :: "string \<Rightarrow> exn" where
  "PrismaClientValidationError f = (Error (''Unknown field `'' @ f @ ''` for select statement on model `User`.''))
     \<lparr>e_name := ''PrismaClientValidationError''\<rparr>"

definition select_user :: "'w sock_env \<Rightarrow> string list \<Rightarrow> string \<Rightarrow> ('w, jsval) act" where
  "select_user S columns u = (case filter (\<lambda>f. f \<notin> set USER_FIELDS) columns of
       [] \<Rightarrow> so_user S u
     | f # _ \<Rightarrow> throw (PrismaClientValidationError f))"

text \<open>The steps of a combo with their running cost.\<close>

fun combo_steps :: "(int \<Rightarrow> jsval \<Rightarrow> rat \<Rightarrow> 'a) \<Rightarrow> int \<Rightarrow> rat \<Rightarrow> jsval list \<Rightarrow> 'a list" where
  "combo_steps f i cost [] = []"
| "combo_steps f i cost (c # cs) =
     (let cost = cost + (case js_Number c of Some q \<Rightarrow> q | None \<Rightarrow> 0) in f i c cost # combo_steps f (i + 1) cost cs)"

definition lucky_fields :: "string \<Rightarrow> bool \<Rightarrow> jsval \<Rightarrow> string option \<Rightarrow> jsval \<Rightarrow> (string \<times> jsval) list" where
  "lucky_fields userId stealth senderName receiverId result =
     [(''senderId'', if stealth then Null else Str userId), (''senderName'', senderName),
      (''receiverId'', case receiverId of None \<Rightarrow> Undefined | Some r \<Rightarrow> Str r), (''gift'', get_field result ''gift'')]"

definition lucky_events :: "'w sock_env \<Rightarrow> string \<Rightarrow> string \<Rightarrow> bool \<Rightarrow> jsval \<Rightarrow> jsval \<Rightarrow> string option \<Rightarrow> jsval \<Rightarrow> ('w, unit) act" where
  "lucky_events S streamId userId stealth senderName receiverName receiverId result =
     (let base = lucky_fields userId stealth senderName receiverId result; steps = arr (get_field result ''breakdownArray'') in
      thenA
        (if length steps \<le> 1 then
           broadcastToStream S streamId ''lucky_gift_single_result'' (Obj (base @
             [(''totalCost'', get_field result ''totalCost''), (''totalRewardCoins'', get_field result ''totalRewardCoins''),
              (''category'', get_field result ''category''), (''isMystery'', JBool stealth)]))
         else forA (broadcastToStream S streamId ''lucky_gift_combo_step'')
           (combo_steps (\<lambda>i c cost. Obj (base @
             [(''stepIndex'', NumI i), (''totalSteps'', NumI (int (length steps))), (''stepRewardCoins'', c),
              (''accumulatedRewardCoins'', Num cost), (''totalRewardCoins'', get_field result ''totalRewardCoins''),
              (''isMystery'', JBool stealth)])) 1 0 steps))
        (let win = get_field result ''luckyWin'' in
         whenA (truthy win) (broadcastToStream S streamId ''LUCKY_GIFT_WIN''
           (put win [(''senderName'', senderName), (''receiverName'', receiverName)]))))"

definition announce_high_value :: "'w sock_env \<Rightarrow> string \<Rightarrow> jsval \<Rightarrow> jsval \<Rightarrow> rat \<Rightarrow> ('w, unit) act" where
  "announce_high_value S streamId senderName result cost = quietly
     (bindA (so_stream S streamId) (\<lambda>streamObj.
      bindA (if truthy streamObj then
               bindA (so_user S (js_String (get_field streamObj ''userId''))) (\<lambda>h. ret (js_or (get_field h ''username'') (Str ''Host'')))
             else ret (Str ''Host'')) (\<lambda>hostName.
        let g = get_field result ''gift'';
            data = Obj [(''type'', Str ''HIGH_VALUE_GIFT''), (''data'', Obj
              [(''senderName'', senderName), (''senderAvatarUrl'', Null), (''giftName'', js_or (get_field g ''name'') (Str ''Lucky Gift'')),
               (''giftDisplayImageUrl'', js_or (get_field g ''displayImageUrl'') Null), (''coinCost'', Num cost), (''hostName'', hostName),
               (''streamId'', Str streamId)])] in
        forA (\<lambda>ev. broadcastGlobalMessage S ev data)
          [''GLOBAL_ANNOUNCEMENT'', ''GLOBAL_GIFT_ANNOUNCEMENT'', ''global_announcement''])))"

definition lucky_sent :: "'w sock_env \<Rightarrow> string \<Rightarrow> string \<Rightarrow> string option \<Rightarrow> jsval \<Rightarrow> ('w, unit) act" where
  "lucky_sent S userId streamId receiverId result =
     bindA (select_user S [''username'', ''firstName'', ''lastName'', ''privacyMysteryLive'', ''vipSubscriptionActive''] userId) (\<lambda>user.
     bindA (if is_stealth user then bindA (so_alias S streamId userId) (\<lambda>a. ret (js_or a (Str ''Mystery Gifter'')))
            else ret (room_name user ''User'')) (\<lambda>senderName.
     bindA (if truthy_str receiverId
            then select_user S [''username'', ''name'', ''firstName'', ''lastName''] (the receiverId) else ret Null) (\<lambda>receiverUser.
       let receiverName = js_or (Str (full_name receiverUser)) (js_or (get_field receiverUser ''name'')
             (js_or (get_field receiverUser ''username'') (Str ''Host'')));
           cost = (case js_Number (js_or (get_field result ''totalCost'') (NumI 0)) of Some q \<Rightarrow> q | None \<Rightarrow> 0) in
       thenA (withLuckyEmitOnce (so_redis S) (so_emitFlag S) (js_str (get_field result ''transactionId''))
         (lucky_events S streamId userId (is_stealth user) senderName receiverName receiverId result))
         (whenA (300000 \<le> cost) (announce_high_value S streamId senderName result cost)))))"

definition send_lucky_gift :: "'w sock_env \<Rightarrow> string \<Rightarrow> string option \<Rightarrow> string \<Rightarrow> string option \<Rightarrow> string \<Rightarrow> jsval \<Rightarrow> string option
    \<Rightarrow> ('w, unit) act" where
  "send_lucky_gift S sid userId streamId receiverId giftId comboCount clientTxId = report_error S sid
     (if \<not> truthy_str userId then emit_error S sid ''Unauthorized socket user''
      else bindA (sendLuckyGiftService (gv_lucky (so_gift S))
             \<lparr>lq_senderId = the userId, lq_receiverId = receiverId, lq_streamId = Some streamId, lq_giftId = giftId,
              lq_comboCount = dflt comboCount (NumI 1), lq_clientTxId = clientTxId, lq_preFetchedGift = Undefined\<rparr>)
        (lucky_sent S (the userId) streamId receiverId))"

end
