(* ===== verification/Live_Socket_Safety.thy ===== *)
theory Live_Socket_Safety
  imports Live_Socket Call_Safety
begin

text \<open>
  What the socket events of a room promise and where they do not keep it: rights, seats and mutes, the grace of a host
  who lost his network, gifts. The laws of socket.io and the tables are the locales \<open>room_events\<close> and \<open>grace_clock\<close>.
\<close>

section \<open>Events of the host and the admins\<close>

datatype priv_event =
    Invite string
  | MicPermission jsval
  | ChatPermission jsval
  | AcceptRequest string
  | RejectRequest string
  | MuteSeat string jsval
  | RemoveSeat string
  | ClearChat

fun run_priv :: "'w sock_env \<Rightarrow> string \<Rightarrow> string option \<Rightarrow> string \<Rightarrow> priv_event \<Rightarrow> ('w, unit) act" where
  "run_priv S sid u s (Invite t) = invite_to_sheet S sid u s t"
| "run_priv S sid u s (MicPermission v) = toggle_mic_permission S u s v"
| "run_priv S sid u s (ChatPermission v) = set_chat_permission S u s v"
| "run_priv S sid u s (AcceptRequest t) = accept_sheet_request S sid u s t"
| "run_priv S sid u s (RejectRequest t) = reject_sheet_request S u s t"
| "run_priv S sid u s (MuteSeat t v) = toggle_sheet_mute S sid u s t v"
| "run_priv S sid u s (RemoveSeat t) = remove_from_sheet S u s t"
| "run_priv S sid u s ClearChat = clear_chat S u s"

text \<open>Every one of them asks for the right first.\<close>

lemma run_priv_guarded: "\<exists>m. run_priv S sid u s e = as_host_or_admin S s u m"
  by (cases e) (auto simp: invite_to_sheet_def toggle_mic_permission_def set_chat_permission_def accept_sheet_request_def
      reject_sheet_request_def toggle_sheet_mute_def remove_from_sheet_def clear_chat_def)

lemma not_authorised:
  "checkIsHostOrAdmin S s u w = (Inr False, w1) \<Longrightarrow> run_priv S sid u s e w = (Inr (), w1)"
  using run_priv_guarded [of S sid u s e] by (auto simp: as_host_or_admin_def quietly_run bindA_run ret_run)

text \<open>A user who is neither the host nor an admin is told so, and nothing is written to find out.\<close>

lemma outsider_check:
  assumes "room_store (so_redis S) kv clk up ss ls (so_room S) adm" and "up w" and "s \<noteq> []" and "h \<noteq> []" and "h \<noteq> u"
    and "so_stream S s w = (Inr stream, w)" and "truthy stream \<longrightarrow> get_field stream ''userId'' = Str h"
    and "u \<notin> ss w (key ''stream:admins'' s)" and "u \<notin> ss w (key ''host:admins'' h)" and "(h, u) \<notin> adm w"
  shows "checkIsHostOrAdmin S s (Some u) w = (Inr False, w)"
proof (cases "truthy stream \<and> u \<noteq> []")
  case True
  have n: "\<not> room_store.is_admin ss adm w s h u"
    using assms(8-10) by (simp add: room_store.is_admin_def [OF assms(1)])
  obtain w1 where "isStreamAdminService (so_redis S) (so_room S) (Some s) (Some u) (Some h) w =
      (Inr (room_store.is_admin ss adm w s h u), w1)" "\<not> room_store.is_admin ss adm w s h u \<Longrightarrow> w1 = w"
    by (rule room_store.isStreamAdmin_value [OF assms(1,2,3,4), of u]) (use True in auto)
  with n have "isStreamAdminService (so_redis S) (so_room S) (Some s) (Some u) (Some h) w = (Inr False, w)" by simp
  then show ?thesis
    using True assms(5-7) by (simp add: checkIsHostOrAdmin_def catchA_run bindA_run js_str_def truthy_str_def)
qed (use assms(6) in \<open>auto simp: checkIsHostOrAdmin_def truthy_str_def catchA_run bindA_run ret_run\<close>)

text \<open>
  C16: An event reserved to the host and the admins does nothing when it comes from anybody else: no seat, permission, mute or
  message changes, nothing is emitted, nothing is scheduled.
\<close>

theorem outsider_event_inert:
  assumes "room_store (so_redis S) kv clk up ss ls (so_room S) adm" and "up w" and "s \<noteq> []" and "h \<noteq> []" and "h \<noteq> u"
    and "so_stream S s w = (Inr stream, w)" and "truthy stream \<longrightarrow> get_field stream ''userId'' = Str h"
    and "u \<notin> ss w (key ''stream:admins'' s)" and "u \<notin> ss w (key ''host:admins'' h)" and "(h, u) \<notin> adm w"
  shows "run_priv S sid (Some u) s e w = (Inr (), w)"
  by (rule not_authorised)
    (rule outsider_check [where S = S and kv = kv and clk = clk and up = up and ss = ss and ls = ls and adm = adm and h = h, OF assms])

section \<open>Seats and what the room hears\<close>

text \<open>
  \<open>heard w\<close>: what was emitted to rooms so far. Redis and the tables do not touch it, emits do not touch Redis, and the clock
  stands still while an event is handled.
\<close>

text \<open>The seats of every room, in the hashes of Redis.\<close>

definition sheet :: "('w \<Rightarrow> string \<Rightarrow> string \<Rightarrow> 'v) \<Rightarrow> 'w \<Rightarrow> string \<Rightarrow> string \<Rightarrow> 'v" where
  "sheet hs w s = hs w (key ''stream:sheet'' s)"

lemma sheet_put: "hs w1 = (hs w)(key ''stream:sheet'' s := h) \<Longrightarrow> sheet hs w1 = (sheet hs w)(s := h)"
  by (auto simp: sheet_def fun_eq_iff)

definition calm :: "'w sock_env \<Rightarrow> ('w \<Rightarrow> bool) \<Rightarrow> ('w \<Rightarrow> 'h) \<Rightarrow> ('w \<Rightarrow> 'e) \<Rightarrow> ('w \<Rightarrow> int) \<Rightarrow> 'w \<Rightarrow> 'w \<Rightarrow> bool" where
  "calm S up hs heard clk w0 w \<longleftrightarrow> up w \<and> hs w = hs w0 \<and> heard w = heard w0 \<and> clk w = clk w0 \<and> so_data S w = so_data S w0"

locale room_events = redis_deadlines "so_redis S" kv clk up zs hs
  for S :: "'w sock_env" and kv clk up zs hs +
  fixes heard :: "'w \<Rightarrow> (string \<times> string \<times> jsval) list"
  assumes ready: "up w \<Longrightarrow> so_ready S w"
    and now: "so_now S w = clk w"
    and emit_room: "up w \<Longrightarrow> \<exists>w1. so_to S r ev p w = (Inr (), w1) \<and> up w1 \<and> sheet hs w1 = sheet hs w \<and> clk w1 = clk w \<and>
      heard w1 = heard w @ [(r, ev, p)]"
    and emit_one: "keeps (calm S up (sheet hs) heard clk w0) (so_emit S sid ev p)"
    and users: "up w \<Longrightarrow> \<exists>v. so_user S u w = (Inr v, w)"
    and strings_frame: "keeps (calm S up (sheet hs) heard clk w0) (r_get (so_redis S) k)"
      "keeps (calm S up (sheet hs) heard clk w0) (r_set (so_redis S) k v opt)"
      "(\<And>s. k \<noteq> key ''stream:sheet'' s) \<Longrightarrow> keeps (calm S up (sheet hs) heard clk w0) (r_del (so_redis S) [k])"
    and hash_heard: "heard (snd (r_hset (so_redis S) k f v w)) = heard w" "heard (snd (r_hdel (so_redis S) k f w)) = heard w"
      "clk (snd (r_hset (so_redis S) k f v w)) = clk w"
    and tables_frame: "keeps (calm S up (sheet hs) heard clk w0) (ad_read (so_admin S))"
    and sets_frame: "keeps (calm S up (sheet hs) heard clk w0) (r_sadd (so_redis S) k xs)"
      "keeps (calm S up (sheet hs) heard clk w0) (r_srem (so_redis S) k x)"
      "keeps (calm S up (sheet hs) heard clk w0) (r_scard (so_redis S) k)"
    and socket_frame: "keeps (calm S up (sheet hs) heard clk w0) (so_join S sid room)"
      "keeps (calm S up (sheet hs) heard clk w0) (so_walletLevel S u)"
    and socket_data: "so_data S (so_putData S sid d w) sid = d" "up w \<Longrightarrow> up (so_putData S sid d w)"
      "hs (so_putData S sid d w) = hs w" "heard (so_putData S sid d w) = heard w" "clk (so_putData S sid d w) = clk w"
    and random_frame: "keeps (calm S up (sheet hs) heard clk w0) (ch_random (so_chat S))"
begin

lemma calm_refl: "up w \<Longrightarrow> calm S up (sheet hs) heard clk w w"
  by (simp add: calm_def)

lemmas frames = strings_frame(1,2) tables_frame random_frame emit_one

lemma del_frames:
  "keeps (calm S up (sheet hs) heard clk w0) (r_del (so_redis S) [restr_key u t])"
  "keeps (calm S up (sheet hs) heard clk w0) (r_del (so_redis S) [alias_key s u])"
  by (rule strings_frame(3), simp add: restr_key_def alias_key_def key_def)+

lemma seat_get: "up w \<Longrightarrow> r_hget (so_redis S) (key ''stream:sheet'' s) u w = (Inr (sheet hs w s u), w)"
  by (simp add: hget sheet_def)

lemma seat_put:
  assumes "up w"
  obtains n w1 where "r_hset (so_redis S) (key ''stream:sheet'' s) u v w = (Inr n, w1)" "up w1" "heard w1 = heard w"
    "sheet hs w1 = (sheet hs w)(s := (sheet hs w s)(u \<mapsto> v))"
proof -
  obtain n w1 where h: "r_hset (so_redis S) (key ''stream:sheet'' s) u v w = (Inr n, w1)" "up w1"
    "hs w1 = (hs w)(key ''stream:sheet'' s := (hs w (key ''stream:sheet'' s))(u \<mapsto> v))" using hset [OF assms] by blast
  have "heard w1 = heard w" using hash_heard(1) [of "key ''stream:sheet'' s" u v w] h(1) by simp
  moreover have "sheet hs w1 = (sheet hs w)(s := (sheet hs w s)(u \<mapsto> v))" unfolding sheet_put [OF h(3)] by (simp add: sheet_def)
  ultimately show thesis using that h(1,2) by blast
qed

lemma restriction_frame: "keeps (calm S up (sheet hs) heard clk w0) (isUserRestrictedFast (so_admin S) u t)"
  unfolding isUserRestrictedFast_def cached_restriction_def getActiveUserRestriction_def Let_def
  by (intro keeps_intros frames del_frames)

lemma check_frame: "keeps (calm S up (sheet hs) heard clk w0) (checkUserRestriction S u t)"
  unfolding checkUserRestriction_def by (intro keeps_intros restriction_frame)

lemma check_E:
  assumes "up w"
  obtains v w1 where "checkUserRestriction S u t w = (Inr v, w1)" "up w1" "sheet hs w1 = sheet hs w" "heard w1 = heard w" "clk w1 = clk w"
proof -
  obtain r w1 where r: "checkUserRestriction S u t w = (r, w1)" by (rule prod.exhaust)
  moreover have "\<exists>v. r = Inr v"
    using r by (auto simp: checkUserRestriction_def catchA_run ret_run split: prod.splits sum.splits)
  moreover have "up w1 \<and> sheet hs w1 = sheet hs w \<and> heard w1 = heard w \<and> clk w1 = clk w"
    using keepsD [OF check_frame r calm_refl] assms by (simp add: calm_def)
  ultimately show thesis using that by blast
qed

lemma broadcast_E:
  assumes "up w"
  obtains w1 where "broadcastToStream S s ev p w = (Inr (), w1)" "up w1" "sheet hs w1 = sheet hs w" "heard w1 = heard w @ [(s, ev, p)]"
  using emit_room [OF assms, of s ev p] ready [OF assms] by (auto simp: broadcastToStream_def)

text \<open>What \<open>toggleUserSheetMuteService\<close> writes into a seat.\<close>

lemma toggle_E:
  assumes "up w" and "sheet hs w s u = Some (Json (Obj fs))"
  obtains n w1 fs1 where "r_hset (so_redis S) (key ''stream:sheet'' s) u (Json (Obj fs1)) w = (Inr n, w1)"
    "toggleUserSheetMuteService (so_redis S) (so_now S) s u m (JBool False) w = (Inr (Obj fs1), w1)" "up w1" "sheet hs w1 = (sheet hs w)(s := (sheet hs w s)(u \<mapsto> Json (Obj fs1)))"
    "get_field (Obj fs1) ''isMuted'' = m" "get_field (Obj fs1) ''mutedByHost'' = JBool False"
proof -
  let ?fs1 = "obj_spread fs ([(''isMuted'', m)] @ [(''mutedByHost'', JBool False), (''mutedUntil'', Null)])"
  obtain n w1 where h: "r_hset (so_redis S) (key ''stream:sheet'' s) u (Json (Obj ?fs1)) w = (Inr n, w1)" "up w1"
    "heard w1 = heard w" "sheet hs w1 = (sheet hs w)(s := (sheet hs w s)(u \<mapsto> Json (Obj ?fs1)))"
    by (rule seat_put [OF assms(1)])
  have "toggleUserSheetMuteService (so_redis S) (so_now S) s u m (JBool False) w = (Inr (Obj ?fs1), w1)"
    using h(1) assms(2) seat_get [OF assms(1)]
    by (simp add: toggleUserSheetMuteService_def bindA_run thenA_run ret_run askA_run truthy_text_def JSON_stringify_def truthy_def
        fields_of_def Let_def)
  moreover have "get_field (Obj ?fs1) ''isMuted'' = m" "get_field (Obj ?fs1) ''mutedByHost'' = JBool False"
    by (simp_all add: get_field_def map_of_obj_spread)
  ultimately show thesis using that h by blast
qed

text \<open>While the host's mute holds the seat's own user cannot lift it directly.\<close>

lemma held_mute_refused:
  assumes "up w" and "sheet hs w s u = Some (Json (Obj fs))" and "mute_holds (clk w) (Obj fs)"
  shows "\<exists>w1. toggle_self_mute S sid u s (JBool False) w = (Inr (), w1) \<and> sheet hs w1 = sheet hs w"
proof -
  obtain v w1 where c: "checkUserRestriction S u ''LIVE_AUDIO_MUTE'' w = (Inr v, w1)" "up w1" "sheet hs w1 = sheet hs w" "heard w1 = heard w"
    "clk w1 = clk w" by (rule check_E [OF assms(1)])
  show ?thesis
  proof (cases "truthy v")
    case True
    obtain r w2 where e: "emit_error S sid ''You are restricted from speaking in live audio seats.'' w1 = (r, w2)" by (rule prod.exhaust)
    have "sheet hs w2 = sheet hs w1"
      using keepsD [OF emit_one e [unfolded emit_error_def] calm_refl] c(2) by (simp add: calm_def)
    with c e True show ?thesis
      by (cases r) (auto simp: toggle_self_mute_def quietly_run bindA_run truthy_def [of "JBool False"])
  next
    case False
    have "r_hget (so_redis S) (key ''stream:sheet'' s) u w1 = (Inr (Some (Json (Obj fs))), w1)"
      using seat_get [OF c(2)] c(3) assms(2) by simp
    with c False assms(3) show ?thesis
      by (auto simp: toggle_self_mute_def quietly_run bindA_run ret_run askA_run truthy_text_def now truthy_def [of "JBool False"])
  qed
qed

text \<open>A viewer takes a seat.\<close>

lemma take_seat_E:
  assumes "up w" and "isUserRestrictedFast (so_admin S) u ''LIVE_AUDIO_MUTE'' w = (Inr v, w0)"
  obtains w1 where "take_seat S s u row n False w = (Inr (), w1)" "up w1"
    "sheet hs w1 s u = Some (Json (Obj [(''userId'', Str u), (''username'', n), (''isMuted'', JBool (truthy v)),
       (''mutedByHost'', JBool (truthy v))]))"
    "heard w1 = heard w @ [(s, ''user_joined_sheet'', seat_event u row n)]"
proof -
  have f: "up w0 \<and> sheet hs w0 = sheet hs w \<and> heard w0 = heard w \<and> clk w0 = clk w"
    using keepsD [OF restriction_frame assms(2) calm_refl] assms(1) by (simp add: calm_def)
  define e where "e = Json (Obj [(''userId'', Str u), (''username'', n), (''isMuted'', JBool (truthy v)),
       (''mutedByHost'', JBool (truthy v))])"
  obtain k w1 where h: "r_hset (so_redis S) (key ''stream:sheet'' s) u e w0 = (Inr k, w1)" "up w1"
    "heard w1 = heard w0" "sheet hs w1 = (sheet hs w0)(s := (sheet hs w0 s)(u \<mapsto> e))"
    by (rule seat_put [of w0]) (use f in auto)
  obtain w2 where b: "broadcastToStream S s ''user_joined_sheet'' (seat_event u row n) w1 = (Inr (), w2)" "up w2"
    "sheet hs w2 = sheet hs w1" "heard w2 = heard w1 @ [(s, ''user_joined_sheet'', seat_event u row n)]" by (rule broadcast_E [OF h(2)])
  moreover have "take_seat S s u row n False w = (Inr (), w2)"
    using assms(2) h(1) b(1) by (simp add: take_seat_def addUserToSheetService_def thenA_run bindA_run ret_run whenA_run
        JSON_stringify_def e_def)
  ultimately show thesis using that h(3,4) f b(2-4) by (auto simp: e_def)
qed

text \<open>A viewer who hides joins without a word to the room.\<close>

lemma alias_frame: "keeps (calm S up (sheet hs) heard clk w0) (so_alias S s u)"
  unfolding getOrCreateSessionAlias_def getOrCreateSessionAliasObj_def stored_alias_def raw_alias_def fresh_alias_def generateFakeName_def
    generateFakePublicId_def Let_def
  by (intro keeps_intros frames del_frames)

lemma stealth_join_quiet:
  assumes "up w" and "\<And>w. up w \<Longrightarrow> so_user S u w = (Inr row, w)" and "is_stealth row" and "u \<noteq> []"
    and "join_stream S sid (Some u) s w = (r, w1)"
  shows "heard w1 = heard w"
proof -
  have t: "truthy row" using assms(3) by (auto simp: is_stealth_def get_field_def truthy_def split: jsval.splits)
  let ?body = "bindA (so_user S u) (\<lambda>user.
         bindA (so_walletLevel S u) (\<lambda>levelRow.
         thenA (put_data S sid (join_card user levelRow))
         (thenA (r_sadd (so_redis S) (key ''stream:history'' s) [u])
         (bindA (askA (\<lambda>w. sd_isStealth (so_data S w sid))) (join_room S sid s u user)))))"
  have rest: "keeps (calm S up (sheet hs) heard clk w0) (join_room S sid s u user True)" for w0 user
    by (simp add: whenA_def join_room_def) (intro keeps_intros frames sets_frame alias_frame)
  have body: "heard (snd (?body v)) = heard v" if "up v" for v
  proof -
    obtain lr v1 where l: "so_walletLevel S u v = (lr, v1)" by (rule prod.exhaust)
    have c1: "calm S up (sheet hs) heard clk v v1" using keepsD [OF socket_frame(2) l calm_refl [OF that]] .
    show ?thesis
    proof (cases lr)
      case (Inl e)
      then show ?thesis using assms(2) [OF that] l c1 by (simp add: bindA_run calm_def)
    next
      case (Inr levelRow)
      define v2 where "v2 = so_putData S sid (join_card row levelRow (so_data S v1 sid)) v1"
      have v2: "up v2" "heard v2 = heard v" "sd_isStealth (so_data S v2 sid)"
        using c1 t assms(3) by (simp_all add: v2_def calm_def socket_data join_card_def)
      obtain n v3 where a: "r_sadd (so_redis S) (key ''stream:history'' s) [u] v2 = (n, v3)" by (rule prod.exhaust)
      have c3: "calm S up (sheet hs) heard clk v2 v3" using keepsD [OF sets_frame(1) a calm_refl [OF v2(1)]] .
      obtain z v4 where k: "join_room S sid s u row True v3 = (z, v4)" by (rule prod.exhaust)
      have "heard v4 = heard v2" using keepsD [OF rest k c3] by (simp add: calm_def)
      moreover have "sd_isStealth (so_data S v3 sid)" using c3 v2(3) by (simp add: calm_def)
      ultimately show ?thesis
        using assms(2) [OF that] l a k c3 v2 by (cases n) (auto simp: Inr bindA_run thenA_run askA_run put_data_def v2_def [symmetric] calm_def)
    qed
  qed
  obtain a wa where a: "so_join S sid s w = (a, wa)" by (rule prod.exhaust)
  have ca: "calm S up (sheet hs) heard clk w wa" using keepsD [OF socket_frame(1) a calm_refl [OF assms(1)]] .
  obtain b wb where b: "so_join S sid LIVE_ROOMS_ALL wa = (b, wb)" by (rule prod.exhaust)
  have cb: "calm S up (sheet hs) heard clk w wb" using keepsD [OF socket_frame(1) b ca] .
  define wc where "wc = so_putData S sid ((so_data S wb sid)\<lparr>sd_streamId := Some s, sd_userId := Some u\<rparr>) wb"
  have wc: "up wc" "heard wc = heard w" using cb by (simp_all add: wc_def socket_data calm_def)
  have j: "join_stream S sid (Some u) s = thenA (so_join S sid s) (thenA (so_join S sid LIVE_ROOMS_ALL)
      (thenA (put_data S sid (\<lambda>d. d\<lparr>sd_streamId := Some s, sd_userId := Some u\<rparr>)) (quietly ?body)))"
    using assms(4) by (simp add: join_stream_def truthy_str_def)
  have p: "put_data S sid (\<lambda>d. d\<lparr>sd_streamId := Some s, sd_userId := Some u\<rparr>) wb = (Inr (), wc)"
    by (simp add: put_data_def wc_def)
  have "heard (snd (quietly ?body wc)) = heard w"
    unfolding quietly_run snd_conv body [OF wc(1)] by (rule wc(2))
  then have "heard (snd (join_stream S sid (Some u) s w)) = heard w"
    using ca cb unfolding j by (cases a; cases b) (simp_all add: thenA_run a b p calm_def)
  then show ?thesis using assms(5) by simp
qed

text \<open>A viewer who hides leaves with his id told to the room.\<close>

lemma stealth_leave_named:
  assumes "up w" and "\<not> so_shuttingDown S w" and "sd_streamId (so_data S w sid) = Some s" and "sd_userId (so_data S w sid) = Some u"
    and "s \<noteq> []" and "u \<noteq> []" and "\<not> sd_isHost (so_data S w sid)"
  shows "\<exists>w1. socket_disconnect S sid w = (Inr (), w1) \<and> heard w1 = heard w @ [(s, ''user_left_sheet'', Obj [(''userId'', Str u)])]"
proof -
  obtain n w1 where d: "r_hdel (so_redis S) (key ''stream:sheet'' s) u w = (Inr n, w1)" "up w1" using hdel [OF assms(1)] by blast
  have "heard w1 = heard w" using hash_heard(2) [of "key ''stream:sheet'' s" u w] d(1) by simp
  moreover obtain w2 where b: "broadcastToStream S s ''user_left_sheet'' (Obj [(''userId'', Str u)]) w1 = (Inr (), w2)" "up w2"
    "heard w2 = heard w1 @ [(s, ''user_left_sheet'', Obj [(''userId'', Str u)])]" by (rule broadcast_E [OF d(2)])
  moreover have "quietly (leave_seat S s u) w = (Inr (), w2)"
    using d(1) b(1) by (simp add: quietly_run leave_seat_def removeUserFromSheetService_def thenA_run ret_run)
  moreover obtain x w3 where l: "quietly (thenA (leaveStreamService (so_chat S) s u)
      (removeSessionAlias (so_redis S) (Some s) (Some u))) w2 = (x, w3)" by (rule prod.exhaust)
  moreover have "keeps (calm S up (sheet hs) heard clk w2) (quietly (thenA (leaveStreamService (so_chat S) s u)
      (removeSessionAlias (so_redis S) (Some s) (Some u))))"
    unfolding leaveStreamService_def removeSessionAlias_def by (intro keeps_intros sets_frame frames del_frames)
  note keepsD [OF this l calm_refl [OF b(2)]]
  ultimately have "heard w3 = heard w @ [(s, ''user_left_sheet'', Obj [(''userId'', Str u)])]"
    by (simp add: calm_def)
  moreover have "socket_disconnect S sid w = (Inr (), w3)"
    using assms(2-7) \<open>quietly (leave_seat S s u) w = (Inr (), w2)\<close> l
    by (simp add: socket_disconnect_def bindA_run askA_run thenA_run whenA_run truthy_str_def Let_def) (simp add: quietly_run)
  ultimately show ?thesis by blast
qed

end

text \<open>A speaker whom no administrator has muted: \<open>free w\<close> says so, and neither seats nor messages change it.\<close>

locale free_speaker = room_events S kv clk up zs hs heard
  for S :: "'w sock_env" and kv clk up zs hs and heard :: "'w \<Rightarrow> (string \<times> string \<times> jsval) list" +
  fixes free :: "'w \<Rightarrow> bool" and u :: string
  assumes not_muted: "up w \<Longrightarrow> free w \<Longrightarrow>
      \<exists>v w1. isUserRestrictedFast (so_admin S) u ''LIVE_AUDIO_MUTE'' w = (Inr v, w1) \<and> \<not> truthy v \<and> free w1"
    and free_kept: "keeps free (r_hset (so_redis S) (key ''stream:sheet'' s) u x)" "keeps free (so_to S s ev p)"
begin

lemma free_E:
  assumes "up w" and "free w"
  obtains v w1 where "isUserRestrictedFast (so_admin S) u ''LIVE_AUDIO_MUTE'' w = (Inr v, w1)"
    "checkUserRestriction S u ''LIVE_AUDIO_MUTE'' w = (Inr v, w1)" "\<not> truthy v" "free w1" "up w1"
    "sheet hs w1 = sheet hs w" "heard w1 = heard w"
proof -
  obtain v w1 where r: "isUserRestrictedFast (so_admin S) u ''LIVE_AUDIO_MUTE'' w = (Inr v, w1)" "\<not> truthy v" "free w1"
    using not_muted [OF assms] by blast
  then have c: "checkUserRestriction S u ''LIVE_AUDIO_MUTE'' w = (Inr v, w1)" by (simp add: checkUserRestriction_def catchA_run)
  obtain v' w' where "checkUserRestriction S u ''LIVE_AUDIO_MUTE'' w = (Inr v', w')" "up w'" "sheet hs w' = sheet hs w" "heard w' = heard w"
    by (rule check_E [OF assms(1)])
  with c r show thesis using that by simp
qed

text \<open>A mute by the seat's own user, when the host's mute does not hold.\<close>

lemma self_mute_E:
  assumes "up w" and "free w" and "sheet hs w s u = Some (Json (Obj fs))"
    and "truthy m \<or> \<not> truthy (get_field (Obj fs) ''mutedByHost'')"
  obtains w1 fs1 where "toggle_self_mute S sid u s m w = (Inr (), w1)" "up w1" "free w1" "sheet hs w1 s u = Some (Json (Obj fs1))"
    "get_field (Obj fs1) ''isMuted'' = m" "get_field (Obj fs1) ''mutedByHost'' = JBool False"
proof -
  obtain v w1 where c: "checkUserRestriction S u ''LIVE_AUDIO_MUTE'' w = (Inr v, w1)" "\<not> truthy v" "free w1" "up w1" "sheet hs w1 = sheet hs w"
    by (rule free_E [OF assms(1,2)])
  have seat: "sheet hs w1 s u = Some (Json (Obj fs))" using c(5) assms(3) by simp
  obtain n w2 fs1 where
    h: "r_hset (so_redis S) (key ''stream:sheet'' s) u (Json (Obj fs1)) w1 = (Inr n, w2)"
    and t: "toggleUserSheetMuteService (so_redis S) (so_now S) s u m (JBool False) w1 = (Inr (Obj fs1), w2)" "up w2"
    "sheet hs w2 = (sheet hs w1)(s := (sheet hs w1 s)(u \<mapsto> Json (Obj fs1)))"
    "get_field (Obj fs1) ''isMuted'' = m" "get_field (Obj fs1) ''mutedByHost'' = JBool False"
    by (rule toggle_E [OF c(4) seat])
  obtain w3 where b: "broadcastToStream S s ''sheet_mute_changed'' (Obj [(''userId'', Str u), (''isMuted'', m)]) w2 = (Inr (), w3)"
    "up w3" "sheet hs w3 = sheet hs w2" by (rule broadcast_E [OF t(2)])
  have "free w2" by (rule keepsD [OF free_kept(1) h c(3)])
  then have f: "free w3" using free_kept(2) b(1) ready [OF t(2)] keepsD by (fastforce simp: broadcastToStream_def)
  have nh: "\<not> (\<not> truthy m \<and> mute_holds (so_now S w1) (Obj fs))" using assms(4) by (auto simp: mute_holds_def)
  have "toggle_self_mute S sid u s m w = (Inr (), w3)"
    using c(1,2) seat_get [OF c(4), of s u] seat t(1) b(1) nh
    by (auto simp: toggle_self_mute_def quietly_run bindA_run ret_run askA_run truthy_text_def whenA_run truthy_def [of "Obj fs1"]
        mute_changed_def)
  with that b f t show thesis by simp
qed

text \<open>Muting himself first, he can lift the host's mute.\<close>

lemma mute_twice:
  assumes "up w" and "free w" and "sheet hs w s u = Some (Json (Obj fs))"
  obtains w1 w2 fs2 where "toggle_self_mute S sid u s (JBool True) w = (Inr (), w1)"
    "toggle_self_mute S sid u s (JBool False) w1 = (Inr (), w2)"
    "sheet hs w2 s u = Some (Json (Obj fs2))" "get_field (Obj fs2) ''isMuted'' = JBool False"
    "get_field (Obj fs2) ''mutedByHost'' = JBool False"
proof -
  have t: "truthy (JBool True) \<or> b" for b by (simp add: truthy_def)
  obtain w1 fs1 where 1: "toggle_self_mute S sid u s (JBool True) w = (Inr (), w1)" "up w1" "free w1"
    "sheet hs w1 s u = Some (Json (Obj fs1))"
    "get_field (Obj fs1) ''isMuted'' = JBool True" "get_field (Obj fs1) ''mutedByHost'' = JBool False"
    by (rule self_mute_E [OF assms t, where sid = sid])
  have f: "truthy (JBool False) \<or> \<not> truthy (get_field (Obj fs1) ''mutedByHost'')" by (simp add: 1(6) truthy_def)
  obtain w2 fs2 where 2: "toggle_self_mute S sid u s (JBool False) w1 = (Inr (), w2)" "up w2" "free w2"
    "sheet hs w2 s u = Some (Json (Obj fs2))"
    "get_field (Obj fs2) ''isMuted'' = JBool False" "get_field (Obj fs2) ''mutedByHost'' = JBool False"
    by (rule self_mute_E [OF 1(2-4) f, where sid = sid])
  with 1(1) that show thesis by blast
qed

text \<open>Whoever answers an invitation gets a seat.\<close>

lemma uninvited_E:
  assumes "up w" and "free w" and "so_user S u = ret row" and "\<not> is_stealth row"
  obtains w1 where "accept_sheet_invite S sid u s w = (Inr (), w1)"
    "sheet hs w1 s u = Some (Json (Obj [(''userId'', Str u), (''username'', room_name row ''Guest''),
      (''isMuted'', JBool False), (''mutedByHost'', JBool False)]))"
    "heard w1 = heard w @ [(s, ''user_joined_sheet'', seat_event u row (room_name row ''Guest''))]"
proof -
  obtain v w1 where c: "checkUserRestriction S u ''LIVE_AUDIO_MUTE'' w = (Inr v, w1)" "\<not> truthy v" "free w1" "up w1"
    "heard w1 = heard w" by (rule free_E [OF assms(1,2)])
  obtain v2 w2 where r2: "isUserRestrictedFast (so_admin S) u ''LIVE_AUDIO_MUTE'' w1 = (Inr v2, w2)" "\<not> truthy v2"
    by (rule free_E [OF c(4,3)])
  obtain w3 where "take_seat S s u row (room_name row ''Guest'') False w1 = (Inr (), w3)"
    "sheet hs w3 s u = Some (Json (Obj [(''userId'', Str u), (''username'', room_name row ''Guest''),
       (''isMuted'', JBool (truthy v2)), (''mutedByHost'', JBool (truthy v2))]))"
    "heard w3 = heard w1 @ [(s, ''user_joined_sheet'', seat_event u row (room_name row ''Guest''))]"
    by (rule take_seat_E [OF c(4) r2(1)])
  with that show thesis
    using c r2(2) assms(3,4) by (simp add: accept_sheet_invite_def quietly_run bindA_run room_display_def ret_run)
qed

end

text \<open>
  C17: A mute by the host does not hold: unmuting himself is refused to the muted speaker, but muting himself again
  clears the host's mark, and then he unmutes himself.
\<close>

theorem host_mute_lifted_by_speaker:
  assumes "free_speaker S kv clk up zs hs heard free u" and "up w" and "free w" and "sheet hs w s u = Some (Json (Obj fs))"
    and "mute_holds (clk w) (Obj fs)"
  shows "(\<exists>w1. toggle_self_mute S sid u s (JBool False) w = (Inr (), w1) \<and> sheet hs w1 = sheet hs w) \<and>
    (\<exists>w1 w2 fs2. toggle_self_mute S sid u s (JBool True) w = (Inr (), w1) \<and> toggle_self_mute S sid u s (JBool False) w1 = (Inr (), w2) \<and>
      sheet hs w2 s u = Some (Json (Obj fs2)) \<and> get_field (Obj fs2) ''isMuted'' = JBool False \<and>
      get_field (Obj fs2) ''mutedByHost'' = JBool False)"
proof -
  have R: "room_events S kv clk up zs hs heard" by (rule free_speaker.axioms(1) [OF assms(1)])
  show ?thesis
    using room_events.held_mute_refused [OF R, OF assms(2,4,5), of sid]
      free_speaker.mute_twice [OF assms(1), OF assms(2-4), of sid] by metis
qed

text \<open>
  Accepting an invitation to a seat needs no invitation: whoever is not muted by an administrator takes a seat in any room,
  unmuted, also where the host has to approve every speaker.
\<close>

theorem seat_without_invitation:
  assumes "free_speaker S kv clk up zs hs heard free u" and "up w" and "free w" and "so_user S u = ret row" and "\<not> is_stealth row"
  shows "\<exists>w1. accept_sheet_invite S sid u s w = (Inr (), w1) \<and>
    sheet hs w1 s u = Some (Json (Obj [(''userId'', Str u), (''username'', room_name row ''Guest''),
      (''isMuted'', JBool False), (''mutedByHost'', JBool False)])) \<and>
    heard w1 = heard w @ [(s, ''user_joined_sheet'', seat_event u row (room_name row ''Guest''))]"
  by (rule free_speaker.uninvited_E [OF assms(1), OF assms(2-5), of sid s]) blast

text \<open>
  A viewer who hides joins a room without a word to it, and when his socket closes the room is told his id, whether he
  had a seat or not.
\<close>

theorem hidden_viewer_named_on_disconnect:
  assumes "room_events S kv clk up zs hs heard" and "up w" and "u \<noteq> []" and "s \<noteq> []"
    and "\<And>w. up w \<Longrightarrow> so_user S u w = (Inr row, w)" and "is_stealth row"
  shows "heard (snd (join_stream S sid (Some u) s w)) = heard w \<and>
    (\<not> so_shuttingDown S w \<and> sd_streamId (so_data S w sid) = Some s \<and> sd_userId (so_data S w sid) = Some u \<and>
       \<not> sd_isHost (so_data S w sid) \<longrightarrow>
     (\<exists>w1. socket_disconnect S sid w = (Inr (), w1) \<and> heard w1 = heard w @ [(s, ''user_left_sheet'', Obj [(''userId'', Str u)])]))"
proof -
  obtain r w1 where j: "join_stream S sid (Some u) s w = (r, w1)" by (rule prod.exhaust)
  have "heard w1 = heard w" by (rule room_events.stealth_join_quiet [OF assms(1), OF assms(2,5,6,3) j])
  with j show ?thesis using room_events.stealth_leave_named [OF assms(1), OF assms(2), of sid s u] assms(3,4) by auto
qed

section \<open>The grace of a host who lost his network\<close>

lemma splitStreamUserKey_join:
  "CHR '':'' \<notin> set u \<Longrightarrow> splitStreamUserKey (s @ '':'' @ u) = (s, u)"
proof -
  assume u: "CHR '':'' \<notin> set u"
  have "takeWhile (\<lambda>c. c \<noteq> CHR '':'') (rev u @ CHR '':'' # rev s) = rev u"
    using u by (subst takeWhile_append2) auto
  then show ?thesis by (simp add: splitStreamUserKey_def)
qed

locale grace_clock = redis_clock "so_redis S" kv clk up tick
  for S :: "'w sock_env" and kv clk up tick +
  assumes now: "up w \<Longrightarrow> so_now S w = clk w"
    and schedule_frame: "up w \<Longrightarrow> \<exists>w1. so_schedule S k i t p w = (Inr (), w1) \<and> up w1 \<and> kv w1 = kv w \<and> clk w1 = clk w"
begin

lemma grace_set:
  assumes "up w" and "so_disconnectMs S = 1000 * n" and "0 < n"
  obtains w0 w1 where "start_disconnect_grace S s u db w = (Inr (), w1)"
    "so_schedule S HOST_DISCONNECT_TIMER (s @ '':'' @ u) (clk w + so_disconnectMs S)
       (Obj [(''dbStreamId'', str_or_null (if truthy_str db then db else None))]) w0 = (Inr (), w1)"
    "up w1" "clk w1 = clk w" "kv w1 (disconnect_timer_key s) = Some (Raw ''pending'', Some (clk w + so_disconnectMs S))"
proof -
  have n: "\<lceil>of_int (so_disconnectMs S) / 1000 :: rat\<rceil> = n" using assms(2) by simp
  obtain w0 where 0: "r_set (so_redis S) (disconnect_timer_key s) (Raw ''pending'') (ex_s n) w = (Inr True, w0)" "up w0" "clk w0 = clk w"
      "kv w0 = (kv w)(disconnect_timer_key s \<mapsto> (Raw ''pending'', Some (clk w + n * 1000)))"
    by (rule set_ex [OF assms(1,3)])
  obtain w1 where 1: "so_schedule S HOST_DISCONNECT_TIMER (s @ '':'' @ u) (clk w + so_disconnectMs S)
       (Obj [(''dbStreamId'', str_or_null (if truthy_str db then db else None))]) w0 = (Inr (), w1)" "up w1" "kv w1 = kv w0" "clk w1 = clk w0"
    using schedule_frame [OF 0(2)] by blast
  have "start_disconnect_grace S s u db w = (Inr (), w1)"
    using 0 1(1) n now [OF 0(2)] up_open [OF assms(1)]
    by (simp add: start_disconnect_grace_def thenA_run ifOpen_run quietly_run bindA_run askA_run Let_def)
  with that 0 1 assms(2) show thesis by simp
qed

lemma handler_sees_no_timer:
  assumes "up w" and "kv w (disconnect_timer_key s) = Some (Raw ''pending'', Some e)" and "e \<le> clk w + d" and "0 \<le> d"
    and "CHR '':'' \<notin> set u"
  shows "host_disconnect_handler S (s @ '':'' @ u) p (tick d w) = (Inr (), tick d w)"
proof -
  have "kv (tick d w) (disconnect_timer_key s) = None" using tick_kv [OF assms(1,4)] assms(2,3) by simp
  then have "r_get (so_redis S) (disconnect_timer_key s) (tick d w) = (Inr None, tick d w)"
    using get [OF tick_up [OF assms(1)]] by simp
  moreover have "isOpen (so_redis S) (tick d w)" by (rule up_open [OF tick_up [OF assms(1)]])
  ultimately show ?thesis
    unfolding host_disconnect_handler_def splitStreamUserKey_join [OF assms(5)]
    by (simp add: bindA_run ifOpen_run ret_run Let_def)
qed

end

text \<open>
  C18: The grace of a disconnected host never ends his stream. When his socket closes, the key that marks it expires after the
  grace and the deadline lies at its end; whenever the deadline's handler runs, the key is gone, and the handler takes the host for
  reconnected. (The heartbeat monitor ends the stream later, or not.)
\<close>

theorem disconnect_deadline_never_ends:
  assumes "grace_clock S kv clk up tick" and "up w" and "so_disconnectMs S = 1000 * n" and "0 < n" and "1000 * n \<le> d"
    and "CHR '':'' \<notin> set u"
  shows "\<exists>w0 w1 p. start_disconnect_grace S s u db w = (Inr (), w1) \<and>
    so_schedule S HOST_DISCONNECT_TIMER (s @ '':'' @ u) (clk w + so_disconnectMs S) p w0 = (Inr (), w1) \<and>
    host_disconnect_handler S (s @ '':'' @ u) p (tick d w1) = (Inr (), tick d w1)"
proof -
  let ?p = "Obj [(''dbStreamId'', str_or_null (if truthy_str db then db else None))]"
  obtain w0 w1 where g: "start_disconnect_grace S s u db w = (Inr (), w1)"
    "so_schedule S HOST_DISCONNECT_TIMER (s @ '':'' @ u) (clk w + so_disconnectMs S) ?p w0 = (Inr (), w1)"
    "up w1" "clk w1 = clk w" "kv w1 (disconnect_timer_key s) = Some (Raw ''pending'', Some (clk w + so_disconnectMs S))"
    by (rule grace_clock.grace_set [OF assms(1), OF assms(2-4)])
  have "host_disconnect_handler S (s @ '':'' @ u) ?p (tick d w1) = (Inr (), tick d w1)"
    by (rule grace_clock.handler_sees_no_timer [OF assms(1), OF g(3,5)]) (use assms g(4) in auto)
  with g(1,2) show ?thesis by blast
qed

section \<open>Gifts\<close>

text \<open>The running total of a combo's steps.\<close>

lemma combo_running_total:
  "combo_steps f i t cs = map (\<lambda>k. f (i + int k) (cs ! k)
     (t + (\<Sum>c\<leftarrow>take (Suc k) cs. case js_Number c of Some q \<Rightarrow> q | None \<Rightarrow> 0))) [0..<length cs]"
proof (induction cs arbitrary: i t)
  case (Cons c cs)
  have "[0..<length (c # cs)] = 0 # map Suc [0..<length cs]" by (simp add: upt_conv_Cons map_Suc_upt del: upt_Suc)
  then show ?case by (simp only: list.map map_map comp_def combo_steps.simps Let_def Cons.IH) (simp add: algebra_simps)
qed simp

text \<open>
  A lucky gift sent to somebody over the socket is charged and then reported as failed: the query for the receiver's name selects
  a column that \<open>User\<close> does not have, so Prisma rejects it; nobody in the room hears of the gift or of what it won.
\<close>

theorem lucky_socket_send_reports_failure:
  assumes "u \<noteq> []" and "r \<noteq> []"
    and "sendLuckyGiftService (gv_lucky (so_gift S))
      \<lparr>lq_senderId = u, lq_receiverId = Some r, lq_streamId = Some s, lq_giftId = g, lq_comboCount = dflt c (NumI 1),
       lq_clientTxId = tx, lq_preFetchedGift = Undefined\<rparr> w = (Inr result, w1)"
    and "so_user S u w1 = (Inr user, w2)" and "\<not> is_stealth user"
  shows "send_lucky_gift S sid (Some u) s (Some r) g c tx w =
    so_emit S sid ''error'' (Obj [(''message'', Str ''Unknown field `name` for select statement on model `User`.'')]) w2"
proof -
  have n: "select_user S [''username'', ''name'', ''firstName'', ''lastName''] r v = (Inl (PrismaClientValidationError ''name''), v)" for v
    by (simp add: select_user_def USER_FIELDS_def throw_run)
  have "select_user S [''username'', ''firstName'', ''lastName'', ''privacyMysteryLive'', ''vipSubscriptionActive''] u = so_user S u"
    by (simp add: select_user_def USER_FIELDS_def)
  then have "lucky_sent S u s (Some r) result w1 = (Inl (PrismaClientValidationError ''name''), w2)"
    using n assms(2,4,5) by (simp add: lucky_sent_def bindA_run ret_run truthy_str_def)
  then show ?thesis
    using assms(1,3)
    by (simp add: send_lucky_gift_def report_error_def truthy_str_def catchA_run bindA_run emit_error_def PrismaClientValidationError_def Error_def)
qed

section \<open>A concrete room\<close>

record sock_mem = room_mem +
  sk_restr :: "restr list"
  sk_data :: "string \<Rightarrow> sock_data"
  sk_heard :: "(string \<times> string \<times> jsval) list"
  sk_timers :: "(string \<times> string \<times> int \<times> jsval) list"

definition no_data :: sock_data where
  "no_data = \<lparr>sd_streamId = None, sd_userId = None, sd_isStealth = False, sd_wealthLevel = Undefined, sd_publicId = Undefined,
     sd_isHost = False, sd_dbStreamId = None\<rparr>"

definition sock0 :: "int \<Rightarrow> sock_mem" where
  "sock0 t = room_mem.extend (room0 t) \<lparr>sk_restr = [], sk_data = (\<lambda>_. no_data), sk_heard = [], sk_timers = []\<rparr>"

text \<open>User \<open>m\<close> hides, everybody else shows himself.\<close>

definition user_row :: "string \<Rightarrow> jsval" where
  "user_row u = Obj [(''id'', Str u), (''username'', Str u), (''publicId'', Num 7), (''privacyMysteryLive'', JBool (u = ''m'')),
     (''vipSubscriptionActive'', JBool True)]"

definition sock_admin :: "sock_mem admin_env" where
  "sock_admin = \<lparr>ad_redis = mem_redis, ad_now = m_clk, ad_read = askA sk_restr,
     ad_modify = (\<lambda>f w. (Inr (sk_restr w), w\<lparr>sk_restr := f (sk_restr w)\<rparr>)), ad_uuid = ret ''i'',
     ad_grants = (\<lambda>_. ret []), ad_country = (\<lambda>_. ret Null), ad_setFrozen = (\<lambda>u b. ret Null),
     ad_defer = (\<lambda>_. ret ()), ad_baseUrl = None, ad_secret = None\<rparr>"

definition sock_chat :: "sock_mem chat_env" where
  "sock_chat = \<lparr>ch_admin = sock_admin, ch_room = mem_room_db, ch_random = ret 0, ch_uuid = ret ''m1'', ch_user = (\<lambda>u. ret (user_row u)),
     ch_levels = (\<lambda>_. ret []), ch_bubble = (\<lambda>_. ret Null), ch_follows = (\<lambda>_ _. ret False), ch_messages = (\<lambda>_. ret []),
     ch_localeString = js_String,
     ch_censor = (\<lambda>_. \<lparr>cs_ban = \<lparr>cachedBannedWords = \<lparr>bl_id = 0, bl_words = []\<rparr>, lastLoadedTime = 0\<rparr>, cs_curve = [],
       cs_prepared = [], cs_fresh = 1\<rparr>),
     ch_putCensor = (\<lambda>_ w. w), ch_fetchBanned = ret \<lparr>bl_id = 0, bl_words = []\<rparr>, ch_deferRefresh = ret ()\<rparr>"

definition sock_hb :: "sock_mem hb_env" where
  "sock_hb = \<lparr>hb_cfg = default_cfg, hb_absence = None, hb_novideo = None, hb_presence = ''off'', hb_redis = mem_redis,
     hb_now = m_clk, hb_participants = (\<lambda>_. ret []), hb_checkedAt = (\<lambda>_. []), hb_putCheckedAt = (\<lambda>_ w. w),
     hb_activeCall = (\<lambda>_. ret Null), hb_life = idle_life_env, hb_db = idle_life_db, hb_liveStreams = ret [],
     hb_recordFailure = (\<lambda>_. ret ()), hb_emit = (\<lambda>_ _. ret ())\<rparr>"

definition sock_calls :: "sock_mem call_env" where
  "sock_calls = \<lparr>vc_redis = mem_redis, vc_now = m_clk, vc_uuid = ret ''t'', vc_ledger = demo_ledger, vc_find = (\<lambda>_. ret None),
     vc_flip = (\<lambda>_ _ _ _ _. ret 0), vc_create = (\<lambda>a b r p. ret (demo_call ''c'' RINGING 0 0)), vc_busy = (\<lambda>_. ret None),
     vc_activeCalls = ret [], vc_ringingBefore = (\<lambda>_. ret []), vc_settings = (\<lambda>_. ret Null), vc_blocked = (\<lambda>_ _. ret False),
     vc_wealth = (\<lambda>_. ret None), vc_wallet = (\<lambda>_. ret None), vc_insertWallet = (\<lambda>_. ret ()), vc_lastCoins = (\<lambda>_. ret None),
     vc_user = (\<lambda>u. ret (user_row u)), vc_shareRow = ret Null, vc_memo = (\<lambda>_. no_memo), vc_putMemo = (\<lambda>_ w. w), vc_hb = (\<lambda>_ _. None),
     vc_putHb = (\<lambda>_ w. w), vc_sockets = (\<lambda>_ _. None), vc_putSockets = (\<lambda>_ w. w), vc_io = (\<lambda>_ _ _. ret ()),
     vc_deleteRoom = (\<lambda>_. ret ()), vc_token = (\<lambda>_ _. ret ''t''), vc_schedule = (\<lambda>_ _ _ _. ret ()), vc_cancel = (\<lambda>_ _. ret ()),
     vc_has = (\<lambda>_ _. ret False), vc_liveOfEither = (\<lambda>_ _. ret Null), vc_liveOf = (\<lambda>_. ret Null), vc_liveStream = (\<lambda>_ _. ret Null),
     vc_parts = (\<lambda>_. []), vc_putParts = (\<lambda>_ w. w), vc_recordFailure = (\<lambda>_. ret ()), vc_life = idle_life_env, vc_db = idle_life_db\<rparr>"

definition mem_sock :: "sock_mem sock_env" where
  "mem_sock = \<lparr>so_chat = sock_chat, so_gift = demo_gift_env, so_life = idle_life_env, so_db = idle_life_db, so_calls = sock_calls,
     so_hb = sock_hb, so_disconnectMs = 90000, so_ownership = (\<lambda>_. None), so_emitFlag = None, so_shuttingDown = (\<lambda>_. False),
     so_ready = (\<lambda>_. True), so_user = (\<lambda>u. ret (user_row u)), so_walletLevel = (\<lambda>_. ret Null), so_ride = (\<lambda>_. ret Null),
     so_stream = rd_stream_by_streamId mem_room_db, so_liveOr = (\<lambda>_ _. ret Null), so_activeCall = (\<lambda>_. ret Null),
     so_to = (\<lambda>r ev p w. (Inr (), w\<lparr>sk_heard := sk_heard w @ [(r, ev, p)]\<rparr>)), so_emit = (\<lambda>_ _ _. ret ()),
     so_join = (\<lambda>_ _. ret ()), so_leave = (\<lambda>_ _. ret ()), so_sockets = (\<lambda>_. ret []), so_data = sk_data,
     so_putData = (\<lambda>sid d w. w\<lparr>sk_data := (sk_data w)(sid := d)\<rparr>),
     so_schedule = (\<lambda>k i t p w. (Inr (), w\<lparr>sk_timers := (k, i, t, p) # sk_timers w\<rparr>)), so_cancel = (\<lambda>_ _. ret ())\<rparr>"

lemma mem_sock_sel [simp]:
  "so_redis mem_sock = mem_redis" "so_now mem_sock = m_clk" "so_room mem_sock = mem_room_db" "so_user mem_sock u = ret (user_row u)"
  by (simp_all add: mem_sock_def sock_chat_def sock_admin_def)

interpretation memroom: room_events mem_sock mem_live m_clk "\<lambda>_. True" mem_zs m_h sk_heard
proof (intro room_events.intro room_events_axioms.intro)
  show "redis_deadlines (so_redis mem_sock) mem_live m_clk (\<lambda>_. True) mem_zs m_h"
    using memd.redis_deadlines_axioms by simp
qed (auto simp: mem_sock_def sock_chat_def sock_admin_def keeps_def calm_def mem_redis_def act_simps sheet_def fun_eq_iff)

text \<open>Nobody is muted while the table is empty and nothing is cached.\<close>

definition sock_free :: "string \<Rightarrow> sock_mem \<Rightarrow> bool" where
  "sock_free u w \<longleftrightarrow> sk_restr w = [] \<and> mem_live w (restr_key u ''LIVE_AUDIO_MUTE'') = None"

lemma sock_free_cong: "sk_restr w1 = sk_restr w \<Longrightarrow> m_kv w1 = m_kv w \<Longrightarrow> m_clk w1 = m_clk w \<Longrightarrow> sock_free u w1 = sock_free u w"
  by (simp add: sock_free_def mem_live_def cong: option.case_cong)

interpretation memfree: free_speaker mem_sock mem_live m_clk "\<lambda>_. True" mem_zs m_h sk_heard "sock_free u" u for u
proof (intro free_speaker.intro free_speaker_axioms.intro)
  show "room_events mem_sock mem_live m_clk (\<lambda>_. True) mem_zs m_h sk_heard" by (rule memroom.room_events_axioms)
next
  fix w :: sock_mem
  assume f: "sock_free u w"
  show "\<exists>v w1. isUserRestrictedFast (so_admin mem_sock) u ''LIVE_AUDIO_MUTE'' w = (Inr v, w1) \<and> \<not> truthy v \<and> sock_free u w1"
    using f by (auto simp: isUserRestrictedFast_def cached_restriction_def getActiveUserRestriction_def mem_sock_def sock_chat_def
        sock_admin_def sock_free_def mem_redis_def act_simps truthy_def ifOpen_def truthy_text_def mem_live_def)
next
  fix s x
  show "keeps (sock_free u) (r_hset (so_redis mem_sock) (key ''stream:sheet'' s) u x)"
    by (auto simp: keeps_def mem_redis_def intro: sock_free_cong [THEN iffD2])
next
  fix s ev p
  show "keeps (sock_free u) (so_to mem_sock s ev p)"
    by (auto simp: keeps_def mem_sock_def intro: sock_free_cong [THEN iffD2])
qed

interpretation memgrace: grace_clock mem_sock mem_live m_clk "\<lambda>_. True" mem_tick
proof (intro grace_clock.intro grace_clock_axioms.intro)
  show "redis_clock (so_redis mem_sock) mem_live m_clk (\<lambda>_. True) mem_tick"
    using memk.redis_clock_axioms by simp
  fix w :: sock_mem and k i t p
  show "so_now mem_sock w = m_clk w" by simp
  show "\<exists>w1. so_schedule mem_sock k i t p w = (Inr (), w1) \<and> True \<and> mem_live w1 = mem_live w \<and> m_clk w1 = m_clk w"
    by (auto simp: mem_sock_def intro!: mem_live_same)
qed

section \<open>Witnesses\<close>

definition live_row :: jsval where
  "live_row = Obj [(''streamId'', Str ''s''), (''userId'', Str ''h'')]"

definition sock_live :: sock_mem where
  "sock_live = (sock0 0)\<lparr>rm_streams := [live_row]\<rparr>"

lemma sock_live_row: "so_stream mem_sock ''s'' sock_live = (Inr live_row, sock_live)"
  by (simp add: mem_sock_def mem_room_db_def find_row_def sock_live_def live_row_def get_field_def)

theorem outsider_event_inert_witness:
  "run_priv mem_sock ''k'' (Some ''x'') ''s'' (RemoveSeat ''u'') sock_live = (Inr (), sock_live)"
proof (rule outsider_event_inert [where h = "''h''" and stream = live_row and up = "\<lambda>_. True"])
  show "room_store (so_redis mem_sock) mem_live m_clk (\<lambda>_. True) mem_ss m_l (so_room mem_sock) (\<lambda>w. set (rm_admins w))"
    using memr.room_store_axioms by simp
  show "so_stream mem_sock ''s'' sock_live = (Inr live_row, sock_live)" by (rule sock_live_row)
qed (simp_all add: live_row_def sock_live_def sock0_def room0_def mem0_def mem.defs room_mem.defs mem_ss_def get_field_def)

definition muted_seat :: "(string \<times> jsval) list" where
  "muted_seat = [(''userId'', Str ''u''), (''isMuted'', JBool True), (''mutedByHost'', JBool True), (''mutedUntil'', NumI 1800000)]"

definition sock_muted :: sock_mem where
  "sock_muted = (sock0 0)\<lparr>m_h := (\<lambda>k f. if k = ''stream:sheet:s'' \<and> f = ''u'' then Some (Json (Obj muted_seat)) else None)\<rparr>"

lemma sock_muted_seat:
  "sheet m_h sock_muted ''s'' ''u'' = Some (Json (Obj muted_seat))" "sock_free ''u'' sock_muted"
  "mute_holds (m_clk sock_muted) (Obj muted_seat)"
  by (simp_all add: sheet_def sock_muted_def key_def sock_free_def sock0_def room0_def mem0_def mem.defs room_mem.defs mem_live_def
      muted_seat_def mute_holds_def get_field_def truthy_def js_Number_def)

theorem host_mute_lifted_by_speaker_witness:
  "\<exists>w1 w2 fs2. toggle_self_mute mem_sock ''k'' ''u'' ''s'' (JBool True) sock_muted = (Inr (), w1) \<and>
    toggle_self_mute mem_sock ''k'' ''u'' ''s'' (JBool False) w1 = (Inr (), w2) \<and>
    sheet m_h w2 ''s'' ''u'' = Some (Json (Obj fs2)) \<and> get_field (Obj fs2) ''isMuted'' = JBool False \<and>
    get_field (Obj fs2) ''mutedByHost'' = JBool False"
  by (rule conjunct2 [OF host_mute_lifted_by_speaker [OF memfree.free_speaker_axioms TrueI sock_muted_seat(2,1,3), where sid = "''k''"]])

lemma sock0_free: "sock_free u (sock0 t)"
  by (simp add: sock_free_def sock0_def room0_def mem0_def mem.defs room_mem.defs mem_live_def)

theorem seat_without_invitation_witness:
  "\<exists>w1. accept_sheet_invite mem_sock ''k'' ''u'' ''s'' (sock0 0) = (Inr (), w1) \<and>
    sheet m_h w1 ''s'' ''u'' = Some (Json (Obj [(''userId'', Str ''u''), (''username'', Str ''u''),
      (''isMuted'', JBool False), (''mutedByHost'', JBool False)]))"
proof -
  have r: "so_user mem_sock ''u'' = ret (user_row ''u'')" "\<not> is_stealth (user_row ''u'')"
    by (simp_all add: user_row_def is_stealth_def get_field_def truthy_def)
  have "room_name (user_row ''u'') ''Guest'' = Str ''u''"
    by code_simp
  then show ?thesis
    using seat_without_invitation [OF memfree.free_speaker_axioms TrueI sock0_free r, of "''k''" "''s''" 0] by auto
qed

definition sock_hidden :: sock_mem where
  "sock_hidden = (sock0 0)\<lparr>sk_data := (\<lambda>_. no_data\<lparr>sd_streamId := Some ''s'', sd_userId := Some ''m'', sd_isStealth := True\<rparr>)\<rparr>"

theorem hidden_viewer_named_on_disconnect_witness:
  "sk_heard (snd (join_stream mem_sock ''k'' (Some ''m'') ''s'' sock_hidden)) = [] \<and>
   (\<exists>w1. socket_disconnect mem_sock ''k'' sock_hidden = (Inr (), w1) \<and> sk_heard w1 = [(''s'', ''user_left_sheet'', Obj [(''userId'', Str ''m'')])])"
proof -
  have h: "is_stealth (user_row ''m'')" by (simp add: user_row_def is_stealth_def get_field_def truthy_def)
  have d: "\<not> so_shuttingDown mem_sock sock_hidden \<and> sd_streamId (so_data mem_sock sock_hidden ''k'') = Some ''s'' \<and>
    sd_userId (so_data mem_sock sock_hidden ''k'') = Some ''m'' \<and> \<not> sd_isHost (so_data mem_sock sock_hidden ''k'')"
    by (simp add: mem_sock_def sock_hidden_def no_data_def)
  have z: "sk_heard sock_hidden = []" by (simp add: sock_hidden_def sock0_def room_mem.defs)
  show ?thesis
    using hidden_viewer_named_on_disconnect [OF memroom.room_events_axioms TrueI, of "''m''" "''s''" "user_row ''m''" "''k''" sock_hidden] h d z
    by (simp add: ret_run)
qed

theorem disconnect_deadline_never_ends_witness:
  "\<exists>w0 w1 p. start_disconnect_grace mem_sock ''s'' ''h'' None (sock0 0) = (Inr (), w1) \<and>
    so_schedule mem_sock HOST_DISCONNECT_TIMER ''s:h'' (m_clk (sock0 0) + 90000) p w0 = (Inr (), w1) \<and>
    host_disconnect_handler mem_sock ''s:h'' p (mem_tick 90250 w1) = (Inr (), mem_tick 90250 w1)"
  using disconnect_deadline_never_ends [OF memgrace.grace_clock_axioms TrueI, of 90 90250 "''h''" "''s''" None "sock0 0"]
  by (simp add: mem_sock_def)

text \<open>The first lucky gift of user \<open>a\<close> with this transaction id has been charged; its answer is kept in Redis.\<close>

definition sock_charged :: sock_mem where
  "sock_charged = (sock0 0)\<lparr>m_kv := [''lucky:idempotency:a:x'' \<mapsto> (Json (Obj [(''luckyWin'', Null)]), None)]\<rparr>"

theorem lucky_socket_send_reports_failure_witness:
  "\<exists>result. sendLuckyGiftService (gv_lucky (so_gift mem_sock))
      \<lparr>lq_senderId = ''a'', lq_receiverId = Some ''h'', lq_streamId = Some ''s'', lq_giftId = ''g'', lq_comboCount = dflt Undefined (NumI 1),
       lq_clientTxId = Some ''x'', lq_preFetchedGift = Undefined\<rparr> sock_charged = (Inr result, sock_charged) \<and>
    send_lucky_gift mem_sock ''k'' (Some ''a'') ''s'' (Some ''h'') ''g'' Undefined (Some ''x'') sock_charged =
      so_emit mem_sock ''k'' ''error'' (Obj [(''message'', Str ''Unknown field `name` for select statement on model `User`.'')]) sock_charged"
proof -
  have l: "sendLuckyGiftService (gv_lucky (so_gift mem_sock))
      \<lparr>lq_senderId = ''a'', lq_receiverId = Some ''h'', lq_streamId = Some ''s'', lq_giftId = ''g'', lq_comboCount = dflt Undefined (NumI 1),
       lq_clientTxId = Some ''x'', lq_preFetchedGift = Undefined\<rparr> sock_charged = (Inr (Obj [(''luckyWin'', Null)]), sock_charged)"
    by (simp add: mem_sock_def demo_gift_env_def sendLuckyGiftService_def lucky_idem_key_def sock_charged_def sock0_def room0_def
        mem0_def mem.defs room_mem.defs mem_redis_def mem_live_def act_simps truthy_str_def truthy_text_def parseA_def JSON_parse_def)
  show ?thesis
    using lucky_socket_send_reports_failure [OF _ _ l, of "user_row ''a''" sock_charged "''k''"] l
    by (simp add: ret_run user_row_def is_stealth_def get_field_def truthy_def)
qed

end
