(* ===== verification/Async_Utils.thy ===== *)
theory Async_Utils
  imports JS_Prelude "HOL-Library.Multiset"
begin

text \<open>
  \<open>utils/forEachLimit.js\<close> and \<open>utils/circuitBreaker.js\<close>: two pieces of code whose calls overlap. Each is a step relation: a step
  is what runs between two \<open>await\<close>s, and the order in which awaited calls settle is free.
\<close>

section \<open>forEachLimit\<close>

text \<open>What the workers share: the next index, the item each one waits for, the first error.\<close>

record pool =
  p_next :: nat
  p_work :: "nat option list"
  p_err :: "exn option"

text \<open>\<open>Math.max(1, Math.min(n, Math.floor(Number(limit)) || 1))\<close>\<close>

definition each_width :: "nat \<Rightarrow> jsval \<Rightarrow> nat" where
  "each_width n limit =
     (let l = (case js_Number limit of None \<Rightarrow> 0 | Some q \<Rightarrow> \<lfloor>q\<rfloor>) in nat (max 1 (min (int n) (if l = 0 then 1 else l))))"

text \<open>The head of a worker's loop: it takes the next item, or ends.\<close>

definition take_next :: "nat \<Rightarrow> nat \<Rightarrow> pool \<Rightarrow> pool" where
  "take_next n k P =
     (if p_next P < n then P\<lparr>p_next := p_next P + 1, p_work := (p_work P)[k := Some (p_next P)]\<rparr>
      else P\<lparr>p_work := (p_work P)[k := None]\<rparr>)"

text \<open>The workers start one after the other; each runs up to its first \<open>await\<close>.\<close>

definition pool_start :: "nat \<Rightarrow> nat \<Rightarrow> pool" where
  "pool_start n width = fold (take_next n) [0..<width] \<lparr>p_next = 0, p_work = replicate width None, p_err = None\<rparr>"

text \<open>An awaited call settles: its error goes to \<open>onError\<close>, or is kept if it is the first.\<close>

definition pool_settle :: "bool \<Rightarrow> exn option \<Rightarrow> pool \<Rightarrow> pool" where
  "pool_settle onError r P =
     (case r of None \<Rightarrow> P | Some e \<Rightarrow> if onError \<or> p_err P \<noteq> None then P else P\<lparr>p_err := Some e\<rparr>)"

inductive pool_step :: "nat \<Rightarrow> bool \<Rightarrow> pool \<Rightarrow> nat \<times> exn option \<Rightarrow> pool \<Rightarrow> bool" for n onError where
  settled: "k < length (p_work P) \<Longrightarrow> p_work P ! k = Some i \<Longrightarrow>
    pool_step n onError P (i, r) (take_next n k (pool_settle onError r P))"

inductive_cases pool_stepE: "pool_step n onError P e P'"

inductive pool_run :: "nat \<Rightarrow> bool \<Rightarrow> pool \<Rightarrow> (nat \<times> exn option) list \<Rightarrow> pool \<Rightarrow> bool" for n onError P where
  start: "pool_run n onError P [] P"
| more: "pool_run n onError P evs Q \<Longrightarrow> pool_step n onError Q e Q' \<Longrightarrow> pool_run n onError P (evs @ [e]) Q'"

text \<open>What the caller gets when every worker has ended.\<close>

definition each_result :: "pool \<Rightarrow> exn + unit" where
  "each_result P = (case p_err P of None \<Rightarrow> Inr () | Some e \<Rightarrow> Inl e)"

subsection \<open>Every item once, at most \<open>limit\<close> at a time\<close>

definition in_flight :: "pool \<Rightarrow> nat multiset" where
  "in_flight P = image_mset the (filter_mset (\<lambda>x. x \<noteq> None) (mset (p_work P)))"

lemma in_flight_update:
  assumes "k < length (p_work P)"
  shows "in_flight (P\<lparr>p_work := (p_work P)[k := x]\<rparr>) + (case p_work P ! k of None \<Rightarrow> {#} | Some i \<Rightarrow> {#i#}) =
    in_flight P + (case x of None \<Rightarrow> {#} | Some i \<Rightarrow> {#i#})"
proof -
  have "mset (p_work P) = add_mset (p_work P ! k) (mset (p_work P) - {#p_work P ! k#})"
    using assms by simp
  then obtain M where M: "mset (p_work P) = add_mset (p_work P ! k) M" by blast
  then have "mset ((p_work P)[k := x]) = add_mset x M" using mset_update [OF assms, of x] by simp
  with M show ?thesis by (cases x; cases "p_work P ! k") (simp_all add: in_flight_def)
qed

lemma in_flight_size: "size (in_flight P) \<le> length (p_work P)"
  using size_filter_mset_lesseq [of "\<lambda>x. x \<noteq> None" "mset (p_work P)"] by (simp add: in_flight_def)

lemma in_flight_empty: "in_flight P = {#} \<longleftrightarrow> (\<forall>k < length (p_work P). p_work P ! k = None)"
  by (auto simp: in_flight_def filter_mset_eq_mempty_iff in_set_conv_nth)

text \<open>\<open>done\<close>: the items whose call has settled.\<close>

definition pool_inv :: "nat \<Rightarrow> nat multiset \<Rightarrow> pool \<Rightarrow> bool" where
  "pool_inv n done P \<longleftrightarrow> done + in_flight P = mset [0..<p_next P] \<and> p_next P \<le> n"

lemma take_next_inv:
  assumes "pool_inv n done P" and "k < length (p_work P)"
  shows "pool_inv n (done + (case p_work P ! k of None \<Rightarrow> {#} | Some i \<Rightarrow> {#i#})) (take_next n k P)"
proof -
  let ?P = "P\<lparr>p_next := Suc (p_next P)\<rparr>"
  have "in_flight (?P\<lparr>p_work := (p_work ?P)[k := x]\<rparr>) = in_flight (P\<lparr>p_work := (p_work P)[k := x]\<rparr>)" for x
    by (simp add: in_flight_def)
  then show ?thesis
    using assms in_flight_update [OF assms(2), of "Some (p_next P)"] in_flight_update [OF assms(2), of None]
    by (auto simp: pool_inv_def take_next_def ac_simps atLeast0_lessThan_Suc)
qed

lemma take_next_length [simp]: "length (p_work (take_next n k P)) = length (p_work P)"
  by (simp add: take_next_def)

lemma take_next_err [simp]: "p_err (take_next n k P) = p_err P"
  by (simp add: take_next_def)

lemma pool_settle_sel [simp]: "p_work (pool_settle oe r P) = p_work P" "p_next (pool_settle oe r P) = p_next P"
  by (simp_all add: pool_settle_def split: option.split)

lemma pool_settle_inv [simp]: "pool_inv n done (pool_settle oe r P) = pool_inv n done P"
  by (simp add: pool_inv_def in_flight_def)

text \<open>A worker that has ended leaves nothing to do.\<close>

definition idle_ok :: "nat \<Rightarrow> pool \<Rightarrow> bool" where
  "idle_ok n P \<longleftrightarrow> (None \<in> set (p_work P) \<longrightarrow> p_next P = n)"

lemma take_next_idle:
  assumes "idle_ok n P" and "p_next P \<le> n"
  shows "idle_ok n (take_next n k P)"
  using assms set_update_subset_insert [of "p_work P" k "Some (p_next P)"]
  by (auto simp: idle_ok_def take_next_def)

lemma pool_step_inv:
  assumes "pool_step n oe P (i, r) P'" and "pool_inv n done P" and "idle_ok n P"
  shows "pool_inv n (add_mset i done) P' \<and> idle_ok n P' \<and> length (p_work P') = length (p_work P)"
proof -
  obtain k where k: "k < length (p_work P)" "p_work P ! k = Some i" "P' = take_next n k (pool_settle oe r P)"
    using assms(1) by (auto elim: pool_stepE)
  have "pool_inv n done (pool_settle oe r P)" using assms(2) by simp
  from take_next_inv [OF this, of k] k have "pool_inv n (add_mset i done) P'" by simp
  moreover have "idle_ok n (pool_settle oe r P)" using assms(3) by (simp add: idle_ok_def)
  then have "idle_ok n P'" unfolding k(3) by (rule take_next_idle) (use assms(2) in \<open>simp add: pool_inv_def\<close>)
  ultimately show ?thesis using k by simp
qed

lemma pool_run_inv:
  assumes "pool_run n oe P evs Q" and "pool_inv n {#} P" and "idle_ok n P"
  shows "pool_inv n (mset (map fst evs)) Q \<and> idle_ok n Q \<and> length (p_work Q) = length (p_work P)"
  using assms(1)
proof (induction rule: pool_run.induct)
  case (more evs Q e Q')
  then show ?case using pool_step_inv [of n oe Q "fst e" "snd e" Q' "mset (map fst evs)"] by simp
qed (use assms in simp)

lemma fold_take:
  assumes "k \<le> width" and "width \<le> n"
  shows "fold (take_next n) [0..<k] \<lparr>p_next = 0, p_work = replicate width None, p_err = None\<rparr> =
    \<lparr>p_next = k, p_work = map Some [0..<k] @ replicate (width - k) None, p_err = None\<rparr>"
  using assms
proof (induction k)
  case (Suc k)
  then have "replicate (width - k) (None :: nat option) = None # replicate (width - Suc k) None"
    by (metis Suc_diff_le Suc_le_eq diff_Suc_Suc replicate_Suc)
  with Suc show ?case by (simp add: take_next_def list_update_append)
qed simp

lemma pool_start_eq:
  assumes "width \<le> n"
  shows "pool_start n width = \<lparr>p_next = width, p_work = map Some [0..<width], p_err = None\<rparr>"
  using fold_take [OF order_refl assms] by (simp add: pool_start_def)

lemma each_width_bounds: "0 < n \<Longrightarrow> each_width n limit \<le> n \<and> 0 < each_width n limit"
  by (auto simp: each_width_def Let_def split: option.split)

lemma pool_start_ok:
  assumes "width \<le> n"
  shows "pool_inv n {#} (pool_start n width) \<and> idle_ok n (pool_start n width)"
proof -
  have "filter_mset (\<lambda>x. x \<noteq> None) (image_mset Some M) = image_mset Some M" for M :: "nat multiset"
    by (induction M) auto
  then show ?thesis
    using assms by (auto simp: pool_start_eq pool_inv_def in_flight_def idle_ok_def image_mset.compositionality comp_def)
qed

text \<open>
  C3: \<open>forEachLimit\<close> ends and handles each item once: in whatever order the calls settle, it makes at most \<open>n\<close> steps and never
  has more than \<open>limit\<close> calls in flight; no item is handled twice; and it can stop only when every item has been handled.
\<close>

theorem forEachLimit_handles_each_once:
  assumes "0 < n" and "pool_run n onError (pool_start n (each_width n limit)) evs P"
  shows "length evs \<le> n \<and> size (in_flight P) \<le> each_width n limit \<and> distinct (map fst evs) \<and>
    ((\<nexists>e P'. pool_step n onError P e P') \<longleftrightarrow> set (map fst evs) = {..<n})"
proof -
  let ?w = "each_width n limit"
  have w: "?w \<le> n" "0 < ?w" using each_width_bounds [OF assms(1)] by auto
  have "length (p_work (pool_start n ?w)) = ?w" by (simp add: pool_start_eq [OF w(1)])
  with pool_run_inv [OF assms(2)] pool_start_ok [OF w(1)]
  have i: "mset (map fst evs) + in_flight P = mset [0..<p_next P]" "p_next P \<le> n" "idle_ok n P" "length (p_work P) = ?w"
    by (auto simp: pool_inv_def)
  have sub: "mset (map fst evs) \<subseteq># mset [0..<p_next P]" unfolding i(1) [symmetric] by simp
  obtain ys where "mset ys = in_flight P" using ex_mset by blast
  with i(1) have "mset (map fst evs @ ys) = mset [0..<p_next P]" by simp
  then have "distinct (map fst evs @ ys)" using mset_eq_imp_distinct_iff [of "map fst evs @ ys" "[0..<p_next P]"] by simp
  then have d: "distinct (map fst evs)" by simp
  have l: "length evs \<le> n" using size_mset_mono [OF sub] i(2) by simp
  have stuck: "(\<nexists>e P'. pool_step n onError P e P') \<longleftrightarrow> in_flight P = {#}"
  proof
    assume s: "\<nexists>e P'. pool_step n onError P e P'"
    have "p_work P ! k = None" if "k < length (p_work P)" for k
    proof (cases "p_work P ! k")
      case (Some i)
      with s pool_step.settled [OF that Some, of n onError None] show ?thesis by blast
    qed
    then show "in_flight P = {#}" by (simp add: in_flight_empty)
  qed (auto simp: in_flight_empty elim!: pool_stepE)
  have "in_flight P = {#} \<longleftrightarrow> set (map fst evs) = {..<n}"
  proof
    assume z: "in_flight P = {#}"
    then have "None \<in> set (p_work P)" using w(2) i(4) by (auto simp: in_flight_empty in_set_conv_nth)
    then have "p_next P = n" using i(3) by (simp add: idle_ok_def)
    with i(1) z show "set (map fst evs) = {..<n}" by (metis add_0_right atLeast_upt set_mset_mset)
  next
    assume s: "set (map fst evs) = {..<n}"
    then have "length evs = n" using distinct_card [OF d] by simp
    then have "size (in_flight P) = 0" using arg_cong [OF i(1), of size] i(2) by (simp del: size_eq_0_iff_empty)
    then show "in_flight P = {#}" by simp
  qed
  with stuck l d in_flight_size [of P] i(4) show ?thesis by simp
qed

text \<open>The error that is thrown at the end is that of the first call that failed, if nobody handles errors.\<close>

definition errors :: "(nat \<times> exn option) list \<Rightarrow> exn list" where
  "errors evs = map the (filter (\<lambda>r. r \<noteq> None) (map snd evs))"

lemma forEachLimit_first_error:
  "pool_run n onError P evs Q \<Longrightarrow> p_err P = None \<Longrightarrow>
    p_err Q = (if onError \<or> errors evs = [] then None else Some (hd (errors evs)))"
proof (induction rule: pool_run.induct)
  case (more evs Q e Q')
  then obtain k where "Q' = take_next n k (pool_settle onError (snd e) Q)" by (auto elim: pool_stepE)
  with more show ?case by (cases "snd e") (auto simp: pool_settle_def errors_def hd_append)
qed (simp add: errors_def)

theorem forEachLimit_handles_each_once_witness:
  "\<exists>P. pool_run 3 False (pool_start 3 (each_width 3 (Num 2))) [(1, None), (0, Some (Error ''x''))] P \<and>
     size (in_flight P) \<le> 2 \<and> \<not> (\<nexists>e P'. pool_step 3 False P e P')"
proof -
  have w: "each_width 3 (Num 2) = 2" by (simp add: each_width_def js_Number_def)
  let ?P0 = "\<lparr>p_next = 2, p_work = [Some 0, Some 1], p_err = None\<rparr>"
  let ?P1 = "\<lparr>p_next = 3, p_work = [Some 0, Some 2], p_err = None\<rparr>"
  let ?P2 = "\<lparr>p_next = 3, p_work = [None, Some 2], p_err = Some (Error ''x'')\<rparr>"
  have s0: "pool_start 3 2 = ?P0" by (simp add: pool_start_eq upt_rec)
  have 1: "pool_step 3 False ?P0 (1, None) ?P1"
    using pool_step.settled [of 1 ?P0 1 3 False None] by (simp add: pool_settle_def take_next_def)
  have 2: "pool_step 3 False ?P1 (0, Some (Error ''x'')) ?P2"
    using pool_step.settled [of 0 ?P1 0 3 False "Some (Error ''x'')"] by (simp add: pool_settle_def take_next_def)
  have "pool_run 3 False ?P0 ([] @ [(1, None)] @ [(0, Some (Error ''x''))]) ?P2"
    using pool_run.more [OF pool_run.more [OF pool_run.start 1] 2] by simp
  then have r: "pool_run 3 False (pool_start 3 (each_width 3 (Num 2))) [(1, None), (0, Some (Error ''x''))] ?P2"
    by (simp add: w s0)
  have n: "0 < (3 :: nat)" by simp
  have "size (in_flight ?P2) \<le> 2"
    by (rule forEachLimit_handles_each_once [OF n r, THEN conjunct2, THEN conjunct1, unfolded w])
  moreover have e: "(\<nexists>e P'. pool_step 3 False ?P2 e P') \<longleftrightarrow> set (map fst [(1, None :: exn option), (0, Some (Error ''x''))]) = {..<3 :: nat}"
    by (rule forEachLimit_handles_each_once [OF n r, THEN conjunct2, THEN conjunct2, THEN conjunct2])
  have "(2 :: nat) \<in> {..<3}" "(2 :: nat) \<notin> set (map fst [(1, None :: exn option), (0, Some (Error ''x''))])" by simp_all
  then have "set (map fst [(1, None :: exn option), (0, Some (Error ''x''))]) \<noteq> {..<3 :: nat}" by metis
  then have "\<not> (\<nexists>e P'. pool_step 3 False ?P2 e P')" unfolding e .
  ultimately show ?thesis using r by (intro exI [of _ ?P2] conjI)
qed

section \<open>The circuit breaker\<close>

record breaker_cfg =
  cb_threshold :: nat
  cb_openMs :: int

record breaker =
  cb_failures :: nat
  cb_openedAt :: int
  cb_trial :: bool

definition breaker0 :: breaker where
  "breaker0 = \<lparr>cb_failures = 0, cb_openedAt = 0, cb_trial = False\<rparr>"

datatype breaker_state = Closed | HalfOpen | Open

definition state_of :: "breaker_cfg \<Rightarrow> int \<Rightarrow> breaker \<Rightarrow> breaker_state" where
  "state_of C t B = (if cb_openedAt B = 0 then Closed else if cb_openMs C \<le> t - cb_openedAt B then HalfOpen else Open)"

text \<open>The part of \<open>exec\<close> before the call: refused (\<open>CircuitOpenError\<close>), or let in as a trial or not.\<close>

definition breaker_admit :: "breaker_cfg \<Rightarrow> int \<Rightarrow> breaker \<Rightarrow> (bool \<times> breaker) option" where
  "breaker_admit C t B =
     (let s = state_of C t B; trial = (s = HalfOpen) in
      if s = Open \<or> s = HalfOpen \<and> cb_trial B then None
      else Some (trial, if trial then B\<lparr>cb_trial := True\<rparr> else B))"

text \<open>The part after it: \<open>Went_wrong f\<close> with \<open>f = isFailure(err)\<close>.\<close>

datatype outcome = Went_well | Went_wrong bool

definition breaker_settle :: "breaker_cfg \<Rightarrow> int \<Rightarrow> bool \<Rightarrow> outcome \<Rightarrow> breaker \<Rightarrow> breaker" where
  "breaker_settle C t trial r B =
     (let B1 = (case r of
          Went_well \<Rightarrow> B\<lparr>cb_failures := 0, cb_openedAt := 0\<rparr>
        | Went_wrong f \<Rightarrow>
            if f then (let B = B\<lparr>cb_failures := cb_failures B + 1\<rparr> in
              if trial \<or> cb_threshold C \<le> cb_failures B then B\<lparr>cb_openedAt := t\<rparr> else B)
            else B)
      in if trial then B1\<lparr>cb_trial := False\<rparr> else B1)"

text \<open>Calls that overlap: the breaker and, of the calls on their way, whether each is a trial.\<close>

datatype breaker_event = Refused | Let_in bool | Settled bool outcome

inductive breaker_step :: "breaker_cfg \<Rightarrow> breaker \<times> bool multiset \<Rightarrow> int \<Rightarrow> breaker_event \<Rightarrow> breaker \<times> bool multiset \<Rightarrow> bool" for C where
  refused: "breaker_admit C t B = None \<Longrightarrow> breaker_step C (B, calls) t Refused (B, calls)"
| let_in: "breaker_admit C t B = Some (trial, B') \<Longrightarrow> breaker_step C (B, calls) t (Let_in trial) (B', add_mset trial calls)"
| settled: "trial \<in># calls \<Longrightarrow>
    breaker_step C (B, calls) t (Settled trial r) (breaker_settle C t trial r B, calls - {#trial#})"

inductive_cases breaker_stepE: "breaker_step C (B, calls) t ev S"
inductive_simps breaker_let_in_iff: "breaker_step C (B, calls) t (Let_in trial) S"

inductive breaker_run :: "breaker_cfg \<Rightarrow> breaker \<times> bool multiset \<Rightarrow> (int \<times> breaker_event) list \<Rightarrow> breaker \<times> bool multiset \<Rightarrow> bool" for C S where
  none: "breaker_run C S [] S"
| step: "breaker_run C S evs S1 \<Longrightarrow> breaker_step C S1 t ev S2 \<Longrightarrow> breaker_run C S (evs @ [(t, ev)]) S2"

definition trial_inv :: "breaker \<times> bool multiset \<Rightarrow> bool" where
  "trial_inv S \<longleftrightarrow> count (snd S) True = (if cb_trial (fst S) then 1 else 0)"

lemma settle_trial: "cb_trial (breaker_settle C t trial r B) = (\<not> trial \<and> cb_trial B)"
  by (simp add: breaker_settle_def Let_def split: outcome.split)

lemma breaker_step_inv: "breaker_step C S t ev S' \<Longrightarrow> trial_inv S \<Longrightarrow> trial_inv S'"
proof (induction rule: breaker_step.induct)
  case (let_in t B trial B' calls)
  then show ?case by (auto simp: trial_inv_def breaker_admit_def Let_def split: if_splits)
next
  case (settled trial calls B t r)
  then show ?case by (auto simp: trial_inv_def settle_trial count_inI split: if_splits)
qed simp

text \<open>
  C4: However calls overlap, at most one trial of a half-open breaker is on its way, and the flag says whether one is: an answer never
  leaves it set, so the breaker cannot get stuck.
\<close>

theorem breaker_one_trial:
  assumes "breaker_run C (breaker0, {#}) evs (B, calls)"
  shows "count calls True \<le> 1 \<and> (cb_trial B \<longleftrightarrow> True \<in># calls) \<and>
    (calls = {#} \<longrightarrow> breaker_admit C t B \<noteq> None \<or> state_of C t B = Open)"
proof -
  have "trial_inv S" if "breaker_run C (breaker0, {#}) evs S" for S
    using that
  proof (induction rule: breaker_run.induct)
    case (step evs S1 t ev S2)
    then show ?case using breaker_step_inv by blast
  qed (simp add: trial_inv_def breaker0_def)
  from this [OF assms] have i: "count calls True = (if cb_trial B then 1 else 0)" by (simp add: trial_inv_def)
  then have "cb_trial B \<longleftrightarrow> True \<in># calls" by (cases "cb_trial B") (simp_all add: count_greater_zero_iff [symmetric] del: count_greater_zero_iff)
  with i show ?thesis by (auto simp: breaker_admit_def Let_def split: if_splits)
qed

text \<open>While it is open it lets nobody in, unless a call that was on its way when it opened still succeeds.\<close>

lemma open_breaker_fails_fast:
  assumes "breaker_run C (B0, calls0) evs S" and "0 < cb_openedAt B0" and "b = cb_openedAt B0 + cb_openMs C"
    and "\<forall>(t, ev) \<in> set evs. cb_openedAt B0 \<le> t \<and> t < b \<and> (\<forall>trial. ev \<noteq> Settled trial Went_well)"
  shows "cb_openedAt B0 \<le> cb_openedAt (fst S) \<and> (\<forall>(t, ev) \<in> set evs. \<forall>trial. ev \<noteq> Let_in trial)"
  using assms(1,4)
proof (induction rule: breaker_run.induct)
  case (step evs S1 t ev S2)
  then have t: "cb_openedAt B0 \<le> t" "t < b" "\<forall>trial. ev \<noteq> Settled trial Went_well" by auto
  have 1: "cb_openedAt B0 \<le> cb_openedAt (fst S1)" "\<forall>(t, ev) \<in> set evs. \<forall>trial. ev \<noteq> Let_in trial" using step by auto
  obtain B calls where S1: "S1 = (B, calls)" by (cases S1)
  have o: "state_of C t B = Open" using t(2) 1(1) assms(2,3) S1 by (simp add: state_of_def)
  have "(\<forall>trial. ev \<noteq> Let_in trial) \<and> cb_openedAt B0 \<le> cb_openedAt (fst S2)"
  proof (cases ev)
    case (Settled trial r)
    with t(3) obtain f where "r = Went_wrong f" by (cases r) auto
    with Settled t(1) 1(1) S1 step.hyps(2) show ?thesis by (auto simp: breaker_settle_def Let_def elim: breaker_stepE)
  qed (use o 1(1) S1 step.hyps(2) in \<open>auto simp: breaker_admit_def elim!: breaker_stepE\<close>)
  with 1 show ?case by auto
qed simp

text \<open>A closed breaker opens at the \<open>cb_threshold\<close>th failure in a row, not before.\<close>

lemma opens_at_threshold:
  assumes "cb_openedAt B = 0" and "0 < t"
  shows "cb_openedAt (breaker_settle C t False (Went_wrong True) B) = (if cb_threshold C \<le> cb_failures B + 1 then t else 0)"
  using assms by (simp add: breaker_settle_def Let_def)

theorem breaker_one_trial_witness:
  "\<exists>B calls. breaker_run \<lparr>cb_threshold = 1, cb_openMs = 30000\<rparr> (breaker0, {#})
      [(1, Let_in False), (2, Settled False (Went_wrong True)), (30002, Let_in True), (30003, Refused)] (B, calls) \<and>
    count calls True \<le> 1 \<and> cb_trial B"
proof -
  let ?C = "\<lparr>cb_threshold = 1, cb_openMs = 30000\<rparr>"
  let ?B = "\<lparr>cb_failures = 1, cb_openedAt = 2, cb_trial = False\<rparr>"
  have 1: "breaker_step ?C (breaker0, {#}) 1 (Let_in False) (breaker0, {#False#})"
    using breaker_step.let_in [of ?C 1 breaker0 False breaker0 "{#}"] by (simp add: breaker_admit_def state_of_def breaker0_def)
  have 2: "breaker_step ?C (breaker0, {#False#}) 2 (Settled False (Went_wrong True)) (?B, {#})"
    using breaker_step.settled [of False "{#False#}" ?C breaker0 2 "Went_wrong True"] by (simp add: breaker_settle_def breaker0_def Let_def)
  have 3: "breaker_step ?C (?B, {#}) 30002 (Let_in True) (?B\<lparr>cb_trial := True\<rparr>, {#True#})"
    using breaker_step.let_in [of ?C 30002 ?B True "?B\<lparr>cb_trial := True\<rparr>" "{#}"] by (simp add: breaker_admit_def state_of_def)
  have 4: "breaker_step ?C (?B\<lparr>cb_trial := True\<rparr>, {#True#}) 30003 Refused (?B\<lparr>cb_trial := True\<rparr>, {#True#})"
    by (rule breaker_step.refused) (simp add: breaker_admit_def state_of_def)
  have r: "breaker_run ?C (breaker0, {#}) [(1, Let_in False), (2, Settled False (Went_wrong True)), (30002, Let_in True), (30003, Refused)]
      (?B\<lparr>cb_trial := True\<rparr>, {#True#})"
    using breaker_run.step [OF breaker_run.step [OF breaker_run.step [OF breaker_run.step [OF breaker_run.none 1] 2] 3] 4] by simp
  then show ?thesis
    using conjunct1 [OF breaker_one_trial [OF r]]
    by (intro exI [of _ "?B\<lparr>cb_trial := True\<rparr>"] exI [of _ "{#True#}"]) simp
qed

end
