(* ===== verification/Live_Status.thy ===== *)
theory Live_Status
  imports Cluster "HOL-Library.AList" "HOL-Library.List_Lexorder" "HOL-Library.Char_ord"
begin

text \<open>
  \<open>services/liveHostStatus.service.js\<close>: the markers \<open>user:active_stream:<userId>\<close> in Redis, by which the other service knows who hosts a
  live stream, and the reconciler that repairs them from the table of live streams. \<open>utils/redisScan.js\<close> and
  \<open>services/walletBalance.service.js\<close>, the shared balance caches, are here as well.
\<close>

section \<open>The planner\<close>

definition MARKER_PREFIX :: string where "MARKER_PREFIX = ''user:active_stream:''"
definition MARKER_TTL_SEC :: int where "MARKER_TTL_SEC = 86400"

definition activeStreamKey :: "string \<Rightarrow> string" where
  "activeStreamKey userId = MARKER_PREFIX @ userId"

definition presenceChannel :: "string \<Rightarrow> string" where
  "presenceChannel userId = ''presence:user:'' @ userId"

definition liveStatusFrame :: "string \<Rightarrow> bool \<Rightarrow> string option \<Rightarrow> jsval" where
  "liveStatusFrame userId isLive streamId = Obj
     [(''t'', Str ''LIVE_STATUS''), (''userId'', Str userId), (''isLive'', JBool isLive),
      (''liveStreamId'', if isLive \<and> truthy_str streamId then Str (the streamId) else Null)]"

text \<open>A \<open>Map\<close> keeps its keys in the order they came; the streams of a user are a \<open>Set\<close>.\<close>

definition add_live :: "string \<times> string \<Rightarrow> (string \<times> string list) list \<Rightarrow> (string \<times> string list) list" where
  "add_live row m = (case row of (userId, streamId) \<Rightarrow>
     if userId = [] \<or> streamId = [] then m
     else AList.update userId (set_add streamId (case map_of m userId of None \<Rightarrow> [] | Some ss \<Rightarrow> ss)) m)"

definition liveByUser :: "(string \<times> string) list \<Rightarrow> (string \<times> string list) list" where
  "liveByUser rows = fold add_live rows []"

definition del_id :: "string \<times> string \<Rightarrow> string" where
  "del_id p = ''del|'' @ fst p @ ''|'' @ snd p"

definition set_id :: "string \<times> string \<Rightarrow> string" where
  "set_id p = ''set|'' @ fst p @ ''|'' @ snd p"

record repair_plan =
  rp_del :: "(string \<times> string) list"
  rp_set :: "(string \<times> string) list"
  rp_touch :: "string list"
  rp_suspects :: "string list"

definition is_live :: "(string \<times> string) list \<Rightarrow> string \<times> string \<Rightarrow> bool" where
  "is_live live p = (case map_of (liveByUser live) (fst p) of None \<Rightarrow> False | Some ss \<Rightarrow> snd p \<in> set ss)"

definition missing :: "(string \<times> string) list \<Rightarrow> (string \<times> string) list \<Rightarrow> (string \<times> string) list" where
  "missing markers live =
     map (\<lambda>(u, ss). (u, hd ss)) (filter (\<lambda>(u, ss). map_of markers u = None) (liveByUser live))"

definition planMarkerRepair :: "(string \<times> string) list \<Rightarrow> (string \<times> string) list \<Rightarrow> string list \<Rightarrow> repair_plan" where
  "planMarkerRepair markers live suspects =
     (let stale = filter (\<lambda>p. \<not> is_live live p) markers; gone = missing markers live in
      \<lparr>rp_del = filter (\<lambda>p. del_id p \<in> set suspects) stale,
       rp_set = filter (\<lambda>p. set_id p \<in> set suspects) gone,
       rp_touch = map fst (filter (is_live live) markers),
       rp_suspects = remdups (map del_id stale @ map set_id gone)\<rparr>)"

section \<open>The reconciler\<close>

record live_db_row =
  ld_id :: string
  ld_streamId :: "string option"
  ld_userId :: string

text \<open>Redis with \<open>SCAN\<close> (a prefix) and \<open>PUBLISH\<close>, the query for live streams, what the process keeps.\<close>

record 'w status_env =
  hs_redis :: "'w redis"
  hs_cluster :: cluster_cfg
  hs_scan :: "string \<Rightarrow> ('w, string list) act"
  hs_unlink :: "string list \<Rightarrow> ('w, nat) act"
  hs_publish :: "string \<Rightarrow> jtext \<Rightarrow> ('w, unit) act"
  hs_rows :: "('w, live_db_row list) act"
  hs_suspects :: "'w \<Rightarrow> string list"
  hs_putSuspects :: "string list \<Rightarrow> 'w \<Rightarrow> 'w"
  hs_node :: "'w \<Rightarrow> 'w node"
  hs_putNode :: "'w node \<Rightarrow> 'w \<Rightarrow> 'w"

definition publishLiveStatus :: "'w status_env \<Rightarrow> string \<Rightarrow> bool \<Rightarrow> string option \<Rightarrow> ('w, unit) act" where
  "publishLiveStatus H userId isLive streamId = quietly
     (if userId = [] then ret ()
      else ifOpen (hs_redis H)
        (hs_publish H (presenceChannel userId) (JSON_stringify (liveStatusFrame userId isLive streamId))) (ret ()))"

definition scanKeys :: "'w status_env \<Rightarrow> string \<Rightarrow> ('w, string list) act" where
  "scanKeys H p = ifOpen (hs_redis H) (hs_scan H p) (ret [])"

fun chunks :: "nat \<Rightarrow> 'a list \<Rightarrow> 'a list list" where
  "chunks n [] = []"
| "chunks n (x # xs) = (x # take (n - 1) xs) # chunks n (drop (n - 1) xs)"

fun unlinkChunks :: "'w status_env \<Rightarrow> nat \<Rightarrow> string list list \<Rightarrow> ('w, nat) act" where
  "unlinkChunks H removed [] = ret removed"
| "unlinkChunks H removed (c # cs) = bindA (hs_unlink H c) (\<lambda>n. unlinkChunks H (removed + n) cs)"

definition unlinkByPattern :: "'w status_env \<Rightarrow> string \<Rightarrow> ('w, nat) act" where
  "unlinkByPattern H p = ifOpen (hs_redis H) (bindA (scanKeys H p) (\<lambda>keys. unlinkChunks H 0 (chunks 200 keys))) (ret 0)"

definition raw_text :: "jtext \<Rightarrow> string" where
  "raw_text t = (case t of Raw s \<Rightarrow> s | Json v \<Rightarrow> js_String v)"

definition put_marker :: "string \<times> jtext option \<Rightarrow> (string \<times> string) list \<Rightarrow> (string \<times> string) list" where
  "put_marker kv markers = (case kv of (k, v) \<Rightarrow>
     if truthy_text v then AList.update (drop (length MARKER_PREFIX) k) (raw_text (the v)) markers else markers)"

fun readChunks :: "'w status_env \<Rightarrow> (string \<times> string) list \<Rightarrow> string list list \<Rightarrow> ('w, (string \<times> string) list) act" where
  "readChunks H markers [] = ret markers"
| "readChunks H markers (c # cs) =
     bindA (r_mget (hs_redis H) c) (\<lambda>values. readChunks H (fold put_marker (zip c values) markers) cs)"

definition readMarkers :: "'w status_env \<Rightarrow> ('w, (string \<times> string) list) act" where
  "readMarkers H = bindA (scanKeys H MARKER_PREFIX) (\<lambda>keys. readChunks H [] (chunks 200 keys))"

definition del_if_equals :: "'w redis \<Rightarrow> string \<Rightarrow> string \<Rightarrow> ('w, nat) act" where
  "del_if_equals R k v = bindA (r_get R k) (\<lambda>x. if x = Some (Raw v) then r_del R [k] else ret 0)"

definition remove_marker :: "'w status_env \<Rightarrow> string \<times> string \<Rightarrow> ('w, unit) act" where
  "remove_marker H p =
     bindA (del_if_equals (hs_redis H) (activeStreamKey (fst p)) (snd p)) (\<lambda>removed.
       whenA (removed = 1)
         (thenA (quietly (r_del (hs_redis H) [''stream:info:'' @ snd p])) (publishLiveStatus H (fst p) False None)))"

definition restore_marker :: "'w status_env \<Rightarrow> string \<times> string \<Rightarrow> ('w, unit) act" where
  "restore_marker H p =
     bindA (r_set (hs_redis H) (activeStreamKey (fst p)) (Raw (snd p)) (nx_ex_s MARKER_TTL_SEC)) (\<lambda>ok.
       whenA ok (publishLiveStatus H (fst p) True (Some (snd p))))"

definition touch_marker :: "'w status_env \<Rightarrow> string \<Rightarrow> ('w, unit) act" where
  "touch_marker H u = thenA (r_pexpire (hs_redis H) (activeStreamKey u) (MARKER_TTL_SEC * 1000)) (ret ())"

definition live_pairs :: "live_db_row list \<Rightarrow> (string \<times> string) list" where
  "live_pairs rows = map (\<lambda>r. (ld_userId r, if truthy_str (ld_streamId r) then the (ld_streamId r) else ld_id r)) rows"

definition reconcileActiveStreamMarkers :: "'w status_env \<Rightarrow> ('w, nat \<times> nat \<times> nat \<times> nat) act" where
  "reconcileActiveStreamMarkers H =
     bindA (readMarkers H) (\<lambda>markers. bindA (hs_rows H) (\<lambda>rows. bindA (askA (hs_suspects H)) (\<lambda>suspects.
       let live = live_pairs rows; plan = planMarkerRepair markers live suspects in
       thenA (\<lambda>w. (Inr (), hs_putSuspects H (rp_suspects plan) w))
       (thenA (forA (remove_marker H) (rp_del plan))
       (thenA (forA (restore_marker H) (rp_set plan))
       (thenA (forA (touch_marker H) (rp_touch plan))
         (ret (length markers, length rows, length (rp_del plan), length (rp_set plan)))))))))"

definition reconcile_pass :: "'w status_env \<Rightarrow> ('w, unit) act" where
  "reconcile_pass H = thenA (reconcileActiveStreamMarkers H) (ret ())"

text \<open>One firing of the interval.\<close>

definition reconciler_tick :: "'w status_env \<Rightarrow> ('w, unit) act" where
  "reconciler_tick H = quietly (\<lambda>w.
     if \<not> isOpen (hs_redis H) w then (Inr (), hs_putSuspects H [] w)
     else case isLeader (hs_redis H) (hs_cluster H) ''live-host-status'' (hs_node H w) w of (lead, nd, w1) \<Rightarrow>
       let w2 = hs_putNode H nd w1 in
       if \<not> lead then (Inr (), hs_putSuspects H [] w2)
       else reconcile_pass H w2)"

section \<open>The shared balance caches\<close>

definition WALLET_BALANCE_TTL_SECONDS :: int where "WALLET_BALANCE_TTL_SECONDS = 3600"
definition coinCacheKey :: "string \<Rightarrow> string" where "coinCacheKey userId = ''wallet:coins:'' @ userId"
definition pointCacheKey :: "string \<Rightarrow> string" where "pointCacheKey userId = ''wallet:points:'' @ userId"

definition writeCache :: "'w redis \<Rightarrow> string \<Rightarrow> int \<Rightarrow> ('w, unit) act" where
  "writeCache R k absolute = ifOpen R
     (catchA (thenA (r_set R k (Raw (int_str absolute)) (ex_s WALLET_BALANCE_TTL_SECONDS)) (ret ()))
        (\<lambda>_. quietly (r_del R [k]))) (ret ())"

definition writeCoinBalanceCache :: "'w redis \<Rightarrow> string \<Rightarrow> int \<Rightarrow> ('w, unit) act" where
  "writeCoinBalanceCache R u absolute = writeCache R (coinCacheKey u) absolute"

definition writePointBalanceCache :: "'w redis \<Rightarrow> string \<Rightarrow> int \<Rightarrow> ('w, unit) act" where
  "writePointBalanceCache R u absolute = writeCache R (pointCacheKey u) absolute"

definition invalidateCoinBalanceCache :: "'w redis \<Rightarrow> string \<Rightarrow> ('w, unit) act" where
  "invalidateCoinBalanceCache R u = ifOpen R (quietly (r_del R [coinCacheKey u])) (ret ())"

definition invalidatePointBalanceCache :: "'w redis \<Rightarrow> string \<Rightarrow> ('w, unit) act" where
  "invalidatePointBalanceCache R u = ifOpen R (quietly (r_del R [pointCacheKey u])) (ret ())"

text \<open>\<open>BigInt(raw)\<close>: only a whole number parses; anything else throws and reads as a miss.\<close>

definition readCoinBalanceCacheForDisplay :: "'w redis \<Rightarrow> string \<Rightarrow> ('w, int option) act" where
  "readCoinBalanceCacheForDisplay R u = ifOpen R
     (catchA (bindA (r_get R (coinCacheKey u)) (\<lambda>raw.
        case raw of None \<Rightarrow> ret None
        | Some t \<Rightarrow> if t = Raw [] then ret (Some 0)
            else (case Number_of t of None \<Rightarrow> throw SyntaxError | Some n \<Rightarrow> ret (Some n)))) (\<lambda>_. ret None)) (ret None)"

section \<open>What the planner proposes\<close>

definition streams_of :: "(string \<times> string list) list \<Rightarrow> string \<Rightarrow> string list" where
  "streams_of m u = (case map_of m u of None \<Rightarrow> [] | Some ss \<Rightarrow> ss)"

definition grouped :: "(string \<times> string list) list \<Rightarrow> bool" where
  "grouped m \<longleftrightarrow> distinct (map fst m) \<and> (\<forall>u. map_of m u \<noteq> Some [])"

lemma set_add_nonempty [simp]: "set_add x xs \<noteq> []"
  by (auto simp: set_add_def)

lemma add_live_ok:
  "grouped m \<Longrightarrow> grouped (add_live r m) \<and>
    set (streams_of (add_live r m) u) = set (streams_of m u) \<union> {s. r = (u, s) \<and> u \<noteq> [] \<and> s \<noteq> []}"
  by (cases r) (auto simp: grouped_def add_live_def streams_of_def distinct_update update_conv simp del: map_of_eq_Some_iff Some_eq_map_of_iff
      split: option.splits if_splits)

lemma fold_add_live:
  "grouped m \<Longrightarrow> grouped (fold add_live rows m) \<and>
    set (streams_of (fold add_live rows m) u) = set (streams_of m u) \<union> {s. (u, s) \<in> set rows \<and> u \<noteq> [] \<and> s \<noteq> []}"
proof (induction rows arbitrary: m)
  case (Cons r rows)
  with add_live_ok [OF Cons.prems, of r u] show ?case by (auto simp: Cons.IH)
qed simp

lemma liveByUser_ok:
  "grouped (liveByUser rows)" "set (streams_of (liveByUser rows) u) = {s. (u, s) \<in> set rows \<and> u \<noteq> [] \<and> s \<noteq> []}"
proof -
  have "grouped []" "set (streams_of [] u) = {}" by (simp_all add: grouped_def streams_of_def)
  with fold_add_live [of "[]" rows u]
  show "grouped (liveByUser rows)" "set (streams_of (liveByUser rows) u) = {s. (u, s) \<in> set rows \<and> u \<noteq> [] \<and> s \<noteq> []}"
    by (simp_all only: liveByUser_def) simp_all
qed

lemma is_live_iff: "is_live live p \<longleftrightarrow> p \<in> set live \<and> fst p \<noteq> [] \<and> snd p \<noteq> []"
proof -
  have "is_live live p \<longleftrightarrow> snd p \<in> set (streams_of (liveByUser live) (fst p))"
    by (simp add: is_live_def streams_of_def split: option.split)
  then show ?thesis unfolding liveByUser_ok(2) by simp
qed

text \<open>The stream a missing marker of \<open>u\<close> will point to.\<close>

definition first_live :: "(string \<times> string) list \<Rightarrow> string \<Rightarrow> string option" where
  "first_live live u = map_option hd (map_of (liveByUser live) u)"

lemma liveByUser_nonempty: "map_of (liveByUser live) u \<noteq> Some []"
  using liveByUser_ok(1) [of live] unfolding grouped_def by blast

lemma first_live_iff: "first_live live u = None \<longleftrightarrow> (\<forall>s. \<not> is_live live (u, s))"
proof (cases "map_of (liveByUser live) u")
  case (Some ss)
  with liveByUser_nonempty [of live u] have "ss \<noteq> []" by auto
  then have "hd ss \<in> set ss" by simp
  with Some show ?thesis by (auto simp: first_live_def is_live_def)
qed (simp add: first_live_def is_live_def)

lemma first_live_is_live: "first_live live u = Some s \<Longrightarrow> is_live live (u, s)"
  using liveByUser_nonempty [of live u] by (auto simp: first_live_def is_live_def)

lemma map_of_missing:
  "map_of (missing markers live) u = (if map_of markers u = None then first_live live u else None)"
proof -
  have "map_of (map (\<lambda>(u, ss). (u, hd ss)) (filter (\<lambda>(u, ss). map_of markers u = None) m)) u =
      (if map_of markers u = None then map_option hd (map_of m u) else None)" if "distinct (map fst m)" for m :: "(string \<times> string list) list"
    using that by (induction m) (auto simp: map_of_eq_None_iff image_iff split: prod.splits)
  then show ?thesis using liveByUser_ok(1) [of live] by (simp add: missing_def first_live_def grouped_def)
qed

lemma missing_distinct: "distinct (map fst (missing markers live))"
proof -
  have "map fst (missing markers live) = map fst (filter (\<lambda>(u, ss). map_of markers u = None) (liveByUser live))"
    by (auto simp: missing_def)
  moreover have "distinct (map fst (filter P m))" if "distinct (map fst m)" for P and m :: "(string \<times> string list) list"
    using that by (induction m) auto
  ultimately show ?thesis using liveByUser_ok(1) [of live] by (simp add: grouped_def)
qed

text \<open>The markers after a plan has been carried out.\<close>

definition apply_plan :: "repair_plan \<Rightarrow> (string \<Rightarrow> string option) \<Rightarrow> string \<Rightarrow> string option" where
  "apply_plan p m u = (case m u of
       Some s \<Rightarrow> if (u, s) \<in> set (rp_del p) then None else Some s
     | None \<Rightarrow> map_of (rp_set p) u)"

text \<open>How many passes \<open>u\<close> still needs, when nothing else happens.\<close>

definition passes_left :: "(string \<times> string) list \<Rightarrow> string list \<Rightarrow> (string \<Rightarrow> string option) \<Rightarrow> string \<Rightarrow> nat" where
  "passes_left live suspects m u = (case m u of
       Some s \<Rightarrow> if is_live live (u, s) then 0 else if del_id (u, s) \<in> set suspects then 3 else 4
     | None \<Rightarrow> (case first_live live u of None \<Rightarrow> 0 | Some s \<Rightarrow> if set_id (u, s) \<in> set suspects then 1 else 2))"

lemma plan_progress:
  assumes "distinct (map fst ms)" and "p = planMarkerRepair ms live suspects"
  shows "passes_left live (rp_suspects p) (apply_plan p (map_of ms)) u \<le> passes_left live suspects (map_of ms) u - 1"
proof (cases "map_of ms u")
  case None
  have g: "map_of (missing ms live) u = first_live live u" using None by (simp add: map_of_missing)
  have f: "map_of (rp_set p) u = (case first_live live u of None \<Rightarrow> None | Some s \<Rightarrow> if set_id (u, s) \<in> set suspects then Some s else None)"
  proof -
    have "map_of (filter P m) u = (case map_of m u of None \<Rightarrow> None | Some s \<Rightarrow> if P (u, s) then Some s else None)"
      if "distinct (map fst m)" for P and m :: "(string \<times> string) list"
      using that by (induction m) (auto simp: map_of_eq_None_iff image_iff split: option.splits)
    then show ?thesis using missing_distinct g by (simp add: assms(2) planMarkerRepair_def Let_def)
  qed
  have "set_id (u, s) \<in> set (rp_suspects p)" if "first_live live u = Some s" for s
    using g that map_of_SomeD [of "missing ms live" u s] by (force simp: assms(2) planMarkerRepair_def Let_def)
  with None f show ?thesis
    using first_live_is_live [of live u] by (auto simp: passes_left_def apply_plan_def split: option.splits)
next
  case (Some s)
  then have "(u, s) \<in> set ms" by (rule map_of_SomeD)
  then show ?thesis
    using Some by (auto simp: passes_left_def apply_plan_def assms(2) planMarkerRepair_def Let_def image_iff split: option.splits)
qed

lemma passes_left_max: "passes_left live suspects m u \<le> 4"
  by (auto simp: passes_left_def split: option.split)

lemma passes_left_0:
  "passes_left live suspects m u = 0 \<longleftrightarrow> (case m u of Some s \<Rightarrow> is_live live (u, s) | None \<Rightarrow> \<forall>s. \<not> is_live live (u, s))"
  by (auto simp: passes_left_def first_live_iff [symmetric] split: option.split)

section \<open>What a pass does to Redis\<close>

definition marker_of :: "('w \<Rightarrow> string \<Rightarrow> (jtext \<times> int option) option) \<Rightarrow> 'w \<Rightarrow> string \<Rightarrow> string option" where
  "marker_of kv w u = (case kv w (activeStreamKey u) of Some (Raw s, _) \<Rightarrow> if s = [] then None else Some s | _ \<Rightarrow> None)"

text \<open>Finitely many keys, and under a marker key the id of a stream.\<close>

definition markers_clean :: "('w \<Rightarrow> string \<Rightarrow> (jtext \<times> int option) option) \<Rightarrow> 'w \<Rightarrow> bool" where
  "markers_clean kv w \<longleftrightarrow> finite (dom (kv w)) \<and>
     (\<forall>u v. kv w (activeStreamKey u) = Some v \<longrightarrow> (\<exists>s. fst v = Raw s \<and> s \<noteq> []))"

lemma activeStreamKey_eq [simp]: "activeStreamKey u = activeStreamKey v \<longleftrightarrow> u = v"
  by (simp add: activeStreamKey_def)

lemma marker_of_cong: "(\<And>u. kv w1 (activeStreamKey u) = kv w (activeStreamKey u)) \<Longrightarrow> marker_of kv w1 = marker_of kv w"
  by (simp add: marker_of_def fun_eq_iff)

lemma markers_clean_cong: "kv w1 = kv w \<Longrightarrow> markers_clean kv w1 = markers_clean kv w"
  by (simp add: markers_clean_def)

lemma marker_of_None: "kv w (activeStreamKey u) = None \<Longrightarrow> marker_of kv w u = None"
  by (simp add: marker_of_def)

lemma marker_of_put:
  "kv w1 = (kv w)(activeStreamKey u := Some (Raw s, e)) \<Longrightarrow> s \<noteq> [] \<Longrightarrow> marker_of kv w1 = (marker_of kv w)(u \<mapsto> s)"
  by (auto simp: marker_of_def fun_eq_iff)

lemma markers_clean_put:
  "kv w1 = (kv w)(activeStreamKey u := Some (Raw s, e)) \<Longrightarrow> s \<noteq> [] \<Longrightarrow> markers_clean kv w \<Longrightarrow> markers_clean kv w1"
  by (auto simp: markers_clean_def)

lemma markers_clean_del:
  "kv w1 = (\<lambda>k. if k \<in> K then None else kv w k) \<Longrightarrow> markers_clean kv w \<Longrightarrow> markers_clean kv w1"
  by (auto simp: markers_clean_def dom_def split: if_splits intro: finite_subset [of _ "dom (kv w)"])

lemma marker_kv:
  "markers_clean kv w \<Longrightarrow> marker_of kv w u = None \<longleftrightarrow> kv w (activeStreamKey u) = None"
  "markers_clean kv w \<Longrightarrow> marker_of kv w u = Some s \<Longrightarrow> \<exists>e. kv w (activeStreamKey u) = Some (Raw s, e)"
  by (fastforce simp: markers_clean_def marker_of_def split: option.splits prod.splits jtext.splits if_splits)+

lemma marker_text: "markers_clean kv w \<Longrightarrow> kv w (activeStreamKey u) = Some (Raw s, e) \<Longrightarrow> s \<noteq> []"
  unfolding markers_clean_def by (metis fst_conv jtext.inject(1))

lemma concat_chunks: "0 < n \<Longrightarrow> concat (chunks n xs) = xs"
proof (induction n xs rule: chunks.induct)
  case (2 n x xs)
  then show ?case by (cases n) simp_all
qed simp

locale marker_store = redis_kv "hs_redis H" kv clk up
  for H :: "'w status_env" and kv clk up +
  fixes rows :: "live_db_row list"
  assumes mget: "up w \<Longrightarrow> r_mget (hs_redis H) ks w = (Inr (map (\<lambda>k. map_option fst (kv w k)) ks), w)"
    and scan: "up w \<Longrightarrow> finite (dom (kv w)) \<Longrightarrow> \<exists>ks. hs_scan H p w = (Inr ks, w) \<and> set ks = {k \<in> dom (kv w). startsWith k p}"
    and rows_read: "up w \<Longrightarrow> hs_rows H w = (Inr rows, w)"
    and publish: "keeps (\<lambda>w. up w \<and> kv w = kv w0 \<and> hs_suspects H w = hs_suspects H w0) (hs_publish H c m)"
    and put: "up (hs_putSuspects H xs w) = up w" "kv (hs_putSuspects H xs w) = kv w" "hs_suspects H (hs_putSuspects H xs w) = xs"
    and suspects_frame: "hs_suspects H (snd (r_del (hs_redis H) ks w)) = hs_suspects H w"
      "hs_suspects H (snd (r_set (hs_redis H) k v opt w)) = hs_suspects H w"
      "hs_suspects H (snd (r_pexpire (hs_redis H) k ms w)) = hs_suspects H w"
begin

abbreviation marker :: "'w \<Rightarrow> string \<Rightarrow> string option" where "marker \<equiv> marker_of kv"

abbreviation clean :: "'w \<Rightarrow> bool" where "clean w \<equiv> up w \<and> markers_clean kv w"

lemma readChunks_value:
  "up w \<Longrightarrow> readChunks H ms cs w =
    (Inr (fold (\<lambda>k. put_marker (k, map_option fst (kv w k))) (concat cs) ms), w)"
proof (induction cs arbitrary: ms)
  case (Cons c cs)
  have "fold put_marker (zip c (map f c)) ms = fold (\<lambda>k. put_marker (k, f k)) c ms" for f
    by (induction c arbitrary: ms) simp_all
  with Cons show ?case by (simp add: bindA_run mget)
qed (simp add: ret_run)

lemma fold_put_marker:
  assumes "clean w" and "\<forall>k \<in> set ks. startsWith k MARKER_PREFIX \<and> kv w k \<noteq> None" and "distinct (map fst ms)"
  shows "distinct (map fst (fold (\<lambda>k. put_marker (k, map_option fst (kv w k))) ks ms)) \<and>
    map_of (fold (\<lambda>k. put_marker (k, map_option fst (kv w k))) ks ms) u =
      (if activeStreamKey u \<in> set ks then marker w u else map_of ms u)"
  using assms(2,3)
proof (induction ks arbitrary: ms)
  case (Cons k ks)
  obtain v where k: "k = activeStreamKey v" using Cons.prems(1) by (auto simp: startsWith_iff activeStreamKey_def)
  obtain s e where s: "kv w k = Some (Raw s, e)" "s \<noteq> []"
    using Cons.prems(1) assms(1) k by (fastforce simp: markers_clean_def)
  have p: "put_marker (k, map_option fst (kv w k)) ms = AList.update v s ms"
    using s k by (simp add: put_marker_def truthy_text_def raw_text_def activeStreamKey_def)
  have m: "marker w v = Some s" using s k by (simp add: marker_of_def)
  have "distinct (map fst (AList.update v s ms))" using Cons.prems(2) by (simp add: distinct_update)
  with Cons.IH [of "AList.update v s ms"] Cons.prems(1) p m k show ?case
    by (auto simp: update_conv simp del: map_of_eq_Some_iff Some_eq_map_of_iff)
qed simp

lemma readMarkers_E:
  assumes "clean w"
  obtains ms where "readMarkers H w = (Inr ms, w)" "distinct (map fst ms)" "map_of ms = marker w"
proof -
  obtain ks where ks: "hs_scan H MARKER_PREFIX w = (Inr ks, w)" "set ks = {k \<in> dom (kv w). startsWith k MARKER_PREFIX}"
    using scan [of w MARKER_PREFIX] assms unfolding markers_clean_def by blast
  let ?ms = "fold (\<lambda>k. put_marker (k, map_option fst (kv w k))) ks []"
  have f: "distinct (map fst ?ms) \<and> map_of ?ms u = (if activeStreamKey u \<in> set ks then marker w u else None)" for u
  proof -
    have "\<forall>k \<in> set ks. startsWith k MARKER_PREFIX \<and> kv w k \<noteq> None" unfolding ks(2) by auto
    from fold_put_marker [OF assms this, of "[]" u] show ?thesis by simp
  qed
  have "map_of ?ms u = marker w u" for u
  proof (cases "activeStreamKey u \<in> set ks")
    case False
    moreover have "startsWith (activeStreamKey u) MARKER_PREFIX" by (simp add: startsWith_iff activeStreamKey_def)
    ultimately have "kv w (activeStreamKey u) = None" unfolding ks(2) by blast
    with False f [of u] show ?thesis by (simp add: marker_of_None)
  qed (use f [of u] in simp)
  moreover have "readMarkers H w = (Inr ?ms, w)"
    using ks(1) assms by (simp add: readMarkers_def scanKeys_def bindA_run ifOpen_run up_open readChunks_value concat_chunks)
  ultimately show thesis using that f by (simp add: fun_eq_iff)
qed

text \<open>The three kinds of repair.\<close>

lemma publish_E:
  assumes "up w"
  obtains w1 where "publishLiveStatus H u b s w = (Inr (), w1)" "up w1" "kv w1 = kv w" "hs_suspects H w1 = hs_suspects H w"
proof -
  obtain x w1 where p: "publishLiveStatus H u b s w = (x, w1)" by (rule prod.exhaust)
  have "keeps (\<lambda>w'. up w' \<and> kv w' = kv w \<and> hs_suspects H w' = hs_suspects H w) (publishLiveStatus H u b s)"
    unfolding publishLiveStatus_def by (intro keeps_intros publish)
  from keepsD [OF this p] assms have "up w1" "kv w1 = kv w" "hs_suspects H w1 = hs_suspects H w" by auto
  moreover have "x = Inr ()" using p by (simp add: publishLiveStatus_def quietly_run)
  ultimately show thesis using that p by simp
qed

lemma info_key: "''stream:info:'' @ s \<noteq> activeStreamKey u"
  by (simp add: activeStreamKey_def MARKER_PREFIX_def)

lemma remove_E:
  assumes "clean w"
  obtains w1 where "remove_marker H (u, s) w = (Inr (), w1)" "clean w1" "hs_suspects H w1 = hs_suspects H w"
    "marker w1 = (if marker w u = Some s then (marker w)(u := None) else marker w)"
proof (cases "map_option fst (kv w (activeStreamKey u)) = Some (Raw s)")
  case False
  then have "remove_marker H (u, s) w = (Inr (), w)" using assms get by (simp add: remove_marker_def del_if_equals_def bindA_run ret_run whenA_run)
  moreover have "marker w u \<noteq> Some s" using False assms by (auto dest: marker_kv(2))
  ultimately show thesis using that [of w] assms by simp
next
  case True
  then obtain e where e: "kv w (activeStreamKey u) = Some (Raw s, e)" by auto
  have s: "s \<noteq> []" by (rule marker_text [OF conjunct2 [OF assms] e])
  obtain n w1 where 1: "r_del (hs_redis H) [activeStreamKey u] w = (Inr n, w1)" "up w1" "kv w1 = (\<lambda>k. if k \<in> {activeStreamKey u} then None else kv w k)"
    by (rule del_E [of w "[activeStreamKey u]"]) (use assms in auto)
  have c1: "markers_clean kv w1" by (rule markers_clean_del [OF 1(3)]) (use assms in simp)
  have s1: "hs_suspects H w1 = hs_suspects H w" using suspects_frame(1) [of "[activeStreamKey u]" w] 1(1) by simp
  have m1: "marker w1 = (marker w)(u := None)" using 1(3) by (auto simp: marker_of_def fun_eq_iff)
  have u: "marker w u = Some s" using e s by (simp add: marker_of_def)
  obtain m w2 where 2: "r_del (hs_redis H) [''stream:info:'' @ s] w1 = (Inr m, w2)" "up w2" "kv w2 = (\<lambda>k. if k \<in> {''stream:info:'' @ s} then None else kv w1 k)"
    by (rule del_E [of w1 "[''stream:info:'' @ s]"]) (use 1 in auto)
  have s2: "hs_suspects H w2 = hs_suspects H w1" using suspects_frame(1) [of "[''stream:info:'' @ s]" w1] 2(1) by simp
  have m2: "marker w2 = marker w1"
  proof (rule marker_of_cong)
    fix v
    have "activeStreamKey v \<notin> {''stream:info:'' @ s}" using info_key [of s v] by (metis singletonD)
    then show "kv w2 (activeStreamKey v) = kv w1 (activeStreamKey v)" unfolding 2(3) by (rule if_not_P)
  qed
  have c2: "markers_clean kv w2" by (rule markers_clean_del [OF 2(3) c1])
  obtain w3 where 3: "publishLiveStatus H u False None w2 = (Inr (), w3)" "up w3" "kv w3 = kv w2" "hs_suspects H w3 = hs_suspects H w2"
    by (rule publish_E [OF 2(2)])
  have k3: "marker w3 = marker w2" "markers_clean kv w3" 
    by (rule marker_of_cong, simp add: 3(3)) (simp add: markers_clean_cong [where kv = kv, OF 3(3)] c2)
  show thesis
  proof (cases "n = 1")
    case True
    then have "remove_marker H (u, s) w = (Inr (), w3)"
      using assms e get [of w "activeStreamKey u"] 1(1) 2(1) 3(1)
      by (simp add: remove_marker_def del_if_equals_def bindA_run thenA_run ret_run whenA_run quietly_run)
    then show thesis using that k3 3 s2 s1 m2 m1 u by simp
  next
    case False
    then have "remove_marker H (u, s) w = (Inr (), w1)"
      using assms e get [of w "activeStreamKey u"] 1(1) by (simp add: remove_marker_def del_if_equals_def bindA_run whenA_run)
    then show thesis using that c1 1(2) s1 m1 u by simp
  qed
qed

lemma restore_E:
  assumes "clean w" and "s \<noteq> []"
  obtains w1 where "restore_marker H (u, s) w = (Inr (), w1)" "clean w1" "hs_suspects H w1 = hs_suspects H w"
    "marker w1 = (if marker w u = None then (marker w)(u \<mapsto> s) else marker w)"
proof -
  have o: "o_nx (nx_ex_s MARKER_TTL_SEC)" "0 < ttl_of (nx_ex_s MARKER_TTL_SEC)" by (simp_all add: nx_ex_s_def ttl_of_def MARKER_TTL_SEC_def)
  obtain w1 where 1: "r_set (hs_redis H) (activeStreamKey u) (Raw s) (nx_ex_s MARKER_TTL_SEC) w = (Inr (kv w (activeStreamKey u) = None), w1)"
    "up w1" "kv w1 = (if kv w (activeStreamKey u) = None then (kv w)(activeStreamKey u \<mapsto> (Raw s, map_option (\<lambda>p. clk w + p) (o_px (nx_ex_s MARKER_TTL_SEC)))) else kv w)"
    by (rule setnx_claim [of w "nx_ex_s MARKER_TTL_SEC" "activeStreamKey u" "Raw s"]) (use assms(1) o in auto)
  have s1: "hs_suspects H w1 = hs_suspects H w"
    using suspects_frame(2) [of "activeStreamKey u" "Raw s" "nx_ex_s MARKER_TTL_SEC" w] 1(1) by simp
  have m: "marker w u = None \<longleftrightarrow> kv w (activeStreamKey u) = None" by (rule marker_kv(1)) (use assms(1) in simp)
  show thesis
  proof (cases "kv w (activeStreamKey u) = None")
    case True
    with 1(3) have k: "kv w1 = (kv w)(activeStreamKey u \<mapsto> (Raw s, map_option (\<lambda>p. clk w + p) (o_px (nx_ex_s MARKER_TTL_SEC))))" by simp
    have c1: "markers_clean kv w1" by (rule markers_clean_put [OF k assms(2)]) (use assms(1) in simp)
    obtain w2 where 2: "publishLiveStatus H u True (Some s) w1 = (Inr (), w2)" "up w2" "kv w2 = kv w1" "hs_suspects H w2 = hs_suspects H w1"
      by (rule publish_E [OF 1(2)])
    have "marker w2 = marker w1" by (rule marker_of_cong) (simp add: 2(3))
    moreover have "markers_clean kv w2" using c1 markers_clean_cong [of kv w2 w1] 2(3) by blast
    moreover have "restore_marker H (u, s) w = (Inr (), w2)" using 1(1) 2(1) True by (simp add: restore_marker_def bindA_run whenA_run)
    ultimately show thesis using that [of w2] 2 s1 m True marker_of_put [OF k assms(2)] by simp
  next
    case False
    with 1(1,3) have "restore_marker H (u, s) w = (Inr (), w1)" "kv w1 = kv w" by (simp_all add: restore_marker_def bindA_run whenA_run)
    moreover from this have "marker w1 = marker w" "markers_clean kv w1"
      by (auto intro!: marker_of_cong simp: markers_clean_cong [of kv w1 w] assms(1))
    ultimately show thesis using that [of w1] 1(2) s1 m False by simp
  qed
qed

lemma touch_E:
  assumes "clean w" and "marker w u = Some s"
  obtains w1 where "touch_marker H u w = (Inr (), w1)" "clean w1" "hs_suspects H w1 = hs_suspects H w" "marker w1 = marker w"
proof -
  obtain e where e: "kv w (activeStreamKey u) = Some (Raw s, e)" using marker_kv(2) [OF conjunct2 [OF assms(1)] assms(2)] by blast
  have s: "s \<noteq> []" by (rule marker_text [OF conjunct2 [OF assms(1)] e])
  obtain w1 where 1: "r_pexpire (hs_redis H) (activeStreamKey u) (MARKER_TTL_SEC * 1000) w = (Inr 1, w1)" "up w1"
    "kv w1 = (kv w)(activeStreamKey u \<mapsto> (Raw s, Some (clk w + MARKER_TTL_SEC * 1000)))"
    using pexpire [of w "MARKER_TTL_SEC * 1000", OF _ _ e] assms(1) by (auto simp: MARKER_TTL_SEC_def)
  have "markers_clean kv w1" by (rule markers_clean_put [OF 1(3) s]) (use assms(1) in simp)
  moreover have "marker w1 = marker w"
  proof -
    have "marker w u = Some s" using e s by (simp add: marker_of_def)
    then show ?thesis unfolding marker_of_put [OF 1(3) s] by (rule map_upd_triv)
  qed
  moreover have "touch_marker H u w = (Inr (), w1)" using 1(1) by (simp add: touch_marker_def thenA_run ret_run)
  ultimately show thesis
    using that 1(2) suspects_frame(3) [of "activeStreamKey u" "MARKER_TTL_SEC * 1000" w] 1(1) by simp
qed

lemma removes_E:
  assumes "clean w"
  obtains w1 where "forA (remove_marker H) ps w = (Inr (), w1)" "clean w1" "hs_suspects H w1 = hs_suspects H w"
    "marker w1 = (\<lambda>u. case marker w u of None \<Rightarrow> None | Some s \<Rightarrow> if (u, s) \<in> set ps then None else Some s)"
  using assms
proof (induction ps arbitrary: w thesis)
  case (Cons p ps)
  obtain u s where p: "p = (u, s)" by (cases p)
  obtain w1 where 1: "remove_marker H (u, s) w = (Inr (), w1)" "clean w1" "hs_suspects H w1 = hs_suspects H w"
    "marker w1 = (if marker w u = Some s then (marker w)(u := None) else marker w)" by (rule remove_E [OF Cons.prems(2)])
  obtain w2 where 2: "forA (remove_marker H) ps w1 = (Inr (), w2)" "clean w2" "hs_suspects H w2 = hs_suspects H w1"
    "marker w2 = (\<lambda>u. case marker w1 u of None \<Rightarrow> None | Some s \<Rightarrow> if (u, s) \<in> set ps then None else Some s)" by (rule Cons.IH [OF _ 1(2)])
  have "marker w2 = (\<lambda>v. case marker w v of None \<Rightarrow> None | Some x \<Rightarrow> if (v, x) \<in> set (p # ps) then None else Some x)"
    unfolding 2(4) 1(4) p by (auto simp: fun_eq_iff split: option.split)
  with 1(1,3) 2(1,2,3) p show ?case by (intro Cons.prems(1)) (simp_all add: thenA_run)
qed (simp add: ret_run fun_eq_iff split: option.split)

lemma restores_E:
  assumes "clean w" and "\<forall>p \<in> set ps. snd p \<noteq> []"
  obtains w1 where "forA (restore_marker H) ps w = (Inr (), w1)" "clean w1" "hs_suspects H w1 = hs_suspects H w"
    "marker w1 = (\<lambda>u. case marker w u of None \<Rightarrow> map_of ps u | Some s \<Rightarrow> Some s)"
  using assms
proof (induction ps arbitrary: w thesis)
  case (Cons p ps)
  obtain u s where p: "p = (u, s)" "s \<noteq> []" using Cons.prems(3) by (cases p) auto
  obtain w1 where 1: "restore_marker H (u, s) w = (Inr (), w1)" "clean w1" "hs_suspects H w1 = hs_suspects H w"
    "marker w1 = (if marker w u = None then (marker w)(u \<mapsto> s) else marker w)" by (rule restore_E [OF Cons.prems(2) p(2)])
  obtain w2 where 2: "forA (restore_marker H) ps w1 = (Inr (), w2)" "clean w2" "hs_suspects H w2 = hs_suspects H w1"
    "marker w2 = (\<lambda>u. case marker w1 u of None \<Rightarrow> map_of ps u | Some s \<Rightarrow> Some s)"
    by (rule Cons.IH [OF _ 1(2)]) (use Cons.prems(3) in auto)
  have "marker w2 = (\<lambda>v. case marker w v of None \<Rightarrow> map_of (p # ps) v | Some x \<Rightarrow> Some x)"
    unfolding 2(4) 1(4) p by (auto simp: fun_eq_iff split: option.split)
  with 1(1,3) 2(1,2,3) p show ?case by (intro Cons.prems(1)) (simp_all add: thenA_run)
qed (simp add: ret_run fun_eq_iff split: option.split)

lemma touches_E:
  assumes "clean w" and "\<forall>u \<in> set us. marker w u \<noteq> None"
  obtains w1 where "forA (touch_marker H) us w = (Inr (), w1)" "clean w1" "hs_suspects H w1 = hs_suspects H w" "marker w1 = marker w"
  using assms
proof (induction us arbitrary: w thesis)
  case (Cons u us)
  then obtain s where s: "marker w u = Some s" by auto
  obtain w1 where 1: "touch_marker H u w = (Inr (), w1)" "clean w1" "hs_suspects H w1 = hs_suspects H w" "marker w1 = marker w"
    by (rule touch_E [OF Cons.prems(2) s])
  obtain w2 where 2: "forA (touch_marker H) us w1 = (Inr (), w2)" "clean w2" "hs_suspects H w2 = hs_suspects H w1" "marker w2 = marker w1"
    by (rule Cons.IH [OF _ 1(2)]) (use Cons.prems(3) 1(4) in auto)
  show ?case by (rule Cons.prems(1) [of w2]) (use 1(1,3,4) 2 in \<open>simp_all add: thenA_run\<close>)
qed (simp add: ret_run)

text \<open>One pass carries out the plan.\<close>

lemma pass_E:
  assumes "clean w"
  obtains c ms p w1 where "reconcileActiveStreamMarkers H w = (Inr c, w1)" "clean w1" "distinct (map fst ms)" "map_of ms = marker w"
    "p = planMarkerRepair ms (live_pairs rows) (hs_suspects H w)" "hs_suspects H w1 = rp_suspects p" "marker w1 = apply_plan p (marker w)"
proof -
  obtain ms where ms: "readMarkers H w = (Inr ms, w)" "distinct (map fst ms)" "map_of ms = marker w" by (rule readMarkers_E [OF assms])
  define p where "p = planMarkerRepair ms (live_pairs rows) (hs_suspects H w)"
  define w0 where "w0 = hs_putSuspects H (rp_suspects p) w"
  have 0: "clean w0" "hs_suspects H w0 = rp_suspects p" "marker w0 = marker w"
    using assms marker_of_cong [of kv w0 w] markers_clean_cong [of kv w0 w] by (auto simp: w0_def put)
  obtain w1 where 1: "forA (remove_marker H) (rp_del p) w0 = (Inr (), w1)" "clean w1" "hs_suspects H w1 = hs_suspects H w0"
    "marker w1 = (\<lambda>u. case marker w0 u of None \<Rightarrow> None | Some s \<Rightarrow> if (u, s) \<in> set (rp_del p) then None else Some s)"
    by (rule removes_E [OF 0(1)])
  have set_ok: "s \<noteq> [] \<and> map_of ms u = None" if "(u, s) \<in> set (rp_set p)" for u s
  proof -
    have "(u, s) \<in> set (missing ms (live_pairs rows))" using that by (simp add: p_def planMarkerRepair_def Let_def)
    then have "map_of (missing ms (live_pairs rows)) u = Some s" using missing_distinct by (simp add: map_of_is_SomeI)
    then show ?thesis using first_live_is_live [of "live_pairs rows" u s] by (auto simp: map_of_missing is_live_iff split: if_splits)
  qed
  obtain w2 where 2: "forA (restore_marker H) (rp_set p) w1 = (Inr (), w2)" "clean w2" "hs_suspects H w2 = hs_suspects H w1"
    "marker w2 = (\<lambda>u. case marker w1 u of None \<Rightarrow> map_of (rp_set p) u | Some s \<Rightarrow> Some s)"
    by (rule restores_E [OF 1(2)]) (use set_ok in auto)
  have m: "marker w2 = apply_plan p (marker w)"
  proof
    fix u
    have "map_of (rp_set p) u = None" if "marker w u = Some s" for s
      using set_ok [of u] that ms(3) by (auto simp: map_of_eq_None_iff)
    then show "marker w2 u = apply_plan p (marker w) u"
      unfolding 2(4) 1(4) 0(3) by (auto simp: apply_plan_def split: option.split)
  qed
  have t: "marker w2 u \<noteq> None" if u: "u \<in> set (rp_touch p)" for u
  proof -
    obtain q where q: "q \<in> set ms" "is_live (live_pairs rows) q" "u = fst q"
      using u unfolding p_def planMarkerRepair_def Let_def by auto
    define s where "s = snd q"
    have s: "(u, s) \<in> set ms" "is_live (live_pairs rows) (u, s)" using q by (simp_all add: s_def)
    then have "marker w u = Some s" using ms(2,3) by (metis map_of_is_SomeI)
    moreover have "(u, s) \<notin> set (rp_del p)" using s(2) by (simp add: p_def planMarkerRepair_def Let_def)
    ultimately show ?thesis unfolding m by (simp add: apply_plan_def)
  qed
  obtain w3 where 3: "forA (touch_marker H) (rp_touch p) w2 = (Inr (), w3)" "clean w3" "hs_suspects H w3 = hs_suspects H w2" "marker w3 = marker w2"
    by (rule touches_E [OF 2(2)]) (use t in blast)
  have "reconcileActiveStreamMarkers H w = (Inr (length ms, length rows, length (rp_del p), length (rp_set p)), w3)"
    using ms(1) rows_read [of w] assms 1(1) 2(1) 3(1)
    by (simp add: reconcileActiveStreamMarkers_def bindA_run thenA_run askA_run ret_run Let_def p_def [symmetric] w0_def [symmetric])
  then show thesis by (rule that [OF _ 3(2) ms(2,3) p_def]) (use 0 1(3) 2(3) 3(3,4) m in simp_all)
qed

lemma pass_progress:
  assumes "clean w"
  obtains c w1 where "reconcileActiveStreamMarkers H w = (Inr c, w1)" "clean w1"
    "\<And>u. passes_left (live_pairs rows) (hs_suspects H w1) (marker w1) u \<le> passes_left (live_pairs rows) (hs_suspects H w) (marker w) u - 1"
proof -
  obtain c ms p w1 where p: "reconcileActiveStreamMarkers H w = (Inr c, w1)" "clean w1" "distinct (map fst ms)" "map_of ms = marker w"
    "p = planMarkerRepair ms (live_pairs rows) (hs_suspects H w)" "hs_suspects H w1 = rp_suspects p" "marker w1 = apply_plan p (marker w)"
    by (rule pass_E [OF assms])
  show thesis by (rule that [OF p(1,2)]) (use plan_progress [OF p(3,5)] p(4,6,7) in simp)
qed

lemma passes_progress:
  assumes "clean w"
  obtains w1 where "forA (\<lambda>_. reconcile_pass H) ns w = (Inr (), w1)" "clean w1"
    "\<And>u. passes_left (live_pairs rows) (hs_suspects H w1) (marker w1) u \<le>
      passes_left (live_pairs rows) (hs_suspects H w) (marker w) u - length ns"
  using assms
proof (induction ns arbitrary: w thesis)
  case (Cons n ns)
  obtain c w1 where 1: "reconcileActiveStreamMarkers H w = (Inr c, w1)" "clean w1"
    "\<And>u. passes_left (live_pairs rows) (hs_suspects H w1) (marker w1) u \<le> passes_left (live_pairs rows) (hs_suspects H w) (marker w) u - 1"
    by (rule pass_progress [OF Cons.prems(2)]) blast
  obtain w2 where 2: "forA (\<lambda>_. reconcile_pass H) ns w1 = (Inr (), w2)" "clean w2"
    "\<And>u. passes_left (live_pairs rows) (hs_suspects H w2) (marker w2) u \<le>
      passes_left (live_pairs rows) (hs_suspects H w1) (marker w1) u - length ns" by (rule Cons.IH [OF _ 1(2)]) blast
  have "passes_left (live_pairs rows) (hs_suspects H w2) (marker w2) u \<le>
      passes_left (live_pairs rows) (hs_suspects H w) (marker w) u - length (n # ns)" for u
    using 1(3) [of u] 2(3) [of u] by simp
  moreover have "reconcile_pass H w = (Inr (), w1)" using 1(1) by (simp add: reconcile_pass_def thenA_run ret_run)
  ultimately show ?case using 2(1,2) by (intro Cons.prems(1)) (simp_all add: thenA_run)
qed (simp add: ret_run)

end

text \<open>
  C10: The reconciler converges: after four passes in which nobody else writes, every marker in Redis points at a stream of its user
  that is live, and every host of a live stream has a marker, whatever the markers were before.
\<close>

theorem reconciler_converges:
  assumes "marker_store H kv clk up rows" and "up w" and "markers_clean kv w"
  shows "\<exists>w1. forA (\<lambda>_. reconcile_pass H) [0..<4] w = (Inr (), w1) \<and>
    (\<forall>u. case marker_of kv w1 u of
        Some s \<Rightarrow> (u, s) \<in> set (live_pairs rows)
      | None \<Rightarrow> u = [] \<or> (\<forall>s. s \<noteq> [] \<longrightarrow> (u, s) \<notin> set (live_pairs rows)))"
proof -
  have c: "up w \<and> markers_clean kv w" using assms by simp
  obtain w1 where 1: "forA (\<lambda>_. reconcile_pass H) [0..<4] w = (Inr (), w1)"
    "\<And>u. passes_left (live_pairs rows) (hs_suspects H w1) (marker_of kv w1) u \<le>
      passes_left (live_pairs rows) (hs_suspects H w) (marker_of kv w) u - length [0..<4 :: nat]"
    by (rule marker_store.passes_progress [OF assms(1) c, of "[0..<4]"]) blast
  have z: "passes_left (live_pairs rows) (hs_suspects H w1) (marker_of kv w1) u = 0" for u
    using 1(2) [of u] passes_left_max [of "live_pairs rows" "hs_suspects H w" "marker_of kv w" u] by simp
  have "case marker_of kv w1 u of Some s \<Rightarrow> (u, s) \<in> set (live_pairs rows)
      | None \<Rightarrow> u = [] \<or> (\<forall>s. s \<noteq> [] \<longrightarrow> (u, s) \<notin> set (live_pairs rows))" for u
    using z [of u] unfolding passes_left_0 by (auto simp: is_live_iff split: option.splits)
  with 1(1) show ?thesis by blast
qed

section \<open>A concrete store\<close>

record status_mem = mem +
  hm_suspects :: "string list"
  hm_rows :: "live_db_row list"

definition demo_rows :: "live_db_row list" where
  "demo_rows = [\<lparr>ld_id = ''1'', ld_streamId = Some ''s1'', ld_userId = ''h1''\<rparr>]"

definition mem_status :: "status_mem status_env" where
  "mem_status = \<lparr>hs_redis = mem_redis, hs_cluster = \<lparr>LEADER_TTL_MS = 30000, local_when_down = True\<rparr>,
     hs_scan = (\<lambda>p w. (Inr (sorted_list_of_set {k \<in> dom (mem_live w). startsWith k p}), w)),
     hs_unlink = r_del mem_redis, hs_publish = (\<lambda>_ _. ret ()), hs_rows = ret demo_rows,
     hs_suspects = hm_suspects, hs_putSuspects = (\<lambda>xs w. w\<lparr>hm_suspects := xs\<rparr>),
     hs_node = (\<lambda>_. new_node ''n''),
     hs_putNode = (\<lambda>_ w. w)\<rparr>"

lemma mem_status_sel [simp]:
  "hs_redis mem_status = mem_redis" "hs_suspects mem_status = hm_suspects"
  "hs_putSuspects mem_status xs w = w\<lparr>hm_suspects := xs\<rparr>" "hs_rows mem_status = ret demo_rows" "hs_publish mem_status c m = ret ()"
  "hs_scan mem_status p w = (Inr (sorted_list_of_set {k \<in> dom (mem_live w). startsWith k p}), w)"
  by (simp_all add: mem_status_def)

interpretation memstatus: marker_store mem_status mem_live m_clk "\<lambda>_. True" demo_rows
proof (intro marker_store.intro marker_store_axioms.intro)
  show "redis_kv (hs_redis mem_status) mem_live m_clk (\<lambda>_. True)"
    using mem.redis_kv_axioms by simp
next
  fix w :: status_mem and p
  assume "finite (dom (mem_live w))"
  then show "\<exists>ks. hs_scan mem_status p w = (Inr ks, w) \<and> set ks = {k \<in> dom (mem_live w). startsWith k p}" by simp
next
  fix w :: status_mem and xs
  show "mem_live (hs_putSuspects mem_status xs w) = mem_live w" by (auto intro!: mem_live_same)
qed (auto simp: mem_redis_def ret_run keeps_def split: option.split)

text \<open>Host \<open>h1\<close> is live on \<open>s1\<close>; his marker points at an old stream, and \<open>h2\<close> has one though he is not live.\<close>

definition status0 :: status_mem where
  "status0 = mem.extend ((mem0 0)\<lparr>m_kv := [activeStreamKey ''h1'' \<mapsto> (Raw ''old'', None), activeStreamKey ''h2'' \<mapsto> (Raw ''s2'', None)]\<rparr>)
     \<lparr>hm_suspects = [], hm_rows = demo_rows\<rparr>"

lemma status0_clean: "markers_clean mem_live status0"
proof -
  have "mem_live status0 = [activeStreamKey ''h1'' \<mapsto> (Raw ''old'', None), activeStreamKey ''h2'' \<mapsto> (Raw ''s2'', None)]"
    by (auto simp: status0_def mem_live_def mem.defs fun_eq_iff)
  then show ?thesis by (auto simp: markers_clean_def)
qed

theorem reconciler_converges_witness:
  "\<exists>w1. forA (\<lambda>_. reconcile_pass mem_status) [0..<4] status0 = (Inr (), w1) \<and>
    marker_of mem_live w1 ''h1'' = Some ''s1'' \<and> marker_of mem_live w1 ''h2'' = None"
proof -
  obtain w1 where 1: "forA (\<lambda>_. reconcile_pass mem_status) [0..<4] status0 = (Inr (), w1)"
    and m: "\<And>u. case marker_of mem_live w1 u of Some s \<Rightarrow> (u, s) \<in> set (live_pairs demo_rows)
      | None \<Rightarrow> u = [] \<or> (\<forall>s. s \<noteq> [] \<longrightarrow> (u, s) \<notin> set (live_pairs demo_rows))"
    using reconciler_converges [OF memstatus.marker_store_axioms TrueI status0_clean] by blast
  have "set (live_pairs demo_rows) = {(''h1'', ''s1'')}" by (simp add: live_pairs_def demo_rows_def truthy_str_def)
  with m [of "''h1''"] m [of "''h2''"] 1 show ?thesis by (auto split: option.splits)
qed

end
