(* ===== verification/Frame_Moderation.thy ===== *)
theory Frame_Moderation
  imports Async_Utils Call_Safety Restrictions
begin

text \<open>
  The frame checks of live streams: \<open>modules/videoCall/aws.service.js\<close> (\<open>moderateImage\<close> behind its circuit breaker),
  \<open>config/moderation.js\<close>, and of \<open>routes/service/serviceLive.js\<close> \<open>verifyStreamFrameService\<close> with its automatic ban,
  \<open>reportFakeLiveService\<close> and the effect settings of a user. AWS is a parameter; a buffer is its bytes.
\<close>

section \<open>Images\<close>

text \<open>\<open>base64Image.replace(/^data:image\/\w+;base64,/, "")\<close>\<close>

definition word_char :: "char \<Rightarrow> bool" where
  "word_char c \<longleftrightarrow> c = CHR ''_'' \<or> (let n = of_char c :: nat in 48 \<le> n \<and> n \<le> 57 \<or> 65 \<le> n \<and> n \<le> 90 \<or> 97 \<le> n \<and> n \<le> 122)"

definition strip_data_url :: "string \<Rightarrow> string" where
  "strip_data_url s =
     (if startsWith s ''data:image/'' then
        let r = drop 11 s; kind = takeWhile word_char r; rest = dropWhile word_char r in
        if kind \<noteq> [] \<and> startsWith rest '';base64,'' then drop 8 rest else s
      else s)"

text \<open>\<open>Buffer.from(s, "base64")\<close>: the two alphabets; other characters are skipped.\<close>

definition b64_val :: "char \<Rightarrow> nat option" where
  "b64_val c = (let n = of_char c :: nat in
     if 65 \<le> n \<and> n \<le> 90 then Some (n - 65) else if 97 \<le> n \<and> n \<le> 122 then Some (n - 71)
     else if 48 \<le> n \<and> n \<le> 57 then Some (n + 4)
     else if c = CHR ''+'' \<or> c = CHR ''-'' then Some 62 else if c = CHR ''/'' \<or> c = CHR ''_'' then Some 63 else None)"

fun b64_bytes :: "nat list \<Rightarrow> nat list" where
  "b64_bytes (a # b # c # d # r) = [a * 4 + b div 16, b mod 16 * 16 + c div 4, c mod 4 * 64 + d] @ b64_bytes r"
| "b64_bytes [a, b, c] = [a * 4 + b div 16, b mod 16 * 16 + c div 4]"
| "b64_bytes [a, b] = [a * 4 + b div 16]"
| "b64_bytes _ = []"

definition Buffer_from_base64 :: "string \<Rightarrow> nat list" where
  "Buffer_from_base64 s = b64_bytes (List.map_filter b64_val s)"

section \<open>moderateImage\<close>

record 'w aws_env =
  aw_env :: "string \<Rightarrow> string option"
  aw_now :: "'w \<Rightarrow> int"
  aw_breaker :: "'w \<Rightarrow> breaker"
  aw_putBreaker :: "breaker \<Rightarrow> 'w \<Rightarrow> 'w"
  aw_detect :: "nat list \<Rightarrow> ('w, jsval list) act"             \<comment> \<open>\<open>ModerationLabels\<close> of \<open>DetectModerationLabels\<close>\<close>
  aw_put :: "nat list \<Rightarrow> string \<Rightarrow> string \<Rightarrow> ('w, unit) act"   \<comment> \<open>\<open>PutObject\<close>: body, bucket, key\<close>

definition isNudeMonitoringEnabled :: "(string \<Rightarrow> string option) \<Rightarrow> bool" where
  "isNudeMonitoringEnabled env \<longleftrightarrow> env ''ENABLE_NUDE_MONITORING'' \<in> {Some ''true'', Some ''1''}"

definition REKOGNITION_INPUT_ERRORS :: "string list" where
  "REKOGNITION_INPUT_ERRORS =
     [''InvalidImageFormatException'', ''ImageTooLargeException'', ''InvalidParameterException'', ''ValidationException'']"

definition rekognition_cfg :: breaker_cfg where
  "rekognition_cfg = \<lparr>cb_threshold = 5, cb_openMs = 30000\<rparr>"

definition CircuitOpenError :: "string \<Rightarrow> exn" where
  "CircuitOpenError name = (Error (name @ '' circuit open''))\<lparr>e_name := ''CircuitOpenError'', e_code := Some ''CIRCUIT_OPEN''\<rparr>"

definition rekognition_exec :: "'w aws_env \<Rightarrow> ('w, 'a) act \<Rightarrow> ('w, 'a) act" where
  "rekognition_exec A fn = (\<lambda>w. case breaker_admit rekognition_cfg (aw_now A w) (aw_breaker A w) of
       None \<Rightarrow> (Inl (CircuitOpenError ''rekognition-moderation''), w)
     | Some (trial, B) \<Rightarrow> (case fn (aw_putBreaker A B w) of
         (r, w1) \<Rightarrow> (r, aw_putBreaker A (breaker_settle rekognition_cfg (aw_now A w1) trial
           (case r of Inr _ \<Rightarrow> Went_well | Inl e \<Rightarrow> Went_wrong (e_name e \<notin> set REKOGNITION_INPUT_ERRORS)) (aw_breaker A w1)) w1)))"

definition uploadFlaggedFrameToS3 :: "'w aws_env \<Rightarrow> nat list \<Rightarrow> string \<Rightarrow> ('w, string) act" where
  "uploadFlaggedFrameToS3 A buffer s3Key =
     (let bucketName = the (or_str (aw_env A ''S3_BUCKET'') (or_str (aw_env A ''AWS_S3_BUCKET'') (Some ''ol-app-storage''))) in
      thenA (aw_put A buffer bucketName s3Key) (ret bucketName))"

text \<open>The answer of a check: clean, or label, confidence and whether it blocks (else it warns).\<close>

datatype frame_check = Clean | Violation (fc_label: jsval) (fc_confidence: rat) (fc_block: bool)

definition blockCategories :: "jsval list" where
  "blockCategories = [Str ''Explicit Nudity'', Str ''Sexual Activity'']"

definition label_blocks :: "jsval \<Rightarrow> bool" where
  "label_blocks l \<longleftrightarrow> get_field l ''Name'' \<in> set blockCategories \<or> get_field l ''ParentName'' \<in> set blockCategories"

definition confidence_of :: "jsval \<Rightarrow> rat" where
  "confidence_of l = (case js_Number (get_field l ''Confidence'') of None \<Rightarrow> 0 | Some q \<Rightarrow> q)"

definition judge_labels :: "jsval list \<Rightarrow> frame_check" where
  "judge_labels labels = (case find label_blocks labels of
       None \<Rightarrow> Clean
     | Some l \<Rightarrow> Violation (get_field l ''Name'') (confidence_of l) (85 \<le> confidence_of l))"

definition moderateImage :: "'w aws_env \<Rightarrow> nat list \<Rightarrow> ('w, frame_check) act" where
  "moderateImage A buffer =
     (if \<not> isNudeMonitoringEnabled (aw_env A) then ret Clean
      else if aw_env A ''MOCK_MODERATION'' = Some ''true'' then ret (Violation (Str ''Mock Explicit Nudity'') (999 / 10) True)
      else bindA (rekognition_exec A (aw_detect A buffer)) (\<lambda>labels. ret (judge_labels labels)))"

section \<open>verifyStreamFrameService\<close>

text \<open>The tables of bans and logs; \<open>mv_endRow\<close> is the plain \<open>update({ where: { id } })\<close>.\<close>

record 'w moderation_env =
  mv_aws :: "'w aws_env"
  mv_redis :: "'w redis"
  mv_life :: "'w life_env"
  mv_db :: "'w life_db"
  mv_logFrame :: "jsval \<Rightarrow> ('w, unit) act"
  mv_endRow :: "string \<Rightarrow> int \<Rightarrow> int \<Rightarrow> string \<Rightarrow> ('w, unit) act"
  mv_countBans :: "string \<Rightarrow> ('w, nat) act"
  mv_suspend :: "string \<Rightarrow> int \<Rightarrow> ('w, unit) act"              \<comment> \<open>\<open>user.update({ suspended_until })\<close>\<close>
  mv_createBan :: "string \<Rightarrow> string \<Rightarrow> nat \<Rightarrow> int \<Rightarrow> int \<Rightarrow> ('w, unit) act"   \<comment> \<open>user, stream, number, hours, until\<close>
  mv_restrict :: "string \<Rightarrow> string \<Rightarrow> string \<Rightarrow> int \<Rightarrow> ('w, unit) act"       \<comment> \<open>user, type, reason, until\<close>
  mv_report :: "jsval \<Rightarrow> ('w, string) act"
  mv_settings :: "string \<Rightarrow> ('w, jsval) act"
  mv_createSettings :: "string \<Rightarrow> jsval \<Rightarrow> ('w, jsval) act"
  mv_upsertSettings :: "string \<Rightarrow> (string \<times> jsval) list \<Rightarrow> ('w, jsval) act"

definition upload_flagged :: "'w aws_env \<Rightarrow> ('w \<Rightarrow> int) \<Rightarrow> string \<Rightarrow> string \<Rightarrow> nat list \<Rightarrow> ('w, string \<times> jsval) act" where
  "upload_flagged A now folder i buffer =
     bindA (askA now) (\<lambda>t. let s3Key = folder @ i @ ''_'' @ int_str t @ ''.jpg'' in
       bindA (catchA (bindA (uploadFlaggedFrameToS3 A buffer s3Key) (\<lambda>b. ret (Str b))) (\<lambda>_. ret Null)) (\<lambda>bucket.
         ret (s3Key, bucket)))"

definition action_name :: "frame_check \<Rightarrow> jsval" where
  "action_name c = Str (if fc_block c then ''BLOCK'' else ''WARNING'')"

definition frame_log :: "string \<Rightarrow> string \<Rightarrow> frame_check \<Rightarrow> string \<times> jsval \<Rightarrow> jsval" where
  "frame_log idField i c f = Obj
     [(idField, Str i), (''detectedLabel'', fc_label c), (''confidence'', Num (fc_confidence c)), (''action'', action_name c),
      (''s3Key'', Str (fst f)), (''s3Bucket'', snd f)]"

definition moderation_keys :: "jsval \<Rightarrow> string \<Rightarrow> string list" where
  "moderation_keys stream i =
     (let s = js_String (get_field stream ''streamId'') in
      [key ''user:active_stream'' (js_String (get_field stream ''userId'')), key ''stream:info'' s, key ''stream:info'' i,
       key ''stream:active'' s, key ''stream:history'' s, key ''stream:chats'' s, key ''stream:admins'' s, key ''stream:kicked'' s,
       key ''stream:password'' s, key ''stream:sheet'' s])"

text \<open>The row is ended whether or not somebody has ended it meanwhile.\<close>

definition moderation_end :: "'w moderation_env \<Rightarrow> jsval \<Rightarrow> string \<Rightarrow> ('w, unit) act" where
  "moderation_end M stream i =
     (let s = js_String (get_field stream ''streamId'') in
      bindA (askA (en_now (mv_life M))) (\<lambda>endedAt.
      bindA (time_of (js_or (get_field stream ''startedAt'') (js_or (get_field stream ''createdAt'') (NumI endedAt)))) (\<lambda>startedAt.
      bindA (end_duration (mv_redis M) s startedAt endedAt) (\<lambda>effectiveDurationSeconds.
      thenA (mv_endRow M i endedAt effectiveDurationSeconds ''AI_MODERATION_NUDITY_BLOCK'')
      (thenA (sync_chats (mv_redis M) (mv_db M) s)
      (thenA (quietly (r_del (mv_redis M) (moderation_keys stream i)))
        (quietly (en_publishLiveStatus (mv_life M) (js_String (get_field stream ''userId'')) False None))))))))"

definition ban_hours :: "nat \<Rightarrow> int" where
  "ban_hours banNumber = (if banNumber = 1 then 1 else if banNumber = 2 then 8 else if banNumber = 3 then 24 else 72)"

definition cache_ban :: "'w moderation_env \<Rightarrow> string \<Rightarrow> int \<Rightarrow> int \<Rightarrow> ('w, unit) act" where
  "cache_ban M userId hours until = ifOpen (mv_redis M)
     (quietly
       (thenA (r_set (mv_redis M) (key ''user:suspended'' userId) (Raw ''true'') (ex_s (hours * 3600)))
         (r_set (mv_redis M) (restr_key userId ''LIVE_STREAM_START_BAN'')
           (JSON_stringify (Obj [(''restrictionType'', Str ''LIVE_STREAM_START_BAN''), (''reason'', Str ''AI Moderation Nudity Violation''),
             (''restrictedUntil'', NumI until)])) (ex_s (hours * 3600)))))
     (ret ())"

text \<open>The \<open>try\<close> block of the ban; what it had worked out when it failed is told to the room all the same.\<close>

definition apply_ban :: "'w moderation_env \<Rightarrow> jsval \<Rightarrow> string \<Rightarrow> ('w, nat \<times> int \<times> int) act" where
  "apply_ban M stream i =
     (let userId = js_String (get_field stream ''userId'') in
      bindA (askA (en_now (mv_life M))) (\<lambda>t0.
      bindA (catchA (bindA (mv_countBans M userId) (\<lambda>n. ret (Some (n + 1)))) (\<lambda>_. ret None)) (\<lambda>banNumber.
        case banNumber of
          None \<Rightarrow> ret (1, 1, t0 + 3600000)
        | Some n \<Rightarrow>
            bindA (askA (en_now (mv_life M))) (\<lambda>t1. let until = t1 + ban_hours n * 3600000 in
            thenA (quietly
              (thenA (mv_suspend M userId until)
              (thenA (cache_ban M userId (ban_hours n) until)
              (thenA (mv_createBan M userId i n (ban_hours n) until)
                (quietly (mv_restrict M userId ''LIVE_STREAM_START_BAN''
                  (''AI Moderation Nudity Violation (Ban #'' @ int_str (int n) @ '')'') until))))))
              (ret (n, ban_hours n, until))))))"

definition block_stream :: "'w moderation_env \<Rightarrow> jsval \<Rightarrow> string \<Rightarrow> jsval \<Rightarrow> ('w, jsval) act" where
  "block_stream M stream i label =
     (let s = js_String (get_field stream ''streamId'') in
      thenA (moderation_end M stream i)
      (bindA (apply_ban M stream i) (\<lambda>(banNumber, banDurationHours, suspendedUntil).
       thenA (en_broadcast (mv_life M) s ''stream_blocked'' (Obj
          [(''streamId'', Str i), (''reason'', Str ''VIOLATION_NUDITY''),
           (''message'', Str ''This live stream has been terminated by moderation due to explicit content violation.''),
           (''suspendedUntil'', NumI suspendedUntil), (''banDurationHours'', NumI banDurationHours), (''banNumber'', NumI (int banNumber))]))
       (thenA (closeLivekitRoom (mv_life M) s)
         (ret (Obj [(''status'', Str ''BLOCKED''), (''label'', label), (''banDurationHours'', NumI banDurationHours),
            (''banNumber'', NumI (int banNumber)), (''suspendedUntil'', NumI suspendedUntil)]))))))"

definition warn_stream :: "'w moderation_env \<Rightarrow> jsval \<Rightarrow> string \<Rightarrow> frame_check \<Rightarrow> ('w, jsval) act" where
  "warn_stream M stream i c =
     thenA (en_broadcast (mv_life M) (js_String (get_field stream ''streamId'')) ''stream_warning'' (Obj
        [(''streamId'', Str i),
         (''message'', Str ''Moderation Warning: Inappropriate content detected. Please keep the stream appropriate.''),
         (''label'', fc_label c), (''confidence'', Num (fc_confidence c))]))
       (ret (Obj [(''status'', Str ''WARNING''), (''label'', fc_label c), (''confidence'', Num (fc_confidence c))]))"

text \<open>What follows the answer of the check.\<close>

definition act_on_check :: "'w moderation_env \<Rightarrow> jsval \<Rightarrow> string \<Rightarrow> nat list \<Rightarrow> frame_check \<Rightarrow> ('w, jsval) act" where
  "act_on_check M stream i buffer c = (case c of
       Clean \<Rightarrow> ret (Obj [(''isViolation'', JBool False), (''status'', Str ''CLEAN'')])
     | Violation label conf block \<Rightarrow>
         bindA (upload_flagged (mv_aws M) (en_now (mv_life M)) ''live-stream-moderation/'' i buffer) (\<lambda>f.
         thenA (quietly (mv_logFrame M (frame_log ''streamId'' i c f)))
           (if block then block_stream M stream i label else warn_stream M stream i c)))"

definition verifyStreamFrameService :: "'w moderation_env \<Rightarrow> string \<Rightarrow> string \<Rightarrow> ('w, jsval) act" where
  "verifyStreamFrameService M i base64Image =
     bindA (rd_stream_by_id (mv_db M) i) (\<lambda>stream.
       if \<not> truthy stream then throw (Error ''Live stream not found.'')
       else if \<not> truthy (get_field stream ''isLive'') then
         ret (Obj [(''success'', JBool True), (''status'', Str ''INACTIVE''), (''message'', Str ''Stream is not currently live.'')])
       else let buffer = Buffer_from_base64 (strip_data_url base64Image) in
         bindA (moderateImage (mv_aws M) buffer) (act_on_check M stream i buffer))"

section \<open>Reports and effect settings\<close>

definition reportFakeLiveService :: "'w moderation_env \<Rightarrow> string \<Rightarrow> string \<Rightarrow> string option \<Rightarrow> jsval \<Rightarrow> ('w, jsval) act" where
  "reportFakeLiveService M streamDbId reporterId base64Image additionalInfo =
     bindA (rd_stream_by_id (mv_db M) streamDbId) (\<lambda>stream.
       if \<not> truthy stream then throw (Error ''Live stream not found.'')
       else if \<not> truthy (get_field stream ''isLive'') then throw (Error ''This live stream is not currently active.'')
       else if get_field stream ''userId'' = Str reporterId then throw (Error ''You cannot report your own live stream.'')
       else if \<not> truthy_str base64Image then throw (Error ''Screenshot image is required for this report.'')
       else
         bindA (askA (en_now (mv_life M))) (\<lambda>t.
           let s3Key = ''live-reports/fake-person/'' @ streamDbId @ ''_'' @ int_str t @ ''.jpg'' in
           thenA (catchA (thenA (uploadFlaggedFrameToS3 (mv_aws M) (Buffer_from_base64 (strip_data_url (the base64Image))) s3Key) (ret ()))
              (\<lambda>_. throw (Error ''Failed to upload evidence image. Please try again.'')))
           (bindA (mv_report M (Obj
              [(''reporterId'', Str reporterId), (''reportedUserId'', get_field stream ''userId''),
               (''host_user_id'', get_field stream ''userId''), (''live_session_id'', get_field stream ''id''),
               (''reason'', Str ''FAKE_ACCOUNT''), (''context'', Str ''LIVE''),
               (''additionalInfo'', js_or additionalInfo (Str ''Fake person live reported during stream'')),
               (''evidenceS3Keys'', Arr [Str s3Key]), (''status'', Str ''PENDING'')])) (\<lambda>r.
             ret (Obj [(''success'', JBool True), (''reportId'', Str r)])))))"

definition effect_fields :: "string list" where
  "effect_fields = [''effectTopRunway'', ''effectGift'', ''effectLuckyGift'', ''effectEntry'', ''effectGlobal'']"

definition effects_key :: "string \<Rightarrow> string" where
  "effects_key userId = ''user:effect_settings:'' @ userId"

definition getUserEffectSettingsService :: "'w moderation_env \<Rightarrow> string \<Rightarrow> ('w, jsval) act" where
  "getUserEffectSettingsService M userId =
     bindA (r_get (mv_redis M) (effects_key userId)) (\<lambda>cached.
       if truthy_text cached then parseA (the cached)
       else bindA (mv_settings M userId) (\<lambda>row.
         bindA (if truthy row then ret row
                else mv_createSettings M userId (Obj (map (\<lambda>f. (f, JBool True)) effect_fields))) (\<lambda>settings.
           thenA (r_set (mv_redis M) (effects_key userId) (JSON_stringify settings) (ex_s 86400)) (ret settings))))"

definition is_bool :: "jsval \<Rightarrow> bool" where
  "is_bool v = (case v of JBool _ \<Rightarrow> True | _ \<Rightarrow> False)"

definition effect_update :: "jsval \<Rightarrow> (string \<times> jsval) list" where
  "effect_update newSettings = map (\<lambda>f. (f, get_field newSettings f)) (filter (\<lambda>f. is_bool (get_field newSettings f)) effect_fields)"

definition updateUserEffectSettingsService :: "'w moderation_env \<Rightarrow> string \<Rightarrow> jsval \<Rightarrow> ('w, jsval) act" where
  "updateUserEffectSettingsService M userId newSettings =
     bindA (mv_upsertSettings M userId (effect_update newSettings)) (\<lambda>settings.
       thenA (r_set (mv_redis M) (effects_key userId) (JSON_stringify settings) (ex_s 86400)) (ret settings))"

section \<open>Bans\<close>

text \<open>\<open>bans w u\<close>: the bans of a host so far, number and hours, the newest first. No other table or service touches them.\<close>

locale ban_table =
  fixes M :: "'w moderation_env" and bans :: "'w \<Rightarrow> string \<Rightarrow> (nat \<times> int) list"
  assumes count: "mv_countBans M u w = (Inr (length (bans w u)), w)"
    and create: "\<exists>w1. mv_createBan M u i n h t w = (Inr (), w1) \<and> bans w1 = (bans w)(u := (n, h) # bans w u)"
    and suspend: "\<exists>w1. mv_suspend M u t w = (Inr (), w1) \<and> bans w1 = bans w"
    and redis_frame: "keeps (\<lambda>w. bans w = b) (r_get (mv_redis M) k)" "keeps (\<lambda>w. bans w = b) (r_set (mv_redis M) k txt opt)"
      "keeps (\<lambda>w. bans w = b) (r_del (mv_redis M) ks)" "keeps (\<lambda>w. bans w = b) (r_lrange (mv_redis M) k)"
    and tables_frame: "keeps (\<lambda>w. bans w = b) (mv_logFrame M v)" "keeps (\<lambda>w. bans w = b) (mv_endRow M i t d reason)"
      "keeps (\<lambda>w. bans w = b) (mv_restrict M u typ why t)" "keeps (\<lambda>w. bans w = b) (lf_createMessages (mv_db M) vs)"
    and services_frame: "keeps (\<lambda>w. bans w = b) (aw_put (mv_aws M) buffer bucket path)"
      "keeps (\<lambda>w. bans w = b) (en_publishLiveStatus (mv_life M) u live sid)"
      "keeps (\<lambda>w. bans w = b) (en_broadcast (mv_life M) room ev v)"
      "keeps (\<lambda>w. bans w = b) (en_deleteRoom (mv_life M) room)"
begin

lemmas bans_frames = redis_frame tables_frame services_frame

lemma keeps_time_of [keeps_intros]: "keeps Q (time_of v)"
  by (cases v) (auto simp: time_of_def intro: keeps_intros)

lemma keeps_parse_all [keeps_intros]: "keeps Q (parse_all ts)"
  by (induction ts) (auto intro!: keeps_intros)

lemma end_frame: "keeps (\<lambda>w. bans w = b) (moderation_end M stream i)"
  unfolding moderation_end_def end_duration_def sync_chats_def Let_def
  by (intro keeps_intros keeps_time_of keeps_parse_all bans_frames)

lemma upload_frame: "keeps (\<lambda>w. bans w = b) (upload_flagged (mv_aws M) now folder i buffer)"
  unfolding upload_flagged_def uploadFlaggedFrameToS3_def Let_def by (intro keeps_intros bans_frames)

lemma cache_frame: "keeps (\<lambda>w. bans w = b) (cache_ban M u h t)"
  unfolding cache_ban_def by (intro keeps_intros bans_frames)

lemma cache_returns: "fst (cache_ban M u h t w) = Inr ()"
  by (simp add: cache_ban_def ifOpen_run quietly_run ret_run)

lemma apply_ban_E:
  assumes "u = js_String (get_field stream ''userId'')" and "n = Suc (length (bans w u))"
  obtains until w1 where "apply_ban M stream i w = (Inr (n, ban_hours n, until), w1)" "bans w1 = (bans w)(u := (n, ban_hours n) # bans w u)"
proof -
  define until where "until = en_now (mv_life M) w + ban_hours n * 3600000"
  obtain w1 where 1: "mv_suspend M u until w = (Inr (), w1)" "bans w1 = bans w" using suspend by blast
  obtain x w2 where 2: "cache_ban M u (ban_hours n) until w1 = (x, w2)" by (rule prod.exhaust)
  have x: "x = Inr ()" using cache_returns [of u "ban_hours n" until w1] 2 by simp
  have b2: "bans w2 = bans w" by (rule keepsD [OF cache_frame 2 1(2)])
  obtain w3 where 3: "mv_createBan M u i n (ban_hours n) until w2 = (Inr (), w3)" "bans w3 = (bans w2)(u := (n, ban_hours n) # bans w2 u)"
    using create by blast
  define why where "why = ''AI Moderation Nudity Violation (Ban #'' @ int_str (int n) @ '')''"
  let ?r = "quietly (mv_restrict M u ''LIVE_STREAM_START_BAN'' why until)"
  obtain w4 where 4: "?r w3 = (Inr (), w4)" by (simp only: quietly_run that)
  have k4: "keeps (\<lambda>w'. bans w' = bans w3) ?r" by (intro keeps_intros bans_frames)
  have b4: "bans w4 = bans w3" by (rule keepsD [OF k4 4 refl])
  have n: "length (bans w u) + 1 = n" using assms(2) by simp
  have "apply_ban M stream i w = (Inr (n, ban_hours n, until), w4)"
    unfolding apply_ban_def Let_def assms(1) [symmetric]
    using 1(1) 2 3(1) 4 x count [of u w] n
    by (simp add: bindA_run thenA_run askA_run catchA_run ret_run until_def [symmetric] why_def [symmetric] quietly_run del: append.simps)
  with that show thesis using b2 b4 3(2) by simp
qed

lemma block_bans:
  assumes "u = js_String (get_field stream ''userId'')" and "n = Suc (length (bans w u))"
    and "act_on_check M stream i buffer (Violation l c True) w = (Inr r, w1)"
  shows "bans w1 = (bans w)(u := (n, ban_hours n) # bans w u) \<and> get_field r ''banNumber'' = NumI (int n) \<and>
    get_field r ''banDurationHours'' = NumI (ban_hours n)"
proof -
  obtain f wa where a: "upload_flagged (mv_aws M) (en_now (mv_life M)) ''live-stream-moderation/'' i buffer w = (Inr f, wa)"
    using assms(3) by (auto simp: act_on_check_def bindA_run split: prod.splits sum.splits)
  have ba: "bans wa = bans w" by (rule keepsD [OF upload_frame a refl])
  let ?log = "quietly (mv_logFrame M (frame_log ''streamId'' i (Violation l c True) f))"
  obtain x wb where b: "?log wa = (x, wb)" by (rule prod.exhaust)
  have kb: "keeps (\<lambda>w'. bans w' = bans w) ?log" by (intro keeps_intros bans_frames)
  have bb: "bans wb = bans w" by (rule keepsD [OF kb b ba])
  have "block_stream M stream i l wb = (Inr r, w1)" using assms(3) a b by (simp add: act_on_check_def bindA_run thenA_run quietly_run)
  then obtain wc where e: "moderation_end M stream i wb = (Inr (), wc)"
    by (auto simp: block_stream_def Let_def thenA_run split: prod.splits sum.splits)
  have bc: "bans wc = bans w" by (rule keepsD [OF end_frame e bb])
  obtain until wd where d: "apply_ban M stream i wc = (Inr (n, ban_hours n, until), wd)" "bans wd = (bans wc)(u := (n, ban_hours n) # bans wc u)"
    by (rule apply_ban_E [OF assms(1), of n wc i]) (simp add: bc assms(2))
  let ?s = "js_String (get_field stream ''streamId'')"
  obtain v y we where s: "en_broadcast (mv_life M) ?s ''stream_blocked'' v wd = (y, we)" and y: "y = Inr ()"
    and r: "thenA (closeLivekitRoom (mv_life M) ?s) (ret (Obj [(''status'', Str ''BLOCKED''), (''label'', l),
        (''banDurationHours'', NumI (ban_hours n)), (''banNumber'', NumI (int n)), (''suspendedUntil'', NumI until)])) we = (Inr r, w1)"
    using \<open>block_stream M stream i l wb = (Inr r, w1)\<close> e d(1)
    by (auto simp: block_stream_def Let_def thenA_run bindA_run split: prod.splits sum.splits)
  have be: "bans we = bans wd" by (rule keepsD [OF services_frame(3) s refl])
  obtain z wf where c: "closeLivekitRoom (mv_life M) ?s we = (z, wf)" by (rule prod.exhaust)
  have kc: "keeps (\<lambda>w'. bans w' = bans wd) (closeLivekitRoom (mv_life M) ?s)"
    unfolding closeLivekitRoom_def by (intro keeps_intros bans_frames)
  have "bans wf = bans wd" by (rule keepsD [OF kc c be])
  then show ?thesis using r c d(2) bc by (auto simp: thenA_run ret_run get_field_def split: sum.splits)
qed

end

text \<open>
  C28: Two frames of the same stream that are judged while it is live ban its host twice: the second one counts the ban of the first
  and makes it eight hours instead of one. Only the read at the start asks whether the stream is live; the end of the row is not
  conditional, as it is in \<open>endLiveStreamService\<close>.
\<close>

theorem two_flagged_frames_ban_twice:
  assumes "ban_table M bans" and "u = js_String (get_field stream ''userId'')" and "bans w u = []"
    and "act_on_check M stream i b1 (Violation l1 c1 True) w = (Inr r1, w1)"
    and "act_on_check M stream i b2 (Violation l2 c2 True) w1 = (Inr r2, w2)"
  shows "bans w2 u = [(2, 8), (1, 1)] \<and> get_field r1 ''banDurationHours'' = NumI 1 \<and> get_field r2 ''banDurationHours'' = NumI 8"
proof -
  have 1: "bans w1 = (bans w)(u := (1, ban_hours 1) # bans w u) \<and> get_field r1 ''banNumber'' = NumI (int 1) \<and>
    get_field r1 ''banDurationHours'' = NumI (ban_hours 1)"
    by (rule ban_table.block_bans [OF assms(1,2) _ assms(4)]) (simp add: assms(3))
  then have "bans w1 u = [(1, 1)]" using assms(3) by (simp add: ban_hours_def)
  moreover from this have "bans w2 = (bans w1)(u := (2, ban_hours 2) # bans w1 u) \<and> get_field r2 ''banNumber'' = NumI (int 2) \<and>
    get_field r2 ''banDurationHours'' = NumI (ban_hours 2)"
    by (intro ban_table.block_bans [OF assms(1,2) _ assms(5)]) simp
  ultimately show ?thesis using 1 by (simp add: ban_hours_def)
qed

text \<open>A frame of a stream that has ended does nothing.\<close>

lemma ended_stream_frame_inert:
  assumes "rd_stream_by_id (mv_db M) i w = (Inr stream, w)" and "truthy stream" and "\<not> truthy (get_field stream ''isLive'')"
  shows "snd (verifyStreamFrameService M i img w) = w"
  using assms by (simp add: verifyStreamFrameService_def bindA_run ret_run)

text \<open>What was saved is what is read, while the cache answers.\<close>

lemma effect_settings_roundtrip:
  assumes "redis_kv (mv_redis M) kv clk up" and "up w" and "mv_upsertSettings M u (effect_update s) w = (Inr settings, w)"
    and "updateUserEffectSettingsService M u s w = (Inr v, w1)"
  shows "getUserEffectSettingsService M u w1 = (Inr settings, w1) \<and> v = settings"
proof -
  obtain w2 where 2: "r_set (mv_redis M) (effects_key u) (JSON_stringify settings) (ex_s 86400) w = (Inr True, w2)" "up w2"
    "kv w2 = (kv w)(effects_key u \<mapsto> (JSON_stringify settings, Some (clk w + 86400 * 1000)))"
    by (rule redis_kv.set_ex [OF assms(1) assms(2), of 86400 "effects_key u" "JSON_stringify settings"]) simp_all
  then have "w1 = w2" "v = settings" using assms(3,4) by (simp_all add: updateUserEffectSettingsService_def bindA_run thenA_run ret_run)
  moreover have "r_get (mv_redis M) (effects_key u) w2 = (Inr (Some (JSON_stringify settings)), w2)"
    using redis_kv.get [OF assms(1) 2(2)] 2(3) by simp
  ultimately show ?thesis
    by (simp add: getUserEffectSettingsService_def bindA_run truthy_text_def JSON_stringify_def parseA_def JSON_parse_def ret_run)
qed

section \<open>A concrete table of bans\<close>

record ban_mem = mem +
  bm_bans :: "string \<Rightarrow> (nat \<times> int) list"
  bm_breaker :: breaker

definition mem_aws :: "ban_mem aws_env" where
  "mem_aws = \<lparr>aw_env = (\<lambda>v. if v = ''ENABLE_NUDE_MONITORING'' then Some ''1'' else None), aw_now = m_clk, aw_breaker = bm_breaker,
     aw_putBreaker = (\<lambda>b w. w\<lparr>bm_breaker := b\<rparr>), aw_detect = (\<lambda>_. ret []), aw_put = (\<lambda>_ _ _. ret ())\<rparr>"

definition mem_moderation :: "ban_mem moderation_env" where
  "mem_moderation = \<lparr>mv_aws = mem_aws, mv_redis = mem_redis, mv_life = idle_life_env, mv_db = idle_life_db,
     mv_logFrame = (\<lambda>_. ret ()), mv_endRow = (\<lambda>_ _ _ _. ret ()), mv_countBans = (\<lambda>u. askA (\<lambda>w. length (bm_bans w u))),
     mv_suspend = (\<lambda>_ _. ret ()), mv_createBan = (\<lambda>u s n h t w. (Inr (), w\<lparr>bm_bans := (bm_bans w)(u := (n, h) # bm_bans w u)\<rparr>)),
     mv_restrict = (\<lambda>_ _ _ _. ret ()), mv_report = (\<lambda>_. ret ''r''), mv_settings = (\<lambda>_. ret Null), mv_createSettings = (\<lambda>_ v. ret v),
     mv_upsertSettings = (\<lambda>_ fs. ret (Obj fs))\<rparr>"

definition ban0 :: ban_mem where
  "ban0 = \<lparr>m_kv = (\<lambda>_. None), m_z = (\<lambda>_. []), m_h = (\<lambda>_ _. None), m_hk = (\<lambda>_. []), m_s = (\<lambda>_. []),
     m_l = (\<lambda>_. []), m_clk = 5000, bm_bans = (\<lambda>_. []), bm_breaker = breaker0\<rparr>"

interpretation membans: ban_table mem_moderation bm_bans
  by unfold_locales (auto simp: mem_moderation_def mem_aws_def idle_life_env_def idle_life_db_def keeps_def act_simps mem_redis_def)

definition banned_stream :: jsval where
  "banned_stream = Obj [(''id'', Str ''i''), (''streamId'', Str ''s''), (''userId'', Str ''h''), (''isLive'', JBool True),
     (''startedAt'', NumI 1000)]"

lemma mem_end: "\<exists>w1. moderation_end mem_moderation banned_stream i w = (Inr (), w1)"
  by (simp add: moderation_end_def Let_def bindA_run thenA_run askA_run quietly_run time_of_def ret_run end_duration_def sync_chats_def
      banned_stream_def get_field_def js_or_def truthy_def mem_moderation_def mem_redis_def ifOpen_run split: prod.splits sum.splits)

lemma upload_returns: "\<exists>f w1. upload_flagged A now folder i b w = (Inr f, w1)"
proof -
  let ?m = "\<lambda>k. catchA (bindA (uploadFlaggedFrameToS3 A b k) (\<lambda>b. ret (Str b))) (\<lambda>_. ret Null)"
  have "\<exists>v w1. ?m k w = (Inr v, w1)" for k
    by (cases "uploadFlaggedFrameToS3 A b k w") (auto simp: catchA_run bindA_run ret_run split: sum.splits)
  then obtain v w1 where "?m (folder @ i @ ''_'' @ int_str (now w) @ ''.jpg'') w = (Inr v, w1)" by blast
  then show ?thesis by (simp add: upload_flagged_def Let_def bindA_run [of "askA now"] bindA_run [of "catchA _ _"] askA_run ret_run)
qed

lemma mem_told: "en_broadcast (mv_life mem_moderation) room ev v = ret ()" "en_deleteRoom (mv_life mem_moderation) room = ret ()"
  by (simp_all add: mem_moderation_def idle_life_env_def)

lemma mem_judged:
  obtains r w1 where "act_on_check mem_moderation banned_stream i b (Violation l c True) w = (Inr r, w1)"
proof -
  obtain f wa where a: "upload_flagged (mv_aws mem_moderation) (en_now (mv_life mem_moderation)) ''live-stream-moderation/'' i b w = (Inr f, wa)"
    using upload_returns [of "mv_aws mem_moderation" "en_now (mv_life mem_moderation)" "''live-stream-moderation/''" i b w]
    by (elim exE) (rule that)
  let ?wb = "snd (mv_logFrame mem_moderation (frame_log ''streamId'' i (Violation l c True) f) wa)"
  obtain wc where e: "moderation_end mem_moderation banned_stream i ?wb = (Inr (), wc)" using mem_end by blast
  obtain n h until wd where d: "apply_ban mem_moderation banned_stream i wc = (Inr (n, h, until), wd)"
    by (rule membans.apply_ban_E [OF refl refl])
  show thesis
    by (rule that, unfold act_on_check_def)
      (simp add: bindA_run thenA_run a quietly_run block_stream_def Let_def e d closeLivekitRoom_def mem_told ret_run)
qed

theorem two_flagged_frames_ban_twice_witness:
  "\<exists>r1 w1 r2 w2. act_on_check mem_moderation banned_stream ''i'' [1] (Violation (Str ''Nudity'') 90 True) ban0 = (Inr r1, w1) \<and>
     act_on_check mem_moderation banned_stream ''i'' [2] (Violation (Str ''Nudity'') 90 True) w1 = (Inr r2, w2) \<and>
     bm_bans w2 ''h'' = [(2, 8), (1, 1)] \<and> get_field r2 ''banDurationHours'' = NumI 8"
proof -
  let ?f = "\<lambda>b. act_on_check mem_moderation banned_stream ''i'' [b] (Violation (Str ''Nudity'') 90 True)"
  obtain r1 w1 where 1: "?f 1 ban0 = (Inr r1, w1)" by (rule mem_judged)
  obtain r2 w2 where 2: "?f 2 w1 = (Inr r2, w2)" by (rule mem_judged)
  have u: "''h'' = js_String (get_field banned_stream ''userId'')" by code_simp
  have "bm_bans w2 ''h'' = [(2, 8), (1, 1)] \<and> get_field r1 ''banDurationHours'' = NumI 1 \<and> get_field r2 ''banDurationHours'' = NumI 8"
    by (rule two_flagged_frames_ban_twice [OF membans.ban_table_axioms u _ 1 2]) (simp add: ban0_def)
  with 1 2 show ?thesis by blast
qed

end
