(* ===== verification/Viewer_Cards.thy ===== *)
theory Viewer_Cards
  imports Call_Safety Host_Stats Restrictions "HOL-Library.Product_Lexorder" "HOL-Library.Multiset"
begin

text \<open>
  What a room and a list of rooms show of their people, \<open>routes/service/serviceLive.js\<close>: the fans ranking of a host, the
  sorted cards of the viewers with their cache, the host profile, the list of live streams, and \<open>routes/service/liveHlsMode.js\<close>.
  The tables are parameters, so is the time zone of the machine (\<open>vw_local\<close>, \<open>vw_midnight\<close>).
\<close>

section \<open>The environment\<close>

text \<open>A row of \<open>giftTransaction.groupBy\<close>: the sender and the two sums.\<close>

record gift_sum =
  gx_sender :: string
  gx_cost :: int
  gx_points :: "int option"

record 'w view_env =
  vw_calls :: "'w call_env"
  vw_room :: "'w room_db"
  vw_local :: "int \<Rightarrow> int \<times> int \<times> int"                          \<comment> \<open>year, month from 0, day, in the time zone of the machine\<close>
  vw_midnight :: "int \<Rightarrow> int \<Rightarrow> int \<Rightarrow> int"                       \<comment> \<open>\<open>new Date(year, month, day)\<close>\<close>
  vw_topGifters :: "string \<Rightarrow> int \<Rightarrow> nat \<Rightarrow> ('w, gift_sum list) act" \<comment> \<open>receiver, since, how many; the greatest cost first\<close>
  vw_giftsOf :: "string \<Rightarrow> string \<Rightarrow> int \<Rightarrow> ('w, int \<times> int option) act"   \<comment> \<open>receiver, sender, since\<close>
  vw_above :: "string \<Rightarrow> int \<Rightarrow> int \<Rightarrow> ('w, nat) act"               \<comment> \<open>senders whose cost is greater\<close>
  vw_giftsFrom :: "string \<Rightarrow> string list \<Rightarrow> int \<Rightarrow> ('w, gift_sum list) act"
  vw_guardians :: "string \<Rightarrow> string list \<Rightarrow> int \<Rightarrow> ('w, string list) act"
  vw_users :: "string list \<Rightarrow> ('w, jsval list) act"
  vw_wealthLevels :: "string list \<Rightarrow> ('w, (string \<times> jsval) list) act"
  vw_levels :: "string \<Rightarrow> ('w, (string \<times> jsval) list) act"        \<comment> \<open>level type, current level\<close>
  vw_hmget :: "string \<Rightarrow> string list \<Rightarrow> ('w, jtext option list) act"
  vw_hmset :: "string \<Rightarrow> (string \<times> jtext) list \<Rightarrow> int \<Rightarrow> ('w, unit) act"  \<comment> \<open>\<open>multi().hSet().expire()\<close>, seconds\<close>
  vw_place :: "string \<Rightarrow> ('w, jsval) act"
  vw_places :: "string list \<Rightarrow> ('w, jsval list) act"
  vw_following :: "string \<Rightarrow> ('w, string list) act"
  vw_live :: "string list option \<Rightarrow> nat \<Rightarrow> nat option \<Rightarrow> ('w, jsval list) act"  \<comment> \<open>live streams (of these users), the newest first: skip, take\<close>
  vw_countLive :: "string list option \<Rightarrow> ('w, nat) act"
  vw_liveOfCountry :: "string \<Rightarrow> nat \<Rightarrow> nat \<Rightarrow> ('w, string list \<times> nat) act"    \<comment> \<open>ids of the page, and how many in all\<close>
  vw_streams :: "string list \<Rightarrow> ('w, jsval list) act"

abbreviation vw_redis :: "'w view_env \<Rightarrow> 'w redis" where "vw_redis V \<equiv> vc_redis (vw_calls V)"
abbreviation vw_now :: "'w view_env \<Rightarrow> 'w \<Rightarrow> int" where "vw_now V \<equiv> vc_now (vw_calls V)"

text \<open>\<open>new Map(rows)\<close>, read with \<open>get\<close>: the last entry of a key counts.\<close>

definition js_map :: "(string \<times> 'a) list \<Rightarrow> string \<Rightarrow> 'a option" where
  "js_map kvs = map_of (rev kvs)"

definition by_id :: "jsval list \<Rightarrow> string \<Rightarrow> jsval option" where
  "by_id rows = js_map (map (\<lambda>r. (js_String (get_field r ''id''), r)) rows)"

text \<open>A stable sort by a comparator, as \<open>Array.prototype.sort\<close>.\<close>

fun js_insert :: "('a \<Rightarrow> 'a \<Rightarrow> rat) \<Rightarrow> 'a \<Rightarrow> 'a list \<Rightarrow> 'a list" where
  "js_insert cmp x [] = [x]"
| "js_insert cmp x (y # ys) = (if cmp x y \<le> 0 then x # y # ys else y # js_insert cmp x ys)"

definition js_sort :: "('a \<Rightarrow> 'a \<Rightarrow> rat) \<Rightarrow> 'a list \<Rightarrow> 'a list" where
  "js_sort cmp xs = foldr (js_insert cmp) xs []"

section \<open>The fans ranking\<close>

definition week_ms :: int where "week_ms = 7 * 24 * 60 * 60 * 1000"

definition fans_since :: "'w view_env \<Rightarrow> string \<Rightarrow> int \<Rightarrow> int" where
  "fans_since V period now =
     (case vw_local V now of (y, m, d) \<Rightarrow>
        if period \<in> set [''weekly'', ''7days'', ''recent_7_days''] then now - week_ms
        else if period \<in> set [''monthly'', ''month''] then vw_midnight V y m 1
        else vw_midnight V y m d)"

definition is_mystery_rank :: "jsval option \<Rightarrow> bool" where
  "is_mystery_rank u \<longleftrightarrow> (case u of None \<Rightarrow> False
     | Some r \<Rightarrow> truthy (get_field r ''privacyMysteryRank'') \<and> truthy (get_field r ''vipSubscriptionActive''))"

text \<open>\<open>Number(pointsAwarded ?? Math.floor(cost * 0.60))\<close>\<close>

definition fan_coins :: "int \<Rightarrow> int option \<Rightarrow> int" where
  "fan_coins cost points = (case points of Some p \<Rightarrow> p | None \<Rightarrow> \<lfloor>of_int cost * (3 / 5) :: rat\<rfloor>)"

definition opt_field :: "jsval option \<Rightarrow> string \<Rightarrow> jsval" where
  "opt_field u f = (case u of None \<Rightarrow> Undefined | Some r \<Rightarrow> get_field r f)"

definition fan_name :: "jsval option \<Rightarrow> jsval" where
  "fan_name u =
     (let parts = filter (\<lambda>s. s \<noteq> []) [text_of (opt_field u ''firstName''), text_of (opt_field u ''lastName'')];
          fullName = js_trim (concat (case parts of [a, b] \<Rightarrow> [a, '' '', b] | _ \<Rightarrow> parts)) in
      if fullName \<noteq> [] then Str fullName else js_or (opt_field u ''username'') (Str ''User''))"

definition fan_row :: "(string \<Rightarrow> jsval option) \<Rightarrow> (string \<Rightarrow> jsval option) \<Rightarrow> nat \<Rightarrow> gift_sum \<Rightarrow> jsval" where
  "fan_row users levels index g =
     (let u = users (gx_sender g);
          wealthLv = nullish (case levels (gx_sender g) of None \<Rightarrow> Undefined | Some l \<Rightarrow> l)
            (nullish (get_field (opt_field u ''userLevel'') ''wealthLevel'') (NumI 1)) in
      Obj [(''rank'', NumI (int index + 1)), (''userId'', Str (gx_sender g)), (''name'', fan_name u),
        (''username'', case u of None \<Rightarrow> Str ''User'' | Some r \<Rightarrow> get_field r ''username''),
        (''avatarUrl'', case u of None \<Rightarrow> Null | Some r \<Rightarrow> get_field r ''avatarUrl''),
        (''coins'', NumI (fan_coins (gx_cost g) (gx_points g))), (''wealthLevel'', wealthLv), (''isMystery'', JBool False)])"

definition fan_rankings :: "(string \<Rightarrow> jsval option) \<Rightarrow> (string \<Rightarrow> jsval option) \<Rightarrow> gift_sum list \<Rightarrow> jsval list" where
  "fan_rankings users levels topGifters =
     (let visibleGifters = filter (\<lambda>g. \<not> is_mystery_rank (users (gx_sender g))) topGifters in
      map (\<lambda>(i, g). fan_row users levels i g) (enumerate 0 visibleGifters))"

definition rank_card :: "jsval \<Rightarrow> jsval \<Rightarrow> jsval" where
  "rank_card r c = Obj [(''rank'', r), (''coins'', c)]"

definition my_rank :: "'w view_env \<Rightarrow> string \<Rightarrow> int \<Rightarrow> jsval list \<Rightarrow> string option \<Rightarrow> ('w, jsval) act" where
  "my_rank V hostId startDate rankings currentUserId =
     (if \<not> truthy_str currentUserId then ret (rank_card Null (NumI 0))
      else let me = the currentUserId in
        case find (\<lambda>r. get_field r ''userId'' = Str me) rankings of
          Some r \<Rightarrow> ret (rank_card (get_field r ''rank'') (get_field r ''coins''))
        | None \<Rightarrow> bindA (vw_giftsOf V hostId me startDate) (\<lambda>(myTotalCoinCost, points).
            let myCoins = fan_coins myTotalCoinCost points in
            if 0 < myCoins then bindA (vw_above V hostId startDate myTotalCoinCost) (\<lambda>n.
              ret (rank_card (NumI (int n + 1)) (NumI myCoins)))
            else ret (rank_card Null (NumI 0))))"

definition getFansRankingService :: "'w view_env \<Rightarrow> string \<Rightarrow> string option \<Rightarrow> string option \<Rightarrow> ('w, jsval) act" where
  "getFansRankingService V hostId period currentUserId =
     (let validPeriod = toLowerCase (case period of None \<Rightarrow> ''today'' | Some p \<Rightarrow> p) in
      bindA (askA (vw_now V)) (\<lambda>now. let startDate = fans_since V validPeriod now in
      bindA (vw_topGifters V hostId startDate 50) (\<lambda>topGifters.
      let userIds = map gx_sender topGifters in
      bindA (if userIds = [] then ret [] else vw_users V userIds) (\<lambda>users.
      bindA (if userIds = [] then ret [] else vw_wealthLevels V userIds) (\<lambda>walletLevels.
      let rankings = fan_rankings (by_id users) (js_map walletLevels) topGifters in
      bindA (my_rank V hostId startDate rankings currentUserId) (\<lambda>m.
        ret (Obj [(''period'', Str validPeriod), (''hostId'', Str hostId), (''rankings'', Arr rankings), (''myRank'', m)])))))))"

section \<open>The cards of the viewers\<close>

definition VIEWER_CARD_MAX_AGE_MS :: int where "VIEWER_CARD_MAX_AGE_MS = 60000"

definition viewerCardsEpochKey :: "string \<Rightarrow> string" where
  "viewerCardsEpochKey streamId = key ''stream:viewer_cards_epoch'' streamId"

definition viewerCardsKey :: "string \<Rightarrow> string \<Rightarrow> string" where
  "viewerCardsKey streamId epoch = ''stream:viewer_cards:'' @ streamId @ '':e'' @ epoch"

definition num_field :: "string \<Rightarrow> jsval \<Rightarrow> rat" where
  "num_field f v = (case js_Number (get_field v f) of None \<Rightarrow> 0 | Some q \<Rightarrow> q)"

text \<open>The comparator; a card has numbers and booleans in these fields.\<close>

definition viewer_cmp :: "jsval \<Rightarrow> jsval \<Rightarrow> rat" where
  "viewer_cmp a b =
     (if get_field a ''coins7d'' \<noteq> get_field b ''coins7d'' then num_field ''coins7d'' b - num_field ''coins7d'' a
      else if get_field a ''isGuardian'' \<noteq> get_field b ''isGuardian'' then (if truthy (get_field b ''isGuardian'') then 1 else - 1)
      else if get_field a ''isVip'' \<noteq> get_field b ''isVip'' then (if truthy (get_field b ''isVip'') then 1 else - 1)
      else num_field ''wealthLevel'' b - num_field ''wealthLevel'' a)"

definition sortViewers :: "jsval list \<Rightarrow> jsval list" where
  "sortViewers viewers = js_sort viewer_cmp viewers"

text \<open>The age of a person today, both dates in the time zone of the machine.\<close>

definition age_of :: "'w view_env \<Rightarrow> int \<Rightarrow> jsval \<Rightarrow> jsval" where
  "age_of V now dateOfBirth =
     (case date_ms dateOfBirth of
        None \<Rightarrow> Null
      | Some t \<Rightarrow> (case (vw_local V now, vw_local V t) of ((y, m, d), (by, bm, bd)) \<Rightarrow>
          let age = y - by - (if m < bm \<or> m = bm \<and> d < bd then 1 else 0) in
          if age < 0 then Null else NumI age))"

definition viewer_card :: "'w view_env \<Rightarrow> int \<Rightarrow> (string \<Rightarrow> int option) \<Rightarrow> string list \<Rightarrow> (string \<Rightarrow> jsval option) \<Rightarrow> string list
    \<Rightarrow> jsval \<Rightarrow> jsval" where
  "viewer_card V now gifts guardians levels admins u =
     (let i = js_String (get_field u ''id''); lv = get_field u ''userLevel'' in
      Obj [(''id'', get_field u ''id''),
        (''publicId'', if truthy (get_field u ''publicId'') then Str (js_String (get_field u ''publicId'')) else Null),
        (''name'', js_or (Str (full_name u)) (js_or (get_field u ''username'') (Str ''User''))),
        (''username'', get_field u ''username''), (''avatarUrl'', js_or (get_field u ''avatarUrl'') Null),
        (''gender'', js_or (get_field u ''gender'') Null),
        (''age'', if truthy (get_field u ''dateOfBirth'') then age_of V now (get_field u ''dateOfBirth'') else Null),
        (''isAdmin'', JBool (i \<in> set admins)), (''isGuardian'', JBool (i \<in> set guardians)),
        (''isVip'', JBool (truthy (get_field u ''vipSubscriptionActive''))),
        (''coins7d'', NumI (case gifts i of None \<Rightarrow> 0 | Some c \<Rightarrow> c)),
        (''wealthLevel'', nullish (case levels i of None \<Rightarrow> Undefined | Some l \<Rightarrow> l)
           (js_or (get_field lv ''wealthLevel'') (NumI 1))),
        (''livestreamLevel'', js_or (get_field lv ''livestreamLevel'') (NumI 1))])"

definition buildViewerCards :: "'w view_env \<Rightarrow> string \<Rightarrow> string option \<Rightarrow> string list \<Rightarrow> ('w, (string \<times> jsval) list) act" where
  "buildViewerCards V hostUserId streamId viewerIds =
     bindA (askA (vw_now V)) (\<lambda>now.
     bindA (vw_giftsFrom V hostUserId viewerIds (now - week_ms)) (\<lambda>giftAgg.
     bindA (vw_guardians V hostUserId viewerIds now) (\<lambda>activeGuardians.
     bindA (vw_users V viewerIds) (\<lambda>dbUsers.
     bindA (vw_wealthLevels V viewerIds) (\<lambda>walletLevels.
     bindA (if truthy_str streamId then getStreamAdminsService (vw_redis V) (vw_room V) streamId None else ret []) (\<lambda>adminIds.
       ret (map (\<lambda>u. (js_String (get_field u ''id''),
            viewer_card V now (js_map (map (\<lambda>g. (gx_sender g, gx_cost g)) giftAgg)) activeGuardians (js_map walletLevels) adminIds u))
         (filter (\<lambda>u. \<not> is_stealth u) dbUsers))))))))"

text \<open>The cached cards that are fresh; an entry that does not parse is passed over.\<close>

definition fresh_card :: "int \<Rightarrow> jtext option \<Rightarrow> jsval option" where
  "fresh_card now v =
     (if truthy_text v then
        (case JSON_parse (the v) of
           None \<Rightarrow> None
         | Some entry \<Rightarrow> (case js_Number (get_field entry ''at'') of
             None \<Rightarrow> None
           | Some t \<Rightarrow> if of_int now - t \<le> of_int VIEWER_CARD_MAX_AGE_MS then Some (get_field entry ''card'') else None))
      else None)"

definition fresh_cards :: "int \<Rightarrow> string list \<Rightarrow> jtext option list \<Rightarrow> (string \<times> jsval) list" where
  "fresh_cards now ids raw =
     List.map_filter (\<lambda>(i, v). map_option (Pair i) (fresh_card now v)) (zip ids raw)"

definition read_cards :: "'w view_env \<Rightarrow> string option \<Rightarrow> string list \<Rightarrow> ('w, string option \<times> (string \<times> jsval) list) act" where
  "read_cards V streamId ids =
     ifOpen (vw_redis V)
       (if \<not> truthy_str streamId then ret (None, [])
        else catchA
          (bindA (r_get (vw_redis V) (viewerCardsEpochKey (the streamId))) (\<lambda>e.
             let cacheKey = viewerCardsKey (the streamId) (if truthy_text e then text_str (the e) else ''0'') in
             bindA (vw_hmget V cacheKey ids) (\<lambda>raw.
             bindA (askA (vw_now V)) (\<lambda>now. ret (Some cacheKey, fresh_cards now ids raw)))))
          (\<lambda>_. ret (None, [])))
       (ret (None, []))"

definition hidden_card :: jsval where "hidden_card = Obj [(''hidden'', JBool True)]"

definition card_entry :: "int \<Rightarrow> jsval \<Rightarrow> jtext" where
  "card_entry t c = JSON_stringify (Obj [(''at'', NumI t), (''card'', c)])"

definition fetch_missing :: "'w view_env \<Rightarrow> string \<Rightarrow> string option \<Rightarrow> string option \<Rightarrow> string list \<Rightarrow> ('w, (string \<times> jsval) list) act" where
  "fetch_missing V hostUserId streamId cacheKey missing =
     (if missing = [] then ret []
      else bindA (buildViewerCards V hostUserId streamId missing) (\<lambda>fetched.
        let cards = map (\<lambda>i. (i, case js_map fetched i of None \<Rightarrow> hidden_card | Some c \<Rightarrow> c)) missing in
        thenA (case cacheKey of None \<Rightarrow> ret ()
               | Some k \<Rightarrow> bindA (askA (vw_now V)) (\<lambda>t. quietly (vw_hmset V k (map (\<lambda>(i, c). (i, card_entry t c)) cards) 120)))
          (ret cards)))"

definition shown_cards :: "string list \<Rightarrow> (string \<times> jsval) list \<Rightarrow> jsval list" where
  "shown_cards ids cards = filter (\<lambda>c. truthy c \<and> \<not> truthy (get_field c ''hidden'')) (List.map_filter (map_of cards) ids)"

definition sortRoomViewersService :: "'w view_env \<Rightarrow> string \<Rightarrow> string option \<Rightarrow> string list \<Rightarrow> ('w, jsval list) act" where
  "sortRoomViewersService V hostUserId streamId viewerIds =
     (if viewerIds = [] then ret []
      else let ids = rev (remdups (rev viewerIds)) in
        bindA (read_cards V streamId ids) (\<lambda>(cacheKey, cached).
        bindA (fetch_missing V hostUserId streamId cacheKey (filter (\<lambda>i. map_of cached i = None) ids)) (\<lambda>fetched.
          ret (sortViewers (shown_cards ids (cached @ fetched))))))"

section \<open>The host profile\<close>

definition profile_hit :: "jtext option \<Rightarrow> jsval option" where
  "profile_hit cached =
     (if truthy_text cached then
        (case JSON_parse (the cached) of
           None \<Rightarrow> None
         | Some parsed \<Rightarrow> if truthy parsed \<and> get_field parsed ''acceptVideoCalls'' \<noteq> Undefined \<and>
               get_field parsed ''livestreamLevel'' \<noteq> Undefined then Some parsed else None)
      else None)"

definition call_price :: "jsval \<Rightarrow> int" where
  "call_price settings = (case js_Number (js_or (get_field settings ''pricePerMin'') (NumI 1800)) of None \<Rightarrow> 0 | Some q \<Rightarrow> \<lfloor>q\<rfloor>)"

definition accepts_calls :: "jsval \<Rightarrow> bool" where
  "accepts_calls settings \<longleftrightarrow> \<not> truthy settings \<or> get_field settings ''acceptVideoCalls'' \<noteq> JBool False"

definition host_card :: "jsval \<Rightarrow> (string \<Rightarrow> jsval option) \<Rightarrow> jsval \<Rightarrow> int \<Rightarrow> jsval" where
  "host_card u levels settings coinsPerMin =
     (let level = (\<lambda>t f. nullish (case levels t of None \<Rightarrow> Undefined | Some l \<Rightarrow> l)
            (js_or (get_field (get_field u ''userLevel'') f) (NumI 1)));
          accept = accepts_calls settings in
      Obj [(''id'', get_field u ''id''), (''userId'', get_field u ''id''),
        (''publicId'', if truthy (get_field u ''publicId'') then Str (js_String (get_field u ''publicId'')) else Null),
        (''name'', js_or (Str (full_name u)) (js_or (get_field u ''username'') (Str ''Host''))),
        (''username'', get_field u ''username''), (''avatarUrl'', js_or (get_field u ''avatarUrl'') Null),
        (''wealthLevel'', level ''WEALTH'' ''wealthLevel''), (''livestreamLevel'', level ''STREAM'' ''livestreamLevel''),
        (''acceptVideoCalls'', JBool accept), (''isVideoCallEnabled'', JBool accept),
        (''videoCallPricePerMin'', NumI (call_price settings)),
        (''videoCallCoinsPerMin'', if accept then NumI coinsPerMin else Null)])"

definition getHostProfileService :: "'w view_env \<Rightarrow> string option \<Rightarrow> ('w, jsval) act" where
  "getHostProfileService V hostUserId =
     (if \<not> truthy_str hostUserId then ret Null
      else let h = the hostUserId; cacheKey = key ''user:profile'' h in
        bindA (ifOpen (vw_redis V) (bindA (r_get (vw_redis V) cacheKey) (\<lambda>c. ret (profile_hit c))) (ret None)) (\<lambda>hit.
          case hit of
            Some parsed \<Rightarrow> ret parsed
          | None \<Rightarrow>
              bindA (vc_user (vw_calls V) h) (\<lambda>hostUser.
              bindA (vw_levels V h) (\<lambda>levels.
              bindA (vc_settings (vw_calls V) h) (\<lambda>settings.
              bindA (coin_rate (vw_calls V) (call_price settings)) (\<lambda>coinsPerMin.
                if \<not> truthy hostUser then ret Null
                else let host = host_card hostUser (js_map levels) settings coinsPerMin in
                  thenA (ifOpen (vw_redis V) (thenA (r_set (vw_redis V) cacheKey (JSON_stringify host) (ex_s 300)) (ret ())) (ret ()))
                    (ret host)))))))"

section \<open>The list of live streams\<close>

text \<open>\<open>Number\<close> of a coordinate: a text with an optional fraction, or a number; \<open>None\<close> is \<open>null\<close> or \<open>NaN\<close>.\<close>

definition coord :: "jsval \<Rightarrow> rat option" where
  "coord v = (case v of
      Null \<Rightarrow> None | Undefined \<Rightarrow> None
    | Str s \<Rightarrow> (let t = js_trim s in case int_of_str t of Some i \<Rightarrow> Some (of_int i) | None \<Rightarrow> rat_of_str t)
    | _ \<Rightarrow> js_Number v)"

text \<open>\<open>Math.atan2(y, x)\<close> of two numbers that are not negative.\<close>

definition atan2_pos :: "real \<Rightarrow> real \<Rightarrow> real" where
  "atan2_pos y x = (if x = 0 then (if y = 0 then 0 else pi / 2) else arctan (y / x))"

text \<open>The haversine sum of the two points.\<close>

definition haversine :: "rat \<Rightarrow> rat \<Rightarrow> rat \<Rightarrow> rat \<Rightarrow> real" where
  "haversine lat1 lon1 lat2 lon2 =
     (let dLat = of_rat (lat2 - lat1) * (pi / 180); dLon = of_rat (lon2 - lon1) * (pi / 180) in
      sin (dLat / 2) * sin (dLat / 2) +
      cos (of_rat lat1 * (pi / 180)) * cos (of_rat lat2 * (pi / 180)) * sin (dLon / 2) * sin (dLon / 2))"

text \<open>Kilometres to two decimals; the square root of a negative number is \<open>NaN\<close>, here \<open>None\<close>.\<close>

definition calculateDistanceKm :: "rat option \<Rightarrow> rat option \<Rightarrow> rat option \<Rightarrow> rat option \<Rightarrow> rat option" where
  "calculateDistanceKm lat1 lon1 lat2 lon2 =
     (case (lat1, lon1, lat2, lon2) of
        (Some la1, Some lo1, Some la2, Some lo2) \<Rightarrow>
          let a = haversine la1 lo1 la2 lo2 in
          if a < 0 \<or> 1 < a then None
          else Some (of_int \<lfloor>6371 * (2 * atan2_pos (sqrt a) (sqrt (1 - a))) * 100 + 1 / 2\<rfloor> / 100)
      | _ \<Rightarrow> None)"

record list_query =
  lq_page :: int
  lq_limit :: int
  lq_country :: jsval
  lq_user :: "string option"
  lq_following :: bool
  lq_nearby :: bool
  lq_lat :: jsval
  lq_lng :: jsval
  lq_minKm :: rat
  lq_maxKm :: rat

text \<open>\<open>Math.max(1, parseInt(v, 10) || dflt)\<close>\<close>

definition at_least_one :: "int \<Rightarrow> int \<Rightarrow> nat" where
  "at_least_one dflt v = nat (max 1 (if v = 0 then dflt else v))"

definition listing :: "nat \<Rightarrow> nat \<Rightarrow> nat \<Rightarrow> jsval list \<Rightarrow> jsval" where
  "listing page limit howMany streams = Obj
     [(''streams'', Arr streams), (''total'', NumI (int howMany)), (''page'', NumI (int page)), (''limit'', NumI (int limit)),
      (''totalPages'', NumI \<lceil>of_nat howMany / of_nat limit :: rat\<rceil>)]"

definition norm_country :: "jsval \<Rightarrow> string option" where
  "norm_country c = (case c of Str s \<Rightarrow> (let t = toLowerCase (js_trim s) in if s = [] \<or> t = [] then None else Some t) | _ \<Rightarrow> None)"

definition is_global :: "string option \<Rightarrow> bool" where
  "is_global c \<longleftrightarrow> (case c of None \<Rightarrow> False | Some t \<Rightarrow> t \<in> set [''all'', ''global'', ''random'', ''world''])"

text \<open>The live streams whose host is within the range, the nearest first.\<close>

definition near :: "(string \<Rightarrow> jsval option) \<Rightarrow> rat \<Rightarrow> rat \<Rightarrow> rat \<Rightarrow> rat \<Rightarrow> jsval \<Rightarrow> (rat \<times> jsval) option" where
  "near places lat lng minDist maxDist stream =
     (case places (js_String (get_field stream ''userId'')) of
        None \<Rightarrow> None
      | Some p \<Rightarrow> (case calculateDistanceKm (Some lat) (Some lng) (coord (get_field p ''lastLatitude'')) (coord (get_field p ''lastLongitude'')) of
          None \<Rightarrow> None
        | Some d \<Rightarrow> if minDist \<le> d \<and> d \<le> maxDist then Some (d, stream) else None))"

definition with_distance :: "rat \<times> jsval \<Rightarrow> jsval" where
  "with_distance x = (case snd x of Obj f \<Rightarrow> Obj (obj_spread f [(''distanceKm'', Num (fst x))]) | v \<Rightarrow> v)"

definition nearby_sorted :: "(string \<Rightarrow> jsval option) \<Rightarrow> rat \<Rightarrow> rat \<Rightarrow> rat \<Rightarrow> rat \<Rightarrow> jsval list \<Rightarrow> (rat \<times> jsval) list" where
  "nearby_sorted places lat lng minDist maxDist live =
     js_sort (\<lambda>a b. fst a - fst b) (List.map_filter (near places lat lng minDist maxDist) live)"

definition page_of :: "nat \<Rightarrow> nat \<Rightarrow> 'a list \<Rightarrow> 'a list" where
  "page_of page limit xs = take limit (drop ((page - 1) * limit) xs)"

definition own_place :: "'w view_env \<Rightarrow> list_query \<Rightarrow> ('w, rat option \<times> rat option) act" where
  "own_place V q =
     (let lat = coord (lq_lat q); lng = coord (lq_lng q) in
      if (lat = None \<or> lng = None) \<and> truthy_str (lq_user q) then
        bindA (vw_place V (the (lq_user q))) (\<lambda>u.
          if truthy u \<and> get_field u ''lastLatitude'' \<noteq> Null \<and> get_field u ''lastLongitude'' \<noteq> Null
          then ret (coord (get_field u ''lastLatitude''), coord (get_field u ''lastLongitude'')) else ret (lat, lng))
      else ret (lat, lng))"

definition nearby_streams :: "'w view_env \<Rightarrow> list_query \<Rightarrow> nat \<Rightarrow> nat \<Rightarrow> ('w, jsval) act" where
  "nearby_streams V q page limit =
     bindA (own_place V q) (\<lambda>(lat, lng).
       case (lat, lng) of
         (Some la, Some lo) \<Rightarrow>
           bindA (vw_live V None 0 None) (\<lambda>live.
             if live = [] then ret (listing page limit 0 [])
             else bindA (vw_places V (rev (remdups (rev (List.map_filter (\<lambda>s. js_str (get_field s ''userId'')) live))))) (\<lambda>places.
               let found = nearby_sorted (by_id places) la lo (if lq_minKm q = 0 then 9 else lq_minKm q)
                     (if lq_maxKm q = 0 then 40 else lq_maxKm q) live in
               ret (listing page limit (length found) (map with_distance (page_of page limit found)))))
       | _ \<Rightarrow> ret (listing page limit 0 []))"

definition country_streams :: "'w view_env \<Rightarrow> string \<Rightarrow> nat \<Rightarrow> nat \<Rightarrow> ('w, jsval) act" where
  "country_streams V c page limit =
     bindA (vw_liveOfCountry V c ((page - 1) * limit) limit) (\<lambda>(ids, howMany).
     bindA (if ids = [] then ret [] else vw_streams V ids) (\<lambda>rows.
       ret (listing page limit howMany (List.map_filter (by_id rows) ids))))"

definition plain_streams :: "'w view_env \<Rightarrow> string list option \<Rightarrow> nat \<Rightarrow> nat \<Rightarrow> ('w, jsval) act" where
  "plain_streams V users page limit =
     bindA (vw_live V users ((page - 1) * limit) (Some limit)) (\<lambda>streams.
     bindA (vw_countLive V users) (\<lambda>howMany. ret (listing page limit howMany streams)))"

definition getLiveStreamsService :: "'w view_env \<Rightarrow> list_query \<Rightarrow> ('w, jsval) act" where
  "getLiveStreamsService V q =
     (let page = at_least_one 1 (lq_page q); limit = at_least_one 20 (lq_limit q); c = norm_country (lq_country q) in
      if lq_nearby q then nearby_streams V q page limit
      else if lq_following q \<and> truthy_str (lq_user q) \<and> \<not> is_global c then
        bindA (vw_following V (the (lq_user q))) (\<lambda>ids.
          if ids = [] then ret (listing page limit 0 []) else plain_streams V (Some ids) page limit)
      else if c \<noteq> None \<and> \<not> is_global c then country_streams V (js_trim (js_String (lq_country q))) page limit
      else plain_streams V None page limit)"

section \<open>WebRTC or HLS\<close>

definition HLS_VIEWER_THRESHOLD :: nat where "HLS_VIEWER_THRESHOLD = 50"
definition HLS_PREWARM_AT :: nat where "HLS_PREWARM_AT = 47"

definition hlsSwitchOn :: "string option \<Rightarrow> bool" where
  "hlsSwitchOn v \<longleftrightarrow> toLowerCase (str_or v ''off'') = ''on''"

text \<open>The mode, the address of the playlist, and whether the egress is started ahead.\<close>

definition viewerPlayback :: "string option \<Rightarrow> nat \<Rightarrow> bool \<Rightarrow> string \<Rightarrow> string option \<Rightarrow> string \<times> jsval \<times> bool" where
  "viewerPlayback switch viewerCount isHost streamId cdnDomain =
     (let on = hlsSwitchOn switch; prewarm = (on \<and> HLS_PREWARM_AT \<le> viewerCount) in
      if on \<and> \<not> isHost \<and> HLS_VIEWER_THRESHOLD < viewerCount \<and> truthy_str cdnDomain
      then (''HLS'', Str (the cdnDomain @ ''/hls/streams/'' @ streamId @ ''/live.m3u8''), prewarm)
      else (''WEBRTC'', Null, prewarm))"

section \<open>Lemmas\<close>

lemma set_js_insert [simp]: "set (js_insert cmp x ys) = insert x (set ys)"
  by (induction ys) auto

lemma set_js_sort [simp]: "set (js_sort cmp xs) = set xs"
  by (induction xs) (simp_all add: js_sort_def)

lemma js_insert_insort: "(\<And>y. y \<in> set ys \<Longrightarrow> cmp x y \<le> 0 \<longleftrightarrow> f x \<le> f y) \<Longrightarrow> js_insert cmp x ys = insort_key f x ys"
  by (induction ys) auto

text \<open>A sort by a comparator that agrees with a key is the library's stable sort by that key.\<close>

lemma js_sort_key:
  assumes "\<And>x y. x \<in> set xs \<Longrightarrow> y \<in> set xs \<Longrightarrow> cmp x y \<le> 0 \<longleftrightarrow> f x \<le> f y"
  shows "js_sort cmp xs = sort_key f xs"
  using assms
proof (induction xs)
  case (Cons x xs)
  have "js_insert cmp x (sort_key f xs) = insort_key f x (sort_key f xs)" by (rule js_insert_insort) (simp add: Cons.prems)
  moreover have "js_sort cmp xs = sort_key f xs" by (rule Cons.IH) (simp add: Cons.prems)
  ultimately show ?case by (simp add: js_sort_def)
qed (simp add: js_sort_def)

text \<open>What the code sorts by: coins of the week, guardians, subscribers, wealth.\<close>

definition card_ok :: "jsval \<Rightarrow> bool" where
  "card_ok c \<longleftrightarrow> (\<exists>p. get_field c ''coins7d'' = Num p) \<and> (\<exists>g. get_field c ''isGuardian'' = JBool g) \<and>
     (\<exists>v. get_field c ''isVip'' = JBool v) \<and> (\<exists>q. get_field c ''wealthLevel'' = Num q)"

definition card_rank :: "jsval \<Rightarrow> rat \<times> bool \<times> bool \<times> rat" where
  "card_rank c = (- num_field ''coins7d'' c, \<not> truthy (get_field c ''isGuardian''), \<not> truthy (get_field c ''isVip''),
     - num_field ''wealthLevel'' c)"

lemma viewer_cmp_rank: "card_ok a \<Longrightarrow> card_ok b \<Longrightarrow> viewer_cmp a b \<le> 0 \<longleftrightarrow> card_rank a \<le> card_rank b"
  by (auto simp: card_ok_def viewer_cmp_def card_rank_def num_field_def js_Number_def truthy_def less_eq_prod_def)

lemma sortViewers_key: "\<forall>c\<in>set cards. card_ok c \<Longrightarrow> sortViewers cards = sort_key card_rank cards"
  unfolding sortViewers_def by (intro js_sort_key viewer_cmp_rank) simp_all

text \<open>An entry of a user: a card with his id, or the mark of a hidden viewer.\<close>

definition entry_ok :: "string \<times> jsval \<Rightarrow> bool" where
  "entry_ok x \<longleftrightarrow> snd x = hidden_card \<or> card_ok (snd x) \<and> get_field (snd x) ''id'' = Str (fst x)"

lemma shown_cards_ok:
  assumes "\<forall>x\<in>set kvs. entry_ok x" and "c \<in> set (shown_cards ids kvs)"
  shows "card_ok c \<and> (\<exists>i\<in>set ids. get_field c ''id'' = Str i \<and> map_of kvs i = Some c)"
proof -
  obtain i where i: "i \<in> set ids" "map_of kvs i = Some c" and v: "\<not> truthy (get_field c ''hidden'')"
    using assms(2) by (auto simp: shown_cards_def List.map_filter_def)
  have "entry_ok (i, c)" using assms(1) i(2) by (meson map_of_SomeD)
  with v have "card_ok c \<and> get_field c ''id'' = Str i" by (auto simp: entry_ok_def hidden_card_def get_field_def truthy_def)
  with i show ?thesis by blast
qed

lemma shown_cards_distinct:
  assumes "\<forall>x\<in>set kvs. entry_ok x" and "distinct ids"
  shows "distinct (map (\<lambda>c. get_field c ''id'') (shown_cards ids kvs))"
  using assms(2)
proof (induction ids)
  case (Cons i ids)
  have d: "distinct (map (\<lambda>c. get_field c ''id'') (shown_cards ids kvs))" by (rule Cons.IH) (use Cons.prems in simp)
  have "get_field c ''id'' \<noteq> Str i" if "c \<in> set (shown_cards ids kvs)" for c
    using shown_cards_ok [OF assms(1) that] Cons.prems by auto
  moreover have "get_field c ''id'' = Str i" if "map_of kvs i = Some c" "\<not> truthy (get_field c ''hidden'')" for c
    using assms(1) that by (auto dest!: map_of_SomeD simp: entry_ok_def hidden_card_def get_field_def truthy_def)
  ultimately show ?case using d by (auto simp: shown_cards_def List.map_filter_simps split: option.splits; blast)
qed (simp add: shown_cards_def List.map_filter_simps)

text \<open>The tables: a row for some of the users asked for, with texts as ids and numbers as levels.\<close>

locale viewer_tables =
  fixes V :: "'w view_env" and row :: "string \<Rightarrow> jsval"
  assumes rows: "fst (vw_users V ids w) = Inr us \<Longrightarrow> u \<in> set us \<Longrightarrow> \<exists>i\<in>set ids. get_field u ''id'' = Str i \<and> u = row i"
    and row_level: "truthy (get_field (get_field (row i) ''userLevel'') ''wealthLevel'') \<Longrightarrow>
      \<exists>q. get_field (get_field (row i) ''userLevel'') ''wealthLevel'' = Num q"
    and wealth: "fst (vw_wealthLevels V ids w) = Inr ls \<Longrightarrow> (i, l) \<in> set ls \<Longrightarrow> \<exists>q. l = Num q"
begin

lemma level_num:
  assumes "fst (vw_wealthLevels V ids w) = Inr ls"
  shows "\<exists>q. nullish (case js_map ls i of None \<Rightarrow> Undefined | Some l \<Rightarrow> l)
    (js_or (get_field (get_field (row j) ''userLevel'') ''wealthLevel'') (NumI 1)) = Num q"
proof (cases "js_map ls i")
  case None
  then show ?thesis using row_level [of j] by (auto simp: nullish_def is_nullish_def js_or_def)
next
  case (Some l)
  then have "(i, l) \<in> set ls" by (auto simp: js_map_def dest!: map_of_SomeD)
  from wealth [OF assms this] show ?thesis using Some by (auto simp: nullish_def is_nullish_def)
qed

lemma built_ok:
  assumes "buildViewerCards V h s ids w = (Inr kvs, w1)" and "(i, c) \<in> set kvs"
  shows "entry_ok (i, c) \<and> \<not> is_stealth (row i)"
proof -
  let ?now = "vw_now V w"
  obtain gs w2 where 2: "vw_giftsFrom V h ids (?now - week_ms) w = (Inr gs, w2)"
    using assms(1) by (auto simp: buildViewerCards_def bindA_run askA_run split: prod.splits sum.splits)
  obtain as w3 where 3: "vw_guardians V h ids ?now w2 = (Inr as, w3)"
    using assms(1) 2 by (auto simp: buildViewerCards_def bindA_run askA_run split: prod.splits sum.splits)
  obtain us w4 where 4: "vw_users V ids w3 = (Inr us, w4)"
    using assms(1) 2 3 by (auto simp: buildViewerCards_def bindA_run askA_run split: prod.splits sum.splits)
  obtain ls w5 where 5: "vw_wealthLevels V ids w4 = (Inr ls, w5)"
    using assms(1) 2 3 4 by (auto simp: buildViewerCards_def bindA_run askA_run split: prod.splits sum.splits)
  obtain ads w6 where 6: "(if truthy_str s then getStreamAdminsService (vw_redis V) (vw_room V) s None else ret []) w5 = (Inr ads, w6)"
    using assms(1) 2 3 4 5 by (auto simp: buildViewerCards_def bindA_run askA_run split: prod.splits sum.splits)
  let ?c = "viewer_card V ?now (js_map (map (\<lambda>g. (gx_sender g, gx_cost g)) gs)) as (js_map ls) ads"
  obtain u where u: "u \<in> set us" "\<not> is_stealth u" "i = js_String (get_field u ''id'')" "c = ?c u"
    using assms 2 3 4 5 6 by (auto simp: buildViewerCards_def bindA_run askA_run ret_run)
  obtain j where j: "get_field u ''id'' = Str j" "u = row j" using rows [of ids w3 us u] 4 u(1) by auto
  have i: "i = j" using u(3) j(1) by (simp add: js_String_def)
  obtain q where "nullish (case js_map ls i of None \<Rightarrow> Undefined | Some l \<Rightarrow> l)
      (js_or (get_field (get_field (row j) ''userLevel'') ''wealthLevel'') (NumI 1)) = Num q"
    using level_num [of ids w4 ls i j] 5 by auto
  then have "entry_ok (i, c)"
    using u(3,4) j i by (simp add: entry_ok_def card_ok_def viewer_card_def Let_def get_field_def js_String_def)
  with u(2) j i show ?thesis by simp
qed

lemma fetched_ok:
  assumes "fetch_missing V h s k missing w = (Inr kvs, w1)" and "x \<in> set kvs"
  shows "entry_ok x \<and> fst x \<in> set missing \<and> (snd x = hidden_card \<or> \<not> is_stealth (row (fst x)))"
proof -
  have ne: "missing \<noteq> []" using assms by (auto simp: fetch_missing_def ret_run)
  obtain fetched w2 where b: "buildViewerCards V h s missing w = (Inr fetched, w2)"
    using assms(1) ne by (auto simp: fetch_missing_def bindA_run split: prod.splits sum.splits)
  have x: "x \<in> set (map (\<lambda>i. (i, case js_map fetched i of None \<Rightarrow> hidden_card | Some c \<Rightarrow> c)) missing)"
    using assms ne b by (auto simp: fetch_missing_def bindA_run thenA_run Let_def ret_run split: prod.splits sum.splits)
  then obtain i where i: "i \<in> set missing" "x = (i, case js_map fetched i of None \<Rightarrow> hidden_card | Some c \<Rightarrow> c)" by auto
  show ?thesis
  proof (cases "js_map fetched i")
    case None
    with i show ?thesis by (simp add: entry_ok_def)
  next
    case (Some c)
    then have "(i, c) \<in> set fetched" by (auto simp: js_map_def dest!: map_of_SomeD)
    from built_ok [OF b this] show ?thesis using i Some by simp
  qed
qed

lemma viewers_listed:
  assumes "ids = rev (remdups (rev viewerIds))" and "read_cards V s ids w = (Inr (k, cached), w0)" and "\<forall>x\<in>set cached. entry_ok x"
    and "sortRoomViewersService V h s viewerIds w = (Inr vs, w1)" and "viewerIds \<noteq> []"
  shows "sorted (map card_rank vs) \<and> distinct (map (\<lambda>c. get_field c ''id'') vs) \<and>
    (\<forall>c\<in>set vs. \<exists>i\<in>set viewerIds. get_field c ''id'' = Str i \<and> (map_of cached i = None \<longrightarrow> \<not> is_stealth (row i)))"
proof -
  obtain fetched where f: "fetch_missing V h s k (filter (\<lambda>i. map_of cached i = None) ids) w0 = (Inr fetched, w1)"
    and vs: "vs = sortViewers (shown_cards ids (cached @ fetched))"
    using assms by (auto simp: sortRoomViewersService_def bindA_run ret_run Let_def split: prod.splits sum.splits)
  have ok: "\<forall>x\<in>set (cached @ fetched). entry_ok x" using assms(3) fetched_ok [OF f] by auto
  have cards: "\<forall>c\<in>set (shown_cards ids (cached @ fetched)). card_ok c" using shown_cards_ok [OF ok] by blast
  have eq: "vs = sort_key card_rank (shown_cards ids (cached @ fetched))" using sortViewers_key [OF cards] vs by simp
  have d: "distinct (map (\<lambda>c. get_field c ''id'') (shown_cards ids (cached @ fetched)))"
    by (rule shown_cards_distinct [OF ok]) (simp add: assms(1))
  have "mset (map (\<lambda>c. get_field c ''id'') vs) = mset (map (\<lambda>c. get_field c ''id'') (shown_cards ids (cached @ fetched)))"
    by (simp add: eq)
  then have d': "distinct (map (\<lambda>c. get_field c ''id'') vs)" using d mset_eq_imp_distinct_iff by blast
  have "\<exists>i\<in>set viewerIds. get_field c ''id'' = Str i \<and> (map_of cached i = None \<longrightarrow> \<not> is_stealth (row i))" if c: "c \<in> set vs" for c
  proof -
    have c': "c \<in> set (shown_cards ids (cached @ fetched))" using c eq by simp
    obtain i where i: "i \<in> set ids" "get_field c ''id'' = Str i" "map_of (cached @ fetched) i = Some c"
      using shown_cards_ok [OF ok c'] by blast
    have "\<not> is_stealth (row i)" if n: "map_of cached i = None"
    proof -
      have "(i, c) \<in> set fetched" using i(3) n by (auto simp: map_add_def split: option.splits dest!: map_of_SomeD)
      from fetched_ok [OF f this] have "c = hidden_card \<or> \<not> is_stealth (row i)" by simp
      moreover have "c \<noteq> hidden_card" using i(2) by (auto simp: hidden_card_def get_field_def)
      ultimately show ?thesis by simp
    qed
    then show ?thesis using i(1,2) assms(1) by (intro bexI [of _ i] conjI) simp_all
  qed
  moreover have "sorted (map card_rank vs)" unfolding eq by (rule sorted_sort_key)
  ultimately show ?thesis using d' by (intro conjI ballI)
qed

end

text \<open>
  C29: The viewers a room shows are in order: coins of the last week, then guardians, then subscribers, then wealth. Nobody is shown
  twice, only those asked for are shown, and one who hides is shown only if a fresh card of him was cached before he hid.
\<close>

theorem room_viewers_sorted_and_visible:
  assumes "viewer_tables V row" and "ids = rev (remdups (rev viewerIds))" and "viewerIds \<noteq> []"
    and "read_cards V s ids w = (Inr (k, cached), w0)" and "\<forall>x\<in>set cached. entry_ok x"
    and "sortRoomViewersService V h s viewerIds w = (Inr vs, w1)"
  shows "sorted (map card_rank vs) \<and> distinct (map (\<lambda>c. get_field c ''id'') vs) \<and>
    (\<forall>c\<in>set vs. \<exists>i\<in>set viewerIds. get_field c ''id'' = Str i \<and> (map_of cached i = None \<longrightarrow> \<not> is_stealth (row i)))"
  by (rule viewer_tables.viewers_listed [OF assms(1,2,4,5,6,3)])

text \<open>Nobody who hides in the ranking is in it, and the ranks are 1, 2, 3.\<close>

lemma fan_rankings_visible:
  assumes "i < length (fan_rankings users levels tops)"
  shows "get_field (fan_rankings users levels tops ! i) ''rank'' = NumI (int i + 1) \<and>
    (\<exists>g\<in>set tops. get_field (fan_rankings users levels tops ! i) ''userId'' = Str (gx_sender g) \<and> \<not> is_mystery_rank (users (gx_sender g)))"
proof -
  let ?vis = "filter (\<lambda>g. \<not> is_mystery_rank (users (gx_sender g))) tops"
  have i: "i < length ?vis" using assms by (simp add: fan_rankings_def)
  have "fan_rankings users levels tops ! i = fan_row users levels i (?vis ! i)"
    using i by (simp add: fan_rankings_def nth_enumerate_eq)
  moreover have "?vis ! i \<in> set ?vis" by (rule nth_mem [OF i])
  ultimately show ?thesis by (auto simp: fan_row_def Let_def get_field_def)
qed

text \<open>The pages of a list are the list.\<close>

lemma pages_cover:
  assumes "0 < limit"
  shows "concat (map (\<lambda>p. page_of (Suc p) limit xs) [0..<n]) = take (n * limit) xs"
proof (induction n)
  case (Suc n)
  have "take (n * limit) xs @ take limit (drop (n * limit) xs) = take (n * limit + limit) xs" by (rule take_add [symmetric])
  with Suc.IH show ?case by (simp add: page_of_def add.commute)
qed simp

lemma distance_symmetric: "calculateDistanceKm a b c d = calculateDistanceKm c d a b"
proof -
  have "haversine p q r s = haversine r s p q" for p q r s
  proof -
    have "sin (of_rat (r - p) * (pi / 180) / 2) = - sin (of_rat (p - r) * (pi / 180) / 2)" for p r :: rat
    proof -
      have "of_rat (r - p) * (pi / 180) / 2 = - (of_rat (p - r) * (pi / 180) / 2)" by (simp add: of_rat_diff field_simps)
      then show ?thesis by (simp only: sin_minus)
    qed
    from this [of r p] this [of s q] show ?thesis by (simp add: haversine_def Let_def mult.commute)
  qed
  then show ?thesis by (simp add: calculateDistanceKm_def Let_def split: option.splits)
qed

section \<open>Concrete tables\<close>

text \<open>User \<open>m\<close> hides; the guardian \<open>g\<close> has given nothing.\<close>

definition view_row :: "string \<Rightarrow> jsval" where
  "view_row u = Obj [(''id'', Str u), (''username'', Str u), (''publicId'', NumI 7), (''privacyMysteryLive'', JBool (u = ''m'')),
     (''vipSubscriptionActive'', JBool (u = ''m'')), (''userLevel'', Obj [(''wealthLevel'', NumI 3)])]"

definition mem_view :: "call_mem view_env" where
  "mem_view = \<lparr>vw_calls = mem_call, vw_room = room_db.truncate idle_life_db, vw_local = (\<lambda>t. (1970, 0, t div 86400000 + 1)),
     vw_midnight = (\<lambda>y m d. (d - 1) * 86400000), vw_topGifters = (\<lambda>_ _ _. ret []), vw_giftsOf = (\<lambda>_ _ _. ret (0, None)),
     vw_above = (\<lambda>_ _ _. ret 0), vw_giftsFrom = (\<lambda>_ ids _. ret (map (\<lambda>i. \<lparr>gx_sender = i, gx_cost = 10, gx_points = None\<rparr>)
       (filter (\<lambda>i. i = ''a'') ids))), vw_guardians = (\<lambda>_ ids _. ret (filter (\<lambda>i. i = ''g'') ids)),
     vw_users = (\<lambda>ids. ret (map view_row ids)), vw_wealthLevels = (\<lambda>_. ret []), vw_levels = (\<lambda>_. ret []),
     vw_hmget = (\<lambda>_ ids. ret (map (\<lambda>_. None) ids)), vw_hmset = (\<lambda>_ _ _. ret ()), vw_place = (\<lambda>_. ret Null), vw_places = (\<lambda>_. ret []),
     vw_following = (\<lambda>_. ret []), vw_live = (\<lambda>_ _ _. ret []), vw_countLive = (\<lambda>_. ret 0), vw_liveOfCountry = (\<lambda>_ _ _. ret ([], 0)),
     vw_streams = (\<lambda>_. ret [])\<rparr>"

interpretation memview: viewer_tables mem_view view_row
  by unfold_locales (auto simp: mem_view_def ret_run view_row_def get_field_def)

theorem room_viewers_sorted_and_visible_witness:
  "\<exists>vs w1. sortRoomViewersService mem_view ''h'' (Some ''s'') [''b'', ''g'', ''m'', ''a''] (call0 0 []) = (Inr vs, w1) \<and>
     map (\<lambda>c. get_field c ''id'') vs = [Str ''a'', Str ''g'', Str ''b''] \<and> sorted (map card_rank vs)"
proof -
  let ?f = "sortRoomViewersService mem_view ''h'' (Some ''s'') [''b'', ''g'', ''m'', ''a''] (call0 0 [])"
  obtain x w1 where r: "?f = (x, w1)" by (rule prod.exhaust)
  have n: "\<not> isl (fst ?f)" by code_simp
  then obtain vs where vs: "x = Inr vs" using r by (cases x) auto
  have "map (\<lambda>c. get_field c ''id'') (projr (fst ?f)) = [Str ''a'', Str ''g'', Str ''b'']" by code_simp
  then have 1: "map (\<lambda>c. get_field c ''id'') vs = [Str ''a'', Str ''g'', Str ''b'']" using r vs by simp
  obtain w0 k where "read_cards mem_view (Some ''s'') (rev (remdups (rev [''b'', ''g'', ''m'', ''a'']))) (call0 0 []) = (Inr (k, []), w0)"
    by (simp add: read_cards_def ifOpen_run catchA_run bindA_run askA_run ret_run mem_view_def mem_call_def mem_redis_def call0_def
        mem_live_def fresh_cards_def fresh_card_def truthy_text_def List.map_filter_simps Let_def)
  from room_viewers_sorted_and_visible [OF memview.viewer_tables_axioms refl _ this _ r [unfolded vs]]
  have 2: "sorted (map card_rank vs)" by simp
  show ?thesis by (rule exI, rule exI, intro conjI, rule r [unfolded vs], rule 1, rule 2)
qed

end
