(* ===== verification/Failure_Log.thy ===== *)
theory Failure_Log
  imports Admin_Auth User_Names Host_Stats
begin

text \<open>
  The log of failures, \<open>services/liveFailureLog.service.js\<close>: the severity of an event, what is kept of what a caller or the app
  sends, the row and the Redis entries that are written, the quota of reports, and the listing for the admins. A date is the
  number of its milliseconds; the character that \<open>clip\<close> puts for what it cuts is \<open>ellipsis\<close>.
\<close>

section \<open>Kinds, areas, severities\<close>

definition LIVE_FAILURE_KINDS :: "string list" where
  "LIVE_FAILURE_KINDS = [''GO_LIVE_REJECTED'', ''JOIN_REJECTED'', ''CLIENT_CONNECT_FAILED'', ''GHOST_STREAM_ENDED'', ''HEARTBEAT_LOST'',
     ''GOLIVE_ABANDONED'', ''CALL_NET_LOST'', ''CALL_CONNECT_FAIL'', ''CLIENT_EVENT'']"

definition FAILURE_AREAS :: "string list" where "FAILURE_AREAS = [''stream'', ''call'', ''socket'', ''app'']"
definition SEVERITIES :: "string list" where "SEVERITIES = [''S0'', ''S1'', ''S2'', ''S3'', ''S4'']"

definition LIST_KEY :: string where "LIST_KEY = ''live:failures''"
definition MAX_EVENTS :: int where "MAX_EVENTS = 5000"
definition DAILY_TTL_SECONDS :: int where "DAILY_TTL_SECONDS = 35 * 86400"
definition RETENTION_DAYS :: int where "RETENTION_DAYS = 90"
definition SEEN_TTL_SECONDS :: int where "SEEN_TTL_SECONDS = 8 * 86400"
definition CLIENT_REPORT_RATE_PER_MIN :: int where "CLIENT_REPORT_RATE_PER_MIN = 20"
definition CLIENT_EVENTS_RATE_PER_MIN :: int where "CLIENT_EVENTS_RATE_PER_MIN = 60"
definition CLIENT_EVENTS_MAX_BATCH :: nat where "CLIENT_EVENTS_MAX_BATCH = 50"
definition CLIENT_EVENT_MAX_AGE_MS :: int where "CLIENT_EVENT_MAX_AGE_MS = 7 * 86400 * 1000"

definition dailyKey :: "string \<Rightarrow> string" where "dailyKey day = ''live:failures:daily:'' @ day"
definition rateKey :: "string \<Rightarrow> string" where "rateKey userId = ''live:failures:rl:'' @ userId"
definition seenKey :: "string \<Rightarrow> string" where "seenKey i = ''live:failures:seen:'' @ i"

section \<open>Texts\<close>

text \<open>\<open>/^[0-9a-f]{8}-...$/i\<close>: groups of 8, 4, 4, 4 and 12 hexadecimal digits.\<close>

definition hex_char :: "char \<Rightarrow> bool" where
  "hex_char c \<longleftrightarrow> (let n = (of_char c :: nat) in 48 \<le> n \<and> n \<le> 57 \<or> 65 \<le> n \<and> n \<le> 70 \<or> 97 \<le> n \<and> n \<le> 102)"

definition is_uuid :: "string \<Rightarrow> bool" where
  "is_uuid s \<longleftrightarrow> map length (split_on (CHR ''-'') s) = [8, 4, 4, 4, 12] \<and> list_all (list_all hex_char) (split_on (CHR ''-'') s)"

definition ellipsis :: char where "ellipsis = CHR 0x85"

text \<open>The text cut to \<open>n\<close> characters, with one more for what was cut.\<close>

definition clip :: "jsval \<Rightarrow> nat \<Rightarrow> string option" where
  "clip v n = (if is_nullish v then None else let s = js_String v in Some (if n < length s then take n s @ [ellipsis] else s))"

definition clipped :: "jsval \<Rightarrow> nat \<Rightarrow> jsval" where
  "clipped v n = str_or_null (clip v n)"

definition toUpperCase :: "string \<Rightarrow> string" where
  "toUpperCase s = map upper_char s"

definition has_text :: "string \<Rightarrow> string \<Rightarrow> bool" where
  "has_text s t \<longleftrightarrow> list_ex (\<lambda>i. startsWith (drop i s) t) [0..<Suc (length s)]"

definition entries :: "jsval \<Rightarrow> (string \<times> jsval) list" where
  "entries v = (case v of Obj kvs \<Rightarrow> kvs | Arr xs \<Rightarrow> map (\<lambda>(i, x). (int_str (int i), x)) (enumerate 0 xs) | _ \<Rightarrow> [])"

definition is_object :: "jsval \<Rightarrow> bool" where
  "is_object v \<longleftrightarrow> (case v of Obj _ \<Rightarrow> True | Arr _ \<Rightarrow> True | _ \<Rightarrow> False)"

text \<open>What is kept of a value, if it is: numbers, booleans, texts of at most 200 characters.\<close>

definition meta_value :: "jsval \<Rightarrow> jsval option" where
  "meta_value v = (case v of
      Num q \<Rightarrow> Some v | NonFinite \<Rightarrow> Some v | JBool b \<Rightarrow> Some v
    | Str s \<Rightarrow> if s = [] then None else Some (clipped v 200)
    | _ \<Rightarrow> None)"

fun meta_fields :: "nat \<Rightarrow> (string \<times> jsval) list \<Rightarrow> (string \<times> jsval) list \<Rightarrow> (string \<times> jsval) list" where
  "meta_fields n out [] = out"
| "meta_fields n out ((k, v) # kvs) =
     (if 20 \<le> n then out
      else case meta_value v of
        None \<Rightarrow> meta_fields n out kvs
      | Some x \<Rightarrow> meta_fields (n + 1) (obj_spread out [(the (clip (Str k) 40), x)]) kvs)"

definition sanitizeMeta :: "jsval \<Rightarrow> jsval" where
  "sanitizeMeta meta =
     (if \<not> is_object meta then Null
      else let out = meta_fields 0 [] (entries meta) in if out = [] then Null else Obj out)"

definition pad_to :: "nat \<Rightarrow> int \<Rightarrow> string" where
  "pad_to n i = (let s = int_str i in replicate (n - length s) CHR ''0'' @ s)"

text \<open>\<open>new Date(t).toISOString().slice(0, 10)\<close> of the years with four digits.\<close>

definition utcDay :: "int \<Rightarrow> string" where
  "utcDay t = pad_to 4 (getUTCFullYear t) @ ''-'' @ pad2 (getUTCMonth t + 1) @ ''-'' @ pad2 (getUTCDate t)"

section \<open>Severity\<close>

definition AREA_BY_KIND :: "string \<Rightarrow> string" where
  "AREA_BY_KIND kind =
     (if kind \<in> set [''CALL_NET_LOST'', ''CALL_CONNECT_FAIL''] then ''call'' else if kind = ''CLIENT_EVENT'' then ''app'' else ''stream'')"

definition INFO_CODES :: "string list" where
  "INFO_CODES = [''LIVE_STREAM_START_BANNED'', ''STREAM_NOT_FOUND'', ''STREAM_NOT_LIVE'', ''KICKED'', ''BAD_PASSWORD'',
     ''CANCELLED_BY_USER'', ''APP_BACKGROUNDED'', ''STREAM_ENDED_BY_SERVER'', ''NET_OFFLINE'']"

definition APP_CODE_SEVERITY :: "(string \<times> string) list" where
  "APP_CODE_SEVERITY = [(''APP_CRASH_LOOP'', ''S1''), (''APP_STARTUP_FAIL'', ''S1''), (''APP_FATAL_NATIVE'', ''S2''),
     (''APP_FATAL_DART'', ''S2''), (''APP_ANR'', ''S2''), (''APP_OOM'', ''S2''), (''APP_UNCLEAN_EXIT'', ''S2''),
     (''APP_NONFATAL_DART'', ''S3''), (''HOST_NET_LOST'', ''S1''), (''HOST_APP_KILLED'', ''S1''), (''CALL_CONNECT_FAIL'', ''S1''),
     (''CALL_APP_KILLED'', ''S1''), (''NET_WEAK'', ''S3''), (''SOCKET_DROP'', ''S3''), (''VIEW_STALL'', ''S3''),
     (''NET_PATH_BLOCKED'', ''S2''), (''JOIN_RTC_FAIL'', ''S2''), (''VIEW_FALSE_HOST_GONE'', ''S2''), (''GOLIVE_CAMERA_HANDOVER'', ''S2'')]"

definition live_or_call_screen :: "string \<Rightarrow> bool" where
  "live_or_call_screen s \<longleftrightarrow> has_text (toLowerCase s) ''live'' \<or> has_text (toLowerCase s) ''call''"

text \<open>The severities in order; one level higher is the one before.\<close>

definition bump :: "string \<Rightarrow> string" where
  "bump sev = (let i = length (takeWhile (\<lambda>s. s \<noteq> sev) SEVERITIES) in SEVERITIES ! (i - 1))"

definition default_severity :: "string \<Rightarrow> string \<Rightarrow> jsval \<Rightarrow> string" where
  "default_severity kind c meta =
     (if c \<in> set INFO_CODES then ''S4''
      else if kind = ''HEARTBEAT_LOST'' then (if c = ''HOST_NO_VIDEO'' then ''S2'' else ''S1'')
      else if kind = ''CALL_NET_LOST'' \<or> kind = ''CALL_CONNECT_FAIL'' then ''S1''
      else if kind = ''GO_LIVE_REJECTED'' \<and> c = ''VALIDATION'' then ''S3''
      else if kind = ''CLIENT_EVENT'' then
        (let sev = (case map_of APP_CODE_SEVERITY c of None \<Rightarrow> ''S3'' | Some s \<Rightarrow> s) in
         if (startsWith c ''APP_FATAL_'' \<or> c = ''APP_ANR'') \<and> live_or_call_screen (text_of (get_field meta ''screen'')) then bump sev else sev)
      else ''S2'')"

definition derived_severity :: "string \<Rightarrow> string \<Rightarrow> jsval \<Rightarrow> jsval \<Rightarrow> string" where
  "derived_severity kind c meta role =
     (let sev = default_severity kind c meta;
          many = (case js_Number (get_field meta ''viewers'') of None \<Rightarrow> False | Some n \<Rightarrow> 20 < n) in
      if sev \<noteq> ''S0'' \<and> role = Str ''host'' \<and> many then bump sev else sev)"

definition deriveSeverity :: "string \<Rightarrow> jsval \<Rightarrow> jsval \<Rightarrow> jsval \<Rightarrow> jsval \<Rightarrow> string" where
  "deriveSeverity kind code severity meta role =
     (case severity of
        Str s \<Rightarrow> if s \<in> set SEVERITIES then s else derived_severity kind (toUpperCase (text_of code)) meta role
      | _ \<Rightarrow> derived_severity kind (toUpperCase (text_of code)) meta role)"

section \<open>Recording\<close>

record 'w log_env =
  fl_redis :: "'w redis"
  fl_now :: "'w \<Rightarrow> int"
  fl_uuid :: "('w, string) act"
  fl_create :: "jsval \<Rightarrow> ('w, unit) act"                    \<comment> \<open>\<open>liveFailureEvent.create\<close>\<close>
  fl_deleteBefore :: "int \<Rightarrow> ('w, nat) act"
  fl_users :: "string list \<Rightarrow> ('w, jsval list) act"
  fl_parseDate :: "jsval \<Rightarrow> int option"                     \<comment> \<open>\<open>Date.parse\<close>; \<open>None\<close> is \<open>NaN\<close>\<close>

text \<open>The columns of the row.\<close>

definition failure_row :: "jsval \<Rightarrow> jsval" where
  "failure_row e =
     (let f = get_field e in Obj
       [(''id'', f ''id''), (''occurredAt'', f ''occurredAt''), (''receivedAt'', f ''receivedAt''), (''kind'', f ''kind''),
        (''area'', f ''area''), (''failureCode'', js_or (clipped (f ''failureCode'') 64) (Str ''UNKNOWN'')), (''severity'', f ''severity''),
        (''source'', f ''source''),
        (''userId'', case f ''userId'' of Str u \<Rightarrow> if is_uuid u then Str u else Null | _ \<Rightarrow> Null),
        (''streamId'', clipped (f ''streamId'') 64), (''callId'', clipped (f ''callId'') 64), (''role'', clipped (f ''role'') 16),
        (''status'', f ''status''), (''message'', clipped (f ''message'') 300), (''appVersion'', clipped (f ''appVersion'') 40),
        (''platform'', clipped (f ''platform'') 16), (''deviceModel'', clipped (f ''deviceModel'') 64),
        (''network'', clipped (f ''network'') 16), (''meta'', nullish (f ''meta'') Undefined)])"

definition persist :: "'w log_env \<Rightarrow> jsval \<Rightarrow> ('w, unit) act" where
  "persist L e = quietly (fl_create L (failure_row e))"

definition occurred :: "'w log_env \<Rightarrow> jsval \<Rightarrow> int \<Rightarrow> ('w, int) act" where
  "occurred L v receivedAt =
     (if \<not> truthy v then ret receivedAt
      else case (case v of Num q \<Rightarrow> Some \<lfloor>q\<rfloor> | _ \<Rightarrow> fl_parseDate L v) of
        Some t \<Rightarrow> ret t | None \<Rightarrow> throw ((Error ''Invalid time value'')\<lparr>e_name := ''RangeError''\<rparr>))"

definition failure_event :: "jsval \<Rightarrow> string \<Rightarrow> string \<Rightarrow> int \<Rightarrow> int \<Rightarrow> jsval" where
  "failure_event evt kind i receivedAt occurredAt =
     (let f = get_field evt; meta = sanitizeMeta (f ''meta''); role = nullish (f ''role'') (nullish (get_field meta ''role'') Null);
          either = (\<lambda>k. nullish (f k) (get_field meta k)) in Obj
       [(''id'', Str i), (''at'', NumI receivedAt), (''kind'', Str kind), (''userId'', js_or (f ''userId'') Null),
        (''streamId'', js_or (f ''streamId'') Null), (''status'', case f ''status'' of Num q \<Rightarrow> Num q | _ \<Rightarrow> Null),
        (''code'', clipped (f ''code'') 60), (''message'', clipped (f ''message'') 300), (''meta'', meta),
        (''area'', case f ''area'' of Str a \<Rightarrow> if a \<in> set FAILURE_AREAS then Str a else Str (AREA_BY_KIND kind)
           | _ \<Rightarrow> Str (AREA_BY_KIND kind)),
        (''failureCode'', js_or (clipped (f ''code'') 60) (Str kind)),
        (''severity'', Str (deriveSeverity kind (f ''code'') (f ''severity'') meta role)),
        (''source'', Str (if f ''source'' = Str ''app'' then ''app'' else ''server'')), (''role'', role),
        (''callId'', js_or (f ''callId'') Null), (''occurredAt'', NumI occurredAt), (''receivedAt'', NumI receivedAt),
        (''appVersion'', clipped (either ''appVersion'') 40), (''platform'', clipped (either ''platform'') 16),
        (''deviceModel'', clipped (either ''deviceModel'') 64), (''network'', clipped (either ''network'') 16)])"

definition keep_event :: "'w log_env \<Rightarrow> jsval \<Rightarrow> ('w, unit) act" where
  "keep_event L e =
     bindA (askA (fl_now L)) (\<lambda>t. let day = dailyKey (utcDay t); R = fl_redis L in
       quietly
         (thenA (r_lpush R LIST_KEY (JSON_stringify e))
         (thenA (r_ltrim R LIST_KEY 0 (MAX_EVENTS - 1))
         (thenA (r_hincrBy R day (js_String (get_field e ''kind'')) 1)
         (thenA (r_hincrBy R day (''sev:'' @ js_String (get_field e ''severity'')) 1)
           (r_pexpire R day (DAILY_TTL_SECONDS * 1000)))))))"

text \<open>The event that was recorded, or \<open>null\<close>.\<close>

definition recordLiveFailure :: "'w log_env \<Rightarrow> jsval \<Rightarrow> ('w, jsval) act" where
  "recordLiveFailure L evt = catchA
     (case get_field evt ''kind'' of
        Str kind \<Rightarrow>
          if kind \<notin> set LIVE_FAILURE_KINDS then ret Null
          else
            bindA (askA (fl_now L)) (\<lambda>receivedAt.
            bindA (case get_field evt ''id'' of Str i \<Rightarrow> if is_uuid i then ret i else fl_uuid L | _ \<Rightarrow> fl_uuid L) (\<lambda>i.
            bindA (occurred L (get_field evt ''occurredAt'') receivedAt) (\<lambda>occurredAt.
              let e = failure_event evt kind i receivedAt occurredAt in
              thenA (persist L e)
              (thenA (ifOpen (fl_redis L) (keep_event L e) (ret ())) (ret e)))))
      | _ \<Rightarrow> ret Null)
     (\<lambda>_. ret Null)"

section \<open>Reports of the app\<close>

definition allowClientFailureReport :: "'w log_env \<Rightarrow> string option \<Rightarrow> int \<Rightarrow> int \<Rightarrow> string \<Rightarrow> ('w, bool) act" where
  "allowClientFailureReport L userId cost limit bucket =
     (if \<not> truthy_str userId then ret True
      else ifOpen (fl_redis L)
        (let k = rateKey (the userId) @ (if bucket = [] then [] else '':'' @ bucket) in
         catchA
           (bindA (r_incrBy (fl_redis L) k cost) (\<lambda>n.
              thenA (if n = cost then thenA (r_pexpire (fl_redis L) k 60000) (ret ()) else ret ()) (ret (n \<le> limit))))
           (\<lambda>_. ret True))
        (ret True))"

definition str_in :: "jsval \<Rightarrow> nat \<Rightarrow> jsval" where
  "str_in v n = (case v of Str s \<Rightarrow> if js_trim s = [] then Undefined else clipped (Str (js_trim s)) n | _ \<Rightarrow> Undefined)"

definition num_in :: "jsval \<Rightarrow> jsval" where
  "num_in v = (if v = Null \<or> v = Str [] then Undefined else case js_Number v of None \<Rightarrow> Undefined | Some q \<Rightarrow> Num q)"

definition code_char :: "char \<Rightarrow> bool" where
  "code_char c \<longleftrightarrow> c = CHR ''_'' \<or> (let n = (of_char c :: nat) in 65 \<le> n \<and> n \<le> 90 \<or> 48 \<le> n \<and> n \<le> 57)"

definition good_code :: "jsval \<Rightarrow> bool" where
  "good_code v \<longleftrightarrow> (case v of Str s \<Rightarrow> 2 \<le> length s \<and> length s \<le> 64 \<and> list_all code_char s | _ \<Rightarrow> False)"

definition client_failure :: "string option \<Rightarrow> jsval \<Rightarrow> jsval \<Rightarrow> string option \<Rightarrow> int \<Rightarrow> jsval" where
  "client_failure userId raw headerAppVersion i occurredAt =
     (let f = get_field raw in Obj
       [(''id'', case i of None \<Rightarrow> Undefined | Some x \<Rightarrow> Str x), (''kind'', Str ''CLIENT_EVENT''), (''source'', Str ''app''),
        (''area'', str_in (f ''area'') 16), (''code'', str_in (f ''failureCode'') 64), (''severity'', str_in (f ''severity'') 2),
        (''userId'', str_or_null userId), (''streamId'', js_or (str_in (f ''streamId'') 64) Null),
        (''callId'', js_or (str_in (f ''callId'') 64) Null),
        (''role'', if f ''role'' \<in> set (map Str [''host'', ''viewer'', ''caller'', ''callee'']) then f ''role'' else Null),
        (''message'', js_or (str_in (f ''message'') 300) Null), (''occurredAt'', NumI occurredAt),
        (''appVersion'', js_or (str_in (f ''appVersion'') 40) (str_in headerAppVersion 40)), (''platform'', str_in (f ''platform'') 16),
        (''deviceModel'', str_in (f ''deviceModel'') 64), (''network'', str_in (f ''network'') 16),
        (''meta'', Obj [(''phase'', str_in (f ''phase'') 40), (''screen'', str_in (f ''screen'') 60), (''attempt'', num_in (f ''attempt'')),
           (''durationMs'', num_in (f ''durationMs'')), (''osVersion'', str_in (f ''osVersion'') 20), (''sdkVersion'', str_in (f ''sdkVersion'') 40),
           (''exitReason'', str_in (f ''exitReason'') 40), (''crashId'', str_in (f ''crashId'') 64), (''viewers'', num_in (f ''viewers''))])])"

text \<open>Whether the id is new; the check is passed over when Redis fails.\<close>

definition first_seen :: "'w log_env \<Rightarrow> string option \<Rightarrow> ('w, bool) act" where
  "first_seen L i = (case i of
       None \<Rightarrow> ret True
     | Some x \<Rightarrow> ifOpen (fl_redis L)
         (catchA (r_set (fl_redis L) (seenKey x) (Raw ''1'') (nx_ex_s SEEN_TTL_SECONDS)) (\<lambda>_. ret True)) (ret True))"

definition recordClientEvent :: "'w log_env \<Rightarrow> string option \<Rightarrow> jsval \<Rightarrow> jsval \<Rightarrow> int \<Rightarrow> ('w, string) act" where
  "recordClientEvent L userId raw headerAppVersion now =
     (if \<not> is_object raw then ret ''not_an_object''
      else if \<not> good_code (str_in (get_field raw ''failureCode'') 64) then ret ''bad_failureCode''
      else if str_in (get_field raw ''area'') 16 \<notin> set (map Str FAILURE_AREAS) then ret ''bad_area''
      else case fl_parseDate L (get_field raw ''occurredAt'') of
        None \<Rightarrow> ret ''bad_occurredAt''
      | Some t \<Rightarrow>
          if t < now - CLIENT_EVENT_MAX_AGE_MS \<or> now + 5 * 60000 < t then ret ''occurredAt_out_of_range''
          else let i = (case get_field raw ''id'' of Str s \<Rightarrow> if is_uuid s then Some (toLowerCase s) else None | _ \<Rightarrow> None) in
            bindA (first_seen L i) (\<lambda>fresh.
              if \<not> fresh then ret ''duplicate''
              else thenA (recordLiveFailure L (client_failure userId raw headerAppVersion i t)) (ret ''ok'')))"

definition pruneOldFailureEvents :: "'w log_env \<Rightarrow> ('w, nat) act" where
  "pruneOldFailureEvents L = bindA (askA (fl_now L)) (\<lambda>t. fl_deleteBefore L (t - RETENTION_DAYS * 86400 * 1000))"

section \<open>The listing\<close>

definition readEvents :: "'w log_env \<Rightarrow> ('w, jsval list) act" where
  "readEvents L = ifOpen (fl_redis L)
     (bindA (r_lrange (fl_redis L) LIST_KEY) (\<lambda>raw. ret (List.map_filter JSON_parse (take (nat MAX_EVENTS) raw)))) (ret [])"

definition count_in :: "(string \<times> jtext) list \<Rightarrow> string \<Rightarrow> int" where
  "count_in tallies f = (case map_of tallies f of None \<Rightarrow> 0 | Some t \<Rightarrow> (case Number_of t of None \<Rightarrow> 0 | Some n \<Rightarrow> n))"

definition day_summary :: "string \<Rightarrow> (string \<times> jtext) list \<Rightarrow> jsval" where
  "day_summary day tallies = Obj
     [(''day'', Str day), (''total'', NumI (sum_list (map (count_in tallies) LIVE_FAILURE_KINDS))),
      (''byKind'', Obj (map (\<lambda>k. (k, NumI (count_in tallies k))) LIVE_FAILURE_KINDS)),
      (''bySeverity'', Obj (map (\<lambda>s. (s, NumI (count_in tallies (''sev:'' @ s)))) SEVERITIES))]"

fun day_summaries :: "'w log_env \<Rightarrow> int \<Rightarrow> nat list \<Rightarrow> ('w, jsval list) act" where
  "day_summaries L now [] = ret []"
| "day_summaries L now (i # is) =
     (let day = utcDay (now - int i * 86400000) in
      bindA (r_hgetall (fl_redis L) (dailyKey day)) (\<lambda>tallies.
      bindA (day_summaries L now is) (\<lambda>r. ret (day_summary day tallies # r))))"

definition dailySummary :: "'w log_env \<Rightarrow> nat \<Rightarrow> ('w, jsval list) act" where
  "dailySummary L days = ifOpen (fl_redis L) (bindA (askA (fl_now L)) (\<lambda>now. day_summaries L now [0..<days])) (ret [])"

record failure_filter =
  ff_kind :: "string option"
  ff_userId :: "string option"
  ff_streamId :: "string option"
  ff_code :: "string option"
  ff_severity :: "string option"
  ff_area :: "string option"

definition one_of :: "string list \<Rightarrow> jsval \<Rightarrow> string option" where
  "one_of xs v = (case v of Str s \<Rightarrow> if s \<in> set xs then Some s else None | _ \<Rightarrow> None)"

definition trimmed :: "jsval \<Rightarrow> string option" where
  "trimmed v = (if truthy v then Some (js_trim (js_String v)) else None)"

definition filter_of :: "jsval \<Rightarrow> failure_filter" where
  "filter_of q = \<lparr>ff_kind = one_of LIVE_FAILURE_KINDS (get_field q ''kind''), ff_userId = trimmed (get_field q ''userId''),
     ff_streamId = trimmed (get_field q ''streamId''), ff_code = map_option toUpperCase (trimmed (get_field q ''code'')),
     ff_severity = one_of SEVERITIES (get_field q ''severity''), ff_area = one_of FAILURE_AREAS (get_field q ''area'')\<rparr>"

text \<open>An empty filter lets everything through.\<close>

definition passes :: "failure_filter \<Rightarrow> jsval \<Rightarrow> bool" where
  "passes F e \<longleftrightarrow>
     (\<not> truthy_str (ff_kind F) \<or> get_field e ''kind'' = Str (the (ff_kind F))) \<and>
     (\<not> truthy_str (ff_userId F) \<or> get_field e ''userId'' = Str (the (ff_userId F))) \<and>
     (\<not> truthy_str (ff_streamId F) \<or> get_field e ''streamId'' = Str (the (ff_streamId F))) \<and>
     (\<not> truthy_str (ff_code F) \<or> toUpperCase (text_of (get_field e ''code'')) = the (ff_code F)) \<and>
     (\<not> truthy_str (ff_severity F) \<or> get_field e ''severity'' = Str (the (ff_severity F))) \<and>
     (\<not> truthy_str (ff_area F) \<or> get_field e ''area'' = Str (the (ff_area F)))"

text \<open>\<open>Number(v) || dflt\<close>\<close>

definition number_or :: "jsval \<Rightarrow> rat \<Rightarrow> rat" where
  "number_or v d = (case js_Number v of None \<Rightarrow> d | Some q \<Rightarrow> if q = 0 then d else q)"

definition user_of_event :: "jsval list \<Rightarrow> jsval \<Rightarrow> jsval" where
  "user_of_event rows e =
     (case get_field e ''userId'' of
        Str i \<Rightarrow> if i = [] then Null else (case map_of (rev (map (\<lambda>r. (js_String (get_field r ''id''), r)) rows)) i of
            None \<Rightarrow> Null
          | Some u \<Rightarrow>
              let parts = filter (\<lambda>s. s \<noteq> []) [text_of (get_field u ''firstName''), text_of (get_field u ''lastName'')];
                  name = concat (case parts of [a, b] \<Rightarrow> [a, '' '', b] | _ \<Rightarrow> parts) in
              Obj [(''id'', get_field u ''id''), (''username'', get_field u ''username''),
                (''name'', if name = [] then Null else Str name), (''country'', js_or (get_field u ''country'') Null)])
      | _ \<Rightarrow> Null)"

definition listed_event :: "jsval list \<Rightarrow> jsval \<Rightarrow> jsval" where
  "listed_event rows e = Obj (obj_spread (entries e) [(''user'', user_of_event rows e)])"

definition listLiveFailures :: "'w log_env \<Rightarrow> jsval \<Rightarrow> ('w, jsval) act" where
  "listLiveFailures L q =
     (let page = max 1 (number_or (get_field q ''page'') 1); limit = min 100 (max 1 (number_or (get_field q ''limit'') 50));
          F = filter_of q in
      bindA (readEvents L) (\<lambda>every. let filtered = filter (passes F) every;
        from = nat \<lfloor>(page - 1) * limit\<rfloor>; till = nat \<lfloor>page * limit\<rfloor>;
        items = take (till - from) (drop from filtered);
        ids = remdups (List.map_filter (\<lambda>e. js_str (get_field e ''userId'')) items) in
      bindA (if ids = [] then ret [] else catchA (fl_users L ids) (\<lambda>_. ret [])) (\<lambda>rows.
      bindA (dailySummary L 7) (\<lambda>summary.
        ret (Obj [(''items'', Arr (map (listed_event rows) items)),
          (''pagination'', Obj [(''page'', Num page), (''limit'', Num limit), (''total'', NumI (int (length filtered)))]),
          (''retained'', NumI (int (length every))), (''maxRetained'', NumI MAX_EVENTS),
          (''kinds'', Arr (map Str LIVE_FAILURE_KINDS)), (''severities'', Arr (map Str SEVERITIES)),
          (''areas'', Arr (map Str FAILURE_AREAS)), (''summary'', Arr summary)])))))"

section \<open>Lemmas\<close>

lemma length_clip: "clip v n = Some s \<Longrightarrow> length s \<le> n + 1"
  by (auto simp: clip_def Let_def split: if_splits)

lemma bump_in: "bump s \<in> set SEVERITIES"
  by (simp add: bump_def SEVERITIES_def Let_def)

lemma default_severity_in: "default_severity k c m \<in> set SEVERITIES"
proof -
  have "s \<in> set SEVERITIES" if "map_of APP_CODE_SEVERITY c = Some s" for s
    using map_of_SomeD [OF that] by (auto simp: APP_CODE_SEVERITY_def SEVERITIES_def)
  then have app: "(case map_of APP_CODE_SEVERITY c of None \<Rightarrow> ''S3'' | Some s \<Rightarrow> s) \<in> set SEVERITIES"
    by (cases "map_of APP_CODE_SEVERITY c") (simp_all add: SEVERITIES_def)
  have fixed: "''S1'' \<in> set SEVERITIES" "''S2'' \<in> set SEVERITIES" "''S3'' \<in> set SEVERITIES" "''S4'' \<in> set SEVERITIES"
    by (simp_all add: SEVERITIES_def)
  show ?thesis unfolding default_severity_def Let_def by (simp only: app fixed bump_in split: if_split) blast
qed

lemma deriveSeverity_in: "deriveSeverity k c s m r \<in> set SEVERITIES"
  using default_severity_in bump_in by (auto simp: deriveSeverity_def derived_severity_def Let_def split: jsval.splits)

text \<open>What is kept of \<open>meta\<close>: at most twenty fields, none nested, all short.\<close>

definition flat_field :: "string \<times> jsval \<Rightarrow> bool" where
  "flat_field x \<longleftrightarrow> length (fst x) \<le> 41 \<and>
     (case snd x of Num _ \<Rightarrow> True | NonFinite \<Rightarrow> True | JBool _ \<Rightarrow> True | Str s \<Rightarrow> length s \<le> 201 | _ \<Rightarrow> False)"

definition meta_ok :: "jsval \<Rightarrow> bool" where
  "meta_ok v \<longleftrightarrow> v = Null \<or> (\<exists>kvs. v = Obj kvs \<and> length kvs \<le> 20 \<and> list_all flat_field kvs)"

lemma meta_value_flat: "meta_value v = Some x \<Longrightarrow> flat_field (the (clip (Str k) 40), x)"
  by (cases v) (auto simp: meta_value_def flat_field_def clipped_def clip_def is_nullish_def js_String_def str_or_null_def split: if_splits)

lemma obj_spread_one: "length (obj_spread out [(k, x)]) \<le> length out + 1 \<and>
    (list_all P out \<and> P (k, x) \<and> (\<forall>v. P (k, v) \<longrightarrow> P (k, x)) \<longrightarrow> list_all P (obj_spread out [(k, x)]))"
  by (auto simp: obj_spread_def list_all_iff split: if_splits)

lemma meta_fields_ok:
  "length out \<le> n \<Longrightarrow> n \<le> 20 \<Longrightarrow> list_all flat_field out \<Longrightarrow>
    length (meta_fields n out kvs) \<le> 20 \<and> list_all flat_field (meta_fields n out kvs)"
proof (induction n out kvs rule: meta_fields.induct)
  case (2 n out k v kvs)
  show ?case
  proof (cases "20 \<le> n")
    case False
    show ?thesis
    proof (cases "meta_value v")
      case None
      then show ?thesis using 2 False by simp
    next
      case (Some x)
      have f: "flat_field (the (clip (Str k) 40), x)" by (rule meta_value_flat [OF Some])
      have "length (obj_spread out [(the (clip (Str k) 40), x)]) \<le> n + 1" "list_all flat_field (obj_spread out [(the (clip (Str k) 40), x)])"
        using obj_spread_one [of out "the (clip (Str k) 40)" x flat_field] 2(3,5) f by auto
      then show ?thesis using 2(2) [OF False Some] False Some by simp
    qed
  qed (use 2 in simp)
qed simp

lemma sanitizeMeta_ok: "meta_ok (sanitizeMeta m)"
  using meta_fields_ok [of "[]" 0 "entries m"] by (simp add: sanitizeMeta_def meta_ok_def Let_def)

text \<open>The shape of an event: every field is of its kind, whatever the caller or the app has sent.\<close>

definition short_or_null :: "nat \<Rightarrow> jsval \<Rightarrow> bool" where
  "short_or_null n v \<longleftrightarrow> (case v of Null \<Rightarrow> True | Str s \<Rightarrow> length s \<le> n | _ \<Rightarrow> False)"

definition event_ok :: "jsval \<Rightarrow> bool" where
  "event_ok e \<longleftrightarrow>
     get_field e ''kind'' \<in> set (map Str LIVE_FAILURE_KINDS) \<and> get_field e ''area'' \<in> set (map Str FAILURE_AREAS) \<and>
     get_field e ''severity'' \<in> set (map Str SEVERITIES) \<and> get_field e ''source'' \<in> {Str ''app'', Str ''server''} \<and>
     (\<exists>c. get_field e ''failureCode'' = Str c \<and> c \<noteq> [] \<and> length c \<le> 61) \<and>
     (get_field e ''status'' = Null \<or> (\<exists>q. get_field e ''status'' = Num q)) \<and>
     short_or_null 61 (get_field e ''code'') \<and> short_or_null 301 (get_field e ''message'') \<and>
     short_or_null 41 (get_field e ''appVersion'') \<and> short_or_null 17 (get_field e ''platform'') \<and>
     short_or_null 65 (get_field e ''deviceModel'') \<and> short_or_null 17 (get_field e ''network'') \<and> meta_ok (get_field e ''meta'')"

lemma short_clipped: "n + 1 \<le> m \<Longrightarrow> short_or_null m (clipped v n)"
  by (auto simp: short_or_null_def clipped_def str_or_null_def dest: length_clip split: option.splits)

lemma kind_short: "k \<in> set LIVE_FAILURE_KINDS \<Longrightarrow> k \<noteq> [] \<and> length k \<le> 61"
  by (auto simp: LIVE_FAILURE_KINDS_def)

lemma failureCode_ok:
  assumes "k \<in> set LIVE_FAILURE_KINDS"
  shows "\<exists>c. js_or (clipped v 60) (Str k) = Str c \<and> c \<noteq> [] \<and> length c \<le> 61"
proof (cases "clip v 60")
  case None
  then show ?thesis using kind_short [OF assms] by (simp add: clipped_def str_or_null_def js_or_def truthy_def)
next
  case (Some s)
  then show ?thesis using kind_short [OF assms] length_clip [OF Some] by (simp add: clipped_def str_or_null_def js_or_def truthy_def)
qed

lemma area_ok: "Str (AREA_BY_KIND k) \<in> set (map Str FAILURE_AREAS)"
  by (simp add: AREA_BY_KIND_def FAILURE_AREAS_def)

lemma failure_event_fields:
  "get_field (failure_event evt k i r t) ''kind'' = Str k"
  "get_field (failure_event evt k i r t) ''area'' = (case get_field evt ''area'' of
     Str a \<Rightarrow> if a \<in> set FAILURE_AREAS then Str a else Str (AREA_BY_KIND k) | _ \<Rightarrow> Str (AREA_BY_KIND k))"
  "\<exists>m role. get_field (failure_event evt k i r t) ''severity'' = Str (deriveSeverity k (get_field evt ''code'') (get_field evt ''severity'') m role)"
  "get_field (failure_event evt k i r t) ''source'' = Str (if get_field evt ''source'' = Str ''app'' then ''app'' else ''server'')"
  "get_field (failure_event evt k i r t) ''failureCode'' = js_or (clipped (get_field evt ''code'') 60) (Str k)"
  "get_field (failure_event evt k i r t) ''status'' = (case get_field evt ''status'' of Num q \<Rightarrow> Num q | _ \<Rightarrow> Null)"
  "get_field (failure_event evt k i r t) ''code'' = clipped (get_field evt ''code'') 60"
  "get_field (failure_event evt k i r t) ''message'' = clipped (get_field evt ''message'') 300"
  "\<exists>v. get_field (failure_event evt k i r t) ''appVersion'' = clipped v 40"
  "\<exists>v. get_field (failure_event evt k i r t) ''platform'' = clipped v 16"
  "\<exists>v. get_field (failure_event evt k i r t) ''deviceModel'' = clipped v 64"
  "\<exists>v. get_field (failure_event evt k i r t) ''network'' = clipped v 16"
  "get_field (failure_event evt k i r t) ''meta'' = sanitizeMeta (get_field evt ''meta'')"
  unfolding failure_event_def Let_def get_field_def [of "Obj _"] by auto

lemma failure_event_ok:
  assumes "k \<in> set LIVE_FAILURE_KINDS"
  shows "event_ok (failure_event evt k i r t)"
proof -
  let ?e = "failure_event evt k i r t"
  note f = failure_event_fields [of evt k i r t]
  have "get_field ?e ''kind'' \<in> set (map Str LIVE_FAILURE_KINDS)" using assms by (simp add: f(1))
  moreover have "get_field ?e ''area'' \<in> set (map Str FAILURE_AREAS)" unfolding f(2) using area_ok by (auto split: jsval.split)
  moreover have "get_field ?e ''severity'' \<in> set (map Str SEVERITIES)" using f(3) deriveSeverity_in by auto
  moreover have "get_field ?e ''source'' \<in> {Str ''app'', Str ''server''}" by (simp add: f(4))
  moreover have "\<exists>c. get_field ?e ''failureCode'' = Str c \<and> c \<noteq> [] \<and> length c \<le> 61" unfolding f(5) by (rule failureCode_ok [OF assms])
  moreover have "get_field ?e ''status'' = Null \<or> (\<exists>q. get_field ?e ''status'' = Num q)" unfolding f(6) by (simp split: jsval.split)
  moreover have "short_or_null 61 (get_field ?e ''code'')" "short_or_null 301 (get_field ?e ''message'')"
    unfolding f(7,8) by (rule short_clipped; simp)+
  moreover have "short_or_null 41 (get_field ?e ''appVersion'')" "short_or_null 17 (get_field ?e ''platform'')"
    "short_or_null 65 (get_field ?e ''deviceModel'')" "short_or_null 17 (get_field ?e ''network'')"
    using f(9-12) short_clipped [of 40 41] short_clipped [of 16 17] short_clipped [of 64 65] by auto
  moreover have "meta_ok (get_field ?e ''meta'')" unfolding f(13) by (rule sanitizeMeta_ok)
  ultimately show ?thesis unfolding event_ok_def by blast
qed

lemma recorded_event:
  assumes "recordLiveFailure L evt w = (Inr e, w1)" and "e \<noteq> Null"
  shows "\<exists>k i r t. k \<in> set LIVE_FAILURE_KINDS \<and> get_field evt ''kind'' = Str k \<and> e = failure_event evt k i r t"
proof -
  obtain k where k: "get_field evt ''kind'' = Str k"
    using assms by (cases "get_field evt ''kind''") (simp_all add: recordLiveFailure_def catchA_run ret_run)
  have in_kinds: "k \<in> set LIVE_FAILURE_KINDS" using assms k by (auto simp: recordLiveFailure_def catchA_run ret_run split: if_splits)
  show ?thesis
    using assms k in_kinds
    by (auto simp: recordLiveFailure_def catchA_run bindA_run thenA_run askA_run ret_run Let_def split: prod.splits sum.splits)
qed

lemma recordLiveFailure_never_throws: "never_throws (recordLiveFailure L evt)"
  unfolding recordLiveFailure_def by (intro never_throws_catchA never_throws_ret)


section \<open>What reaches the table\<close>

text \<open>The widths of the columns of \<open>live_failure_events\<close>, and a row that keeps to them.\<close>

definition column_widths :: "(string \<times> nat) list" where
  "column_widths = [(''kind'', 32), (''area'', 16), (''failureCode'', 64), (''severity'', 2), (''source'', 8), (''streamId'', 64),
     (''callId'', 64), (''role'', 16), (''message'', 300), (''appVersion'', 40), (''platform'', 16), (''deviceModel'', 64), (''network'', 16)]"

definition row_fits :: "jsval \<Rightarrow> bool" where
  "row_fits r \<longleftrightarrow> list_all (\<lambda>(f, n). case get_field r f of Str s \<Rightarrow> length s \<le> n | _ \<Rightarrow> True) column_widths"

text \<open>The table refuses a row with a text that is too long and stores the others; nothing else touches it.\<close>

locale failure_table =
  fixes L :: "'w log_env" and rows :: "'w \<Rightarrow> jsval list"
  assumes create: "row_fits r \<Longrightarrow> \<exists>w1. fl_create L r w = (Inr (), w1) \<and> rows w1 = r # rows w"
    and too_wide: "\<not> row_fits r \<Longrightarrow> \<exists>e. fl_create L r w = (Inl e, w)"
    and uuid_frame: "keeps (\<lambda>w. rows w = b) (fl_uuid L)"
    and redis_frame: "keeps (\<lambda>w. rows w = b) (r_lpush (fl_redis L) k txt)" "keeps (\<lambda>w. rows w = b) (r_ltrim (fl_redis L) k m n)"
      "keeps (\<lambda>w. rows w = b) (r_hincrBy (fl_redis L) k f d)" "keeps (\<lambda>w. rows w = b) (r_pexpire (fl_redis L) k p)"
begin

lemma keep_event_frame: "keeps (\<lambda>w. rows w = b) (keep_event L e)"
  unfolding keep_event_def Let_def by (intro keeps_intros redis_frame)

lemma occurred_frame: "keeps (\<lambda>w. rows w = b) (occurred L v t)"
  unfolding occurred_def by (intro keeps_intros)

lemma persist_wide: "\<not> row_fits (failure_row e) \<Longrightarrow> persist L e w = (Inr (), w)"
  using too_wide [of "failure_row e" w] by (auto simp: persist_def quietly_run)

lemma wide_event_lost:
  assumes "\<And>k i t u. \<not> row_fits (failure_row (failure_event evt k i t u))"
  shows "keeps (\<lambda>w. rows w = b) (recordLiveFailure L evt)"
proof -
  have p: "keeps (\<lambda>w. rows w = b) (persist L (failure_event evt k i t u))" for k i t u
    using persist_wide [OF assms] by (simp add: keeps_def)
  show ?thesis
    unfolding recordLiveFailure_def Let_def
    by (cases "get_field evt ''kind''"; cases "get_field evt ''id''")
      (auto intro!: keeps_intros p keep_event_frame occurred_frame uuid_frame)
qed

end

lemma long_message_wide:
  assumes "get_field evt ''message'' = Str m" and "300 < length m"
  shows "\<not> row_fits (failure_row (failure_event evt k i t u))"
proof -
  let ?m = "take 300 m @ [ellipsis]"
  have 1: "get_field (failure_event evt k i t u) ''message'' = Str ?m"
    unfolding failure_event_fields(8) using assms by (simp add: clipped_def clip_def is_nullish_def js_String_def str_or_null_def)
  have "get_field (failure_row (failure_event evt k i t u)) ''message'' = clipped (Str ?m) 300"
    unfolding failure_row_def Let_def get_field_def [of "Obj _"] by (simp add: 1)
  also have "\<dots> = Str ?m" using assms(2) by (simp add: clipped_def clip_def is_nullish_def js_String_def str_or_null_def)
  finally show ?thesis using assms(2) by (auto simp: row_fits_def column_widths_def)
qed

text \<open>
  A failure whose message is longer than 300 characters is never stored in the table: \<open>clip\<close> cuts it to 300 characters and
  adds one, and the column holds 300. The error of the insert ends in the log.
\<close>

theorem long_message_never_stored:
  assumes "failure_table L rows" and "get_field evt ''message'' = Str m" and "300 < length m"
    and "recordLiveFailure L evt w = (r, w1)"
  shows "rows w1 = rows w"
  by (rule keepsD [OF failure_table.wide_event_lost [OF assms(1) long_message_wide [OF assms(2,3)]] assms(4) refl])

section \<open>A concrete table\<close>

record log_mem = mem +
  lg_rows :: "jsval list"

definition mem_log :: "log_mem log_env" where
  "mem_log = \<lparr>fl_redis = mem_redis, fl_now = m_clk, fl_uuid = ret ''u'',
     fl_create = (\<lambda>r w. if row_fits r then (Inr (), w\<lparr>lg_rows := r # lg_rows w\<rparr>) else (Inl (Error ''value too long''), w)),
     fl_deleteBefore = (\<lambda>_. ret 0), fl_users = (\<lambda>_. ret []), fl_parseDate = (\<lambda>_. None)\<rparr>"

interpretation memlog: failure_table mem_log lg_rows
  by unfold_locales (auto simp: mem_log_def keeps_def act_simps mem_redis_def Let_def split: option.split)

definition log0 :: log_mem where
  "log0 = \<lparr>m_kv = (\<lambda>_. None), m_z = (\<lambda>_. []), m_h = (\<lambda>_ _. None), m_hk = (\<lambda>_. []), m_s = (\<lambda>_. []),
     m_l = (\<lambda>_. []), m_clk = 86400000, lg_rows = []\<rparr>"

definition reported :: "nat \<Rightarrow> jsval" where
  "reported n = Obj [(''kind'', Str ''JOIN_REJECTED''), (''code'', Str ''JOIN_ERROR''), (''message'', Str (replicate n CHR ''x''))]"


theorem long_message_never_stored_witness:
  "\<exists>e w1. recordLiveFailure mem_log (reported 301) log0 = (Inr e, w1) \<and> lg_rows w1 = []"
proof -
  obtain r w1 where f: "recordLiveFailure mem_log (reported 301) log0 = (r, w1)" by (rule prod.exhaust)
  have "lg_rows w1 = lg_rows log0"
    by (rule long_message_never_stored [OF memlog.failure_table_axioms _ _ f, of "replicate 301 CHR ''x''"])
      (simp_all add: reported_def get_field_def del: replicate.simps)
  then show ?thesis using f recordLiveFailure_never_throws [of mem_log "reported 301"]
    by (auto simp: log0_def never_throws_def dest: spec [of _ log0])
qed

end
