(* ===== verification/Rest_Rooms.thy ===== *)
theory Rest_Rooms
  imports Live_Socket_Safety Viewer_Cards Failure_Log Frame_Moderation Live_Status
begin

text \<open>
  The REST endpoints of the rooms, \<open>routes/controllers/controllerLive.js\<close> up to \<open>setChatPermission\<close>, with the schemas of
  \<open>validations/validationLive.js\<close>: going live and ending, joining and leaving, the lists, messages, admins, kicks, passwords.
  What \<open>Promise.all\<close> starts together runs in the order it is written. \<open>auth\<close> has run: \<open>rq_user\<close> is the verified user. The body has been parsed to an object. An answer is its status and its body.
\<close>

section \<open>Requests and answers\<close>

record http_req =
  rq_user :: string
  rq_id :: string            \<comment> \<open>\<open>req.params.id\<close> (\<open>hostId\<close>, \<open>targetUserId\<close>)\<close>
  rq_body :: jsval
  rq_query :: jsval
  rq_headers :: jsval

record http_reply =
  hr_status :: int
  hr_body :: jsval

record 'w rest_env =
  re_sock :: "'w sock_env"
  re_view :: "'w view_env"
  re_log :: "'w log_env"
  re_stats :: "'w stats_db"
  re_social :: "'w social_db"
  re_moderation :: "'w moderation_env"
  re_viewerToken :: "string \<Rightarrow> string \<Rightarrow> ('w, string) act"
  re_inRoom :: "string \<Rightarrow> ('w, string option list) act"     \<comment> \<open>\<open>data.userId\<close> of the sockets of this node in a room\<close>
  re_userLevel :: "string \<Rightarrow> ('w, jsval) act"                \<comment> \<open>\<open>userLevel.findUnique\<close>\<close>
  re_hosts :: "string list \<Rightarrow> ('w, jsval list) act"
  re_callSettings :: "string list \<Rightarrow> ('w, jsval list) act"
  re_cdn :: "string option"
  re_hlsSwitch :: "string option"
  re_startHls :: "string \<Rightarrow> ('w, string option) act"
  re_livePhoto :: "string \<Rightarrow> ('w, jsval) act"               \<comment> \<open>\<open>userLivePhoto.findUnique\<close>\<close>
  re_hostToken :: "string \<Rightarrow> string \<Rightarrow> ('w, string) act"
  re_iso :: "'w \<Rightarrow> string"                               \<comment> \<open>\<open>new Date().toISOString()\<close>\<close>
  re_isoDate :: "jsval \<Rightarrow> string"                          \<comment> \<open>\<open>new Date(v).toISOString()\<close>\<close>

abbreviation re_redis :: "'w rest_env \<Rightarrow> 'w redis" where "re_redis E \<equiv> so_redis (re_sock E)"
abbreviation re_room :: "'w rest_env \<Rightarrow> 'w room_db" where "re_room E \<equiv> so_room (re_sock E)"
abbreviation re_now :: "'w rest_env \<Rightarrow> 'w \<Rightarrow> int" where "re_now E \<equiv> so_now (re_sock E)"
abbreviation re_say :: "'w rest_env \<Rightarrow> string \<Rightarrow> string \<Rightarrow> jsval \<Rightarrow> ('w, unit) act" where "re_say E \<equiv> broadcastToStream (re_sock E)"

definition answer :: "int \<Rightarrow> (string \<times> jsval) list \<Rightarrow> ('w, http_reply) act" where
  "answer st fs = ret \<lparr>hr_status = st, hr_body = Obj ((''success'', JBool True) # fs)\<rparr>"

definition refuse :: "int \<Rightarrow> string \<Rightarrow> ('w, http_reply) act" where
  "refuse st m = ret \<lparr>hr_status = st, hr_body = Obj [(''success'', JBool False), (''message'', Str m)]\<rparr>"

text \<open>The \<open>catch\<close> of a handler.\<close>

definition or_refuse :: "int \<Rightarrow> ('w, http_reply) act \<Rightarrow> ('w, http_reply) act" where
  "or_refuse st m = catchA m (\<lambda>e. refuse st (e_message e))"

definition find_stream :: "'w rest_env \<Rightarrow> string \<Rightarrow> ('w, jsval) act" where
  "find_stream E i = getLiveStreamService (re_redis E) (re_room E) (Some i)"

text \<open>\<open>getLiveStreamService\<close> and its \<open>404\<close>.\<close>

definition with_stream :: "'w rest_env \<Rightarrow> string \<Rightarrow> (jsval \<Rightarrow> ('w, http_reply) act) \<Rightarrow> ('w, http_reply) act" where
  "with_stream E i f = bindA (find_stream E i) (\<lambda>stream. if \<not> truthy stream then refuse 404 ''Stream not found'' else f stream)"

definition clientMeta :: "http_req \<Rightarrow> (string \<times> jsval) list" where
  "clientMeta q =
     (let b = get_field (rq_body q); h = get_field (rq_headers q) in
      [(''network'', b ''network''), (''platform'', b ''platform''), (''appVersion'', js_or (b ''appVersion'') (h ''x-app-version'')),
       (''ua'', h ''user-agent'')])"

definition room_key :: "jsval \<Rightarrow> string" where "room_key stream = js_String (get_field stream ''streamId'')"
definition host_of :: "jsval \<Rightarrow> string" where "host_of stream = js_String (get_field stream ''userId'')"

definition log_failure :: "'w rest_env \<Rightarrow> (string \<times> jsval) list \<Rightarrow> ('w, unit) act" where
  "log_failure E fs = thenA (recordLiveFailure (re_log E) (Obj fs)) (ret ())"

section \<open>Validation\<close>

definition ValidationError :: "string \<Rightarrow> exn" where
  "ValidationError m = (Error m)\<lparr>e_name := ''ValidationError''\<rparr>"

text \<open>\<open>Joi.string().trim().required()\<close>, with the messages of Joi.\<close>

definition required_text :: "jsval \<Rightarrow> string \<Rightarrow> ('w, string) act" where
  "required_text v f = (case get_field v f of
       Undefined \<Rightarrow> throw (ValidationError (f @ '' is required''))
     | Str s \<Rightarrow> if js_trim s = [] then throw (ValidationError (f @ '' is not allowed to be empty'')) else ret (js_trim s)
     | _ \<Rightarrow> throw (ValidationError (f @ '' must be a string'')))"

definition boolean_or_empty :: "jsval \<Rightarrow> bool" where
  "boolean_or_empty v \<longleftrightarrow> (case v of Undefined \<Rightarrow> True | Null \<Rightarrow> True | JBool _ \<Rightarrow> True
     | Str s \<Rightarrow> s = [] \<or> toLowerCase s \<in> set [''true'', ''false''] | _ \<Rightarrow> False)"

definition createLiveSchema :: "jsval \<Rightarrow> ('w, string \<times> string) act" where
  "createLiveSchema v =
     bindA (required_text v ''title'') (\<lambda>title.
     bindA (required_text v ''heading'') (\<lambda>heading.
       if boolean_or_empty (get_field v ''isCameraOn'') then ret (title, heading)
       else throw (ValidationError ''isCameraOn must be a boolean'')))"

definition text_or_empty :: "jsval \<Rightarrow> bool" where
  "text_or_empty v \<longleftrightarrow> (case v of Undefined \<Rightarrow> True | Null \<Rightarrow> True | Str _ \<Rightarrow> True | _ \<Rightarrow> False)"

definition reply_fields :: "string list" where
  "reply_fields = [''replyToMessageId'', ''replyToUserId'', ''replyToUsername'', ''replyToText'']"

text \<open>At most 500 characters, and no field the schema does not name.\<close>

definition sendMessageSchema :: "jsval \<Rightarrow> ('w, string) act" where
  "sendMessageSchema v =
     bindA (required_text v ''message'') (\<lambda>m.
       if 500 < length m then throw (ValidationError ''message length must be less than or equal to 500 characters long'')
       else case find (\<lambda>f. \<not> text_or_empty (get_field v f)) reply_fields of
         Some f \<Rightarrow> throw (ValidationError (f @ '' must be a string''))
       | None \<Rightarrow> (case find (\<lambda>(k, _). k \<notin> set (''message'' # reply_fields)) (entries v) of
             Some (k, _) \<Rightarrow> throw (ValidationError (k @ '' is not allowed''))
           | None \<Rightarrow> ret m))"

section \<open>Going live and ending\<close>

text \<open>A user who is banned, or muted: until when, as a text and as a time.\<close>

definition banned_reply :: "'w rest_env \<Rightarrow> string \<Rightarrow> string \<Rightarrow> jsval \<Rightarrow> ('w, http_reply) act" where
  "banned_reply E code m restriction =
     (let until = get_field restriction ''restrictedUntil'' in
      ret \<lparr>hr_status = 403, hr_body = Obj [(''success'', JBool False), (''code'', Str code),
        (''message'', Str (m @ ch_localeString (so_chat (re_sock E)) until)), (''restrictedUntil'', Str (re_isoDate E until))]\<rparr>)"

definition go_live_failed :: "'w rest_env \<Rightarrow> http_req \<Rightarrow> int \<Rightarrow> string \<Rightarrow> string \<Rightarrow> ('w, unit) act" where
  "go_live_failed E q st code m = log_failure E
     [(''kind'', Str ''GO_LIVE_REJECTED''), (''userId'', Str (rq_user q)), (''status'', NumI st), (''code'', Str code),
      (''message'', Str m), (''meta'', Obj (clientMeta q))]"

definition fastGoLiveStream :: "'w rest_env \<Rightarrow> http_req \<Rightarrow> ('w, http_reply) act" where
  "fastGoLiveStream E q = catchA
     (bindA (isUserRestrictedFast (so_admin (re_sock E)) (rq_user q) ''LIVE_STREAM_START_BAN'') (\<lambda>ban.
        if truthy ban then
          thenA (go_live_failed E q 403 ''LIVE_STREAM_START_BANNED'' (''Banned until '' @ re_isoDate E (get_field ban ''restrictedUntil'')))
            (banned_reply E ''LIVE_STREAM_START_BANNED'' ''You are banned from starting a live stream until '' ban)
        else
          bindA (createLiveSchema (rq_body q)) (\<lambda>(title, heading).
          bindA (fastGoLiveStreamService (so_life (re_sock E)) (re_redis E) (so_db (re_sock E)) (rq_user q) (Str title) (Str heading)
              (get_field (rq_body q) ''isCameraOn'')) (\<lambda>result.
            answer 201 [(''data'', get_field result ''stream''), (''token'', get_field result ''token'')]))))
     (\<lambda>e. thenA (go_live_failed E q 400 (if e_name e = ''ValidationError'' then ''VALIDATION'' else ''GO_LIVE_ERROR'') (e_message e))
        (refuse 400 (e_message e)))"

definition ABANDON_WINDOW_MS :: int where "ABANDON_WINDOW_MS = 30000"

definition recordAbandonedGoLive :: "'w rest_env \<Rightarrow> jsval \<Rightarrow> http_req \<Rightarrow> ('w, unit) act" where
  "recordAbandonedGoLive E stream q =
     bindA (askA (re_now E)) (\<lambda>now.
     case (date_ms (js_or (get_field stream ''startedAt'') (get_field stream ''createdAt'')), date_ms (js_or (get_field stream ''endedAt'') (NumI now))) of
       (Some startedAt, Some endedAt) \<Rightarrow>
         let ageMs = endedAt - startedAt in
         if \<not> (0 \<le> ageMs \<and> ageMs < ABANDON_WINDOW_MS) then ret ()
         else bindA (hostStreamFacts (re_redis E) (room_key stream) (host_of stream)) (\<lambda>facts.
           if hf_publishedVideo facts then ret ()
           else bindA (disconnectMeta (re_redis E) (re_now E) (host_of stream)) (\<lambda>dm.
             log_failure E [(''kind'', Str ''GOLIVE_ABANDONED''), (''userId'', get_field stream ''userId''),
               (''streamId'', get_field stream ''streamId''), (''role'', Str ''host''), (''code'', Str ''GOLIVE_ABANDONED''),
               (''message'', Str (''Host ended the stream '' @ int_str (math_round (of_int ageMs / 1000)) @
                  '' s after going live without publishing video.'')),
               (''meta'', Obj (obj_spread ([(''ageMs'', NumI ageMs), (''livekit'', Str (livekitCause facts))] @ clientMeta q) dm))]))
     | _ \<Rightarrow> ret ())"

definition endLiveStream :: "'w rest_env \<Rightarrow> http_req \<Rightarrow> ('w, http_reply) act" where
  "endLiveStream E q = or_refuse 400
     (bindA (endLiveStreamService (so_life (re_sock E)) (re_redis E) (so_db (re_sock E)) (rq_id q) (rq_user q) ''MANUAL_USER_END'') (\<lambda>result.
        let stream = get_field result ''stream'' in
        thenA (re_say E (room_key stream) ''stream_ended'' (get_field result ''summary''))
        (thenA (if \<not> truthy (get_field result ''alreadyEnded'') \<and> \<not> truthy (get_field result ''redisOnly'')
                then quietly (recordAbandonedGoLive E stream q) else ret ())
          (answer 200 [(''data'', stream), (''summary'', get_field result ''summary'')]))))"

section \<open>Joining and leaving\<close>

text \<open>
  The ids of the viewers: those of the Redis set, and those whose socket of this node is in the room and who are not the host.
  The latter are added to the set.
\<close>

definition sync_from_sockets :: "'w rest_env \<Rightarrow> string \<Rightarrow> string list \<Rightarrow> ('w, string list) act" where
  "sync_from_sockets E streamId activeUserIds =
     bindA (re_inRoom E streamId) (\<lambda>clients.
       if clients = [] then ret activeUserIds
       else bindA (find_stream E streamId) (\<lambda>streamObj.
         let hostId = (if truthy streamObj then js_str (get_field streamObj ''userId'') else None);
             socketUserIds = filter (\<lambda>u. u \<noteq> [] \<and> \<not> (truthy_str hostId \<and> Some u = hostId)) (List.map_filter (\<lambda>x. x) clients);
             missingIds = filter (\<lambda>u. u \<notin> set activeUserIds) socketUserIds in
         if missingIds = [] then ret activeUserIds
         else ifOpen (re_redis E)
           (thenA (r_sadd (re_redis E) (key ''stream:active'' streamId) missingIds) (ret (activeUserIds @ missingIds)))
           (ret activeUserIds)))"

definition syncAndGetActiveViewerIds :: "'w rest_env \<Rightarrow> string \<Rightarrow> ('w, string list) act" where
  "syncAndGetActiveViewerIds E streamId =
     bindA (catchA (ifOpen (re_redis E) (r_smembers (re_redis E) (key ''stream:active'' streamId)) (ret [])) (\<lambda>_. ret [])) (\<lambda>ids.
     bindA (askA (so_ready (re_sock E))) (\<lambda>ready.
       if ready then catchA (sync_from_sockets E streamId ids) (\<lambda>_. ret ids) else ret ids))"

definition join_failed :: "'w rest_env \<Rightarrow> http_req \<Rightarrow> jsval \<Rightarrow> int \<Rightarrow> string \<Rightarrow> string \<Rightarrow> ('w, unit) act" where
  "join_failed E q streamId st code m = log_failure E
     [(''kind'', Str ''JOIN_REJECTED''), (''userId'', Str (rq_user q)), (''streamId'', streamId), (''status'', NumI st), (''code'', Str code),
      (''message'', Str m), (''meta'', Obj (clientMeta q))]"

text \<open>The egress of a room that will soon switch to HLS; nobody waits for it.\<close>

definition prewarm_egress :: "'w rest_env \<Rightarrow> string \<Rightarrow> ('w, unit) act" where
  "prewarm_egress E streamId = ifOpen (re_redis E)
     (let k = key ''stream:egress'' streamId in
      quietly (bindA (r_get (re_redis E) k) (\<lambda>activeEgressId.
        if truthy_text activeEgressId then ret ()
        else bindA (re_startHls E streamId) (\<lambda>newEgressId.
          if truthy_str newEgressId then thenA (r_set (re_redis E) k (Raw (the newEgressId)) (ex_s 86400)) (ret ()) else ret ()))))
     (ret ())"

definition call_fields :: "jsval \<Rightarrow> (string \<times> jsval) list" where
  "call_fields host =
     [(''acceptVideoCalls'', nullish (get_field host ''acceptVideoCalls'') (JBool True)),
      (''isVideoCallEnabled'', nullish (get_field host ''acceptVideoCalls'') (JBool True)),
      (''videoCallPricePerMin'', nullish (get_field host ''videoCallPricePerMin'') (NumI 1800)),
      (''videoCallCoinsPerMin'', nullish (get_field host ''videoCallCoinsPerMin'') Null)]"

text \<open>Whether a join is refused, and with what: status, code, message, the id it is logged under, and what the user is told.\<close>

definition join_refusal :: "http_req \<Rightarrow> jsval \<Rightarrow> int option \<Rightarrow> jtext option \<Rightarrow> (int \<times> string \<times> string \<times> jsval \<times> string) option" where
  "join_refusal q stream kickTtl streamPassword =
     (if \<not> truthy stream then Some (404, ''STREAM_NOT_FOUND'', ''Stream not found'', Str (rq_id q), ''Stream not found'')
      else if \<not> truthy (get_field stream ''isLive'') then
        Some (400, ''STREAM_NOT_LIVE'', ''Stream is not live'', get_field stream ''streamId'', ''Stream is not live'')
      else case kickTtl of
        Some ttl \<Rightarrow> let left = int_str \<lceil>of_int ttl / 60 :: rat\<rceil> in
          Some (403, ''KICKED'', ''Kicked; '' @ left @ '' minute(s) left'', get_field stream ''streamId'',
            ''You have been kicked from this stream and cannot join. Try again in '' @ left @ '' minute(s).'')
      | None \<Rightarrow>
          if Str (rq_user q) \<noteq> get_field stream ''userId'' \<and> truthy_text streamPassword \<and>
             (\<not> truthy (get_field (rq_body q) ''password'') \<or> get_field (rq_body q) ''password'' \<noteq> Str (text_str (the streamPassword)))
          then Some (401, ''BAD_PASSWORD'', ''Incorrect stream password'', get_field stream ''streamId'', ''Incorrect stream password'')
          else None)"

definition show_room :: "'w rest_env \<Rightarrow> http_req \<Rightarrow> jsval \<Rightarrow> jsval \<Rightarrow> string \<Rightarrow> ('w, http_reply) act" where
  "show_room E q stream privacy token =
     (let s = room_key stream; isHost = (Str (rq_user q) = get_field stream ''userId''); isStealth = truthy (get_field privacy ''isStealth'') in
      thenA (joinStreamService (so_chat (re_sock E)) s (rq_user q))
      (bindA (syncAndGetActiveViewerIds E s) (\<lambda>viewerIds.
      bindA (getHostProfileService (re_view E) (js_str (get_field stream ''userId''))) (\<lambda>host.
      bindA (getMicPermissionService (re_redis E) (re_room E) s) (\<lambda>mic.
      bindA (getChatPermissionService (re_redis E) (re_room E) s) (\<lambda>chat.
      bindA (sortRoomViewersService (re_view E) (host_of stream) (Some s)
          (if \<not> isStealth \<and> \<not> isHost \<and> rq_user q \<notin> set viewerIds then viewerIds @ [rq_user q] else viewerIds)) (\<lambda>viewers.
      case viewerPlayback (re_hlsSwitch E) (length viewers) isHost s (re_cdn E) of (mode, hlsUrl, prewarm) \<Rightarrow>
        thenA (whenA prewarm (prewarm_egress E s))
        (thenA (if isStealth then quietly (so_alias (re_sock E) s (rq_user q)) else ret ())
          (answer 200 [(''mode'', Str mode), (''token'', Str token), (''hlsUrl'', hlsUrl),
            (''stream'', Obj (obj_spread (entries stream) (call_fields host))), (''viewerCount'', NumI (int (length viewers))),
            (''viewers'', Arr viewers), (''host'', host), (''micPermissionRequired'', JBool mic), (''chatPermissionMode'', Str chat)])))))))))"

definition enter_room :: "'w rest_env \<Rightarrow> http_req \<Rightarrow> jsval \<Rightarrow> jsval \<Rightarrow> ('w, http_reply) act" where
  "enter_room E q stream privacy =
     bindA (re_viewerToken E (room_key stream) (rq_user q)) (show_room E q stream privacy)"

definition join_with :: "'w rest_env \<Rightarrow> http_req \<Rightarrow> jsval \<Rightarrow> int option \<Rightarrow> jtext option \<Rightarrow> jsval \<Rightarrow> ('w, http_reply) act" where
  "join_with E q stream kickTtl streamPassword privacy =
     (case join_refusal q stream kickTtl streamPassword of
        Some (st, code, m, streamId, said) \<Rightarrow> thenA (join_failed E q streamId st code m) (refuse st said)
      | None \<Rightarrow> enter_room E q stream privacy)"

definition joinLiveStream :: "'w rest_env \<Rightarrow> http_req \<Rightarrow> ('w, http_reply) act" where
  "joinLiveStream E q = catchA
     (bindA (find_stream E (rq_id q)) (\<lambda>stream.
      bindA (isUserKickedService (re_redis E) (rq_id q) (rq_user q)) (\<lambda>kickTtl.
      bindA (getStreamPasswordService (re_redis E) (rq_id q)) (\<lambda>streamPassword.
      bindA (getUserPrivacyService (re_redis E) (ch_user (so_chat (re_sock E))) (Some (rq_user q)))
        (join_with E q stream kickTtl streamPassword)))))
     (\<lambda>e. thenA (join_failed E q (Str (rq_id q)) 400 ''JOIN_ERROR'' (e_message e)) (refuse 400 (e_message e)))"

definition leaveLiveStream :: "'w rest_env \<Rightarrow> http_req \<Rightarrow> ('w, http_reply) act" where
  "leaveLiveStream E q = or_refuse 400
     (with_stream E (rq_id q) (\<lambda>stream. let s = room_key stream in
        thenA (leaveStreamService (so_chat (re_sock E)) s (rq_user q))
        (bindA (getViewerCountService (so_chat (re_sock E)) s) (\<lambda>viewerCount.
         thenA (so_user (re_sock E) (rq_user q))
         (thenA (removeSessionAlias (re_redis E) (Some s) (Some (rq_user q)))
           (answer 200 [(''viewerCount'', NumI (int viewerCount))]))))))"

section \<open>The lists\<close>

text \<open>\<open>parseInt(s, 10)\<close> and \<open>parseFloat(s)\<close>: the digits a text starts with.\<close>

definition is_digit :: "char \<Rightarrow> bool" where "is_digit c \<longleftrightarrow> digit_val c \<noteq> None"

definition sign_split :: "string \<Rightarrow> int \<times> string" where
  "sign_split s = (case dropWhile js_space s of
       c # r \<Rightarrow> if c = CHR ''-'' then (- 1, r) else if c = CHR ''+'' then (1, r) else (1, c # r)
     | [] \<Rightarrow> (1, []))"

definition parse_int :: "jsval \<Rightarrow> int option" where
  "parse_int v = (case v of
       Str s \<Rightarrow> (case sign_split s of (sg, r) \<Rightarrow> let ds = takeWhile is_digit r in
         if ds = [] then None else map_option (\<lambda>n. sg * int n) (digits_val 0 ds))
     | Num q \<Rightarrow> Some (math_trunc q) | _ \<Rightarrow> None)"

definition parse_float :: "jsval \<Rightarrow> rat option" where
  "parse_float v = (case v of
       Str s \<Rightarrow> (case sign_split s of (sg, r) \<Rightarrow>
         let i = takeWhile is_digit r; rest = dropWhile is_digit r;
             f = (if startsWith rest ''.'' then takeWhile is_digit (tl rest) else []) in
         if i = [] \<and> f = [] then None
         else Some (of_int sg * (of_nat (the (digits_val 0 i)) + of_nat (the (digits_val 0 f)) / 10 ^ length f)))
     | Num q \<Rightarrow> Some q | _ \<Rightarrow> None)"

definition int_or :: "jsval \<Rightarrow> int \<Rightarrow> int" where
  "int_or v d = (case parse_int v of None \<Rightarrow> d | Some i \<Rightarrow> if i = 0 then d else i)"

definition float_or :: "jsval \<Rightarrow> rat \<Rightarrow> rat" where
  "float_or v d = (case parse_float v of None \<Rightarrow> d | Some x \<Rightarrow> if x = 0 then d else x)"

text \<open>The query of the list; without a country or a filter it is the country of the user.\<close>

definition list_query_of :: "http_req \<Rightarrow> list_query" where
  "list_query_of q =
     (let f = get_field (rq_query q); lat = js_or (f ''lat'') (f ''latitude''); lng = js_or (f ''lng'') (f ''longitude'') in
      \<lparr>lq_page = int_or (f ''page'') 1, lq_limit = int_or (f ''limit'') 20, lq_country = js_or (f ''country'') Null,
       lq_user = Some (rq_user q), lq_following = (f ''type'' = Str ''following'' \<or> f ''following'' = Str ''true''),
       lq_nearby = (f ''type'' = Str ''nearby'' \<or> f ''nearby'' = Str ''true'' \<or> truthy lat \<and> truthy lng),
       lq_lat = js_or lat Null, lq_lng = js_or lng Null, lq_minKm = float_or (f ''minKm'') 9, lq_maxKm = float_or (f ''maxKm'') 40\<rparr>)"

definition own_country :: "'w rest_env \<Rightarrow> http_req \<Rightarrow> list_query \<Rightarrow> ('w, list_query) act" where
  "own_country E q lq =
     (if \<not> truthy (lq_country lq) \<and> \<not> lq_following lq \<and> \<not> lq_nearby lq \<and> rq_user q \<noteq> [] then
        bindA (so_user (re_sock E) (rq_user q)) (\<lambda>u.
          ret (if truthy u \<and> truthy (get_field u ''country'') then lq\<lparr>lq_country := get_field u ''country''\<rparr> else lq))
      else ret lq)"

definition lower_trim :: "jsval \<Rightarrow> string" where "lower_trim t = js_trim (toLowerCase (js_String t))"

text \<open>Celebrities first, then royal hosts, then the others.\<close>

definition getHostTagPriority :: "jsval \<Rightarrow> rat" where
  "getHostTagPriority tags = (case tags of
       Arr ts \<Rightarrow>
         (let normalized = map lower_trim ts in
          if list_ex (\<lambda>t. has_text t ''celebrity host'' \<or> t = ''celebrity'') normalized then 1
          else if list_ex (\<lambda>t. has_text t ''royal host'' \<or> t = ''royal'') normalized then 2 else 3)
     | _ \<Rightarrow> 3)"

definition share_bp :: "'w call_env \<Rightarrow> ('w, int) act" where
  "share_bp C = bindA (askA (vc_memo C)) (\<lambda>m.
     bindA (getVideoCallHostShareBp (vc_redis C) (vc_now C) (vc_shareRow C) m) (\<lambda>(bp, m1).
       thenA (\<lambda>w. (Inr (), vc_putMemo C m1 w)) (ret bp)))"

definition listed_stream :: "(string \<Rightarrow> jsval option) \<Rightarrow> (string \<Rightarrow> jsval option) \<Rightarrow> (string \<Rightarrow> jtext option) \<Rightarrow> int \<Rightarrow> jsval \<Rightarrow> jsval" where
  "listed_stream hosts settings passwords bp stream =
     (let h = js_str (get_field stream ''userId'');
          host = (case h of None \<Rightarrow> None | Some x \<Rightarrow> hosts x);
          st = (case h of None \<Rightarrow> Undefined | Some x \<Rightarrow> (case settings x of None \<Rightarrow> Undefined | Some y \<Rightarrow> y));
          accept = accepts_calls st; price = call_price st in
      Obj (obj_spread (entries stream)
        [(''hostAvatar'', js_or (get_field stream ''coverImageUrl'') Null),
         (''hostCountry'', js_or (opt_field host ''country'') Null), (''adminTags'', js_or (opt_field host ''admin_tags'') (Arr [])),
         (''isPasswordProtected'', JBool (truthy_text (passwords (room_key stream)))), (''acceptVideoCalls'', JBool accept),
         (''isVideoCallEnabled'', JBool accept), (''videoCallPricePerMin'', NumI price),
         (''videoCallCoinsPerMin'', if accept then NumI (callerCoinsPerMinute (NumI price) bp) else Null)]))"

definition arr_of :: "jsval \<Rightarrow> jsval list" where
  "arr_of v = (case v of Arr xs \<Rightarrow> xs | _ \<Rightarrow> [])"

definition uniq_strs :: "jsval list \<Rightarrow> string \<Rightarrow> string list" where
  "uniq_strs rows f = rev (remdups (rev (filter (\<lambda>s. s \<noteq> []) (List.map_filter (\<lambda>r. js_str (get_field r f)) rows))))"

definition pagination :: "jsval \<Rightarrow> jsval \<Rightarrow> jsval" where
  "pagination result pages = Obj [(''page'', get_field result ''page''), (''limit'', get_field result ''limit''), (''totalPages'', pages)]"

definition getLiveStreams :: "'w rest_env \<Rightarrow> http_req \<Rightarrow> ('w, http_reply) act" where
  "getLiveStreams E q = or_refuse 400
     (bindA (own_country E q (list_query_of q)) (\<lambda>lq.
      bindA (getLiveStreamsService (re_view E) lq) (\<lambda>result. let streams = arr_of (get_field result ''streams'') in
        if streams = [] then answer 200 [(''data'', Arr []), (''pagination'', pagination result (NumI 0))]
        else let hostIds = uniq_strs streams ''userId'';
                 streamIds = filter (\<lambda>s. s \<noteq> []) (List.map_filter (\<lambda>r. js_str (get_field r ''streamId'')) streams) in
          bindA (if hostIds = [] then ret [] else re_hosts E hostIds) (\<lambda>hosts.
          bindA (if hostIds = [] then ret [] else re_callSettings E hostIds) (\<lambda>settings.
          bindA (if streamIds = [] then ret [] else r_mget (re_redis E) (map (key ''stream:password'') streamIds)) (\<lambda>passwords.
          bindA (share_bp (so_calls (re_sock E))) (\<lambda>bp.
            let rows = map (listed_stream (by_id hosts) (js_map (map (\<lambda>r. (js_String (get_field r ''userId''), r)) settings))
                  (\<lambda>s. Option.bind (js_map (zip streamIds passwords) s) (\<lambda>x. x)) bp) streams in
            answer 200 [(''data'', Arr (js_sort (\<lambda>a b. getHostTagPriority (get_field a ''adminTags'') - getHostTagPriority (get_field b ''adminTags'')) rows)),
              (''pagination'', pagination result (get_field result ''totalPages''))])))))))"

definition getLiveStream :: "'w rest_env \<Rightarrow> http_req \<Rightarrow> ('w, http_reply) act" where
  "getLiveStream E q = or_refuse 400
     (with_stream E (rq_id q) (\<lambda>stream. let s = room_key stream in
        bindA (syncAndGetActiveViewerIds E s) (\<lambda>viewerIds.
        bindA (getHostProfileService (re_view E) (js_str (get_field stream ''userId''))) (\<lambda>host.
        bindA (getStreamPasswordService (re_redis E) s) (\<lambda>password.
        bindA (bindA (getSheetUsersService (re_redis E) (re_now E) s)
            (withSheetPublicIds (\<lambda>u. getUserPrivacyService (re_redis E) (ch_user (so_chat (re_sock E))) (Some u)))) (\<lambda>sheetUsers.
        bindA (getMicPermissionService (re_redis E) (re_room E) s) (\<lambda>mic.
        bindA (getChatPermissionService (re_redis E) (re_room E) s) (\<lambda>chat.
        bindA (sortRoomViewersService (re_view E) (host_of stream) (Some s) viewerIds) (\<lambda>viewers.
          answer 200 ([(''data'', Obj (obj_spread (entries stream) (call_fields host))), (''viewerCount'', NumI (int (length viewers))),
            (''viewers'', Arr viewers), (''host'', host)] @ call_fields host @
            [(''isPasswordProtected'', JBool (truthy_text password)), (''micPermissionRequired'', JBool mic), (''chatPermissionMode'', Str chat),
             (''sheetUsers'', Arr sheetUsers)] @
            (if Str (rq_user q) = get_field stream ''userId''
             then [(''roomPassword'', Str (if truthy_text password then text_str (the password) else []))] else []))))))))))) "

section \<open>Messages\<close>

definition sendMessage :: "'w rest_env \<Rightarrow> http_req \<Rightarrow> ('w, http_reply) act" where
  "sendMessage E q = or_refuse 400
     (bindA (isUserRestrictedFast (so_admin (re_sock E)) (rq_user q) ''LIVE_CHAT_MUTE'') (\<lambda>chatMute.
        if truthy chatMute then
          banned_reply E ''LIVE_CHAT_MUTED'' ''You are muted from sending messages in live stream until '' chatMute
        else bindA (sendMessageSchema (rq_body q)) (\<lambda>m.
          with_stream E (rq_id q) (\<lambda>stream. let b = get_field (rq_body q) in
            bindA (sendMessageService (so_chat (re_sock E))
              \<lparr>mq_streamId = room_key stream, mq_senderId = rq_user q, mq_message = Str m, mq_replyToMessageId = b ''replyToMessageId'',
               mq_replyToUserId = b ''replyToUserId'', mq_replyToUsername = b ''replyToUsername'', mq_messageType = Str ''CHAT'',
               mq_isLuckyGift = JBool False, mq_giftId = Null, mq_giftCount = NumI 1\<rparr>) (\<lambda>messageData.
            thenA (re_say E (room_key stream) ''new_message'' messageData) (answer 201 [(''data'', messageData)]))))))"

definition getMessages :: "'w rest_env \<Rightarrow> http_req \<Rightarrow> ('w, http_reply) act" where
  "getMessages E q = or_refuse 400
     (with_stream E (rq_id q) (\<lambda>stream.
        let chatsOnly = (get_field (rq_query q) ''chatsOnly'' = Str ''true'');
            flt = js_or (get_field (rq_query q) ''filter'') (Str (if chatsOnly then ''chat'' else ''all'')) in
        bindA (getMessagesService (so_chat (re_sock E)) (room_key stream) (js_String flt) chatsOnly) (\<lambda>ms.
          answer 200 [(''data'', Arr ms)])))"

section \<open>Admins, kicks, password\<close>

text \<open>A name as the room may see it.\<close>

definition seen_name :: "'w rest_env \<Rightarrow> string \<Rightarrow> string \<Rightarrow> jsval \<Rightarrow> string \<Rightarrow> ('w, jsval) act" where
  "seen_name E s u row d =
     (if is_stealth row then bindA (so_alias (re_sock E) s u) (\<lambda>a. ret (js_or a (Str d))) else ret (room_name row d))"

definition unless_hidden :: "jsval \<Rightarrow> string \<Rightarrow> jsval" where
  "unless_hidden row u = (if is_stealth row then Null else Str u)"

definition announce_admin :: "'w rest_env \<Rightarrow> string \<Rightarrow> string \<Rightarrow> string \<Rightarrow> bool \<Rightarrow> ('w, unit) act" where
  "announce_admin E s userId target isAdmin =
     bindA (so_user (re_sock E) userId) (\<lambda>hostUser.
     bindA (so_user (re_sock E) target) (\<lambda>targetUser.
     thenA (seen_name E s userId hostUser ''Host'')
     (bindA (seen_name E s target targetUser ''User'') (\<lambda>targetName.
     bindA (sendMessageService (so_chat (re_sock E)) (system_message s
       (js_String targetName @ (if isAdmin then '' is now a Room Admin.'' else '' is no longer a Room Admin.''))
       (unless_hidden targetUser target) targetName)) (\<lambda>systemMessage.
     thenA (re_say E s ''admin_status_changed'' (Obj [(''userId'', unless_hidden targetUser target), (''username'', targetName),
         (''isAdmin'', JBool isAdmin), (''isMystery'', JBool (is_stealth targetUser))]))
       (re_say E s ''new_message'' systemMessage))))))"

definition toggleAdminStatus :: "'w rest_env \<Rightarrow> http_req \<Rightarrow> ('w, http_reply) act" where
  "toggleAdminStatus E q = or_refuse 400
     (with_stream E (rq_id q) (\<lambda>stream. let s = room_key stream; target = get_field (rq_body q) ''targetUserId'' in
        if Str (rq_user q) \<noteq> get_field stream ''userId'' then refuse 403 ''Only the host can toggle admin privileges.''
        else if \<not> truthy target then refuse 400 ''targetUserId is required.''
        else if target = get_field stream ''userId'' then refuse 400 ''Host cannot be promoted or demoted.''
        else bindA (promoteDemoteAdminService (re_redis E) (re_room E) (Some s) (js_str (get_field stream ''userId'')) (js_String target)) (\<lambda>isAdmin.
          thenA (announce_admin E s (rq_user q) (js_String target) isAdmin) (answer 200 [(''isAdmin'', JBool isAdmin)]))))"

definition wealth_of :: "jsval \<Rightarrow> rat" where
  "wealth_of lv = (case js_Number (if truthy lv then js_or (get_field lv ''wealthLevel'') (NumI 1) else NumI 1) of
     None \<Rightarrow> 1 | Some n \<Rightarrow> n)"

text \<open>What an admin who is not the host may not do: another admin, or somebody of a higher wealth level.\<close>

definition admin_kick_check :: "'w rest_env \<Rightarrow> string \<Rightarrow> string \<Rightarrow> string \<Rightarrow> ('w, string option) act" where
  "admin_kick_check E s kicker target =
     bindA (isStreamAdminService (re_redis E) (re_room E) (Some s) (Some target) None) (\<lambda>isTargetAdmin.
       if isTargetAdmin then ret (Some ''Admins cannot kick other admins.'')
       else bindA (re_userLevel E kicker) (\<lambda>kl. bindA (re_userLevel E target) (\<lambda>tl.
         if wealth_of kl < wealth_of tl then
           ret (Some (''You cannot kick this user. Their wealth level ('' @ js_String (Num (wealth_of tl)) @ '') is higher than yours ('' @
             js_String (Num (wealth_of kl)) @ '').''))
         else ret None)))"

definition kick_and_tell :: "'w rest_env \<Rightarrow> string \<Rightarrow> string \<Rightarrow> string \<Rightarrow> ('w, http_reply) act" where
  "kick_and_tell E s kicker target =
     thenA (kickUserService (re_redis E) s target)
     (bindA (so_user (re_sock E) kicker) (\<lambda>kickerUser.
      bindA (so_user (re_sock E) target) (\<lambda>targetUser.
      bindA (seen_name E s kicker kickerUser ''Admin'') (\<lambda>kickerName.
      bindA (seen_name E s target targetUser ''User'') (\<lambda>targetName.
      bindA (sendMessageService (so_chat (re_sock E)) (system_message s (js_String targetName @ '' removed from the room.'')
        (unless_hidden targetUser target) targetName)) (\<lambda>systemMessage.
      thenA (re_say E (''user:'' @ target) ''kicked_from_room'' (Obj [(''streamId'', Str s),
          (''message'', Str ''You have been removed from this stream by an admin.'')]))
      (thenA (forceLeaveRoom (re_sock E) target s)
      (thenA (re_say E s ''user_kicked'' (Obj [(''userId'', unless_hidden targetUser target), (''username'', targetName),
          (''kickedBy'', kickerName), (''isMystery'', JBool (is_stealth targetUser))]))
      (thenA (re_say E s ''new_message'' systemMessage)
        (answer 200 [(''message'', Str (js_String targetName @ '' has been kicked.''))]))))))))))"

definition kickUser :: "'w rest_env \<Rightarrow> http_req \<Rightarrow> ('w, http_reply) act" where
  "kickUser E q = or_refuse 400
     (with_stream E (rq_id q) (\<lambda>stream. let s = room_key stream; isHost = (Str (rq_user q) = get_field stream ''userId'');
          target = get_field (rq_body q) ''targetUserId'' in
        bindA (isStreamAdminService (re_redis E) (re_room E) (Some s) (Some (rq_user q)) None) (\<lambda>isAdmin.
          if \<not> isHost \<and> \<not> isAdmin then refuse 403 ''Unauthorized: only the host or an admin can kick users.''
          else if \<not> truthy target then refuse 400 ''targetUserId is required.''
          else if target = get_field stream ''userId'' then refuse 400 ''Host cannot be kicked from their own stream.''
          else bindA (so_user (re_sock E) (js_String target)) (\<lambda>vip.
            if truthy vip \<and> truthy (get_field vip ''vipSubscriptionActive'') then refuse 403 ''VIP users cannot be kicked from live streams.''
            else bindA (if isHost then ret None else admin_kick_check E s (rq_user q) (js_String target)) (\<lambda>no.
              case no of
                Some m \<Rightarrow> refuse 403 m
              | None \<Rightarrow> kick_and_tell E s (rq_user q) (js_String target))))))"

definition password_of :: "jsval \<Rightarrow> ('w, string option) act" where
  "password_of v = (case v of Str p \<Rightarrow> ret (Some p) | _ \<Rightarrow> if truthy v then throw (TypeError ''Invalid argument type'') else ret None)"

definition setRoomPassword :: "'w rest_env \<Rightarrow> http_req \<Rightarrow> ('w, http_reply) act" where
  "setRoomPassword E q = or_refuse 400
     (with_stream E (rq_id q) (\<lambda>stream.
        if Str (rq_user q) \<noteq> get_field stream ''userId'' then refuse 403 ''Only the host can set stream password.''
        else bindA (password_of (get_field (rq_body q) ''password'')) (\<lambda>password.
          thenA (setStreamPasswordService (re_redis E) (room_key stream) password)
            (answer 200 [(''message'', Str (if truthy_str password then ''Stream password updated successfully.''
               else ''Stream password disabled.''))]))))"

definition setChatPermission :: "'w rest_env \<Rightarrow> http_req \<Rightarrow> ('w, http_reply) act" where
  "setChatPermission E q = or_refuse 400
     (with_stream E (rq_id q) (\<lambda>stream. let s = room_key stream; mode = get_field (rq_body q) ''mode'' in
        if Str (rq_user q) \<noteq> get_field stream ''userId'' then refuse 403 ''Only the host can set chat permission settings.''
        else if mode \<notin> set (map Str chat_modes) then
          refuse 400 ''Invalid mode. Allowed modes: EVERYONE, ALL_MUTED, FOLLOWERS_ONLY, ADMINS_ONLY''
        else bindA (setChatPermissionService (re_redis E) (re_room E) s mode) (\<lambda>updatedMode.
          thenA (re_say E s ''chat_permission_changed'' (Obj [(''streamId'', Str s), (''chatPermissionMode'', Str updatedMode)]))
            (answer 200 [(''chatPermissionMode'', Str updatedMode),
              (''message'', Str (''Chat permission mode updated to '' @ updatedMode @ ''.''))]))))"

end
