(* ===== verification/Rest_Social.thy ===== *)
theory Rest_Social
  imports Rest_Rooms
begin

text \<open>
  The other REST endpoints of \<open>routes/controllers/controllerLive.js\<close>: gifts and their announcements, the global message, the
  wallet, following, frames and reports, settings and rankings, heartbeats, the failure reports of the app, the rejoin token.
  What \<open>setImmediate\<close> defers runs where it is written, and its error is dropped. Ids and messages in a body are texts.
\<close>

section \<open>Gifts\<close>

text \<open>\<open>a \<ge> b\<close> on numbers; a comparison with \<open>NaN\<close> is false.\<close>

definition js_ge :: "jsval \<Rightarrow> jsval \<Rightarrow> bool" where
  "js_ge a b = (case (js_Number a, js_Number b) of (Some x, Some y) \<Rightarrow> y \<le> x | _ \<Rightarrow> False)"

abbreviation re_gift :: "'w rest_env \<Rightarrow> 'w gift_env" where "re_gift E \<equiv> so_gift (re_sock E)"

definition getGifts :: "'w rest_env \<Rightarrow> http_req \<Rightarrow> ('w, http_reply) act" where
  "getGifts E q = or_refuse 500
     (let page = int_or (get_field (rq_query q) ''page'') 1 in
      bindA (getActiveGiftCatalogPage (re_redis E) (gv_gifts (re_gift E)) page) (\<lambda>r.
        bindA (dot r ''total'') (\<lambda>n.
        answer 200 [(''data'', get_field r ''data''), (''pagination'', Obj [(''page'', NumI page), (''limit'', NumI GIFT_CATALOG_PAGE_SIZE),
          (''total'', n), (''totalPages'', case js_Number n of None \<Rightarrow> NonFinite | Some x \<Rightarrow> NumI \<lceil>x / of_int GIFT_CATALOG_PAGE_SIZE\<rceil>)])])))"

definition payload_of :: "jsval \<Rightarrow> jsval" where "payload_of result = get_field result ''socketPayload''"
definition room_of :: "jsval \<Rightarrow> string" where "room_of result = js_String (get_field (payload_of result) ''streamId'')"

definition user_channel :: "jsval \<Rightarrow> string" where "user_channel u = ''user:'' @ js_String u"

text \<open>To the room, the same room by its row id, the receiver and the sender; then the win.\<close>

definition emitGiftSentBundle :: "'w rest_env \<Rightarrow> string \<Rightarrow> string \<Rightarrow> jsval \<Rightarrow> ('w, unit) act" where
  "emitGiftSentBundle E streamDbId userId result =
     (let p = payload_of result in
      thenA (re_say E (room_of result) ''GIFT_SENT'' p)
      (thenA (whenA (streamDbId \<noteq> [] \<and> Str streamDbId \<noteq> get_field p ''streamId'') (re_say E streamDbId ''GIFT_SENT'' p))
      (thenA (whenA (truthy (get_field p ''receiverId'')) (re_say E (user_channel (get_field p ''receiverId'')) ''GIFT_SENT'' p))
      (thenA (whenA (userId \<noteq> []) (re_say E (''user:'' @ userId) ''GIFT_SENT'' p))
        (whenA (truthy (get_field result ''luckyWin'')) (re_say E (room_of result) ''LUCKY_GIFT_WIN'' (get_field result ''luckyWin'')))))))"

definition host_name :: "'w rest_env \<Rightarrow> string \<Rightarrow> ('w, jsval \<times> jsval) act" where
  "host_name E streamDbId =
     bindA (find_stream E streamDbId) (\<lambda>streamObj.
       if truthy streamObj then
         bindA (getHostProfileService (re_view E) (js_str (get_field streamObj ''userId''))) (\<lambda>hostUser.
           ret (js_or (get_field hostUser ''username'') (Str ''Host''), js_or (get_field hostUser ''avatarUrl'') Null))
       else ret (Str ''Host'', Null))"

definition gallery_completed :: "'w rest_env \<Rightarrow> string \<Rightarrow> jsval \<Rightarrow> ('w, unit) act" where
  "gallery_completed E streamDbId result =
     quietly (bindA (host_name E streamDbId) (\<lambda>(hostName, hostAvatarUrl).
       broadcastGlobalMessage (re_sock E) ''GLOBAL_ANNOUNCEMENT'' (Obj [(''type'', Str ''GALLERY_COMPLETED''),
         (''data'', Obj [(''hostName'', hostName), (''hostAvatarUrl'', hostAvatarUrl),
            (''message'', Str (js_String hostName @ '' completed the Gift Collection.'')),
            (''streamId'', get_field (payload_of result) ''streamId'')])])))"

definition tell_gallery :: "'w rest_env \<Rightarrow> string \<Rightarrow> jsval \<Rightarrow> ('w, unit) act" where
  "tell_gallery E streamDbId result =
     (let progressData = js_or (get_field result ''galleryProgress'') (js_or (get_field result ''galleryProgressUpdate'')
            (get_field (payload_of result) ''galleryProgress'')) in
      whenA (truthy progressData)
        (thenA (re_say E (room_of result) ''GIFT_GALLERY_UPDATE'' progressData)
        (thenA (re_say E (room_of result) ''GIFT_GALLERY_PROGRESS_UPDATED'' progressData)
          (whenA (truthy (get_field progressData ''isCompleted'') \<or>
                  js_ge (get_field progressData ''currentProgress'') (get_field progressData ''totalTarget''))
            (gallery_completed E streamDbId result)))))"

text \<open>\<open>Number(payload.totalCost || Number(gift.coinCost || 0) * Number(count || 1))\<close>; \<open>None\<close> is \<open>NaN\<close>.\<close>

definition gift_unit :: "jsval \<Rightarrow> rat option" where
  "gift_unit result = js_Number (js_or (get_field (get_field (payload_of result) ''gift'') ''coinCost'') (NumI 0))"

definition gift_product :: "jsval \<Rightarrow> jsval" where
  "gift_product result = (case (gift_unit result, js_Number (js_or (get_field (payload_of result) ''count'') (NumI 1))) of
     (Some a, Some b) \<Rightarrow> Num (a * b) | _ \<Rightarrow> NonFinite)"

definition total_gift_cost :: "jsval \<Rightarrow> rat option" where
  "total_gift_cost result = js_Number (js_or (get_field (payload_of result) ''totalCost'') (gift_product result))"

definition at_least :: "rat \<Rightarrow> rat option \<Rightarrow> bool" where
  "at_least n v = (case v of None \<Rightarrow> False | Some x \<Rightarrow> n \<le> x)"

definition big_gift :: "jsval \<Rightarrow> bool" where
  "big_gift result \<longleftrightarrow> at_least 300000 (total_gift_cost result) \<or> at_least 300000 (gift_unit result)"

definition high_value :: "jsval \<Rightarrow> jsval \<Rightarrow> jsval \<Rightarrow> jsval \<Rightarrow> jsval \<Rightarrow> jsval \<Rightarrow> jsval \<Rightarrow> jsval" where
  "high_value senderName senderAvatarUrl giftName giftImage coinCost hostName streamId = Obj [(''type'', Str ''HIGH_VALUE_GIFT''),
     (''data'', Obj [(''senderName'', senderName), (''senderAvatarUrl'', senderAvatarUrl), (''giftName'', giftName),
        (''giftDisplayImageUrl'', giftImage), (''coinCost'', coinCost), (''hostName'', hostName), (''streamId'', streamId)])]"

definition announce_gift :: "'w rest_env \<Rightarrow> string \<Rightarrow> jsval \<Rightarrow> ('w, unit) act" where
  "announce_gift E streamDbId result =
     (let p = payload_of result; g = get_field p ''gift'' in
      quietly (bindA (host_name E streamDbId) (\<lambda>(hostName, _).
        let data = high_value (get_field p ''senderName'') (js_or (get_field p ''senderAvatarUrl'') Null) (get_field g ''name'')
              (js_or (get_field g ''displayImageUrl'') Null)
              (case total_gift_cost result of None \<Rightarrow> NonFinite | Some c \<Rightarrow> Num c) hostName (get_field p ''streamId'') in
        thenA (broadcastGlobalMessage (re_sock E) ''GLOBAL_ANNOUNCEMENT'' data)
        (thenA (broadcastGlobalMessage (re_sock E) ''GLOBAL_GIFT_ANNOUNCEMENT'' data)
          (broadcastGlobalMessage (re_sock E) ''global_announcement'' data)))))"

definition unless_undefined :: "jsval \<Rightarrow> jsval \<Rightarrow> jsval" where
  "unless_undefined v d = (if v = Undefined then d else as_number v)"

definition gift_answer :: "jsval \<Rightarrow> (string \<times> jsval) list" where
  "gift_answer result =
     (let f = get_field result in
      [(''message'', Str ''Gift sent successfully''),
       (''data'', Obj [(''newBalance'', if f ''newBalance'' \<noteq> Undefined then f ''newBalance'' else unless_undefined (f ''senderRemainingCoins'') Null),
          (''currentLevel'', f ''currentLevel''), (''isLevelUp'', f ''isLevelUp''), (''isLucky'', js_or (f ''isLucky'') (JBool False)),
          (''sendValue'', unless_undefined (f ''totalCost'') (gift_product result)),
          (''returnValue'', unless_undefined (f ''totalRewardCoins'')
             (if truthy (f ''luckyWin'') then as_number (get_field (f ''luckyWin'') ''rewardCoins'') else NumI 0)),
          (''transactionId'', js_or (f ''transactionId'') Null), (''category'', js_or (f ''category'') Null)])])"

text \<open>What a failed send answers.\<close>

definition gift_error :: "exn \<Rightarrow> int \<times> string option \<times> string" where
  "gift_error e =
     (let m = str_or (Some (e_message e)) ''Failed to send gift'' in
      if has_text m ''Insufficient coin'' then (402, Some ''INSUFFICIENT_COINS'', m)
      else if has_text m ''frozen'' then (403, Some ''PERSONAL_COINS_FROZEN'', m)
      else if e_code e = Some ''P2002'' then (409, Some ''IDEM_CONFLICT'', ''Duplicate gift send (already processed)'')
      else (400, None, m))"

definition refuse_gift :: "exn \<Rightarrow> ('w, http_reply) act" where
  "refuse_gift e = (case gift_error e of (st, code, m) \<Rightarrow>
     ret \<lparr>hr_status = st, hr_body = Obj ((''success'', JBool False) #
       (case code of None \<Rightarrow> [] | Some c \<Rightarrow> [(''code'', Str c)]) @ [(''message'', Str m)])\<rparr>)"

text \<open>The events of a sent gift; those of a lucky one are told once for each transaction.\<close>

definition tell_gift :: "'w rest_env \<Rightarrow> string \<Rightarrow> string \<Rightarrow> jsval \<Rightarrow> ('w, unit) act" where
  "tell_gift E streamDbId userId result =
     (let p = payload_of result; bundle = emitGiftSentBundle E streamDbId userId result in
      thenA (if truthy (get_field result ''isLucky'')
             then thenA (withLuckyEmitOnce (re_redis E) (so_emitFlag (re_sock E)) (js_str (get_field result ''transactionId'')) bundle) (ret ())
             else bundle)
      (thenA (whenA (truthy (get_field p ''receiverId''))
               (re_say E (user_channel (get_field p ''receiverId'')) ''wallet_updated'' (Obj [(''currency'', Str ''POINT''),
                  (''pointsAwarded'', get_field p ''pointsAwarded''), (''newTotalPoints'', get_field p ''receiverTotalPoints'')])))
      (thenA (tell_gallery E streamDbId result)
        (whenA (big_gift result) (announce_gift E streamDbId result)))))"

definition sendStreamGift :: "'w rest_env \<Rightarrow> http_req \<Rightarrow> ('w, http_reply) act" where
  "sendStreamGift E q = catchA
     (let b = get_field (rq_body q) in
      if \<not> truthy (b ''giftId'') then refuse 400 ''giftId is required.''
      else bindA (sendStreamGiftService (re_gift E) (rq_id q) (rq_user q) (js_String (b ''giftId'')) (js_str (b ''targetUserId''))
                    (if b ''count'' = Undefined then NumI 1 else b ''count'') (js_str (b ''clientTxId''))) (\<lambda>result.
        thenA (tell_gift E (rq_id q) (rq_user q) result) (answer 200 (gift_answer result))))
     refuse_gift"

definition announce_lucky :: "'w rest_env \<Rightarrow> string \<Rightarrow> string \<Rightarrow> jsval \<Rightarrow> ('w, unit) act" where
  "announce_lucky E streamId senderId result =
     quietly (bindA (host_name E streamId) (\<lambda>(hostName, _).
       bindA (getHostProfileService (re_view E) (Some senderId)) (\<lambda>senderUser. let g = get_field result ''gift'' in
         broadcastGlobalMessage (re_sock E) ''GLOBAL_ANNOUNCEMENT''
           (high_value (js_or (get_field senderUser ''username'') (Str ''Gifter'')) (js_or (get_field senderUser ''avatarUrl'') Null)
             (js_or (get_field g ''name'') (Str ''Lucky Gift'')) (js_or (get_field g ''displayImageUrl'') Null)
             (get_field result ''totalCost'') hostName (Str streamId)))))"

definition sendLuckyGift :: "'w rest_env \<Rightarrow> http_req \<Rightarrow> ('w, http_reply) act" where
  "sendLuckyGift E q = or_refuse 400
     (let b = get_field (rq_body q) in
      if \<not> truthy (b ''receiverId'') \<or> \<not> truthy (b ''streamId'') \<or> \<not> truthy (b ''giftId'')
      then refuse 400 ''receiverId, streamId, and giftId are required.''
      else bindA (sendLuckyGiftService (gv_lucky (re_gift E))
          \<lparr>lq_senderId = rq_user q, lq_receiverId = Some (js_String (b ''receiverId'')), lq_streamId = Some (js_String (b ''streamId'')),
           lq_giftId = js_String (b ''giftId''), lq_comboCount = js_or (b ''comboCount'') (NumI 1),
           lq_clientTxId = (if truthy (b ''clientTxId'') then Some (js_String (b ''clientTxId'')) else None),
           lq_preFetchedGift = Null\<rparr>) (\<lambda>result.
        thenA (whenA (truthy result \<and> js_ge (get_field result ''totalCost'') (NumI 300000))
                 (announce_lucky E (js_String (b ''streamId'')) (rq_user q) result))
          (ret \<lparr>hr_status = 200, hr_body = result\<rparr>)))"

section \<open>The global message and the wallet\<close>

text \<open>The stream id of a room that is found, else the id as it came.\<close>

definition resolved_room :: "'w rest_env \<Rightarrow> jsval \<Rightarrow> ('w, string option) act" where
  "resolved_room E streamId =
     (if \<not> truthy streamId then ret None
      else bindA (find_stream E (js_String streamId)) (\<lambda>stream.
        ret (if truthy stream then js_str (get_field stream ''streamId'') else Some (js_String streamId))))"

definition chat_copy :: "'w rest_env \<Rightarrow> string \<Rightarrow> string \<Rightarrow> jsval \<Rightarrow> ('w, unit) act" where
  "chat_copy E s userId m =
     quietly (bindA (sendMessageService (so_chat (re_sock E))
        \<lparr>mq_streamId = s, mq_senderId = userId, mq_message = m, mq_replyToMessageId = Null, mq_replyToUserId = Null,
         mq_replyToUsername = Null, mq_messageType = Str ''CHAT'', mq_isLuckyGift = JBool False, mq_giftId = Null, mq_giftCount = NumI 1\<rparr>)
      (\<lambda>chatMsg. re_say E s ''new_message'' chatMsg))"

definition sendGlobalMessage :: "'w rest_env \<Rightarrow> http_req \<Rightarrow> ('w, http_reply) act" where
  "sendGlobalMessage E q = or_refuse 400
     (let b = get_field (rq_body q); m = b ''message'' in
      if \<not> truthy m then refuse 400 ''message is required.''
      else bindA (resolved_room E (b ''streamId'')) (\<lambda>resolvedStreamId.
        bindA (sendGlobalMessageService (re_gift E) (re_iso E) (rq_user q) (Some (js_String m)) resolvedStreamId None) (\<lambda>result.
        thenA (broadcastGlobalMessage (re_sock E) ''GLOBAL_MESSAGE_SENT'' (payload_of result))
        (thenA (whenA (truthy_str resolvedStreamId) (chat_copy E (the resolvedStreamId) (rq_user q) m))
          (answer 200 [(''message'', Str ''Global message sent successfully''),
            (''data'', Obj [(''newBalance'', get_field result ''newBalance'')])])))))"

definition getWalletBalance :: "'w rest_env \<Rightarrow> http_req \<Rightarrow> ('w, http_reply) act" where
  "getWalletBalance E q = or_refuse 500
     (bindA (readCoinBalanceCacheForDisplay (re_redis E) (rq_user q)) (\<lambda>cachedCoins.
        case cachedCoins of
          Some c \<Rightarrow> answer 200 [(''balance'', NumI c)]
        | None \<Rightarrow> bindA (coins_of (so_calls (re_sock E)) (rq_user q)) (\<lambda>coins.
            thenA (writeCoinBalanceCache (re_redis E) (rq_user q) coins) (answer 200 [(''balance'', NumI coins)]))))"

section \<open>Following\<close>

definition tell_followed :: "'w rest_env \<Rightarrow> string \<Rightarrow> string \<Rightarrow> string \<Rightarrow> jsval \<Rightarrow> ('w, unit) act" where
  "tell_followed E streamId followerId target result =
     quietly
       (bindA (so_user (re_sock E) followerId) (\<lambda>followerUser.
        bindA (find_stream E streamId) (\<lambda>streamObj.
        bindA (if is_stealth followerUser
               then bindA (so_alias (re_sock E) streamId followerId) (\<lambda>a. ret (js_or a (Str ''Mystery User'')))
               else ret (get_field result ''followerName'')) (\<lambda>name.
        let isHostFollowed = truthy streamObj \<and> get_field streamObj ''userId'' = Str target;
            said = (if isHostFollowed then js_String name @ '' followed the host.''
                    else js_String name @ '' followed '' @ js_String (get_field result ''followingName'') @ ''.'') in
        bindA (sendMessageService (so_chat (re_sock E)) (system_message streamId said (unless_hidden followerUser followerId) name)) (\<lambda>systemMessage.
        thenA (re_say E streamId ''USER_FOLLOWED'' (Obj
            [(''followerId'', if is_stealth followerUser then Null else get_field result ''followerId''), (''followerName'', name),
             (''followingId'', get_field result ''followingId''), (''followingName'', get_field result ''followingName''),
             (''isMystery'', JBool (is_stealth followerUser))]))
          (re_say E streamId ''new_message'' systemMessage))))))"

definition followUser :: "'w rest_env \<Rightarrow> http_req \<Rightarrow> ('w, http_reply) act" where
  "followUser E q = or_refuse 400
     (let streamId = get_field (rq_body q) ''streamId'' in
      bindA (followUserService (re_social E) (rq_user q) (rq_id q)) (\<lambda>result.
        thenA (whenA (truthy streamId) (tell_followed E (js_String streamId) (rq_user q) (rq_id q) result))
          (answer 200 [(''message'', Str ''Followed successfully''), (''data'', result)])))"

definition unfollowUser :: "'w rest_env \<Rightarrow> http_req \<Rightarrow> ('w, http_reply) act" where
  "unfollowUser E q = or_refuse 400
     (let streamId = get_field (rq_body q) ''streamId'' in
      thenA (unfollowUserService (re_social E) (rq_user q) (rq_id q))
      (thenA (whenA (truthy streamId) (re_say E (js_String streamId) ''USER_UNFOLLOWED''
          (Obj [(''followerId'', Str (rq_user q)), (''followingId'', Str (rq_id q))])))
        (answer 200 [(''message'', Str ''Unfollowed successfully'')])))"

definition checkFollowStatus :: "'w rest_env \<Rightarrow> http_req \<Rightarrow> ('w, http_reply) act" where
  "checkFollowStatus E q = or_refuse 400
     (bindA (checkFollowStatusService (re_social E) (rq_user q) (rq_id q)) (\<lambda>b. answer 200 [(''isFollowing'', JBool b)]))"

section \<open>Frames, reports, settings, rankings\<close>

definition verifyStreamFrame :: "'w rest_env \<Rightarrow> http_req \<Rightarrow> ('w, http_reply) act" where
  "verifyStreamFrame E q = or_refuse 400
     (let base64Image = get_field (rq_body q) ''base64Image'' in
      if \<not> truthy base64Image then refuse 400 ''Missing base64Image.''
      else bindA (verifyStreamFrameService (re_moderation E) (rq_id q) (js_String base64Image)) (\<lambda>result. answer 200 [(''data'', result)]))"

definition getMyLivePhoto :: "'w rest_env \<Rightarrow> http_req \<Rightarrow> ('w, http_reply) act" where
  "getMyLivePhoto E q = or_refuse 400
     (bindA (re_livePhoto E (rq_user q)) (\<lambda>livePhoto. answer 200 [(''imageUrl'', js_or (get_field livePhoto ''imageUrl'') Null)]))"

definition getGiftGalleryTargets :: "'w rest_env \<Rightarrow> http_req \<Rightarrow> ('w, http_reply) act" where
  "getGiftGalleryTargets E q = or_refuse 400
     (bindA (getGiftGalleryTargetsService (re_redis E) (gv_gallery (re_gift E))
        (js_String (js_or (get_field (rq_query q) ''hostId'') (Str (rq_user q))))) (\<lambda>data. answer 200 [(''data'', data)]))"

definition reportFakeLive :: "'w rest_env \<Rightarrow> http_req \<Rightarrow> ('w, http_reply) act" where
  "reportFakeLive E q = or_refuse 400
     (bindA (reportFakeLiveService (re_moderation E) (rq_id q) (rq_user q) (js_str (get_field (rq_body q) ''base64Image''))
        (get_field (rq_body q) ''additionalInfo'')) (\<lambda>result. ret \<lparr>hr_status = 200, hr_body = result\<rparr>))"

definition getUserEffectSettings :: "'w rest_env \<Rightarrow> http_req \<Rightarrow> ('w, http_reply) act" where
  "getUserEffectSettings E q = or_refuse 400
     (bindA (getUserEffectSettingsService (re_moderation E) (rq_user q)) (\<lambda>data. answer 200 [(''data'', data)]))"

definition updateUserEffectSettings :: "'w rest_env \<Rightarrow> http_req \<Rightarrow> ('w, http_reply) act" where
  "updateUserEffectSettings E q = or_refuse 400
     (bindA (updateUserEffectSettingsService (re_moderation E) (rq_user q) (rq_body q)) (\<lambda>data.
        answer 200 [(''message'', Str ''Effect settings updated successfully''), (''data'', data)]))"

definition getFansRanking :: "'w rest_env \<Rightarrow> http_req \<Rightarrow> ('w, http_reply) act" where
  "getFansRanking E q = or_refuse 400
     (if rq_id q = [] then refuse 400 ''hostId is required.''
      else bindA (getFansRankingService (re_view E) (rq_id q) (js_str (get_field (rq_query q) ''period'')) (Some (rq_user q))) (\<lambda>data.
        answer 200 (entries data)))"

definition getHostStats :: "'w rest_env \<Rightarrow> http_req \<Rightarrow> ('w, http_reply) act" where
  "getHostStats E q = or_refuse 400
     (let hostUserId = js_or (get_field (rq_query q) ''hostId'') (Str (rq_user q)) in
      if \<not> truthy hostUserId then refuse 400 ''hostId parameter or authentication token required.''
      else bindA (getHostStatsService (re_stats E) (re_now E) (js_String hostUserId)
             (Some (js_String (js_or (get_field (rq_query q) ''period'') (Str ''today''))))) (\<lambda>data. answer 200 [(''data'', data)]))"

section \<open>Heartbeats and reports of the app\<close>

definition streamHeartbeat :: "'w rest_env \<Rightarrow> http_req \<Rightarrow> ('w, http_reply) act" where
  "streamHeartbeat E q = or_refuse 500
     (let streamId = js_or (get_field (rq_body q) ''streamId'') (get_field (rq_query q) ''streamId'') in
      if \<not> truthy streamId then refuse 400 ''streamId is required.''
      else bindA (recordStreamHeartbeat (so_hb (re_sock E)) (js_String streamId) (Some (rq_user q))) (\<lambda>timestamp.
        answer 200 [(''timestamp'', case timestamp of None \<Rightarrow> Null | Some t \<Rightarrow> NumI t), (''message'', Str ''Stream heartbeat recorded.'')]))"

definition finite_or_undefined :: "jsval \<Rightarrow> jsval" where
  "finite_or_undefined v = (case js_Number v of None \<Rightarrow> Undefined | Some n \<Rightarrow> Num n)"

definition text_or :: "jsval \<Rightarrow> jsval \<Rightarrow> jsval" where
  "text_or v d = (case v of Str s \<Rightarrow> v | _ \<Rightarrow> d)"

definition connect_failure :: "http_req \<Rightarrow> (string \<times> jsval) list" where
  "connect_failure q =
     (let b = get_field (rq_body q); r = b ''role'' in
      [(''kind'', Str ''CLIENT_CONNECT_FAILED''), (''source'', Str ''app''), (''role'', r), (''userId'', Str (rq_user q)),
       (''streamId'', text_or (b ''streamId'') Null), (''code'', text_or (b ''errorType'') (Str ''CONNECT_FAILED'')),
       (''message'', text_or (b ''errorMessage'') Null),
       (''meta'', Obj [(''role'', r), (''phase'', b ''phase''), (''attempt'', finite_or_undefined (b ''attempt'')),
          (''durationMs'', finite_or_undefined (b ''durationMs'')), (''network'', b ''network''), (''platform'', b ''platform''),
          (''osVersion'', b ''osVersion''), (''deviceModel'', b ''deviceModel''),
          (''appVersion'', js_or (b ''appVersion'') (get_field (rq_headers q) ''x-app-version'')), (''sdkVersion'', b ''sdkVersion''),
          (''livekitUrl'', b ''livekitUrl'')])])"

definition reportConnectFailure :: "'w rest_env \<Rightarrow> http_req \<Rightarrow> ('w, http_reply) act" where
  "reportConnectFailure E q =
     (if get_field (rq_body q) ''role'' \<notin> {Str ''host'', Str ''viewer''} then refuse 400 ''role must be 'host' or 'viewer'.''
      else bindA (allowClientFailureReport (re_log E) (Some (rq_user q)) 1 CLIENT_REPORT_RATE_PER_MIN []) (\<lambda>allowed.
        if \<not> allowed then refuse 429 ''Too many failure reports; try again later.''
        else thenA (log_failure E (connect_failure q)) (answer 202 [])))"

text \<open>How many events were taken, how many were known, and which were rejected and why.\<close>

fun take_events :: "'w rest_env \<Rightarrow> http_req \<Rightarrow> nat \<Rightarrow> jsval list \<Rightarrow> ('w, nat \<times> nat \<times> jsval list) act" where
  "take_events E q i [] = ret (0, 0, [])"
| "take_events E q i (e # es) =
     bindA (askA (fl_now (re_log E))) (\<lambda>now.
     bindA (recordClientEvent (re_log E) (Some (rq_user q)) e (get_field (rq_headers q) ''x-app-version'') now) (\<lambda>r.
     bindA (take_events E q (Suc i) es) (\<lambda>(a, d, rs).
       ret (if r = ''ok'' then (Suc a, d, rs) else if r = ''duplicate'' then (a, Suc d, rs)
            else (a, d, Obj [(''index'', NumI (int i)), (''reason'', Str r)] # rs)))))"

definition reportClientEvents :: "'w rest_env \<Rightarrow> http_req \<Rightarrow> ('w, http_reply) act" where
  "reportClientEvents E q =
     (let events = arr_of (get_field (rq_body q) ''events'') in
      if events = [] then refuse 400 ''events must be a non-empty array.''
      else if CLIENT_EVENTS_MAX_BATCH < length events then
        refuse 400 (''At most '' @ int_str (int CLIENT_EVENTS_MAX_BATCH) @ '' events per request.'')
      else bindA (allowClientFailureReport (re_log E) (Some (rq_user q)) (int (length events)) CLIENT_EVENTS_RATE_PER_MIN ''events'') (\<lambda>allowed.
        if \<not> allowed then refuse 429 ''Too many events; try again later.''
        else bindA (take_events E q 0 events) (\<lambda>(a, d, rs).
          answer 202 [(''accepted'', NumI (int a)), (''duplicates'', NumI (int d)), (''rejected'', Arr rs)])))"

section \<open>The rejoin token\<close>

definition stream_of_row :: "jsval \<Rightarrow> live_stream option" where
  "stream_of_row v = (if truthy v then Some \<lparr>ls_id = js_String (get_field v ''id''), ls_streamId = room_key v, ls_userId = host_of v,
     ls_isLive = truthy (get_field v ''isLive'')\<rparr> else None)"

definition rejoin_deps_of :: "'w rest_env \<Rightarrow> 'w rejoin_deps" where
  "rejoin_deps_of E =
     \<lparr>j_getStream = (\<lambda>i. bindA (find_stream E i) (\<lambda>v. ret (stream_of_row v))),
      j_isKicked = isUserKickedService (re_redis E),
      j_hasJoined = (\<lambda>s u. ifOpen (re_redis E) (r_sismember (re_redis E) (key ''stream:history'' s) u) (ret False)),
      j_hostToken = re_hostToken E, j_viewerToken = re_viewerToken E\<rparr>"

definition rejoin_message :: "string \<Rightarrow> string" where
  "rejoin_message code =
     (if code = ''STREAM_NOT_FOUND'' then ''Stream not found'' else if code = ''STREAM_ENDED'' then ''Stream has ended''
      else if code = ''KICKED'' then ''You have been kicked from this stream'' else ''Join the stream first'')"

definition role_text :: "role \<Rightarrow> string" where
  "role_text r = (case r of Host \<Rightarrow> ''host'' | Viewer \<Rightarrow> ''viewer'')"

definition getRejoinToken :: "'w rest_env \<Rightarrow> http_req \<Rightarrow> ('w, http_reply) act" where
  "getRejoinToken E q = or_refuse 400
     (bindA (rejoinTokenService (rejoin_deps_of E) (rq_id q) (rq_user q)) (\<lambda>r.
        case r of
          rejoin_reply.Refused st code \<Rightarrow> ret \<lparr>hr_status = st, hr_body = Obj [(''success'', JBool False), (''code'', Str code),
            (''message'', Str (rejoin_message code))]\<rparr>
        | rejoin_reply.Token rl token s i \<Rightarrow> answer 200 [(''token'', Str token), (''role'', Str (role_text rl)), (''streamId'', Str s), (''id'', Str i)]))"

end
