(* ===== verification/Rest_Safety.thy ===== *)
theory Rest_Safety
  imports Rest_Social
begin

text \<open>
  What the REST endpoints of the rooms guarantee: who gets into a room, who may be kicked and by whom, who may change a room,
  and how a batch of reports is answered. The last section evaluates them on concrete tables.
\<close>

section \<open>Answers\<close>

lemma refuse_run [act_simps]: "refuse st m w = (Inr \<lparr>hr_status = st, hr_body = Obj [(''success'', JBool False), (''message'', Str m)]\<rparr>, w)"
  by (simp add: refuse_def ret_run)

lemma answer_run [act_simps]: "answer st fs w = (Inr \<lparr>hr_status = st, hr_body = Obj ((''success'', JBool True) # fs)\<rparr>, w)"
  by (simp add: answer_def ret_run)

lemma log_failure_Inr: "\<exists>w1. log_failure E fs w = (Inr (), w1)"
proof -
  obtain e w1 where "recordLiveFailure (re_log E) (Obj fs) w = (Inr e, w1)"
    using recordLiveFailure_never_throws [of "re_log E" "Obj fs"] by (rule never_throwsE)
  then show ?thesis by (simp add: log_failure_def thenA_run ret_run)
qed

lemma join_failed_Inr: "\<exists>w1. join_failed E q i st code m w = (Inr (), w1)"
  unfolding join_failed_def by (rule log_failure_Inr)

text \<open>A handler that answers anything but its error status has not failed.\<close>

lemma or_refuse_done:
  assumes "or_refuse st m w = (Inr r, w1)" and "hr_status r \<noteq> st"
  shows "m w = (Inr r, w1)"
  using assms by (auto simp: or_refuse_def catchA_run refuse_run split: prod.splits sum.splits)

lemma with_stream_run:
  assumes "find_stream E i w = (Inr stream, w1)" and "truthy stream"
  shows "with_stream E i f w = f stream w1"
  using assms by (simp add: with_stream_def bindA_run)

section \<open>Entering a room\<close>

text \<open>What every answer of a handler is like: the last step of a sequence decides.\<close>

definition yields :: "('a \<Rightarrow> bool) \<Rightarrow> ('w, 'a) act \<Rightarrow> bool" where
  "yields P m \<longleftrightarrow> (\<forall>w x w1. m w = (Inr x, w1) \<longrightarrow> P x)"

lemma yieldsD: "yields P m \<Longrightarrow> m w = (Inr x, w1) \<Longrightarrow> P x"
  unfolding yields_def by blast

lemma yields_bindA: "(\<And>x. yields P (f x)) \<Longrightarrow> yields P (bindA m f)"
  by (auto simp: yields_def bindA_Inr)

lemma yields_thenA: "yields P n \<Longrightarrow> yields P (thenA m n)"
  by (auto simp: yields_def thenA_Inr)

lemma yields_answer: "P \<lparr>hr_status = st, hr_body = Obj ((''success'', JBool True) # fs)\<rparr> \<Longrightarrow> yields P (answer st fs)"
  by (simp add: yields_def answer_run)

lemma yields_prod: "(\<And>a b. yields P (f a b)) \<Longrightarrow> yields P (case x of (a, b) \<Rightarrow> f a b)"
  by (simp add: split_beta)

lemmas yields_steps = yields_bindA yields_thenA yields_prod

text \<open>What happens inside does not depend on the id the room was reached by.\<close>

lemma enter_room_id: "enter_room E (q\<lparr>rq_id := i\<rparr>) stream p = enter_room E q stream p"
proof -
  have "show_room E (q\<lparr>rq_id := i\<rparr>) stream p = show_room E q stream p" by (rule ext) (simp add: show_room_def cong: if_cong)
  then show ?thesis by (simp add: enter_room_def)
qed

text \<open>Whoever enters is given a viewer token of the room.\<close>

lemma enter_room_token:
  assumes "enter_room E q stream p w = (Inr r, w1)"
  obtains token w2 where "re_viewerToken E (room_key stream) (rq_user q) w = (Inr token, w2)" "hr_status r = 200"
    "get_field (hr_body r) ''token'' = Str token"
proof -
  obtain token w2 where t: "re_viewerToken E (room_key stream) (rq_user q) w = (Inr token, w2)"
    and s: "show_room E q stream p token w2 = (Inr r, w1)"
    using assms unfolding enter_room_def bindA_Inr by (elim exE conjE)
  have "yields (\<lambda>m. hr_status m = 200 \<and> get_field (hr_body m) ''token'' = Str token) (show_room E q stream p token)"
    unfolding show_room_def Let_def by (intro yields_steps yields_answer) (simp add: get_field_def)
  from yieldsD [OF this s] t that show thesis by simp
qed

text \<open>The strings of Redis as the endpoints read them.\<close>

locale room_requests = redis_kv "re_redis E" kv clk up
  for E :: "'w rest_env" and kv clk up +
  assumes ttl: "up w \<Longrightarrow> \<exists>n. r_ttl (re_redis E) k w = (Inr n, w)"
begin

lemma cached_row:
  assumes "up w" and "kv w (key ''stream:info'' i) = Some (Json stream, e)" and "i \<noteq> []"
  shows "find_stream E i w = (Inr stream, w)"
  using assms by (simp add: find_stream_def getLiveStreamService_def Let_def truthy_str_def bindA_run ifOpen_run up_open get
      truthy_text_def JSON_parse_def ret_run)

lemma cached_privacy:
  assumes "up w" and "kv w (key ''user:privacy'' u) = Some (Json pc, e)" and "u \<noteq> []"
    and "truthy pc" and "get_field pc ''publicId'' \<noteq> Undefined"
  shows "getUserPrivacyService (re_redis E) user (Some u) w = (Inr pc, w)"
  using assms by (simp add: getUserPrivacyService_def Let_def truthy_str_def bindA_run ifOpen_run up_open get cached_card_def
      truthy_text_def JSON_parse_def ret_run)

text \<open>The mark of a kick, and the password, are looked up under the id of the request.\<close>

lemma kick_mark:
  assumes "up w"
  obtains t where "isUserKickedService (re_redis E) i u w = (Inr t, w)"
    "t = None \<longleftrightarrow> \<not> truthy_text (map_option fst (kv w (kicked_key i u)))"
proof -
  obtain n where "r_ttl (re_redis E) (kicked_key i u) w = (Inr n, w)" using ttl [OF assms] by blast
  then have "isUserKickedService (re_redis E) i u w =
      (Inr (if truthy_text (map_option fst (kv w (kicked_key i u))) then Some (if 0 < n then n else 0) else None), w)"
    by (simp add: isUserKickedService_def bindA_run get [OF assms] ret_run)
  then show thesis by (rule that) simp
qed

lemma join_reads:
  assumes "up w" and "kv w (key ''stream:info'' i) = Some (Json stream, e)" and "i \<noteq> []"
    and "kv w (key ''user:privacy'' (rq_user q)) = Some (Json pc, e')" and "rq_user q \<noteq> []"
    and "truthy pc" and "get_field pc ''publicId'' \<noteq> Undefined"
  shows "\<exists>t. (t = None \<longleftrightarrow> \<not> truthy_text (map_option fst (kv w (kicked_key i (rq_user q))))) \<and>
    (\<forall>r w1. join_with E (q\<lparr>rq_id := i\<rparr>) stream t (map_option fst (kv w (key ''stream:password'' i))) pc w = (Inr r, w1) \<longrightarrow>
       joinLiveStream E (q\<lparr>rq_id := i\<rparr>) w = (Inr r, w1))"
proof -
  obtain t where t: "isUserKickedService (re_redis E) i (rq_user q) w = (Inr t, w)"
    "t = None \<longleftrightarrow> \<not> truthy_text (map_option fst (kv w (kicked_key i (rq_user q))))"
    by (rule kick_mark [OF assms(1)])
  then show ?thesis
    by (intro exI [of _ t])
      (simp add: joinLiveStream_def catchA_run bindA_run cached_row [OF assms(1-3)] getStreamPasswordService_def get [OF assms(1)]
        cached_privacy [OF assms(1,4-7)])
qed

end

section \<open>Who gets in\<close>

lemma join_done:
  assumes "joinLiveStream E q w = (Inr r, w')" and "hr_status r = 200"
  obtains stream w1 t w2 password w3 privacy w4 where "find_stream E (rq_id q) w = (Inr stream, w1)"
    "isUserKickedService (re_redis E) (rq_id q) (rq_user q) w1 = (Inr t, w2)"
    "getStreamPasswordService (re_redis E) (rq_id q) w2 = (Inr password, w3)"
    "getUserPrivacyService (re_redis E) (ch_user (so_chat (re_sock E))) (Some (rq_user q)) w3 = (Inr privacy, w4)"
    "join_with E q stream t password privacy w4 = (Inr r, w')"
proof -
  have "yields (\<lambda>m. hr_status m \<noteq> 200) (thenA (join_failed E q (Str (rq_id q)) 400 ''JOIN_ERROR'' (e_message e)) (refuse 400 (e_message e)))" for e
    by (intro yields_steps) (simp add: yields_def refuse_run)
  then have h: "thenA (join_failed E q (Str (rq_id q)) 400 ''JOIN_ERROR'' (e_message e)) (refuse 400 (e_message e)) v \<noteq> (Inr r, w')" for e v
    using assms(2) unfolding yields_def by blast
  have "bindA (find_stream E (rq_id q)) (\<lambda>stream. bindA (isUserKickedService (re_redis E) (rq_id q) (rq_user q)) (\<lambda>t.
      bindA (getStreamPasswordService (re_redis E) (rq_id q)) (\<lambda>password.
      bindA (getUserPrivacyService (re_redis E) (ch_user (so_chat (re_sock E))) (Some (rq_user q)))
        (join_with E q stream t password)))) w = (Inr r, w')" (is "?m w = _")
    using assms(1) h by (simp only: joinLiveStream_def catchA_run split: prod.splits sum.splits) auto
  then show thesis unfolding bindA_Inr using that by blast
qed

lemma refusal_status:
  "join_refusal q stream t password = Some (st, code, m, i, said) \<Longrightarrow> st \<noteq> 200"
  by (auto simp: join_refusal_def Let_def split: if_splits option.splits)

text \<open>
  C22: A join answers with a token only for a stream that was found and is live, to a user without a kick mark, who is the host, or gave
  the password, or needs none; the mark and the password are those of the id in the URL.
\<close>

theorem join_admission:
  assumes "joinLiveStream E q w = (Inr r, w')" and "hr_status r = 200"
  shows "\<exists>stream w1 w2 password w3 privacy w4. find_stream E (rq_id q) w = (Inr stream, w1) \<and> truthy stream \<and>
    truthy (get_field stream ''isLive'') \<and> isUserKickedService (re_redis E) (rq_id q) (rq_user q) w1 = (Inr None, w2) \<and>
    getStreamPasswordService (re_redis E) (rq_id q) w2 = (Inr password, w3) \<and>
    (Str (rq_user q) = get_field stream ''userId'' \<or> \<not> truthy_text password \<or>
       get_field (rq_body q) ''password'' = Str (text_str (the password))) \<and>
    getUserPrivacyService (re_redis E) (ch_user (so_chat (re_sock E))) (Some (rq_user q)) w3 = (Inr privacy, w4) \<and>
    (\<exists>token w5. re_viewerToken E (room_key stream) (rq_user q) w4 = (Inr token, w5) \<and> get_field (hr_body r) ''token'' = Str token)"
proof -
  obtain stream w1 t w2 password w3 privacy w4 where d: "find_stream E (rq_id q) w = (Inr stream, w1)"
    "isUserKickedService (re_redis E) (rq_id q) (rq_user q) w1 = (Inr t, w2)"
    "getStreamPasswordService (re_redis E) (rq_id q) w2 = (Inr password, w3)"
    "getUserPrivacyService (re_redis E) (ch_user (so_chat (re_sock E))) (Some (rq_user q)) w3 = (Inr privacy, w4)"
    and j: "join_with E q stream t password privacy w4 = (Inr r, w')"
    by (rule join_done [OF assms])
  have none: "join_refusal q stream t password = None"
  proof (rule ccontr)
    assume "join_refusal q stream t password \<noteq> None"
    then obtain st code m i said where f: "join_refusal q stream t password = Some (st, code, m, i, said)"
      by (cases "join_refusal q stream t password") auto
    have "yields (\<lambda>x. hr_status x \<noteq> 200) (join_with E q stream t password privacy)"
      by (simp add: join_with_def f) (intro yields_thenA, simp add: yields_def refuse_run refusal_status [OF f])
    from yieldsD [OF this j] show False using assms(2) by simp
  qed
  then have e: "enter_room E q stream privacy w4 = (Inr r, w')" using j by (simp add: join_with_def)
  have c: "truthy stream" "truthy (get_field stream ''isLive'')" "t = None"
    "Str (rq_user q) = get_field stream ''userId'' \<or> \<not> truthy_text password \<or>
       get_field (rq_body q) ''password'' = Str (text_str (the password))"
    using none by (auto simp: join_refusal_def Let_def split: if_splits option.splits)
  obtain token w5 where "re_viewerToken E (room_key stream) (rq_user q) w4 = (Inr token, w5)" "get_field (hr_body r) ''token'' = Str token"
    by (rule enter_room_token [OF e])
  with d c show ?thesis by (intro exI conjI) (assumption | simp)+
qed


section \<open>Who may be kicked, who may change a room\<close>

text \<open>What a kick needs, by the roles and levels of the two.\<close>

definition may_kick :: "string \<Rightarrow> (string \<Rightarrow> bool) \<Rightarrow> (string \<Rightarrow> bool) \<Rightarrow> (string \<Rightarrow> rat) \<Rightarrow> string \<Rightarrow> string \<Rightarrow> bool" where
  "may_kick host admin vip wealth u t \<longleftrightarrow>
     (u = host \<or> admin u) \<and> t \<noteq> host \<and> \<not> vip t \<and> (u \<noteq> host \<longrightarrow> \<not> admin t \<and> wealth t \<le> wealth u)"

definition is_vip :: "jsval \<Rightarrow> bool" where
  "is_vip u \<longleftrightarrow> truthy u \<and> truthy (get_field u ''vipSubscriptionActive'')"

text \<open>The tables as one request sees them: its reads change nothing.\<close>

locale room_roles =
  fixes E :: "'w rest_env" and stream :: jsval and host :: string and w :: 'w and admin :: "string \<Rightarrow> bool" and user lv :: "string \<Rightarrow> jsval"
    and i :: string
  assumes row: "find_stream E i w = (Inr stream, w)" and found: "truthy stream" and host: "get_field stream ''userId'' = Str host"
    and admin: "isStreamAdminService (re_redis E) (re_room E) (Some (room_key stream)) (Some u) None w = (Inr (admin u), w)"
    and user: "so_user (re_sock E) u w = (Inr (user u), w)"
    and lv: "re_userLevel E u w = (Inr (lv u), w)"
begin

lemma kick_check:
  "admin_kick_check E (room_key stream) u t w =
    (Inr (if admin t then Some ''Admins cannot kick other admins.''
      else if wealth_of (lv u) < wealth_of (lv t) then
        Some (''You cannot kick this user. Their wealth level ('' @ js_String (Num (wealth_of (lv t))) @ '') is higher than yours ('' @
             js_String (Num (wealth_of (lv u))) @ '').'') else None), w)"
  by (simp add: admin_kick_check_def bindA_run admin lv ret_run)

lemma kick_exact:
  assumes "rq_id q = i" and "get_field (rq_body q) ''targetUserId'' = Str t" and "t \<noteq> []"
  shows "if may_kick host admin (is_vip \<circ> user) (wealth_of \<circ> lv) (rq_user q) t
    then kickUser E q w = or_refuse 400 (kick_and_tell E (room_key stream) (rq_user q) t) w
    else \<exists>m. kickUser E q w = (Inr m, w) \<and> hr_status m \<in> {400, 403}"
proof -
  have t: "truthy (Str t)" "js_String (Str t) = t" using assms(3) by (simp_all add: truthy_def js_String_def)
  have "kickUser E q w = or_refuse 400 (\<lambda>w.
      if \<not> (rq_user q = host) \<and> \<not> admin (rq_user q) then refuse 403 ''Unauthorized: only the host or an admin can kick users.'' w
      else if t = host then refuse 400 ''Host cannot be kicked from their own stream.'' w
      else if is_vip (user t) then refuse 403 ''VIP users cannot be kicked from live streams.'' w
      else if rq_user q = host then kick_and_tell E (room_key stream) (rq_user q) t w
      else bindA (admin_kick_check E (room_key stream) (rq_user q) t) (\<lambda>no. case no of
          Some m \<Rightarrow> refuse 403 m | None \<Rightarrow> kick_and_tell E (room_key stream) (rq_user q) t) w) w"
    by (simp add: kickUser_def or_refuse_def catchA_run with_stream_def bindA_run assms(1,2) row found Let_def host admin t user is_vip_def ret_run
        cong: if_cong)
  then show ?thesis
    by (simp add: may_kick_def or_refuse_def catchA_run bindA_run kick_check refuse_run split: if_splits)
qed

lemma changes_refused:
  assumes "rq_id q = i" and "rq_user q \<noteq> host" and "f \<in> {toggleAdminStatus, setRoomPassword, setChatPermission}"
  shows "\<exists>m. f E q w = (Inr m, w) \<and> hr_status m = 403"
proof -
  have "Str (rq_user q) \<noteq> get_field stream ''userId''" using assms(2) host by simp
  then show ?thesis
    using assms(1,3) row found
    by (auto simp: toggleAdminStatus_def setRoomPassword_def setChatPermission_def or_refuse_def catchA_run with_stream_def bindA_run
        refuse_run)
qed

end


text \<open>
  C25: Only the host appoints admins, sets the password or the chat mode of his room: anybody else, admins too, is answered 403, and
  nothing changes.
\<close>

theorem settings_need_host:
  assumes "room_roles E stream host w admin user lv (rq_id q)" and "rq_user q \<noteq> host"
  shows "\<forall>f \<in> {toggleAdminStatus, setRoomPassword, setChatPermission}. \<exists>m. f E q w = (Inr m, w) \<and> hr_status m = 403"
  by (intro ballI room_roles.changes_refused [OF assms(1) refl assms(2)])

section \<open>Batches of reports\<close>

text \<open>Each event is counted once, and a rejected one is named by its place.\<close>

lemma take_events_counts:
  "\<exists>a d rs w1. take_events E q i es w = (Inr (a, d, rs), w1) \<and> a + d + length rs = length es \<and>
    (\<forall>r \<in> set rs. \<exists>j. i \<le> j \<and> j < i + length es \<and> get_field r ''index'' = NumI (int j))"
proof (induction es arbitrary: i w)
  case Nil
  then show ?case by (simp add: ret_run)
next
  case (Cons e es)
  have never: "never_throws (recordClientEvent (re_log E) u e h t)" for u h t
    unfolding recordClientEvent_def first_seen_def Let_def
    by (auto split: option.split intro!: never_throws_bindA never_throws_if never_throws_thenA recordLiveFailure_never_throws
        never_throws_ifOpen never_throws_catchA)
  let ?m = "recordClientEvent (re_log E) (Some (rq_user q)) e (get_field (rq_headers q) ''x-app-version'') (fl_now (re_log E) w) w"
  obtain r w0 where r: "?m = (Inr r, w0)" by (rule never_throwsE [OF never])
  obtain a d rs w1 where IH: "take_events E q (Suc i) es w0 = (Inr (a, d, rs), w1)" "a + d + length rs = length es"
    "\<forall>r \<in> set rs. \<exists>j. Suc i \<le> j \<and> j < Suc i + length es \<and> get_field r ''index'' = NumI (int j)"
    using Cons.IH by blast
  have later: "\<forall>r \<in> set rs. \<exists>j. i \<le> j \<and> j < i + length (e # es) \<and> get_field r ''index'' = NumI (int j)"
    using IH(3) by (auto dest!: bspec)
  let ?x = "Obj [(''index'', NumI (int i)), (''reason'', Str r)]"
  have here: "get_field ?x ''index'' = NumI (int i)" by (simp add: get_field_def)
  show ?case
    using r IH(1,2) later here by (auto simp: bindA_run askA_run ret_run intro: exI [of _ i])
qed


section \<open>A concrete room\<close>

text \<open>The room \<open>s\<close>, row \<open>d\<close>, of \<open>h\<close>; \<open>a\<close> is its admin, \<open>b\<close> was kicked, \<open>m\<close> is a VIP who hides.\<close>

definition rest_row :: jsval where
  "rest_row = Obj [(''id'', Str ''d''), (''streamId'', Str ''s''), (''userId'', Str ''h''), (''isLive'', JBool True)]"

definition rest_user :: "string \<Rightarrow> jsval" where
  "rest_user u = Obj [(''id'', Str u), (''username'', Str u), (''publicId'', NumI 7), (''privacyMysteryLive'', JBool (u = ''m'')),
     (''vipSubscriptionActive'', JBool (u = ''m''))]"

definition rest_card :: jsval where
  "rest_card = Obj [(''username'', Str ''b''), (''isStealth'', JBool False), (''publicId'', NumI 7)]"

definition rest_log :: "sock_mem log_env" where
  "rest_log = \<lparr>fl_redis = mem_redis, fl_now = m_clk, fl_uuid = ret ''u'', fl_create = (\<lambda>_. ret ()), fl_deleteBefore = (\<lambda>_. ret 0),
     fl_users = (\<lambda>_. ret []), fl_parseDate = (\<lambda>_. None)\<rparr>"

definition rest_view :: "sock_mem view_env" where
  "rest_view = \<lparr>vw_calls = sock_calls, vw_room = mem_room_db, vw_local = (\<lambda>t. (1970, 0, t div 86400000 + 1)),
     vw_midnight = (\<lambda>y m d. (d - 1) * 86400000), vw_topGifters = (\<lambda>_ _ _. ret []), vw_giftsOf = (\<lambda>_ _ _. ret (0, None)),
     vw_above = (\<lambda>_ _ _. ret 0), vw_giftsFrom = (\<lambda>_ _ _. ret []), vw_guardians = (\<lambda>_ _ _. ret []),
     vw_users = (\<lambda>ids. ret (map rest_user ids)), vw_wealthLevels = (\<lambda>_. ret []), vw_levels = (\<lambda>_. ret []),
     vw_hmget = (\<lambda>_ ids. ret (map (\<lambda>_. None) ids)), vw_hmset = (\<lambda>_ _ _. ret ()), vw_place = (\<lambda>_. ret Null), vw_places = (\<lambda>_. ret []),
     vw_following = (\<lambda>_. ret []), vw_live = (\<lambda>_ _ _. ret []), vw_countLive = (\<lambda>_. ret 0), vw_liveOfCountry = (\<lambda>_ _ _. ret ([], 0)),
     vw_streams = (\<lambda>_. ret [])\<rparr>"

definition rest_moderation :: "sock_mem moderation_env" where
  "rest_moderation = \<lparr>mv_aws = \<lparr>aw_env = (\<lambda>_. None), aw_now = m_clk, aw_breaker = (\<lambda>_. breaker0), aw_putBreaker = (\<lambda>_ w. w),
       aw_detect = (\<lambda>_. ret []), aw_put = (\<lambda>_ _ _. ret ())\<rparr>,
     mv_redis = mem_redis, mv_life = idle_life_env, mv_db = idle_life_db, mv_logFrame = (\<lambda>_. ret ()), mv_endRow = (\<lambda>_ _ _ _. ret ()),
     mv_countBans = (\<lambda>_. ret 0), mv_suspend = (\<lambda>_ _. ret ()), mv_createBan = (\<lambda>_ _ _ _ _. ret ()), mv_restrict = (\<lambda>_ _ _ _. ret ()),
     mv_report = (\<lambda>_. ret ''r''), mv_settings = (\<lambda>_. ret Null), mv_createSettings = (\<lambda>_ v. ret v), mv_upsertSettings = (\<lambda>_ fs. ret (Obj fs))\<rparr>"

definition mem_rest :: "sock_mem rest_env" where
  "mem_rest = \<lparr>re_sock = mem_sock\<lparr>so_user := (\<lambda>u. ret (rest_user u))\<rparr>, re_view = rest_view, re_log = rest_log,
     re_stats = \<lparr>sd_user = (\<lambda>_. ret Null), sd_ended = (\<lambda>_ _ _. ret []), sd_lastEnded = (\<lambda>_ _ _. ret Null),
       sd_points = (\<lambda>_ _ _ _. ret 0), sd_followers = (\<lambda>_ _ _ _. ret 0)\<rparr>,
     re_social = social_db.make (\<lambda>u. ret (rest_user u)) (\<lambda>_ _. ret False) (\<lambda>_ _. ret ()) (\<lambda>_ _. ret ()),
     re_moderation = rest_moderation, re_viewerToken = (\<lambda>s u. ret (''viewer '' @ u)), re_inRoom = (\<lambda>_. ret []),
     re_userLevel = (\<lambda>u. ret (Obj [(''wealthLevel'', NumI (if u = ''a'' then 5 else 3))])), re_hosts = (\<lambda>_. ret []),
     re_callSettings = (\<lambda>_. ret []), re_cdn = None, re_hlsSwitch = None, re_startHls = (\<lambda>_. ret None), re_livePhoto = (\<lambda>_. ret Null),
     re_hostToken = (\<lambda>s u. ret (''host '' @ u)), re_iso = (\<lambda>_. []), re_isoDate = js_String\<rparr>"

definition rest0 :: sock_mem where
  "rest0 = (sock0 0)\<lparr>m_s := (\<lambda>k. if k = ''stream:admins:s'' then [''a''] else []),
     m_kv := (\<lambda>k. if k = ''stream:info:s'' \<or> k = ''stream:info:d'' then Some (Json rest_row, None)
       else if k = ''user:privacy:b'' then Some (Json rest_card, None)
       else if k = ''stream:kicked:s:b'' then Some (Raw ''1'', Some 600000) else None)\<rparr>"

definition rest_req :: "string \<Rightarrow> string \<Rightarrow> (string \<times> jsval) list \<Rightarrow> http_req" where
  "rest_req u i b = \<lparr>rq_user = u, rq_id = i, rq_body = Obj b, rq_query = Obj [], rq_headers = Obj []\<rparr>"

lemma mem_rest_sel [simp]: "so_redis (re_sock mem_rest) = mem_redis" "so_room (re_sock mem_rest) = mem_room_db"
  by (simp_all add: mem_rest_def mem_sock_def sock_chat_def sock_admin_def)

interpretation memrest: room_requests mem_rest mem_live m_clk "\<lambda>_. True"
proof (intro room_requests.intro room_requests_axioms.intro)
  show "redis_kv (so_redis (re_sock mem_rest)) mem_live m_clk (\<lambda>_. True)" using mem.redis_kv_axioms by simp
qed (simp add: mem_redis_def)

lemma rest0_live:
  "mem_live rest0 (key ''stream:info'' ''s'') = Some (Json rest_row, None)" "mem_live rest0 (key ''stream:info'' ''d'') = Some (Json rest_row, None)"
  "mem_live rest0 (key ''user:privacy'' ''b'') = Some (Json rest_card, None)"
  "mem_live rest0 (kicked_key ''s'' ''b'') = Some (Raw ''1'', Some 600000)" "mem_live rest0 (kicked_key ''d'' ''b'') = None"
  "mem_live rest0 (key ''stream:password'' ''d'') = None"
  by (simp_all add: mem_live_def rest0_def sock0_def room0_def mem0_def mem.defs room_mem.defs key_def kicked_key_def)

lemma mem_redis_open: "isOpen mem_redis w" "r_sismember mem_redis k x w = (Inr (x \<in> set (m_s w k)), w)"
  by (simp_all add: mem_redis_def)

interpretation memrole: room_roles mem_rest rest_row "''h''" rest0 "\<lambda>u. u = ''a''" rest_user
  "\<lambda>u. Obj [(''wealthLevel'', NumI (if u = ''a'' then 5 else 3))]" "''s''"
proof
  show row: "find_stream mem_rest ''s'' rest0 = (Inr rest_row, rest0)"
    by (rule memrest.cached_row [OF TrueI rest0_live(1)]) simp
  show "truthy rest_row" "get_field rest_row ''userId'' = Str ''h''" by (simp_all add: rest_row_def truthy_def get_field_def)
  fix u
  have k: "room_key rest_row = ''s''" "js_str (get_field rest_row ''userId'') = Some ''h''" "truthy rest_row"
    by (simp_all add: room_key_def rest_row_def get_field_def js_String_def js_str_def truthy_def)
  have m: "m_s rest0 ''stream:admins:s'' = [''a'']" "m_s rest0 ''host:admins:h'' = []" "rm_admins rest0 = []"
    by (simp_all add: rest0_def sock0_def room0_def mem0_def mem.defs room_mem.defs)
  show "isStreamAdminService (re_redis mem_rest) (re_room mem_rest) (Some (room_key rest_row)) (Some u) None rest0 = (Inr (u = ''a''), rest0)"
    using row by (cases "u = []") (simp_all add: isStreamAdminService_def final_host_def find_stream_def in_set_of_def Let_def truthy_str_def k m
        bindA_run catchA_run ret_run ifOpen_run mem_redis_open mem_room_db_def key_def)
  show "so_user (re_sock mem_rest) u rest0 = (Inr (rest_user u), rest0)" by (simp add: mem_rest_def ret_run)
  show "re_userLevel mem_rest u rest0 = (Inr (Obj [(''wealthLevel'', NumI (if u = ''a'' then 5 else 3))]), rest0)"
    by (simp add: mem_rest_def ret_run)
qed

section \<open>Witnesses\<close>

lemma run_done: "\<not> isl (fst (m w)) \<Longrightarrow> \<exists>r w1. m w = (Inr r, w1) \<and> projr (fst (m w)) = r"
  by (cases "m w"; cases "fst (m w)") auto

lemma rest_entered:
  "\<not> isl (fst (enter_room mem_rest (rest_req ''b'' ''s'' []) rest_row rest_card rest0))"
  by code_simp

lemma rest_joined:
  "\<exists>r w1. joinLiveStream mem_rest (rest_req ''b'' ''d'' []) rest0 = (Inr r, w1) \<and> hr_status r = 200"
proof -
  let ?q = "rest_req ''b'' ''s'' []"
  obtain r w1 where r: "enter_room mem_rest ?q rest_row rest_card rest0 = (Inr r, w1)"
    using rest_entered run_done [of "enter_room mem_rest ?q rest_row rest_card" rest0] by blast
  have u: "rq_user ?q = ''b''" and q: "?q\<lparr>rq_id := ''d''\<rparr> = rest_req ''b'' ''d'' []" by (simp_all add: rest_req_def)
  have "\<exists>t. (t = None \<longleftrightarrow> \<not> truthy_text (map_option fst (mem_live rest0 (kicked_key ''d'' (rq_user ?q))))) \<and>
    (\<forall>r w1. join_with mem_rest (?q\<lparr>rq_id := ''d''\<rparr>) rest_row t (map_option fst (mem_live rest0 (key ''stream:password'' ''d''))) rest_card rest0
        = (Inr r, w1) \<longrightarrow> joinLiveStream mem_rest (?q\<lparr>rq_id := ''d''\<rparr>) rest0 = (Inr r, w1))"
    by (rule memrest.join_reads) (simp_all add: u rest0_live, simp_all add: rest_card_def truthy_def get_field_def)
  moreover have "join_refusal (rest_req ''b'' ''d'' []) rest_row None None = None"
    by (simp add: join_refusal_def rest_row_def truthy_def get_field_def truthy_text_def)
  ultimately have "joinLiveStream mem_rest (rest_req ''b'' ''d'' []) rest0 = (Inr r, w1)"
    using r enter_room_id [where E = mem_rest and q = ?q and i = "''d''"] by (auto simp: u q rest0_live truthy_text_def join_with_def)
  moreover have "hr_status r = 200" by (rule enter_room_token [OF r])
  ultimately show ?thesis by blast
qed

theorem join_admission_witness:
  "\<exists>r w1 stream. joinLiveStream mem_rest (rest_req ''b'' ''d'' []) rest0 = (Inr r, w1) \<and> hr_status r = 200 \<and>
     fst (find_stream mem_rest ''d'' rest0) = Inr stream \<and> truthy (get_field stream ''isLive'') \<and>
     (\<exists>token. get_field (hr_body r) ''token'' = Str token)"
proof -
  obtain r w1 where r: "joinLiveStream mem_rest (rest_req ''b'' ''d'' []) rest0 = (Inr r, w1)" "hr_status r = 200"
    using rest_joined by blast
  have "rq_id (rest_req ''b'' ''d'' []) = ''d''" by (simp add: rest_req_def)
  with join_admission [OF r] r show ?thesis by auto
qed



theorem settings_need_host_witness:
  "\<exists>m. setRoomPassword mem_rest (rest_req ''a'' ''s'' [(''password'', Str ''x'')]) rest0 = (Inr m, rest0) \<and> hr_status m = 403"
proof -
  let ?q = "rest_req ''a'' ''s'' [(''password'', Str ''x'')]"
  have "room_roles mem_rest rest_row ''h'' rest0 (\<lambda>u. u = ''a'') rest_user (\<lambda>u. Obj [(''wealthLevel'', NumI (if u = ''a'' then 5 else 3))]) (rq_id ?q)"
    using memrole.room_roles_axioms by (simp add: rest_req_def)
  from settings_need_host [OF this] show ?thesis by (simp add: rest_req_def)
qed

lemma rest_reported:
  "hr_status (projr (fst (reportClientEvents mem_rest (rest_req ''b'' [] [(''events'', Arr [Null, Obj []])]) rest0))) = 202"
  by code_simp


end
