(* ===== verification/Spec2Isabelle.thy ===== *)
theory Spec2Isabelle
  imports JS_Prelude Rate_Limit Event_Guard Redis_Store Cluster Durable_Timers Session_Auth Admin_Auth Ledger_Client Lucky_Gift Stream_Lifecycle Host_Stats Stream_Gift User_Names
    Censor Restrictions Stream_Chat LiveKit_Events Heartbeat Call_Session Call_Safety Call_Billing
    Network_Notice Live_Socket Live_Socket_Safety Async_Utils Live_Status Frame_Moderation
    Viewer_Cards Failure_Log Rest_Rooms Rest_Social Rest_Safety
begin

text \<open>
  Live-server: a Node.js service (express, socket.io) behind live streams with gifts, chat and paid video
  calls. It keeps the state of a stream in Redis, rows in Postgres through Prisma, asks LiveKit for the
  media, and moves money through a ledger service. The sources are under \<open>src/src\<close>; a path below is relative
  to it.

  \<^bold>\<open>How the code is modelled.\<close> An \<open>async\<close> function is an \<open>('w, 'a) act\<close>: a function from a world to an error or a
  value and the next world (\<open>JS_Prelude\<close>), so that every \<open>throw\<close>, early return and swallowed \<open>catch\<close> is a branch. Values
  that cross a border are \<open>jsval\<close>; a number that the code rounds is a rational, a date its milliseconds, a
  database id a string. What is not in the repository is a parameter: the Redis client (record
  \<open>redis\<close> in \<open>Redis_Store\<close>), the tables (records of queries), LiveKit, \<open>fetch\<close>, \<open>jwt.verify\<close>, \<open>Math.random\<close>, the clock. What the code
  relies on of Redis is stated as locales (\<open>redis_kv\<close>, \<open>redis_deadlines\<close>, \<open>redis_collections\<close> and their extensions), which
  \<open>Redis_Store\<close> interprets on an executable store; the properties name the law they use and their witnesses
  run on that store. \<open>Promise.all\<close> and the promises nobody waits for run in the order they are written.

  \<^bold>\<open>Theories.\<close>
  \<^item> \<open>JS_Prelude\<close>: JavaScript values, the effect type, its rules (\<open>act_simps\<close>, \<open>bindA_run\<close>, \<open>act_Inr\<close>).
  \<^item> \<open>Rate_Limit\<close>: \<open>utils/tokenBucket.js\<close>, \<open>middlewares/restRateLimit.js\<close>. The buckets never grant more than the
    capacity and the refill of the elapsed time.
  \<^item> \<open>Event_Guard\<close>: \<open>socket/eventGuard.js\<close>, what of a socket event reaches a handler.
  \<^item> \<open>Redis_Store\<close>: the Redis client, its laws, the executable store.
  \<^item> \<open>Cluster\<close>, \<open>Durable_Timers\<close>: \<open>services/cluster.service.js\<close>. Two nodes never lead at once; a deadline is
    delivered at most once, and again never after a cancel.
  \<^item> \<open>Session_Auth\<close>, \<open>Admin_Auth\<close>: \<open>utils/jwtRotation.js\<close>, \<open>services/session.service.js\<close>, \<open>socket/socketAuth.js\<close>,
    \<open>middlewares/authMiddleware.js\<close>, \<open>services/rejoinToken.service.js\<close>, \<open>middlewares/adminAuthMiddleware.js\<close>: who a
    request or a socket acts as.
  \<^item> \<open>Ledger_Client\<close>: \<open>services/ledgerClient.js\<close>, one signed request, its retries and its time budget.
  \<^item> \<open>Lucky_Reward\<close>, \<open>Admin_Settings\<close>, \<open>Gift_Info\<close>, \<open>Lucky_Gift\<close>: the odds and the draw, host shares and call price,
    the catalogue, and the send of a lucky gift with its reserve pool and its idempotence.
  \<^item> \<open>Stream_Room\<close>, \<open>Stream_Lifecycle\<close>, \<open>Host_Stats\<close>, \<open>Stream_Gift\<close>: \<open>routes/service/serviceLive.js\<close>: admins, kicks,
    passwords, speakers and the camera clock; going live and ending; statistics; gifts, gallery, follows.
  \<^item> \<open>User_Names\<close>, \<open>Censor\<close>, \<open>Restrictions\<close>, \<open>Stream_Chat\<close>: privacy cards and aliases, \<open>utils/censor.js\<close>,
    \<open>routes/service/serviceAdmin.js\<close> and \<open>routes/service/serviceMessage.js\<close>.
  \<^item> \<open>LiveKit_Events\<close>, \<open>Heartbeat\<close>: webhook records and presence, and the monitor that ends dead streams.
  \<^item> \<open>Call_Session\<close>, \<open>Call_Safety\<close>, \<open>Call_Billing\<close>: \<open>modules/videoCall/service.js\<close>. A paid call from its locks to its
    end; ends that race as interleaved steps (\<open>ends\<close>), with at most one winner; the minutes asked of the ledger; the
    slots that bound how many calls are billed at once.
  \<^item> \<open>Async_Utils\<close>: \<open>utils/forEachLimit.js\<close> and \<open>utils/circuitBreaker.js\<close> as step relations over overlapping calls: every item once,
    one trial at a time.
  \<^item> \<open>Live_Status\<close>: \<open>services/liveHostStatus.service.js\<close>, \<open>utils/redisScan.js\<close>, \<open>services/walletBalance.service.js\<close>. The reconciler of
    the presence markers refines \<open>apply_plan\<close> and converges in four passes.
  \<^item> \<open>Network_Notice\<close>: \<open>services/networkNotice.service.js\<close>, \<open>utils/ownershipCheck.js\<close>, \<open>routes/service/roomPublicId.js\<close>. A
    listener hears exactly the changes of a network state.
  \<^item> \<open>Live_Socket\<close>, \<open>Live_Socket_Safety\<close>: \<open>routes/service/socket-live-service.js\<close>, every socket event of a room, one
    definition each; the rights of the host and the admins, seats and mutes, the grace of a lost host, hidden viewers.
  \<^item> \<open>Frame_Moderation\<close>: \<open>modules/videoCall/aws.service.js\<close>, \<open>config/moderation.js\<close> and the frame checks of
    \<open>routes/service/serviceLive.js\<close>: what a flagged frame does to a stream and its host, reports, effect settings.
  \<^item> \<open>Viewer_Cards\<close>: the fans ranking, the cached cards of the viewers, the host profile, the list of live streams
    (\<open>routes/service/serviceLive.js\<close>, \<open>routes/service/liveHlsMode.js\<close>). A room shows its viewers in order, each once.
  \<^item> \<open>Failure_Log\<close>: \<open>services/liveFailureLog.service.js\<close>. Whatever is reported, what is kept is typed and bounded.
  \<^item> \<open>Rest_Rooms\<close>, \<open>Rest_Social\<close>, \<open>Rest_Safety\<close>: \<open>routes/controllers/controllerLive.js\<close> and \<open>validations/validationLive.js\<close>, every
    REST endpoint of the streams over the services of the other theories; who gets into a room, who may kick whom, who may change a
    room, and how a batch of reports is answered.

  \<^bold>\<open>Bounds and fuel.\<close> No definition needs fuel: the loops of the source are over lists or over a retry
  index and are structural recursions, or functions with a measure (\<open>split_b\<close>, the ledger's retries).

  \<^bold>\<open>Not modelled.\<close> Log lines, counters and their windows (\<open>services/traffic.service.js\<close>); express and socket.io themselves, the
  configuration and the glue that starts the server; the controllers of the admin routes and of the video calls, which parse requests for
  the modelled services; the agency tiers, whose core is SQL and which nothing here calls; ffmpeg and the egress of LiveKit
  (\<open>routes/service/serviceHlsEgress.js\<close>); the HTML pages and the operator scripts. Concurrency inside one node is
  modelled where the source has an answer to it (the claim of an end, the lock, the deadline), as sequences of
  atomic steps; elsewhere a function runs without interleaving.
\<close>

section \<open>Properties across components\<close>

text \<open>
  The chat of a stream in followers-only mode is closed to its own host: the chat gate asks for a follow
  of the host by the host, and following does not let a user follow himself.
\<close>

theorem followers_only_locks_out_host:
  assumes "rd_get_field (ch_room C) s ''userId'' w = (Inr stream, w1)" and "get_field stream ''userId'' = Str h"
    and "\<not> is_nullish stream"
    and "isStreamAdminService (ch_redis C) (ch_room C) (Some s) (Some h) None w1 = (Inr a, w2)"
    and "ch_follows C h h w2 = (Inr False, w3)"
  shows "chat_mode_gate C s h ''FOLLOWERS_ONLY'' w = (Inl (Error ''Only followers of the host are allowed to send messages.''), w3) \<and>
    followUserService db h h w4 = (Inl (Error ''You cannot follow yourself.''), w4)"
  using assms by (simp add: js_String_def chat_mode_gate_def followUserService_def bindA_run dot_def Let_def act_simps)

theorem followers_only_locks_out_host_witness:
  "\<exists>w3. chat_mode_gate mem_chat ''s'' ''h'' ''FOLLOWERS_ONLY'' (admin0 0) =
      (Inl (Error ''Only followers of the host are allowed to send messages.''), w3)"
proof -
  have s: "rd_get_field (ch_room mem_chat) ''s'' ''userId'' (admin0 0) =
      (Inr (Obj [(''userId'', Str ''h''), (''chatPermissionMode'', Str ''EVERYONE'')]), admin0 0)"
    by (simp add: mem_chat_def ret_def)
  have "isl (fst (isStreamAdminService (ch_redis mem_chat) (ch_room mem_chat) (Some ''s'') (Some ''h'') None (admin0 0))) = False"
    by code_simp
  then obtain a w2 where a: "isStreamAdminService (ch_redis mem_chat) (ch_room mem_chat) (Some ''s'') (Some ''h'') None (admin0 0) = (Inr a, w2)"
    by (metis eq_fst_iff isl_def sum.exhaust)
  have f: "ch_follows mem_chat ''h'' ''h'' w2 = (Inr False, w2)" by (simp add: mem_chat_def ret_def)
  have g: "get_field (Obj [(''userId'', Str ''h''), (''chatPermissionMode'', Str ''EVERYONE'')]) ''userId'' = Str ''h''"
    "\<not> is_nullish (Obj [(''userId'', Str ''h''), (''chatPermissionMode'', Str ''EVERYONE'')])"
    by (simp_all add: get_field_def is_nullish_def)
  show ?thesis by (rule exI, rule conjunct1 [OF followers_only_locks_out_host [OF s g a f]])
qed

end
